(* ===== verification/Mesh_Prelude.thy ===== *)
theory Mesh_Prelude
  imports Main "HOL-Library.Word" "HOL-Library.Monad_Syntax"
begin

text \<open>
  Shared vocabulary of the development: the machine types of the C code, the error
  codes of \<^verbatim>\<open>common/meshx_errno.h\<close>, bounded memory reads and writes
  (\<^verbatim>\<open>memcpy\<close> on a buffer of known size, where running over the end is the value
  \<^verbatim>\<open>None\<close>), the byte-order macros of \<^verbatim>\<open>platform/meshx_endianness.h\<close>,
  the address macros of \<^verbatim>\<open>mesh/inc/meshx_common.h\<close> and the environment the
  stack draws random numbers and memory from.
\<close>

unbundle bit_operations_syntax

section \<open>Machine types\<close>

type_synonym u8 = "8 word"
type_synonym u16 = "16 word"
type_synonym u32 = "32 word"
type_synonym u64 = "64 word"
type_synonym bytes = "8 word list"

named_theorems mem_simps "reads and writes of bounded buffers"
named_theorems byte_simps "byte order and byte-level encodings"

section \<open>Error codes\<close>

datatype errno =
    MESHX_SUCCESS | MESHX_ERR_FAIL | MESHX_ERR_MEM | MESHX_ERR_INVAL
  | MESHX_ERR_INVAL_ADTYPE | MESHX_ERR_STATE | MESHX_ERR_INVAL_NET_IFACE | MESHX_ERR_BUSY
  | MESHX_ERR_AGAIN | MESHX_ERR_ALREADY | MESHX_ERR_LENGTH | MESHX_ERR_MAX
  | MESHX_ERR_CONNECT | MESHX_ERR_FILTER | MESHX_ERR_DIFF | MESHX_ERR_STOP
  | MESHX_ERR_RESOURCE | MESHX_ERR_TIMING | MESHX_ERR_TIMEOUT | MESHX_ERR_NOT_FOUND
  | MESHX_ERR_KEY | MESHX_ERR_UNEXPECTED

text \<open>Functions of the code return \<^verbatim>\<open>MESHX_SUCCESS\<close> or the negated code; the model
  returns the constructor, and \<^verbatim>\<open>ret_code\<close> is the number the caller sees.\<close>

fun errno_code :: "errno \<Rightarrow> int" where
  "errno_code MESHX_SUCCESS = 0"
| "errno_code MESHX_ERR_FAIL = 1"
| "errno_code MESHX_ERR_MEM = 2"
| "errno_code MESHX_ERR_INVAL = 3"
| "errno_code MESHX_ERR_INVAL_ADTYPE = 4"
| "errno_code MESHX_ERR_STATE = 5"
| "errno_code MESHX_ERR_INVAL_NET_IFACE = 6"
| "errno_code MESHX_ERR_BUSY = 7"
| "errno_code MESHX_ERR_AGAIN = 8"
| "errno_code MESHX_ERR_ALREADY = 9"
| "errno_code MESHX_ERR_LENGTH = 10"
| "errno_code MESHX_ERR_MAX = 11"
| "errno_code MESHX_ERR_CONNECT = 12"
| "errno_code MESHX_ERR_FILTER = 13"
| "errno_code MESHX_ERR_DIFF = 14"
| "errno_code MESHX_ERR_STOP = 15"
| "errno_code MESHX_ERR_RESOURCE = 16"
| "errno_code MESHX_ERR_TIMING = 17"
| "errno_code MESHX_ERR_TIMEOUT = 18"
| "errno_code MESHX_ERR_NOT_FOUND = 19"
| "errno_code MESHX_ERR_KEY = 20"
| "errno_code MESHX_ERR_UNEXPECTED = 21"

definition MESHX_ERR_USER_DEFINED :: int where
  "MESHX_ERR_USER_DEFINED = 22"

definition ret_code :: "errno \<Rightarrow> int" where
  "ret_code e = - errno_code e"

lemma errno_code_inj: "errno_code a = errno_code b \<longleftrightarrow> a = b"
  by (cases a; cases b) simp_all

lemma errno_code_bounds: "0 \<le> errno_code e" "errno_code e < MESHX_ERR_USER_DEFINED"
  by (cases e; simp add: MESHX_ERR_USER_DEFINED_def)+

definition meshx_err_str_table :: "string list" where
  "meshx_err_str_table =
    [''operation success'', ''operation failed'', ''out of memory'', ''invalid argument'',
     ''invalid adtype'', ''invalid state'', ''invalid network interface'',
     ''device or resource busy'', ''try again'', ''operation already done'',
     ''invalid parameter length'', ''reach maximum limitation'',
     ''bearer has not connected to network interface'',
     ''do not pass network interface filter'', ''value is different'', ''stop execution'',
     ''no resource'', ''error timing'', ''timeout'', ''no key found'', ''not found'',
     ''unexpected value'']"

text \<open>\<^verbatim>\<open>None\<close> is the undefined negation of \<^verbatim>\<open>INT32_MIN\<close>.\<close>

definition meshx_errno_to_string :: "int \<Rightarrow> string option" where
  "meshx_errno_to_string err =
    (if err = - (2 ^ 31) then None
     else let err = (if err < 0 then - err else err)
          in Some (if err < MESHX_ERR_USER_DEFINED then meshx_err_str_table ! nat err
                   else ''unknown error code''))"

section \<open>Bounded memory\<close>

definition mem_read :: "'a list \<Rightarrow> nat \<Rightarrow> nat \<Rightarrow> 'a list option" where
  "mem_read b off n = (if off + n \<le> length b then Some (take n (drop off b)) else None)"

definition mem_write :: "'a list \<Rightarrow> nat \<Rightarrow> 'a list \<Rightarrow> 'a list option" where
  "mem_write b off d =
    (if off + length d \<le> length b then Some (take off b @ d @ drop (off + length d) b)
     else None)"

lemma mem_read_length [mem_simps]: "mem_read b off n = Some d \<Longrightarrow> length d = n"
  by (auto simp: mem_read_def split: if_splits)

lemma mem_write_length [mem_simps]: "mem_write b off d = Some b' \<Longrightarrow> length b' = length b"
  by (auto simp: mem_write_def split: if_splits)

lemma mem_write_Some_iff [mem_simps]:
  "(\<exists>b'. mem_write b off d = Some b') \<longleftrightarrow> off + length d \<le> length b"
  by (simp add: mem_write_def)

lemma mem_write_None_iff [mem_simps]:
  "mem_write b off d = None \<longleftrightarrow> length b < off + length d"
  by (auto simp: mem_write_def)

lemma mem_read_None_iff [mem_simps]: "mem_read b off n = None \<longleftrightarrow> length b < off + n"
  by (auto simp: mem_read_def)

lemma mem_read_write_same:
  "mem_write b off d = Some b' \<Longrightarrow> mem_read b' off (length d) = Some d"
  by (auto simp: mem_write_def mem_read_def split: if_splits)

lemma mem_write_nth:
  assumes "mem_write b off d = Some b'" "i < length b"
  shows "b' ! i = (if off \<le> i \<and> i < off + length d then d ! (i - off) else b ! i)"
proof -
  have le: "off + length d \<le> length b" and b': "b' = take off b @ d @ drop (off + length d) b"
    using assms(1) by (auto simp: mem_write_def split: if_splits)
  show ?thesis
  proof (cases "i < off")
    case True
    then show ?thesis using le by (simp add: b' nth_append)
  next
    case False
    then show ?thesis using le assms(2)
      by (auto simp: b' nth_append min_def intro: arg_cong [where f = "(!) b"])
  qed
qed

lemma mem_read_nth:
  "mem_read b off n = Some d \<Longrightarrow> i < n \<Longrightarrow> d ! i = b ! (off + i)"
  by (auto simp: mem_read_def split: if_splits)

lemma mem_read_eqI:
  assumes "off + length d \<le> length b" "\<And>i. i < length d \<Longrightarrow> b ! (off + i) = d ! i"
  shows "mem_read b off (length d) = Some d"
proof -
  have "take (length d) (drop off b) = d"
    using assms by (intro nth_equalityI) auto
  then show ?thesis using assms(1) by (simp add: mem_read_def)
qed

lemma mem_read_write_disjoint:
  assumes "mem_write b off d = Some b'" "off' + n \<le> off \<or> off + length d \<le> off'"
  shows "mem_read b' off' n = mem_read b off' n"
proof (cases "off' + n \<le> length b")
  case True
  have len: "length b' = length b" using assms(1) by (rule mem_write_length)
  have "take n (drop off' b') = take n (drop off' b)"
  proof (rule nth_equalityI)
    show "length (take n (drop off' b')) = length (take n (drop off' b))" by (simp add: len)
    fix i assume i: "i < length (take n (drop off' b'))"
    then have "off' + i < length b" "i < n" using len by auto
    then show "take n (drop off' b') ! i = take n (drop off' b) ! i"
      using assms mem_write_nth [OF assms(1), of "off' + i"] len by auto
  qed
  then show ?thesis using len by (simp add: mem_read_def)
next
  case False
  then show ?thesis using mem_write_length [OF assms(1)] by (simp add: mem_read_def)
qed

text \<open>\<^verbatim>\<open>memset\<close> to zero and a struct of zero bytes.\<close>

abbreviation zeros :: "nat \<Rightarrow> bytes" where
  "zeros n \<equiv> replicate n 0"

lemma xor_cancel_right [simp]:
  fixes x y k :: "'a::len word"
  shows "x XOR k = y XOR k \<longleftrightarrow> x = y"
proof
  assume "x XOR k = y XOR k"
  then have "(x XOR k) XOR k = (y XOR k) XOR k" by simp
  then show "x = y" by (simp add: xor.assoc)
qed simp

lemma xor_zero_iff [simp]: "x XOR y = 0 \<longleftrightarrow> x = y" for x y :: "'a::len word"
  using xor_cancel_right [of x y y] by simp

lemma word_or_zero [simp]: "x OR y = 0 \<longleftrightarrow> x = 0 \<and> y = 0" for x y :: "'a::len word"
  by (auto simp: bit_eq_iff bit_or_iff)

text \<open>The bits of a small word.\<close>

lemma bit_below: "unat w < 2 ^ k \<Longrightarrow> bit w n \<Longrightarrow> n < k" for w :: "'a::len word"
proof (rule ccontr)
  assume "unat w < 2 ^ k" "bit w n" "\<not> n < k"
  then have "unat w < 2 ^ k" "k \<le> n" "bit (unat w) n"
    by (simp_all add: bit_unsigned_iff bit_imp_le_length)
  then show False by (metis bit_take_bit_iff leD take_bit_nat_eq_self)
qed

lemma all_set_update:
  "\<forall>x \<in> set xs. P x \<Longrightarrow> P y \<Longrightarrow> \<forall>x \<in> set (xs[i := y]). P x"
  using set_update_subset_insert [of xs i y] by auto

section \<open>Byte order\<close>

definition MESHX_HOST_TO_BE16 :: "u16 \<Rightarrow> u16" where
  "MESHX_HOST_TO_BE16 d =
    (drop_bit 8 (d AND 0xff00)) OR (push_bit 8 (d AND 0x00ff))"

definition MESHX_HOST_TO_BE32 :: "u32 \<Rightarrow> u32" where
  "MESHX_HOST_TO_BE32 d =
    (drop_bit 24 (d AND 0xff000000)) OR (drop_bit 8 (d AND 0x00ff0000)) OR
    (push_bit 8 (d AND 0x0000ff00)) OR (push_bit 24 (d AND 0x000000ff))"

definition MESHX_BE16_TO_HOST :: "u16 \<Rightarrow> u16" where
  "MESHX_BE16_TO_HOST d =
    (drop_bit 8 (d AND 0xff00)) OR (push_bit 8 (d AND 0x00ff))"

definition MESHX_BE32_TO_HOST :: "u32 \<Rightarrow> u32" where
  "MESHX_BE32_TO_HOST d =
    (drop_bit 24 (d AND 0xff000000)) OR (drop_bit 8 (d AND 0x00ff0000)) OR
    (push_bit 8 (d AND 0x0000ff00)) OR (push_bit 24 (d AND 0x000000ff))"

text \<open>The bytes of an integer object in memory; the host of the code is little endian
  (\<^verbatim>\<open>MESHX_HOST_TO_LE16\<close> is the identity).\<close>

definition mem16 :: "u16 \<Rightarrow> bytes" where
  "mem16 d = [ucast d, ucast (drop_bit 8 d)]"

definition mem32 :: "u32 \<Rightarrow> bytes" where
  "mem32 d = [ucast d, ucast (drop_bit 8 d), ucast (drop_bit 16 d), ucast (drop_bit 24 d)]"

definition of_mem16 :: "bytes \<Rightarrow> u16" where
  "of_mem16 b = (ucast (b ! 0)) OR (push_bit 8 (ucast (b ! 1)))"

definition of_mem32 :: "bytes \<Rightarrow> u32" where
  "of_mem32 b = (ucast (b ! 0)) OR (push_bit 8 (ucast (b ! 1))) OR
    (push_bit 16 (ucast (b ! 2))) OR (push_bit 24 (ucast (b ! 3)))"

definition be16 :: "u16 \<Rightarrow> bytes" where
  "be16 d = mem16 (MESHX_HOST_TO_BE16 d)"

definition be32 :: "u32 \<Rightarrow> bytes" where
  "be32 d = mem32 (MESHX_HOST_TO_BE32 d)"

definition of_be16 :: "bytes \<Rightarrow> u16" where
  "of_be16 b = MESHX_BE16_TO_HOST (of_mem16 b)"

definition of_be32 :: "bytes \<Rightarrow> u32" where
  "of_be32 b = MESHX_BE32_TO_HOST (of_mem32 b)"

lemma length_be [simp, byte_simps]:
  "length (be16 d) = 2" "length (be32 e) = 4" "length (mem16 d) = 2" "length (mem32 e) = 4"
  by (simp_all add: be16_def be32_def mem16_def mem32_def)

lemma masks16: "(0xff::u16) = mask 8" "(0x00ff::u16) = mask 8" "(0xff00::u16) = push_bit 8 (mask 8)"
  by (simp_all add: mask_eq_exp_minus_1 push_bit_eq_mult)

lemma masks32: "(0xff::u32) = mask 8" "(0x0000ff00::u32) = push_bit 8 (mask 8)"
  "(0x00ff0000::u32) = push_bit 16 (mask 8)" "(0xff000000::u32) = push_bit 24 (mask 8)"
  by (simp_all add: mask_eq_exp_minus_1 push_bit_eq_mult)

lemma u8_bit_out [simp]: "8 \<le> n \<Longrightarrow> \<not> bit (w::u8) n"
  using bit_imp_le_length [of w n] by auto

lemma be16_bytes: "be16 d = [ucast (drop_bit 8 d), ucast d]"
  unfolding be16_def mem16_def MESHX_HOST_TO_BE16_def masks16
  by (auto intro!: bit_word_eqI simp: bit_simps )

lemma be32_bytes: "be32 d = [ucast (drop_bit 24 d), ucast (drop_bit 16 d), ucast (drop_bit 8 d), ucast d]"
  unfolding be32_def mem32_def MESHX_HOST_TO_BE32_def masks32
  by (auto intro!: bit_word_eqI simp: bit_simps )

lemma of_be16_bytes: "of_be16 [a, b] = push_bit 8 (ucast a) OR ucast b"
  unfolding of_be16_def of_mem16_def MESHX_BE16_TO_HOST_def masks16
  by (rule bit_word_eqI) (auto simp: bit_simps)
text \<open>The four byte ranges of a 32-bit position.\<close>


lemma split32: "n < (32::nat) \<Longrightarrow> (n < 8 \<Longrightarrow> P) \<Longrightarrow> (8 \<le> n \<Longrightarrow> n < 16 \<Longrightarrow> P) \<Longrightarrow> (16 \<le> n \<Longrightarrow> n < 24 \<Longrightarrow> P) \<Longrightarrow> (24 \<le> n \<Longrightarrow> P) \<Longrightarrow> P"
  by linarith

lemma of_be32_bytes: "of_be32 [a, b, c, d] = push_bit 24 (ucast a) OR push_bit 16 (ucast b) OR push_bit 8 (ucast c) OR ucast d"
  unfolding of_be32_def of_mem32_def MESHX_BE32_TO_HOST_def masks32
  apply (rule bit_word_eqI)
  subgoal for n by (rule split32 [of n]) (auto simp: bit_simps)
  done

lemma be16_roundtrip [simp]: "of_be16 (be16 d) = d"
  unfolding be16_bytes of_be16_bytes
  by (rule bit_word_eqI) (auto simp: bit_simps)

lemma be32_roundtrip [simp]: "of_be32 (be32 d) = d"
  unfolding be32_bytes of_be32_bytes
  apply (rule bit_word_eqI)
  subgoal for n by (rule split32 [of n]) (auto simp: bit_simps)
  done

lemma be16_of_be16_bytes: "be16 (of_be16 [a, b]) = [a, b]"
  unfolding of_be16_bytes be16_bytes by (auto intro!: bit_word_eqI simp: bit_simps)

lemma be32_of_be32_bytes: "be32 (of_be32 [a, b, c, d]) = [a, b, c, d]"
  unfolding of_be32_bytes be32_bytes by (auto intro!: bit_word_eqI simp: bit_simps)

lemma be16_of_be16: "length b = 2 \<Longrightarrow> be16 (of_be16 b) = b"
  by (cases b; cases "tl b") (auto simp: be16_of_be16_bytes)

lemma be32_of_be32: "length b = 4 \<Longrightarrow> be32 (of_be32 b) = b"
  by (cases b; cases "tl b"; cases "tl (tl b)"; cases "tl (tl (tl b))") (auto simp: be32_of_be32_bytes)

section \<open>Addresses\<close>

definition MESHX_ADDRESS_UNASSIGNED :: u16 where
  "MESHX_ADDRESS_UNASSIGNED = 0x0000"

definition MESHX_ADDRESS_IS_UNASSIGNED :: "u16 \<Rightarrow> bool" where
  "MESHX_ADDRESS_IS_UNASSIGNED address \<longleftrightarrow> address = MESHX_ADDRESS_UNASSIGNED"

definition MESHX_ADDRESS_IS_UNICAST :: "u16 \<Rightarrow> bool" where
  "MESHX_ADDRESS_IS_UNICAST address \<longleftrightarrow>
    address AND 0x8000 = 0 \<and> address \<noteq> MESHX_ADDRESS_UNASSIGNED"

definition MESHX_ADDRESS_IS_VIRTUAL :: "u16 \<Rightarrow> bool" where
  "MESHX_ADDRESS_IS_VIRTUAL address \<longleftrightarrow> address AND 0xC000 = 0x8000"

definition MESHX_ADDRESS_IS_GROUP :: "u16 \<Rightarrow> bool" where
  "MESHX_ADDRESS_IS_GROUP address \<longleftrightarrow> address AND 0xC000 = 0xC000"

definition MESHX_ADDRESS_IS_RFU :: "u16 \<Rightarrow> bool" where
  "MESHX_ADDRESS_IS_RFU address \<longleftrightarrow> 0xFF00 \<le> address \<and> address \<le> 0xFFFB"

definition MESHX_ADDRESS_IS_VALID :: "u16 \<Rightarrow> bool" where
  "MESHX_ADDRESS_IS_VALID address \<longleftrightarrow> 0 \<noteq> address \<and> \<not> MESHX_ADDRESS_IS_RFU address"

section \<open>Environment\<close>

text \<open>What the platform decides: the words \<^verbatim>\<open>meshx_rand\<close> returns, and whether the
  n-th allocation and the n-th timer creation succeed.\<close>

record sys_env =
  rnd_src :: "nat \<Rightarrow> u32"
  rnd_pos :: nat
  mem_src :: "nat \<Rightarrow> bool"
  mem_pos :: nat
  tmr_src :: "nat \<Rightarrow> bool"
  tmr_pos :: nat

definition meshx_rand :: "sys_env \<Rightarrow> u32 \<times> sys_env" where
  "meshx_rand e = (rnd_src e (rnd_pos e), e\<lparr>rnd_pos := Suc (rnd_pos e)\<rparr>)"

text \<open>\<^verbatim>\<open>MESHX_ABS(meshx_rand())\<close>: the macro writes its argument twice, so the
  value whose sign is tested and the value returned are two different draws.  The
  negation of the least value wraps as in two's complement.\<close>

definition MESHX_ABS_rand :: "sys_env \<Rightarrow> u32 \<times> sys_env" where
  "MESHX_ABS_rand e =
    (let (a, e) = meshx_rand e; (b, e) = meshx_rand e
     in (if sint a < 0 then - b else b, e))"

definition meshx_malloc_ok :: "sys_env \<Rightarrow> bool \<times> sys_env" where
  "meshx_malloc_ok e = (mem_src e (mem_pos e), e\<lparr>mem_pos := Suc (mem_pos e)\<rparr>)"

definition timer_create_ok :: "sys_env \<Rightarrow> bool \<times> sys_env" where
  "timer_create_ok e = (tmr_src e (tmr_pos e), e\<lparr>tmr_pos := Suc (tmr_pos e)\<rparr>)"

end
