(* ===== verification/Mesh_Lib.thy ===== *)
theory Mesh_Lib
  imports Mesh_Prelude
begin

text \<open>
  The utility routines of \<^verbatim>\<open>common/meshx_lib.c\<close> (decimal and hexadecimal
  conversion, swap), the table-driven checksum of \<^verbatim>\<open>common/meshx_3gpp_crc.c\<close> and
  the bit-field macros of \<^verbatim>\<open>common/meshx_bit_field.h\<close>.  C strings are lists of
  characters without their terminator; a read past the last character sees the
  terminator.  \<^verbatim>\<open>None\<close> is undefined behaviour (signed overflow, a write outside
  the destination buffer).
\<close>

unbundle bit_operations_syntax

section \<open>Decimal conversion\<close>

definition chk32 :: "int \<Rightarrow> int option" where
  "chk32 x = (if - (2 ^ 31) \<le> x \<and> x \<le> 2 ^ 31 - 1 then Some x else None)"

definition is_digit :: "char \<Rightarrow> bool" where
  "is_digit c \<longleftrightarrow> 48 \<le> (of_char c :: int) \<and> (of_char c :: int) \<le> 57"

fun skip_spaces :: "string \<Rightarrow> string option" where
  "skip_spaces [] = Some []"
| "skip_spaces (c # s) =
    (if c = CHR '' '' then (if s = [] then None else skip_spaces s) else Some (c # s))"

text \<open>The value loop; \<^verbatim>\<open>val * 10 + *p - '0'\<close> is evaluated from the left, and each
  intermediate result has to fit the signed 32-bit type.\<close>

fun atoi_loop :: "string \<Rightarrow> int \<Rightarrow> bool \<Rightarrow> (int \<times> bool) option" where
  "atoi_loop [] val valid = Some (val, valid)"
| "atoi_loop (c # s) val valid =
    (if is_digit c
     then do {
       m \<leftarrow> chk32 (val * 10);
       a \<leftarrow> chk32 (m + of_char c);
       v \<leftarrow> chk32 (a - 48);
       atoi_loop s v True
     }
     else Some (val, valid))"

definition meshx_atoi :: "string \<Rightarrow> (int \<times> bool) option" where
  "meshx_atoi pstr =
    (case skip_spaces pstr of
       None \<Rightarrow> Some (0, False)
     | Some p \<Rightarrow>
         (let sign = (p \<noteq> [] \<and> hd p = CHR ''-'');
              p = (if sign then tl p else p)
          in do {
            (val, valid) \<leftarrow> atoi_loop p 0 False;
            Some (if sign then - val else val, valid)
          }))"

text \<open>\<^verbatim>\<open>meshx_itoa\<close>: digits least significant first, then the pairwise swap.  After
  the digit loop \<^verbatim>\<open>val\<close> is zero, so both tests on its sign take their other branch
  and the swap also covers a leading minus sign.\<close>

function itoa_digits :: "int \<Rightarrow> string" where
  "itoa_digits val =
    char_of (val mod 10 + 48) #
    (if val div 10 > 0 then itoa_digits (val div 10) else [])"
  by pat_completeness auto
termination by (relation "measure nat") auto

declare itoa_digits.simps [simp del]

definition itoa_swap :: "nat \<Rightarrow> string \<Rightarrow> string" where
  "itoa_swap count p =
    foldl (\<lambda>p i. p[i := p ! (count * 2 - 1 - i), count * 2 - 1 - i := p ! i]) p [0..<count]"

definition meshx_itoa :: "int \<Rightarrow> string option" where
  "meshx_itoa val =
    (if val = - (2 ^ 31) then None
     else let pstr = (if val < 0 then CHR ''-'' # itoa_digits (- val) else itoa_digits val);
              count = unat (of_nat (length pstr div 2) :: u8)
          in Some (itoa_swap count pstr))"

section \<open>Hexadecimal conversion\<close>

definition char_u8 :: "char \<Rightarrow> u8" where
  "char_u8 c = word_of_nat (of_char c)"

definition hex_digit :: "char \<Rightarrow> u8 option" where
  "hex_digit c =
    (let b = char_u8 c in
     if 97 \<le> b \<and> b \<le> 102 then Some (b - 97 + 10)
     else if 65 \<le> b \<and> b \<le> 70 then Some (b - 65 + 10)
     else if 48 \<le> b \<and> b \<le> 57 then Some (b - 48)
     else None)"

text \<open>The loop body at position \<^verbatim>\<open>i\<close>, then the positions up to \<^verbatim>\<open>len\<close>.\<close>

definition bin2hex_step :: "string \<Rightarrow> nat \<Rightarrow> bytes \<Rightarrow> bytes option option" where
  "bin2hex_step pbin i phex =
    (if length pbin \<le> i then Some None
     else case hex_digit (pbin ! i) of
       None \<Rightarrow> Some None
     | Some d \<Rightarrow>
         if length phex \<le> i div 2 then None
         else let v = (phex ! (i div 2)) OR d;
                  v = (if even i then push_bit 4 v else v)
              in Some (Some (phex[i div 2 := v])))"

fun bin2hex_loop :: "string \<Rightarrow> nat \<Rightarrow> nat \<Rightarrow> bytes \<Rightarrow> bytes option" where
  "bin2hex_loop pbin i 0 phex = Some phex"
| "bin2hex_loop pbin i (Suc n) phex =
    (case bin2hex_step pbin i phex of
       None \<Rightarrow> None
     | Some None \<Rightarrow> Some phex
     | Some (Some phex') \<Rightarrow> bin2hex_loop pbin (Suc i) n phex')"

definition meshx_bin2hex :: "string \<Rightarrow> bytes \<Rightarrow> u8 \<Rightarrow> bytes option" where
  "meshx_bin2hex pbin phex len = do {
    phex \<leftarrow> mem_write phex 0 (zeros (unat len div 2));
    bin2hex_loop pbin 0 (unat len) phex
  }"

definition meshx_swap :: "u8 \<Rightarrow> u8 \<Rightarrow> u8 \<times> u8" where
  "meshx_swap x y = (let temp = x; x = y; y = temp in (x, y))"

section \<open>The 3GPP checksum\<close>

definition crc8_table :: "u8 list" where
  "crc8_table =
   [0x00, 0x91, 0xE3, 0x72, 0x07, 0x96, 0xE4, 0x75, 0x0E, 0x9F, 0xED, 0x7C, 0x09, 0x98, 0xEA, 0x7B,
    0x1C, 0x8D, 0xFF, 0x6E, 0x1B, 0x8A, 0xF8, 0x69, 0x12, 0x83, 0xF1, 0x60, 0x15, 0x84, 0xF6, 0x67,
    0x38, 0xA9, 0xDB, 0x4A, 0x3F, 0xAE, 0xDC, 0x4D, 0x36, 0xA7, 0xD5, 0x44, 0x31, 0xA0, 0xD2, 0x43,
    0x24, 0xB5, 0xC7, 0x56, 0x23, 0xB2, 0xC0, 0x51, 0x2A, 0xBB, 0xC9, 0x58, 0x2D, 0xBC, 0xCE, 0x5F,
    0x70, 0xE1, 0x93, 0x02, 0x77, 0xE6, 0x94, 0x05, 0x7E, 0xEF, 0x9D, 0x0C, 0x79, 0xE8, 0x9A, 0x0B,
    0x6C, 0xFD, 0x8F, 0x1E, 0x6B, 0xFA, 0x88, 0x19, 0x62, 0xF3, 0x81, 0x10, 0x65, 0xF4, 0x86, 0x17,
    0x48, 0xD9, 0xAB, 0x3A, 0x4F, 0xDE, 0xAC, 0x3D, 0x46, 0xD7, 0xA5, 0x34, 0x41, 0xD0, 0xA2, 0x33,
    0x54, 0xC5, 0xB7, 0x26, 0x53, 0xC2, 0xB0, 0x21, 0x5A, 0xCB, 0xB9, 0x28, 0x5D, 0xCC, 0xBE, 0x2F,
    0xE0, 0x71, 0x03, 0x92, 0xE7, 0x76, 0x04, 0x95, 0xEE, 0x7F, 0x0D, 0x9C, 0xE9, 0x78, 0x0A, 0x9B,
    0xFC, 0x6D, 0x1F, 0x8E, 0xFB, 0x6A, 0x18, 0x89, 0xF2, 0x63, 0x11, 0x80, 0xF5, 0x64, 0x16, 0x87,
    0xD8, 0x49, 0x3B, 0xAA, 0xDF, 0x4E, 0x3C, 0xAD, 0xD6, 0x47, 0x35, 0xA4, 0xD1, 0x40, 0x32, 0xA3,
    0xC4, 0x55, 0x27, 0xB6, 0xC3, 0x52, 0x20, 0xB1, 0xCA, 0x5B, 0x29, 0xB8, 0xCD, 0x5C, 0x2E, 0xBF,
    0x90, 0x01, 0x73, 0xE2, 0x97, 0x06, 0x74, 0xE5, 0x9E, 0x0F, 0x7D, 0xEC, 0x99, 0x08, 0x7A, 0xEB,
    0x8C, 0x1D, 0x6F, 0xFE, 0x8B, 0x1A, 0x68, 0xF9, 0x82, 0x13, 0x61, 0xF0, 0x85, 0x14, 0x66, 0xF7,
    0xA8, 0x39, 0x4B, 0xDA, 0xAF, 0x3E, 0x4C, 0xDD, 0xA6, 0x37, 0x45, 0xD4, 0xA1, 0x30, 0x42, 0xD3,
    0xB4, 0x25, 0x57, 0xC6, 0xB3, 0x22, 0x50, 0xC1, 0xBA, 0x2B, 0x59, 0xC8, 0xBD, 0x2C, 0x5E, 0xCF]"

fun crc_loop :: "u8 \<Rightarrow> bytes \<Rightarrow> u8" where
  "crc_loop fcs [] = fcs"
| "crc_loop fcs (b # bs) = crc_loop (crc8_table ! unat (fcs XOR b)) bs"

definition meshx_3gpp_crc :: "bytes \<Rightarrow> u8" where
  "meshx_3gpp_crc pdata = 0xff - crc_loop 0xff pdata"

section \<open>Bit fields\<close>

definition MESHX_BIT_FIELD_SET :: "u8 list \<Rightarrow> nat \<Rightarrow> u8 list" where
  "MESHX_BIT_FIELD_SET field i =
    field[i div 8 := (field ! (i div 8)) OR push_bit (i mod 8) 1]"

definition MESHX_BIT_FIELD_CLEAR :: "u8 list \<Rightarrow> nat \<Rightarrow> u8 list" where
  "MESHX_BIT_FIELD_CLEAR field i =
    field[i div 8 := (field ! (i div 8)) AND NOT (push_bit (i mod 8) 1)]"

definition MESHX_IS_BIT_FIELD_SET :: "u8 list \<Rightarrow> nat \<Rightarrow> bool" where
  "MESHX_IS_BIT_FIELD_SET field i \<longleftrightarrow>
    (field ! (i div 8)) AND push_bit (i mod 8) 1 \<noteq> 0"

section \<open>Decimal conversion: lemmas\<close>

text \<open>The usual decimal digits of a number, most significant first.\<close>

definition decimal :: "int \<Rightarrow> string" where
  "decimal n = rev (itoa_digits n)"

lemma itoa_digits_step:
  "itoa_digits n = char_of (n mod 10 + 48) # (if 10 \<le> n then itoa_digits (n div 10) else [])"
  by (subst itoa_digits.simps) auto

lemma itoa_digits_ne [simp]: "itoa_digits n \<noteq> []"
  by (subst itoa_digits_step) simp

lemma decimal_ne [simp]: "decimal n \<noteq> []"
  by (simp add: decimal_def)

lemma length_itoa_digits: "n < 10 ^ Suc k \<Longrightarrow> length (itoa_digits n) \<le> Suc k"
proof (induction k arbitrary: n)
  case 0
  then show ?case by (subst itoa_digits_step) simp
next
  case (Suc k)
  have "n div 10 < 10 ^ Suc k" using Suc.prems by (simp add: div_less_iff_less_mult)
  then show ?case using Suc.IH [of "n div 10"] by (subst itoa_digits_step) simp
qed

lemma itoa_swap_inv:
  assumes "2 * c \<le> length p" "i \<le> c"
  shows "length (foldl (\<lambda>p i. p[i := p ! (c * 2 - 1 - i), c * 2 - 1 - i := p ! i]) p [0..<i]) = length p
    \<and> (\<forall>k < length p. foldl (\<lambda>p i. p[i := p ! (c * 2 - 1 - i), c * 2 - 1 - i := p ! i]) p [0..<i] ! k
        = (if k < i \<or> (2 * c - i \<le> k \<and> k < 2 * c) then p ! (2 * c - 1 - k) else p ! k))"
  using assms(2)
proof (induction i)
  case 0
  show ?case by auto
next
  case (Suc i)
  then show ?case using assms(1)
    by (auto simp: nth_list_update mult.commute [of c 2] less_Suc_eq intro!: arg_cong [where f = "nth p"])
qed

lemma itoa_swap_rev:
  assumes "2 * c \<le> length p"
  shows "itoa_swap c p = rev (take (2 * c) p) @ drop (2 * c) p"
proof (rule nth_equalityI)
  note inv = itoa_swap_inv [OF assms order_refl, folded itoa_swap_def]
  show "length (itoa_swap c p) = length (rev (take (2 * c) p) @ drop (2 * c) p)"
    using inv assms by simp
  fix k assume "k < length (itoa_swap c p)"
  then show "itoa_swap c p ! k = (rev (take (2 * c) p) @ drop (2 * c) p) ! k"
    using inv assms by (auto simp: nth_append rev_nth)
qed

lemma itoa_swap_half:
  "itoa_swap (length p div 2) p = (if even (length p) then rev p else rotate1 (rev p))"
proof (cases "even (length p)")
  case True
  then show ?thesis by (simp add: itoa_swap_rev)
next
  case False
  then obtain q x where p: "p = q @ [x]" by (cases p rule: rev_cases) auto
  with False have e: "2 * (length q div 2) = length q" "Suc (length q) div 2 = length q div 2"
    by simp_all
  have "2 * (length p div 2) \<le> length p" by simp
  from itoa_swap_rev [OF this] show ?thesis using False by (simp add: p e)
qed

lemma atoi_loop_append:
  "list_all is_digit xs \<Longrightarrow>
    atoi_loop (xs @ ys) v b = do { (v, b) \<leftarrow> atoi_loop xs v b; atoi_loop ys v b }"
proof (induction xs arbitrary: v b)
  case (Cons x xs)
  then show ?case by (simp split: Option.bind_split)
qed simp

lemma of_char_digit [simp]: "of_char (char_of (n mod 10 + 48 :: int) :: char) = (n mod 10 + 48 :: int)"
  by (simp add: mod_pos_pos_trivial)

lemma is_digit_char [simp]: "is_digit (char_of (n mod 10 + 48 :: int))"
  by (simp add: is_digit_def)

lemma itoa_digits_all: "list_all is_digit (itoa_digits n)"
  by (induction n rule: itoa_digits.induct) (subst itoa_digits.simps, simp)

lemma itoa_value_le: "0 \<le> n \<Longrightarrow> itoa_digits n = d # ds \<Longrightarrow> n div 10 \<le> n"
  by (simp add: div_le_dividend)

lemma atoi_loop_decimal:
  assumes "0 \<le> n" "n + 48 \<le> 2 ^ 31 - 1"
  shows "atoi_loop (decimal n @ s) 0 b = atoi_loop s n True"
  using assms
proof (induction n arbitrary: b s rule: itoa_digits.induct)
  case (1 n)
  let ?c = "char_of (n mod 10 + 48) :: char"
  have st: "atoi_loop (?c # s) (n div 10) b = atoi_loop s n True" for b
  proof -
    define q r where "q = n div 10" and "r = n mod 10"
    have "n = q * 10 + r" "0 \<le> r" "r < 10" "0 \<le> q" using 1(2) by (simp_all add: q_def r_def)
    then have "chk32 (q * 10) = Some (q * 10)" "chk32 (q * 10 + (r + 48)) = Some (q * 10 + (r + 48))"
      "chk32 (q * 10 + (r + 48) - 48) = Some n"
      using 1(3) by (simp_all add: chk32_def)
    then show ?thesis by (simp add: q_def r_def)
  qed
  show ?case
  proof (cases "n div 10 > 0")
    case True
    have "decimal n = decimal (n div 10) @ [?c]"
      unfolding decimal_def by (subst itoa_digits.simps) (simp add: True)
    moreover have "n div 10 + 48 \<le> 2 ^ 31 - 1" using 1(2,3) by linarith
    ultimately show ?thesis using 1(1) [of "?c # s" b] True 1(2) st by simp
  next
    case False
    then have "n div 10 = 0" using 1(2) by linarith
    moreover have "decimal n = [?c]"
      unfolding decimal_def by (subst itoa_digits.simps) (simp add: False)
    ultimately show ?thesis using st [of b] by simp
  qed
qed

section \<open>Hexadecimal conversion: lemmas\<close>

text \<open>The two lower-case hexadecimal characters of a byte.\<close>

definition hex_char :: "u8 \<Rightarrow> char" where
  "hex_char v = (if v < 10 then char_of (48 + unat v) else char_of (87 + unat v))"

definition hex_of :: "u8 \<Rightarrow> string" where
  "hex_of b = [hex_char (drop_bit 4 b), hex_char (b AND 0xf)]"

lemma char_u8_char_of: "n < 256 \<Longrightarrow> char_u8 (char_of n) = word_of_nat n"
  by (simp add: char_u8_def)

lemma hex_digit_char_nat:
  "list_all (\<lambda>n. hex_digit (hex_char (word_of_nat n)) = Some (word_of_nat n)) [0..<16]"
  by (simp add: upt_rec hex_char_def hex_digit_def char_u8_char_of)

lemma hex_digit_char: "v < 16 \<Longrightarrow> hex_digit (hex_char v) = Some v"
  using hex_digit_char_nat unfolding list_all_iff
  by (auto simp: word_less_nat_alt dest!: bspec [of _ _ "unat v"])

lemma and_15: "(b::u8) AND 0xf = take_bit 4 b"
  by (simp add: take_bit_eq_mask mask_eq_exp_minus_1)

lemma hex_nibbles: "push_bit 4 (drop_bit 4 (b::u8)) OR (b AND 0xf) = b"
  unfolding and_15 by (rule bit_word_eqI) (auto simp: bit_simps)

lemma hex_nibble_bounds: "drop_bit 4 (b::u8) < 16" "(b AND 0xf) < (16::u8)"
proof -
  have "take_bit 4 (unat b) < 2 ^ 4" by (rule take_bit_nat_less_exp)
  then show "(b AND 0xf) < (16::u8)"
    by (simp add: and_15 word_less_nat_alt unsigned_take_bit_eq)
  have "unat (drop_bit 4 b) < 16"
    using unsigned_less [of b, where ?'a = nat] by (simp add: drop_bit_eq_div unat_div_distrib less_mult_imp_div_less)
  then show "drop_bit 4 b < 16" by (simp add: word_less_nat_alt)
qed

lemma bin2hex_pair:
  assumes "length pre = 2 * length dn"
  shows "bin2hex_loop (pre @ hex_of b @ post) (length pre) (Suc (Suc n)) (dn @ 0 # rest)
    = bin2hex_loop (pre @ hex_of b @ post) (length pre + 2) n (dn @ b # rest)"
proof -
  have d: "length pre div 2 = length dn" "Suc (length pre) div 2 = length dn" "even (length pre)"
    using assms by simp_all
  show ?thesis using d hex_nibble_bounds [of b]
    by (simp add: bin2hex_step_def hex_of_def nth_append hex_digit_char hex_nibbles)
qed

lemma length_hex_of: "length (hex_of b) = 2"
  by (simp add: hex_of_def)

lemma bin2hex_loop_bytes:
  assumes "length pre = 2 * length dn"
  shows "bin2hex_loop (pre @ concat (map hex_of bs)) (length pre) (2 * length bs)
    (dn @ zeros (length bs) @ rest) = Some (dn @ bs @ rest)"
  using assms
proof (induction bs arbitrary: pre dn)
  case (Cons b bs)
  have "length (pre @ hex_of b) = 2 * length (dn @ [b])"
    using Cons.prems by (simp add: hex_of_def)
  from Cons.IH [OF this] show ?case
    using bin2hex_pair [OF Cons.prems, of b "concat (map hex_of bs)" "2 * length bs" "zeros (length bs) @ rest"]
    by (simp add: length_hex_of del: bin2hex_loop.simps)
qed simp

section \<open>Checksum: lemmas\<close>

text \<open>The bitwise division by the reflected polynomial, and by eight bits at once.\<close>

definition crc_bit :: "u8 \<Rightarrow> u8" where
  "crc_bit c = (if bit c 0 then drop_bit 1 c XOR 0xE0 else drop_bit 1 c)"

definition crc_bit_int :: "int \<Rightarrow> int" where
  "crc_bit_int c = (if odd c then c div 2 XOR 224 else c div 2)"

lemma uint_crc_bit: "uint (crc_bit c) = crc_bit_int (uint c)"
proof -
  have "uint (drop_bit 1 c) = uint c div 2"
    by (simp add: drop_bit_eq_div uint_div_distrib)
  moreover have "bit c 0 \<longleftrightarrow> odd (uint c)" 
    by (simp add: bit_uint_iff flip: bit_0)
  ultimately show ?thesis by (simp add: crc_bit_def crc_bit_int_def unsigned_xor_eq)
qed

lemma crc_bit_inj: "crc_bit a = crc_bit b \<Longrightarrow> a = b"
proof -
  assume eq: "crc_bit a = crc_bit b"
  have top: "bit (crc_bit c) 7 \<longleftrightarrow> bit c 0" for c
    by (simp add: crc_bit_def bit_simps)
  have e0: "bit a 0 \<longleftrightarrow> bit b 0" using eq top by metis
  then have d: "drop_bit 1 a = drop_bit 1 b" using eq by (auto simp: crc_bit_def split: if_splits)
  show "a = b"
  proof (rule bit_word_eqI)
    fix n assume "n < LENGTH(8)"
    then show "bit a n \<longleftrightarrow> bit b n"
      using e0 arg_cong [OF d, where f = "\<lambda>w. bit w (n - 1)"]
      by (cases n) (simp_all add: bit_simps)
  qed
qed

definition crc_byte :: "u8 \<Rightarrow> u8" where
  "crc_byte c = (crc_bit ^^ 8) c"

lemma crc_byte_inj: "crc_byte a = crc_byte b \<longleftrightarrow> a = b"
proof -
  have "inj (crc_bit ^^ 8)" by (rule inj_fn) (auto intro: injI crc_bit_inj)
  then show ?thesis by (simp add: crc_byte_def inj_eq)
qed

definition crc_byte_int :: "int \<Rightarrow> int" where
  "crc_byte_int c = crc_bit_int (crc_bit_int (crc_bit_int (crc_bit_int
    (crc_bit_int (crc_bit_int (crc_bit_int (crc_bit_int c)))))))"

lemma crc_table_ints: "map crc_byte_int [0..255] = map uint crc8_table"
  by (simp add: crc8_table_def crc_byte_int_def crc_bit_int_def upto.simps)

lemma length_crc8_table: "length crc8_table = 256"
  by (simp add: crc8_table_def)

lemma map_upto_nth: "k < nat (n + 1) \<Longrightarrow> 0 \<le> n \<Longrightarrow> map f [0..n] ! k = f (int k)"
  by simp

lemma crc_table_byte: "crc8_table ! unat c = crc_byte c"
proof -
  have l: "unat c < 256" using unsigned_less [of c, where ?'a = nat] by simp
  have "uint (crc8_table ! unat c) = map uint crc8_table ! unat c"
    using l by (simp add: length_crc8_table)
  also have "\<dots> = crc_byte_int (int (unat c))"
    unfolding crc_table_ints [symmetric] by (rule map_upto_nth) (use l in linarith)+
  also have "\<dots> = uint (crc_byte c)"
    by (simp add: crc_byte_def crc_byte_int_def eval_nat_numeral uint_crc_bit)
  finally show ?thesis by (simp add: word_uint_eq_iff)
qed

fun crc_reference :: "u8 \<Rightarrow> bytes \<Rightarrow> u8" where
  "crc_reference fcs [] = fcs"
| "crc_reference fcs (b # bs) = crc_reference (crc_byte (fcs XOR b)) bs"

lemma crc_loop_reference: "crc_loop fcs bs = crc_reference fcs bs"
  by (induction bs arbitrary: fcs) (simp_all add: crc_table_byte)

lemma crc_reference_inj: "crc_reference f bs = crc_reference g bs \<longleftrightarrow> f = g"
proof (induction bs arbitrary: f g)
  case (Cons b bs)
  then show ?case by (simp add: crc_byte_inj)
qed simp

lemma crc_reference_append: "crc_reference f (xs @ ys) = crc_reference (crc_reference f xs) ys"
  by (induction xs arbitrary: f) simp_all

lemma bit_field_set_get:
  assumes "i div 8 < length field"
  shows "MESHX_IS_BIT_FIELD_SET (MESHX_BIT_FIELD_SET field i) j \<longleftrightarrow>
    j = i \<or> MESHX_IS_BIT_FIELD_SET field j"
proof -
  have t: "w AND push_bit k 1 \<noteq> 0 \<longleftrightarrow> bit w k" if "k < 8" for w :: u8 and k
    using that by (simp add: push_bit_eq_mult and_exp_eq_0_iff_not_bit)
  have m: "j mod 8 < 8" "i mod 8 < 8" by simp_all
  have e: "j div 8 = i div 8 \<Longrightarrow> j mod 8 = i mod 8 \<longleftrightarrow> j = i" by (metis div_mult_mod_eq)
  show ?thesis
  proof (cases "j div 8 = i div 8")
    case True
    then show ?thesis using assms e m
      by (simp add: MESHX_IS_BIT_FIELD_SET_def MESHX_BIT_FIELD_SET_def t bit_or_iff bit_push_bit_iff
          bit_1_iff del: push_bit_of_1) auto
  next
    case False
    then show ?thesis by (auto simp: MESHX_IS_BIT_FIELD_SET_def MESHX_BIT_FIELD_SET_def)
  qed
qed

section \<open>Properties\<close>

text \<open>C40: The table of the 3GPP checksum is the eight-step bitwise division by the
  reflected polynomial 0xE0, so the checksum of every byte string is the bitwise CRC-8
  (initial value 0xFF, complemented).\<close>

theorem crc_is_bitwise:
  "meshx_3gpp_crc data = 0xff - crc_reference 0xff data"
  by (simp add: meshx_3gpp_crc_def crc_loop_reference)

text \<open>The checksum detects every corruption of a single byte: two transactions that
  differ in one byte only have different checksums.\<close>

lemma crc_detects_byte:
  "meshx_3gpp_crc (xs @ a # ys) = meshx_3gpp_crc (xs @ b # ys) \<longleftrightarrow> a = b"
proof -
  have "crc_reference f (a # ys) = crc_reference f (b # ys) \<longleftrightarrow> a = b" for f
    by (simp add: crc_reference_inj crc_byte_inj xor.commute [of f])
  then show ?thesis
    by (simp add: meshx_3gpp_crc_def crc_loop_reference crc_reference_append)
qed

text \<open>Converting the hexadecimal text of a byte string back yields the byte string and
  leaves the rest of the destination alone.\<close>

lemma bin2hex_roundtrip:
  assumes "unat len = 2 * length bs" "length bs \<le> length buf"
  shows "meshx_bin2hex (concat (map hex_of bs)) buf len = Some (bs @ drop (length bs) buf)"
  using assms bin2hex_loop_bytes [of "[]" "[]" bs "drop (length bs) buf"]
  by (simp add: meshx_bin2hex_def mem_write_def)

text \<open>What \<^verbatim>\<open>meshx_itoa\<close> writes, for every value but the least: the decimal text
  when the text (of a negative number the digits followed by the sign) has an even number
  of characters, and that text rotated by one character otherwise.  So a number with an
  odd number of digits is written with its leading digit last.\<close>

lemma itoa_result:
  assumes "- (2 ^ 31) < n" "n < 2 ^ 31"
  shows "meshx_itoa n =
    (let s = (if n < 0 then decimal (- n) @ ''-'' else decimal n)
     in Some (if even (length s) then s else rotate1 s))"
proof -
  define p where "p = (if n < 0 then CHR ''-'' # itoa_digits (- n) else itoa_digits n)"
  have "length (itoa_digits (if n < 0 then - n else n)) \<le> Suc 9"
    using assms by (intro length_itoa_digits) auto
  then have "length p \<le> 11" by (simp add: p_def split: if_splits)
  then have c: "unat (of_nat (length p div 2) :: u8) = length p div 2"
    by (simp add: unat_of_nat)
  have "meshx_itoa n = Some (itoa_swap (length p div 2) p)"
    using assms c by (simp add: meshx_itoa_def Let_def p_def split: if_splits)
  moreover have "rev p = (if n < 0 then decimal (- n) @ ''-'' else decimal n)"
    by (simp add: p_def decimal_def)
  moreover define s where "s = (if n < 0 then decimal (- n) @ ''-'' else decimal n)"
  ultimately have "rev p = s" "meshx_itoa n = Some (if even (length p) then s else rotate1 s)"
    by (simp_all only: itoa_swap_half)
  moreover from this(1) have "length p = length s" by (metis length_rev)
  ultimately show ?thesis by (simp only: Let_def s_def)
qed

text \<open>Parsing inverts printing in decimal: after any number of spaces and an optional
  minus sign, the decimal text of a value is read as that value, as long as the digit
  characters added before the code of zero is subtracted keep the sum inside 32 bits.\<close>

lemma atoi_decimal:
  assumes "0 \<le> n" "n + 48 \<le> 2 ^ 31 - 1"
  shows "meshx_atoi (replicate k CHR '' '' @ (if neg then ''-'' else []) @ decimal n)
    = Some (if neg then - n else n, True)"
proof -
  have d: "list_all is_digit (decimal n)" by (simp add: decimal_def itoa_digits_all)
  obtain c s where cs: "decimal n = c # s" by (cases "decimal n") auto
  have c: "c \<noteq> CHR '' ''" "c \<noteq> CHR ''-''" using d by (auto simp: cs is_digit_def)
  have sk: "skip_spaces (replicate k CHR '' '' @ x # xs) = Some (x # xs)"
    if "x \<noteq> CHR '' ''" for x xs using that by (induction k) auto
  have l: "atoi_loop (c # s) 0 False = Some (n, True)"
    using atoi_loop_decimal [OF assms, of "[]" False] by (simp add: cs)
  show ?thesis using sk [of c s] sk [of "CHR ''-''" "c # s"] c l
    by (simp add: meshx_atoi_def cs del: atoi_loop.simps(2))
qed

end
