(* ===== verification/Mesh_List.thy ===== *)
theory Mesh_List
  imports Mesh_Prelude
begin

text \<open>
  The intrusive doubly linked list of \<^verbatim>\<open>common/meshx_list.c\<close> and the singly linked
  queue of \<^verbatim>\<open>common/meshx_queue.c\<close> at the level of their pointers.  The heap gives each
  node its two links, null being \<^verbatim>\<open>None\<close>; an operation that follows a null pointer
  (or fails an assertion) is \<^verbatim>\<open>None\<close>.  The abstraction relation \<^verbatim>\<open>dlist\<close> reads a
  circular list as a HOL list of nodes; every operation is shown to be the expected
  function on that list, which is what the other components use.
\<close>

type_synonym ptr = nat

record list_heap =
  pprev :: "ptr \<Rightarrow> ptr option"
  pnext :: "ptr \<Rightarrow> ptr option"

definition set_next :: "ptr \<Rightarrow> ptr option \<Rightarrow> list_heap \<Rightarrow> list_heap" where
  "set_next p v h = h\<lparr>pnext := (pnext h)(p := v)\<rparr>"

definition set_prev :: "ptr \<Rightarrow> ptr option \<Rightarrow> list_heap \<Rightarrow> list_heap" where
  "set_prev p v h = h\<lparr>pprev := (pprev h)(p := v)\<rparr>"

lemma heap_sel [simp]:
  "pnext (set_next p v h) = (pnext h)(p := v)" "pprev (set_next p v h) = pprev h"
  "pprev (set_prev p v h) = (pprev h)(p := v)" "pnext (set_prev p v h) = pnext h"
  by (simp_all add: set_next_def set_prev_def)

section \<open>Operations\<close>

definition meshx_list_init_head :: "ptr \<Rightarrow> list_heap \<Rightarrow> list_heap" where
  "meshx_list_init_head phead h = set_next phead (Some phead) (set_prev phead (Some phead) h)"

definition meshx_list_init_node :: "ptr \<Rightarrow> list_heap \<Rightarrow> list_heap" where
  "meshx_list_init_node pnode h = set_next pnode None (set_prev pnode None h)"

definition meshx_list_prepend :: "ptr \<Rightarrow> ptr \<Rightarrow> list_heap \<Rightarrow> list_heap option" where
  "meshx_list_prepend phead pnode h = do {
    nx \<leftarrow> pnext h phead;
    let h = set_prev nx (Some pnode) h;
        h = set_next pnode (pnext h phead) h;
        h = set_next phead (Some pnode) h;
        h = set_prev pnode (Some phead) h
    in Some h
  }"

definition meshx_list_append :: "ptr \<Rightarrow> ptr \<Rightarrow> list_heap \<Rightarrow> list_heap option" where
  "meshx_list_append phead pnode h = do {
    pv \<leftarrow> pprev h phead;
    let h = set_next pv (Some pnode) h;
        h = set_prev pnode (pprev h phead) h;
        h = set_prev phead (Some pnode) h;
        h = set_next pnode (Some phead) h
    in Some h
  }"

text \<open>The search loop: the first node from \<^verbatim>\<open>p\<close> on where \<^verbatim>\<open>stop\<close> holds, or the
  head.\<close>

partial_function (option) list_search ::
  "(ptr \<Rightarrow> bool) \<Rightarrow> ptr \<Rightarrow> list_heap \<Rightarrow> ptr \<Rightarrow> ptr option" where
  "list_search stop phead h t =
    (if t = phead \<or> stop t then Some t
     else do { nx \<leftarrow> pnext h t; list_search stop phead h nx })"

definition meshx_list_sort_insert ::
  "(ptr \<Rightarrow> ptr \<Rightarrow> bool) \<Rightarrow> ptr \<Rightarrow> ptr \<Rightarrow> list_heap \<Rightarrow> list_heap option" where
  "meshx_list_sort_insert node_cmp phead pnode h = do {
    p \<leftarrow> pnext h phead;
    t \<leftarrow> list_search (node_cmp pnode) phead h p;
    pv \<leftarrow> pprev h t;
    let h = set_next pv (Some pnode) h;
        h = set_prev pnode (pprev h t) h;
        h = set_prev t (Some pnode) h;
        h = set_next pnode (Some t) h
    in Some h
  }"

text \<open>Unlinking a node, shared by \<^verbatim>\<open>meshx_list_pop\<close> and \<^verbatim>\<open>meshx_list_remove\<close>.\<close>

definition list_unlink :: "ptr \<Rightarrow> list_heap \<Rightarrow> list_heap option" where
  "list_unlink pnode h = do {
    pv \<leftarrow> pprev h pnode;
    let h = set_next pv (pnext h pnode) h in do {
      nx \<leftarrow> pnext h pnode;
      let h = set_prev nx (pprev h pnode) h;
          h = set_next pnode None h;
          h = set_prev pnode None h
      in Some h
    }
  }"

definition meshx_list_pop :: "ptr \<Rightarrow> list_heap \<Rightarrow> (ptr option \<times> list_heap) option" where
  "meshx_list_pop phead h =
    (if pnext h phead = Some phead then Some (None, h)
     else do {
       pnode \<leftarrow> pnext h phead;
       h \<leftarrow> list_unlink pnode h;
       Some (Some pnode, h)
     })"

definition meshx_list_remove :: "ptr \<Rightarrow> list_heap \<Rightarrow> list_heap option" where
  "meshx_list_remove pnode h =
    (if pprev h pnode = None \<or> pnext h pnode = None then None else list_unlink pnode h)"

partial_function (option) list_index_from ::
  "ptr \<Rightarrow> ptr \<Rightarrow> list_heap \<Rightarrow> ptr \<Rightarrow> u32 \<Rightarrow> u32 option" where
  "list_index_from phead pnode h t index =
    (if t = phead then Some (- 1)
     else if t = pnode then Some index
     else do { nx \<leftarrow> pnext h t; list_index_from phead pnode h nx (index + 1) })"

definition meshx_list_index :: "ptr \<Rightarrow> ptr \<Rightarrow> list_heap \<Rightarrow> u32 option" where
  "meshx_list_index phead pnode h = do {
    p \<leftarrow> pnext h phead;
    list_index_from phead pnode h p 0
  }"

definition meshx_list_exists :: "ptr \<Rightarrow> ptr \<Rightarrow> list_heap \<Rightarrow> bool option" where
  "meshx_list_exists phead pnode h = do {
    p \<leftarrow> pnext h phead;
    t \<leftarrow> list_search (\<lambda>t. t = pnode) phead h p;
    Some (t \<noteq> phead)
  }"

definition meshx_list_peek :: "ptr \<Rightarrow> list_heap \<Rightarrow> ptr option" where
  "meshx_list_peek phead h = (if pnext h phead = Some phead then None else pnext h phead)"

definition meshx_list_is_empty :: "ptr \<Rightarrow> list_heap \<Rightarrow> bool" where
  "meshx_list_is_empty phead h \<longleftrightarrow> pnext h phead = Some phead"

definition meshx_list_is_last :: "ptr \<Rightarrow> ptr \<Rightarrow> list_heap \<Rightarrow> bool" where
  "meshx_list_is_last phead pnode h \<longleftrightarrow> pprev h phead = Some pnode"

definition meshx_list_is_first :: "ptr \<Rightarrow> ptr \<Rightarrow> list_heap \<Rightarrow> bool" where
  "meshx_list_is_first phead pnode h \<longleftrightarrow> pnext h phead = Some pnode"

partial_function (option) list_length_from ::
  "ptr \<Rightarrow> list_heap \<Rightarrow> ptr \<Rightarrow> u32 \<Rightarrow> u32 option" where
  "list_length_from phead h t len =
    (if t = phead then Some len
     else do { nx \<leftarrow> pnext h t; list_length_from phead h nx (len + 1) })"

definition meshx_list_length :: "ptr \<Rightarrow> list_heap \<Rightarrow> u32 option" where
  "meshx_list_length phead h = do {
    p \<leftarrow> pnext h phead;
    list_length_from phead h p 0
  }"

section \<open>Abstraction\<close>

fun links :: "list_heap \<Rightarrow> ptr list \<Rightarrow> bool" where
  "links h (a # b # r) = (pnext h a = Some b \<and> pprev h b = Some a \<and> links h (b # r))"
| "links h _ = True"

definition dlist :: "list_heap \<Rightarrow> ptr \<Rightarrow> ptr list \<Rightarrow> bool" where
  "dlist h hp xs \<longleftrightarrow> distinct (hp # xs) \<and> links h (hp # xs @ [hp])"

lemma links_append: "links h (xs @ a # ys) \<longleftrightarrow> links h (xs @ [a]) \<and> links h (a # ys)"
proof (induction xs)
  case (Cons x xs)
  then show ?case by (cases xs) auto
qed simp

text \<open>Links only depend on the forward pointers of all nodes but the last and the backward
  pointers of all nodes but the first.\<close>

lemma links_cong:
  "(\<And>a. a \<in> set (butlast xs) \<Longrightarrow> pnext h' a = pnext h a) \<Longrightarrow>
   (\<And>a. a \<in> set (tl xs) \<Longrightarrow> pprev h' a = pprev h a) \<Longrightarrow> links h' xs = links h xs"
  by (induction h xs rule: links.induct) auto

text \<open>The heap in which \<^verbatim>\<open>n\<close> stands between \<^verbatim>\<open>a\<close> and \<^verbatim>\<open>b\<close>.\<close>

definition splice :: "ptr \<Rightarrow> ptr \<Rightarrow> ptr \<Rightarrow> list_heap \<Rightarrow> list_heap" where
  "splice a n b h =
    set_next n (Some b) (set_prev b (Some n) (set_prev n (Some a) (set_next a (Some n) h)))"

definition before :: "ptr \<Rightarrow> ptr list \<Rightarrow> ptr" where
  "before hp xs = last (hp # xs)"

definition after :: "ptr \<Rightarrow> ptr list \<Rightarrow> ptr" where
  "after hp ys = hd (ys @ [hp])"

lemma dlist_split:
  "links h (hp # (xs @ ys) @ [hp]) \<longleftrightarrow>
    links h (hp # xs) \<and> pnext h (before hp xs) = Some (after hp ys) \<and>
    pprev h (after hp ys) = Some (before hp xs) \<and> links h (ys @ [hp])"
proof -
  have s: "hp # (xs @ ys) @ [hp] = butlast (hp # xs) @ before hp xs # ys @ [hp]"
    by (simp add: before_def)
  have e: "butlast (hp # xs) @ [before hp xs] = hp # xs" by (simp add: before_def)
  have t: "links h (before hp xs # ys @ [hp]) \<longleftrightarrow> pnext h (before hp xs) = Some (after hp ys) \<and>
    pprev h (after hp ys) = Some (before hp xs) \<and> links h (ys @ [hp])"
    by (cases ys) (simp_all add: after_def)
  show ?thesis unfolding s links_append [of h _ "before hp xs"] e t by simp
qed

lemma links_front:
  "links h (p # ys @ [hp]) \<longleftrightarrow>
    pnext h p = Some (after hp ys) \<and> pprev h (after hp ys) = Some p \<and> links h (ys @ [hp])"
  by (cases ys) (simp_all add: after_def)

lemma before_mem: "before hp xs \<in> set (hp # xs)"
  unfolding before_def by (rule last_in_set) simp

lemma after_mem: "after hp ys \<in> set (ys @ [hp])"
  by (cases ys) (simp_all add: after_def)

lemma last_notin_butlast: "distinct xs \<Longrightarrow> xs \<noteq> [] \<Longrightarrow> last xs \<notin> set (butlast xs)"
  by (cases xs rule: rev_cases) auto

lemma hd_notin_tl: "distinct xs \<Longrightarrow> xs \<noteq> [] \<Longrightarrow> hd xs \<notin> set (tl xs)"
  by (cases xs) auto

lemma dlist_insert:
  assumes "dlist h hp (xs @ ys)" "n \<notin> set (hp # xs @ ys)"
  shows "dlist (splice (before hp xs) n (after hp ys) h) hp (xs @ n # ys)"
proof -
  define a b where "a = before hp xs" and "b = after hp ys"
  let ?h = "splice a n b h"
  have d: "distinct (hp # xs)" "distinct (ys @ [hp])" "set xs \<inter> set ys = {}"
    and l: "links h (hp # xs)" "links h (ys @ [hp])"
    using assms(1) dlist_split [of h hp xs ys] by (auto simp: dlist_def)
  have a: "a \<notin> set (butlast (hp # xs))" "a \<in> set (hp # xs)"
    using last_notin_butlast [OF d(1)] before_mem unfolding a_def before_def by auto
  have b: "b \<notin> set (tl (ys @ [hp]))" "b \<in> set (ys @ [hp])"
    using hd_notin_tl [OF d(2)] after_mem unfolding b_def after_def by auto
  have n: "n \<noteq> a" "n \<noteq> b" "n \<notin> set (hp # xs)" "n \<notin> set (ys @ [hp])"
    using a(2) b(2) assms(2) by auto
  have nx: "pnext ?h p = (if p = n then Some b else if p = a then Some n else pnext h p)"
    and pv: "pprev ?h p = (if p = b then Some n else if p = n then Some a else pprev h p)" for p
    using n by (auto simp: splice_def)
  have l1: "links ?h (hp # xs)"
  proof -
    have "b \<in> set xs \<Longrightarrow> False" using b(2) d by auto
    then have "links ?h (hp # xs) = links h (hp # xs)"
      using a(1) n(3) in_set_butlastD [of n "hp # xs"]
      by (intro links_cong) (auto simp: nx pv simp del: butlast.simps)
    then show ?thesis using l(1) by simp
  qed
  have l2: "links ?h (ys @ [hp])"
  proof -
    have "a \<in> set (butlast (ys @ [hp])) \<Longrightarrow> False" using a(2) d by auto
    then have "links ?h (ys @ [hp]) = links h (ys @ [hp])"
      using b(1) n(4) by (intro links_cong) (auto simp: nx pv dest: in_set_butlastD list.set_sel(2) [rotated])
    then show ?thesis using l(2) by simp
  qed
  have "after hp (n # ys) = n" by (simp add: after_def)
  moreover have "links ?h (n # ys @ [hp])"
    using l2 n nx [of n] pv [of b] by (simp add: links_front b_def)
  ultimately have "links ?h (hp # (xs @ n # ys) @ [hp])"
    using l1 dlist_split [of ?h hp xs "n # ys"] n by (simp add: a_def [symmetric] nx pv)
  then show ?thesis using assms by (auto simp: dlist_def a_def b_def)
qed


text \<open>Unlinking is the inverse of the splice.\<close>

lemma dlist_unlink:
  assumes "dlist h hp (xs @ n # ys)"
  shows "\<exists>h'. list_unlink n h = Some h' \<and> dlist h' hp (xs @ ys) \<and> pprev h' n = None \<and> pnext h' n = None"
proof -
  define a b where "a = before hp xs" and "b = after hp ys"
  have d: "distinct (hp # xs)" "distinct (ys @ [hp])" "set xs \<inter> set ys = {}"
      "n \<notin> set (hp # xs)" "n \<notin> set (ys @ [hp])"
    using assms by (auto simp: dlist_def)
  have l: "links h (hp # xs)" "pnext h a = Some n" "pprev h n = Some a"
    and l2: "links h (n # ys @ [hp])"
    using assms dlist_split [of h hp xs "n # ys"] by (auto simp: dlist_def a_def after_def)
  have b: "pnext h n = Some b" "pprev h b = Some n" "links h (ys @ [hp])"
    using l2 by (simp_all add: links_front b_def)
  have am: "a \<in> set (hp # xs)" "a \<notin> set (butlast (hp # xs))"
    using last_notin_butlast [OF d(1)] before_mem unfolding a_def before_def by auto
  have bm: "b \<in> set (ys @ [hp])" "b \<notin> set (tl (ys @ [hp]))"
    using hd_notin_tl [OF d(2)] after_mem unfolding b_def after_def by auto
  have n: "n \<noteq> a" "n \<noteq> b" using am bm d by auto
  define h' where "h' = set_prev n None (set_next n None (set_prev b (Some a) (set_next a (Some b) h)))"
  have u: "list_unlink n h = Some h'"
    using l b n by (simp add: list_unlink_def h'_def Let_def set_next_def set_prev_def)
  have nx: "pnext h' p = (if p = n then None else if p = a then Some b else pnext h p)"
    and pv: "pprev h' p = (if p = n then None else if p = b then Some a else pprev h p)" for p
    using n by (auto simp: h'_def)
  have "b \<in> set xs \<Longrightarrow> False" using bm(1) d by auto
  then have "links h' (hp # xs) = links h (hp # xs)"
    using am(2) d(4) in_set_butlastD [of n "hp # xs"]
    by (intro links_cong) (auto simp: nx pv simp del: butlast.simps)
  moreover have "a \<in> set (butlast (ys @ [hp])) \<Longrightarrow> False" using am(1) d by auto
  then have "links h' (ys @ [hp]) = links h (ys @ [hp])"
    using bm(2) d(5) by (intro links_cong) (auto simp: nx pv dest: in_set_butlastD list.set_sel(2) [rotated])
  ultimately have "links h' (hp # (xs @ ys) @ [hp])"
    using l(1) b(3) n dlist_split [of h' hp xs ys] by (simp add: a_def [symmetric] b_def [symmetric] nx pv)
  then show ?thesis using u d nx pv by (auto simp: dlist_def)
qed

lemma dlist_ends:
  assumes "dlist h hp xs"
  shows "pnext h hp = Some (after hp xs)" "pprev h hp = Some (before hp xs)"
  using assms dlist_split [of h hp "[]" xs] dlist_split [of h hp xs "[]"]
  by (simp_all add: dlist_def before_def after_def)

lemma after_ne: "distinct (hp # xs) \<Longrightarrow> after hp xs = hp \<longleftrightarrow> xs = []"
  by (cases xs) (auto simp: after_def)

section \<open>The operations on the abstract list\<close>

lemma append_splice:
  assumes "dlist h hp xs" "n \<notin> set (hp # xs)"
  shows "meshx_list_append hp n h = Some (splice (before hp xs) n hp h)"
proof -
  have "before hp xs \<noteq> n" using before_mem assms(2) by metis
  then show ?thesis using dlist_ends [OF assms(1)] assms(2)
    by (auto simp: meshx_list_append_def splice_def Let_def set_next_def set_prev_def fun_upd_twist)
qed

lemma list_append:
  assumes "dlist h hp xs" "n \<notin> set (hp # xs)"
  shows "\<exists>h'. meshx_list_append hp n h = Some h' \<and> dlist h' hp (xs @ [n])"
  using append_splice [OF assms] dlist_insert [of h hp xs "[]" n] assms
  by (simp add: after_def)

lemma list_prepend:
  assumes "dlist h hp xs" "n \<notin> set (hp # xs)"
  shows "\<exists>h'. meshx_list_prepend hp n h = Some h' \<and> dlist h' hp (n # xs)"
proof -
  have "after hp xs \<noteq> n" using after_mem [of hp xs] assms(2) by auto
  then have "meshx_list_prepend hp n h = Some (splice (before hp []) n (after hp xs) h)"
    using dlist_ends [OF assms(1)] assms(2)
    by (auto simp: meshx_list_prepend_def splice_def before_def Let_def set_next_def set_prev_def fun_upd_twist)
  then show ?thesis using dlist_insert [of h hp "[]" xs n] assms by simp
qed

lemma list_pop:
  assumes "dlist h hp xs"
  shows "case xs of
      [] \<Rightarrow> meshx_list_pop hp h = Some (None, h)
    | x # r \<Rightarrow> \<exists>h'. meshx_list_pop hp h = Some (Some x, h') \<and> dlist h' hp r"
proof (cases xs)
  case Nil
  then show ?thesis using dlist_ends [OF assms] by (simp add: meshx_list_pop_def after_def)
next
  case (Cons x r)
  then have "pnext h hp = Some x" "x \<noteq> hp" using dlist_ends [OF assms] assms
    by (auto simp: after_def dlist_def)
  then show ?thesis using dlist_unlink [of h hp "[]" x r] assms Cons
    by (auto simp: meshx_list_pop_def)
qed

lemma list_remove:
  assumes "dlist h hp (xs @ n # ys)"
  shows "\<exists>h'. meshx_list_remove n h = Some h' \<and> dlist h' hp (xs @ ys) \<and> meshx_list_remove n h' = None"
proof -
  have "links h (hp # (xs @ n # ys) @ [hp])" using assms by (simp add: dlist_def)
  then have "pprev h n = Some (before hp xs)" "links h (n # ys @ [hp])"
    by (subst (asm) dlist_split, simp add: after_def)+
  then have "pprev h n \<noteq> None" "pnext h n \<noteq> None" by (simp_all add: links_front)
  then show ?thesis using dlist_unlink [OF assms] by (auto simp: meshx_list_remove_def)
qed

lemma list_peek:
  assumes "dlist h hp xs"
  shows "meshx_list_peek hp h = (case xs of [] \<Rightarrow> None | x # _ \<Rightarrow> Some x)"
proof -
  have "hp \<notin> set xs" using assms by (simp add: dlist_def)
  then show ?thesis using dlist_ends(1) [OF assms]
    by (cases xs) (auto simp: meshx_list_peek_def after_def)
qed

lemma list_empty:
  assumes "dlist h hp xs"
  shows "meshx_list_is_empty hp h \<longleftrightarrow> xs = []"
proof -
  have "distinct (hp # xs)" using assms by (simp add: dlist_def)
  then show ?thesis using dlist_ends(1) [OF assms] after_ne by (simp add: meshx_list_is_empty_def)
qed

text \<open>The search ends at the first node that stops it, or at the head.\<close>

lemma list_search_suffix:
  "links h (ys @ [hp]) \<Longrightarrow> hp \<notin> set ys \<Longrightarrow>
    list_search stop hp h (after hp ys) = Some (after hp (dropWhile (\<lambda>t. \<not> stop t) ys))"
proof (induction ys)
  case Nil
  then show ?case by (subst list_search.simps) (simp add: after_def)
next
  case (Cons y ys)
  have "pnext h y = Some (after hp ys)" "links h (ys @ [hp])"
    using Cons.prems(1) by (cases ys; simp add: after_def)+
  then show ?case using Cons by (subst list_search.simps) (auto simp: after_def)
qed

lemma dlist_links: "dlist h hp xs \<Longrightarrow> links h (xs @ [hp]) \<and> hp \<notin> set xs"
  using dlist_split [of h hp "[]" xs] by (simp add: dlist_def)

lemma list_exists:
  assumes "dlist h hp xs"
  shows "meshx_list_exists hp n h = Some (n \<in> set xs)"
proof -
  have "after hp (dropWhile (\<lambda>t. t \<noteq> n) xs) \<noteq> hp \<longleftrightarrow> n \<in> set xs"
  proof (cases "n \<in> set xs")
    case True
    then have "dropWhile (\<lambda>t. t \<noteq> n) xs \<noteq> []" by (auto simp: dropWhile_eq_Nil_conv)
    moreover from this have "hd (dropWhile (\<lambda>t. t \<noteq> n) xs) = n"
      using hd_dropWhile [of "\<lambda>t. t \<noteq> n" xs] by simp
    ultimately show ?thesis using True dlist_links [OF assms] by (auto simp: after_def)
  next
    case False
    have "dropWhile (\<lambda>t. t \<noteq> n) xs = []"
      unfolding dropWhile_eq_Nil_conv using False by blast
    then show ?thesis using False by (simp only: after_def append_Nil list.sel simp_thms)
  qed
  then show ?thesis using dlist_links [OF assms] dlist_ends [OF assms]
    by (simp add: meshx_list_exists_def list_search_suffix)
qed

lemma list_length_suffix:
  "links h (ys @ [hp]) \<Longrightarrow> hp \<notin> set ys \<Longrightarrow>
    list_length_from hp h (after hp ys) len = Some (len + word_of_nat (length ys))"
proof (induction ys arbitrary: len)
  case Nil
  then show ?case by (subst list_length_from.simps) (simp add: after_def)
next
  case (Cons y ys)
  have "pnext h y = Some (after hp ys)" "links h (ys @ [hp])"
    using Cons.prems(1) by (cases ys; simp add: after_def)+
  then show ?case using Cons by (subst list_length_from.simps) (auto simp: after_def algebra_simps)
qed

lemma list_length: "dlist h hp xs \<Longrightarrow> meshx_list_length hp h = Some (word_of_nat (length xs))"
  using dlist_links [of h hp xs] dlist_ends [of h hp xs]
  by (simp add: meshx_list_length_def list_length_suffix)


lemma list_sort_insert:
  assumes "dlist h hp xs" "n \<notin> set (hp # xs)"
  shows "\<exists>h'. meshx_list_sort_insert cmp hp n h = Some h' \<and>
    dlist h' hp (takeWhile (\<lambda>t. \<not> cmp n t) xs @ n # dropWhile (\<lambda>t. \<not> cmp n t) xs)"
proof -
  let ?a = "takeWhile (\<lambda>t. \<not> cmp n t) xs" and ?b = "dropWhile (\<lambda>t. \<not> cmp n t) xs"
  have d: "dlist h hp (?a @ ?b)" and n: "n \<notin> set (hp # ?a @ ?b)" using assms by simp_all
  have pv: "pprev h (after hp ?b) = Some (before hp ?a)"
    using d dlist_split [of h hp ?a ?b] by (simp add: dlist_def)
  have "n \<notin> set (hp # ?a)" "n \<notin> set (?b @ [hp])"
    using assms(2) by (auto dest: set_takeWhileD set_dropWhileD)
  then have ne: "after hp ?b \<noteq> n" "before hp ?a \<noteq> n" using after_mem [of hp ?b] before_mem [of hp ?a] by metis+
  have "meshx_list_sort_insert cmp hp n h = Some (splice (before hp ?a) n (after hp ?b) h)"
    using dlist_links [OF assms(1)] dlist_ends(1) [OF assms(1)] pv ne
    by (simp add: meshx_list_sort_insert_def list_search_suffix splice_def set_next_def set_prev_def
        fun_upd_twist)
  then show ?thesis using dlist_insert [OF d n] by blast
qed

lemma list_index_suffix:
  "links h (ys @ [hp]) \<Longrightarrow> hp \<notin> set ys \<Longrightarrow>
    list_index_from hp n h (after hp ys) k =
      Some (if n \<in> set ys then k + word_of_nat (length (takeWhile (\<lambda>t. t \<noteq> n) ys)) else - 1)"
proof (induction ys arbitrary: k)
  case Nil
  then show ?case by (subst list_index_from.simps) (simp add: after_def)
next
  case (Cons y ys)
  have "pnext h y = Some (after hp ys)" "links h (ys @ [hp])"
    using Cons.prems(1) by (simp_all add: links_front)
  then show ?case using Cons by (subst list_index_from.simps) (auto simp: after_def algebra_simps)
qed

lemma list_index:
  assumes "dlist h hp xs"
  shows "meshx_list_index hp n h =
    Some (if n \<in> set xs then word_of_nat (length (takeWhile (\<lambda>t. t \<noteq> n) xs)) else - 1)"
  using dlist_links [OF assms] dlist_ends(1) [OF assms]
  by (simp add: meshx_list_index_def list_index_suffix)

lemma list_init: "dlist (meshx_list_init_head hp h) hp []"
  by (simp add: meshx_list_init_head_def dlist_def)

section \<open>The queue\<close>

record queue_heap =
  pfront :: "ptr option"
  pback :: "ptr option"
  qnext :: "ptr \<Rightarrow> ptr option"

definition meshx_queue_init :: "queue_heap \<Rightarrow> queue_heap" where
  "meshx_queue_init q = q\<lparr>pfront := None, pback := None\<rparr>"

definition meshx_queue_push :: "ptr \<Rightarrow> queue_heap \<Rightarrow> queue_heap option" where
  "meshx_queue_push pelem q = do {
    let q = q\<lparr>qnext := (qnext q)(pelem := None)\<rparr> in do {
      q \<leftarrow> (if pfront q = None then Some (q\<lparr>pfront := Some pelem\<rparr>)
            else do { b \<leftarrow> pback q; Some (q\<lparr>qnext := (qnext q)(b := Some pelem)\<rparr>) });
      Some (q\<lparr>pback := Some pelem\<rparr>)
    }
  }"

definition meshx_queue_pop :: "queue_heap \<Rightarrow> (ptr option \<times> queue_heap) option" where
  "meshx_queue_pop q =
    (let pelem = pfront q;
         q = (case pelem of None \<Rightarrow> q | Some p \<Rightarrow> q\<lparr>pfront := qnext q p\<rparr>);
         q = (if pfront q = None then q\<lparr>pback := None\<rparr> else q)
     in Some (pelem, q))"

text \<open>The queue as a list: a chain from the front, ending in null at the back.\<close>

fun chain :: "(ptr \<Rightarrow> ptr option) \<Rightarrow> ptr option \<Rightarrow> ptr list \<Rightarrow> bool" where
  "chain nx p [] \<longleftrightarrow> p = None"
| "chain nx p (x # xs) \<longleftrightarrow> p = Some x \<and> chain nx (nx x) xs"

definition qlist :: "queue_heap \<Rightarrow> ptr list \<Rightarrow> bool" where
  "qlist q xs \<longleftrightarrow> distinct xs \<and> chain (qnext q) (pfront q) xs \<and>
    pback q = (if xs = [] then None else Some (last xs))"

lemma chain_upd: "p \<notin> set xs \<Longrightarrow> chain (nx(p := v)) f xs = chain nx f xs"
  by (induction xs arbitrary: f) auto

lemma chain_snoc:
  "distinct xs \<Longrightarrow> n \<notin> set xs \<Longrightarrow> nx n = None \<Longrightarrow> xs \<noteq> [] \<Longrightarrow> chain nx f xs \<Longrightarrow>
    chain (nx(last xs := Some n)) f (xs @ [n])"
proof (induction xs arbitrary: f)
  case (Cons x xs)
  then show ?case by (cases xs) auto
qed simp

lemma queue_push:
  assumes "qlist q xs" "n \<notin> set xs"
  shows "\<exists>q'. meshx_queue_push n q = Some q' \<and> qlist q' (xs @ [n])"
proof (cases xs)
  case Nil
  then show ?thesis using assms by (auto simp: meshx_queue_push_def qlist_def)
next
  case (Cons x r)
  have "chain ((qnext q)(n := None)) (pfront q) xs" using assms by (simp add: qlist_def chain_upd)
  from chain_snoc [OF _ assms(2) _ _ this] have
    "chain ((qnext q)(n := None, last xs := Some n)) (pfront q) (xs @ [n])"
    using assms(1) Cons by (simp add: qlist_def)
  moreover have "pfront q \<noteq> None" "pback q = Some (last xs)" using assms(1) Cons by (auto simp: qlist_def)
  ultimately show ?thesis using assms Cons by (auto simp: meshx_queue_push_def qlist_def)
qed

lemma queue_pop:
  assumes "qlist q xs"
  shows "case xs of
      [] \<Rightarrow> meshx_queue_pop q = Some (None, q)
    | x # r \<Rightarrow> \<exists>q'. meshx_queue_pop q = Some (Some x, q') \<and> qlist q' r"
proof (cases xs)
  case (Cons x r)
  have "chain (qnext q) (qnext q x) r" using assms Cons by (simp add: qlist_def)
  then have "(qnext q x = None) = (r = [])" by (cases r) auto
  then show ?thesis using assms Cons by (auto simp: meshx_queue_pop_def qlist_def Let_def)
next
  case Nil
  then show ?thesis using assms by (simp add: meshx_queue_pop_def qlist_def Let_def)
qed

section \<open>First in, first out\<close>

text \<open>What the tasks, messages and packets kept in these containers rely on: adding at one
  end, taking from the other.\<close>

locale fifo =
  fixes rep :: "'h \<Rightarrow> ptr list \<Rightarrow> bool"
    and ok :: "'h \<Rightarrow> ptr \<Rightarrow> bool"
    and push :: "ptr \<Rightarrow> 'h \<Rightarrow> 'h option"
    and pop :: "'h \<Rightarrow> (ptr option \<times> 'h) option"
  assumes push_rep: "rep h xs \<Longrightarrow> ok h n \<Longrightarrow> n \<notin> set xs \<Longrightarrow> \<exists>h'. push n h = Some h' \<and> rep h' (xs @ [n])"
    and push_ok: "push n h = Some h' \<Longrightarrow> ok h' m = ok h m"
    and pop_cons: "rep h (x # xs) \<Longrightarrow> \<exists>h'. pop h = Some (Some x, h') \<and> rep h' xs"
    and pop_nil: "rep h [] \<Longrightarrow> pop h = Some (None, h)"
begin

fun pushes :: "ptr list \<Rightarrow> 'h \<Rightarrow> 'h option" where
  "pushes [] h = Some h"
| "pushes (n # ns) h = do { h \<leftarrow> push n h; pushes ns h }"

fun pops :: "nat \<Rightarrow> 'h \<Rightarrow> (ptr option list \<times> 'h) option" where
  "pops 0 h = Some ([], h)"
| "pops (Suc k) h = do { (p, h) \<leftarrow> pop h; (ps, h) \<leftarrow> pops k h; Some (p # ps, h) }"

lemma pushes_rep:
  "rep h xs \<Longrightarrow> list_all (ok h) ns \<Longrightarrow> distinct ns \<Longrightarrow> set ns \<inter> set xs = {} \<Longrightarrow>
    \<exists>h'. pushes ns h = Some h' \<and> rep h' (xs @ ns)"
proof (induction ns arbitrary: h xs)
  case (Cons n ns)
  then obtain h1 where h1: "push n h = Some h1" "rep h1 (xs @ [n])" using push_rep [of h xs n] by auto
  have "list_all (ok h1) ns" using Cons.prems(2) push_ok [OF h1(1)] by (simp add: list_all_iff)
  then show ?case using Cons.IH [OF h1(2)] Cons.prems h1 by auto
qed simp

lemma pops_rep: "rep h (xs @ ys) \<Longrightarrow> \<exists>h'. pops (length xs) h = Some (map Some xs, h') \<and> rep h' ys"
proof (induction xs arbitrary: h)
  case (Cons x xs)
  then obtain h1 where "pop h = Some (Some x, h1)" "rep h1 (xs @ ys)" using pop_cons [of h x] by auto
  then show ?case using Cons.IH by fastforce
qed simp

lemma pops_all: "rep h xs \<Longrightarrow> \<exists>h'. pops (Suc (length xs)) h = Some (map Some xs @ [None], h')"
proof (induction xs arbitrary: h)
  case Nil
  then show ?case using pop_nil by simp
next
  case (Cons x xs)
  then obtain h1 where h1: "pop h = Some (Some x, h1)" "rep h1 xs" using pop_cons by blast
  obtain h2 where "pops (Suc (length xs)) h1 = Some (map Some xs @ [None], h2)"
    using Cons.IH [OF h1(2)] by blast
  then show ?case using h1(1) by (simp del: pops.simps add: pops.simps(2) [of "Suc (length xs)"])
qed

lemma fifo_order:
  assumes "rep h []" "list_all (ok h) ns" "distinct ns"
  shows "\<exists>h1 h2. pushes ns h = Some h1 \<and> pops (Suc (length ns)) h1 = Some (map Some ns @ [None], h2)"
  using pushes_rep [OF assms(1,2,3)] pops_all by fastforce

end

interpretation lst: fifo "\<lambda>h. dlist h hp" "\<lambda>h n. n \<noteq> hp" "meshx_list_append hp" "meshx_list_pop hp"
proof (unfold_locales, goal_cases)
  case (1 h xs n)
  then show ?case using list_append [of h hp xs n] by simp
next
  case (2 n h h' m)
  then show ?case by simp
next
  case (3 h x xs)
  then show ?case using list_pop [of h hp "x # xs"] by simp
next
  case (4 h)
  then show ?case using list_pop [of h hp "[]"] by simp
qed

interpretation que: fifo qlist "\<lambda>_ _. True" meshx_queue_push meshx_queue_pop
proof (unfold_locales, goal_cases)
  case (1 h xs n)
  then show ?case using queue_push [of h xs n] by simp
next
  case (2 n h h' m)
  then show ?case by simp
next
  case (3 h x xs)
  then show ?case using queue_pop [of h "x # xs"] by simp
next
  case (4 h)
  then show ?case using queue_pop [of h "[]"] by simp
qed

section \<open>Properties\<close>

lemma list_first_last:
  assumes "dlist h hp xs" "k \<noteq> hp"
  shows "meshx_list_is_first hp k h \<longleftrightarrow> xs \<noteq> [] \<and> hd xs = k" "meshx_list_is_last hp k h \<longleftrightarrow> xs \<noteq> [] \<and> last xs = k"
  using dlist_ends [OF assms(1)] assms(2)
  by (auto simp: meshx_list_is_first_def meshx_list_is_last_def after_def before_def hd_append)

text \<open>C12: On a well-formed circular list, empty or not, every pointer operation of the library is
  the list function it stands for: append and prepend add at the ends, the sorted insertion adds
  before the first node the comparison accepts, pop takes the first node and gives null on an
  empty list, peek reads it, remove deletes a node wherever it is and fails its assertion the
  second time, and exists, index (the position of a node, or all ones), length, is_empty, is_first
  and is_last read the list.  None of them follows a null pointer.\<close>

theorem list_refines:
  assumes "dlist h hp xs" "n \<notin> set (hp # xs)"
  shows "dlist (meshx_list_init_head hp h) hp [] \<and> meshx_list_remove n (meshx_list_init_node n h) = None \<and>
    (\<exists>h'. meshx_list_append hp n h = Some h' \<and> dlist h' hp (xs @ [n])) \<and>
    (\<exists>h'. meshx_list_prepend hp n h = Some h' \<and> dlist h' hp (n # xs)) \<and>
    (\<exists>h'. meshx_list_sort_insert cmp hp n h = Some h' \<and>
      dlist h' hp (takeWhile (\<lambda>t. \<not> cmp n t) xs @ n # dropWhile (\<lambda>t. \<not> cmp n t) xs)) \<and>
    (case xs of [] \<Rightarrow> meshx_list_pop hp h = Some (None, h)
     | x # r \<Rightarrow> \<exists>h'. meshx_list_pop hp h = Some (Some x, h') \<and> dlist h' hp r) \<and>
    meshx_list_peek hp h = (case xs of [] \<Rightarrow> None | x # r \<Rightarrow> Some x) \<and>
    (\<forall>ys m zs. xs = ys @ m # zs \<longrightarrow>
      (\<exists>h'. meshx_list_remove m h = Some h' \<and> dlist h' hp (ys @ zs) \<and> meshx_list_remove m h' = None)) \<and>
    meshx_list_exists hp k h = Some (k \<in> set xs) \<and>
    meshx_list_index hp k h = Some (if k \<in> set xs then word_of_nat (length (takeWhile (\<lambda>t. t \<noteq> k) xs)) else - 1) \<and>
    meshx_list_length hp h = Some (word_of_nat (length xs)) \<and>
    meshx_list_is_empty hp h = (xs = []) \<and>
    (k \<noteq> hp \<longrightarrow> meshx_list_is_first hp k h = (xs \<noteq> [] \<and> hd xs = k) \<and>
      meshx_list_is_last hp k h = (xs \<noteq> [] \<and> last xs = k))"
proof -
  have "meshx_list_remove n (meshx_list_init_node n h) = None"
    by (simp add: meshx_list_remove_def meshx_list_init_node_def)
  moreover have "\<forall>ys m zs. xs = ys @ m # zs \<longrightarrow>
      (\<exists>h'. meshx_list_remove m h = Some h' \<and> dlist h' hp (ys @ zs) \<and> meshx_list_remove m h' = None)"
    using list_remove assms(1) by blast
  moreover have "k \<noteq> hp \<longrightarrow> meshx_list_is_first hp k h = (xs \<noteq> [] \<and> hd xs = k) \<and>
      meshx_list_is_last hp k h = (xs \<noteq> [] \<and> last xs = k)"
    using list_first_last [OF assms(1)] by simp
  ultimately show ?thesis
    using list_append [OF assms] list_prepend [OF assms] list_sort_insert [OF assms, of cmp] list_pop [OF assms(1)]
      list_peek [OF assms(1)] list_exists [OF assms(1), of k] list_index [OF assms(1), of k] list_length [OF assms(1)]
      list_empty [OF assms(1)] list_init [of hp h]
    by (intro conjI) assumption+
qed

text \<open>The pointer list built by appending 1, 2 and 3 behind the head 0.\<close>

definition demo_heap :: list_heap where
  "demo_heap =
    \<lparr>pprev = (\<lambda>_. None)(0 := Some 3, 1 := Some 0, 2 := Some 1, 3 := Some 2),
     pnext = (\<lambda>_. None)(0 := Some 1, 1 := Some 2, 2 := Some 3, 3 := Some 0)\<rparr>"

theorem list_refines_witness:
  "(\<exists>h'. meshx_list_remove 2 demo_heap = Some h' \<and> dlist h' 0 ([1] @ [3])) \<and>
    meshx_list_index 0 3 demo_heap = Some 2 \<and> meshx_list_index 0 9 demo_heap = Some (- 1)"
proof -
  have d: "dlist demo_heap 0 [1, 2, 3]" by (simp add: dlist_def demo_heap_def)
  have "7 \<notin> set [0, 1, 2, 3 :: ptr]" by simp
  note q = list_refines [OF d this, of "\<lambda>_ _. True"]
  have "\<forall>ys m zs. [1, 2, 3] = ys @ m # zs \<longrightarrow> (\<exists>h'. meshx_list_remove m demo_heap = Some h' \<and>
      dlist h' 0 (ys @ zs) \<and> meshx_list_remove m h' = None)"
    using q [of 3] by (elim conjE) assumption
  from this [rule_format, of "[1]" 2 "[3]"] have "\<exists>h'. meshx_list_remove 2 demo_heap = Some h' \<and> dlist h' 0 ([1] @ [3])"
    by fastforce
  moreover have "meshx_list_index 0 3 demo_heap = Some 2" using q [of 3] by (elim conjE) simp
  moreover have "meshx_list_index 0 9 demo_heap = Some (- 1)" using q [of 9] by (elim conjE) simp
  ultimately show ?thesis by simp
qed

text \<open>The queue and the list give their nodes back in the order they were added: pushing
  distinct fresh nodes into an empty queue succeeds, and popping once more than their
  number returns them in order and then null.\<close>

lemma queue_fifo:
  assumes "distinct ns"
  shows "\<exists>h1 h2. que.pushes ns (meshx_queue_init q) = Some h1 \<and>
    que.pops (Suc (length ns)) h1 = Some (map Some ns @ [None], h2)"
  using que.fifo_order [of "meshx_queue_init q" ns] assms
  by (simp add: qlist_def meshx_queue_init_def list_all_iff)

end
