(* ===== verification/Mesh_Timer.thy ===== *)
theory Mesh_Timer
  imports Mesh_Prelude
begin

text \<open>
  The software timers of \<^verbatim>\<open>platform/linux/meshx_timer.c\<close>: a timer handle is a wrapper
  record or null.  Whether the operating system grants a new timer is drawn from the
  environment; \<^verbatim>\<open>timer_settime\<close> is only ever given well-formed times (the nanosecond
  field is below one second), for which POSIX promises success.
\<close>

datatype meshx_timer_mode =
    MESHX_TIMER_MODE_SINGLE_SHOT
  | MESHX_TIMER_MODE_REPEATED

record meshx_timer =
  tm_mode :: meshx_timer_mode
  tm_is_active :: bool
  tm_it_interval :: u32
  tm_it_value :: u32

type_synonym meshx_timer_t = "meshx_timer option"

named_theorems timer_simps "the timer operations"

text \<open>Creation leaves the handle as it was when it fails.\<close>

definition meshx_timer_create ::
  "meshx_timer_t \<Rightarrow> meshx_timer_mode \<Rightarrow> sys_env \<Rightarrow> errno \<times> meshx_timer_t \<times> sys_env" where
  "meshx_timer_create ptimer mode e =
    (case meshx_malloc_ok e of
       (False, e) \<Rightarrow> (MESHX_ERR_MEM, ptimer, e)
     | (True, e) \<Rightarrow>
         (case timer_create_ok e of
            (False, e) \<Rightarrow> (MESHX_ERR_FAIL, ptimer, e)
          | (True, e) \<Rightarrow>
              (MESHX_SUCCESS,
               Some \<lparr>tm_mode = mode, tm_is_active = False, tm_it_interval = 0, tm_it_value = 0\<rparr>,
               e)))"

definition meshx_timer_start :: "meshx_timer_t \<Rightarrow> u32 \<Rightarrow> errno \<times> meshx_timer_t" where
  "meshx_timer_start tm interval =
    (case tm of
       None \<Rightarrow> (MESHX_ERR_INVAL, None)
     | Some w \<Rightarrow>
         (MESHX_SUCCESS,
          Some (w\<lparr>tm_it_interval :=
                    (if tm_mode w = MESHX_TIMER_MODE_SINGLE_SHOT then 0 else interval),
                  tm_it_value := interval,
                  tm_is_active := (interval \<noteq> 0)\<rparr>)))"

definition meshx_timer_is_active :: "meshx_timer_t \<Rightarrow> bool" where
  "meshx_timer_is_active tm = (case tm of None \<Rightarrow> False | Some w \<Rightarrow> tm_is_active w)"

definition meshx_timer_stop :: "meshx_timer_t \<Rightarrow> errno \<times> meshx_timer_t" where
  "meshx_timer_stop tm = meshx_timer_start tm 0"

definition meshx_timer_restart :: "meshx_timer_t \<Rightarrow> u32 \<Rightarrow> errno \<times> meshx_timer_t" where
  "meshx_timer_restart tm interval =
    (let tm = (if meshx_timer_is_active tm then snd (meshx_timer_stop tm) else tm)
     in meshx_timer_start tm interval)"

definition meshx_timer_change_interval :: "meshx_timer_t \<Rightarrow> u32 \<Rightarrow> errno \<times> meshx_timer_t" where
  "meshx_timer_change_interval tm interval =
    (let tm = (if meshx_timer_is_active tm then snd (meshx_timer_stop tm) else tm)
     in meshx_timer_start tm interval)"

text \<open>Deletion frees the wrapper; the callers clear their handle.\<close>

definition meshx_timer_delete :: "meshx_timer_t \<Rightarrow> meshx_timer_t" where
  "meshx_timer_delete tm = None"

text \<open>Expiry: a single-shot timer stops being active before its handler runs.\<close>

definition timer_handle_thread :: "meshx_timer \<Rightarrow> meshx_timer" where
  "timer_handle_thread w =
    (if tm_mode w = MESHX_TIMER_MODE_SINGLE_SHOT then w\<lparr>tm_is_active := False\<rparr> else w)"

lemma timer_start_null [timer_simps]:
  "meshx_timer_start tm i = (MESHX_ERR_INVAL, None) \<longleftrightarrow> tm = None"
  by (simp add: meshx_timer_start_def split: option.splits)

lemma timer_start_is_none [timer_simps, simp]:
  "snd (meshx_timer_start tm i) = None \<longleftrightarrow> tm = None"
  by (simp add: meshx_timer_start_def split: option.splits)

lemma timer_start_active [timer_simps, simp]:
  "meshx_timer_is_active (snd (meshx_timer_start tm i)) \<longleftrightarrow> tm \<noteq> None \<and> i \<noteq> 0"
  by (simp add: meshx_timer_start_def meshx_timer_is_active_def split: option.splits)

lemma timer_stop_active [timer_simps, simp]:
  "\<not> meshx_timer_is_active (snd (meshx_timer_stop tm))"
  by (simp add: meshx_timer_stop_def)

lemma timer_stop_is_none [timer_simps, simp]: "snd (meshx_timer_stop tm) = None \<longleftrightarrow> tm = None"
  by (simp add: meshx_timer_stop_def)

text \<open>Restarting and changing the interval are the same as starting afresh: whatever the
  timer was doing, the last interval wins.\<close>

lemma timer_restart_start [timer_simps]: "meshx_timer_restart tm i = meshx_timer_start tm i"
  by (cases tm) (simp_all add: meshx_timer_restart_def meshx_timer_stop_def meshx_timer_start_def
      meshx_timer_is_active_def)

lemma timer_change_interval_start [timer_simps]:
  "meshx_timer_change_interval tm i = meshx_timer_start tm i"
  by (simp add: meshx_timer_change_interval_def timer_restart_start [unfolded meshx_timer_restart_def])

end
