(* ===== verification/Mesh_Node.thy ===== *)
theory Mesh_Node
  imports Mesh_Prelude
begin

text \<open>
  The node's configuration and parameters, \<^verbatim>\<open>mesh/node/meshx_node.c\<close> with the types of
  \<^verbatim>\<open>mesh/inc/meshx_node.h\<close>.  A pointer argument is an option, a value passed through
  a \<^verbatim>\<open>void *\<close> is the byte string it points to.
\<close>

datatype meshx_role = MESHX_ROLE_DEVICE | MESHX_ROLE_PROVISIONER | MESHX_ROLE_ALL

record meshx_node_config =
  role :: meshx_role
  dev_uuid :: bytes
  adv_bearer_enable :: bool
  gatt_bearer_enable :: bool
  net_key_num :: u16
  app_key_num :: u16
  dev_key_num :: u16
  nmc_cfg_size :: u16
  rpl_cfg_size :: u16
  gap_task_num :: u8
  trans_tx_task_num :: u8
  trans_rx_task_num :: u8
  trans_tx_retry_times :: u8

record meshx_node_param =
  node_addr :: u16
  udb_interval :: u32
  snb_interval :: u32
  trans_retrans_count :: u8
  default_ttl :: u8

record meshx_node_params =
  config :: meshx_node_config
  param :: meshx_node_param

datatype meshx_node_param_type =
    MESHX_NODE_PARAM_TYPE_NODE_ADDR
  | MESHX_NODE_PARAM_TYPE_UDB_INTERVAL
  | MESHX_NODE_PARAM_TYPE_SNB_INTERVAL
  | MESHX_NODE_PARAM_TYPE_TRANS_RETRANS_COUNT
  | MESHX_NODE_PARAM_TYPE_DEFAULT_TTL
  | MESHX_NODE_PARAM_TYPE_OTHER nat

definition node_default_config :: meshx_node_config where
  "node_default_config =
    \<lparr>role = MESHX_ROLE_DEVICE,
     dev_uuid = [0, 1, 2, 3, 4, 5, 6, 7, 8, 9, 10, 11, 12, 13, 14, 15],
     adv_bearer_enable = True, gatt_bearer_enable = True,
     net_key_num = 2, app_key_num = 2, dev_key_num = 10,
     nmc_cfg_size = 64, rpl_cfg_size = 16, gap_task_num = 20,
     trans_tx_task_num = 3, trans_rx_task_num = 3, trans_tx_retry_times = 2\<rparr>"

definition node_default_param :: meshx_node_param where
  "node_default_param =
    \<lparr>node_addr = MESHX_ADDRESS_UNASSIGNED, udb_interval = 50, snb_interval = 100,
     trans_retrans_count = 2, default_ttl = 5\<rparr>"

text \<open>The configuration's UUID starts with the 6-byte address of the radio, an argument.\<close>

definition meshx_node_config_init ::
  "bytes \<Rightarrow> meshx_node_config option \<Rightarrow> errno \<times> meshx_node_config option" where
  "meshx_node_config_init mac pconfig =
    (case pconfig of
       None \<Rightarrow> (MESHX_ERR_INVAL, None)
     | Some _ \<Rightarrow>
         (MESHX_SUCCESS,
          Some (node_default_config\<lparr>dev_uuid := take 6 mac @ drop 6 (dev_uuid node_default_config)\<rparr>)))"

definition meshx_node_config_set ::
  "meshx_node_config option \<Rightarrow> meshx_node_params \<Rightarrow> errno \<times> meshx_node_params" where
  "meshx_node_config_set pconfig s =
    (case pconfig of
       None \<Rightarrow> (MESHX_ERR_INVAL, s)
     | Some c \<Rightarrow> (MESHX_SUCCESS, s\<lparr>config := c\<rparr>))"

definition meshx_node_params_init ::
  "meshx_node_param option \<Rightarrow> errno \<times> meshx_node_param option" where
  "meshx_node_params_init pparam =
    (case pparam of
       None \<Rightarrow> (MESHX_ERR_INVAL, None)
     | Some _ \<Rightarrow> (MESHX_SUCCESS, Some node_default_param))"

definition meshx_node_params_set ::
  "meshx_node_param option \<Rightarrow> meshx_node_params \<Rightarrow> errno \<times> meshx_node_params" where
  "meshx_node_params_set pparam s =
    (case pparam of
       None \<Rightarrow> (MESHX_ERR_INVAL, s)
     | Some p \<Rightarrow> (MESHX_SUCCESS, s\<lparr>param := p\<rparr>))"

text \<open>The getters that return a whole struct.\<close>

definition meshx_node_config_get :: "meshx_node_params \<Rightarrow> meshx_node_config" where
  "meshx_node_config_get s = config s"

definition meshx_node_params_get :: "meshx_node_params \<Rightarrow> meshx_node_param" where
  "meshx_node_params_get s = param s"

definition meshx_node_param_set ::
  "meshx_node_param_type \<Rightarrow> bytes \<Rightarrow> meshx_node_params \<Rightarrow> (errno \<times> meshx_node_params) option" where
  "meshx_node_param_set type pdata s =
    (case type of
       MESHX_NODE_PARAM_TYPE_NODE_ADDR \<Rightarrow> do {
         d \<leftarrow> mem_read pdata 0 2;
         let addr = of_mem16 d in
         Some (MESHX_SUCCESS,
               if MESHX_ADDRESS_IS_UNICAST addr then s\<lparr>param := (param s)\<lparr>node_addr := addr\<rparr>\<rparr> else s)
       }
     | MESHX_NODE_PARAM_TYPE_UDB_INTERVAL \<Rightarrow> do {
         d \<leftarrow> mem_read pdata 0 4;
         Some (MESHX_SUCCESS, s\<lparr>param := (param s)\<lparr>udb_interval := of_mem32 d * 100\<rparr>\<rparr>)
       }
     | MESHX_NODE_PARAM_TYPE_SNB_INTERVAL \<Rightarrow> do {
         d \<leftarrow> mem_read pdata 0 4;
         Some (MESHX_SUCCESS, s\<lparr>param := (param s)\<lparr>snb_interval := of_mem32 d * 100\<rparr>\<rparr>)
       }
     | MESHX_NODE_PARAM_TYPE_TRANS_RETRANS_COUNT \<Rightarrow> do {
         d \<leftarrow> mem_read pdata 0 1;
         Some (MESHX_SUCCESS, s\<lparr>param := (param s)\<lparr>trans_retrans_count := hd d\<rparr>\<rparr>)
       }
     | MESHX_NODE_PARAM_TYPE_DEFAULT_TTL \<Rightarrow> do {
         d \<leftarrow> mem_read pdata 0 1;
         Some (MESHX_SUCCESS, s\<lparr>param := (param s)\<lparr>default_ttl := hd d\<rparr>\<rparr>)
       }
     | MESHX_NODE_PARAM_TYPE_OTHER _ \<Rightarrow> Some (MESHX_ERR_INVAL, s))"

text \<open>Reading a parameter writes it to the destination buffer; the case of the default
  TTL has no \<^verbatim>\<open>break\<close> and runs into the default case.\<close>

definition meshx_node_param_get ::
  "meshx_node_param_type \<Rightarrow> bytes \<Rightarrow> meshx_node_params \<Rightarrow> (errno \<times> bytes) option" where
  "meshx_node_param_get type pdata s =
    (case type of
       MESHX_NODE_PARAM_TYPE_NODE_ADDR \<Rightarrow> do {
         d \<leftarrow> mem_write pdata 0 (mem16 (node_addr (param s))); Some (MESHX_SUCCESS, d) }
     | MESHX_NODE_PARAM_TYPE_UDB_INTERVAL \<Rightarrow> do {
         d \<leftarrow> mem_write pdata 0 (mem32 (udb_interval (param s) div 100)); Some (MESHX_SUCCESS, d) }
     | MESHX_NODE_PARAM_TYPE_SNB_INTERVAL \<Rightarrow> do {
         d \<leftarrow> mem_write pdata 0 (mem32 (snb_interval (param s) div 100)); Some (MESHX_SUCCESS, d) }
     | MESHX_NODE_PARAM_TYPE_TRANS_RETRANS_COUNT \<Rightarrow> do {
         d \<leftarrow> mem_write pdata 0 [trans_retrans_count (param s)]; Some (MESHX_SUCCESS, d) }
     | MESHX_NODE_PARAM_TYPE_DEFAULT_TTL \<Rightarrow> do {
         d \<leftarrow> mem_write pdata 0 [default_ttl (param s)]; Some (MESHX_ERR_INVAL, d) }
     | MESHX_NODE_PARAM_TYPE_OTHER _ \<Rightarrow> Some (MESHX_ERR_INVAL, pdata))"

definition meshx_node_is_my_address :: "u16 \<Rightarrow> meshx_node_params \<Rightarrow> bool" where
  "meshx_node_is_my_address addr s \<longleftrightarrow> addr = node_addr (param s)"

definition meshx_node_is_accept_address :: "u16 \<Rightarrow> meshx_node_params \<Rightarrow> bool" where
  "meshx_node_is_accept_address addr s \<longleftrightarrow> False"

text \<open>The address of a node is unassigned or unicast, and stays so.\<close>

definition node_addr_ok :: "meshx_node_params \<Rightarrow> bool" where
  "node_addr_ok s \<longleftrightarrow>
    MESHX_ADDRESS_IS_UNASSIGNED (node_addr (param s)) \<or> MESHX_ADDRESS_IS_UNICAST (node_addr (param s))"

lemma node_default_addr_ok: "param s = node_default_param \<Longrightarrow> node_addr_ok s"
  by (simp add: node_addr_ok_def node_default_param_def MESHX_ADDRESS_IS_UNASSIGNED_def)

lemma node_param_set_addr_ok:
  "meshx_node_param_set type pdata s = Some (r, s') \<Longrightarrow> node_addr_ok s \<Longrightarrow> node_addr_ok s'"
  by (auto simp: meshx_node_param_set_def node_addr_ok_def Let_def
      split: meshx_node_param_type.splits Option.bind_splits if_splits)

end
