(* ===== verification/Mesh_Gap.thy ===== *)
theory Mesh_Gap
  imports Mesh_Node "HOL-Library.Multiset"
begin

text \<open>
  The advertising scheduler \<^verbatim>\<open>mesh/gap/meshx_gap.c\<close> and the advertising bearer
  \<^verbatim>\<open>mesh/bearer/meshx_bearer_adv.c\<close> above it.  The action nodes are the numbers
  below the configured task number; the idle and active lists are HOL lists of nodes (the
  pointer lists refine them, theory \<^verbatim>\<open>Mesh_List\<close>) and the contents of the nodes a
  function.  Calls into the platform are appended to a log.  \<^verbatim>\<open>None\<close> is a failed
  assertion.
\<close>

section \<open>Task pools\<close>

text \<open>What the components that keep preallocated tasks on an idle and an active list rely
  on: every operation keeps each of the n tasks on exactly one of the two lists.\<close>

locale task_pool =
  fixes idle :: "'s \<Rightarrow> nat list"
    and active :: "'s \<Rightarrow> nat list"
    and step :: "'s \<Rightarrow> 's \<Rightarrow> bool"
    and n :: nat
  assumes step_pool: "step s s' \<Longrightarrow> mset (idle s) + mset (active s) = mset [0..<n] \<Longrightarrow>
    mset (idle s') + mset (active s') = mset [0..<n]"
begin

definition pool_ok :: "'s \<Rightarrow> bool" where
  "pool_ok s \<longleftrightarrow> mset (idle s) + mset (active s) = mset [0..<n]"

lemma pool_run: "step\<^sup>*\<^sup>* s s' \<Longrightarrow> pool_ok s \<Longrightarrow> pool_ok s'"
  by (induction rule: rtranclp_induct) (simp_all only: pool_ok_def step_pool)

lemma pool_split:
  assumes "pool_ok s"
  shows "distinct (idle s @ active s)" "set (idle s) \<union> set (active s) = {0..<n}"
    "length (idle s) + length (active s) = n"
proof -
  have m: "mset (idle s @ active s) = mset [0..<n]" using assms by (simp add: pool_ok_def)
  show "distinct (idle s @ active s)" using m by (metis distinct_upt mset_eq_imp_distinct_iff)
  show "set (idle s) \<union> set (active s) = {0..<n}" using m by (metis set_append set_mset_mset set_upt)
  show "length (idle s) + length (active s) = n" using m by (metis length_append length_upt mset_eq_length minus_nat.diff_0)
qed

end

section \<open>State\<close>

datatype meshx_gap_adv_type =
    MESHX_GAP_ADV_TYPE_IND
  | MESHX_GAP_ADV_TYPE_DIRECT_IND
  | MESHX_GAP_ADV_TYPE_SCAN_IND
  | MESHX_GAP_ADV_TYPE_NONCONN_IND
  | MESHX_GAP_ADV_TYPE_DIRECTED_IND

datatype meshx_gap_scan_type = MESHX_GAP_SCAN_TYPE_PASSIVE | MESHX_GAP_SCAN_TYPE_ACTIVE

record scan_param =
  scan_type :: meshx_gap_scan_type
  scan_interval :: u16
  scan_window :: u16

record adv_param =
  adv_interval_min :: u16
  adv_interval_max :: u16
  adv_type :: meshx_gap_adv_type
  adv_channel :: u8

text \<open>The tagged union of an action; the last constructor is an invalid tag.\<close>

datatype meshx_gap_action =
    ACTION_SCAN scan_param
  | ACTION_ADV meshx_gap_adv_type bytes
  | ACTION_OTHER nat

fun action_type :: "meshx_gap_action \<Rightarrow> nat" where
  "action_type (ACTION_SCAN p) = 0"
| "action_type (ACTION_ADV t d) = 1"
| "action_type (ACTION_OTHER k) = k"

datatype hci_call =
    GAP_SCAN_SET_PARAM scan_param
  | GAP_SCAN_START
  | GAP_SCAN_STOP
  | GAP_ADV_SET_PARAM adv_param
  | GAP_ADV_SET_DATA bytes
  | GAP_ADV_START
  | GAP_ADV_STOP

record gap_state =
  gap_enabled :: bool
  gap_adv_state :: u8
  gap_scan_state :: u8
  gap_idle :: "nat list"
  gap_active :: "nat list"
  gap_actions :: "nat \<Rightarrow> meshx_gap_action"
  hci_log :: "hci_call list"
  adv_bearer_type :: u8
  adv_bearer_iface :: "nat option"

definition MESHX_GAP_ADV_STATE_IDLE :: u8 where "MESHX_GAP_ADV_STATE_IDLE = 0"
definition MESHX_GAP_SCAN_STATE_IDLE :: u8 where "MESHX_GAP_SCAN_STATE_IDLE = 0"
definition MESHX_GAP_STACK_STATE_READY :: u8 where "MESHX_GAP_STACK_STATE_READY = 1"
definition MESHX_GAP_ADV_DATA_MAX_LEN :: nat where "MESHX_GAP_ADV_DATA_MAX_LEN = 31"

definition gap_adv_param :: adv_param where
  "gap_adv_param = \<lparr>adv_interval_min = 0x20, adv_interval_max = 0,
    adv_type = MESHX_GAP_ADV_TYPE_NONCONN_IND, adv_channel = 0x07\<rparr>"

definition hci :: "hci_call list \<Rightarrow> gap_state \<Rightarrow> gap_state" where
  "hci cs s = s\<lparr>hci_log := hci_log s @ cs\<rparr>"

lemma hci_sel [simp]:
  "gap_idle (hci cs s) = gap_idle s" "gap_active (hci cs s) = gap_active s"
  "gap_enabled (hci cs s) = gap_enabled s" "gap_adv_state (hci cs s) = gap_adv_state s"
  "gap_scan_state (hci cs s) = gap_scan_state s" "gap_actions (hci cs s) = gap_actions s"
  "hci_log (hci cs s) = hci_log s @ cs" "adv_bearer_type (hci cs s) = adv_bearer_type s"
  by (simp_all add: hci_def)

section \<open>The scheduler\<close>

text \<open>Filling the idle list from the array of nodes.\<close>

definition fill_idle :: "u8 \<Rightarrow> nat list" where
  "fill_idle task_num = foldl (\<lambda>xs i. xs @ [i]) [] [0..<unat task_num]"

definition meshx_gap_init ::
  "meshx_node_config \<Rightarrow> gap_state \<times> sys_env \<Rightarrow> errno \<times> gap_state \<times> sys_env" where
  "meshx_gap_init cfg = (\<lambda>(s, e).
    let s = s\<lparr>gap_idle := [], gap_active := []\<rparr> in
    case meshx_malloc_ok e of
      (False, e) \<Rightarrow> (MESHX_ERR_MEM, s, e)
    | (True, e) \<Rightarrow>
        (MESHX_SUCCESS,
         s\<lparr>gap_actions := (\<lambda>_. ACTION_SCAN \<lparr>scan_type = MESHX_GAP_SCAN_TYPE_PASSIVE,
             scan_interval = 0, scan_window = 0\<rparr>),
           gap_idle := fill_idle (gap_task_num cfg), gap_enabled := False\<rparr>, e))"

definition meshx_clear_all_actions :: "meshx_node_config \<Rightarrow> gap_state \<Rightarrow> gap_state" where
  "meshx_clear_all_actions cfg s = s\<lparr>gap_idle := fill_idle (gap_task_num cfg), gap_active := []\<rparr>"

definition MESHX_GAP_SCAN_WINDOW :: u16 where "MESHX_GAP_SCAN_WINDOW = 160"
definition MESHX_GAP_SCAN_INTERVAL :: u16 where "MESHX_GAP_SCAN_INTERVAL = 160"

definition meshx_gap_start :: "gap_state \<Rightarrow> errno \<times> gap_state" where
  "meshx_gap_start s =
    (if gap_enabled s then (MESHX_ERR_ALREADY, s)
     else (MESHX_SUCCESS,
           (hci [GAP_SCAN_SET_PARAM \<lparr>scan_type = MESHX_GAP_SCAN_TYPE_PASSIVE,
                   scan_interval = MESHX_GAP_SCAN_INTERVAL, scan_window = MESHX_GAP_SCAN_WINDOW\<rparr>, GAP_SCAN_START] s)
           \<lparr>gap_enabled := True\<rparr>))"

definition meshx_gap_stop :: "meshx_node_config \<Rightarrow> gap_state \<Rightarrow> gap_state" where
  "meshx_gap_stop cfg s =
    (if gap_enabled s
     then (meshx_clear_all_actions cfg (hci [GAP_SCAN_STOP, GAP_ADV_STOP] s))\<lparr>gap_enabled := False\<rparr>
     else s)"

definition meshx_run_actions :: "gap_state \<Rightarrow> gap_state" where
  "meshx_run_actions s =
    (case gap_active s of
       [] \<Rightarrow> s
     | pnode # _ \<Rightarrow>
         let (action_done, s) =
           (case gap_actions s pnode of
              ACTION_SCAN p \<Rightarrow>
                if gap_scan_state s = MESHX_GAP_SCAN_STATE_IDLE
                then (True, hci [GAP_SCAN_SET_PARAM p, GAP_SCAN_START] s) else (False, s)
            | ACTION_ADV t d \<Rightarrow>
                if gap_adv_state s = MESHX_GAP_ADV_STATE_IDLE
                then (True, hci [GAP_ADV_SET_PARAM (gap_adv_param\<lparr>adv_type := t\<rparr>),
                                 GAP_ADV_SET_DATA d, GAP_ADV_START] s)
                else (False, s)
            | ACTION_OTHER k \<Rightarrow> (False, s))
         in if action_done
            then s\<lparr>gap_active := remove1 pnode (gap_active s), gap_idle := gap_idle s @ [pnode]\<rparr>
            else s)"

datatype meshx_gap_bt_status =
    STACK_STATE_CHANGE u8
  | SCAN_STATE_CHANGE u8
  | ADV_STATE_CHANGE u8
  | CONN_STATE_CHANGE u8 u8 u8

definition meshx_gap_handle_bt_status :: "meshx_gap_bt_status \<Rightarrow> gap_state \<Rightarrow> errno \<times> gap_state" where
  "meshx_gap_handle_bt_status st s =
    (MESHX_SUCCESS,
     case st of
       STACK_STATE_CHANGE x \<Rightarrow>
         if x = MESHX_GAP_STACK_STATE_READY then snd (meshx_gap_start s) else s
     | ADV_STATE_CHANGE x \<Rightarrow>
         let s = s\<lparr>gap_adv_state := x\<rparr>
         in if gap_adv_state s = MESHX_GAP_ADV_STATE_IDLE then meshx_run_actions s else s
     | SCAN_STATE_CHANGE x \<Rightarrow> s\<lparr>gap_scan_state := x\<rparr>
     | CONN_STATE_CHANGE _ _ _ \<Rightarrow> s)"

definition meshx_action_cmp :: "gap_state \<Rightarrow> nat \<Rightarrow> nat \<Rightarrow> bool" where
  "meshx_action_cmp s node_insert node_list \<longleftrightarrow>
    action_type (gap_actions s node_insert) > action_type (gap_actions s node_list)"

text \<open>The sorted insertion of the list library.\<close>

definition sort_insert :: "(nat \<Rightarrow> nat \<Rightarrow> bool) \<Rightarrow> nat \<Rightarrow> nat list \<Rightarrow> nat list" where
  "sort_insert cmp x xs = takeWhile (\<lambda>t. \<not> cmp x t) xs @ x # dropWhile (\<lambda>t. \<not> cmp x t) xs"

definition meshx_sort_insert_action :: "meshx_gap_action \<Rightarrow> gap_state \<Rightarrow> errno \<times> gap_state" where
  "meshx_sort_insert_action a s =
    (case gap_idle s of
       [] \<Rightarrow> (MESHX_ERR_BUSY, s)
     | pnode # rest \<Rightarrow>
         let s = s\<lparr>gap_idle := rest, gap_actions := (gap_actions s)(pnode := a)\<rparr>
         in (MESHX_SUCCESS, s\<lparr>gap_active := sort_insert (meshx_action_cmp s) pnode (gap_active s)\<rparr>))"

definition meshx_append_action :: "meshx_gap_action \<Rightarrow> gap_state \<Rightarrow> errno \<times> gap_state" where
  "meshx_append_action a s =
    (case gap_idle s of
       [] \<Rightarrow> (MESHX_ERR_BUSY, s)
     | pnode # rest \<Rightarrow>
         let s = s\<lparr>gap_idle := rest, gap_actions := (gap_actions s)(pnode := a)\<rparr>
         in (MESHX_SUCCESS, s\<lparr>gap_active := gap_active s @ [pnode]\<rparr>))"

definition meshx_gap_add_action :: "meshx_gap_action \<Rightarrow> gap_state \<Rightarrow> errno \<times> gap_state" where
  "meshx_gap_add_action a s =
    (if \<not> gap_enabled s then (MESHX_ERR_STATE, s)
     else
       let (r, s) = (case a of
                       ACTION_SCAN _ \<Rightarrow> meshx_append_action a s
                     | ACTION_ADV _ _ \<Rightarrow> meshx_sort_insert_action a s
                     | ACTION_OTHER _ \<Rightarrow> (MESHX_ERR_INVAL, s))
       in (r, if r = MESHX_SUCCESS then meshx_run_actions s else s))"

section \<open>The advertising bearer\<close>

definition MESHX_BEARER_TYPE_INVALID :: u8 where "MESHX_BEARER_TYPE_INVALID = 0"
definition MESHX_BEARER_TYPE_ADV :: u8 where "MESHX_BEARER_TYPE_ADV = 1"
definition MESHX_BEARER_TYPE_GATT :: u8 where "MESHX_BEARER_TYPE_GATT = 2"

definition MESHX_GAP_ADTYPE_PB_ADV :: u8 where "MESHX_GAP_ADTYPE_PB_ADV = 0x29"
definition MESHX_GAP_ADTYPE_MESH_MSG :: u8 where "MESHX_GAP_ADTYPE_MESH_MSG = 0x2A"
definition MESHX_GAP_ADTYPE_MESH_BEACON :: u8 where "MESHX_GAP_ADTYPE_MESH_BEACON = 0x2B"

text \<open>A bearer handle: the one advertising bearer, or a GATT bearer of a connection; null is
  \<^verbatim>\<open>None\<close>.\<close>

datatype bearer = BEARER_ADV | BEARER_GATT u16

type_synonym meshx_bearer_t = "bearer option"

definition bearer_type :: "gap_state \<Rightarrow> bearer \<Rightarrow> u8" where
  "bearer_type s b =
    (case b of BEARER_ADV \<Rightarrow> adv_bearer_type s | BEARER_GATT _ \<Rightarrow> MESHX_BEARER_TYPE_GATT)"

definition meshx_bearer_type_get :: "gap_state \<Rightarrow> meshx_bearer_t \<Rightarrow> u8" where
  "meshx_bearer_type_get s b =
    (case b of None \<Rightarrow> MESHX_BEARER_TYPE_INVALID | Some b \<Rightarrow> bearer_type s b)"

definition meshx_bearer_adv_init :: "gap_state \<Rightarrow> errno \<times> gap_state" where
  "meshx_bearer_adv_init s = (MESHX_SUCCESS, s)"

definition meshx_bearer_adv_create :: "gap_state \<Rightarrow> meshx_bearer_t \<times> gap_state" where
  "meshx_bearer_adv_create s =
    (if adv_bearer_type s = MESHX_BEARER_TYPE_ADV then (None, s)
     else (Some BEARER_ADV, s\<lparr>adv_bearer_type := MESHX_BEARER_TYPE_ADV, adv_bearer_iface := None\<rparr>))"

definition meshx_bearer_adv_delete :: "meshx_bearer_t \<Rightarrow> gap_state \<Rightarrow> gap_state option" where
  "meshx_bearer_adv_delete b s =
    (case b of None \<Rightarrow> None | Some _ \<Rightarrow> Some (s\<lparr>adv_bearer_type := 0, adv_bearer_iface := None\<rparr>))"

definition meshx_bearer_adv_get :: "gap_state \<Rightarrow> meshx_bearer_t" where
  "meshx_bearer_adv_get s =
    (if adv_bearer_type s = MESHX_BEARER_TYPE_INVALID then None else Some BEARER_ADV)"

definition MESHX_IS_BEARER_ADV_PKT_TYPE_VALID :: "u8 \<Rightarrow> bool" where
  "MESHX_IS_BEARER_ADV_PKT_TYPE_VALID t \<longleftrightarrow>
    t = MESHX_GAP_ADTYPE_PB_ADV \<or> t = MESHX_GAP_ADTYPE_MESH_MSG \<or> t = MESHX_GAP_ADTYPE_MESH_BEACON"

definition meshx_bearer_adv_send ::
  "meshx_bearer_t \<Rightarrow> u8 \<Rightarrow> bytes \<Rightarrow> gap_state \<Rightarrow> (errno \<times> gap_state) option" where
  "meshx_bearer_adv_send b pkt_type pdata s = do {
    b \<leftarrow> b;
    if \<not> MESHX_IS_BEARER_ADV_PKT_TYPE_VALID pkt_type then None
    else if bearer_type s b \<noteq> MESHX_BEARER_TYPE_ADV then Some (MESHX_ERR_INVAL, s)
    else if length pdata > MESHX_GAP_ADV_DATA_MAX_LEN - 2 then Some (MESHX_ERR_LENGTH, s)
    else let buffer = word_of_nat (length pdata + 1) # pkt_type # pdata
         in Some (meshx_gap_add_action (ACTION_ADV MESHX_GAP_ADV_TYPE_NONCONN_IND buffer) s)
  }"

text \<open>Reception is dispatched to the layers above, which are arguments.\<close>

definition meshx_bearer_adv_receive ::
  "(nat option \<Rightarrow> bytes \<Rightarrow> 's \<Rightarrow> 'r) \<Rightarrow> (meshx_bearer_t \<Rightarrow> bytes \<Rightarrow> 's \<Rightarrow> 'r) \<Rightarrow>
   (meshx_bearer_t \<Rightarrow> bytes \<Rightarrow> 's \<Rightarrow> 'r) \<Rightarrow> ('s \<Rightarrow> errno \<Rightarrow> 'r) \<Rightarrow>
   gap_state \<Rightarrow> meshx_bearer_t \<Rightarrow> u8 \<Rightarrow> bytes \<Rightarrow> 's \<Rightarrow> 'r" where
  "meshx_bearer_adv_receive net_receive prov_receive beacon_receive fail g b adtype pdata s =
    (case b of
       None \<Rightarrow> fail s MESHX_ERR_INVAL
     | Some _ \<Rightarrow>
         if adtype = MESHX_GAP_ADTYPE_MESH_MSG
         then if adv_bearer_iface g = None then fail s MESHX_ERR_CONNECT
              else net_receive (adv_bearer_iface g) pdata s
         else if adtype = MESHX_GAP_ADTYPE_PB_ADV then prov_receive b pdata s
         else if adtype = MESHX_GAP_ADTYPE_MESH_BEACON then beacon_receive b pdata s
         else fail s MESHX_ERR_INVAL_ADTYPE)"

text \<open>The report handler checks the two lengths and passes type and payload on; the outer
  option is a read outside the report.\<close>

definition meshx_gap_handle_adv_report ::
  "(u8 \<Rightarrow> bytes \<Rightarrow> 's \<Rightarrow> 'r) \<Rightarrow> ('s \<Rightarrow> errno \<Rightarrow> 'r) \<Rightarrow> bytes \<Rightarrow> 's \<Rightarrow> 'r option" where
  "meshx_gap_handle_adv_report receive fail pdata s =
    (let len = length pdata in
     if len > MESHX_GAP_ADV_DATA_MAX_LEN \<or> len < 2 then Some (fail s MESHX_ERR_LENGTH)
     else let data_len = unat (pdata ! 0) in
     if data_len \<noteq> len - 1 then Some (fail s MESHX_ERR_LENGTH)
     else do {
       pdu \<leftarrow> mem_read pdata 2 (unat (pdata ! 0 - 1));
       Some (receive (pdata ! 1) pdu s)
     })"

section \<open>Lemmas\<close>

lemma fill_idle_upt: "fill_idle n = [0..<unat n]"
proof -
  have "foldl (\<lambda>xs i. xs @ [i]) ys xs = ys @ xs" for ys xs :: "nat list"
    by (induction xs arbitrary: ys) simp_all
  then show ?thesis by (simp add: fill_idle_def)
qed

definition pool :: "gap_state \<Rightarrow> nat multiset" where
  "pool s = mset (gap_idle s) + mset (gap_active s)"

lemma run_actions_pool [simp]: "pool (meshx_run_actions s) = pool s"
  by (auto simp: meshx_run_actions_def pool_def split: list.splits meshx_gap_action.splits)

lemma sort_insert_mset [simp]: "mset (sort_insert cmp x xs) = add_mset x (mset xs)"
proof -
  have "mset (takeWhile P xs) + mset (dropWhile P xs) = mset xs" for P
    by (metis mset_append takeWhile_dropWhile_id)
  then show ?thesis by (simp add: sort_insert_def)
qed

lemma pool_upd:
  "pool (s\<lparr>gap_idle := xs, gap_actions := f, gap_active := ys\<rparr>) = mset xs + mset ys"
  by (simp add: pool_def)

lemma add_action_pool [simp]: "pool (snd (meshx_gap_add_action a s)) = pool s"
  by (auto simp: meshx_gap_add_action_def meshx_append_action_def meshx_sort_insert_action_def Let_def
      pool_upd split: meshx_gap_action.splits list.splits) (simp_all add: pool_def)

text \<open>The active list is ordered by priority: advertisements before scans.\<close>

definition by_priority :: "gap_state \<Rightarrow> bool" where
  "by_priority s \<longleftrightarrow> sorted_wrt (\<lambda>a b. action_type (gap_actions s a) \<ge> action_type (gap_actions s b)) (gap_active s)
    \<and> (\<forall>a \<in> set (gap_active s). action_type (gap_actions s a) \<le> 1)"

lemma sorted_wrt_sort_insert:
  assumes "sorted_wrt (\<lambda>a b. f a \<ge> (f b :: nat)) xs"
  shows "sorted_wrt (\<lambda>a b. f a \<ge> f b) (sort_insert (\<lambda>a b. f a > f b) x xs)"
proof -
  let ?t = "takeWhile (\<lambda>t. \<not> f x > f t) xs" and ?d = "dropWhile (\<lambda>t. \<not> f x > f t) xs"
  have s: "sorted_wrt (\<lambda>a b. f a \<ge> f b) (?t @ ?d)" using assms by simp
  have t: "f x \<le> f a" if "a \<in> set ?t" for a using set_takeWhileD [OF that] by simp
  have d: "f b \<le> f x" if "b \<in> set ?d" for b
  proof (cases ?d)
    case Nil
    show ?thesis using that unfolding Nil by simp
  next
    case (Cons y ys)
    have "\<not> \<not> f x > f (hd ?d)" by (rule hd_dropWhile) (simp only: Cons list.distinct not_False_eq_True)
    then have "f y < f x" unfolding Cons by simp
    moreover have "f b \<le> f y" using s that Cons by (auto simp: sorted_wrt_append)
    ultimately show ?thesis by simp
  qed
  have "f b \<le> f a" if "a \<in> set ?t" "b \<in> set ?d" for a b
    using t [OF that(1)] d [OF that(2)] by (rule order_trans [rotated])
  then show ?thesis using s t d unfolding sort_insert_def by (simp only: sorted_wrt_append) auto
qed

lemma set_sort_insert [simp]: "set (sort_insert cmp x xs) = insert x (set xs)"
  by (metis set_mset_add_mset_insert set_mset_mset sort_insert_mset)

lemma sorted_wrt_mono_on:
  "sorted_wrt P xs \<Longrightarrow> (\<And>a b. a \<in> set xs \<Longrightarrow> b \<in> set xs \<Longrightarrow> P a b \<Longrightarrow> Q a b) \<Longrightarrow> sorted_wrt Q xs"
  by (induction xs) auto

lemma run_actions_priority: "by_priority s \<Longrightarrow> by_priority (meshx_run_actions s)"
  by (auto simp: meshx_run_actions_def by_priority_def split: list.splits meshx_gap_action.splits)

lemma add_action_priority:
  assumes "by_priority s" "distinct (gap_idle s @ gap_active s)"
  shows "by_priority (snd (meshx_gap_add_action a s))"
proof (cases "gap_enabled s \<and> gap_idle s \<noteq> [] \<and> action_type a \<le> 1 \<and> (\<forall>k. a \<noteq> ACTION_OTHER k)")
  case False
  then show ?thesis using assms(1)
    by (auto simp: meshx_gap_add_action_def meshx_append_action_def meshx_sort_insert_action_def
        split: meshx_gap_action.splits list.splits)
next
  case True
  then obtain p rest where p: "gap_idle s = p # rest" by (cases "gap_idle s") auto
  define acts where "acts = (gap_actions s)(p := a)"
  define s1 where "s1 = s\<lparr>gap_idle := rest, gap_actions := acts\<rparr>"
  have np: "p \<notin> set (gap_active s)" using assms(2) p by auto
  have old: "sorted_wrt (\<lambda>a b. action_type (acts a) \<ge> action_type (acts b)) (gap_active s)"
    using assms(1) np unfolding by_priority_def acts_def
    by (elim conjE sorted_wrt_mono_on) (auto split: if_splits)
  have le: "\<forall>x \<in> insert p (set (gap_active s)). action_type (acts x) \<le> 1"
    using assms(1) True np by (auto simp: by_priority_def acts_def)
  show ?thesis
  proof (cases a)
    case (ACTION_SCAN x)
    have "by_priority (s1\<lparr>gap_active := gap_active s @ [p]\<rparr>)"
      using old le ACTION_SCAN by (auto simp: by_priority_def s1_def sorted_wrt_append acts_def)
    then show ?thesis using True p ACTION_SCAN run_actions_priority
      by (simp add: meshx_gap_add_action_def meshx_append_action_def Let_def s1_def acts_def)
  next
    case (ACTION_ADV x d)
    have "by_priority (s1\<lparr>gap_active := sort_insert (meshx_action_cmp s1) p (gap_active s)\<rparr>)"
      using sorted_wrt_sort_insert [OF old] le
      by (auto simp: by_priority_def s1_def meshx_action_cmp_def [abs_def])
    then show ?thesis using True p ACTION_ADV run_actions_priority
      by (simp add: meshx_gap_add_action_def meshx_sort_insert_action_def Let_def s1_def acts_def)
  next
    case (ACTION_OTHER k)
    then show ?thesis using True by simp
  qed
qed

section \<open>Runs of the scheduler\<close>

inductive gap_step :: "meshx_node_config \<Rightarrow> gap_state \<Rightarrow> gap_state \<Rightarrow> bool" for cfg where
  gap_add: "gap_step cfg s (snd (meshx_gap_add_action a s))"
| gap_status: "gap_step cfg s (snd (meshx_gap_handle_bt_status st s))"
| gap_start: "gap_step cfg s (snd (meshx_gap_start s))"
| gap_stop: "gap_step cfg s (meshx_gap_stop cfg s)"

lemma pool_fields:
  "pool (s\<lparr>gap_adv_state := x\<rparr>) = pool s" "pool (s\<lparr>gap_scan_state := y\<rparr>) = pool s"
  "pool (s\<lparr>gap_enabled := b\<rparr>) = pool s" "pool (hci cs s) = pool s"
  by (simp_all add: pool_def)

lemma start_pool [simp]: "pool (snd (meshx_gap_start s)) = pool s"
  by (simp add: meshx_gap_start_def pool_fields)

lemma status_pool [simp]: "pool (snd (meshx_gap_handle_bt_status st s)) = pool s"
  by (auto simp: meshx_gap_handle_bt_status_def pool_fields Let_def split: meshx_gap_bt_status.splits)

lemma stop_pool: "pool s = mset [0..<unat (gap_task_num cfg)] \<Longrightarrow>
    pool (meshx_gap_stop cfg s) = mset [0..<unat (gap_task_num cfg)]"
  by (auto simp: meshx_gap_stop_def meshx_clear_all_actions_def pool_def fill_idle_upt)

lemma gap_step_pool:
  "gap_step cfg s s' \<Longrightarrow> pool s = mset [0..<unat (gap_task_num cfg)] \<Longrightarrow>
    pool s' = mset [0..<unat (gap_task_num cfg)]"
  by (induction rule: gap_step.induct) (simp_all add: stop_pool del: mset_upt)

interpretation gap: task_pool gap_idle gap_active "gap_step cfg" "unat (gap_task_num cfg)" for cfg
  by unfold_locales (rule gap_step_pool [unfolded pool_def])

lemma gap_step_priority:
  assumes "gap_step cfg s s'" "by_priority s" "distinct (gap_idle s @ gap_active s)"
  shows "by_priority s'"
  using assms
proof (cases rule: gap_step.cases)
  case (gap_add a)
  then show ?thesis using add_action_priority assms by simp
next
  case (gap_status st)
  have "by_priority (s\<lparr>gap_adv_state := x\<rparr>)" for x using assms(2) by (simp add: by_priority_def)
  then show ?thesis using gap_status assms(2) run_actions_priority
    by (auto simp: meshx_gap_handle_bt_status_def meshx_gap_start_def by_priority_def [of "_\<lparr>gap_enabled := _\<rparr>"]
        by_priority_def [of "_\<lparr>gap_scan_state := _\<rparr>"] by_priority_def [of s] Let_def
        split: meshx_gap_bt_status.splits)
next
  case gap_start
  then show ?thesis using assms(2) by (simp add: meshx_gap_start_def by_priority_def)
next
  case gap_stop
  then show ?thesis using assms(2)
    by (auto simp: meshx_gap_stop_def meshx_clear_all_actions_def by_priority_def)
qed

lemma gap_run_inv:
  assumes "(gap_step cfg)\<^sup>*\<^sup>* s s'" "gap.pool_ok cfg s" "by_priority s"
  shows "gap.pool_ok cfg s' \<and> by_priority s'"
  using assms
proof (induction rule: rtranclp_induct)
  case (step y z)
  then have "gap.pool_ok cfg y" "by_priority y" by auto
  then show ?case
    using gap_step_priority [OF step(2)] gap.pool_split(1) [of cfg y] gap.pool_run [of cfg y z] step(2)
    by (meson r_into_rtranclp)
qed simp

lemma gap_init_inv:
  assumes "meshx_gap_init cfg (s, e) = (MESHX_SUCCESS, s', e')"
  shows "gap.pool_ok cfg s' \<and> by_priority s'"
  using assms
  by (auto simp: meshx_gap_init_def gap.pool_ok_def by_priority_def fill_idle_upt Let_def
      split: prod.splits bool.splits)

section \<open>Properties\<close>

text \<open>C13: After initialisation, whatever sequence of submitted actions, radio status changes,
  starts and stops follows, every action node is on exactly one of the idle and active
  lists, and the active list holds all advertisements before all scans.\<close>

theorem gap_pool_conserved:
  assumes "meshx_gap_init cfg (s0, e) = (MESHX_SUCCESS, s, e')" "(gap_step cfg)\<^sup>*\<^sup>* s s'"
  shows "distinct (gap_idle s' @ gap_active s') \<and>
    set (gap_idle s') \<union> set (gap_active s') = {0..<unat (gap_task_num cfg)} \<and>
    length (gap_idle s') + length (gap_active s') = unat (gap_task_num cfg) \<and>
    sorted_wrt (\<lambda>a b. action_type (gap_actions s' b) \<le> action_type (gap_actions s' a)) (gap_active s')"
  using gap_run_inv [OF assms(2)] gap_init_inv [OF assms(1)] gap.pool_split [of cfg s']
  by (auto simp: by_priority_def)

definition demo_gap :: gap_state where
  "demo_gap = \<lparr>gap_enabled = False, gap_adv_state = 0, gap_scan_state = 0, gap_idle = [], gap_active = [],
    gap_actions = (\<lambda>_. ACTION_OTHER 9), hci_log = [], adv_bearer_type = 1, adv_bearer_iface = None\<rparr>"

definition ok_env :: sys_env where
  "ok_env = \<lparr>rnd_src = \<lambda>_. 0, rnd_pos = 0, mem_src = \<lambda>_. True, mem_pos = 0, tmr_src = \<lambda>_. True, tmr_pos = 0\<rparr>"

theorem gap_pool_conserved_witness:
  "\<exists>s s'. meshx_gap_init node_default_config (demo_gap, ok_env) = (MESHX_SUCCESS, s, ok_env\<lparr>mem_pos := 1\<rparr>) \<and>
    s' = snd (meshx_gap_start s) \<and> length (gap_idle s') + length (gap_active s') = 20"
proof -
  obtain s where s: "meshx_gap_init node_default_config (demo_gap, ok_env)
      = (MESHX_SUCCESS, s, ok_env\<lparr>mem_pos := 1\<rparr>)"
    by (simp add: meshx_gap_init_def meshx_malloc_ok_def ok_env_def)
  have "(gap_step node_default_config)\<^sup>*\<^sup>* s (snd (meshx_gap_start s))"
    by (rule r_into_rtranclp [of "gap_step node_default_config", OF gap_start])
  from gap_pool_conserved [OF s this] s show ?thesis by (auto simp: node_default_config_def)
qed

text \<open>No scheduling changes the advertising bearer.\<close>

lemma run_actions_bearer [simp]: "adv_bearer_type (meshx_run_actions s) = adv_bearer_type s"
  by (auto simp: meshx_run_actions_def Let_def split: list.split meshx_gap_action.split prod.split if_splits)

lemma add_action_bearer: "adv_bearer_type (snd (meshx_gap_add_action a s)) = adv_bearer_type s"
  by (auto simp: meshx_gap_add_action_def meshx_append_action_def meshx_sort_insert_action_def Let_def
      split: meshx_gap_action.split list.split)

text \<open>What the advertising bearer hands to the scheduler is what a receiver's report
  handler takes apart again: a sent packet is queued as one advertisement of at most 31
  bytes, and the report of these bytes is passed up with the same type and payload.\<close>

lemma adv_send_report_roundtrip:
  assumes "adv_bearer_type s = MESHX_BEARER_TYPE_ADV" "MESHX_IS_BEARER_ADV_PKT_TYPE_VALID t"
    "length pdata \<le> 29" "pdata \<noteq> []"
  shows "\<exists>buffer. meshx_bearer_adv_send (Some BEARER_ADV) t pdata s =
      Some (meshx_gap_add_action (ACTION_ADV MESHX_GAP_ADV_TYPE_NONCONN_IND buffer) s) \<and>
    length buffer \<le> 31 \<and>
    meshx_gap_handle_adv_report receive fail buffer x = Some (receive t pdata x)"
proof -
  define buffer where "buffer = word_of_nat (length pdata + 1) # t # pdata"
  have u: "unat (word_of_nat (length pdata + 1) :: u8) = length pdata + 1"
    using assms(3) by (simp add: unat_of_nat del: of_nat_Suc of_nat_add)
  have "(word_of_nat (length pdata + 1) :: u8) - 1 = word_of_nat (length pdata)" by simp
  then have u1: "unat ((word_of_nat (length pdata + 1) :: u8) - 1) = length pdata"
    using assms(3) by (simp only:) (simp add: unat_of_nat)
  have "meshx_gap_handle_adv_report receive fail buffer x = Some (receive t pdata x)"
    using assms(3,4) u u1
    by (simp add: meshx_gap_handle_adv_report_def buffer_def MESHX_GAP_ADV_DATA_MAX_LEN_def Let_def
        mem_read_def del: of_nat_Suc of_nat_add)
  then show ?thesis using assms
    by (intro exI [of _ buffer])
      (simp add: meshx_bearer_adv_send_def bearer_type_def buffer_def MESHX_GAP_ADV_DATA_MAX_LEN_def)
qed

end
