(* ===== verification/Mesh_Security.thy ===== *)
theory Mesh_Security
  imports Mesh_Prelude
begin

text \<open>
  The security toolbox: AES-CMAC (\<^verbatim>\<open>thirdpart/aes_cmac/aes_cmac.c\<close>), CCM
  (\<^verbatim>\<open>thirdpart/mbedtls/aes_ccm.c\<close>), the wrapper functions of
  \<^verbatim>\<open>platform/linux/meshx_security_wrapper.c\<close> and the key derivation functions s1, k1 to
  k4 and e of \<^verbatim>\<open>mesh/security/meshx_security.c\<close>.  The AES block cipher itself is a
  submodule outside the repository: it is the argument \<^verbatim>\<open>aes\<close> (key, then block), of
  which only the block length is ever assumed.  A null pointer is \<^verbatim>\<open>None\<close>, an error
  code is \<^verbatim>\<open>Inl\<close>.
\<close>

unbundle bit_operations_syntax

type_synonym aes128 = "bytes \<Rightarrow> bytes \<Rightarrow> bytes"

definition aes_block :: "aes128 \<Rightarrow> bool" where
  "aes_block aes \<longleftrightarrow> (\<forall>k b. length (aes k b) = 16)"

text \<open>An output argument after a call: unchanged when the call failed.\<close>

definition out_arg :: "'a \<Rightarrow> errno + 'a \<Rightarrow> 'a" where
  "out_arg old r = (case r of Inl _ \<Rightarrow> old | Inr v \<Rightarrow> v)"

lemma out_arg_simps [simp]: "out_arg old (Inl e) = old" "out_arg old (Inr v) = v"
  by (simp_all add: out_arg_def)

definition meshx_aes128_encrypt :: "aes128 \<Rightarrow> bytes \<Rightarrow> bytes \<Rightarrow> bytes" where
  "meshx_aes128_encrypt aes input key = aes key input"

section \<open>AES-CMAC\<close>

definition const_Rb :: bytes where
  "const_Rb = zeros 15 @ [0x87]"

definition xor_128 :: "bytes \<Rightarrow> bytes \<Rightarrow> bytes" where
  "xor_128 a b = map (\<lambda>i. a ! i XOR b ! i) [0..<16]"

text \<open>The loop from the last byte to the first, with the bit shifted out of the byte
  before.\<close>

fun leftshift_loop :: "nat \<Rightarrow> u8 \<Rightarrow> bytes \<Rightarrow> bytes \<Rightarrow> bytes" where
  "leftshift_loop 0 overflow input output = output"
| "leftshift_loop (Suc i) overflow input output =
    leftshift_loop i (if (input ! i) AND 0x80 \<noteq> 0 then 1 else 0) input
      (output[i := (push_bit 1 (input ! i)) OR overflow])"

definition leftshift_onebit :: "bytes \<Rightarrow> bytes" where
  "leftshift_onebit input = leftshift_loop 16 0 input (zeros 16)"

definition generate_subkey :: "aes128 \<Rightarrow> bytes \<Rightarrow> bytes \<times> bytes" where
  "generate_subkey aes key =
    (let L = meshx_aes128_encrypt aes (zeros 16) key;
         K1 = (if (L ! 0) AND 0x80 = 0 then leftshift_onebit L
               else xor_128 (leftshift_onebit L) const_Rb);
         K2 = (if (K1 ! 0) AND 0x80 = 0 then leftshift_onebit K1
               else xor_128 (leftshift_onebit K1) const_Rb)
     in (K1, K2))"

definition padding :: "bytes \<Rightarrow> nat \<Rightarrow> bytes" where
  "padding lastb len =
    map (\<lambda>j. if j < len then lastb ! j else if j = len then 0x80 else 0) [0..<16]"

text \<open>The message is the list of exactly \<^verbatim>\<open>length\<close> bytes (below 2 to the 31).\<close>

definition AES_CMAC :: "aes128 \<Rightarrow> bytes \<Rightarrow> bytes \<Rightarrow> bytes" where
  "AES_CMAC aes key input =
    (let (K1, K2) = generate_subkey aes key;
         len = length input;
         n0 = (len + 15) div 16;
         n = (if n0 = 0 then 1 else n0);
         flag = (n0 \<noteq> 0 \<and> len mod 16 = 0);
         lastb = drop (16 * (n - 1)) input;
         M_last = (if flag then xor_128 lastb K1 else xor_128 (padding lastb (len mod 16)) K2);
         X = foldl (\<lambda>X i. meshx_aes128_encrypt aes (xor_128 X (drop (16 * i) input)) key)
               (zeros 16) [0..<n - 1]
     in meshx_aes128_encrypt aes (xor_128 X M_last) key)"

definition meshx_aes_cmac :: "aes128 \<Rightarrow> bytes \<Rightarrow> bytes \<Rightarrow> bytes" where
  "meshx_aes_cmac aes key pinput = AES_CMAC aes key pinput"

section \<open>CCM\<close>

datatype ccm_mode = CCM_ENCRYPT | CCM_DECRYPT

definition UPDATE_CBC_MAC :: "aes128 \<Rightarrow> bytes \<Rightarrow> bytes \<Rightarrow> bytes \<Rightarrow> bytes" where
  "UPDATE_CBC_MAC aes key y b = meshx_aes128_encrypt aes (map2 (XOR) y b) key"

definition CTR_CRYPT :: "aes128 \<Rightarrow> bytes \<Rightarrow> bytes \<Rightarrow> bytes \<Rightarrow> bytes" where
  "CTR_CRYPT aes key ctr src = map2 (XOR) src (meshx_aes128_encrypt aes ctr key)"

text \<open>A block filled from the left and zero behind.\<close>

definition block_of :: "bytes \<Rightarrow> bytes" where
  "block_of d = d @ zeros (16 - length d)"

text \<open>The length field of the first block: \<^verbatim>\<open>q\<close> bytes from the end, and what is left of
  the length.\<close>

definition ccm_length_field :: "nat \<Rightarrow> nat \<Rightarrow> bytes \<Rightarrow> bytes \<times> nat" where
  "ccm_length_field q len b =
    foldl (\<lambda>(b, left) i. (b[15 - i := word_of_nat (left mod 256)], left div 256)) (b, len) [0..<q]"

fun ccm_add_blocks :: "nat \<Rightarrow> aes128 \<Rightarrow> bytes \<Rightarrow> bytes \<Rightarrow> bytes \<Rightarrow> bytes" where
  "ccm_add_blocks 0 aes key y src = y"
| "ccm_add_blocks (Suc n) aes key y src =
    (if src = [] then y
     else ccm_add_blocks n aes key (UPDATE_CBC_MAC aes key y (block_of (take 16 src))) (drop 16 src))"

text \<open>The counter is incremented from its last byte, stopping at the first byte that does
  not wrap.\<close>

fun ccm_ctr_inc :: "nat \<Rightarrow> nat \<Rightarrow> bytes \<Rightarrow> bytes" where
  "ccm_ctr_inc i 0 ctr = ctr"
| "ccm_ctr_inc i (Suc n) ctr =
    (let c = ctr ! (15 - i) + 1; ctr = ctr[15 - i := c]
     in if c \<noteq> 0 then ctr else ccm_ctr_inc (Suc i) n ctr)"

text \<open>The message loop, one turn per block of at most 16 bytes; the first argument bounds
  the number of turns by the number of bytes.\<close>

fun ccm_blocks ::
  "nat \<Rightarrow> ccm_mode \<Rightarrow> aes128 \<Rightarrow> bytes \<Rightarrow> nat \<Rightarrow> bytes \<Rightarrow> bytes \<Rightarrow> bytes \<Rightarrow> bytes \<times> bytes" where
  "ccm_blocks 0 mode aes key q y ctr src = (y, [])"
| "ccm_blocks (Suc n) mode aes key q y ctr src =
    (if src = [] then (y, [])
     else let use = take 16 src;
              y = (if mode = CCM_ENCRYPT then UPDATE_CBC_MAC aes key y (block_of use) else y);
              dst = CTR_CRYPT aes key ctr use;
              y = (if mode = CCM_DECRYPT then UPDATE_CBC_MAC aes key y (block_of dst) else y);
              (y, rest) = ccm_blocks n mode aes key q y (ccm_ctr_inc 0 q ctr) (drop 16 src)
          in (y, dst @ rest))"

text \<open>The checks and the authentication of the first block and the additional data: the
  size of the length field and the state of the MAC.\<close>

definition ccm_start :: "aes128 \<Rightarrow> bytes \<Rightarrow> bytes \<Rightarrow> bytes \<Rightarrow> nat \<Rightarrow> nat \<Rightarrow> (nat \<times> bytes) option" where
  "ccm_start aes key ivec add len tag_len =
    (let iv_len = length ivec; add_len = length add in
     if tag_len < 4 \<or> tag_len > 16 \<or> tag_len mod 2 \<noteq> 0 then None
     else if iv_len < 7 \<or> iv_len > 13 then None
     else if add_len > 0xFF00 then None
     else
       let q = 16 - 1 - iv_len;
           b0 = (if add_len > 0 then push_bit 6 1 else 0) OR
                push_bit 3 (word_of_nat ((tag_len - 2) div 2)) OR word_of_nat (q - 1);
           (b, len_left) = ccm_length_field q len (block_of (b0 # ivec))
       in if len_left > 0 then None
          else
            let y = UPDATE_CBC_MAC aes key (zeros 16) b;
                y = (if add_len > 0
                     then ccm_add_blocks (length add) aes key
                            (UPDATE_CBC_MAC aes key y
                              (block_of ([word_of_nat (add_len div 256), word_of_nat (add_len mod 256)]
                                         @ take 14 add)))
                            (drop 14 add)
                     else y)
            in Some (q, y))"

definition ccm_auth_crypt ::
  "aes128 \<Rightarrow> ccm_mode \<Rightarrow> bytes \<Rightarrow> bytes \<Rightarrow> bytes \<Rightarrow> bytes \<Rightarrow> nat \<Rightarrow> (bytes \<times> bytes) option" where
  "ccm_auth_crypt aes mode key ivec add input tag_len = do {
    (q, y) \<leftarrow> ccm_start aes key ivec add (length input) tag_len;
    let ctr = (word_of_nat (q - 1) # ivec @ zeros q)[15 := 1];
        (y, output) = ccm_blocks (length input) mode aes key q y ctr input;
        ctr = word_of_nat (q - 1) # ivec @ zeros q;
        y = CTR_CRYPT aes key ctr y
    in Some (output, take tag_len y)
  }"

definition mbedtls_ccm_encrypt_and_tag ::
  "aes128 \<Rightarrow> bytes \<Rightarrow> bytes \<Rightarrow> bytes \<Rightarrow> bytes \<Rightarrow> nat \<Rightarrow> (bytes \<times> bytes) option" where
  "mbedtls_ccm_encrypt_and_tag aes key ivec add input tag_len = ccm_auth_crypt aes CCM_ENCRYPT key ivec add input tag_len"

text \<open>A decryption writes its output before it compares the tags; \<^verbatim>\<open>None\<close> is an output left alone.\<close>

definition mbedtls_ccm_auth_decrypt ::
  "aes128 \<Rightarrow> bytes \<Rightarrow> bytes \<Rightarrow> bytes \<Rightarrow> bytes \<Rightarrow> bytes \<Rightarrow> bool \<times> bytes option" where
  "mbedtls_ccm_auth_decrypt aes key ivec add input tag =
    (case ccm_auth_crypt aes CCM_DECRYPT key ivec add input (length tag) of
       None \<Rightarrow> (False, None)
     | Some (output, check_tag) \<Rightarrow>
         let diff = foldl (\<lambda>diff i. diff OR (tag ! i XOR check_tag ! i)) 0 [0..<length tag]
         in (diff = 0, Some output))"

text \<open>The wrappers: output buffer and tag are left alone when the parameters are refused.\<close>

definition meshx_aes_ccm_encrypt ::
  "aes128 \<Rightarrow> bytes \<Rightarrow> bytes \<Rightarrow> bytes \<Rightarrow> bytes \<Rightarrow> nat \<Rightarrow> errno + (bytes \<times> bytes)" where
  "meshx_aes_ccm_encrypt aes key piv padd pinput tag_len =
    (case mbedtls_ccm_encrypt_and_tag aes key piv padd pinput tag_len of
       None \<Rightarrow> Inl MESHX_ERR_FAIL
     | Some (output, tag) \<Rightarrow> Inr (output, tag))"

definition meshx_aes_ccm_decrypt ::
  "aes128 \<Rightarrow> bytes \<Rightarrow> bytes \<Rightarrow> bytes \<Rightarrow> bytes \<Rightarrow> bytes \<Rightarrow> bytes \<Rightarrow> errno \<times> bytes" where
  "meshx_aes_ccm_decrypt aes key piv padd pinput ptag poutput =
    (case mbedtls_ccm_auth_decrypt aes key piv padd pinput ptag of
       (ok, output) \<Rightarrow> (if ok then MESHX_SUCCESS else MESHX_ERR_FAIL, case output of None \<Rightarrow> poutput | Some out \<Rightarrow> out))"

lemma ccm_encrypt_parts:
  "meshx_aes_ccm_encrypt aes key piv padd pinput tag_len =
    (case ccm_auth_crypt aes CCM_ENCRYPT key piv padd pinput tag_len of
       None \<Rightarrow> Inl MESHX_ERR_FAIL
     | Some (output, tag) \<Rightarrow> Inr (output, tag))"
  by (simp add: meshx_aes_ccm_encrypt_def mbedtls_ccm_encrypt_and_tag_def)

lemma ccm_decrypt_parts:
  "meshx_aes_ccm_decrypt aes key piv padd pinput ptag poutput =
    (case ccm_auth_crypt aes CCM_DECRYPT key piv padd pinput (length ptag) of
       None \<Rightarrow> (MESHX_ERR_FAIL, poutput)
     | Some (output, check_tag) \<Rightarrow>
         let diff = foldl (\<lambda>diff i. diff OR (ptag ! i XOR check_tag ! i)) 0 [0..<length ptag]
         in (if diff \<noteq> 0 then MESHX_ERR_FAIL else MESHX_SUCCESS, output))"
  by (simp add: meshx_aes_ccm_decrypt_def mbedtls_ccm_auth_decrypt_def Let_def split: option.splits)

section \<open>Key derivation\<close>

definition meshx_s1 :: "aes128 \<Rightarrow> bytes option \<Rightarrow> errno + bytes" where
  "meshx_s1 aes pdata =
    (case pdata of
       None \<Rightarrow> Inl MESHX_ERR_INVAL
     | Some d \<Rightarrow> Inr (meshx_aes_cmac aes (zeros 16) d))"

definition meshx_k1 :: "aes128 \<Rightarrow> bytes option \<Rightarrow> bytes \<Rightarrow> bytes option \<Rightarrow> errno + bytes" where
  "meshx_k1 aes pN salt pP =
    (case (pN, pP) of
       (Some N, Some P) \<Rightarrow>
         let key_T = meshx_aes_cmac aes salt N in Inr (meshx_aes_cmac aes key_T P)
     | _ \<Rightarrow> Inl MESHX_ERR_INVAL)"

definition meshx_k2 ::
  "aes128 \<Rightarrow> bytes \<Rightarrow> bytes option \<Rightarrow> sys_env \<Rightarrow> (errno + u8 \<times> bytes \<times> bytes) \<times> sys_env" where
  "meshx_k2 aes N pP e =
    (case pP of
       None \<Rightarrow> (Inl MESHX_ERR_INVAL, e)
     | Some P \<Rightarrow>
         (case meshx_malloc_ok e of
            (False, e) \<Rightarrow> (Inl MESHX_ERR_MEM, e)
          | (True, e) \<Rightarrow>
              let salt = out_arg [] (meshx_s1 aes (Some [0x73, 0x6d, 0x6b, 0x32]));
                  key_T = meshx_aes_cmac aes salt N;
                  T1 = meshx_aes_cmac aes key_T (P @ [0x01]);
                  T2 = meshx_aes_cmac aes key_T (T1 @ P @ [0x02]);
                  T3 = meshx_aes_cmac aes key_T (T2 @ P @ [0x03])
              in (Inr ((T1 ! 15) AND 0x7f, T2, T3), e)))"

definition meshx_k3 :: "aes128 \<Rightarrow> bytes \<Rightarrow> bytes" where
  "meshx_k3 aes N =
    (let salt = out_arg [] (meshx_s1 aes (Some [0x73, 0x6d, 0x6b, 0x33]));
         key_T = meshx_aes_cmac aes salt N;
         out = meshx_aes_cmac aes key_T [0x69, 0x64, 0x36, 0x34, 0x01]
     in take 8 (drop 8 out))"

definition meshx_k4 :: "aes128 \<Rightarrow> bytes \<Rightarrow> u8" where
  "meshx_k4 aes N =
    (let salt = out_arg [] (meshx_s1 aes (Some [0x73, 0x6d, 0x6b, 0x34]));
         key_T = meshx_aes_cmac aes salt N;
         out = meshx_aes_cmac aes key_T [0x69, 0x64, 0x36, 0x01]
     in (out ! 15) AND 0x3f)"

definition meshx_e :: "aes128 \<Rightarrow> bytes \<Rightarrow> bytes \<Rightarrow> bytes" where
  "meshx_e aes input key = meshx_aes128_encrypt aes input key"

section \<open>Lengths\<close>

lemma aes_length [simp]: "aes_block aes \<Longrightarrow> length (aes k b) = 16"
  by (simp add: aes_block_def)

lemma aes_encrypt_length [simp]: "aes_block aes \<Longrightarrow> length (meshx_aes128_encrypt aes b k) = 16"
  by (simp add: meshx_aes128_encrypt_def)

lemma xor_128_length [simp]: "length (xor_128 a b) = 16"
  by (simp add: xor_128_def)

lemma leftshift_loop_length: "length (leftshift_loop n ov inp out) = length out"
  by (induction n arbitrary: ov out) simp_all

lemma leftshift_length [simp]: "length (leftshift_onebit b) = 16"
  by (simp add: leftshift_onebit_def leftshift_loop_length)

lemma cmac_length [simp]: "aes_block aes \<Longrightarrow> length (meshx_aes_cmac aes k m) = 16"
  by (simp add: meshx_aes_cmac_def AES_CMAC_def Let_def split: prod.splits)

lemma update_cbc_length [simp]: "aes_block aes \<Longrightarrow> length (UPDATE_CBC_MAC aes k y b) = 16"
  by (simp add: UPDATE_CBC_MAC_def)

lemma ctr_crypt_length [simp]:
  "aes_block aes \<Longrightarrow> length src \<le> 16 \<Longrightarrow> length (CTR_CRYPT aes k ctr src) = length src"
  by (simp add: CTR_CRYPT_def)

lemma ccm_add_blocks_length:
  "aes_block aes \<Longrightarrow> length y = 16 \<Longrightarrow> length (ccm_add_blocks n aes key y src) = 16"
  by (induction n arbitrary: y src) simp_all

lemma ccm_blocks_nil [simp]: "ccm_blocks n m aes key q y ctr [] = (y, [])"
  by (cases n) simp_all

lemma ccm_blocks_step:
  assumes "src \<noteq> []"
  shows "ccm_blocks (Suc n) m aes key q y ctr src =
    (let dst = CTR_CRYPT aes key ctr (take 16 src);
         y1 = UPDATE_CBC_MAC aes key y (block_of (if m = CCM_ENCRYPT then take 16 src else dst));
         r = ccm_blocks n m aes key q y1 (ccm_ctr_inc 0 q ctr) (drop 16 src)
     in (fst r, dst @ snd r))"
  using assms by (cases m) (simp_all add: Let_def split: prod.splits)

lemma ccm_blocks_length:
  "aes_block aes \<Longrightarrow> length src \<le> n \<Longrightarrow>
    length (snd (ccm_blocks n m aes key q y ctr src)) = length src \<and>
    (length y = 16 \<longrightarrow> length (fst (ccm_blocks n m aes key q y ctr src)) = 16)"
proof (induction n arbitrary: y ctr src)
  case (Suc n)
  show ?case
  proof (cases "src = []")
    case False
    then have "length (drop 16 src) \<le> n" using Suc.prems(2) by (cases src) auto
    note IH = Suc.IH [OF Suc.prems(1) this]
    show ?thesis using IH False Suc.prems by (simp add: ccm_blocks_step Let_def del: ccm_blocks.simps)
  qed simp
qed simp

lemma ctr_crypt_twice:
  assumes "aes_block aes" "length src \<le> 16"
  shows "CTR_CRYPT aes k ctr (CTR_CRYPT aes k ctr src) = src"
proof (rule nth_equalityI)
  show "length (CTR_CRYPT aes k ctr (CTR_CRYPT aes k ctr src)) = length src" using assms by simp
  fix i assume "i < length (CTR_CRYPT aes k ctr (CTR_CRYPT aes k ctr src))"
  then show "CTR_CRYPT aes k ctr (CTR_CRYPT aes k ctr src) ! i = src ! i"
    using assms by (simp add: CTR_CRYPT_def xor.assoc)
qed

lemma block_parts:
  assumes "aes_block aes" "src \<noteq> []" "length rest = length (drop 16 src)"
  shows "take 16 (CTR_CRYPT aes k ctr (take 16 src) @ rest) = CTR_CRYPT aes k ctr (take 16 src)"
    "drop 16 (CTR_CRYPT aes k ctr (take 16 src) @ rest) = rest"
    "CTR_CRYPT aes k ctr (take 16 src) @ rest \<noteq> []"
  using assms by (auto simp: min_def dest: arg_cong [of _ _ length])

lemma ccm_blocks_inverse:
  assumes "aes_block aes" "length src \<le> n" "m' \<noteq> m"
    "ccm_blocks n m aes key q y ctr src = (y', out)"
  shows "ccm_blocks n m' aes key q y ctr out = (y', src)"
  using assms(2,4)
proof (induction n arbitrary: y ctr src out)
  case (Suc n)
  show ?case
  proof (cases "src = []")
    case True
    then show ?thesis using Suc.prems by simp
  next
    case False
    define dst where "dst = CTR_CRYPT aes key ctr (take 16 src)"
    define y1 where "y1 = UPDATE_CBC_MAC aes key y (block_of (if m = CCM_ENCRYPT then take 16 src else dst))"
    define r where "r = ccm_blocks n m aes key q y1 (ccm_ctr_inc 0 q ctr) (drop 16 src)"
    have le: "length (drop 16 src) \<le> n" using False Suc.prems(1) by (cases src) auto
    have out: "y' = fst r" "out = dst @ snd r"
      using Suc.prems(2) False
      by (simp_all add: ccm_blocks_step Let_def dst_def [symmetric] y1_def [symmetric] r_def [symmetric]
          del: ccm_blocks.simps)
    have len: "length (snd r) = length (drop 16 src)"
      using ccm_blocks_length [OF assms(1) le] by (simp add: r_def)
    note parts = block_parts [OF assms(1) False len, of key ctr, folded dst_def, folded out(2)]
    have IH: "ccm_blocks n m' aes key q y1 (ccm_ctr_inc 0 q ctr) (snd r) = (y', drop 16 src)"
      using Suc.IH [OF le, of y1 "ccm_ctr_inc 0 q ctr" "snd r"] out(1) by (simp add: r_def)
    have inv: "CTR_CRYPT aes key ctr dst = take 16 src"
      unfolding dst_def by (rule ctr_crypt_twice [OF assms(1)]) simp
    have y1': "y1 = UPDATE_CBC_MAC aes key y (block_of (if m' = CCM_ENCRYPT then dst else take 16 src))"
      using assms(3) by (cases m; cases m') (simp_all add: y1_def)
    show ?thesis
      unfolding ccm_blocks_step [OF parts(3)] Let_def parts(1,2) inv y1' [symmetric] IH by simp
  qed
qed simp

lemma ccm_start_checks:
  assumes "ccm_start aes key ivec add len tag_len = Some (q, y)" "aes_block aes"
  shows "4 \<le> tag_len" "tag_len \<le> 16" "length y = 16" "q = 15 - length ivec" "7 \<le> length ivec" "length ivec \<le> 13"
  using assms by (auto simp: ccm_start_def Let_def ccm_add_blocks_length split: if_splits prod.splits)

lemma ccm_auth_crypt_inverse:
  assumes "aes_block aes" "ccm_auth_crypt aes m key ivec add input tag_len = Some (out, tag)" "m' \<noteq> m"
  shows "ccm_auth_crypt aes m' key ivec add out tag_len = Some (input, tag)"
    "length out = length input" "length tag = tag_len"
proof -
  obtain q y where st: "ccm_start aes key ivec add (length input) tag_len = Some (q, y)"
    using assms(2) by (auto simp: ccm_auth_crypt_def split: Option.bind_splits)
  define ctr :: bytes where "ctr = (word_of_nat (q - 1) # ivec @ zeros q)[15 := 1]"
  obtain y' where y': "ccm_blocks (length input) m aes key q y ctr input = (y', out)"
      "tag = take tag_len (CTR_CRYPT aes key (word_of_nat (q - 1) # ivec @ zeros q) y')"
    using assms(2) st by (auto simp: ccm_auth_crypt_def Let_def ctr_def split: prod.splits)
  note ck = ccm_start_checks [OF st assms(1)]
  have len: "length out = length input" "length y' = 16"
    using ccm_blocks_length [OF assms(1) order_refl, of input m key q y ctr] y'(1) ck(3) by simp_all
  show "length out = length input" by (rule len)
  show "length tag = tag_len" using y'(2) len(2) ck(2) assms(1) by simp
  have "ccm_blocks (length out) m' aes key q y ctr out = (y', input)"
    using ccm_blocks_inverse [OF assms(1) order_refl assms(3) y'(1)] len(1) by simp
  then show "ccm_auth_crypt aes m' key ivec add out tag_len = Some (input, tag)"
    using st len(1) y'(2) by (simp add: ccm_auth_crypt_def Let_def ctr_def)
qed

text \<open>The tag comparison.\<close>

lemma foldl_or_zero:
  "foldl (\<lambda>diff i. diff OR f i) (d :: u8) xs = 0 \<longleftrightarrow> d = 0 \<and> (\<forall>i \<in> set xs. f i = 0)"
proof (induction xs arbitrary: d)
  case (Cons x xs)
  have "d OR f x = 0 \<longleftrightarrow> d = 0 \<and> f x = 0" by (rule word_or_zero)
  then show ?case using Cons by auto
qed simp

lemma tag_diff_zero:
  assumes "length a = length b"
  shows "foldl (\<lambda>diff i. diff OR (a ! i XOR b ! i)) (0 :: u8) [0..<length a] = 0 \<longleftrightarrow> a = b"
  unfolding foldl_or_zero using assms by (auto intro: nth_equalityI)

lemma ccm_decrypt_exact:
  assumes "aes_block aes"
  shows "meshx_aes_ccm_decrypt aes key ivec add cipher tag buf = (MESHX_SUCCESS, plain) \<longleftrightarrow>
    meshx_aes_ccm_encrypt aes key ivec add plain (length tag) = Inr (cipher, tag)"
proof
  assume d: "meshx_aes_ccm_decrypt aes key ivec add cipher tag buf = (MESHX_SUCCESS, plain)"
  then obtain out ct where ct: "ccm_auth_crypt aes CCM_DECRYPT key ivec add cipher (length tag) = Some (out, ct)"
    by (cases "ccm_auth_crypt aes CCM_DECRYPT key ivec add cipher (length tag)")
      (auto simp: ccm_decrypt_parts)
  note inv = ccm_auth_crypt_inverse [OF assms ct, of CCM_ENCRYPT]
  have "foldl (\<lambda>diff i. diff OR (tag ! i XOR ct ! i)) 0 [0..<length tag] = 0" "out = plain"
    using d by (simp_all add: ccm_decrypt_parts ct Let_def split: if_splits)
  then have "tag = ct" "out = plain" using inv(3) by (simp_all only: tag_diff_zero ccm_mode.distinct not_False_eq_True)
  then show "meshx_aes_ccm_encrypt aes key ivec add plain (length tag) = Inr (cipher, tag)"
    using inv(1) by (simp add: ccm_encrypt_parts)
next
  assume "meshx_aes_ccm_encrypt aes key ivec add plain (length tag) = Inr (cipher, tag)"
  then have e: "ccm_auth_crypt aes CCM_ENCRYPT key ivec add plain (length tag) = Some (cipher, tag)"
    by (auto simp: ccm_encrypt_parts split: option.splits)
  have "foldl (\<lambda>diff i. diff OR (tag ! i XOR tag ! i)) (0 :: u8) [0..<length tag] = 0"
    by (simp only: tag_diff_zero)
  then show "meshx_aes_ccm_decrypt aes key ivec add cipher tag buf = (MESHX_SUCCESS, plain)"
    using ccm_auth_crypt_inverse(1) [OF assms e, of CCM_DECRYPT]
    by (simp add: ccm_decrypt_parts Let_def)
qed

lemma ccm_encrypt_ok:
  assumes "aes_block aes" "length ivec = 13" "length plain < 65536" "length add \<le> 0xFF00"
    "tag_len \<in> {4, 6, 8, 10, 12, 14, 16}"
  shows "\<exists>cipher tag. meshx_aes_ccm_encrypt aes key ivec add plain tag_len = Inr (cipher, tag) \<and>
    length cipher = length plain \<and> length tag = tag_len"
proof -
  have "ccm_start aes key ivec add (length plain) tag_len \<noteq> None"
    using assms(2-5) by (auto simp: ccm_start_def Let_def ccm_length_field_def upt_rec div_mult2_eq [symmetric]
        split: prod.splits)
  then have "ccm_auth_crypt aes CCM_ENCRYPT key ivec add plain tag_len \<noteq> None"
    by (auto simp: ccm_auth_crypt_def Let_def split: prod.splits)
  then obtain out tag where e: "ccm_auth_crypt aes CCM_ENCRYPT key ivec add plain tag_len = Some (out, tag)"
    by auto
  from ccm_auth_crypt_inverse [OF assms(1) e, of CCM_DECRYPT]
  show ?thesis using e by (simp add: ccm_encrypt_parts)
qed

section \<open>Properties\<close>

text \<open>C2: Authenticated decryption is exact: it succeeds with an output precisely when
  encrypting that output under the same key, nonce and additional data gives back the
  ciphertext and the tag.  In particular decryption inverts encryption, and a message
  that was not produced by encryption is refused.\<close>

theorem ccm_decrypt_iff:
  assumes "aes_block aes"
  shows "meshx_aes_ccm_decrypt aes key ivec add cipher tag buf = (MESHX_SUCCESS, plain) \<longleftrightarrow>
    meshx_aes_ccm_encrypt aes key ivec add plain (length tag) = Inr (cipher, tag)"
  by (rule ccm_decrypt_exact [OF assms])

text \<open>A cipher for the witnesses: the exclusive or of key and block.\<close>

definition demo_aes :: aes128 where
  "demo_aes k b = map (\<lambda>i. (if i < length k then k ! i else 0) XOR (if i < length b then b ! i else 0)) [0..<16]"

lemma demo_aes_block: "aes_block demo_aes"
  by (simp add: aes_block_def demo_aes_def)

theorem ccm_decrypt_iff_witness:
  "aes_block demo_aes \<and>
    (meshx_aes_ccm_decrypt demo_aes (zeros 16) (zeros 13) [] [1, 2] (zeros 4) [] = (MESHX_SUCCESS, [7]) \<longleftrightarrow>
     meshx_aes_ccm_encrypt demo_aes (zeros 16) (zeros 13) [] [7] (length (zeros 4)) = Inr ([1, 2], zeros 4))"
  using ccm_decrypt_iff [OF demo_aes_block] demo_aes_block by blast

text \<open>Encryption is total on the parameters the stack uses: a 13-byte nonce, a tag of an
  even length between 4 and 16, less than 65536 bytes of data, and up to 0xFF00 bytes of
  additional data; the ciphertext is as long as the plaintext.\<close>

lemma ccm_encrypt_total:
  assumes "aes_block aes" "length ivec = 13" "length plain < 65536" "length add \<le> 0xFF00"
    "tag_len \<in> {4, 6, 8, 10, 12, 14, 16}"
  shows "\<exists>cipher tag. meshx_aes_ccm_encrypt aes key ivec add plain tag_len = Inr (cipher, tag) \<and>
    length cipher = length plain \<and> length tag = tag_len"
  by (rule ccm_encrypt_ok [OF assms])

end
