(* ===== verification/Mesh_Seq.thy ===== *)
theory Mesh_Seq
  imports Mesh_Prelude
begin

text \<open>
  The sequence numbers of the node's elements, \<^verbatim>\<open>mesh/node/meshx_seq.c\<close>.  The array
  is a list or null; \<^verbatim>\<open>None\<close> as the result of an operation is a failed
  \<^verbatim>\<open>MESHX_ASSERT\<close>.
\<close>

record seq_state =
  seq_array :: "u32 list option"
  meshx_element_num :: u8

definition MESHX_SEQ_MAX :: u32 where
  "MESHX_SEQ_MAX = 0xFFFFFF"

definition MESHX_SEQ_INVALID :: u32 where
  "MESHX_SEQ_INVALID = 0xFFFFFFFF"

definition seq_reset :: seq_state where
  "seq_reset = \<lparr>seq_array = None, meshx_element_num = 0\<rparr>"

definition meshx_seq_init ::
  "u8 \<Rightarrow> seq_state \<times> sys_env \<Rightarrow> errno \<times> seq_state \<times> sys_env" where
  "meshx_seq_init element_num = (\<lambda>(s, e).
    if seq_array s \<noteq> None then (MESHX_ERR_ALREADY, s, e)
    else case meshx_malloc_ok e of
      (False, e) \<Rightarrow> (MESHX_ERR_MEM, s, e)
    | (True, e) \<Rightarrow>
        (MESHX_SUCCESS,
         s\<lparr>seq_array := Some (replicate (unat element_num) 0), meshx_element_num := element_num\<rparr>,
         e))"

definition meshx_seq_deinit :: "seq_state \<Rightarrow> seq_state" where
  "meshx_seq_deinit s = s\<lparr>seq_array := None, meshx_element_num := 0\<rparr>"

definition meshx_seq_get :: "u8 \<Rightarrow> seq_state \<Rightarrow> u32 option" where
  "meshx_seq_get element_index s = do {
    arr \<leftarrow> seq_array s;
    Some (if element_index \<ge> meshx_element_num s then MESHX_SEQ_INVALID
          else arr ! unat element_index)
  }"

definition meshx_seq_set :: "u8 \<Rightarrow> u32 \<Rightarrow> seq_state \<Rightarrow> (u32 \<times> seq_state) option" where
  "meshx_seq_set element_index seq s = do {
    arr \<leftarrow> seq_array s;
    Some (if element_index \<ge> meshx_element_num s then (MESHX_SEQ_INVALID, s)
          else let seq = (if seq > MESHX_SEQ_MAX then MESHX_SEQ_MAX else seq)
               in (seq, s\<lparr>seq_array := Some (arr[unat element_index := seq])\<rparr>))
  }"

definition meshx_seq_use :: "u8 \<Rightarrow> seq_state \<Rightarrow> (u32 \<times> seq_state) option" where
  "meshx_seq_use element_index s = do {
    arr \<leftarrow> seq_array s;
    Some (if element_index \<ge> meshx_element_num s then (MESHX_SEQ_INVALID, s)
          else let seq = arr ! unat element_index
               in (seq,
                   if MESHX_SEQ_MAX = seq then s
                   else s\<lparr>seq_array := Some (arr[unat element_index := arr ! unat element_index + 1])\<rparr>))
  }"

definition meshx_seq_clear :: "seq_state \<Rightarrow> seq_state option" where
  "meshx_seq_clear s = do {
    arr \<leftarrow> seq_array s;
    Some (s\<lparr>seq_array := Some (foldl (\<lambda>arr i. arr[i := 0]) arr [0..<unat (meshx_element_num s)])\<rparr>)
  }"

section \<open>Invariant\<close>

text \<open>The array, when there is one, has one entry per element, each at most the
  24-bit maximum.\<close>

definition seq_inv :: "seq_state \<Rightarrow> bool" where
  "seq_inv s \<longleftrightarrow>
    (case seq_array s of
       None \<Rightarrow> True
     | Some arr \<Rightarrow> length arr = unat (meshx_element_num s) \<and> (\<forall>x \<in> set arr. x \<le> MESHX_SEQ_MAX))"

lemma foldl_clear: "foldl (\<lambda>arr i. arr[i := 0]) xs [0..<n] = replicate (min n (length xs)) (0::u32) @ drop n xs"
proof (induction n)
  case (Suc n)
  show ?case
  proof (cases "n < length xs")
    case True
    have "drop n xs = xs ! n # drop (Suc n) xs" using True by (simp add: Cons_nth_drop_Suc)
    then show ?thesis using Suc True
      by (simp add: list_update_append replicate_append_same [symmetric] del: replicate_append_same)
  next
    case False
    then show ?thesis using Suc by (simp add: list_update_beyond)
  qed
qed simp

lemma seq_clear_zero:
  assumes "seq_inv s" "seq_array s = Some arr"
  shows "meshx_seq_clear s = Some (s\<lparr>seq_array := Some (replicate (unat (meshx_element_num s)) 0)\<rparr>)"
  using assms by (simp add: meshx_seq_clear_def foldl_clear seq_inv_def)

lemma seq_init_inv:
  "meshx_seq_init n (s, e) = (r, s', e') \<Longrightarrow> seq_inv s \<Longrightarrow> seq_inv s'"
  by (auto simp: meshx_seq_init_def seq_inv_def split: if_splits prod.splits bool.splits option.splits)

lemma seq_deinit_inv: "seq_inv (meshx_seq_deinit s)"
  by (simp add: meshx_seq_deinit_def seq_inv_def)

lemma seq_set_inv:
  assumes "meshx_seq_set i q s = Some (r, s')" "seq_inv s"
  shows "seq_inv s'"
  using assms set_update_subset_insert
  by (fastforce simp: meshx_seq_set_def seq_inv_def Let_def split: Option.bind_splits if_splits)

lemma seq_next_le: "x \<le> MESHX_SEQ_MAX \<Longrightarrow> x \<noteq> MESHX_SEQ_MAX \<Longrightarrow> x + 1 \<le> MESHX_SEQ_MAX \<and> x < x + 1"
  by (auto simp: MESHX_SEQ_MAX_def word_le_nat_alt word_less_nat_alt word_unat_eq_iff unat_word_ariths)

lemma seq_use_inv:
  assumes "meshx_seq_use i s = Some (r, s')" "seq_inv s"
  shows "seq_inv s'"
proof -
  obtain arr where arr: "seq_array s = Some arr"
    using assms(1) by (auto simp: meshx_seq_use_def split: Option.bind_splits)
  show ?thesis
  proof (cases "i \<ge> meshx_element_num s \<or> arr ! unat i = MESHX_SEQ_MAX")
    case True
    then show ?thesis using assms arr by (auto simp: meshx_seq_use_def Let_def split: if_splits)
  next
    case False
    then have i: "unat i < length arr"
      using assms(2) arr by (simp add: seq_inv_def word_less_nat_alt not_le)
    then have "arr ! unat i + 1 \<le> MESHX_SEQ_MAX"
      using assms(2) arr False seq_next_le by (auto simp: seq_inv_def)
    then have "\<forall>x \<in> set (arr[unat i := arr ! unat i + 1]). x \<le> MESHX_SEQ_MAX"
      using assms(2) arr by (intro all_set_update) (auto simp: seq_inv_def)
    then show ?thesis using assms arr False
      by (auto simp: meshx_seq_use_def seq_inv_def Let_def split: if_splits)
  qed
qed

lemma seq_clear_inv: "meshx_seq_clear s = Some s' \<Longrightarrow> seq_inv s \<Longrightarrow> seq_inv s'"
  by (cases "seq_array s") (auto simp: seq_clear_zero meshx_seq_clear_def[of s] seq_inv_def foldl_clear)

text \<open>The number an element will use next.\<close>

definition seq_of :: "u8 \<Rightarrow> seq_state \<Rightarrow> u32" where
  "seq_of i s = (case seq_array s of None \<Rightarrow> 0 | Some arr \<Rightarrow> arr ! unat i)"

definition has_element :: "u8 \<Rightarrow> seq_state \<Rightarrow> bool" where
  "has_element i s \<longleftrightarrow> seq_inv s \<and> seq_array s \<noteq> None \<and> i < meshx_element_num s"

lemma seq_use_step:
  assumes "has_element i s"
  shows "\<exists>s'. meshx_seq_use i s = Some (seq_of i s, s') \<and> has_element i s' \<and>
    seq_of i s' = (if seq_of i s = MESHX_SEQ_MAX then MESHX_SEQ_MAX else seq_of i s + 1) \<and>
    (\<forall>j. j \<noteq> i \<longrightarrow> seq_of j s' = seq_of j s) \<and> meshx_element_num s' = meshx_element_num s"
proof -
  obtain arr where arr: "seq_array s = Some arr" and i: "i < meshx_element_num s" and inv: "seq_inv s"
    using assms by (auto simp: has_element_def)
  have len: "unat i < length arr" using inv arr i by (simp add: seq_inv_def word_less_nat_alt)
  obtain r s' where u: "meshx_seq_use i s = Some (r, s')"
    using arr i by (cases "meshx_seq_use i s") (auto simp: meshx_seq_use_def)
  have "seq_inv s'" by (rule seq_use_inv [OF u inv])
  moreover have "unat i \<noteq> unat j" if "j \<noteq> i" for j using that by (simp add: word_unat_eq_iff)
  ultimately show ?thesis using u arr i len
    by (auto simp: meshx_seq_use_def has_element_def seq_of_def Let_def not_le split: if_splits)
qed

lemma seq_of_le: "has_element i s \<Longrightarrow> seq_of i s \<le> MESHX_SEQ_MAX"
  by (auto simp: has_element_def seq_of_def seq_inv_def word_less_nat_alt)

section \<open>A run of uses\<close>

text \<open>The numbers handed out by n consecutive uses of one element.\<close>

fun seq_uses :: "nat \<Rightarrow> u8 \<Rightarrow> seq_state \<Rightarrow> (u32 list \<times> seq_state) option" where
  "seq_uses 0 i s = Some ([], s)"
| "seq_uses (Suc n) i s = do {
    (q, s) \<leftarrow> meshx_seq_use i s;
    (qs, s) \<leftarrow> seq_uses n i s;
    Some (q # qs, s)
  }"

lemma unat_seq_max: "unat MESHX_SEQ_MAX = 16777215"
  by (simp add: MESHX_SEQ_MAX_def)

lemma seq_of_next:
  assumes "has_element i s"
  shows "unat (if seq_of i s = MESHX_SEQ_MAX then MESHX_SEQ_MAX else seq_of i s + 1)
    = min 16777215 (Suc (unat (seq_of i s)))"
proof (cases "seq_of i s = MESHX_SEQ_MAX")
  case True
  then show ?thesis by (simp add: unat_seq_max)
next
  case False
  have "unat (seq_of i s) \<le> unat MESHX_SEQ_MAX" "unat (seq_of i s) \<noteq> unat MESHX_SEQ_MAX"
    using seq_of_le [OF assms] False by (simp_all add: word_le_nat_alt word_unat_eq_iff)
  then have "unat (seq_of i s) < 16777215" by (simp only: unat_seq_max)
  then show ?thesis using False by (simp add: unat_word_ariths)
qed

text \<open>Each use of an element's sequence number returns the current number and steps it
  by one up to the 24-bit maximum: n uses return min(max, start + k) for k below n, and
  leave min(max, start + n).  Numbers are never reused below the maximum; at the maximum
  every further use returns the maximum again.\<close>

lemma seq_uses_result:
  assumes "has_element i s"
  shows "\<exists>qs s'. seq_uses n i s = Some (qs, s') \<and> has_element i s' \<and>
    map unat qs = map (\<lambda>k. min 16777215 (unat (seq_of i s) + k)) [0..<n] \<and>
    unat (seq_of i s') = min 16777215 (unat (seq_of i s) + n)"
  using assms
proof (induction n arbitrary: s)
  case 0
  then show ?case using seq_of_le [of i s] unat_seq_max by (simp add: word_le_nat_alt)
next
  case (Suc n)
  obtain s1 where s1: "meshx_seq_use i s = Some (seq_of i s, s1)" "has_element i s1"
      "seq_of i s1 = (if seq_of i s = MESHX_SEQ_MAX then MESHX_SEQ_MAX else seq_of i s + 1)"
    using seq_use_step [OF Suc.prems] by blast
  have nx: "unat (seq_of i s1) = min 16777215 (Suc (unat (seq_of i s)))"
    unfolding s1(3) by (rule seq_of_next [OF Suc.prems])
  obtain qs s2 where s2: "seq_uses n i s1 = Some (qs, s2)" "has_element i s2"
      "map unat qs = map (\<lambda>k. min 16777215 (unat (seq_of i s1) + k)) [0..<n]"
      "unat (seq_of i s2) = min 16777215 (unat (seq_of i s1) + n)"
    using Suc.IH [OF s1(2)] by auto
  have le: "unat (seq_of i s) \<le> 16777215"
    using seq_of_le [OF Suc.prems] unat_seq_max by (simp add: word_le_nat_alt)
  have "map unat (seq_of i s # qs) = map (\<lambda>k. min 16777215 (unat (seq_of i s) + k)) [0..<Suc n]"
    using s2(3) nx le
    by (subst upt_conv_Cons) (auto simp: map_Suc_upt [symmetric] simp del: upt_Suc)
  moreover have "unat (seq_of i s2) = min 16777215 (unat (seq_of i s) + Suc n)"
    using s2(4) nx by simp
  ultimately show ?case using s1(1) s2(1,2) by simp
qed

end
