(* ===== verification/Mesh_Rpl.thy ===== *)
theory Mesh_Rpl
  imports Mesh_Prelude
begin

text \<open>
  The replay protection list, \<^verbatim>\<open>mesh/node/meshx_rpl.c\<close>.  The allocated array is a
  list or null.  \<^verbatim>\<open>None\<close> as the result of an operation is a fault: a failed
  assertion, a null pointer, an index outside the array, or a scan that never ends (its
  8-bit counter cannot reach a 32-bit bound above 255).
\<close>

record meshx_rpl =
  rpl_src :: u16
  rpl_seq :: u32
  rpl_iv_index :: u32

record rpl_state =
  rpl_array :: "meshx_rpl list option"
  rpl_index :: u32
  rpl_size :: u32

definition rpl_zero :: meshx_rpl where
  "rpl_zero = \<lparr>rpl_src = 0, rpl_seq = 0, rpl_iv_index = 0\<rparr>"

definition rpl_reset :: rpl_state where
  "rpl_reset = \<lparr>rpl_array = None, rpl_index = 0, rpl_size = 0\<rparr>"

text \<open>The array is cleared before the result of the allocation is tested: clearing a
  null array of at least one entry is a fault.\<close>

definition meshx_rpl_init ::
  "u16 \<Rightarrow> rpl_state \<times> sys_env \<Rightarrow> (errno \<times> rpl_state \<times> sys_env) option" where
  "meshx_rpl_init cfg_size = (\<lambda>(s, e).
    if rpl_array s \<noteq> None then Some (MESHX_ERR_ALREADY, s, e)
    else case meshx_malloc_ok e of
      (False, e) \<Rightarrow> if cfg_size \<noteq> 0 then None else Some (MESHX_ERR_MEM, s, e)
    | (True, e) \<Rightarrow>
        Some (MESHX_SUCCESS,
              s\<lparr>rpl_array := Some (replicate (unat cfg_size) rpl_zero), rpl_index := 0,
                rpl_size := ucast cfg_size\<rparr>, e))"

definition meshx_rpl_deinit :: "rpl_state \<Rightarrow> rpl_state" where
  "meshx_rpl_deinit s = s\<lparr>rpl_array := None, rpl_index := 0, rpl_size := 0\<rparr>"

text \<open>The scan of \<^verbatim>\<open>meshx_rpl_update\<close>: at each turn the entry at \<^verbatim>\<open>rpl_index\<close> (not
  at the counter) is compared.  The state does not change before a match, so a scan that
  has not ended after the 256 values of the counter never ends; 257 turns are enough.\<close>

fun rpl_update_scan :: "nat \<Rightarrow> u8 \<Rightarrow> meshx_rpl \<Rightarrow> meshx_rpl list \<Rightarrow> u32 \<Rightarrow> bool option" where
  "rpl_update_scan 0 i rpl arr idx = None"
| "rpl_update_scan (Suc n) i rpl arr idx =
    (if (ucast i :: u32) < idx
     then if length arr \<le> unat idx then None
          else if rpl_src (arr ! unat idx) = rpl_src rpl then Some True
          else rpl_update_scan n (i + 1) rpl arr idx
     else Some False)"

definition meshx_rpl_update :: "meshx_rpl \<Rightarrow> rpl_state \<Rightarrow> (errno \<times> rpl_state) option" where
  "meshx_rpl_update rpl s = do {
    arr \<leftarrow> rpl_array s;
    found \<leftarrow> rpl_update_scan 257 0 rpl arr (rpl_index s);
    let k = unat (rpl_index s) in
    if found
    then Some (MESHX_SUCCESS,
               s\<lparr>rpl_array := Some (arr[k := (arr ! k)\<lparr>rpl_seq := rpl_seq rpl,
                                                rpl_iv_index := rpl_iv_index rpl\<rparr>])\<rparr>)
    else if rpl_index s = rpl_size s then Some (MESHX_ERR_RESOURCE, s)
    else if length arr \<le> k then None
    else Some (MESHX_SUCCESS, s\<lparr>rpl_array := Some (arr[k := rpl]), rpl_index := rpl_index s + 1\<rparr>)
  }"

definition meshx_rpl_clear :: "rpl_state \<Rightarrow> rpl_state" where
  "meshx_rpl_clear s =
    (case rpl_array s of
       None \<Rightarrow> s
     | Some arr \<Rightarrow>
         s\<lparr>rpl_array := Some (replicate (unat (rpl_size s)) rpl_zero @ drop (unat (rpl_size s)) arr)\<rparr>)
    \<lparr>rpl_index := 0\<rparr>"

text \<open>The scan of \<^verbatim>\<open>meshx_rpl_check\<close> over the first \<^verbatim>\<open>n\<close> entries; it stops at the
  first entry of the source.\<close>

fun rpl_check_scan :: "nat \<Rightarrow> meshx_rpl \<Rightarrow> meshx_rpl list \<Rightarrow> bool option" where
  "rpl_check_scan 0 rpl xs = Some True"
| "rpl_check_scan (Suc n) rpl [] = None"
| "rpl_check_scan (Suc n) rpl (x # xs) =
    (if rpl_src x = rpl_src rpl
     then Some (\<not> (rpl_seq rpl \<le> rpl_seq x \<or> rpl_iv_index rpl < rpl_iv_index x))
     else rpl_check_scan n rpl xs)"

definition meshx_rpl_check :: "meshx_rpl \<Rightarrow> rpl_state \<Rightarrow> bool option" where
  "meshx_rpl_check rpl s = do {
    arr \<leftarrow> rpl_array s;
    rpl_check_scan (unat (rpl_index s)) rpl arr
  }"

definition meshx_rpl_is_full :: "rpl_state \<Rightarrow> bool option" where
  "meshx_rpl_is_full s = do { _ \<leftarrow> rpl_array s; Some (rpl_index s \<ge> rpl_size s) }"

section \<open>Invariant\<close>

text \<open>The array has the configured size, the entries from \<^verbatim>\<open>rpl_index\<close> on are still
  zero, and the size is small enough for the scan's counter.\<close>

definition rpl_inv :: "rpl_state \<Rightarrow> bool" where
  "rpl_inv s \<longleftrightarrow>
    (case rpl_array s of
       None \<Rightarrow> rpl_index s = 0 \<and> rpl_size s = 0
     | Some arr \<Rightarrow>
         length arr = unat (rpl_size s) \<and> unat (rpl_index s) \<le> unat (rpl_size s) \<and>
         unat (rpl_size s) \<le> 255 \<and>
         drop (unat (rpl_index s)) arr = replicate (unat (rpl_size s) - unat (rpl_index s)) rpl_zero)"

text \<open>The entries recorded so far.\<close>

definition rpl_entries :: "rpl_state \<Rightarrow> meshx_rpl list" where
  "rpl_entries s = (case rpl_array s of None \<Rightarrow> [] | Some arr \<Rightarrow> take (unat (rpl_index s)) arr)"

lemma ucast_less_u32: "(ucast (i :: u8) :: u32) < idx \<longleftrightarrow> unat i < unat idx"
proof -
  have "unat i < 4294967296" using unsigned_less [of i, where ?'a = nat] by simp
  then show ?thesis by (simp add: word_less_nat_alt unsigned_ucast_eq take_bit_nat_eq_self)
qed

lemma rpl_scan_false:
  assumes "unat idx < length arr" "rpl_src (arr ! unat idx) \<noteq> rpl_src rpl" "unat idx \<le> 255"
    "unat i \<le> unat idx" "unat idx - unat i < n"
  shows "rpl_update_scan n i rpl arr idx = Some False"
  using assms(4,5)
proof (induction n arbitrary: i)
  case (Suc n)
  show ?case
  proof (cases "unat i < unat idx")
    case True
    then have "unat (i + 1) = Suc (unat i)" using assms(3) by (simp add: unat_word_ariths)
    then show ?thesis using True assms(1,2) Suc by (simp add: ucast_less_u32)
  qed (simp add: ucast_less_u32)
qed simp

lemma rpl_check_scan_find:
  "n \<le> length xs \<Longrightarrow> rpl_check_scan n rpl xs =
    Some (case find (\<lambda>x. rpl_src x = rpl_src rpl) (take n xs) of
            None \<Rightarrow> True
          | Some x \<Rightarrow> rpl_seq x < rpl_seq rpl \<and> rpl_iv_index x \<le> rpl_iv_index rpl)"
proof (induction n arbitrary: xs)
  case (Suc n)
  then show ?case by (cases xs) (auto simp: not_le not_less)
qed simp

lemma rpl_init_inv:
  assumes "meshx_rpl_init n (rpl_reset, e) = Some (MESHX_SUCCESS, s, e')" "n \<le> 255"
  shows "rpl_inv s \<and> rpl_array s \<noteq> None \<and> rpl_entries s = []"
proof -
  have "unat (ucast n :: u32) = unat n"
    using unsigned_less [of n, where ?'a = nat] by (simp add: unsigned_ucast_eq take_bit_nat_eq_self)
  moreover have "unat n \<le> 255" using assms(2) by (simp add: word_le_nat_alt)
  ultimately show ?thesis using assms(1)
    by (auto simp: meshx_rpl_init_def rpl_reset_def rpl_inv_def rpl_entries_def
        split: prod.splits bool.splits if_splits)
qed

lemma rpl_clear_inv:
  "rpl_inv s \<Longrightarrow> rpl_inv (meshx_rpl_clear s) \<and> rpl_entries (meshx_rpl_clear s) = []"
  by (auto simp: rpl_inv_def meshx_rpl_clear_def rpl_entries_def split: option.splits)

lemma drop_Suc_tl: "drop (Suc n) xs = tl (drop n xs)"
  by (simp add: drop_Suc tl_drop)

lemma rpl_room:
  assumes "rpl_inv s" "rpl_array s = Some arr" "rpl_index s < rpl_size s"
  shows "unat (rpl_index s) < length arr" "arr ! unat (rpl_index s) = rpl_zero"
    "unat (rpl_index s) \<le> 255" "unat (rpl_index s + 1) = Suc (unat (rpl_index s))"
proof -
  have lt: "unat (rpl_index s) < unat (rpl_size s)" "unat (rpl_size s) \<le> 255"
      and len: "length arr = unat (rpl_size s)"
      and dr: "drop (unat (rpl_index s)) arr = replicate (unat (rpl_size s) - unat (rpl_index s)) rpl_zero"
    using assms by (auto simp: rpl_inv_def word_less_nat_alt)
  show "unat (rpl_index s) < length arr" "unat (rpl_index s) \<le> 255" using lt len by simp_all
  have "arr ! unat (rpl_index s) = hd (drop (unat (rpl_index s)) arr)"
    using lt len by (simp add: hd_drop_conv_nth)
  also have "\<dots> = rpl_zero"
    unfolding dr using lt by (cases "unat (rpl_size s) - unat (rpl_index s)") auto
  finally show "arr ! unat (rpl_index s) = rpl_zero" .
  show "unat (rpl_index s + 1) = Suc (unat (rpl_index s))" using lt by (simp add: unat_word_ariths)
qed

lemma rpl_update_room:
  assumes "rpl_inv s" "rpl_array s \<noteq> None" "rpl_index s < rpl_size s" "rpl_src rpl \<noteq> 0"
  shows "\<exists>s'. meshx_rpl_update rpl s = Some (MESHX_SUCCESS, s') \<and> rpl_inv s' \<and>
    rpl_array s' \<noteq> None \<and> rpl_entries s' = rpl_entries s @ [rpl] \<and> rpl_size s' = rpl_size s \<and>
    unat (rpl_index s') = Suc (unat (rpl_index s))"
proof -
  obtain arr where arr: "rpl_array s = Some arr" using assms(2) by auto
  note room = rpl_room [OF assms(1) arr assms(3)]
  have scan: "rpl_update_scan 257 0 rpl arr (rpl_index s) = Some False"
    using room assms(4) by (intro rpl_scan_false) (auto simp: rpl_zero_def)
  define s' where "s' = s\<lparr>rpl_array := Some (arr[unat (rpl_index s) := rpl]), rpl_index := rpl_index s + 1\<rparr>"
  have "meshx_rpl_update rpl s = Some (MESHX_SUCCESS, s')"
    using arr scan room assms(3) by (simp add: meshx_rpl_update_def Let_def s'_def)
  moreover have "drop (Suc (unat (rpl_index s))) arr
      = replicate (unat (rpl_size s) - Suc (unat (rpl_index s))) rpl_zero"
    using assms(1) arr by (simp add: rpl_inv_def drop_Suc_tl)
  ultimately show ?thesis using assms(1,3) arr room
    by (auto simp: s'_def rpl_inv_def rpl_entries_def word_less_nat_alt take_Suc_conv_app_nth)
qed

lemma rpl_update_full:
  assumes "rpl_inv s" "rpl_array s \<noteq> None" "rpl_index s = rpl_size s" "rpl_size s \<noteq> 0"
  shows "meshx_rpl_update rpl s = None"
proof -
  obtain arr where arr: "rpl_array s = Some arr" using assms(2) by auto
  have "unat (rpl_index s) \<noteq> unat (0 :: u32)" using assms(3,4) by (simp only: word_unat_eq_iff) simp
  then have "0 < unat (rpl_index s)" by simp
  then have "rpl_update_scan 257 0 rpl arr (rpl_index s) = None"
    using assms(1,3) arr by (simp add: eval_nat_numeral ucast_less_u32 rpl_inv_def word_less_nat_alt)
  then show ?thesis by (simp add: meshx_rpl_update_def arr)
qed

lemma rpl_check_by_first:
  assumes "rpl_inv s" "rpl_array s \<noteq> None"
  shows "meshx_rpl_check rpl s =
    Some (case find (\<lambda>x. rpl_src x = rpl_src rpl) (rpl_entries s) of
            None \<Rightarrow> True
          | Some x \<Rightarrow> rpl_seq x < rpl_seq rpl \<and> rpl_iv_index x \<le> rpl_iv_index rpl)"
  using assms by (auto simp: meshx_rpl_check_def rpl_inv_def rpl_entries_def rpl_check_scan_find)

section \<open>Properties\<close>

text \<open>Recording a message of a source (a non-zero address) always appends a new entry
  while there is room, also when the source already has one; once the list is full the
  scan reads behind the array.  The existing entry of a source is never updated.\<close>

lemma rpl_update_appends:
  assumes "rpl_inv s" "rpl_array s \<noteq> None" "rpl_src rpl \<noteq> 0" "rpl_size s \<noteq> 0"
  shows "if rpl_index s < rpl_size s
    then \<exists>s'. meshx_rpl_update rpl s = Some (MESHX_SUCCESS, s') \<and> rpl_inv s' \<and>
           rpl_entries s' = rpl_entries s @ [rpl]
    else meshx_rpl_update rpl s = None"
proof -
  have "\<not> rpl_index s < rpl_size s \<Longrightarrow> rpl_index s = rpl_size s"
    using assms(1,2) by (auto simp: rpl_inv_def word_less_nat_alt word_unat_eq_iff)
  then show ?thesis using rpl_update_room [of s rpl] rpl_update_full [of s rpl] assms by auto
qed

text \<open>The check decides by the first entry of the source alone: the message passes when
  its sequence number is above, and its IV index not below, those of the first message
  recorded from the source.\<close>

lemma rpl_check_first:
  assumes "rpl_inv s" "rpl_array s \<noteq> None"
  shows "meshx_rpl_check rpl s =
    Some (case find (\<lambda>x. rpl_src x = rpl_src rpl) (rpl_entries s) of
            None \<Rightarrow> True
          | Some x \<Rightarrow> rpl_seq x < rpl_seq rpl \<and> rpl_iv_index x \<le> rpl_iv_index rpl)"
  by (rule rpl_check_by_first [OF assms])

text \<open>C39: The replay hole: after two messages of one source are recorded in order, the
  second one passes the check again.\<close>

theorem rpl_replay_passes:
  assumes "rpl_inv s" "rpl_array s \<noteq> None" "rpl_entries s = []" "1 < rpl_size s"
    "rpl_src a = src" "rpl_src b = src" "src \<noteq> 0" "rpl_seq a < rpl_seq b"
    "rpl_iv_index a = rpl_iv_index b"
  shows "\<exists>s1 s2. meshx_rpl_update a s = Some (MESHX_SUCCESS, s1) \<and>
    meshx_rpl_update b s1 = Some (MESHX_SUCCESS, s2) \<and> meshx_rpl_check b s2 = Some True"
proof -
  have i0: "unat (rpl_index s) = 0"
    using assms(1-4) by (auto simp: rpl_inv_def rpl_entries_def word_less_nat_alt)
  then have lt: "rpl_index s < rpl_size s" using assms(4) by (simp add: word_less_nat_alt)
  obtain s1 where s1: "meshx_rpl_update a s = Some (MESHX_SUCCESS, s1)" "rpl_inv s1"
      "rpl_array s1 \<noteq> None" "rpl_entries s1 = [a]" "rpl_size s1 = rpl_size s" "unat (rpl_index s1) = 1"
    using rpl_update_room [OF assms(1,2) lt, of a] assms i0 by auto
  have "rpl_index s1 < rpl_size s1" using s1 assms(4) by (simp add: word_less_nat_alt)
  then obtain s2 where s2: "meshx_rpl_update b s1 = Some (MESHX_SUCCESS, s2)" "rpl_inv s2"
      "rpl_array s2 \<noteq> None" "rpl_entries s2 = [a, b]"
    using rpl_update_room [OF s1(2,3), of b] assms s1 by auto
  have "meshx_rpl_check b s2 = Some True"
    using rpl_check_by_first [OF s2(2,3), of b] s2(4) assms by simp
  then show ?thesis using s1 s2 by blast
qed

theorem rpl_replay_passes_witness:
  "\<exists>s1 s2. meshx_rpl_update \<lparr>rpl_src = 5, rpl_seq = 7, rpl_iv_index = 0\<rparr>
      \<lparr>rpl_array = Some (replicate 2 rpl_zero), rpl_index = 0, rpl_size = 2\<rparr> = Some (MESHX_SUCCESS, s1) \<and>
    meshx_rpl_update \<lparr>rpl_src = 5, rpl_seq = 8, rpl_iv_index = 0\<rparr> s1 = Some (MESHX_SUCCESS, s2) \<and>
    meshx_rpl_check \<lparr>rpl_src = 5, rpl_seq = 8, rpl_iv_index = 0\<rparr> s2 = Some True"
  by (rule rpl_replay_passes [where src = 5]) (simp_all add: rpl_inv_def rpl_entries_def)

end
