(* ===== verification/Mesh_Nmc.thy ===== *)
theory Mesh_Nmc
  imports Mesh_Prelude
begin

text \<open>
  The network message cache, \<^verbatim>\<open>mesh/network/meshx_nmc.c\<close>: a ring of the messages seen.
  The two padding bytes of the entry struct are a field of the record, since
  \<^verbatim>\<open>memcmp\<close> compares them too.  \<^verbatim>\<open>None\<close> is a fault (a null pointer or an index
  outside the array).
\<close>

record meshx_nmc =
  nmc_src :: u16
  nmc_padding :: u16
  nmc_seq :: u32

record nmc_state =
  nmc_array :: "meshx_nmc list option"
  nmc_index :: u32
  nmc_circle :: bool
  nmc_size :: u32

definition nmc_zero :: meshx_nmc where
  "nmc_zero = \<lparr>nmc_src = 0, nmc_padding = 0, nmc_seq = 0\<rparr>"

definition nmc_reset :: nmc_state where
  "nmc_reset = \<lparr>nmc_array = None, nmc_index = 0, nmc_circle = False, nmc_size = 0\<rparr>"

definition meshx_nmc_init ::
  "u16 \<Rightarrow> nmc_state \<times> sys_env \<Rightarrow> (errno \<times> nmc_state \<times> sys_env) option" where
  "meshx_nmc_init cfg_size = (\<lambda>(s, e).
    if nmc_array s \<noteq> None then Some (MESHX_ERR_ALREADY, s, e)
    else case meshx_malloc_ok e of
      (False, e) \<Rightarrow> if cfg_size \<noteq> 0 then None else Some (MESHX_ERR_MEM, s, e)
    | (True, e) \<Rightarrow>
        Some (MESHX_SUCCESS,
              s\<lparr>nmc_array := Some (replicate (unat cfg_size) nmc_zero), nmc_index := 0,
                nmc_circle := False, nmc_size := ucast cfg_size\<rparr>, e))"

definition meshx_nmc_deinit :: "nmc_state \<Rightarrow> nmc_state" where
  "meshx_nmc_deinit s = s\<lparr>nmc_array := None, nmc_index := 0, nmc_circle := False, nmc_size := 0\<rparr>"

definition meshx_nmc_add :: "meshx_nmc \<Rightarrow> nmc_state \<Rightarrow> (errno \<times> nmc_state) option" where
  "meshx_nmc_add nmc s =
    (case nmc_array s of
       None \<Rightarrow> Some (MESHX_ERR_INVAL, s)
     | Some arr \<Rightarrow>
         let s = (if nmc_index s = nmc_size s then s\<lparr>nmc_index := 0, nmc_circle := True\<rparr> else s);
             k = unat (nmc_index s)
         in if length arr \<le> k then None
            else Some (MESHX_SUCCESS, s\<lparr>nmc_array := Some (arr[k := nmc]), nmc_index := nmc_index s + 1\<rparr>))"

definition meshx_nmc_clear :: "nmc_state \<Rightarrow> nmc_state" where
  "meshx_nmc_clear s =
    (case nmc_array s of
       None \<Rightarrow> s
     | Some arr \<Rightarrow>
         s\<lparr>nmc_array := Some (replicate (unat (nmc_size s)) nmc_zero @ drop (unat (nmc_size s)) arr)\<rparr>)
    \<lparr>nmc_index := 0, nmc_circle := False\<rparr>"

text \<open>The loop of \<^verbatim>\<open>meshx_nmc_check\<close>: its body ends in an unconditional \<^verbatim>\<open>break\<close>, so
  only the first turn happens.\<close>

definition nmc_check_loop :: "meshx_nmc \<Rightarrow> meshx_nmc list \<Rightarrow> u32 \<Rightarrow> bool option" where
  "nmc_check_loop nmc arr check_length =
    (if 0 < check_length
     then (case arr of [] \<Rightarrow> None | x # _ \<Rightarrow> Some (x \<noteq> nmc))
     else Some True)"

definition meshx_nmc_check :: "meshx_nmc \<Rightarrow> nmc_state \<Rightarrow> bool option" where
  "meshx_nmc_check nmc s =
    (case nmc_array s of
       None \<Rightarrow> Some False
     | Some arr \<Rightarrow> nmc_check_loop nmc arr (if nmc_circle s then nmc_size s else nmc_index s))"

section \<open>The ring after a sequence of additions\<close>

fun nmc_adds :: "meshx_nmc list \<Rightarrow> nmc_state \<Rightarrow> nmc_state option" where
  "nmc_adds [] s = Some s"
| "nmc_adds (m # ms) s = do { (_, s) \<leftarrow> meshx_nmc_add m s; nmc_adds ms s }"

lemma nmc_adds_append:
  "nmc_adds (xs @ ys) s = do { s \<leftarrow> nmc_adds xs s; nmc_adds ys s }"
  by (induction xs arbitrary: s) (auto split: Option.bind_split)

text \<open>The ring holds the messages \<^verbatim>\<open>ms\<close>: entry \<^verbatim>\<open>j\<close> is the latest message whose
  position is \<^verbatim>\<open>j\<close> modulo the size.\<close>

definition nmc_holds :: "meshx_nmc list \<Rightarrow> nmc_state \<Rightarrow> bool" where
  "nmc_holds ms s \<longleftrightarrow>
    (\<exists>arr. nmc_array s = Some arr \<and> length arr = unat (nmc_size s) \<and> 0 < unat (nmc_size s) \<and>
      unat (nmc_size s) \<le> 65535 \<and>
      nmc_circle s = (unat (nmc_size s) < length ms) \<and>
      unat (nmc_index s) =
        (if ms = [] then 0 else (length ms - 1) mod unat (nmc_size s) + 1) \<and>
      (ms \<noteq> [] \<longrightarrow> arr ! 0 = ms ! ((length ms - 1) div unat (nmc_size s) * unat (nmc_size s))))"

lemma nmc_add_holds:
  assumes "nmc_holds ms s"
  shows "\<exists>s'. meshx_nmc_add m s = Some (MESHX_SUCCESS, s') \<and> nmc_holds (ms @ [m]) s' \<and>
    nmc_size s' = nmc_size s"
proof -
  define n where "n = unat (nmc_size s)"
  define l where "l = length ms"
  obtain arr where arr: "nmc_array s = Some arr" "length arr = n" "0 < n" "n \<le> 65535"
      "nmc_circle s = (n < l)"
      "unat (nmc_index s) = (if l = 0 then 0 else (l - 1) mod n + 1)"
      "0 < l \<longrightarrow> arr ! 0 = ms ! ((l - 1) div n * n)"
    using assms by (auto simp: nmc_holds_def n_def l_def)
  define k where "k = l mod n"
  have k: "k < n" using arr by (simp add: k_def)
  have idx: "unat (if nmc_index s = nmc_size s then 0 else nmc_index s) = k"
    "(nmc_index s = nmc_size s) = (0 < l \<and> k = 0)"
    using arr mod_Suc [of "l - 1" n]
    by (auto simp: word_unat_eq_iff k_def n_def [symmetric] split: if_splits)
  have div_eq: "0 < k \<Longrightarrow> l div n * n = (l - 1) div n * n"
    using div_Suc [of "l - 1" n] by (cases l) (auto simp: k_def mod_Suc split: if_splits)
  have circ: "(n < l \<or> (0 < l \<and> k = 0)) = (n < Suc l)"
  proof (cases "l = n")
    case False
    have "k = 0 \<Longrightarrow> 0 < l \<Longrightarrow> n \<le> l" by (auto simp: k_def intro: dvd_imp_le)
    then show ?thesis using False by auto
  qed (use arr(3) in \<open>simp add: k_def\<close>)
  have u1: "unat ((if nmc_index s = nmc_size s then 0 else nmc_index s) + 1) = k + 1"
    using idx(1) k arr(4) by (simp add: unat_word_ariths)
  define s0 where "s0 = (if nmc_index s = nmc_size s then s\<lparr>nmc_index := 0, nmc_circle := True\<rparr> else s)"
  have s0: "nmc_index s0 = (if nmc_index s = nmc_size s then 0 else nmc_index s)"
    "nmc_circle s0 = (n < Suc l)" "nmc_size s0 = nmc_size s" "nmc_array s0 = Some arr"
    using arr circ idx(2) by (auto simp: s0_def)
  define s' where "s' = s0\<lparr>nmc_array := Some (arr[k := m]), nmc_index := nmc_index s0 + 1\<rparr>"
  have "meshx_nmc_add m s = Some (MESHX_SUCCESS, s')"
    using arr k s0 idx(1) by (simp add: meshx_nmc_add_def Let_def s0_def [symmetric] s'_def)
  moreover have "arr[k := m] ! 0 = (ms @ [m]) ! (l div n * n)"
  proof (cases "k = 0")
    case True
    then have "l div n * n = l" using mult_div_mod_eq [of n l] by (simp add: k_def mult.commute)
    then show ?thesis using True arr k by (simp add: l_def)
  next
    case False
    then have l: "0 < l" by (cases l) (simp_all add: k_def)
    have "(l - 1) div n * n \<le> l - 1" by (rule div_times_less_eq_dividend)
    then have "(l - 1) div n * n < l" using l by linarith
    note l this
    then show ?thesis using False arr div_eq by (simp add: nth_append l_def)
  qed
  ultimately show ?thesis using arr s0 u1
    by (intro exI [of _ s']) (simp add: nmc_holds_def s'_def l_def [symmetric] n_def [symmetric] k_def)
qed

lemma nmc_adds_holds:
  assumes "nmc_holds [] s"
  shows "\<exists>s'. nmc_adds ms s = Some s' \<and> nmc_holds ms s' \<and> nmc_size s' = nmc_size s"
proof (induction ms rule: rev_induct)
  case Nil
  then show ?case using assms by simp
next
  case (snoc m ms)
  then show ?case using nmc_add_holds [of ms _ m] by (fastforce simp: nmc_adds_append)
qed

lemma nmc_init_holds:
  assumes "meshx_nmc_init n (nmc_reset, e) = Some (MESHX_SUCCESS, s, e')" "n \<noteq> 0"
  shows "nmc_holds [] s"
proof -
  have "unat (ucast n :: u32) = unat n" "unat n \<le> 65535" "0 < unat n"
    using unsigned_less [of n, where ?'a = nat] assms(2)
    by (simp_all add: unsigned_ucast_eq take_bit_nat_eq_self word_unat_eq_iff)
  then show ?thesis using assms(1)
    by (auto simp: meshx_nmc_init_def nmc_reset_def nmc_holds_def
        split: prod.splits bool.splits if_splits)
qed

section \<open>Properties\<close>

text \<open>After any non-empty sequence of additions to a fresh cache of n entries, the check
  rejects a message only when it equals the one in the first slot, that is the message at
  position (l - 1) div n * n of the l messages added; every other message added, the
  latest one included, passes.\<close>

lemma nmc_check_first_slot:
  assumes "meshx_nmc_init n (nmc_reset, e) = Some (MESHX_SUCCESS, s, e')" "n \<noteq> 0" "ms \<noteq> []"
  shows "\<exists>s'. nmc_adds ms s = Some s' \<and>
    meshx_nmc_check m s' = Some (m \<noteq> ms ! ((length ms - 1) div unat n * unat n))"
proof -
  have sz: "unat (nmc_size s) = unat n"
    using assms(1) unsigned_less [of n, where ?'a = nat]
    by (auto simp: meshx_nmc_init_def nmc_reset_def unsigned_ucast_eq take_bit_nat_eq_self
        split: prod.splits bool.splits if_splits)
  obtain s' where s': "nmc_adds ms s = Some s'" "nmc_holds ms s'" "nmc_size s' = nmc_size s"
    using nmc_adds_holds [OF nmc_init_holds [OF assms(1,2)]] by blast
  obtain arr where arr: "nmc_array s' = Some arr" "length arr = unat n" "0 < unat n"
      "arr ! 0 = ms ! ((length ms - 1) div unat n * unat n)" "0 < unat (nmc_index s')"
    using s'(2) assms(3) unfolding nmc_holds_def s'(3) sz by auto
  have "0 < (if nmc_circle s' then nmc_size s' else nmc_index s')"
    using arr(3,5) s'(3) sz by (cases "nmc_circle s'") (simp_all only: word_less_nat_alt unat_0 if_True if_False)
  then show ?thesis using s'(1) arr(1-4)
    by (cases arr) (auto simp: meshx_nmc_check_def nmc_check_loop_def)
qed

end
