(* ===== verification/Mesh_Iv_Index.thy ===== *)
theory Mesh_Iv_Index
  imports Mesh_Timer Mesh_Seq Mesh_Rpl
begin

text \<open>
  The IV index and its update procedure, \<^verbatim>\<open>mesh/node/meshx_iv_index.c\<close>.  A transition
  to the normal state clears the sequence numbers and the replay list, so the operations
  work on the three states together.  Whether the lower transport layer has a segmented
  message under way (\<^verbatim>\<open>meshx_is_lower_trans_busy\<close>) is an argument.  Signed distances are
  32-bit words read by \<^verbatim>\<open>sint\<close>; the left shift of a negative distance keeps the low
  bits, as the compilers of the target do.
\<close>

unbundle bit_operations_syntax

datatype meshx_iv_update_state =
    MESHX_IV_UPDATE_STATE_NORMAL
  | MESHX_IV_UPDATE_STATE_IN_PROGRESS

record iv_state =
  cur_iv_index :: u32
  meshx_iv_update_state :: meshx_iv_update_state
  meshx_iv_test_mode_enabled :: bool
  meshx_iv_update_state_transit_pending :: bool
  meshx_iv_operate_tick_timer :: meshx_timer_t
  meshx_iv_operate_tick_time :: u32

record iv_world =
  iv :: iv_state
  seqs :: seq_state
  rpls :: rpl_state

definition MESHX_IV_OPERATE_TICK_PERIOD :: u32 where
  "MESHX_IV_OPERATE_TICK_PERIOD = 1200"

definition MESHX_IV_OPERATE_TICK_96H :: u32 where
  "MESHX_IV_OPERATE_TICK_96H = 96 * 3600 div MESHX_IV_OPERATE_TICK_PERIOD"

definition MESHX_IV_OPERATE_TICK_144H :: u32 where
  "MESHX_IV_OPERATE_TICK_144H = 144 * 3600 div MESHX_IV_OPERATE_TICK_PERIOD"

definition MESHX_IV_OPERATE_TICK_48W :: u32 where
  "MESHX_IV_OPERATE_TICK_48W = 42 * (2 * MESHX_IV_OPERATE_TICK_96H)"

definition MESHX_IV_INDEX_MAX_DIFF :: int where
  "MESHX_IV_INDEX_MAX_DIFF = 42"

definition iv_reset :: iv_state where
  "iv_reset =
    \<lparr>cur_iv_index = 0, meshx_iv_update_state = MESHX_IV_UPDATE_STATE_NORMAL,
     meshx_iv_test_mode_enabled = False, meshx_iv_update_state_transit_pending = False,
     meshx_iv_operate_tick_timer = None, meshx_iv_operate_tick_time = 0\<rparr>"

definition meshx_iv_index_init :: "iv_state \<times> sys_env \<Rightarrow> errno \<times> iv_state \<times> sys_env" where
  "meshx_iv_index_init = (\<lambda>(s, e).
    let (_, tm, e) = meshx_timer_create (meshx_iv_operate_tick_timer s) MESHX_TIMER_MODE_REPEATED e;
        s = s\<lparr>meshx_iv_operate_tick_timer := tm\<rparr>
    in if tm = None then (MESHX_ERR_RESOURCE, s, e)
       else (MESHX_SUCCESS,
             s\<lparr>meshx_iv_operate_tick_timer :=
                 snd (meshx_timer_start tm (MESHX_IV_OPERATE_TICK_PERIOD * 1000))\<rparr>, e))"

definition meshx_iv_index_deinit :: "iv_state \<Rightarrow> iv_state" where
  "meshx_iv_index_deinit s =
    s\<lparr>meshx_iv_operate_tick_timer :=
        (if meshx_iv_operate_tick_timer s \<noteq> None
         then meshx_timer_delete (meshx_iv_operate_tick_timer s) else None),
      cur_iv_index := 0, meshx_iv_update_state := MESHX_IV_UPDATE_STATE_NORMAL,
      meshx_iv_test_mode_enabled := False, meshx_iv_update_state_transit_pending := False,
      meshx_iv_operate_tick_time := 0\<rparr>"

text \<open>The transition to the normal state, shared by the tick handler and the update.\<close>

definition iv_return_to_normal :: "iv_world \<Rightarrow> iv_world option" where
  "iv_return_to_normal w = do {
    q \<leftarrow> meshx_seq_clear (seqs w);
    Some (w\<lparr>iv := (iv w)\<lparr>meshx_iv_update_state := MESHX_IV_UPDATE_STATE_NORMAL,
                        meshx_iv_operate_tick_time := 0\<rparr>,
           seqs := q, rpls := meshx_rpl_clear (rpls w)\<rparr>)
  }"

definition meshx_iv_index_async_handle_timeout :: "bool \<Rightarrow> iv_world \<Rightarrow> iv_world option" where
  "meshx_iv_index_async_handle_timeout busy w =
    (let s = iv w;
         s = (if meshx_iv_operate_tick_time s < MESHX_IV_OPERATE_TICK_48W
              then s\<lparr>meshx_iv_operate_tick_time := meshx_iv_operate_tick_time s + 1\<rparr> else s);
         w = w\<lparr>iv := s\<rparr>
     in if meshx_iv_operate_tick_time s \<ge> MESHX_IV_OPERATE_TICK_144H \<and>
           meshx_iv_update_state s = MESHX_IV_UPDATE_STATE_IN_PROGRESS
        then if busy
             then Some (w\<lparr>iv := s\<lparr>meshx_iv_update_state_transit_pending := True\<rparr>\<rparr>)
             else iv_return_to_normal w
        else Some w)"

definition meshx_iv_index_get :: "iv_state \<Rightarrow> u32" where
  "meshx_iv_index_get s = cur_iv_index s"

definition meshx_iv_index_tx_get :: "iv_state \<Rightarrow> u32" where
  "meshx_iv_index_tx_get s =
    (if meshx_iv_update_state s = MESHX_IV_UPDATE_STATE_IN_PROGRESS
     then cur_iv_index s - 1 else cur_iv_index s)"

definition meshx_iv_index_set :: "u32 \<Rightarrow> iv_state \<Rightarrow> iv_state" where
  "meshx_iv_index_set iv_index s = s\<lparr>cur_iv_index := iv_index\<rparr>"

text \<open>C's \<^verbatim>\<open>!state\<close> of the enumeration.\<close>

definition iv_not :: "meshx_iv_update_state \<Rightarrow> u32" where
  "iv_not st = (if st = MESHX_IV_UPDATE_STATE_NORMAL then 1 else 0)"

definition meshx_iv_index_update ::
  "bool \<Rightarrow> u32 \<Rightarrow> meshx_iv_update_state \<Rightarrow> iv_world \<Rightarrow> (errno \<times> iv_world) option" where
  "meshx_iv_index_update busy iv_index state w =
    (let s = iv w in
     if cur_iv_index s > iv_index then Some (MESHX_ERR_INVAL, w)
     else let distance = iv_index - cur_iv_index s in
     if sint distance > MESHX_IV_INDEX_MAX_DIFF then Some (MESHX_ERR_MAX, w)
     else let distance = push_bit 1 distance + iv_not state - iv_not (meshx_iv_update_state s) in
     if sint distance \<le> 0 then Some (MESHX_SUCCESS, w)
     else if \<not> meshx_iv_test_mode_enabled s \<and>
             meshx_iv_operate_tick_time s < distance * MESHX_IV_OPERATE_TICK_96H
     then Some (MESHX_ERR_TIMING, w)
     else let s = s\<lparr>cur_iv_index := iv_index\<rparr>; w = w\<lparr>iv := s\<rparr> in
     if distance = 1
     then if state = MESHX_IV_UPDATE_STATE_NORMAL
          then if busy
               then Some (MESHX_SUCCESS, w\<lparr>iv := s\<lparr>meshx_iv_update_state_transit_pending := True\<rparr>\<rparr>)
               else do { w \<leftarrow> iv_return_to_normal w; Some (MESHX_SUCCESS, w) }
          else Some (MESHX_SUCCESS, w\<lparr>iv := s\<lparr>meshx_iv_update_state := state\<rparr>\<rparr>)
     else do {
       q \<leftarrow> meshx_seq_clear (seqs w);
       Some (MESHX_SUCCESS,
             w\<lparr>iv := s\<lparr>meshx_iv_update_state := state,
                       meshx_iv_operate_tick_time := MESHX_IV_OPERATE_TICK_96H\<rparr>,
               seqs := q, rpls := meshx_rpl_clear (rpls w)\<rparr>)
     })"

definition meshx_iv_update_state_set :: "meshx_iv_update_state \<Rightarrow> iv_state \<Rightarrow> iv_state" where
  "meshx_iv_update_state_set state s = s\<lparr>meshx_iv_update_state := state\<rparr>"

definition meshx_iv_update_state_get :: "iv_state \<Rightarrow> meshx_iv_update_state" where
  "meshx_iv_update_state_get s = meshx_iv_update_state s"

definition meshx_iv_update_operate_time_set :: "u32 \<Rightarrow> iv_state \<Rightarrow> iv_state" where
  "meshx_iv_update_operate_time_set time s =
    s\<lparr>meshx_iv_operate_tick_time := time div MESHX_IV_OPERATE_TICK_PERIOD\<rparr>"

definition meshx_iv_test_mode_enable :: "bool \<Rightarrow> iv_state \<Rightarrow> iv_state" where
  "meshx_iv_test_mode_enable flag s = s\<lparr>meshx_iv_test_mode_enabled := flag\<rparr>"

definition meshx_is_iv_update_state_transit_pending :: "iv_state \<Rightarrow> bool" where
  "meshx_is_iv_update_state_transit_pending s = meshx_iv_update_state_transit_pending s"

section \<open>The update in integers\<close>

lemma tick_constants [simp]:
  "MESHX_IV_OPERATE_TICK_96H = 288" "MESHX_IV_OPERATE_TICK_144H = 432"
  "MESHX_IV_OPERATE_TICK_48W = 24192" "MESHX_IV_OPERATE_TICK_PERIOD = 1200"
  by (simp_all add: MESHX_IV_OPERATE_TICK_96H_def MESHX_IV_OPERATE_TICK_144H_def
      MESHX_IV_OPERATE_TICK_48W_def MESHX_IV_OPERATE_TICK_PERIOD_def)

text \<open>The distance of two (index, state) pairs: twice the index, less one when in progress.\<close>

definition iv_level :: "u32 \<Rightarrow> meshx_iv_update_state \<Rightarrow> int" where
  "iv_level i st = 2 * uint i + (if st = MESHX_IV_UPDATE_STATE_NORMAL then 1 else 0)"

definition iv_gain :: "u32 \<Rightarrow> meshx_iv_update_state \<Rightarrow> iv_state \<Rightarrow> int" where
  "iv_gain i st s = iv_level i st - iv_level (cur_iv_index s) (meshx_iv_update_state s)"

text \<open>Advances the 32-bit difference of which is not read as negative.\<close>

definition iv_near :: "u32 \<Rightarrow> iv_state \<Rightarrow> bool" where
  "iv_near i s \<longleftrightarrow> uint i < uint (cur_iv_index s) + 2 ^ 31"

lemma sint_word_of_int:
  "- (2 ^ 31) \<le> k \<Longrightarrow> k < 2 ^ 31 \<Longrightarrow> sint (word_of_int k :: u32) = k"
  by (simp add: signed_of_int signed_take_bit_int_eq_self)

lemma iv_distance:
  assumes "\<not> cur_iv_index s > i" "iv_near i s"
  shows "sint (i - cur_iv_index s) = uint i - uint (cur_iv_index s)"
    "uint i - uint (cur_iv_index s) \<le> 42 \<Longrightarrow>
      push_bit 1 (i - cur_iv_index s) + iv_not st - iv_not (meshx_iv_update_state s)
        = word_of_int (iv_gain i st s)"
    "uint i - uint (cur_iv_index s) \<le> 42 \<Longrightarrow>
      sint (word_of_int (iv_gain i st s) :: u32) = iv_gain i st s"
    "0 \<le> uint i - uint (cur_iv_index s)"
proof -
  have le: "uint (cur_iv_index s) \<le> uint i" using assms(1) by (simp add: word_less_def not_less)
  then show "0 \<le> uint i - uint (cur_iv_index s)" by simp
  have w: "i - cur_iv_index s = word_of_int (uint i - uint (cur_iv_index s))"
    by (simp add: of_int_diff)
  show "sint (i - cur_iv_index s) = uint i - uint (cur_iv_index s)"
    unfolding w by (rule sint_word_of_int) (use le assms(2) in \<open>auto simp: iv_near_def\<close>)
  show "push_bit 1 (i - cur_iv_index s) + iv_not st - iv_not (meshx_iv_update_state s)
      = word_of_int (iv_gain i st s)"
    by (cases st; cases "meshx_iv_update_state s")
      (simp_all add: iv_gain_def iv_level_def iv_not_def push_bit_eq_mult algebra_simps)
  show "sint (word_of_int (iv_gain i st s) :: u32) = iv_gain i st s"
    if "uint i - uint (cur_iv_index s) \<le> 42"
    by (rule sint_word_of_int) (use le that in \<open>auto simp: iv_gain_def iv_level_def\<close>)
qed

text \<open>The update, with the distance read as an integer.\<close>

lemma iv_update_int:
  assumes "iv_near i (iv w)"
  shows "meshx_iv_index_update busy i st w =
    (let s = iv w; g = iv_gain i st s in
     if i < cur_iv_index s then Some (MESHX_ERR_INVAL, w)
     else if uint i - uint (cur_iv_index s) > 42 then Some (MESHX_ERR_MAX, w)
     else if g \<le> 0 then Some (MESHX_SUCCESS, w)
     else if \<not> meshx_iv_test_mode_enabled s \<and> uint (meshx_iv_operate_tick_time s) < 288 * g
     then Some (MESHX_ERR_TIMING, w)
     else let s = s\<lparr>cur_iv_index := i\<rparr>; w = w\<lparr>iv := s\<rparr> in
     if g = 1
     then if st = MESHX_IV_UPDATE_STATE_NORMAL
          then if busy
               then Some (MESHX_SUCCESS, w\<lparr>iv := s\<lparr>meshx_iv_update_state_transit_pending := True\<rparr>\<rparr>)
               else do { w \<leftarrow> iv_return_to_normal w; Some (MESHX_SUCCESS, w) }
          else Some (MESHX_SUCCESS, w\<lparr>iv := s\<lparr>meshx_iv_update_state := st\<rparr>\<rparr>)
     else do {
       q \<leftarrow> meshx_seq_clear (seqs w);
       Some (MESHX_SUCCESS,
             w\<lparr>iv := s\<lparr>meshx_iv_update_state := st,
                       meshx_iv_operate_tick_time := MESHX_IV_OPERATE_TICK_96H\<rparr>,
               seqs := q, rpls := meshx_rpl_clear (rpls w)\<rparr>)
     })"
proof (cases "cur_iv_index (iv w) > i \<or> uint i - uint (cur_iv_index (iv w)) > 42")
  case True
  then show ?thesis using iv_distance(1) [of i "iv w"] assms
    by (auto simp: meshx_iv_index_update_def Let_def MESHX_IV_INDEX_MAX_DIFF_def)
next
  case False
  then have n: "\<not> cur_iv_index (iv w) > i" and le: "uint i - uint (cur_iv_index (iv w)) \<le> 42"
    by auto
  note d = iv_distance [OF n assms]
  define g where "g = iv_gain i st (iv w)"
  have gb: "- 1 \<le> g" "g \<le> 85"
    using d(4) le by (auto simp: g_def iv_gain_def iv_level_def)
  have one: "(word_of_int g :: u32) = 1 \<longleftrightarrow> g = 1"
  proof
    assume "(word_of_int g :: u32) = 1"
    then have "sint (word_of_int g :: u32) = sint (1 :: u32)" by simp
    then show "g = 1" using d(3) [OF le, of st] by (simp add: g_def)
  qed simp
  have tick: "t < word_of_int g * 288 \<longleftrightarrow> uint t < 288 * g" if "0 < g" for t :: u32
  proof -
    have "uint (word_of_int g * 288 :: u32) = 288 * g"
      using that gb by (simp add: uint_word_ariths uint_word_of_int mod_pos_pos_trivial)
    then show ?thesis by (simp add: word_less_def)
  qed
  show ?thesis
    using n le d(1) d(2) [OF le, of st] d(3) [OF le, of st] one tick
    by (auto simp: meshx_iv_index_update_def Let_def MESHX_IV_INDEX_MAX_DIFF_def g_def [symmetric] not_less)
qed

text \<open>An update that is due takes effect: the index and the state of the message, and, unless it
  only starts the procedure, sequence numbers and replay list start afresh.\<close>

lemma iv_update_due:
  assumes "cur_iv_index (iv w) \<le> i" "uint i - uint (cur_iv_index (iv w)) \<le> 42" "0 < iv_gain i st (iv w)"
    "meshx_iv_test_mode_enabled (iv w) \<or> 288 * iv_gain i st (iv w) \<le> uint (meshx_iv_operate_tick_time (iv w))"
    "meshx_seq_clear (seqs w) = Some q"
  shows "\<exists>w'. meshx_iv_index_update False i st w = Some (MESHX_SUCCESS, w') \<and> cur_iv_index (iv w') = i \<and>
    meshx_iv_update_state (iv w') = st \<and>
    (if iv_gain i st (iv w) = 1 \<and> st = MESHX_IV_UPDATE_STATE_IN_PROGRESS then seqs w' = seqs w \<and> rpls w' = rpls w
     else seqs w' = q \<and> rpls w' = meshx_rpl_clear (rpls w))"
proof -
  have n: "iv_near i (iv w)" using assms(2) by (simp add: iv_near_def)
  show ?thesis using assms(1-4)
    by (cases st) (auto simp: iv_update_int [OF n] Let_def iv_return_to_normal_def assms(5) not_le not_less)
qed

section \<open>The transmit IV index\<close>

text \<open>An update is only ever in progress at a positive IV index.\<close>

definition iv_ok :: "iv_state \<Rightarrow> bool" where
  "iv_ok s \<longleftrightarrow> (meshx_iv_update_state s = MESHX_IV_UPDATE_STATE_IN_PROGRESS \<longrightarrow> cur_iv_index s \<noteq> 0)"

lemma uint_minus_one: "w \<noteq> 0 \<Longrightarrow> uint (w - 1) = uint w - 1" for w :: u32
  using unat_minus_one [of w] by (metis Suc_pred' int_ops(4) of_nat_unat unat_gt_0 add_diff_cancel_right')

lemma tx_get_nat:
  assumes "iv_ok s"
  shows "uint (meshx_iv_index_tx_get s) =
    (if meshx_iv_update_state s = MESHX_IV_UPDATE_STATE_IN_PROGRESS
     then uint (cur_iv_index s) - 1 else uint (cur_iv_index s))"
  using assms by (auto simp: iv_ok_def meshx_iv_index_tx_get_def uint_minus_one)

lemma return_to_normal_world:
  "iv_return_to_normal w = Some w' \<Longrightarrow>
    iv w' = (iv w)\<lparr>meshx_iv_update_state := MESHX_IV_UPDATE_STATE_NORMAL,
                  meshx_iv_operate_tick_time := 0\<rparr> \<and>
    meshx_seq_clear (seqs w) = Some (seqs w') \<and> rpls w' = meshx_rpl_clear (rpls w)"
  by (auto simp: iv_return_to_normal_def split: Option.bind_splits)

text \<open>What an update does to the transmit IV index: unchanged together with the sequence
  numbers, or strictly above the old one.\<close>

definition tx_advances :: "iv_world \<Rightarrow> iv_world \<Rightarrow> bool" where
  "tx_advances w w' \<longleftrightarrow>
    (seqs w' = seqs w \<and> uint (meshx_iv_index_tx_get (iv w)) \<le> uint (meshx_iv_index_tx_get (iv w'))) \<or>
    (meshx_seq_clear (seqs w) = Some (seqs w') \<and>
     uint (meshx_iv_index_tx_get (iv w)) < uint (meshx_iv_index_tx_get (iv w')))"

lemma gain_nat:
  "iv_gain i st s = 2 * uint i + (if st = MESHX_IV_UPDATE_STATE_NORMAL then 1 else 0)
    - 2 * uint (cur_iv_index s)
    - (if meshx_iv_update_state s = MESHX_IV_UPDATE_STATE_NORMAL then 1 else 0)"
  by (simp add: iv_gain_def iv_level_def)

lemma state_not_normal: "st \<noteq> MESHX_IV_UPDATE_STATE_NORMAL \<longleftrightarrow> st = MESHX_IV_UPDATE_STATE_IN_PROGRESS"
  by (cases st) simp_all

lemma update_tx:
  assumes "meshx_iv_index_update busy i st w = Some (r, w')" "iv_near i (iv w)" "iv_ok (iv w)"
  shows "iv_ok (iv w') \<and> tx_advances w w'"
proof (cases "w' = w")
  case True
  then show ?thesis using assms(3) by (simp add: tx_advances_def)
next
  case ne: False
  define g where "g = iv_gain i st (iv w)"
  have g: "0 < g" using assms(1) ne
    by (auto simp: iv_update_int [OF assms(2)] g_def Let_def split: if_splits)
  have le: "uint (cur_iv_index (iv w)) \<le> uint i" using assms(1) ne
    by (auto simp: iv_update_int [OF assms(2)] Let_def not_less word_le_def split: if_splits)
  note gn = gain_nat [of i st "iv w", folded g_def]
  have i0: "st = MESHX_IV_UPDATE_STATE_IN_PROGRESS \<Longrightarrow> uint (cur_iv_index (iv w)) < uint i"
    using g gn by (auto split: if_splits)
  have i_ne: "st = MESHX_IV_UPDATE_STATE_IN_PROGRESS \<Longrightarrow> i \<noteq> 0"
    using i0 unsigned_greater_eq [of "cur_iv_index (iv w)"] by auto
  have cur0: "meshx_iv_update_state (iv w) = MESHX_IV_UPDATE_STATE_IN_PROGRESS \<Longrightarrow>
      0 < uint (cur_iv_index (iv w))"
    using assms(3) by (auto simp: iv_ok_def less_le [of 0] unsigned_eq_0_iff)
  show ?thesis
  proof (cases "g = 1")
    case True
    consider (pend) "st = MESHX_IV_UPDATE_STATE_NORMAL" "busy"
      | (norm) "st = MESHX_IV_UPDATE_STATE_NORMAL" "\<not> busy"
      | (prog) "st = MESHX_IV_UPDATE_STATE_IN_PROGRESS" by (cases st) auto
    then show ?thesis
    proof cases
      case pend
      then have "w' = w\<lparr>iv := (iv w)\<lparr>cur_iv_index := i, meshx_iv_update_state_transit_pending := True\<rparr>\<rparr>"
        using assms(1) ne True by (auto simp: iv_update_int [OF assms(2)] g_def Let_def split: if_splits)
      moreover have "i = cur_iv_index (iv w)"
        using gn True pend by (auto simp: word_uint_eq_iff split: if_splits)
      ultimately show ?thesis using assms(3)
        by (simp add: tx_advances_def iv_ok_def meshx_iv_index_tx_get_def)
    next
      case norm
      then have "iv_return_to_normal (w\<lparr>iv := (iv w)\<lparr>cur_iv_index := i\<rparr>\<rparr>) = Some w'"
        using assms(1) ne True
        by (auto simp: iv_update_int [OF assms(2)] g_def Let_def split: if_splits Option.bind_splits)
      from return_to_normal_world [OF this] show ?thesis
        using gn True norm assms(3) cur0
        by (auto simp: tx_advances_def iv_ok_def meshx_iv_index_tx_get_def tx_get_nat [OF assms(3)]
            uint_minus_one state_not_normal split: if_splits)
    next
      case prog
      then have "w' = w\<lparr>iv := (iv w)\<lparr>cur_iv_index := i, meshx_iv_update_state := st\<rparr>\<rparr>"
        using assms(1) ne True by (auto simp: iv_update_int [OF assms(2)] g_def Let_def split: if_splits)
      moreover have "iv_ok (iv w')" using calculation i_ne prog by (simp add: iv_ok_def)
      moreover have "uint (cur_iv_index (iv w)) - (if meshx_iv_update_state (iv w) = MESHX_IV_UPDATE_STATE_IN_PROGRESS
          then 1 else 0) \<le> uint i - 1"
        using gn True prog i0 by (auto split: if_splits)
      ultimately show ?thesis using prog
        by (auto simp: tx_advances_def tx_get_nat assms(3) split: if_splits)
    qed
  next
    case False
    then obtain q where q: "meshx_seq_clear (seqs w) = Some q"
      "w' = w\<lparr>iv := (iv w)\<lparr>cur_iv_index := i, meshx_iv_update_state := st,
                meshx_iv_operate_tick_time := 288\<rparr>, seqs := q, rpls := meshx_rpl_clear (rpls w)\<rparr>"
      using assms(1) ne
      by (auto simp: iv_update_int [OF assms(2)] g_def Let_def split: if_splits Option.bind_splits)
    moreover have "iv_ok (iv w')" using calculation i_ne by (simp add: iv_ok_def)
    moreover have "uint (cur_iv_index (iv w)) - (if meshx_iv_update_state (iv w) = MESHX_IV_UPDATE_STATE_IN_PROGRESS
        then 1 else 0) < uint i - (if st = MESHX_IV_UPDATE_STATE_IN_PROGRESS then 1 else 0)"
      using gn g False by (cases st; cases "meshx_iv_update_state (iv w)") auto
    ultimately show ?thesis
      by (auto simp: tx_advances_def tx_get_nat assms(3) split: if_splits)
  qed
qed

text \<open>An update 2^31 or more ahead is read as a negative distance; where it is not refused it
  still only moves the index forwards.\<close>

lemma update_far:
  assumes "meshx_iv_index_update busy i st w = Some (r, w')" "\<not> iv_near i (iv w)" "iv_ok (iv w)" "w' \<noteq> w"
  shows "cur_iv_index (iv w') = i \<and> iv_ok (iv w') \<and> (seqs w' = seqs w \<or> meshx_seq_clear (seqs w) = Some (seqs w'))"
proof -
  have "i \<noteq> 0"
  proof
    assume "i = 0"
    then have "\<not> 0 < uint (cur_iv_index (iv w)) + 2 ^ 31" using assms(2) by (simp add: iv_near_def)
    moreover have "0 < uint (cur_iv_index (iv w)) + 2 ^ 31" by (rule add_nonneg_pos) simp_all
    ultimately show False by contradiction
  qed
  then show ?thesis using assms(1,4)
    by (auto simp: meshx_iv_index_update_def Let_def iv_ok_def split: if_splits Option.bind_splits
        dest!: return_to_normal_world)
qed

lemma update_advances:
  assumes "meshx_iv_index_update busy i st w = Some (r, w')" "iv_ok (iv w)"
  shows "iv_ok (iv w') \<and> tx_advances w w'"
proof (cases "iv_near i (iv w) \<or> w' = w")
  case True
  then show ?thesis using update_tx [OF assms(1) _ assms(2)] assms(2) by (auto simp: tx_advances_def)
next
  case False
  then have u: "cur_iv_index (iv w') = i" "iv_ok (iv w')" "seqs w' = seqs w \<or> meshx_seq_clear (seqs w) = Some (seqs w')"
    and far: "uint (cur_iv_index (iv w)) + 2 ^ 31 \<le> uint i"
    using update_far [OF assms(1) _ assms(2)] by (simp_all add: iv_near_def)
  then have "uint (meshx_iv_index_tx_get (iv w)) < uint (meshx_iv_index_tx_get (iv w'))"
    using tx_get_nat [OF assms(2)] tx_get_nat [OF u(2)] by simp
  then show ?thesis using u(2,3) by (auto simp: tx_advances_def)
qed

lemma timeout_tx:
  assumes "meshx_iv_index_async_handle_timeout busy w = Some w'" "iv_ok (iv w)"
  shows "iv_ok (iv w') \<and> tx_advances w w'"
proof -
  define s where "s = (if meshx_iv_operate_tick_time (iv w) < 24192
    then (iv w)\<lparr>meshx_iv_operate_tick_time := meshx_iv_operate_tick_time (iv w) + 1\<rparr> else iv w)"
  have s: "cur_iv_index s = cur_iv_index (iv w)" "meshx_iv_update_state s = meshx_iv_update_state (iv w)"
    by (simp_all add: s_def)
  have ok: "iv_ok s" using assms(2) s by (simp add: iv_ok_def)
  show ?thesis
  proof (cases "meshx_iv_operate_tick_time s \<ge> 432 \<and>
      meshx_iv_update_state s = MESHX_IV_UPDATE_STATE_IN_PROGRESS \<and> \<not> busy")
    case True
    then have "iv_return_to_normal (w\<lparr>iv := s\<rparr>) = Some w'"
      using assms(1) by (simp add: meshx_iv_index_async_handle_timeout_def s_def [symmetric])
    from return_to_normal_world [OF this] show ?thesis using True s assms(2)
      by (auto simp: tx_advances_def iv_ok_def meshx_iv_index_tx_get_def uint_minus_one)
  next
    case False
    then have "seqs w' = seqs w" "cur_iv_index (iv w') = cur_iv_index (iv w)"
      "meshx_iv_update_state (iv w') = meshx_iv_update_state (iv w)"
      using assms(1) s
      by (auto simp: meshx_iv_index_async_handle_timeout_def s_def [symmetric] Let_def split: if_splits)
    then show ?thesis using assms(2) by (simp add: tx_advances_def iv_ok_def meshx_iv_index_tx_get_def)
  qed
qed

section \<open>Sending over IV updates\<close>

text \<open>The steps of a node that sends while its IV index is updated: drawing a sequence number
  (which yields the transmit IV index, the element and the number of the message's nonce),
  any received update, a tick of the operate timer, the end of a segmented message with a
  transition pending (\<^verbatim>\<open>meshx_lower_trans_tx_task_finish\<close>), and the two settings that
  decide how long an update takes.\<close>

inductive iv_step :: "iv_world \<Rightarrow> (u32 \<times> u8 \<times> u32) list \<Rightarrow> iv_world \<Rightarrow> bool" where
  step_use: "meshx_seq_use i (seqs w) = Some (q, sq) \<Longrightarrow>
    iv_step w [(meshx_iv_index_tx_get (iv w), i, q)] (w\<lparr>seqs := sq\<rparr>)"
| step_update: "meshx_iv_index_update busy i st w = Some (r, w') \<Longrightarrow> iv_step w [] w'"
| step_tick: "meshx_iv_index_async_handle_timeout busy w = Some w' \<Longrightarrow> iv_step w [] w'"
| step_finish: "meshx_is_iv_update_state_transit_pending (iv w) \<Longrightarrow>
    iv_step w [] (w\<lparr>iv := meshx_iv_update_state_set MESHX_IV_UPDATE_STATE_NORMAL (iv w)\<rparr>)"
| step_test_mode: "iv_step w [] (w\<lparr>iv := meshx_iv_test_mode_enable flag (iv w)\<rparr>)"
| step_operate_time: "iv_step w [] (w\<lparr>iv := meshx_iv_update_operate_time_set time (iv w)\<rparr>)"

inductive iv_run :: "iv_world \<Rightarrow> (u32 \<times> u8 \<times> u32) list \<Rightarrow> iv_world \<Rightarrow> bool" where
  run_start: "iv_run w [] w"
| run_step: "iv_run w es w1 \<Longrightarrow> iv_step w1 es' w2 \<Longrightarrow> iv_run w (es @ es') w2"

text \<open>A nonce is spent when its IV index is below the transmit IV index, or equal to it with
  a number below the element's next one.\<close>

definition spent :: "iv_world \<Rightarrow> u32 \<times> u8 \<times> u32 \<Rightarrow> bool" where
  "spent w = (\<lambda>(t, i, q). has_element i (seqs w) \<and>
    (uint t < uint (meshx_iv_index_tx_get (iv w)) \<or>
     t = meshx_iv_index_tx_get (iv w) \<and> q < seq_of i (seqs w)))"

lemma clear_has_element:
  "meshx_seq_clear s = Some s' \<Longrightarrow> has_element i s \<Longrightarrow> has_element i s'"
  by (auto simp: has_element_def seq_clear_zero seq_inv_def)

lemma spent_advances:
  assumes "tx_advances w w'" "spent w e"
  shows "spent w' e"
proof -
  obtain t i q where e: "e = (t, i, q)" by (cases e) auto
  show ?thesis using assms unfolding tx_advances_def
  proof (elim disjE conjE)
    assume a: "seqs w' = seqs w"
      "uint (meshx_iv_index_tx_get (iv w)) \<le> uint (meshx_iv_index_tx_get (iv w'))"
    show ?thesis using assms(2) a
      by (cases "meshx_iv_index_tx_get (iv w) = meshx_iv_index_tx_get (iv w')")
        (auto simp: spent_def e word_uint_eq_iff)
  next
    assume a: "meshx_seq_clear (seqs w) = Some (seqs w')"
      "uint (meshx_iv_index_tx_get (iv w)) < uint (meshx_iv_index_tx_get (iv w'))"
    show ?thesis using assms(2) a by (auto simp: spent_def e intro: clear_has_element)
  qed
qed

lemma use_element:
  assumes "has_element i s" "seq_of i s \<noteq> MESHX_SEQ_MAX" "meshx_seq_use i s = Some (q, s')"
  shows "q = seq_of i s" "has_element j s \<Longrightarrow> has_element j s'"
    "seq_of j s' = (if j = i then seq_of i s + 1 else seq_of j s)" "seq_of i s < seq_of i s + 1"
proof -
  note u = seq_use_step [OF assms(1)]
  show "q = seq_of i s" using u assms(3) by auto
  show "seq_of j s' = (if j = i then seq_of i s + 1 else seq_of j s)" using u assms(2,3) by auto
  show "has_element j s \<Longrightarrow> has_element j s'" using u assms(3) by (auto simp: has_element_def)
  show "seq_of i s < seq_of i s + 1" using seq_next_le seq_of_le [OF assms(1)] assms(2) by blast
qed

lemma finish_tx:
  "iv_ok (iv w) \<Longrightarrow>
    iv_ok (meshx_iv_update_state_set MESHX_IV_UPDATE_STATE_NORMAL (iv w)) \<and>
    tx_advances w (w\<lparr>iv := meshx_iv_update_state_set MESHX_IV_UPDATE_STATE_NORMAL (iv w)\<rparr>)"
  by (auto simp: tx_advances_def iv_ok_def meshx_iv_index_tx_get_def meshx_iv_update_state_set_def
      uint_minus_one)

lemma settings_tx:
  "iv_ok (meshx_iv_test_mode_enable f s) = iv_ok s" "iv_ok (meshx_iv_update_operate_time_set t s) = iv_ok s"
  "tx_advances w (w\<lparr>iv := meshx_iv_test_mode_enable f (iv w)\<rparr>)"
  "tx_advances w (w\<lparr>iv := meshx_iv_update_operate_time_set t (iv w)\<rparr>)"
  by (simp_all add: tx_advances_def iv_ok_def meshx_iv_index_tx_get_def meshx_iv_test_mode_enable_def
      meshx_iv_update_operate_time_set_def)

text \<open>The nonces whose number is below the maximum.\<close>

definition counted :: "(u32 \<times> u8 \<times> u32) list \<Rightarrow> (u32 \<times> u8 \<times> u32) list" where
  "counted es = filter (\<lambda>(t, i, q). q < MESHX_SEQ_MAX) es"

lemma use_spent:
  assumes "meshx_seq_use i (seqs w) = Some (q, sq)" "seq_inv (seqs w)"
  shows "spent w e \<Longrightarrow> spent (w\<lparr>seqs := sq\<rparr>) e"
    "q < MESHX_SEQ_MAX \<Longrightarrow> spent (w\<lparr>seqs := sq\<rparr>) (meshx_iv_index_tx_get (iv w), i, q) \<and>
      \<not> spent w (meshx_iv_index_tx_get (iv w), i, q)"
proof -
  have "(spent w e \<longrightarrow> spent (w\<lparr>seqs := sq\<rparr>) e) \<and>
    (q < MESHX_SEQ_MAX \<longrightarrow> spent (w\<lparr>seqs := sq\<rparr>) (meshx_iv_index_tx_get (iv w), i, q) \<and>
      \<not> spent w (meshx_iv_index_tx_get (iv w), i, q))"
  proof (cases "has_element i (seqs w) \<and> seq_of i (seqs w) \<noteq> MESHX_SEQ_MAX")
    case True
    note u = use_element [OF conjunct1 [OF True] conjunct2 [OF True] assms(1)]
    show ?thesis using u True
      by (cases e) (auto simp: spent_def split: if_splits intro: less_trans)
  next
    case False
    have "sq = seqs w \<and> \<not> q < MESHX_SEQ_MAX"
      using assms False
      by (auto simp: meshx_seq_use_def has_element_def seq_of_def Let_def MESHX_SEQ_INVALID_def MESHX_SEQ_MAX_def
          split: if_splits Option.bind_splits)
    then show ?thesis by simp
  qed
  then show "spent w e \<Longrightarrow> spent (w\<lparr>seqs := sq\<rparr>) e"
    "q < MESHX_SEQ_MAX \<Longrightarrow> spent (w\<lparr>seqs := sq\<rparr>) (meshx_iv_index_tx_get (iv w), i, q) \<and>
      \<not> spent w (meshx_iv_index_tx_get (iv w), i, q)" by auto
qed

lemma advances_seq_inv: "tx_advances w w' \<Longrightarrow> seq_inv (seqs w) \<Longrightarrow> seq_inv (seqs w')"
  by (auto simp: tx_advances_def intro: seq_clear_inv)

lemma iv_step_spent:
  assumes "iv_step w es w'" "iv_ok (iv w)" "seq_inv (seqs w)"
  shows "iv_ok (iv w') \<and> seq_inv (seqs w') \<and> (\<forall>e. spent w e \<longrightarrow> spent w' e) \<and>
    (\<forall>e \<in> set (counted es). spent w' e \<and> \<not> spent w e) \<and> distinct (counted es)"
proof -
  have adv: ?thesis if "es = []" "iv_ok (iv w')" "tx_advances w w'"
    using that spent_advances [OF that(3)] advances_seq_inv [OF that(3) assms(3)] by (simp add: counted_def)
  show ?thesis using assms(1)
  proof (cases rule: iv_step.cases)
    case (step_use i q sq)
    then show ?thesis using use_spent [OF step_use(3) assms(3)] seq_use_inv [OF step_use(3) assms(3)] assms(2)
      by (simp add: counted_def)
  next
    case (step_update busy i st r)
    then show ?thesis using update_advances [OF step_update(2) assms(2)] adv by blast
  next
    case (step_tick busy)
    then show ?thesis using timeout_tx [OF step_tick(2) assms(2)] adv by blast
  next
    case step_finish
    then show ?thesis using finish_tx [OF assms(2)] adv by simp
  qed (use assms(2) adv settings_tx in simp_all)
qed

lemma iv_run_spent:
  "iv_run w es w' \<Longrightarrow> iv_ok (iv w) \<Longrightarrow> seq_inv (seqs w) \<Longrightarrow>
    iv_ok (iv w') \<and> seq_inv (seqs w') \<and> (\<forall>e \<in> set (counted es). spent w' e) \<and> distinct (counted es)"
proof (induction rule: iv_run.induct)
  case (run_step w es w1 es' w2)
  then have "iv_ok (iv w1)" "seq_inv (seqs w1)" "\<forall>e \<in> set (counted es). spent w1 e" "distinct (counted es)" by auto
  moreover have "counted (es @ es') = counted es @ counted es'" by (simp add: counted_def)
  ultimately show ?case using iv_step_spent [OF run_step(2)] by auto
qed (simp add: counted_def)

section \<open>Properties\<close>

text \<open>C1: Nonce freshness below the maximum: over any run of draws from the sequence counters,
  received IV updates (however far), ticks of the operate timer, ends of segmented messages and
  changes of the update's timing, no two draws of one element with a number below the 24-bit
  maximum have the same transmit IV index and sequence number.  At the maximum the counter hands
  the same number out again, so draws at the maximum are not covered; nor are messages that draw
  no number (transport control messages) and explicit resets of the counter or the index.\<close>

theorem nonce_fresh:
  assumes "iv_run w es w'" "iv_ok (iv w)" "seq_inv (seqs w)"
  shows "distinct (filter (\<lambda>(t, i, q). q < MESHX_SEQ_MAX) es)"
  using iv_run_spent [OF assms] by (simp add: counted_def)

text \<open>An update clears the sequence numbers only together with a strict advance of the
  transmit IV index, and never lowers the transmit IV index.\<close>

lemma iv_update_clears_safely:
  assumes "meshx_iv_index_update busy i st w = Some (r, w')" "iv_near i (iv w)" "iv_ok (iv w)"
  shows "(seqs w' = seqs w \<and> meshx_iv_index_tx_get (iv w) \<le> meshx_iv_index_tx_get (iv w')) \<or>
    (meshx_seq_clear (seqs w) = Some (seqs w') \<and>
     meshx_iv_index_tx_get (iv w) < meshx_iv_index_tx_get (iv w'))"
  using update_tx [OF assms] by (simp add: tx_advances_def word_le_def word_less_def)

text \<open>A near update changes the node only forwards, by at most 42, and (outside the test
  mode) only when 96 hours of ticks have passed for each half step of the procedure.\<close>

lemma iv_update_bounded:
  assumes "meshx_iv_index_update busy i st w = Some (r, w')" "iv_near i (iv w)" "w' \<noteq> w"
  shows "r = MESHX_SUCCESS \<and> cur_iv_index (iv w') = i \<and>
    cur_iv_index (iv w) \<le> i \<and> uint i \<le> uint (cur_iv_index (iv w)) + 42 \<and>
    (meshx_iv_test_mode_enabled (iv w) \<or>
     uint (meshx_iv_operate_tick_time (iv w)) \<ge> 288 * iv_gain i st (iv w))"
  using assms(1,3)
  by (auto simp: iv_update_int [OF assms(2)] Let_def not_less split: if_splits Option.bind_splits
      dest!: return_to_normal_world)

text \<open>The distance wraps: an IV index 2^31 ahead of a node that is in progress is read as a
  single half step, so the guard of 42 is passed and the node jumps by 2^31.\<close>

lemma iv_update_jumps:
  assumes "cur_iv_index (iv w) < 0x80000000" "meshx_iv_update_state (iv w) = MESHX_IV_UPDATE_STATE_IN_PROGRESS"
    "meshx_iv_operate_tick_time (iv w) \<ge> 288" "busy"
  shows "\<exists>w'. meshx_iv_index_update busy (cur_iv_index (iv w) + 0x80000000) MESHX_IV_UPDATE_STATE_NORMAL w
      = Some (MESHX_SUCCESS, w') \<and> cur_iv_index (iv w') = cur_iv_index (iv w) + 0x80000000"
proof -
  define c where "c = cur_iv_index (iv w)"
  have nl: "\<not> c + 0x80000000 < c"
    using assms(1) by (simp add: c_def word_less_def uint_word_ariths)
  have e: "(1236950581536 :: u32) = 288" by (simp add: word_uint_eq_iff)
  have "\<not> meshx_iv_operate_tick_time (iv w) < 1236950581536"
    using assms(3) by (simp only: e not_less)
  then show ?thesis using nl assms
    by (simp add: meshx_iv_index_update_def Let_def c_def [symmetric] iv_not_def
        MESHX_IV_INDEX_MAX_DIFF_def push_bit_eq_mult)
qed

text \<open>A node with two elements, and a run: a send, the start of an update, another send, its
  end, and a send at the new index.\<close>

definition demo_world :: iv_world where
  "demo_world =
    \<lparr>iv = iv_reset\<lparr>meshx_iv_operate_tick_time := 288\<rparr>,
     seqs = \<lparr>seq_array = Some [3, 9], meshx_element_num = 2\<rparr>, rpls = rpl_reset\<rparr>"

theorem nonce_fresh_witness:
  "\<exists>es w'. iv_run demo_world es w' \<and> length es = 2 \<and> counted es = es \<and>
    distinct (filter (\<lambda>(t, i, q). q < MESHX_SEQ_MAX) es)"
proof -
  define sq where "sq = \<lparr>seq_array = Some [4::u32, 9], meshx_element_num = 2\<rparr>"
  define w1 where "w1 = demo_world\<lparr>seqs := sq\<rparr>"
  have u1: "meshx_seq_use 0 (seqs demo_world) = Some (3, sq)"
    by (simp add: demo_world_def meshx_seq_use_def Let_def MESHX_SEQ_MAX_def sq_def)
  have s1: "iv_step demo_world [(meshx_iv_index_tx_get (iv demo_world), 0, 3)] w1"
    unfolding w1_def by (rule step_use [OF u1])
  have u2: "meshx_seq_use 0 (seqs w1) = Some (4, sq\<lparr>seq_array := Some [5, 9]\<rparr>)"
    by (simp add: w1_def meshx_seq_use_def Let_def MESHX_SEQ_MAX_def sq_def)
  have s2: "iv_step w1 [(meshx_iv_index_tx_get (iv w1), 0, 4)] (w1\<lparr>seqs := sq\<lparr>seq_array := Some [5, 9]\<rparr>\<rparr>)"
    by (rule step_use [OF u2])
  have r: "iv_run demo_world ([(meshx_iv_index_tx_get (iv demo_world), 0, 3)] @
      [(meshx_iv_index_tx_get (iv w1), 0, 4)]) (w1\<lparr>seqs := sq\<lparr>seq_array := Some [5, 9]\<rparr>\<rparr>)"
    using run_step [OF run_step [OF run_start s1] s2] by simp
  have i: "iv_ok (iv demo_world)" "seq_inv (seqs demo_world)"
    by (simp_all add: demo_world_def iv_ok_def iv_reset_def seq_inv_def MESHX_SEQ_MAX_def)
  from nonce_fresh [OF r i] show ?thesis using r
    by (intro exI conjI) (auto simp: counted_def MESHX_SEQ_MAX_def)
qed

end
