(* ===== verification/Mesh_Key.thy ===== *)
theory Mesh_Key
  imports Mesh_Node Mesh_Security
begin

text \<open>
  The network, application and device keys, \<^verbatim>\<open>mesh/node/meshx_key.c\<close> with the key types
  of \<^verbatim>\<open>mesh/inc/meshx_common.h\<close>.  The three lists are HOL lists in list order; each
  entry carries the address of its allocation, which an application key uses to refer to
  the network key it is bound to.  Memory that an allocation does not initialise is an
  argument (\<^verbatim>\<open>junk\<close>).  \<^verbatim>\<open>None\<close> is a read through a dangling binding.
\<close>

unbundle bit_operations_syntax

datatype meshx_key_state =
    MESHX_KEY_STATE_NORMAL
  | MESHX_KEY_STATE_PHASE1
  | MESHX_KEY_STATE_PHASE2

fun key_state_num :: "meshx_key_state \<Rightarrow> nat" where
  "key_state_num MESHX_KEY_STATE_NORMAL = 0"
| "key_state_num MESHX_KEY_STATE_PHASE1 = 1"
| "key_state_num MESHX_KEY_STATE_PHASE2 = 2"

record net_key_value =
  net_key :: bytes
  identity_key :: bytes
  beacon_key :: bytes
  nid :: u8
  encryption_key :: bytes
  privacy_key :: bytes
  net_id :: bytes

record net_key_info =
  nk_addr :: nat
  nk_state :: meshx_key_state
  nk_index :: u16
  nk_value0 :: net_key_value
  nk_value1 :: net_key_value

record app_key_value =
  app_key :: bytes
  aid :: u8

record app_key_info =
  ak_addr :: nat
  ak_state :: meshx_key_state
  ak_index :: u16
  ak_value0 :: app_key_value
  ak_value1 :: app_key_value
  ak_bind :: nat

record device_key =
  primary_addr :: u16
  element_num :: u8
  dev_key :: bytes

record key_store =
  meshx_net_keys :: "net_key_info list"
  meshx_app_keys :: "app_key_info list"
  meshx_dev_keys :: "device_key list"
  key_next_addr :: nat

definition key_store_init :: key_store where
  "key_store_init =
    \<lparr>meshx_net_keys = [], meshx_app_keys = [], meshx_dev_keys = [], key_next_addr = 1\<rparr>"

text \<open>The three initialisers make one list empty each.\<close>

definition meshx_net_key_init :: "key_store \<Rightarrow> errno \<times> key_store" where
  "meshx_net_key_init s = (MESHX_SUCCESS, s\<lparr>meshx_net_keys := []\<rparr>)"

definition meshx_app_key_init :: "key_store \<Rightarrow> errno \<times> key_store" where
  "meshx_app_key_init s = (MESHX_SUCCESS, s\<lparr>meshx_app_keys := []\<rparr>)"

definition meshx_dev_key_init :: "key_store \<Rightarrow> errno \<times> key_store" where
  "meshx_dev_key_init s = (MESHX_SUCCESS, s\<lparr>meshx_dev_keys := []\<rparr>)"

section \<open>Lookup\<close>

text \<open>The loop of \<^verbatim>\<open>meshx_find_net_key\<close>: its result variable is assigned at every turn, so
  without a match it is the last entry.\<close>

fun find_net_key_loop :: "u16 \<Rightarrow> net_key_info option \<Rightarrow> net_key_info list \<Rightarrow> net_key_info option" where
  "find_net_key_loop net_key_index pnet_key [] = pnet_key"
| "find_net_key_loop net_key_index pnet_key (x # xs) =
    (if nk_index x = net_key_index then Some x else find_net_key_loop net_key_index (Some x) xs)"

definition meshx_find_net_key :: "u16 \<Rightarrow> key_store \<Rightarrow> net_key_info option" where
  "meshx_find_net_key net_key_index s = find_net_key_loop net_key_index None (meshx_net_keys s)"

fun net_key_get_loop :: "u16 \<Rightarrow> net_key_info list \<Rightarrow> net_key_info option" where
  "net_key_get_loop net_key_index [] = None"
| "net_key_get_loop net_key_index (x # xs) =
    (if nk_index x = net_key_index then Some x else net_key_get_loop net_key_index xs)"

definition meshx_net_key_get :: "u16 \<Rightarrow> key_store \<Rightarrow> net_key_info option" where
  "meshx_net_key_get net_key_index s = net_key_get_loop net_key_index (meshx_net_keys s)"

fun app_key_get_loop :: "u16 \<Rightarrow> app_key_info list \<Rightarrow> app_key_info option" where
  "app_key_get_loop app_key_index [] = None"
| "app_key_get_loop app_key_index (x # xs) =
    (if ak_index x = app_key_index then Some x else app_key_get_loop app_key_index xs)"

definition meshx_app_key_get :: "u16 \<Rightarrow> key_store \<Rightarrow> app_key_info option" where
  "meshx_app_key_get app_key_index s = app_key_get_loop app_key_index (meshx_app_keys s)"

definition meshx_net_key_tx_get :: "u16 \<Rightarrow> key_store \<Rightarrow> net_key_value option" where
  "meshx_net_key_tx_get net_key_index s =
    (case meshx_net_key_get net_key_index s of
       None \<Rightarrow> None
     | Some k \<Rightarrow> Some (if nk_state k = MESHX_KEY_STATE_PHASE2 then nk_value1 k else nk_value0 k))"

definition meshx_app_key_tx_get :: "u16 \<Rightarrow> key_store \<Rightarrow> app_key_value option" where
  "meshx_app_key_tx_get app_key_index s =
    (case meshx_app_key_get app_key_index s of
       None \<Rightarrow> None
     | Some k \<Rightarrow> Some (if ak_state k = MESHX_KEY_STATE_PHASE2 then ak_value1 k else ak_value0 k))"

text \<open>Traversal: the first entry, and the entry behind a given one.  The outer option is a
  pointer that is not in the list.\<close>

definition meshx_net_key_traverse_start :: "key_store \<Rightarrow> net_key_info option" where
  "meshx_net_key_traverse_start s =
    (case meshx_net_keys s of [] \<Rightarrow> None | x # _ \<Rightarrow> Some x)"

fun net_key_next :: "nat \<Rightarrow> net_key_info list \<Rightarrow> net_key_info option option" where
  "net_key_next a [] = None"
| "net_key_next a (x # xs) =
    (if nk_addr x = a then Some (case xs of [] \<Rightarrow> None | y # _ \<Rightarrow> Some y) else net_key_next a xs)"

definition meshx_net_key_traverse_continue :: "net_key_info \<Rightarrow> key_store \<Rightarrow> net_key_info option option" where
  "meshx_net_key_traverse_continue k s = net_key_next (nk_addr k) (meshx_net_keys s)"

definition meshx_app_key_traverse_start :: "key_store \<Rightarrow> app_key_info option" where
  "meshx_app_key_traverse_start s =
    (case meshx_app_keys s of [] \<Rightarrow> None | x # _ \<Rightarrow> Some x)"

fun app_key_next :: "nat \<Rightarrow> app_key_info list \<Rightarrow> app_key_info option option" where
  "app_key_next a [] = None"
| "app_key_next a (x # xs) =
    (if ak_addr x = a then Some (case xs of [] \<Rightarrow> None | y # _ \<Rightarrow> Some y) else app_key_next a xs)"

definition meshx_app_key_traverse_continue :: "app_key_info \<Rightarrow> key_store \<Rightarrow> app_key_info option option" where
  "meshx_app_key_traverse_continue k s = app_key_next (ak_addr k) (meshx_app_keys s)"

section \<open>Application keys\<close>

definition meshx_app_key_derive :: "aes128 \<Rightarrow> app_key_value \<Rightarrow> app_key_value" where
  "meshx_app_key_derive aes v = v\<lparr>aid := meshx_k4 aes (app_key v)\<rparr>"

definition meshx_app_key_add ::
  "aes128 \<Rightarrow> meshx_node_config \<Rightarrow> app_key_value \<Rightarrow> u16 \<Rightarrow> u16 \<Rightarrow> bytes \<Rightarrow>
   key_store \<times> sys_env \<Rightarrow> errno \<times> key_store \<times> sys_env" where
  "meshx_app_key_add aes cfg junk net_key_index app_key_index key = (\<lambda>(s, e).
    if list_ex (\<lambda>k. ak_index k = app_key_index) (meshx_app_keys s) then (MESHX_ERR_ALREADY, s, e)
    else if length (meshx_app_keys s) \<ge> unat (app_key_num cfg) then (MESHX_ERR_RESOURCE, s, e)
    else case meshx_find_net_key net_key_index s of
      None \<Rightarrow> (MESHX_ERR_NOT_FOUND, s, e)
    | Some nk \<Rightarrow>
        (case meshx_malloc_ok e of
           (False, e) \<Rightarrow> (MESHX_ERR_MEM, s, e)
         | (True, e) \<Rightarrow>
             let k = \<lparr>ak_addr = key_next_addr s, ak_state = MESHX_KEY_STATE_NORMAL,
                      ak_index = app_key_index,
                      ak_value0 = meshx_app_key_derive aes (junk\<lparr>app_key := key\<rparr>),
                      ak_value1 = junk, ak_bind = nk_addr nk\<rparr>
             in (MESHX_SUCCESS,
                 s\<lparr>meshx_app_keys := meshx_app_keys s @ [k], key_next_addr := Suc (key_next_addr s)\<rparr>, e)))"

text \<open>The network key an application key points to.\<close>

definition bound_net_key :: "app_key_info \<Rightarrow> key_store \<Rightarrow> net_key_info option" where
  "bound_net_key k s = find (\<lambda>n. nk_addr n = ak_bind k) (meshx_net_keys s)"

text \<open>The new key goes to the second slot; the derivation is applied to the first.\<close>

fun app_key_update_loop ::
  "aes128 \<Rightarrow> key_store \<Rightarrow> u16 \<Rightarrow> bytes \<Rightarrow> app_key_info list \<Rightarrow> (errno \<times> app_key_info list) option" where
  "app_key_update_loop aes s app_key_index key [] = Some (MESHX_ERR_NOT_FOUND, [])"
| "app_key_update_loop aes s app_key_index key (k # ks) =
    (if ak_index k = app_key_index
     then do {
       nk \<leftarrow> bound_net_key k s;
       Some (if nk_state nk = MESHX_KEY_STATE_PHASE1
             then if ak_state k = MESHX_KEY_STATE_PHASE1
                  then (if app_key (ak_value1 k) \<noteq> key then MESHX_ERR_INVAL else MESHX_SUCCESS, k # ks)
                  else (MESHX_SUCCESS,
                        k\<lparr>ak_state := MESHX_KEY_STATE_PHASE1,
                          ak_value1 := (ak_value1 k)\<lparr>app_key := key\<rparr>,
                          ak_value0 := meshx_app_key_derive aes (ak_value0 k)\<rparr> # ks)
             else (MESHX_ERR_STATE, k # ks))
     }
     else do {
       (r, ks) \<leftarrow> app_key_update_loop aes s app_key_index key ks;
       Some (r, k # ks)
     })"

definition meshx_app_key_update ::
  "aes128 \<Rightarrow> u16 \<Rightarrow> u16 \<Rightarrow> bytes \<Rightarrow> key_store \<Rightarrow> (errno \<times> key_store) option" where
  "meshx_app_key_update aes net_key_index app_key_index key s = do {
    (r, ks) \<leftarrow> app_key_update_loop aes s app_key_index key (meshx_app_keys s);
    Some (r, s\<lparr>meshx_app_keys := ks\<rparr>)
  }"

fun app_key_transit_loop ::
  "key_store \<Rightarrow> u16 \<Rightarrow> meshx_key_state \<Rightarrow> errno \<Rightarrow> app_key_info list \<Rightarrow> (errno \<times> app_key_info list) option" where
  "app_key_transit_loop s net_key_index st r [] = Some (r, [])"
| "app_key_transit_loop s net_key_index st r (k # ks) = do {
    nk \<leftarrow> bound_net_key k s;
    let (r, k) = (if nk_index nk = net_key_index
                  then if key_state_num (ak_state k) > key_state_num MESHX_KEY_STATE_NORMAL
                       then (MESHX_SUCCESS, k\<lparr>ak_state := st\<rparr>)
                       else (MESHX_ERR_STATE, k)
                  else (r, k))
    in do {
      (r, ks) \<leftarrow> app_key_transit_loop s net_key_index st r ks;
      Some (r, k # ks)
    }
  }"

definition meshx_app_key_state_transit ::
  "u16 \<Rightarrow> meshx_key_state \<Rightarrow> key_store \<Rightarrow> (errno \<times> key_store) option" where
  "meshx_app_key_state_transit net_key_index st s = do {
    (r, ks) \<leftarrow> app_key_transit_loop s net_key_index st MESHX_ERR_NOT_FOUND (meshx_app_keys s);
    Some (r, s\<lparr>meshx_app_keys := ks\<rparr>)
  }"

definition meshx_app_key_delete :: "u16 \<Rightarrow> u16 \<Rightarrow> key_store \<Rightarrow> errno \<times> key_store" where
  "meshx_app_key_delete net_key_index app_key_index s = (MESHX_SUCCESS, s)"

text \<open>The operations that delete all keys of a kind, and the deletion of device keys, are empty.\<close>

definition meshx_app_key_clear :: "key_store \<Rightarrow> key_store" where
  "meshx_app_key_clear s = s"

definition meshx_net_key_clear :: "key_store \<Rightarrow> key_store" where
  "meshx_net_key_clear s = s"

definition meshx_dev_key_delete :: "bytes \<Rightarrow> key_store \<Rightarrow> key_store" where
  "meshx_dev_key_delete key s = s"

definition meshx_dev_key_delete_by_addr :: "u16 \<Rightarrow> key_store \<Rightarrow> key_store" where
  "meshx_dev_key_delete_by_addr addr s = s"

section \<open>Network keys\<close>

text \<open>The derived keys: identity and beacon key by k1 (salts of "nkik" and "nkbk"), network
  identifier, encryption and privacy key by k2, and the network id by k3.\<close>

definition meshx_net_key_derive :: "aes128 \<Rightarrow> net_key_value \<Rightarrow> sys_env \<Rightarrow> net_key_value \<times> sys_env" where
  "meshx_net_key_derive aes v e =
    (let k = net_key v;
         salt = out_arg [] (meshx_s1 aes (Some [0x6e, 0x6b, 0x69, 0x6b]));
         P = [0x69, 0x64, 0x31, 0x32, 0x38, 0x01];
         v = v\<lparr>identity_key := out_arg (identity_key v) (meshx_k1 aes (Some k) salt (Some P))\<rparr>;
         salt = out_arg salt (meshx_s1 aes (Some [0x6e, 0x6b, 0x62, 0x6b]));
         v = v\<lparr>beacon_key := out_arg (beacon_key v) (meshx_k1 aes (Some k) salt (Some P))\<rparr>;
         (r, e) = meshx_k2 aes k (Some [0x00]) e;
         (n, ek, pk) = out_arg (nid v, encryption_key v, privacy_key v) r;
         v = v\<lparr>nid := n, encryption_key := ek, privacy_key := pk\<rparr>
     in (v\<lparr>net_id := meshx_k3 aes k\<rparr>, e))"

definition meshx_net_key_add ::
  "aes128 \<Rightarrow> meshx_node_config \<Rightarrow> net_key_value \<Rightarrow> u16 \<Rightarrow> bytes \<Rightarrow>
   key_store \<times> sys_env \<Rightarrow> errno \<times> key_store \<times> sys_env" where
  "meshx_net_key_add aes cfg junk net_key_index key = (\<lambda>(s, e).
    if list_ex (\<lambda>k. nk_index k = net_key_index) (meshx_net_keys s) then (MESHX_ERR_ALREADY, s, e)
    else if length (meshx_net_keys s) \<ge> unat (net_key_num cfg) then (MESHX_ERR_RESOURCE, s, e)
    else case meshx_malloc_ok e of
      (False, e) \<Rightarrow> (MESHX_ERR_MEM, s, e)
    | (True, e) \<Rightarrow>
        let (v, e) = meshx_net_key_derive aes (junk\<lparr>net_key := key\<rparr>) e;
            k = \<lparr>nk_addr = key_next_addr s, nk_state = MESHX_KEY_STATE_NORMAL,
                 nk_index = net_key_index, nk_value0 = v, nk_value1 = junk\<rparr>
        in (MESHX_SUCCESS,
            s\<lparr>meshx_net_keys := meshx_net_keys s @ [k], key_next_addr := Suc (key_next_addr s)\<rparr>, e))"

fun net_key_update_loop ::
  "aes128 \<Rightarrow> u16 \<Rightarrow> bytes \<Rightarrow> net_key_info list \<Rightarrow> sys_env \<Rightarrow> errno \<times> net_key_info list \<times> sys_env" where
  "net_key_update_loop aes net_key_index key [] e = (MESHX_ERR_NOT_FOUND, [], e)"
| "net_key_update_loop aes net_key_index key (k # ks) e =
    (if nk_index k = net_key_index
     then if nk_state k = MESHX_KEY_STATE_PHASE2 then (MESHX_ERR_STATE, k # ks, e)
          else if nk_state k = MESHX_KEY_STATE_PHASE1
          then (if net_key (nk_value1 k) \<noteq> key then MESHX_ERR_INVAL else MESHX_SUCCESS, k # ks, e)
          else let (v, e) = meshx_net_key_derive aes ((nk_value1 k)\<lparr>net_key := key\<rparr>) e
               in (MESHX_SUCCESS, k\<lparr>nk_state := MESHX_KEY_STATE_PHASE1, nk_value1 := v\<rparr> # ks, e)
     else let (r, ks, e) = net_key_update_loop aes net_key_index key ks e in (r, k # ks, e))"

definition meshx_net_key_update ::
  "aes128 \<Rightarrow> u16 \<Rightarrow> bytes \<Rightarrow> key_store \<times> sys_env \<Rightarrow> errno \<times> key_store \<times> sys_env" where
  "meshx_net_key_update aes net_key_index key = (\<lambda>(s, e).
    let (r, ks, e) = net_key_update_loop aes net_key_index key (meshx_net_keys s) e
    in (r, s\<lparr>meshx_net_keys := ks\<rparr>, e))"

fun net_key_delete_loop :: "u16 \<Rightarrow> net_key_info list \<Rightarrow> errno \<times> net_key_info list" where
  "net_key_delete_loop net_key_index [] = (MESHX_ERR_NOT_FOUND, [])"
| "net_key_delete_loop net_key_index (k # ks) =
    (if nk_index k = net_key_index then (MESHX_SUCCESS, ks)
     else let (r, ks) = net_key_delete_loop net_key_index ks in (r, k # ks))"

definition meshx_net_key_delete :: "u16 \<Rightarrow> key_store \<Rightarrow> errno \<times> key_store" where
  "meshx_net_key_delete net_key_index s =
    (let (r, ks) = net_key_delete_loop net_key_index (meshx_net_keys s)
     in (r, s\<lparr>meshx_net_keys := ks\<rparr>))"

section \<open>Device keys\<close>

text \<open>The sums of address and element count are computed in \<^verbatim>\<open>int\<close>; the end of an
  existing range is stored in a 16-bit variable when a key is added.\<close>

definition dev_key_range_end :: "device_key \<Rightarrow> int" where
  "dev_key_range_end k = uint (primary_addr k) + uint (element_num k) - 1"

fun dev_key_get_loop :: "u16 \<Rightarrow> device_key list \<Rightarrow> device_key option" where
  "dev_key_get_loop addr [] = None"
| "dev_key_get_loop addr (k # ks) =
    (if addr \<ge> primary_addr k \<and> uint addr \<le> dev_key_range_end k then Some k
     else dev_key_get_loop addr ks)"

definition meshx_dev_key_get :: "u16 \<Rightarrow> key_store \<Rightarrow> device_key option" where
  "meshx_dev_key_get addr s = dev_key_get_loop addr (meshx_dev_keys s)"

definition dev_key_overlap :: "u16 \<Rightarrow> u8 \<Rightarrow> device_key \<Rightarrow> bool" where
  "dev_key_overlap addr num k =
    (let addr_start = uint (primary_addr k);
         addr_end = uint (word_of_int (dev_key_range_end k) :: u16)
     in (uint addr \<ge> addr_start \<and> uint addr \<le> addr_end) \<or>
        (uint addr + uint num - 1 \<ge> addr_start \<and> uint addr + uint num - 1 \<le> addr_end))"

definition meshx_dev_key_add ::
  "meshx_node_config \<Rightarrow> u16 \<Rightarrow> u8 \<Rightarrow> bytes \<Rightarrow> key_store \<times> sys_env \<Rightarrow> errno \<times> key_store \<times> sys_env" where
  "meshx_dev_key_add cfg addr num key = (\<lambda>(s, e).
    if addr = MESHX_ADDRESS_UNASSIGNED \<or> num = 0 then (MESHX_ERR_INVAL, s, e)
    else if length (meshx_dev_keys s) \<ge> unat (dev_key_num cfg) then (MESHX_ERR_RESOURCE, s, e)
    else if list_ex (dev_key_overlap addr num) (meshx_dev_keys s) then (MESHX_ERR_ALREADY, s, e)
    else case meshx_malloc_ok e of
      (False, e) \<Rightarrow> (MESHX_ERR_MEM, s, e)
    | (True, e) \<Rightarrow>
        (MESHX_SUCCESS,
         s\<lparr>meshx_dev_keys := meshx_dev_keys s @ [\<lparr>primary_addr = addr, element_num = num, dev_key = key\<rparr>]\<rparr>,
         e))"

section \<open>Tables of keys\<close>

text \<open>What the users of a key list rely on: looking an index up by running through the
  list.\<close>

locale key_table =
  fixes index :: "'k \<Rightarrow> 'i"
    and lookup :: "'i \<Rightarrow> 'k list \<Rightarrow> 'k option"
  assumes lookup_nil: "lookup i [] = None"
    and lookup_cons: "lookup i (k # ks) = (if index k = i then Some k else lookup i ks)"
begin

lemma lookup_append_new:
  "index x \<notin> index ` set ks \<Longrightarrow> lookup i (ks @ [x]) = (if i = index x then Some x else lookup i ks)"
  by (induction ks) (auto simp: lookup_nil lookup_cons)

lemma lookup_Some: "lookup i ks = Some k \<Longrightarrow> index k = i \<and> k \<in> set ks"
  by (induction ks) (auto simp: lookup_nil lookup_cons split: if_splits)

lemma lookup_None: "lookup i ks = None \<longleftrightarrow> i \<notin> index ` set ks"
  by (induction ks) (auto simp: lookup_nil lookup_cons)

lemma lookup_member: "distinct (map index ks) \<Longrightarrow> k \<in> set ks \<Longrightarrow> lookup (index k) ks = Some k"
  by (induction ks) (auto simp: lookup_nil lookup_cons image_iff)

end

interpretation nkt: key_table nk_index net_key_get_loop
  by unfold_locales simp_all

interpretation akt: key_table ak_index app_key_get_loop
  by unfold_locales simp_all

text \<open>The faulty search agrees with the lookup when the index is present; otherwise it is
  the last entry.\<close>

lemma find_net_key_loop_last:
  "find_net_key_loop i acc ks =
    (if i \<in> nk_index ` set ks then net_key_get_loop i ks
     else if ks = [] then acc else Some (last ks))"
  by (induction ks arbitrary: acc) auto

section \<open>Invariant\<close>

definition key_inv :: "meshx_node_config \<Rightarrow> key_store \<Rightarrow> bool" where
  "key_inv cfg s \<longleftrightarrow>
    distinct (map nk_index (meshx_net_keys s)) \<and> distinct (map ak_index (meshx_app_keys s)) \<and>
    length (meshx_net_keys s) \<le> unat (net_key_num cfg) \<and>
    length (meshx_app_keys s) \<le> unat (app_key_num cfg) \<and>
    length (meshx_dev_keys s) \<le> unat (dev_key_num cfg) \<and>
    distinct (map nk_addr (meshx_net_keys s)) \<and>
    (\<forall>k \<in> set (meshx_net_keys s). nk_addr k < key_next_addr s) \<and>
    (\<forall>k \<in> set (meshx_dev_keys s). primary_addr k \<noteq> 0 \<and> element_num k \<noteq> 0)"

lemma net_key_update_loop_shape:
  assumes "net_key_update_loop aes i key ks e = (r, ks', e')"
  shows "map nk_index ks' = map nk_index ks \<and> map nk_addr ks' = map nk_addr ks"
  using assms
  by (induction ks arbitrary: ks' e') (auto simp: Let_def split: if_splits prod.splits)

lemma app_key_update_loop_index:
  "app_key_update_loop aes s i key ks = Some (r, ks') \<Longrightarrow> map ak_index ks' = map ak_index ks"
  by (induction ks arbitrary: ks') (auto split: if_splits Option.bind_splits)

lemma app_key_transit_loop_index:
  "app_key_transit_loop s i st r ks = Some (r', ks') \<Longrightarrow> map ak_index ks' = map ak_index ks"
  by (induction ks arbitrary: r ks') (auto simp: Let_def split: if_splits Option.bind_splits prod.splits)

lemma net_key_delete_loop_sub:
  "net_key_delete_loop i ks = (r, ks') \<Longrightarrow> distinct (map f ks) \<Longrightarrow>
    distinct (map f ks') \<and> set ks' \<subseteq> set ks \<and> length ks' \<le> length ks"
proof (induction ks arbitrary: ks')
  case (Cons k ks)
  then show ?case by (fastforce split: if_splits prod.splits)
qed simp

lemmas key_add_splits = if_splits option.splits prod.splits bool.splits

lemma net_key_add_inv:
  assumes "meshx_net_key_add aes cfg junk i key (s, e) = (r, s', e')" "key_inv cfg s"
  shows "key_inv cfg s'"
  using assms
  by (auto simp: meshx_net_key_add_def key_inv_def Let_def list_ex_iff less_Suc_eq split: key_add_splits)
    fastforce

lemma app_key_add_inv:
  assumes "meshx_app_key_add aes cfg junk i j key (s, e) = (r, s', e')" "key_inv cfg s"
  shows "key_inv cfg s'"
  using assms
  by (auto simp: meshx_app_key_add_def key_inv_def Let_def list_ex_iff less_Suc_eq split: key_add_splits)

lemma dev_key_add_inv:
  assumes "meshx_dev_key_add cfg a n key (s, e) = (r, s', e')" "key_inv cfg s"
  shows "key_inv cfg s'"
  using assms
  by (auto simp: meshx_dev_key_add_def key_inv_def MESHX_ADDRESS_UNASSIGNED_def split: key_add_splits)

lemma net_key_update_inv:
  assumes "meshx_net_key_update aes i key (s, e) = (r, s', e')" "key_inv cfg s"
  shows "key_inv cfg s'"
proof -
  obtain ks where ks: "net_key_update_loop aes i key (meshx_net_keys s) e = (r, ks, e')"
      "s' = s\<lparr>meshx_net_keys := ks\<rparr>"
    using assms(1) by (auto simp: meshx_net_key_update_def split: prod.splits)
  note sh = net_key_update_loop_shape [OF ks(1)]
  have "set (map nk_addr ks) = set (map nk_addr (meshx_net_keys s))" "length ks = length (meshx_net_keys s)"
    using sh by (metis, metis length_map)
  then have "\<forall>k \<in> set ks. nk_addr k < key_next_addr s" using assms(2) by (auto simp: key_inv_def)
      (metis (no_types, lifting) image_iff)
  then show ?thesis using sh assms(2) \<open>length ks = _\<close> by (simp add: key_inv_def ks(2))
qed

lemma app_key_update_inv:
  assumes "meshx_app_key_update aes i j key s = Some (r, s')" "key_inv cfg s"
  shows "key_inv cfg s'"
proof -
  obtain ks where ks: "app_key_update_loop aes s j key (meshx_app_keys s) = Some (r, ks)"
      "s' = s\<lparr>meshx_app_keys := ks\<rparr>"
    using assms(1) by (auto simp: meshx_app_key_update_def split: Option.bind_splits)
  have "map ak_index ks = map ak_index (meshx_app_keys s)" "length ks = length (meshx_app_keys s)"
    using app_key_update_loop_index [OF ks(1)] by (simp, metis length_map)
  then show ?thesis using assms(2) by (simp add: key_inv_def ks(2))
qed

lemma app_key_transit_inv:
  assumes "meshx_app_key_state_transit i st s = Some (r, s')" "key_inv cfg s"
  shows "key_inv cfg s'"
proof -
  obtain ks where ks: "app_key_transit_loop s i st MESHX_ERR_NOT_FOUND (meshx_app_keys s) = Some (r, ks)"
      "s' = s\<lparr>meshx_app_keys := ks\<rparr>"
    using assms(1) by (auto simp: meshx_app_key_state_transit_def split: Option.bind_splits)
  have "map ak_index ks = map ak_index (meshx_app_keys s)" "length ks = length (meshx_app_keys s)"
    using app_key_transit_loop_index [OF ks(1)] by (simp, metis length_map)
  then show ?thesis using assms(2) by (simp add: key_inv_def ks(2))
qed

lemma net_key_delete_inv:
  assumes "meshx_net_key_delete i s = (r, s')" "key_inv cfg s"
  shows "key_inv cfg s'"
proof -
  obtain ks where ks: "net_key_delete_loop i (meshx_net_keys s) = (r, ks)" "s' = s\<lparr>meshx_net_keys := ks\<rparr>"
    using assms(1) by (auto simp: meshx_net_key_delete_def split: prod.splits)
  show ?thesis
    using net_key_delete_loop_sub [OF ks(1), of nk_index] net_key_delete_loop_sub [OF ks(1), of nk_addr] assms(2)
    by (auto simp: key_inv_def ks(2))
qed

section \<open>Derived values\<close>

text \<open>The key values of a network key that its state gives a use to are results of the
  derivation, so the node never works with a value it has not derived.\<close>

definition derived :: "aes128 \<Rightarrow> net_key_value \<Rightarrow> bool" where
  "derived aes v \<longleftrightarrow> (\<exists>u e e'. meshx_net_key_derive aes u e = (v, e'))"

definition value_derived :: "aes128 \<Rightarrow> net_key_info \<Rightarrow> bool" where
  "value_derived aes k \<longleftrightarrow> derived aes (nk_value0 k) \<and> (nk_state k \<noteq> MESHX_KEY_STATE_NORMAL \<longrightarrow> derived aes (nk_value1 k))"

definition keys_derived :: "aes128 \<Rightarrow> key_store \<Rightarrow> bool" where
  "keys_derived aes s \<longleftrightarrow> (\<forall>k \<in> set (meshx_net_keys s). value_derived aes k)"

lemma derivedI: "meshx_net_key_derive aes u e = (v, e') \<Longrightarrow> derived aes v"
  by (auto simp: derived_def)

lemma net_key_add_derived:
  assumes "meshx_net_key_add aes cfg junk i key (s, e) = (r, s', e')" "keys_derived aes s"
  shows "keys_derived aes s'"
  using assms
  by (auto simp: meshx_net_key_add_def keys_derived_def value_derived_def Let_def split: key_add_splits)
    (blast intro: derivedI)+

lemma net_key_update_derived:
  assumes "meshx_net_key_update aes i key (s, e) = (r, s', e')" "keys_derived aes s"
  shows "keys_derived aes s'"
proof -
  have "net_key_update_loop aes i key ks e = (r, ks', e') \<Longrightarrow> \<forall>k \<in> set ks. value_derived aes k \<Longrightarrow>
    \<forall>k \<in> set ks'. value_derived aes k" for ks ks' e'
    by (induction ks arbitrary: ks' e') (auto simp: Let_def value_derived_def dest: derivedI split: if_splits prod.splits)
  then show ?thesis using assms
    by (auto simp: meshx_net_key_update_def keys_derived_def split: prod.splits)
qed

lemma net_key_delete_derived:
  assumes "meshx_net_key_delete i s = (r, s')" "keys_derived aes s"
  shows "keys_derived aes s'"
proof -
  have "net_key_delete_loop i ks = (r, ks') \<Longrightarrow> set ks' \<subseteq> set ks" for ks ks'
    by (induction ks arbitrary: ks') (auto split: if_splits prod.splits)
  then show ?thesis using assms
    by (fastforce simp: meshx_net_key_delete_def keys_derived_def split: prod.splits)
qed

text \<open>The other operations leave the network keys alone.\<close>

lemma other_net_keys:
  "meshx_app_key_add aes cfg junk i j key (s, e) = (r, s', e') \<Longrightarrow> meshx_net_keys s' = meshx_net_keys s"
  "meshx_app_key_update aes i j key s = Some (r, s') \<Longrightarrow> meshx_net_keys s' = meshx_net_keys s"
  "meshx_app_key_state_transit i st s = Some (r, s') \<Longrightarrow> meshx_net_keys s' = meshx_net_keys s"
  "meshx_dev_key_add cfg a n key (s, e) = (r, s', e') \<Longrightarrow> meshx_net_keys s' = meshx_net_keys s"
  by (auto simp: meshx_app_key_add_def meshx_app_key_update_def meshx_app_key_state_transit_def meshx_dev_key_add_def
      Let_def split: key_add_splits Option.bind_splits)

lemma tx_get_derived:
  assumes "keys_derived aes s" "meshx_net_key_tx_get i s = Some v"
  shows "derived aes v"
proof -
  obtain k where k: "meshx_net_key_get i s = Some k"
    "v = (if nk_state k = MESHX_KEY_STATE_PHASE2 then nk_value1 k else nk_value0 k)"
    using assms(2) by (auto simp: meshx_net_key_tx_get_def split: option.splits)
  have "k \<in> set (meshx_net_keys s)" using k(1) nkt.lookup_Some [of i "meshx_net_keys s" k] by (simp add: meshx_net_key_get_def)
  then show ?thesis using assms(1) k(2) by (auto simp: keys_derived_def value_derived_def)
qed

section \<open>Properties\<close>

definition demo_env :: sys_env where
  "demo_env = \<lparr>rnd_src = \<lambda>_. 0, rnd_pos = 0, mem_src = \<lambda>_. True, mem_pos = 0, tmr_src = \<lambda>_. True, tmr_pos = 0\<rparr>"

definition demo_net_value :: net_key_value where
  "demo_net_value = \<lparr>net_key = zeros 16, identity_key = [], beacon_key = [], nid = 0,
    encryption_key = [], privacy_key = [], net_id = []\<rparr>"

definition demo_net_info :: net_key_info where
  "demo_net_info = \<lparr>nk_addr = 1, nk_state = MESHX_KEY_STATE_NORMAL, nk_index = 7,
    nk_value0 = demo_net_value, nk_value1 = demo_net_value\<rparr>"

definition demo_store :: key_store where
  "demo_store = key_store_init\<lparr>meshx_net_keys := [demo_net_info], key_next_addr := 2\<rparr>"

text \<open>A network key added is found: a successful addition makes the lookup of its index
  return the new key, in the normal state and with its derived keys, which is also the key
  used for sending, and changes no other lookup.\<close>

lemma net_key_add_lookup:
  assumes "meshx_net_key_add aes cfg junk i key (s, e) = (MESHX_SUCCESS, s', e')"
  shows "\<exists>k. meshx_net_key_get i s' = Some k \<and> nk_state k = MESHX_KEY_STATE_NORMAL \<and>
    (\<exists>e1 e2. meshx_net_key_derive aes (junk\<lparr>net_key := key\<rparr>) e1 = (nk_value0 k, e2)) \<and>
    meshx_net_key_tx_get i s' = Some (nk_value0 k) \<and>
    (\<forall>j. j \<noteq> i \<longrightarrow> meshx_net_key_get j s' = meshx_net_key_get j s)"
proof -
  obtain e1 v where v: "meshx_net_key_derive aes (junk\<lparr>net_key := key\<rparr>) e1 = (v, e')"
    and s': "s' = s\<lparr>meshx_net_keys := meshx_net_keys s @
        [\<lparr>nk_addr = key_next_addr s, nk_state = MESHX_KEY_STATE_NORMAL, nk_index = i,
          nk_value0 = v, nk_value1 = junk\<rparr>], key_next_addr := Suc (key_next_addr s)\<rparr>"
    and new: "i \<notin> nk_index ` set (meshx_net_keys s)"
    using assms by (auto simp: meshx_net_key_add_def Let_def list_ex_iff split: key_add_splits)
  show ?thesis using v new
    by (auto simp: s' meshx_net_key_get_def meshx_net_key_tx_get_def nkt.lookup_append_new)
qed

text \<open>The search for the network key of an application key never fails on a non-empty
  list: adding an application key for an unknown network key index succeeds, and the key
  is bound to the last network key of the list.\<close>

lemma app_key_add_unknown_net:
  assumes "meshx_net_key_get i s = None" "meshx_net_keys s \<noteq> []"
    "meshx_app_key_get j s = None" "length (meshx_app_keys s) < unat (app_key_num cfg)"
    "fst (meshx_malloc_ok e)"
  shows "\<exists>s' k. meshx_app_key_add aes cfg junk i j key (s, e) = (MESHX_SUCCESS, s', snd (meshx_malloc_ok e)) \<and>
    meshx_app_key_get j s' = Some k \<and> ak_bind k = nk_addr (last (meshx_net_keys s))"
proof -
  have f: "meshx_find_net_key i s = Some (last (meshx_net_keys s))"
    using assms(1,2) by (simp add: meshx_find_net_key_def find_net_key_loop_last meshx_net_key_get_def nkt.lookup_None)
  have j: "j \<notin> ak_index ` set (meshx_app_keys s)"
    using assms(3) by (simp add: meshx_app_key_get_def akt.lookup_None)
  then have "\<not> list_ex (\<lambda>k. ak_index k = j) (meshx_app_keys s)" by (auto simp: list_ex_iff)
  then show ?thesis using f j assms(4,5)
    by (cases "meshx_malloc_ok e")
      (auto simp: meshx_app_key_add_def Let_def meshx_app_key_get_def akt.lookup_append_new)
qed

lemma app_key_update_loop_found:
  assumes "app_key_get_loop j ks = Some k" "bound_net_key k s = Some nk"
    "nk_state nk = MESHX_KEY_STATE_PHASE1" "ak_state k \<noteq> MESHX_KEY_STATE_PHASE1"
  shows "\<exists>ks'. app_key_update_loop aes s j key ks = Some (MESHX_SUCCESS, ks') \<and>
    app_key_get_loop j ks' = Some (k\<lparr>ak_state := MESHX_KEY_STATE_PHASE1,
      ak_value1 := (ak_value1 k)\<lparr>app_key := key\<rparr>,
      ak_value0 := meshx_app_key_derive aes (ak_value0 k)\<rparr>)"
  using assms
proof (induction ks)
  case (Cons x ks)
  then show ?case by (cases "ak_index x = j") auto
qed simp

text \<open>Updating an application key while its network key is in phase 1 stores the new key in
  the second slot, but derives the identifier of the first: the second slot keeps whatever
  identifier it had, so messages under the new key cannot be recognised by it.\<close>

lemma app_key_update_derives_old:
  assumes "meshx_app_key_get j s = Some k" "bound_net_key k s = Some nk"
    "nk_state nk = MESHX_KEY_STATE_PHASE1" "ak_state k = MESHX_KEY_STATE_NORMAL"
  shows "\<exists>s' k'. meshx_app_key_update aes i j key s = Some (MESHX_SUCCESS, s') \<and>
    meshx_app_key_get j s' = Some k' \<and> ak_state k' = MESHX_KEY_STATE_PHASE1 \<and>
    app_key (ak_value1 k') = key \<and> aid (ak_value1 k') = aid (ak_value1 k) \<and>
    aid (ak_value0 k') = meshx_k4 aes (app_key (ak_value0 k))"
  using app_key_update_loop_found [of j "meshx_app_keys s" k s nk aes key] assms
  by (auto simp: meshx_app_key_get_def meshx_app_key_update_def meshx_app_key_derive_def)

definition demo_app_info :: app_key_info where
  "demo_app_info = \<lparr>ak_addr = 2, ak_state = MESHX_KEY_STATE_NORMAL, ak_index = 4,
    ak_value0 = \<lparr>app_key = zeros 16, aid = 5\<rparr>, ak_value1 = \<lparr>app_key = [], aid = 77\<rparr>, ak_bind = 1\<rparr>"

text \<open>The overlap test of device keys only looks at the two ends of the new range: a range
  that strictly encloses every existing one is added, and addresses then belong to two
  devices, of which the lookup returns the older.\<close>

lemma dev_key_add_enclosing:
  assumes "meshx_dev_keys s = [k]" "1 < unat (dev_key_num cfg)" "fst (meshx_malloc_ok e)"
    "element_num k \<noteq> 0" "uint (primary_addr k) + uint (element_num k) - 1 < 65536"
    "addr \<noteq> 0" "addr < primary_addr k"
    "uint (primary_addr k) + uint (element_num k) < uint addr + uint num"
  shows "\<exists>s'. meshx_dev_key_add cfg addr num key (s, e) = (MESHX_SUCCESS, s', snd (meshx_malloc_ok e)) \<and>
    meshx_dev_keys s' = [k, \<lparr>primary_addr = addr, element_num = num, dev_key = key\<rparr>] \<and>
    meshx_dev_key_get (primary_addr k) s' = Some k"
proof -
  have en: "0 < uint (element_num k)"
    using assms(4) by (simp add: less_le [of 0] unsigned_eq_0_iff)
  then have n0: "num \<noteq> 0" using assms(7,8) by (auto simp: word_less_def)
  have w: "uint (word_of_int x :: u16) = x" if "0 \<le> x" "x < 65536" for x
    using that by (simp add: unsigned_of_int take_bit_int_eq_self)
  have "0 \<le> dev_key_range_end k" "dev_key_range_end k < 65536"
    using assms(5) en unsigned_greater_eq [of "primary_addr k", where ?'a = int]
    unfolding dev_key_range_end_def by linarith+
  then have "uint (word_of_int (dev_key_range_end k) :: u16) = dev_key_range_end k" by (rule w)
  then have "\<not> dev_key_overlap addr num k"
    unfolding dev_key_overlap_def Let_def using assms(7,8) en
    by (auto simp: dev_key_range_end_def word_less_def)
  then show ?thesis using assms n0 en
    by (cases "meshx_malloc_ok e")
      (auto simp: meshx_dev_key_add_def MESHX_ADDRESS_UNASSIGNED_def meshx_dev_key_get_def dev_key_range_end_def)
qed

end
