(* ===== verification/Mesh_Beacon.thy ===== *)
theory Mesh_Beacon
  imports Mesh_Gap Mesh_Key Mesh_Iv_Index Mesh_Node
begin

text \<open>
  The beacons of \<^verbatim>\<open>mesh/beacon/meshx_beacon.c\<close>: the unprovisioned device beacon
  and the secure network beacon, their periodic transmission and their reception.  The
  record holds the static variables; the argument the timer passes to its handler is kept
  beside the timer.  An outer option is a read outside the received payload or a null
  bearer.  The notification of a received device beacon is a value of the result.
\<close>

record beacon_state =
  beacon_timer :: meshx_timer_t
  beacon_timer_arg :: meshx_bearer_t
  meshx_oob_info :: u16
  meshx_uri_hash_exists :: bool
  meshx_uri_hash :: u32

definition MESHX_BEACON_TYPE_UDB :: u8 where "MESHX_BEACON_TYPE_UDB = 0"
definition MESHX_BEACON_TYPE_SNB :: u8 where "MESHX_BEACON_TYPE_SNB = 1"

section \<open>Transmission\<close>

text \<open>The optional hash is cut off when there is none.\<close>

definition udb_bytes :: "bytes \<Rightarrow> beacon_state \<Rightarrow> bytes" where
  "udb_bytes uuid s =
    MESHX_BEACON_TYPE_UDB # uuid @ mem16 (meshx_oob_info s) @
    (if meshx_uri_hash_exists s then mem32 (meshx_uri_hash s) else [])"

definition meshx_beacon_send_udb ::
  "meshx_node_params \<Rightarrow> beacon_state \<Rightarrow> meshx_bearer_t \<Rightarrow> gap_state \<Rightarrow> gap_state option" where
  "meshx_beacon_send_udb np s b g = do {
    (r, g) \<leftarrow> meshx_bearer_adv_send b MESHX_GAP_ADTYPE_MESH_BEACON (udb_bytes (dev_uuid (config np)) s) g;
    Some g
  }"

definition iv_state_num :: "meshx_iv_update_state \<Rightarrow> u8" where
  "iv_state_num st = (case st of MESHX_IV_UPDATE_STATE_NORMAL \<Rightarrow> 0 | MESHX_IV_UPDATE_STATE_IN_PROGRESS \<Rightarrow> 1)"

text \<open>The value a key of the table sends with.\<close>

definition snb_key_value :: "net_key_info \<Rightarrow> net_key_value" where
  "snb_key_value k = (if nk_state k = MESHX_KEY_STATE_PHASE2 then nk_value1 k else nk_value0 k)"

definition snb_bytes :: "aes128 \<Rightarrow> iv_state \<Rightarrow> net_key_value \<Rightarrow> bytes" where
  "snb_bytes aes ivs v =
    (let flag = push_bit 1 (iv_state_num (meshx_iv_update_state_get ivs));
         body = flag # net_id v @ mem32 (meshx_iv_index_get ivs)
     in MESHX_BEACON_TYPE_SNB # body @ take 8 (meshx_aes_cmac aes (beacon_key v) body))"

fun beacon_send_snb_loop ::
  "aes128 \<Rightarrow> iv_state \<Rightarrow> meshx_bearer_t \<Rightarrow> net_key_info list \<Rightarrow> gap_state \<Rightarrow> gap_state option" where
  "beacon_send_snb_loop aes ivs b [] g = Some g"
| "beacon_send_snb_loop aes ivs b (k # ks) g = do {
    (r, g) \<leftarrow> meshx_bearer_adv_send b MESHX_GAP_ADTYPE_MESH_BEACON (snb_bytes aes ivs (snb_key_value k)) g;
    beacon_send_snb_loop aes ivs b ks g
  }"

definition meshx_beacon_send_snb ::
  "aes128 \<Rightarrow> iv_state \<Rightarrow> key_store \<Rightarrow> meshx_bearer_t \<Rightarrow> gap_state \<Rightarrow> gap_state option" where
  "meshx_beacon_send_snb aes ivs keys b g = beacon_send_snb_loop aes ivs b (meshx_net_keys keys) g"

definition meshx_beacon_async_handle_timeout ::
  "aes128 \<Rightarrow> meshx_node_params \<Rightarrow> iv_state \<Rightarrow> key_store \<Rightarrow> beacon_state \<Rightarrow> meshx_bearer_t \<Rightarrow> gap_state \<Rightarrow> gap_state option" where
  "meshx_beacon_async_handle_timeout aes np ivs keys s b g =
    (if node_addr (param np) = MESHX_ADDRESS_UNASSIGNED
     then meshx_beacon_send_udb np s b g
     else meshx_beacon_send_snb aes ivs keys b g)"

definition meshx_beacon_send ::
  "aes128 \<Rightarrow> meshx_node_params \<Rightarrow> iv_state \<Rightarrow> key_store \<Rightarrow> beacon_state \<Rightarrow> meshx_bearer_t \<Rightarrow> u8 \<Rightarrow> gap_state \<Rightarrow> (errno \<times> gap_state) option" where
  "meshx_beacon_send aes np ivs keys s b beacon_type g = do {
    h \<leftarrow> b;
    if bearer_type g h \<noteq> MESHX_BEARER_TYPE_ADV then Some (MESHX_ERR_INVAL, g)
    else if beacon_type = MESHX_BEACON_TYPE_UDB
    then if node_addr (param np) \<noteq> MESHX_ADDRESS_UNASSIGNED then Some (MESHX_ERR_STATE, g)
         else do { g \<leftarrow> meshx_beacon_send_udb np s b g; Some (MESHX_SUCCESS, g) }
    else if beacon_type = MESHX_BEACON_TYPE_SNB
    then if node_addr (param np) = MESHX_ADDRESS_UNASSIGNED then Some (MESHX_ERR_STATE, g)
         else do { g \<leftarrow> meshx_beacon_send_snb aes ivs keys b g; Some (MESHX_SUCCESS, g) }
    else Some (MESHX_ERR_INVAL, g)
  }"

definition meshx_beacon_start ::
  "meshx_node_params \<Rightarrow> gap_state \<Rightarrow> meshx_bearer_t \<Rightarrow> u8 \<Rightarrow> u32 \<Rightarrow> beacon_state \<times> sys_env \<Rightarrow> errno \<times> beacon_state \<times> sys_env" where
  "meshx_beacon_start np g b beacon_type interval = (\<lambda>(s, e).
    if b = None \<or> bearer_type g (the b) \<noteq> MESHX_BEARER_TYPE_ADV then (MESHX_ERR_INVAL, s, e)
    else
      let ret = (if beacon_type = MESHX_BEACON_TYPE_UDB
                 then if node_addr (param np) \<noteq> MESHX_ADDRESS_UNASSIGNED then MESHX_ERR_STATE else MESHX_SUCCESS
                 else if beacon_type = MESHX_BEACON_TYPE_SNB
                 then if node_addr (param np) = MESHX_ADDRESS_UNASSIGNED then MESHX_ERR_STATE else MESHX_SUCCESS
                 else MESHX_ERR_INVAL)
      in if ret = MESHX_SUCCESS
         then if beacon_timer s = None
              then (case meshx_timer_create (beacon_timer s) MESHX_TIMER_MODE_REPEATED e of
                      (ret, tm, e) \<Rightarrow>
                        if ret = MESHX_SUCCESS
                        then (ret, s\<lparr>beacon_timer := snd (meshx_timer_start tm interval), beacon_timer_arg := b\<rparr>, e)
                        else (ret, s\<lparr>beacon_timer := tm\<rparr>, e))
              else (ret, s\<lparr>beacon_timer := snd (meshx_timer_start (beacon_timer s) interval)\<rparr>, e)
         else (ret, s, e))"

definition meshx_beacon_stop :: "u8 \<Rightarrow> beacon_state \<Rightarrow> beacon_state" where
  "meshx_beacon_stop beacon_type s =
    (if beacon_timer s \<noteq> None
     then let s = s\<lparr>beacon_timer := snd (meshx_timer_stop (beacon_timer s))\<rparr>;
              s = s\<lparr>beacon_timer := meshx_timer_delete (beacon_timer s)\<rparr>
          in s\<lparr>beacon_timer := None\<rparr>
     else s)"

definition meshx_beacon_set_oob_info :: "u16 \<Rightarrow> beacon_state \<Rightarrow> beacon_state" where
  "meshx_beacon_set_oob_info oob_info s = s\<lparr>meshx_oob_info := oob_info\<rparr>"

definition meshx_beacon_set_uri_hash :: "u32 \<Rightarrow> beacon_state \<Rightarrow> beacon_state" where
  "meshx_beacon_set_uri_hash uri_hash s = s\<lparr>meshx_uri_hash_exists := True, meshx_uri_hash := uri_hash\<rparr>"

section \<open>Reception\<close>

text \<open>The notification of a device beacon: uuid, out-of-band information and, when it was
  sent, the hash.\<close>

datatype udb_note = NOTIFY_UDB bytes u16 "u32 option"

definition recv_udb :: "bytes \<Rightarrow> udb_note option" where
  "recv_udb pdata = do {
    uuid \<leftarrow> mem_read pdata 1 16;
    oob \<leftarrow> mem_read pdata 17 2;
    if length pdata = 23
    then do { hash \<leftarrow> mem_read pdata 19 4; Some (NOTIFY_UDB uuid (of_mem16 oob) (Some (of_mem32 hash))) }
    else Some (NOTIFY_UDB uuid (of_mem16 oob) None)
  }"

text \<open>Whether a beacon belongs to a key value: the network id, then the authentication
  value.\<close>

definition snb_matches :: "aes128 \<Rightarrow> bytes \<Rightarrow> net_key_value \<Rightarrow> bool option" where
  "snb_matches aes pdata v = do {
    nid \<leftarrow> mem_read pdata 2 8;
    if net_id v \<noteq> nid then Some False
    else do {
      body \<leftarrow> mem_read pdata 1 13;
      auth \<leftarrow> mem_read pdata 14 8;
      Some (auth = take 8 (meshx_aes_cmac aes (beacon_key v) body))
    }
  }"

fun snb_value :: "nat \<Rightarrow> net_key_info \<Rightarrow> net_key_value" where
  "snb_value i k = (if i = 0 then nk_value0 k else nk_value1 k)"

fun snb_find_value :: "aes128 \<Rightarrow> bytes \<Rightarrow> net_key_info \<Rightarrow> nat list \<Rightarrow> nat option option" where
  "snb_find_value aes pdata k [] = Some None"
| "snb_find_value aes pdata k (i # is) = do {
    m \<leftarrow> snb_matches aes pdata (snb_value i k);
    if m then Some (Some i) else snb_find_value aes pdata k is
  }"

definition snb_indices :: "net_key_info \<Rightarrow> nat list" where
  "snb_indices k =
    (if nk_state k = MESHX_KEY_STATE_PHASE1 \<or> nk_state k = MESHX_KEY_STATE_PHASE2 then [0, 1] else [0])"

text \<open>The first key of the table one of whose values the beacon belongs to, with the keys
  before and behind it.\<close>

fun snb_find_key ::
  "aes128 \<Rightarrow> bytes \<Rightarrow> net_key_info list \<Rightarrow> net_key_info list \<Rightarrow> (net_key_info list \<times> net_key_info \<times> nat \<times> net_key_info list) option option" where
  "snb_find_key aes pdata done [] = Some None"
| "snb_find_key aes pdata done (k # ks) = do {
    m \<leftarrow> snb_find_value aes pdata k (snb_indices k);
    (case m of
       Some i \<Rightarrow> Some (Some (done, k, i, ks))
     | None \<Rightarrow> snb_find_key aes pdata (done @ [k]) ks)
  }"

text \<open>What an authentic beacon does: the key refresh transition, then the update of the IV
  index.\<close>

definition snb_process ::
  "bool \<Rightarrow> bytes \<Rightarrow> net_key_info list \<times> net_key_info \<times> nat \<times> net_key_info list \<Rightarrow> key_store \<times> iv_world \<Rightarrow> (errno \<times> key_store \<times> iv_world) option" where
  "snb_process busy pdata = (\<lambda>(pre, k, i, post) (keys, w). do {
    flag \<leftarrow> mem_read pdata 1 1;
    ivb \<leftarrow> mem_read pdata 10 4;
    let refresh = bit (flag ! 0) 0;
        st = (if bit (flag ! 0) 1 then MESHX_IV_UPDATE_STATE_IN_PROGRESS else MESHX_IV_UPDATE_STATE_NORMAL)
    in if refresh \<and> nk_state k = MESHX_KEY_STATE_NORMAL then Some (MESHX_ERR_STATE, keys, w)
    else do {
      keys \<leftarrow>
        (if refresh
         then do {
           (_, keys) \<leftarrow> meshx_app_key_state_transit (nk_index k) MESHX_KEY_STATE_PHASE2
             (keys\<lparr>meshx_net_keys := pre @ k\<lparr>nk_state := MESHX_KEY_STATE_PHASE2\<rparr> # post\<rparr>);
           Some keys }
         else if i = 1
         then do {
           (_, keys) \<leftarrow> meshx_app_key_state_transit (nk_index k) MESHX_KEY_STATE_NORMAL
             (keys\<lparr>meshx_net_keys := pre @ k\<lparr>nk_state := MESHX_KEY_STATE_NORMAL, nk_value0 := nk_value1 k\<rparr> # post\<rparr>);
           Some keys }
         else Some keys);
      (_, w) \<leftarrow> meshx_iv_index_update busy (of_mem32 ivb) st w;
      Some (MESHX_SUCCESS, keys, w)
    }
  })"

definition meshx_beacon_receive ::
  "aes128 \<Rightarrow> bool \<Rightarrow> bytes \<Rightarrow> key_store \<times> iv_world \<Rightarrow> (errno \<times> udb_note option \<times> key_store \<times> iv_world) option" where
  "meshx_beacon_receive aes busy pdata = (\<lambda>(keys, w). do {
    t \<leftarrow> mem_read pdata 0 1;
    if t ! 0 = MESHX_BEACON_TYPE_UDB
    then do { n \<leftarrow> recv_udb pdata; Some (MESHX_SUCCESS, Some n, keys, w) }
    else if t ! 0 = MESHX_BEACON_TYPE_SNB
    then do {
      m \<leftarrow> snb_find_key aes pdata [] (meshx_net_keys keys);
      (case m of
         None \<Rightarrow> Some (MESHX_ERR_KEY, None, keys, w)
       | Some hit \<Rightarrow> do {
           (r, keys, w) \<leftarrow> snb_process busy pdata hit (keys, w);
           Some (r, None, keys, w) })
    }
    else Some (MESHX_SUCCESS, None, keys, w)
  })"

section \<open>Lemmas\<close>

lemma snb_bytes_parts:
  assumes "aes_block aes" "length (net_id v) = 8"
  shows "length (snb_bytes aes ivs v) = 22"
    "snb_bytes aes ivs v ! 0 = MESHX_BEACON_TYPE_SNB"
    "snb_bytes aes ivs v ! Suc 0 = push_bit 1 (iv_state_num (meshx_iv_update_state ivs))"
    "take 8 (drop 2 (snb_bytes aes ivs v)) = net_id v"
    "take 4 (drop 10 (snb_bytes aes ivs v)) = mem32 (cur_iv_index ivs)"
    "take 8 (drop 14 (snb_bytes aes ivs v)) =
       take 8 (meshx_aes_cmac aes (beacon_key v) (take 13 (drop 1 (snb_bytes aes ivs v))))"
  using assms
  by (simp_all add: snb_bytes_def Let_def meshx_iv_update_state_get_def meshx_iv_index_get_def
      take_Cons' drop_Cons')

lemma snb_matches_own:
  assumes "aes_block aes" "length (net_id v) = 8"
  shows "snb_matches aes (snb_bytes aes ivs v) v = Some True"
  using snb_bytes_parts [OF assms, of ivs] assms
  by (simp add: snb_matches_def mem_read_def)

lemma snb_matches_other:
  assumes "aes_block aes" "length (net_id v) = 8" "net_id u \<noteq> net_id v"
  shows "snb_matches aes (snb_bytes aes ivs v) u = Some False"
  using snb_bytes_parts [OF assms(1,2), of ivs] assms
  by (simp add: snb_matches_def mem_read_def)

lemma snb_find_value_other:
  assumes "aes_block aes" "length (net_id v) = 8" "\<forall>i \<in> set is. net_id (snb_value i k) \<noteq> net_id v"
  shows "snb_find_value aes (snb_bytes aes ivs v) k is = Some None"
  using assms(3) by (induction "is") (auto simp: snb_matches_other [OF assms(1,2)])

lemma snb_find_key_own:
  assumes "aes_block aes" "length (net_id v) = 8" "nk_value0 k = v"
    and "\<forall>j \<in> set pre. \<forall>i \<in> set (snb_indices j). net_id (snb_value i j) \<noteq> net_id v"
  shows "snb_find_key aes (snb_bytes aes ivs v) done (pre @ k # post) = Some (Some (done @ pre, k, 0, post))"
  using assms(4)
proof (induction pre arbitrary: "done")
  case Nil
  then show ?case
    using snb_matches_own [OF assms(1,2), of ivs] assms(3) by (simp add: snb_indices_def)
next
  case (Cons j js)
  then show ?case by (simp add: snb_find_value_other [OF assms(1,2)])
qed

lemma of_mem32_mem32 [simp]: "of_mem32 (mem32 x) = x"
  unfolding mem32_def of_mem32_def
  apply (rule bit_word_eqI)
  subgoal for n by (rule split32 [of n]) (auto simp: bit_simps)
  done

lemma snb_flag_bits [simp]:
  "bit (iv_state_num st * 2) 0 = False"
  "bit (iv_state_num st * 2) (Suc 0) \<longleftrightarrow> st = MESHX_IV_UPDATE_STATE_IN_PROGRESS"
  by (cases st; simp add: iv_state_num_def)+

lemma iv_state_if [simp]:
  "(if st = MESHX_IV_UPDATE_STATE_IN_PROGRESS then MESHX_IV_UPDATE_STATE_IN_PROGRESS
    else MESHX_IV_UPDATE_STATE_NORMAL) = st"
  by (cases st) simp_all

lemma snb_find_value_Some:
  "snb_find_value aes pdata k is = Some (Some i) \<Longrightarrow> i \<in> set is \<and> snb_matches aes pdata (snb_value i k) = Some True"
  by (induction "is") (auto split: Option.bind_splits if_splits)

lemma snb_find_key_Some:
  "snb_find_key aes pdata done ks = Some (Some (pre, k, i, post)) \<Longrightarrow>
   k \<in> set ks \<and> i \<in> set (snb_indices k) \<and> snb_matches aes pdata (snb_value i k) = Some True"
proof (induction ks arbitrary: "done")
  case (Cons j js)
  from Cons.prems obtain m where m: "snb_find_value aes pdata j (snb_indices j) = Some m"
    by (auto split: Option.bind_splits)
  show ?case
  proof (cases m)
    case None
    then show ?thesis using Cons m by auto
  next
    case (Some i')
    then show ?thesis using Cons.prems m snb_find_value_Some [of aes pdata j "snb_indices j" i'] by auto
  qed
qed simp

lemma snb_receive_own:
  assumes "aes_block aes" "length (net_id v) = 8"
    and "meshx_net_keys keys = pre @ k # post" "nk_value0 k = v"
    and "\<forall>j \<in> set pre. \<forall>i \<in> set (snb_indices j). net_id (snb_value i j) \<noteq> net_id v"
    and "meshx_iv_index_update busy (cur_iv_index ivs) (meshx_iv_update_state ivs) w = Some (r, w')"
  shows "meshx_beacon_receive aes busy (snb_bytes aes ivs v) (keys, w) = Some (MESHX_SUCCESS, None, keys, w')"
  using snb_bytes_parts [OF assms(1,2), of ivs] assms(6)
  by (simp add: Let_def meshx_beacon_receive_def mem_read_def assms(3) snb_find_key_own [OF assms(1,2,4,5)]
      snb_process_def MESHX_BEACON_TYPE_SNB_def MESHX_BEACON_TYPE_UDB_def hd_drop_conv_nth
      take_Suc_conv_app_nth)

text \<open>A network whose key has the network id of zeros, and a beacon of a node that has
  started an update.\<close>

definition demo_snb_keys :: key_store where
  "demo_snb_keys = demo_store\<lparr>meshx_net_keys := [demo_net_info\<lparr>nk_value0 := demo_net_value\<lparr>net_id := zeros 8\<rparr>\<rparr>]\<rparr>"

definition demo_snb :: bytes where
  "demo_snb = snb_bytes demo_aes
    (iv_reset\<lparr>cur_iv_index := 1, meshx_iv_update_state := MESHX_IV_UPDATE_STATE_IN_PROGRESS\<rparr>)
    (demo_net_value\<lparr>net_id := zeros 8\<rparr>)"

lemma demo_snb_update:
  "\<exists>w'. meshx_iv_index_update True 1 MESHX_IV_UPDATE_STATE_IN_PROGRESS demo_world = Some (MESHX_SUCCESS, w') \<and>
    w' \<noteq> demo_world"
proof -
  have n: "iv_near 1 (iv demo_world)" by (simp add: demo_world_def iv_near_def iv_reset_def)
  show ?thesis
    by (simp add: iv_update_int [OF n] gain_nat Let_def) (simp add: iv_reset_def demo_world_def)
qed

section \<open>Reachable key stores\<close>









section \<open>Properties\<close>







text \<open>C21: A secure network beacon sent with a key that the receiver holds in the normal state,
  behind keys of other networks, is accepted and acted on: when the step from the receiver's IV
  index and state to the sender's is forward by at most 42, the receiver has been in its state
  long enough (or is in test mode) and no segmented message is under way, reception succeeds,
  the receiver has the sender's IV index and update state, its sequence numbers and replay list
  start afresh unless the beacon only starts the procedure, and the key table stays as it is.\<close>

theorem snb_roundtrip:
  assumes "aes_block aes" "length (net_id v) = 8"
    and "meshx_net_keys keys = pre @ k # post" "nk_value0 k = v" "nk_state k = MESHX_KEY_STATE_NORMAL"
    and "\<forall>j \<in> set pre. \<forall>i \<in> set (snb_indices j). net_id (snb_value i j) \<noteq> net_id v"
    and "cur_iv_index (iv w) \<le> cur_iv_index ivs" "uint (cur_iv_index ivs) - uint (cur_iv_index (iv w)) \<le> 42"
    and "0 < iv_gain (cur_iv_index ivs) (meshx_iv_update_state ivs) (iv w)"
    and "meshx_iv_test_mode_enabled (iv w) \<or>
      288 * iv_gain (cur_iv_index ivs) (meshx_iv_update_state ivs) (iv w) \<le> uint (meshx_iv_operate_tick_time (iv w))"
    and "meshx_seq_clear (seqs w) = Some q"
  shows "\<exists>w'. meshx_beacon_receive aes False (snb_bytes aes ivs v) (keys, w) = Some (MESHX_SUCCESS, None, keys, w') \<and>
    cur_iv_index (iv w') = cur_iv_index ivs \<and> meshx_iv_update_state (iv w') = meshx_iv_update_state ivs \<and>
    (if iv_gain (cur_iv_index ivs) (meshx_iv_update_state ivs) (iv w) = 1 \<and>
        meshx_iv_update_state ivs = MESHX_IV_UPDATE_STATE_IN_PROGRESS
     then seqs w' = seqs w \<and> rpls w' = rpls w
     else seqs w' = q \<and> rpls w' = meshx_rpl_clear (rpls w))"
  using iv_update_due [OF assms(7-11)] snb_receive_own [OF assms(1-4,6)] by blast

text \<open>C22: a secure network beacon changes nothing unless it is authentic: when reception
  changes the key table or the IV state, some value that a key of the table may be used
  with has the network id of the beacon, and the beacon's authentication value is the
  first half of the CMAC of flags, network id and IV index under its beacon key.\<close>

theorem snb_authentic:
  assumes "meshx_beacon_receive aes busy pdata (keys, w) = Some (r, n, keys', w')"
    and "(keys', w') \<noteq> (keys, w)"
  shows "\<exists>k \<in> set (meshx_net_keys keys). \<exists>i \<in> set (snb_indices k).
    mem_read pdata 2 8 = Some (net_id (snb_value i k)) \<and>
    (\<exists>body. mem_read pdata 1 13 = Some body \<and>
       mem_read pdata 14 8 = Some (take 8 (meshx_aes_cmac aes (beacon_key (snb_value i k)) body)))"
proof -
  obtain pre k i post where "snb_find_key aes pdata [] (meshx_net_keys keys) = Some (Some (pre, k, i, post))"
    using assms by (auto simp: meshx_beacon_receive_def split: Option.bind_splits if_splits option.splits prod.splits)
  from snb_find_key_Some [OF this] have k: "k \<in> set (meshx_net_keys keys)" "i \<in> set (snb_indices k)"
    "snb_matches aes pdata (snb_value i k) = Some True" by auto
  then show ?thesis
    by (intro bexI [of _ k] bexI [of _ i]) (auto simp: snb_matches_def split: Option.bind_splits if_splits)
qed

theorem snb_roundtrip_witness:
  "\<exists>w'. meshx_beacon_receive demo_aes False demo_snb (demo_snb_keys, demo_world)
      = Some (MESHX_SUCCESS, None, demo_snb_keys, w') \<and> cur_iv_index (iv w') = 1 \<and>
    meshx_iv_update_state (iv w') = MESHX_IV_UPDATE_STATE_IN_PROGRESS \<and> seqs w' = seqs demo_world"
proof -
  let ?i = "iv_reset\<lparr>cur_iv_index := 1, meshx_iv_update_state := MESHX_IV_UPDATE_STATE_IN_PROGRESS\<rparr>"
  let ?v = "demo_net_value\<lparr>net_id := zeros 8\<rparr>"
  have g: "iv_gain 1 MESHX_IV_UPDATE_STATE_IN_PROGRESS (iv demo_world) = 1" "cur_iv_index (iv demo_world) = 0"
    "meshx_iv_operate_tick_time (iv demo_world) = 288"
    by (simp_all add: iv_gain_def iv_level_def demo_world_def iv_reset_def)
  obtain q where q: "meshx_seq_clear (seqs demo_world) = Some q" by (simp add: demo_world_def meshx_seq_clear_def)
  show ?thesis
    using snb_roundtrip [where aes = demo_aes and v = ?v and keys = demo_snb_keys and pre = "[]" and post = "[]" and
        k = "demo_net_info\<lparr>nk_value0 := ?v\<rparr>" and w = demo_world and ivs = ?i and q = q] q
    by (simp add: demo_aes_block demo_net_value_def demo_snb_keys_def demo_net_info_def demo_store_def demo_snb_def g) blast
qed

theorem snb_authentic_witness:
  "\<exists>k \<in> set (meshx_net_keys demo_snb_keys). \<exists>i \<in> set (snb_indices k).
    mem_read demo_snb 2 8 = Some (net_id (snb_value i k))"
proof -
  obtain w' where w': "meshx_iv_index_update True 1 MESHX_IV_UPDATE_STATE_IN_PROGRESS demo_world = Some (MESHX_SUCCESS, w')"
    "w' \<noteq> demo_world" using demo_snb_update by blast
  have "meshx_beacon_receive demo_aes True demo_snb (demo_snb_keys, demo_world)
      = Some (MESHX_SUCCESS, None, demo_snb_keys, w')"
    unfolding demo_snb_def
    by (rule snb_receive_own [where pre = "[]" and post = "[]" and r = MESHX_SUCCESS
          and k = "demo_net_info\<lparr>nk_value0 := demo_net_value\<lparr>net_id := zeros 8\<rparr>\<rparr>"])
      (use w' in \<open>simp_all add: demo_aes_block demo_net_value_def demo_snb_keys_def demo_net_info_def demo_store_def\<close>)
  from snb_authentic [OF this] w' show ?thesis by blast
qed

end
