(* ===== verification/Mesh_Prov_Types.thy ===== *)
theory Mesh_Prov_Types
  imports Mesh_Beacon Mesh_Security Mesh_Lib
begin

text \<open>
  The data of provisioning: the protocol data units of \<^verbatim>\<open>mesh/inc/meshx_prov.h\<close>,
  the provisioning device of \<^verbatim>\<open>mesh/provision/meshx_prov_internal.h\<close>, its
  extension by the PB-ADV link layer (\<^verbatim>\<open>mesh/provision/meshx_pb_adv.c\<close>), the
  notifications of \<^verbatim>\<open>mesh/inc/meshx_notify.h\<close> and the sample data the
  repository is configured to use (\<^verbatim>\<open>mesh/common/meshx_sample_data.c\<close>,
  \<^verbatim>\<open>MESHX_USE_SAMPLE_DATA\<close>).

  The world is everything the handlers of this component change: the advertising bearer and
  its scheduler, the environment, the node parameters, the beacon and the devices.  Devices
  live at addresses; an address that is not allocated holds \<^verbatim>\<open>None\<close>, and an access to
  it makes the model's outcome \<^verbatim>\<open>None\<close>, as a failed assertion does.  A log of the
  notifications given to the application is kept beside the state.
\<close>

section \<open>States and units\<close>

datatype meshx_prov_state =
    MESHX_PROV_STATE_IDLE | MESHX_PROV_STATE_LINK_OPENING | MESHX_PROV_STATE_LINK_OPENED
  | MESHX_PROV_STATE_INVITE | MESHX_PROV_STATE_CAPABILITES | MESHX_PROV_STATE_START
  | MESHX_PROV_STATE_PUBLIC_KEY | MESHX_PROV_STATE_INPUT_COMPLETE
  | MESHX_PROV_STATE_CONFIRMATION | MESHX_PROV_STATE_RANDOM | MESHX_PROV_STATE_DATA
  | MESHX_PROV_STATE_COMPLETE | MESHX_PROV_STATE_FAILED | MESHX_PROV_STATE_LINK_CLOSING

fun prov_state_num :: "meshx_prov_state \<Rightarrow> nat" where
  "prov_state_num MESHX_PROV_STATE_IDLE = 0"
| "prov_state_num MESHX_PROV_STATE_LINK_OPENING = 1"
| "prov_state_num MESHX_PROV_STATE_LINK_OPENED = 2"
| "prov_state_num MESHX_PROV_STATE_INVITE = 3"
| "prov_state_num MESHX_PROV_STATE_CAPABILITES = 4"
| "prov_state_num MESHX_PROV_STATE_START = 5"
| "prov_state_num MESHX_PROV_STATE_PUBLIC_KEY = 6"
| "prov_state_num MESHX_PROV_STATE_INPUT_COMPLETE = 7"
| "prov_state_num MESHX_PROV_STATE_CONFIRMATION = 8"
| "prov_state_num MESHX_PROV_STATE_RANDOM = 9"
| "prov_state_num MESHX_PROV_STATE_DATA = 10"
| "prov_state_num MESHX_PROV_STATE_COMPLETE = 11"
| "prov_state_num MESHX_PROV_STATE_FAILED = 12"
| "prov_state_num MESHX_PROV_STATE_LINK_CLOSING = 13"

lemma prov_state_num_inj: "prov_state_num a = prov_state_num b \<Longrightarrow> a = b"
  by (cases a; cases b; simp)

text \<open>C compares the states as numbers.\<close>

instantiation meshx_prov_state :: linorder
begin

definition less_eq_meshx_prov_state :: "meshx_prov_state \<Rightarrow> meshx_prov_state \<Rightarrow> bool" where
  "a \<le> b \<longleftrightarrow> prov_state_num a \<le> prov_state_num b"

definition less_meshx_prov_state :: "meshx_prov_state \<Rightarrow> meshx_prov_state \<Rightarrow> bool" where
  "a < b \<longleftrightarrow> prov_state_num a < prov_state_num b"

instance
  by standard (auto simp: less_eq_meshx_prov_state_def less_meshx_prov_state_def intro: prov_state_num_inj)

end

lemmas prov_order = less_eq_meshx_prov_state_def less_meshx_prov_state_def

text \<open>The multi-byte fields are kept as the words found in memory.\<close>

record prov_capabilites =
  cap_element_nums :: u8
  cap_algorithms :: u16
  cap_public_key_type :: u8
  cap_static_oob_type :: u8
  cap_output_oob_size :: u8
  cap_output_oob_action :: u16
  cap_input_oob_size :: u8
  cap_input_oob_action :: u16

record prov_start =
  st_algorithm :: u8
  st_public_key :: u8
  st_auth_method :: u8
  st_auth_action :: u8
  st_auth_size :: u8

text \<open>The flag byte holds the key refresh flag, the IV update flag and six reserved bits.\<close>

record prov_data =
  pd_net_key :: bytes
  pd_key_index :: u16
  pd_flags :: u8
  pd_iv_index :: u32
  pd_unicast_address :: u16
  pd_mic :: bytes

definition cap_bytes :: "prov_capabilites \<Rightarrow> bytes" where
  "cap_bytes c =
    cap_element_nums c # mem16 (cap_algorithms c) @
    [cap_public_key_type c, cap_static_oob_type c, cap_output_oob_size c] @
    mem16 (cap_output_oob_action c) @ [cap_input_oob_size c] @ mem16 (cap_input_oob_action c)"

definition cap_of_bytes :: "bytes \<Rightarrow> prov_capabilites" where
  "cap_of_bytes b =
    \<lparr>cap_element_nums = b ! 0, cap_algorithms = of_mem16 (drop 1 b),
     cap_public_key_type = b ! 3, cap_static_oob_type = b ! 4, cap_output_oob_size = b ! 5,
     cap_output_oob_action = of_mem16 (drop 6 b), cap_input_oob_size = b ! 8,
     cap_input_oob_action = of_mem16 (drop 9 b)\<rparr>"

definition start_bytes :: "prov_start \<Rightarrow> bytes" where
  "start_bytes s = [st_algorithm s, st_public_key s, st_auth_method s, st_auth_action s, st_auth_size s]"

definition start_of_bytes :: "bytes \<Rightarrow> prov_start" where
  "start_of_bytes b =
    \<lparr>st_algorithm = b ! 0, st_public_key = b ! 1, st_auth_method = b ! 2,
     st_auth_action = b ! 3, st_auth_size = b ! 4\<rparr>"

text \<open>The 25 bytes of provisioning data in front of the integrity check.\<close>

definition data_bytes :: "prov_data \<Rightarrow> bytes" where
  "data_bytes d =
    pd_net_key d @ mem16 (pd_key_index d) @ [pd_flags d] @ mem32 (pd_iv_index d) @
    mem16 (pd_unicast_address d)"

definition data_of_bytes :: "bytes \<Rightarrow> bytes \<Rightarrow> prov_data" where
  "data_of_bytes b mic =
    \<lparr>pd_net_key = take 16 b, pd_key_index = of_mem16 (drop 16 b), pd_flags = b ! 18,
     pd_iv_index = of_mem32 (drop 19 b), pd_unicast_address = of_mem16 (drop 23 b), pd_mic = mic\<rparr>"

section \<open>Devices\<close>

record prov_dev =
  dv_id :: u8
  dv_role :: meshx_role
  dv_uuid :: bytes
  dv_bearer :: meshx_bearer_t
  dv_state :: meshx_prov_state
  dv_public_key :: bytes
  dv_private_key :: bytes
  dv_share_secret :: bytes
  dv_public_key_remote :: bytes
  dv_confirmation_salt :: bytes
  dv_session_key :: bytes
  dv_session_nonce :: bytes
  dv_device_key :: bytes
  dv_invite :: u8
  dv_capabilites :: prov_capabilites
  dv_start :: prov_start
  dv_auth_value :: bytes
  dv_confirmation_remote :: bytes
  dv_confirmation :: bytes
  dv_random :: bytes
  dv_random_remote :: bytes
  dv_data :: prov_data
  dv_err_code :: u8

datatype pb_adv_timer_state =
    PB_ADV_TIMER_STATE_DELAY | PB_ADV_TIMER_STATE_LINK_MONITOR | PB_ADV_TIMER_STATE_RETRY

datatype pb_adv_delay_type =
    PB_ADV_TIMER_DELAY_TYPE_TRANS_ACK | PB_ADV_TIMER_DELAY_TYPE_PROV_PDU

record pb_adv_dev = prov_dev +
  pa_link_id :: u32
  pa_tx_trans_num :: u8
  pa_rx_trans_num :: u8
  pa_acked_trans_num :: u8
  pa_retry_time :: u32
  pa_timer :: meshx_timer_t
  pa_timer_state :: pb_adv_timer_state
  pa_delay_type :: pb_adv_delay_type
  pa_link_close_reason :: u8
  pa_last_seg_num :: u8
  pa_fcs :: u8
  pa_recv_seg :: bytes
  pa_trans_data_len :: u16
  pa_rx_pdu :: bytes

text \<open>A device as \<^verbatim>\<open>memset\<close> leaves it.\<close>

definition cap_zero :: prov_capabilites where "cap_zero = cap_of_bytes (zeros 11)"
definition start_zero :: prov_start where "start_zero = start_of_bytes (zeros 5)"
definition data_zero :: prov_data where "data_zero = data_of_bytes (zeros 25) (zeros 8)"

definition dev_zero :: pb_adv_dev where
  "dev_zero =
    \<lparr>dv_id = 0, dv_role = MESHX_ROLE_DEVICE, dv_uuid = zeros 16, dv_bearer = None,
     dv_state = MESHX_PROV_STATE_IDLE, dv_public_key = zeros 64, dv_private_key = zeros 32,
     dv_share_secret = zeros 32, dv_public_key_remote = zeros 64, dv_confirmation_salt = zeros 16,
     dv_session_key = zeros 16, dv_session_nonce = zeros 16, dv_device_key = zeros 16,
     dv_invite = 0, dv_capabilites = cap_zero, dv_start = start_zero, dv_auth_value = zeros 16,
     dv_confirmation_remote = zeros 16, dv_confirmation = zeros 16, dv_random = zeros 16,
     dv_random_remote = zeros 16, dv_data = data_zero, dv_err_code = 0,
     pa_link_id = 0, pa_tx_trans_num = 0, pa_rx_trans_num = 0, pa_acked_trans_num = 0,
     pa_retry_time = 0, pa_timer = None, pa_timer_state = PB_ADV_TIMER_STATE_DELAY,
     pa_delay_type = PB_ADV_TIMER_DELAY_TYPE_TRANS_ACK, pa_link_close_reason = 0,
     pa_last_seg_num = 0, pa_fcs = 0, pa_recv_seg = zeros 8, pa_trans_data_len = 0,
     pa_rx_pdu = zeros 65\<rparr>"

section \<open>Notifications and the world\<close>

datatype meshx_prov_link_open_result = MESHX_PROV_LINK_OPEN_SUCCESS | MESHX_PROV_LINK_OPEN_TIMEOUT

datatype prov_note =
    PROV_NOTIFY_LINK_OPEN meshx_prov_link_open_result
  | PROV_NOTIFY_LINK_CLOSE u8
  | PROV_NOTIFY_TRANS_ACK meshx_prov_state
  | PROV_NOTIFY_INVITE u8
  | PROV_NOTIFY_CAPABILITES prov_capabilites
  | PROV_NOTIFY_START prov_start
  | PROV_NOTIFY_PUBLIC_KEY bytes
  | PROV_NOTIFY_INPUT_COMPLETE
  | PROV_NOTIFY_CONFIRMATION bytes
  | PROV_NOTIFY_RANDOM bytes
  | PROV_NOTIFY_DATA prov_data
  | PROV_NOTIFY_COMPLETE
  | PROV_NOTIFY_FAILED u8

record prov_world =
  pw_gap :: gap_state
  pw_env :: sys_env
  pw_node :: meshx_node_params
  pw_beacon :: beacon_state
  pw_mem :: "nat \<Rightarrow> pb_adv_dev option"
  pb_adv_devs :: "nat list"
  pw_next :: nat
  pw_notes :: "(nat \<times> prov_note) list"

text \<open>Code outside the repository: the block cipher, the two operations of the elliptic
  curve library (computing a shared secret is taken to succeed, since the caller does not look
  at its result), and the application's notification callback, which may itself use the
  library and so changes the world.\<close>

record prov_ext =
  ext_aes :: aes128
  ext_ecc_valid :: "bytes \<Rightarrow> bool"
  ext_ecc_shared :: "bytes \<Rightarrow> bytes \<Rightarrow> bytes"
  ext_notify :: "meshx_bearer_t \<Rightarrow> nat \<Rightarrow> prov_note \<Rightarrow> prov_world \<Rightarrow> errno \<times> prov_world"

definition notify_default :: "meshx_bearer_t \<Rightarrow> nat \<Rightarrow> prov_note \<Rightarrow> prov_world \<Rightarrow> errno \<times> prov_world" where
  "notify_default b p n w = (MESHX_SUCCESS, w)"

definition meshx_notify_init ::
  "(meshx_bearer_t \<Rightarrow> nat \<Rightarrow> prov_note \<Rightarrow> prov_world \<Rightarrow> errno \<times> prov_world) option \<Rightarrow> prov_ext \<Rightarrow> errno \<times> prov_ext" where
  "meshx_notify_init notify_func ext =
    (MESHX_SUCCESS,
     ext\<lparr>ext_notify := (case notify_func of None \<Rightarrow> notify_default | Some f \<Rightarrow> f)\<rparr>)"

definition meshx_notify :: "prov_ext \<Rightarrow> meshx_bearer_t \<Rightarrow> nat \<Rightarrow> prov_note \<Rightarrow> prov_world \<Rightarrow> errno \<times> prov_world" where
  "meshx_notify ext b p n w = ext_notify ext b p n (w\<lparr>pw_notes := pw_notes w @ [(p, n)]\<rparr>)"

text \<open>Writes to the fields of a device, and its timer.\<close>

definition dev_upd :: "nat \<Rightarrow> (pb_adv_dev \<Rightarrow> pb_adv_dev) \<Rightarrow> prov_world \<Rightarrow> prov_world" where
  "dev_upd p f w = w\<lparr>pw_mem := (pw_mem w)(p := map_option f (pw_mem w p))\<rparr>"

definition dev_timer_start :: "nat \<Rightarrow> u32 \<Rightarrow> prov_world \<Rightarrow> prov_world" where
  "dev_timer_start p interval = dev_upd p (\<lambda>d. d\<lparr>pa_timer := snd (meshx_timer_start (pa_timer d) interval)\<rparr>)"

definition dev_timer_stop :: "nat \<Rightarrow> prov_world \<Rightarrow> prov_world" where
  "dev_timer_stop p = dev_upd p (\<lambda>d. d\<lparr>pa_timer := snd (meshx_timer_stop (pa_timer d))\<rparr>)"

text \<open>A draw of the random generator, and a packet for the advertising bearer, on the
  world.\<close>

definition on_env :: "(sys_env \<Rightarrow> 'a \<times> sys_env) \<Rightarrow> prov_world \<Rightarrow> 'a \<times> prov_world" where
  "on_env f w = (case f (pw_env w) of (x, e) \<Rightarrow> (x, w\<lparr>pw_env := e\<rparr>))"

definition on_gap :: "(gap_state \<Rightarrow> (errno \<times> gap_state) option) \<Rightarrow> prov_world \<Rightarrow> (errno \<times> prov_world) option" where
  "on_gap f w = map_option (\<lambda>(r, g). (r, w\<lparr>pw_gap := g\<rparr>)) (f (pw_gap w))"

text \<open>The type of a bearer handle; a null handle is an invalid access.\<close>

definition bearer_kind :: "prov_world \<Rightarrow> meshx_bearer_t \<Rightarrow> u8 option" where
  "bearer_kind w b = map_option (bearer_type (pw_gap w)) b"

end
