(* ===== verification/Mesh_Pb_Adv_Tx.thy ===== *)
theory Mesh_Pb_Adv_Tx
  imports Mesh_Prov_Types
begin

text \<open>
  The sending half of \<^verbatim>\<open>mesh/provision/meshx_pb_adv.c\<close>: the device list, the
  segmentation of a provisioning unit into advertising packets, the link control packets,
  the packets of every provisioning unit, transaction numbers, and the requests that arm
  the delay timer.  A packet is the byte string of the packed structures of
  \<^verbatim>\<open>meshx_pb_adv.h\<close>; an outer option is a failed assertion or an access outside
  a buffer.
\<close>

section \<open>Constants\<close>

definition MESHX_PB_ADV_TRANS_START_PDU_MAX_LEN :: nat where "MESHX_PB_ADV_TRANS_START_PDU_MAX_LEN = 29 - 5 - 4"
definition MESHX_PB_ADV_TRANS_CONTINUE_PDU_MAX_LEN :: nat where "MESHX_PB_ADV_TRANS_CONTINUE_PDU_MAX_LEN = 29 - 5 - 1"
definition MESHX_TRANS_SEG_NUM_MAX :: nat where "MESHX_TRANS_SEG_NUM_MAX = 0x40"
definition MESHX_LINK_LOSS_TIME :: u32 where "MESHX_LINK_LOSS_TIME = 600000"
definition MESHX_LINK_OPEN_RETRY_PERIOD :: u32 where "MESHX_LINK_OPEN_RETRY_PERIOD = 200"
definition MESHX_LINK_CLOSE_RETRY_PERIOD :: u32 where "MESHX_LINK_CLOSE_RETRY_PERIOD = 20"
definition MESHX_LINK_CLOSE_TIME :: u32 where "MESHX_LINK_CLOSE_TIME = 90"
definition MESHX_TRANS_LOSS_TIME :: u32 where "MESHX_TRANS_LOSS_TIME = 30000"
definition MESHX_TRANS_RETRY_PERIOD :: u32 where "MESHX_TRANS_RETRY_PERIOD = 300"
definition MESHX_BEARER_CTL_TRANS_NUM :: u8 where "MESHX_BEARER_CTL_TRANS_NUM = 0"

definition MESHX_GPCF_TRANS_START :: u8 where "MESHX_GPCF_TRANS_START = 0"
definition MESHX_GPCF_TRANS_ACK :: u8 where "MESHX_GPCF_TRANS_ACK = 1"
definition MESHX_GPCF_TRANS_CONTINUE :: u8 where "MESHX_GPCF_TRANS_CONTINUE = 2"
definition MESHX_GPCF_BEARER_CTL :: u8 where "MESHX_GPCF_BEARER_CTL = 3"

definition MESHX_BEARER_LINK_OPEN :: u8 where "MESHX_BEARER_LINK_OPEN = 0"
definition MESHX_BEARER_LINK_ACK :: u8 where "MESHX_BEARER_LINK_ACK = 1"
definition MESHX_BEARER_LINK_CLOSE :: u8 where "MESHX_BEARER_LINK_CLOSE = 2"

definition MESHX_PROV_LINK_CLOSE_SUCCESS :: u8 where "MESHX_PROV_LINK_CLOSE_SUCCESS = 0"
definition MESHX_PROV_LINK_CLOSE_TIMEOUT :: u8 where "MESHX_PROV_LINK_CLOSE_TIMEOUT = 1"
definition MESHX_PROV_LINK_CLOSE_FAIL :: u8 where "MESHX_PROV_LINK_CLOSE_FAIL = 2"
definition MESHX_PROV_LINK_CLOSE_LINK_LOSS :: u8 where "MESHX_PROV_LINK_CLOSE_LINK_LOSS = 3"

definition MESHX_PROV_TYPE_INVITE :: u8 where "MESHX_PROV_TYPE_INVITE = 0"
definition MESHX_PROV_TYPE_CAPABILITES :: u8 where "MESHX_PROV_TYPE_CAPABILITES = 1"
definition MESHX_PROV_TYPE_START :: u8 where "MESHX_PROV_TYPE_START = 2"
definition MESHX_PROV_TYPE_PUBLIC_KEY :: u8 where "MESHX_PROV_TYPE_PUBLIC_KEY = 3"
definition MESHX_PROV_TYPE_INPUT_COMPLETE :: u8 where "MESHX_PROV_TYPE_INPUT_COMPLETE = 4"
definition MESHX_PROV_TYPE_CONFIRMATION :: u8 where "MESHX_PROV_TYPE_CONFIRMATION = 5"
definition MESHX_PROV_TYPE_RANDOM :: u8 where "MESHX_PROV_TYPE_RANDOM = 6"
definition MESHX_PROV_TYPE_DATA :: u8 where "MESHX_PROV_TYPE_DATA = 7"
definition MESHX_PROV_TYPE_COMPLETE :: u8 where "MESHX_PROV_TYPE_COMPLETE = 8"
definition MESHX_PROV_TYPE_FAILED :: u8 where "MESHX_PROV_TYPE_FAILED = 9"

lemmas pb_adv_lengths = MESHX_PB_ADV_TRANS_START_PDU_MAX_LEN_def MESHX_PB_ADV_TRANS_CONTINUE_PDU_MAX_LEN_def
  MESHX_TRANS_SEG_NUM_MAX_def

lemmas pb_adv_times = MESHX_LINK_LOSS_TIME_def MESHX_LINK_OPEN_RETRY_PERIOD_def
  MESHX_LINK_CLOSE_RETRY_PERIOD_def MESHX_LINK_CLOSE_TIME_def MESHX_TRANS_LOSS_TIME_def
  MESHX_TRANS_RETRY_PERIOD_def

lemmas gpcf_codes = MESHX_GPCF_TRANS_START_def MESHX_GPCF_TRANS_ACK_def MESHX_GPCF_TRANS_CONTINUE_def
  MESHX_GPCF_BEARER_CTL_def

lemmas close_reasons = MESHX_PROV_LINK_CLOSE_SUCCESS_def MESHX_PROV_LINK_CLOSE_TIMEOUT_def
  MESHX_PROV_LINK_CLOSE_FAIL_def MESHX_PROV_LINK_CLOSE_LINK_LOSS_def

section \<open>Devices\<close>

definition meshx_pb_adv_init :: "prov_world \<Rightarrow> errno \<times> prov_world" where
  "meshx_pb_adv_init w = (MESHX_SUCCESS, w\<lparr>pb_adv_devs := []\<rparr>)"

definition meshx_pb_adv_rand :: "sys_env \<Rightarrow> u8 \<times> sys_env" where
  "meshx_pb_adv_rand e =
    (let (val, e) = MESHX_ABS_rand e;
         val = val mod 50;
         val = (if val < 20 then val + 20 else val)
     in (ucast val, e))"

definition meshx_calc_seg_num :: "u16 \<Rightarrow> u8" where
  "meshx_calc_seg_num len =
    (if unat len \<le> MESHX_PB_ADV_TRANS_START_PDU_MAX_LEN then 1
     else word_of_nat ((unat len - MESHX_PB_ADV_TRANS_START_PDU_MAX_LEN
            + MESHX_PB_ADV_TRANS_CONTINUE_PDU_MAX_LEN - 1) div MESHX_PB_ADV_TRANS_CONTINUE_PDU_MAX_LEN + 1))"

fun find_device_loop :: "prov_world \<Rightarrow> meshx_bearer_t \<Rightarrow> bytes \<Rightarrow> nat list \<Rightarrow> nat option" where
  "find_device_loop w b uuid [] = None"
| "find_device_loop w b uuid (p # ps) =
    (case pw_mem w p of
       None \<Rightarrow> find_device_loop w b uuid ps
     | Some d \<Rightarrow> if dv_uuid d = uuid \<and> dv_bearer d = b then Some p else find_device_loop w b uuid ps)"

definition meshx_pb_adv_find_device :: "meshx_bearer_t \<Rightarrow> bytes \<Rightarrow> prov_world \<Rightarrow> nat option" where
  "meshx_pb_adv_find_device b uuid w = find_device_loop w b uuid (pb_adv_devs w)"

text \<open>Deletion unlinks the device, deletes its timer and frees it.\<close>

definition meshx_pb_adv_delete_device :: "nat option \<Rightarrow> prov_world \<Rightarrow> prov_world option" where
  "meshx_pb_adv_delete_device prov_dev w =
    (case prov_dev of
       None \<Rightarrow> Some w
     | Some p \<Rightarrow> do {
         d \<leftarrow> pw_mem w p;
         let w = w\<lparr>pb_adv_devs := remove1 p (pb_adv_devs w)\<rparr>;
             w = (if pa_timer d \<noteq> None
                  then dev_upd p (\<lambda>d. d\<lparr>pa_timer := meshx_timer_delete (pa_timer d)\<rparr>) w else w)
         in Some (w\<lparr>pw_mem := (pw_mem w)(p := None)\<rparr>) })"

definition meshx_pb_adv_is_device_valid :: "nat \<Rightarrow> prov_world \<Rightarrow> bool" where
  "meshx_pb_adv_is_device_valid p w \<longleftrightarrow> p \<in> set (pb_adv_devs w)"

text \<open>When no device of the list has the link id, the loop leaves its cursor on the last
  one.\<close>

fun find_link_loop :: "prov_world \<Rightarrow> u32 \<Rightarrow> nat option \<Rightarrow> nat list \<Rightarrow> nat option" where
  "find_link_loop w link_id pdev [] = pdev"
| "find_link_loop w link_id pdev (p # ps) =
    (case pw_mem w p of
       None \<Rightarrow> find_link_loop w link_id (Some p) ps
     | Some d \<Rightarrow> if pa_link_id d = link_id then Some p else find_link_loop w link_id (Some p) ps)"

definition meshx_find_prov_dev_by_link_id :: "u32 \<Rightarrow> prov_world \<Rightarrow> nat option" where
  "meshx_find_prov_dev_by_link_id link_id w = find_link_loop w link_id None (pb_adv_devs w)"

section \<open>Packets\<close>

text \<open>The byte of a two-bit control format and a six-bit field.\<close>

definition gpcf_byte :: "u8 \<Rightarrow> u8 \<Rightarrow> u8" where
  "gpcf_byte gpcf x = (gpcf AND 3) OR push_bit 2 x"

text \<open>One turn of the segmentation loop: the packet and the length of its payload.\<close>

definition trans_segment ::
  "u32 \<Rightarrow> u8 \<Rightarrow> u8 \<Rightarrow> bytes \<Rightarrow> u8 \<Rightarrow> u8 \<Rightarrow> (bytes \<times> u8) option" where
  "trans_segment link_id trans_num segment_num pdata index data_offset =
    (let len = word_of_nat (length pdata) :: u16 in
     if index = 0 then
       let segment_len = (if segment_num = 1 then ucast len
                          else word_of_nat MESHX_PB_ADV_TRANS_START_PDU_MAX_LEN)
       in do {
         d \<leftarrow> mem_read pdata 0 (unat segment_len);
         if length d > MESHX_PB_ADV_TRANS_START_PDU_MAX_LEN then None
         else Some (be32 link_id @ [trans_num, gpcf_byte MESHX_GPCF_TRANS_START (segment_num - 1)] @
                be16 len @ [meshx_3gpp_crc pdata] @ d, segment_len)
       }
     else
       let segment_len = (if unat segment_num = unat index + 1
                          then word_of_int (uint len - uint data_offset)
                          else word_of_nat MESHX_PB_ADV_TRANS_CONTINUE_PDU_MAX_LEN)
       in do {
         d \<leftarrow> mem_read pdata (unat data_offset) (unat segment_len);
         if length d > MESHX_PB_ADV_TRANS_CONTINUE_PDU_MAX_LEN then None
         else Some (be32 link_id @ [trans_num, gpcf_byte MESHX_GPCF_TRANS_CONTINUE index] @ d, segment_len)
       })"

definition pb_adv_send :: "meshx_bearer_t \<Rightarrow> bytes \<Rightarrow> gap_state \<Rightarrow> (errno \<times> gap_state) option" where
  "pb_adv_send b pkt = meshx_bearer_adv_send b MESHX_GAP_ADTYPE_PB_ADV pkt"

text \<open>The loop, by the number of segments still to send.\<close>

fun send_trans_loop ::
  "nat \<Rightarrow> meshx_bearer_t \<Rightarrow> u32 \<Rightarrow> u8 \<Rightarrow> u8 \<Rightarrow> bytes \<Rightarrow> u8 \<Rightarrow> u8 \<Rightarrow> gap_state \<Rightarrow> (errno \<times> gap_state) option" where
  "send_trans_loop 0 b link_id trans_num segment_num pdata index data_offset g = Some (MESHX_SUCCESS, g)"
| "send_trans_loop (Suc n) b link_id trans_num segment_num pdata index data_offset g = do {
    (pkt, segment_len) \<leftarrow> trans_segment link_id trans_num segment_num pdata index data_offset;
    (r, g) \<leftarrow> pb_adv_send b pkt g;
    if r \<noteq> MESHX_SUCCESS then Some (r, g)
    else send_trans_loop n b link_id trans_num segment_num pdata (index + 1) (data_offset + segment_len) g
  }"

definition pb_adv_send_trans ::
  "meshx_bearer_t \<Rightarrow> u32 \<Rightarrow> u8 \<Rightarrow> bytes \<Rightarrow> gap_state \<Rightarrow> (errno \<times> gap_state) option" where
  "pb_adv_send_trans b link_id trans_num pdata g =
    (let segment_num = meshx_calc_seg_num (word_of_nat (length pdata)) in
     if unat segment_num > MESHX_TRANS_SEG_NUM_MAX then None
     else send_trans_loop (unat segment_num) b link_id trans_num segment_num pdata 0 0 g)"

definition pb_adv_link_open :: "meshx_bearer_t \<Rightarrow> u32 \<Rightarrow> bytes \<Rightarrow> gap_state \<Rightarrow> (errno \<times> gap_state) option" where
  "pb_adv_link_open b link_id uuid =
    pb_adv_send b (be32 link_id @ [MESHX_BEARER_CTL_TRANS_NUM, gpcf_byte MESHX_GPCF_BEARER_CTL MESHX_BEARER_LINK_OPEN] @ uuid)"

definition pb_adv_link_ack :: "meshx_bearer_t \<Rightarrow> u32 \<Rightarrow> gap_state \<Rightarrow> (errno \<times> gap_state) option" where
  "pb_adv_link_ack b link_id =
    pb_adv_send b (be32 link_id @ [MESHX_BEARER_CTL_TRANS_NUM, gpcf_byte MESHX_GPCF_BEARER_CTL MESHX_BEARER_LINK_ACK])"

definition pb_adv_link_close :: "meshx_bearer_t \<Rightarrow> u32 \<Rightarrow> u8 \<Rightarrow> gap_state \<Rightarrow> (errno \<times> gap_state) option" where
  "pb_adv_link_close b link_id reason =
    pb_adv_send b (be32 link_id @ [MESHX_BEARER_CTL_TRANS_NUM, gpcf_byte MESHX_GPCF_BEARER_CTL MESHX_BEARER_LINK_CLOSE] @ [reason])"

definition pb_adv_trans_ack :: "meshx_bearer_t \<Rightarrow> u32 \<Rightarrow> u8 \<Rightarrow> gap_state \<Rightarrow> (errno \<times> gap_state) option" where
  "pb_adv_trans_ack b link_id trans_num =
    pb_adv_send b (be32 link_id @ [trans_num, gpcf_byte MESHX_GPCF_TRANS_ACK 0])"

text \<open>The provisioning units: a type byte and the structure.\<close>

definition pb_adv_invite :: "meshx_bearer_t \<Rightarrow> u32 \<Rightarrow> u8 \<Rightarrow> u8 \<Rightarrow> gap_state \<Rightarrow> (errno \<times> gap_state) option" where
  "pb_adv_invite b link_id trans_num invite =
    pb_adv_send_trans b link_id trans_num [MESHX_PROV_TYPE_INVITE, invite]"

definition pb_adv_capabilites ::
  "meshx_bearer_t \<Rightarrow> u32 \<Rightarrow> u8 \<Rightarrow> prov_capabilites \<Rightarrow> gap_state \<Rightarrow> (errno \<times> gap_state) option" where
  "pb_adv_capabilites b link_id trans_num cap =
    pb_adv_send_trans b link_id trans_num (MESHX_PROV_TYPE_CAPABILITES # cap_bytes cap)"

definition pb_adv_start ::
  "meshx_bearer_t \<Rightarrow> u32 \<Rightarrow> u8 \<Rightarrow> prov_start \<Rightarrow> gap_state \<Rightarrow> (errno \<times> gap_state) option" where
  "pb_adv_start b link_id trans_num st =
    pb_adv_send_trans b link_id trans_num (MESHX_PROV_TYPE_START # start_bytes st)"

definition pb_adv_public_key ::
  "meshx_bearer_t \<Rightarrow> u32 \<Rightarrow> u8 \<Rightarrow> bytes \<Rightarrow> gap_state \<Rightarrow> (errno \<times> gap_state) option" where
  "pb_adv_public_key b link_id trans_num pub_key =
    pb_adv_send_trans b link_id trans_num (MESHX_PROV_TYPE_PUBLIC_KEY # pub_key)"

definition pb_adv_input_complete :: "meshx_bearer_t \<Rightarrow> u32 \<Rightarrow> u8 \<Rightarrow> gap_state \<Rightarrow> (errno \<times> gap_state) option" where
  "pb_adv_input_complete b link_id trans_num =
    pb_adv_send_trans b link_id trans_num [MESHX_PROV_TYPE_INPUT_COMPLETE]"

definition pb_adv_confirmation ::
  "meshx_bearer_t \<Rightarrow> u32 \<Rightarrow> u8 \<Rightarrow> bytes \<Rightarrow> gap_state \<Rightarrow> (errno \<times> gap_state) option" where
  "pb_adv_confirmation b link_id trans_num cfm =
    pb_adv_send_trans b link_id trans_num (MESHX_PROV_TYPE_CONFIRMATION # cfm)"

definition pb_adv_random ::
  "meshx_bearer_t \<Rightarrow> u32 \<Rightarrow> u8 \<Rightarrow> bytes \<Rightarrow> gap_state \<Rightarrow> (errno \<times> gap_state) option" where
  "pb_adv_random b link_id trans_num rnd =
    pb_adv_send_trans b link_id trans_num (MESHX_PROV_TYPE_RANDOM # rnd)"

definition pb_adv_data ::
  "meshx_bearer_t \<Rightarrow> u32 \<Rightarrow> u8 \<Rightarrow> prov_data \<Rightarrow> gap_state \<Rightarrow> (errno \<times> gap_state) option" where
  "pb_adv_data b link_id trans_num data =
    pb_adv_send_trans b link_id trans_num (MESHX_PROV_TYPE_DATA # data_bytes data @ pd_mic data)"

definition pb_adv_complete :: "meshx_bearer_t \<Rightarrow> u32 \<Rightarrow> u8 \<Rightarrow> gap_state \<Rightarrow> (errno \<times> gap_state) option" where
  "pb_adv_complete b link_id trans_num =
    pb_adv_send_trans b link_id trans_num [MESHX_PROV_TYPE_COMPLETE]"

definition pb_adv_failed :: "meshx_bearer_t \<Rightarrow> u32 \<Rightarrow> u8 \<Rightarrow> u8 \<Rightarrow> gap_state \<Rightarrow> (errno \<times> gap_state) option" where
  "pb_adv_failed b link_id trans_num err_code =
    pb_adv_send_trans b link_id trans_num [MESHX_PROV_TYPE_FAILED, err_code]"

section \<open>Transaction numbers\<close>

definition meshx_prov_require_trans_num :: "pb_adv_dev \<Rightarrow> pb_adv_dev" where
  "meshx_prov_require_trans_num d =
    (let n = pa_tx_trans_num d + 1 in d\<lparr>pa_tx_trans_num := (if n > 0x7f then 0 else n)\<rparr>)"

definition meshx_dev_require_trans_num :: "pb_adv_dev \<Rightarrow> pb_adv_dev" where
  "meshx_dev_require_trans_num d =
    (let n = pa_tx_trans_num d + 1 in d\<lparr>pa_tx_trans_num := (if n = 0 then 0x80 else n)\<rparr>)"

section \<open>Requests\<close>

text \<open>Arming the delay timer, after the transaction number was drawn.\<close>

definition arm_delay :: "nat \<Rightarrow> pb_adv_delay_type \<Rightarrow> prov_world \<Rightarrow> prov_world" where
  "arm_delay p t w =
    (let w = dev_upd p (\<lambda>d. d\<lparr>pa_timer_state := PB_ADV_TIMER_STATE_DELAY, pa_delay_type := t\<rparr>) w;
         (v, w) = on_env meshx_pb_adv_rand w
     in dev_timer_start p (ucast v) w)"

definition meshx_pb_adv_trans_ack :: "nat \<Rightarrow> prov_world \<Rightarrow> (errno \<times> prov_world) option" where
  "meshx_pb_adv_trans_ack p w = do {
    d \<leftarrow> pw_mem w p;
    Some (MESHX_SUCCESS, arm_delay p PB_ADV_TIMER_DELAY_TYPE_TRANS_ACK w)
  }"

definition request_pdu :: "(pb_adv_dev \<Rightarrow> pb_adv_dev) \<Rightarrow> nat \<Rightarrow> prov_world \<Rightarrow> (errno \<times> prov_world) option" where
  "request_pdu require p w = do {
    d \<leftarrow> pw_mem w p;
    Some (MESHX_SUCCESS, arm_delay p PB_ADV_TIMER_DELAY_TYPE_PROV_PDU (dev_upd p require w))
  }"

definition meshx_pb_adv_invite :: "nat \<Rightarrow> prov_world \<Rightarrow> (errno \<times> prov_world) option" where
  "meshx_pb_adv_invite = request_pdu meshx_prov_require_trans_num"

definition meshx_pb_adv_capabilites :: "nat \<Rightarrow> prov_world \<Rightarrow> (errno \<times> prov_world) option" where
  "meshx_pb_adv_capabilites = request_pdu meshx_dev_require_trans_num"

definition meshx_pb_adv_start :: "nat \<Rightarrow> prov_world \<Rightarrow> (errno \<times> prov_world) option" where
  "meshx_pb_adv_start = request_pdu meshx_dev_require_trans_num"

definition require_by_role :: "pb_adv_dev \<Rightarrow> pb_adv_dev" where
  "require_by_role d =
    (if dv_role d = MESHX_ROLE_DEVICE then meshx_dev_require_trans_num d else meshx_prov_require_trans_num d)"

definition meshx_pb_adv_public_key :: "nat \<Rightarrow> prov_world \<Rightarrow> (errno \<times> prov_world) option" where
  "meshx_pb_adv_public_key = request_pdu require_by_role"

definition meshx_pb_adv_input_complete :: "nat \<Rightarrow> prov_world \<Rightarrow> (errno \<times> prov_world) option" where
  "meshx_pb_adv_input_complete = request_pdu meshx_dev_require_trans_num"

definition meshx_pb_adv_confirmation :: "nat \<Rightarrow> prov_world \<Rightarrow> (errno \<times> prov_world) option" where
  "meshx_pb_adv_confirmation = request_pdu require_by_role"

definition meshx_pb_adv_random :: "nat \<Rightarrow> prov_world \<Rightarrow> (errno \<times> prov_world) option" where
  "meshx_pb_adv_random = request_pdu require_by_role"

definition meshx_pb_adv_data :: "nat \<Rightarrow> prov_world \<Rightarrow> (errno \<times> prov_world) option" where
  "meshx_pb_adv_data = request_pdu meshx_dev_require_trans_num"

definition meshx_pb_adv_complete :: "nat \<Rightarrow> prov_world \<Rightarrow> (errno \<times> prov_world) option" where
  "meshx_pb_adv_complete = request_pdu meshx_dev_require_trans_num"

definition meshx_pb_adv_failed :: "nat \<Rightarrow> prov_world \<Rightarrow> (errno \<times> prov_world) option" where
  "meshx_pb_adv_failed = request_pdu meshx_dev_require_trans_num"

definition meshx_pb_adv_link_close :: "nat \<Rightarrow> u8 \<Rightarrow> prov_world \<Rightarrow> (errno \<times> prov_world) option" where
  "meshx_pb_adv_link_close p reason w = do {
    d \<leftarrow> pw_mem w p;
    if dv_state d \<le> MESHX_PROV_STATE_LINK_OPENING then Some (MESHX_ERR_BUSY, w)
    else do {
      let w = dev_upd p (\<lambda>d. d\<lparr>dv_state := MESHX_PROV_STATE_LINK_CLOSING, pa_link_close_reason := reason\<rparr>) w;
          reason = (if reason = MESHX_PROV_LINK_CLOSE_LINK_LOSS then MESHX_PROV_LINK_CLOSE_TIMEOUT else reason)
      in do {
        (_, w) \<leftarrow> on_gap (pb_adv_link_close (dv_bearer d) (pa_link_id d) reason) w;
        let w = dev_upd p (\<lambda>d. d\<lparr>pa_retry_time := 0, pa_timer_state := PB_ADV_TIMER_STATE_RETRY\<rparr>) w
        in Some (MESHX_SUCCESS, dev_timer_start p MESHX_LINK_CLOSE_RETRY_PERIOD w)
      }
    }
  }"

text \<open>The provisioner opens a link: a random link id, the first transaction number to be
  drawn is 0, and the timer repeats the request.\<close>

definition meshx_pb_adv_link_open :: "nat \<Rightarrow> prov_world \<Rightarrow> (errno \<times> prov_world) option" where
  "meshx_pb_adv_link_open p w = do {
    d \<leftarrow> pw_mem w p;
    if dev_uuid (config (pw_node w)) = dv_uuid d then Some (MESHX_ERR_INVAL, w)
    else if dv_state d > MESHX_PROV_STATE_IDLE then Some (MESHX_ERR_BUSY, w)
    else do {
      let (link_id, w) = on_env MESHX_ABS_rand w;
          w = dev_upd p (\<lambda>d. d\<lparr>pa_link_id := link_id, pa_tx_trans_num := 0xff, pa_acked_trans_num := 0,
                              dv_state := MESHX_PROV_STATE_LINK_OPENING\<rparr>) w
      in do {
        (_, w) \<leftarrow> on_gap (pb_adv_link_open (dv_bearer d) link_id (dv_uuid d)) w;
        let w = dev_upd p (\<lambda>d. d\<lparr>pa_retry_time := 0, pa_timer_state := PB_ADV_TIMER_STATE_RETRY\<rparr>) w
        in Some (MESHX_SUCCESS, dev_timer_start p MESHX_LINK_OPEN_RETRY_PERIOD w)
      }
    }
  }"

end
