(* ===== verification/Mesh_Prov.thy ===== *)
theory Mesh_Prov
  imports Mesh_Pb_Adv_Tx
begin

text \<open>
  The provisioning protocol of \<^verbatim>\<open>mesh/provision/meshx_prov.c\<close>: keys, random
  numbers, authentication value and confirmation of a device, the operations of the
  application, the processing of a received unit and the handling of notifications.  A
  device handle is an address or null.  The source is configured with
  \<^verbatim>\<open>MESHX_USE_SAMPLE_DATA\<close>, so keys, random numbers, capabilities, start parameters and
  provisioning data are the samples of \<^verbatim>\<open>mesh/common/meshx_sample_data.c\<close>.
\<close>

section \<open>Sample data\<close>

definition sample_net_key1 :: bytes where
  "sample_net_key1 = [0xef, 0xb2, 0x25, 0x5e, 0x64, 0x22, 0xd3, 0x30, 0x08, 0x8e, 0x09, 0xbb, 0x01, 0x5e, 0xd7, 0x07]"

definition sample_prov_public_key :: bytes where
  "sample_prov_public_key =
    [0x2c, 0x31, 0xa4, 0x7b, 0x57, 0x79, 0x80, 0x9e, 0xf4, 0x4c, 0xb5, 0xea, 0xaf, 0x5c, 0x3e, 0x43,
     0xd5, 0xf8, 0xfa, 0xad, 0x4a, 0x87, 0x94, 0xcb, 0x98, 0x7e, 0x9b, 0x03, 0x74, 0x5c, 0x78, 0xdd,
     0x91, 0x95, 0x12, 0x18, 0x38, 0x98, 0xdf, 0xbe, 0xcd, 0x52, 0xe2, 0x40, 0x8e, 0x43, 0x87, 0x1f,
     0xd0, 0x21, 0x10, 0x91, 0x17, 0xbd, 0x3e, 0xd4, 0xea, 0xf8, 0x43, 0x77, 0x43, 0x71, 0x5d, 0x4f]"

definition sample_prov_private_key :: bytes where
  "sample_prov_private_key =
    [0x06, 0xa5, 0x16, 0x69, 0x3c, 0x9a, 0xa3, 0x1a, 0x60, 0x84, 0x54, 0x5d, 0x0c, 0x5d, 0xb6, 0x41,
     0xb4, 0x85, 0x72, 0xb9, 0x72, 0x03, 0xdd, 0xff, 0xb7, 0xac, 0x73, 0xf7, 0xd0, 0x45, 0x76, 0x63]"

definition sample_prov_random :: bytes where
  "sample_prov_random =
    [0x8b, 0x19, 0xac, 0x31, 0xd5, 0x8b, 0x12, 0x4c, 0x94, 0x62, 0x09, 0xb5, 0xdb, 0x10, 0x21, 0xb9]"

definition sample_device_public_key :: bytes where
  "sample_device_public_key =
    [0xf4, 0x65, 0xe4, 0x3f, 0xf2, 0x3d, 0x3f, 0x1b, 0x9d, 0xc7, 0xdf, 0xc0, 0x4d, 0xa8, 0x75, 0x81,
     0x84, 0xdb, 0xc9, 0x66, 0x20, 0x47, 0x96, 0xec, 0xcf, 0x0d, 0x6c, 0xf5, 0xe1, 0x65, 0x00, 0xcc,
     0x02, 0x01, 0xd0, 0x48, 0xbc, 0xbb, 0xd8, 0x99, 0xee, 0xef, 0xc4, 0x24, 0x16, 0x4e, 0x33, 0xc2,
     0x01, 0xc2, 0xb0, 0x10, 0xca, 0x6b, 0x4d, 0x43, 0xa8, 0xa1, 0x55, 0xca, 0xd8, 0xec, 0xb2, 0x79]"

definition sample_device_private_key :: bytes where
  "sample_device_private_key =
    [0x52, 0x9a, 0xa0, 0x67, 0x0d, 0x72, 0xcd, 0x64, 0x97, 0x50, 0x2e, 0xd4, 0x73, 0x50, 0x2b, 0x03,
     0x7e, 0x88, 0x03, 0xb5, 0xc6, 0x08, 0x29, 0xa5, 0xa3, 0xca, 0xa2, 0x19, 0x50, 0x55, 0x30, 0xba]"

definition sample_device_random :: bytes where
  "sample_device_random =
    [0x55, 0xa2, 0xa2, 0xbc, 0xa0, 0x4c, 0xd3, 0x2f, 0xf6, 0xf3, 0x46, 0xbd, 0x0a, 0x0c, 0x1a, 0x3a]"

definition sample_prov_capabilites :: prov_capabilites where
  "sample_prov_capabilites =
    \<lparr>cap_element_nums = 1, cap_algorithms = 1, cap_public_key_type = 0, cap_static_oob_type = 0,
     cap_output_oob_size = 0, cap_output_oob_action = 0, cap_input_oob_size = 0, cap_input_oob_action = 0\<rparr>"

definition sample_prov_start :: prov_start where
  "sample_prov_start =
    \<lparr>st_algorithm = 0, st_public_key = 0, st_auth_method = 0, st_auth_action = 0, st_auth_size = 0\<rparr>"

definition sample_prov_data :: prov_data where
  "sample_prov_data =
    \<lparr>pd_net_key = sample_net_key1, pd_key_index = 0x0567, pd_flags = 0, pd_iv_index = 0x01020304,
     pd_unicast_address = 0x0b0c, pd_mic = zeros 8\<rparr>"

section \<open>Keys and authentication\<close>

definition meshx_prov_make_key :: "nat option \<Rightarrow> prov_world \<Rightarrow> (errno \<times> prov_world) option" where
  "meshx_prov_make_key prov_dev w =
    (case prov_dev of
       None \<Rightarrow> Some (MESHX_ERR_INVAL, w)
     | Some p \<Rightarrow> do {
         d \<leftarrow> pw_mem w p;
         Some (MESHX_SUCCESS, dev_upd p (\<lambda>d.
           if dv_role d = MESHX_ROLE_DEVICE
           then d\<lparr>dv_public_key := sample_device_public_key, dv_private_key := sample_device_private_key\<rparr>
           else d\<lparr>dv_public_key := sample_prov_public_key, dv_private_key := sample_prov_private_key\<rparr>) w) })"

definition meshx_prov_generate_random :: "nat option \<Rightarrow> prov_world \<Rightarrow> (errno \<times> prov_world) option" where
  "meshx_prov_generate_random prov_dev w =
    (case prov_dev of
       None \<Rightarrow> Some (MESHX_ERR_INVAL, w)
     | Some p \<Rightarrow> do {
         d \<leftarrow> pw_mem w p;
         Some (MESHX_SUCCESS, dev_upd p (\<lambda>d.
           if dv_role d = MESHX_ROLE_DEVICE then d\<lparr>dv_random := sample_device_random\<rparr>
           else d\<lparr>dv_random := sample_prov_random\<rparr>) w) })"

definition meshx_prov_get_device_id :: "nat option \<Rightarrow> prov_world \<Rightarrow> u8 option" where
  "meshx_prov_get_device_id prov_dev w = do { p \<leftarrow> prov_dev; d \<leftarrow> pw_mem w p; Some (dv_id d) }"

text \<open>The readers of a device copy a field to a buffer of the caller, which may be null.\<close>

definition prov_get ::
  "(pb_adv_dev \<Rightarrow> bytes) \<Rightarrow> nat option \<Rightarrow> bytes option \<Rightarrow> prov_world \<Rightarrow> (errno \<times> bytes option) option" where
  "prov_get f prov_dev buf w =
    (case (prov_dev, buf) of
       (Some p, Some b) \<Rightarrow> do { d \<leftarrow> pw_mem w p; Some (MESHX_SUCCESS, Some (f d)) }
     | _ \<Rightarrow> Some (MESHX_ERR_INVAL, buf))"

definition meshx_prov_get_local_public_key ::
  "nat option \<Rightarrow> bytes option \<Rightarrow> prov_world \<Rightarrow> (errno \<times> bytes option) option" where
  "meshx_prov_get_local_public_key = prov_get dv_public_key"

definition meshx_prov_get_random ::
  "nat option \<Rightarrow> bytes option \<Rightarrow> prov_world \<Rightarrow> (errno \<times> bytes option) option" where
  "meshx_prov_get_random = prov_get dv_random"

definition meshx_prov_get_confirmation ::
  "nat option \<Rightarrow> bytes option \<Rightarrow> prov_world \<Rightarrow> (errno \<times> bytes option) option" where
  "meshx_prov_get_confirmation = prov_get dv_confirmation"

definition meshx_prov_get_auth_method :: "nat option \<Rightarrow> prov_world \<Rightarrow> u8 option" where
  "meshx_prov_get_auth_method prov_dev w =
    (case prov_dev of
       None \<Rightarrow> Some 4
     | Some p \<Rightarrow> do { d \<leftarrow> pw_mem w p; Some (st_auth_method (dv_start d)) })"

definition meshx_prov_get_auth_action :: "nat option \<Rightarrow> prov_world \<Rightarrow> u8 option" where
  "meshx_prov_get_auth_action prov_dev w =
    (case prov_dev of
       None \<Rightarrow> Some 5
     | Some p \<Rightarrow> do { d \<leftarrow> pw_mem w p; Some (st_auth_action (dv_start d)) })"

definition meshx_prov_validate_public_key :: "prov_ext \<Rightarrow> bytes \<Rightarrow> bool" where
  "meshx_prov_validate_public_key ext pkey = ext_ecc_valid ext pkey"

definition meshx_prov_set_remote_public_key ::
  "prov_ext \<Rightarrow> nat option \<Rightarrow> bytes option \<Rightarrow> prov_world \<Rightarrow> (errno \<times> prov_world) option" where
  "meshx_prov_set_remote_public_key ext prov_dev pkey w =
    (case (prov_dev, pkey) of
       (Some p, Some k) \<Rightarrow>
         if \<not> meshx_prov_validate_public_key ext k then Some (MESHX_ERR_INVAL, w)
         else do { d \<leftarrow> pw_mem w p; Some (MESHX_SUCCESS, dev_upd p (\<lambda>d. d\<lparr>dv_public_key_remote := k\<rparr>) w) }
     | _ \<Rightarrow> Some (MESHX_ERR_INVAL, w))"

text \<open>The authentication value the application passes: the method, and for the out-of-band
  methods the action with a number or at most eight letters.\<close>

datatype prov_oob_value = OOB_NUMERIC u32 | OOB_ALPHA bytes u8

record prov_auth_value =
  av_method :: u8
  av_static :: bytes
  av_action :: u8
  av_oob :: prov_oob_value

definition MESHX_PROV_AUTH_METHOD_NO_OOB :: u8 where "MESHX_PROV_AUTH_METHOD_NO_OOB = 0"
definition MESHX_PROV_AUTH_METHOD_STATIC_OOB :: u8 where "MESHX_PROV_AUTH_METHOD_STATIC_OOB = 1"
definition MESHX_PROV_AUTH_METHOD_OUTPUT_OOB :: u8 where "MESHX_PROV_AUTH_METHOD_OUTPUT_OOB = 2"
definition MESHX_PROV_AUTH_METHOD_INPUT_OOB :: u8 where "MESHX_PROV_AUTH_METHOD_INPUT_OOB = 3"
definition MESHX_PROV_AUTH_METHOD_PROHIBITED :: u8 where "MESHX_PROV_AUTH_METHOD_PROHIBITED = 4"

lemmas auth_methods = MESHX_PROV_AUTH_METHOD_NO_OOB_def MESHX_PROV_AUTH_METHOD_STATIC_OOB_def
  MESHX_PROV_AUTH_METHOD_OUTPUT_OOB_def MESHX_PROV_AUTH_METHOD_INPUT_OOB_def
  MESHX_PROV_AUTH_METHOD_PROHIBITED_def

text \<open>A number is written from the last byte downwards; byte 0 is not reached.\<close>

fun auth_numeric_loop :: "nat \<Rightarrow> u32 \<Rightarrow> bytes \<Rightarrow> bytes" where
  "auth_numeric_loop 0 value auth = auth"
| "auth_numeric_loop (Suc i) value auth =
    (if value \<noteq> 0
     then auth_numeric_loop i (drop_bit 8 value) (auth[Suc i := ucast (value AND 0xff)])
     else auth_numeric_loop i value (auth[Suc i := 0]))"

text \<open>Letters are copied while there are some; the field of letters has eight bytes.\<close>

fun auth_alpha_loop :: "nat list \<Rightarrow> u8 \<Rightarrow> bytes \<Rightarrow> bytes \<Rightarrow> bytes option" where
  "auth_alpha_loop [] alpha_len alpha auth = Some auth"
| "auth_alpha_loop (i # is) alpha_len alpha auth =
    (if alpha_len > 0
     then do { c \<leftarrow> mem_read alpha i 1; auth_alpha_loop is (alpha_len - 1) alpha (auth[i := c ! 0]) }
     else auth_alpha_loop is alpha_len alpha (auth[i := 0]))"

definition auth_value_of :: "prov_auth_value \<Rightarrow> bytes \<Rightarrow> bytes option" where
  "auth_value_of v auth =
    (if av_method v = MESHX_PROV_AUTH_METHOD_NO_OOB then Some (zeros 16)
     else if av_method v = MESHX_PROV_AUTH_METHOD_STATIC_OOB then Some (av_static v)
     else if av_method v = MESHX_PROV_AUTH_METHOD_OUTPUT_OOB \<or> av_method v = MESHX_PROV_AUTH_METHOD_INPUT_OOB
     then (if av_action v \<in> {0, 1, 2, 3}
           then (case av_oob v of
                   OOB_NUMERIC value \<Rightarrow> Some (auth_numeric_loop 15 value auth)
                 | OOB_ALPHA alpha n \<Rightarrow> Some (auth_numeric_loop 15 (of_mem32 alpha) auth))
           else (case av_oob v of
                   OOB_ALPHA alpha alpha_len \<Rightarrow> auth_alpha_loop [0..<16] alpha_len alpha auth
                 | OOB_NUMERIC value \<Rightarrow> None))
     else Some auth)"

definition meshx_prov_set_auth_value ::
  "nat option \<Rightarrow> prov_auth_value option \<Rightarrow> prov_world \<Rightarrow> (errno \<times> prov_world) option" where
  "meshx_prov_set_auth_value prov_dev pauth w =
    (case prov_dev of
       None \<Rightarrow> Some (MESHX_ERR_INVAL, w)
     | Some p \<Rightarrow> do {
         v \<leftarrow> pauth;
         d \<leftarrow> pw_mem w p;
         auth \<leftarrow> auth_value_of v (dv_auth_value d);
         Some (MESHX_SUCCESS, dev_upd p (\<lambda>d. d\<lparr>dv_auth_value := auth\<rparr>) w) })"

text \<open>The confirmation inputs: invite, capabilities, start, then the provisioner's and the
  device's public key.\<close>

definition confirmation_inputs :: "pb_adv_dev \<Rightarrow> bytes" where
  "confirmation_inputs d =
    dv_invite d # cap_bytes (dv_capabilites d) @ start_bytes (dv_start d) @
    (if dv_role d = MESHX_ROLE_DEVICE then dv_public_key_remote d @ dv_public_key d
     else dv_public_key d @ dv_public_key_remote d)"

definition prck :: bytes where "prck = [0x70, 0x72, 0x63, 0x6b]"
definition prsk :: bytes where "prsk = [0x70, 0x72, 0x73, 0x6b]"
definition prsn :: bytes where "prsn = [0x70, 0x72, 0x73, 0x6e]"
definition prdk :: bytes where "prdk = [0x70, 0x72, 0x64, 0x6b]"

definition confirm :: "aes128 \<Rightarrow> bytes \<Rightarrow> pb_adv_dev \<Rightarrow> pb_adv_dev" where
  "confirm aes rnd d =
    (let d = d\<lparr>dv_confirmation_salt :=
               out_arg (dv_confirmation_salt d) (meshx_s1 aes (Some (confirmation_inputs d)))\<rparr>;
         cfm_key = out_arg [] (meshx_k1 aes (Some (dv_share_secret d)) (dv_confirmation_salt d) (Some prck))
     in d\<lparr>dv_confirmation := meshx_aes_cmac aes cfm_key (rnd @ dv_auth_value d)\<rparr>)"

definition meshx_prov_generate_confirmation ::
  "prov_ext \<Rightarrow> nat option \<Rightarrow> bytes \<Rightarrow> prov_world \<Rightarrow> (errno \<times> prov_world) option" where
  "meshx_prov_generate_confirmation ext prov_dev rnd w =
    (case prov_dev of
       None \<Rightarrow> Some (MESHX_ERR_INVAL, w)
     | Some p \<Rightarrow>
         (case on_env meshx_malloc_ok w of
            (False, w) \<Rightarrow> Some (MESHX_ERR_MEM, w)
          | (True, w) \<Rightarrow> do {
              d \<leftarrow> pw_mem w p;
              Some (MESHX_SUCCESS, dev_upd p (confirm (ext_aes ext) rnd) w) }))"

definition meshx_prov_verify_confirmation :: "prov_ext \<Rightarrow> nat \<Rightarrow> prov_world \<Rightarrow> (bool \<times> prov_world) option" where
  "meshx_prov_verify_confirmation ext p w = do {
    d \<leftarrow> pw_mem w p;
    (_, w) \<leftarrow> meshx_prov_generate_confirmation ext (Some p) (dv_random_remote d) w;
    d \<leftarrow> pw_mem w p;
    Some (dv_confirmation d = dv_confirmation_remote d, w)
  }"

definition session_keys :: "aes128 \<Rightarrow> pb_adv_dev \<Rightarrow> pb_adv_dev" where
  "session_keys aes d =
    (let inputs = dv_confirmation_salt d @
           (if dv_role d = MESHX_ROLE_DEVICE then dv_random_remote d @ dv_random d
            else dv_random d @ dv_random_remote d);
         prov_salt = out_arg [] (meshx_s1 aes (Some inputs));
         k1 = (\<lambda>old P. out_arg old (meshx_k1 aes (Some (dv_share_secret d)) prov_salt (Some P)))
     in d\<lparr>dv_session_key := k1 (dv_session_key d) prsk,
         dv_session_nonce := k1 (dv_session_nonce d) prsn,
         dv_device_key := k1 (dv_device_key d) prdk\<rparr>)"

definition meshx_prov_calculate_session_device_key ::
  "prov_ext \<Rightarrow> nat \<Rightarrow> prov_world \<Rightarrow> (errno \<times> prov_world) option" where
  "meshx_prov_calculate_session_device_key ext p w = do {
    d \<leftarrow> pw_mem w p;
    Some (MESHX_SUCCESS, dev_upd p (session_keys (ext_aes ext)) w)
  }"

section \<open>Operations\<close>

definition meshx_prov_delete_device :: "nat option \<Rightarrow> prov_world \<Rightarrow> prov_world option" where
  "meshx_prov_delete_device prov_dev w =
    (case prov_dev of
       None \<Rightarrow> Some w
     | Some p \<Rightarrow> do {
         d \<leftarrow> pw_mem w p;
         t \<leftarrow> bearer_kind w (dv_bearer d);
         if t = MESHX_BEARER_TYPE_ADV then meshx_pb_adv_delete_device prov_dev w else Some w })"

definition meshx_prov_link_open :: "nat option \<Rightarrow> prov_world \<Rightarrow> (errno \<times> prov_world) option" where
  "meshx_prov_link_open prov_dev w =
    (case prov_dev of
       None \<Rightarrow> Some (MESHX_ERR_INVAL, w)
     | Some p \<Rightarrow> do {
         d \<leftarrow> pw_mem w p;
         t \<leftarrow> bearer_kind w (dv_bearer d);
         if t \<noteq> MESHX_BEARER_TYPE_ADV then Some (MESHX_ERR_INVAL, w) else meshx_pb_adv_link_open p w })"

definition meshx_prov_link_close :: "nat option \<Rightarrow> u8 \<Rightarrow> prov_world \<Rightarrow> (errno \<times> prov_world) option" where
  "meshx_prov_link_close prov_dev reason w =
    (case prov_dev of
       None \<Rightarrow> Some (MESHX_ERR_INVAL, w)
     | Some p \<Rightarrow> meshx_pb_adv_link_close p reason w)"

text \<open>The operations end with a switch over the bearer type: the advertising bearer sends,
  the GATT bearer does nothing.\<close>

definition by_bearer ::
  "nat \<Rightarrow> (nat \<Rightarrow> prov_world \<Rightarrow> (errno \<times> prov_world) option) \<Rightarrow> prov_world \<Rightarrow> (errno \<times> prov_world) option" where
  "by_bearer p send w = do {
    d \<leftarrow> pw_mem w p;
    t \<leftarrow> bearer_kind w (dv_bearer d);
    if t = MESHX_BEARER_TYPE_ADV then send p w
    else if t = MESHX_BEARER_TYPE_GATT then Some (MESHX_SUCCESS, w)
    else Some (MESHX_ERR_INVAL, w)
  }"

definition meshx_prov_invite :: "nat option \<Rightarrow> u8 \<Rightarrow> prov_world \<Rightarrow> (errno \<times> prov_world) option" where
  "meshx_prov_invite prov_dev invite w =
    (case prov_dev of
       None \<Rightarrow> Some (MESHX_ERR_INVAL, w)
     | Some p \<Rightarrow> do {
         d \<leftarrow> pw_mem w p;
         if dv_state d < MESHX_PROV_STATE_LINK_OPENED \<or> dv_state d > MESHX_PROV_STATE_INVITE
         then Some (MESHX_ERR_STATE, w)
         else if dv_state d = MESHX_PROV_STATE_INVITE then Some (MESHX_ERR_ALREADY, w)
         else by_bearer p meshx_pb_adv_invite
                (dev_upd p (\<lambda>d. d\<lparr>dv_state := MESHX_PROV_STATE_INVITE, dv_invite := invite\<rparr>) w) })"

definition cap_to_be :: "prov_capabilites \<Rightarrow> prov_capabilites" where
  "cap_to_be c =
    c\<lparr>cap_algorithms := MESHX_HOST_TO_BE16 (cap_algorithms c),
      cap_output_oob_action := MESHX_HOST_TO_BE16 (cap_output_oob_action c),
      cap_input_oob_action := MESHX_HOST_TO_BE16 (cap_input_oob_action c)\<rparr>"

definition cap_to_host :: "prov_capabilites \<Rightarrow> prov_capabilites" where
  "cap_to_host c =
    c\<lparr>cap_algorithms := MESHX_BE16_TO_HOST (cap_algorithms c),
      cap_output_oob_action := MESHX_BE16_TO_HOST (cap_output_oob_action c),
      cap_input_oob_action := MESHX_BE16_TO_HOST (cap_input_oob_action c)\<rparr>"

definition meshx_prov_capabilites ::
  "nat option \<Rightarrow> prov_capabilites option \<Rightarrow> prov_world \<Rightarrow> (errno \<times> prov_world) option" where
  "meshx_prov_capabilites prov_dev pcap w =
    (case (prov_dev, pcap) of
       (Some p, Some cap) \<Rightarrow> do {
         d \<leftarrow> pw_mem w p;
         if dv_state d < MESHX_PROV_STATE_INVITE \<or> dv_state d > MESHX_PROV_STATE_CAPABILITES
         then Some (MESHX_ERR_STATE, w)
         else if dv_state d = MESHX_PROV_STATE_CAPABILITES then Some (MESHX_ERR_ALREADY, w)
         else by_bearer p meshx_pb_adv_capabilites
                (dev_upd p (\<lambda>d. d\<lparr>dv_state := MESHX_PROV_STATE_CAPABILITES,
                                 dv_capabilites := cap_to_be sample_prov_capabilites\<rparr>) w) }
     | _ \<Rightarrow> Some (MESHX_ERR_INVAL, w))"

definition meshx_prov_start ::
  "nat option \<Rightarrow> prov_start option \<Rightarrow> prov_world \<Rightarrow> (errno \<times> prov_world) option" where
  "meshx_prov_start prov_dev pstart w =
    (case (prov_dev, pstart) of
       (Some p, Some st) \<Rightarrow> do {
         d \<leftarrow> pw_mem w p;
         if dv_state d < MESHX_PROV_STATE_CAPABILITES \<or> dv_state d > MESHX_PROV_STATE_START
         then Some (MESHX_ERR_STATE, w)
         else if dv_state d = MESHX_PROV_STATE_START then Some (MESHX_ERR_ALREADY, w)
         else by_bearer p meshx_pb_adv_start
                (dev_upd p (\<lambda>d. d\<lparr>dv_state := MESHX_PROV_STATE_START, dv_start := sample_prov_start\<rparr>) w) }
     | _ \<Rightarrow> Some (MESHX_ERR_INVAL, w))"

definition meshx_prov_public_key ::
  "nat option \<Rightarrow> bytes option \<Rightarrow> prov_world \<Rightarrow> (errno \<times> prov_world) option" where
  "meshx_prov_public_key prov_dev ppub_key w =
    (case (prov_dev, ppub_key) of
       (Some p, Some key) \<Rightarrow> do {
         d \<leftarrow> pw_mem w p;
         if dv_state d < MESHX_PROV_STATE_START \<or> dv_state d > MESHX_PROV_STATE_PUBLIC_KEY
         then Some (MESHX_ERR_STATE, w)
         else by_bearer p meshx_pb_adv_public_key
                (dev_upd p (\<lambda>d. d\<lparr>dv_state := MESHX_PROV_STATE_PUBLIC_KEY, dv_public_key := key\<rparr>) w) }
     | _ \<Rightarrow> Some (MESHX_ERR_INVAL, w))"

definition meshx_prov_input_complete :: "nat option \<Rightarrow> prov_world \<Rightarrow> (errno \<times> prov_world) option" where
  "meshx_prov_input_complete prov_dev w =
    (case prov_dev of
       None \<Rightarrow> Some (MESHX_ERR_INVAL, w)
     | Some p \<Rightarrow> do {
         d \<leftarrow> pw_mem w p;
         if dv_state d < MESHX_PROV_STATE_PUBLIC_KEY \<or> dv_state d > MESHX_PROV_STATE_INPUT_COMPLETE
         then Some (MESHX_ERR_STATE, w)
         else by_bearer p meshx_pb_adv_input_complete
                (dev_upd p (\<lambda>d. d\<lparr>dv_state := MESHX_PROV_STATE_INPUT_COMPLETE\<rparr>) w) })"

definition meshx_prov_confirmation ::
  "nat option \<Rightarrow> bytes option \<Rightarrow> prov_world \<Rightarrow> (errno \<times> prov_world) option" where
  "meshx_prov_confirmation prov_dev pcfm w =
    (case (prov_dev, pcfm) of
       (Some p, Some cfm) \<Rightarrow> do {
         d \<leftarrow> pw_mem w p;
         if dv_state d < MESHX_PROV_STATE_PUBLIC_KEY \<or> dv_state d > MESHX_PROV_STATE_CONFIRMATION
         then Some (MESHX_ERR_STATE, w)
         else by_bearer p meshx_pb_adv_confirmation
                (dev_upd p (\<lambda>d. d\<lparr>dv_state := MESHX_PROV_STATE_CONFIRMATION, dv_confirmation := cfm\<rparr>) w) }
     | _ \<Rightarrow> Some (MESHX_ERR_INVAL, w))"

definition meshx_prov_random ::
  "nat option \<Rightarrow> bytes option \<Rightarrow> prov_world \<Rightarrow> (errno \<times> prov_world) option" where
  "meshx_prov_random prov_dev prandom w =
    (case (prov_dev, prandom) of
       (Some p, Some rnd) \<Rightarrow> do {
         d \<leftarrow> pw_mem w p;
         if dv_state d < MESHX_PROV_STATE_CONFIRMATION \<or> dv_state d > MESHX_PROV_STATE_RANDOM
         then Some (MESHX_ERR_STATE, w)
         else by_bearer p meshx_pb_adv_random
                (dev_upd p (\<lambda>d. d\<lparr>dv_state := MESHX_PROV_STATE_RANDOM, dv_random := rnd\<rparr>) w) }
     | _ \<Rightarrow> Some (MESHX_ERR_INVAL, w))"

text \<open>The provisioning data: converted to network order, then encrypted in place under the
  session key and the last 13 bytes of the session nonce.\<close>

definition data_to_be :: "prov_data \<Rightarrow> prov_data" where
  "data_to_be d =
    d\<lparr>pd_key_index := MESHX_HOST_TO_BE16 (pd_key_index d), pd_iv_index := MESHX_HOST_TO_BE32 (pd_iv_index d),
      pd_unicast_address := MESHX_HOST_TO_BE16 (pd_unicast_address d)\<rparr>"

definition data_to_host :: "prov_data \<Rightarrow> prov_data" where
  "data_to_host d =
    d\<lparr>pd_key_index := MESHX_BE16_TO_HOST (pd_key_index d), pd_iv_index := MESHX_BE32_TO_HOST (pd_iv_index d),
      pd_unicast_address := MESHX_BE16_TO_HOST (pd_unicast_address d)\<rparr>"

definition data_encrypt :: "aes128 \<Rightarrow> bytes \<Rightarrow> bytes \<Rightarrow> prov_data \<Rightarrow> prov_data" where
  "data_encrypt aes key nonce d =
    (let (out, mic) = out_arg (data_bytes d, pd_mic d)
           (meshx_aes_ccm_encrypt aes key (take 13 (drop 3 nonce)) [] (data_bytes d) 8)
     in data_of_bytes out mic)"

definition meshx_prov_data ::
  "prov_ext \<Rightarrow> nat option \<Rightarrow> prov_data option \<Rightarrow> prov_world \<Rightarrow> (errno \<times> prov_world) option" where
  "meshx_prov_data ext prov_dev pdata w =
    (case (prov_dev, pdata) of
       (Some p, Some data) \<Rightarrow> do {
         d \<leftarrow> pw_mem w p;
         if dv_state d < MESHX_PROV_STATE_RANDOM \<or> dv_state d > MESHX_PROV_STATE_DATA
         then Some (MESHX_ERR_STATE, w)
         else if dv_state d = MESHX_PROV_STATE_DATA then Some (MESHX_ERR_ALREADY, w)
         else by_bearer p meshx_pb_adv_data
                (dev_upd p (\<lambda>d. d\<lparr>dv_state := MESHX_PROV_STATE_DATA,
                   dv_data := data_encrypt (ext_aes ext) (dv_session_key d) (dv_session_nonce d)
                                (data_to_be sample_prov_data)\<rparr>) w) }
     | _ \<Rightarrow> Some (MESHX_ERR_INVAL, w))"

definition meshx_prov_complete :: "nat option \<Rightarrow> prov_world \<Rightarrow> (errno \<times> prov_world) option" where
  "meshx_prov_complete prov_dev w =
    (case prov_dev of
       None \<Rightarrow> Some (MESHX_ERR_INVAL, w)
     | Some p \<Rightarrow> do {
         d \<leftarrow> pw_mem w p;
         if dv_state d < MESHX_PROV_STATE_DATA \<or> dv_state d > MESHX_PROV_STATE_COMPLETE
         then Some (MESHX_ERR_STATE, w)
         else if dv_state d = MESHX_PROV_STATE_COMPLETE then Some (MESHX_ERR_ALREADY, w)
         else by_bearer p meshx_pb_adv_complete
                (dev_upd p (\<lambda>d. d\<lparr>dv_state := MESHX_PROV_STATE_COMPLETE\<rparr>) w) })"

definition meshx_prov_failed :: "nat option \<Rightarrow> u8 \<Rightarrow> prov_world \<Rightarrow> (errno \<times> prov_world) option" where
  "meshx_prov_failed prov_dev err_code w =
    (case prov_dev of
       None \<Rightarrow> Some (MESHX_ERR_INVAL, w)
     | Some p \<Rightarrow> do {
         d \<leftarrow> pw_mem w p;
         if dv_state d < MESHX_PROV_STATE_INVITE then Some (MESHX_ERR_STATE, w)
         else if dv_state d = MESHX_PROV_STATE_COMPLETE \<or> dv_state d = MESHX_PROV_STATE_FAILED
         then Some (MESHX_ERR_ALREADY, w)
         else by_bearer p meshx_pb_adv_failed
                (dev_upd p (\<lambda>d. d\<lparr>dv_state := MESHX_PROV_STATE_FAILED, dv_err_code := err_code\<rparr>) w) })"

section \<open>Validation\<close>

definition meshx_prov_validate_capabilites :: "prov_capabilites \<Rightarrow> bool" where
  "meshx_prov_validate_capabilites c \<longleftrightarrow> \<not> (0 = cap_element_nums c)"

definition meshx_prov_validate_start :: "prov_start \<Rightarrow> bool" where
  "meshx_prov_validate_start s =
    (if st_algorithm s > 1 then False
     else if st_public_key s > 1 then False
     else if st_auth_method s \<ge> MESHX_PROV_AUTH_METHOD_PROHIBITED then False
     else if st_auth_method s = MESHX_PROV_AUTH_METHOD_OUTPUT_OOB \<and> st_auth_action s \<ge> 5 then False
     else if st_auth_method s = MESHX_PROV_AUTH_METHOD_INPUT_OOB \<and> st_auth_action s \<ge> 4 then False
     else if st_auth_method s = MESHX_PROV_AUTH_METHOD_OUTPUT_OOB \<or> st_auth_method s = MESHX_PROV_AUTH_METHOD_INPUT_OOB
     then \<not> (st_auth_size s < 1 \<or> st_auth_size s > 8)
     else True)"

definition meshx_prov_is_start_supported :: "prov_capabilites \<Rightarrow> prov_start \<Rightarrow> bool" where
  "meshx_prov_is_start_supported cap s =
    (if st_public_key s \<noteq> cap_public_key_type cap then False
     else if st_auth_method s = MESHX_PROV_AUTH_METHOD_STATIC_OOB then \<not> (cap_static_oob_type cap = 0)
     else if st_auth_method s = MESHX_PROV_AUTH_METHOD_OUTPUT_OOB
     then if cap_output_oob_size cap = 0 then False
          else if st_auth_size s > cap_output_oob_size cap then False
          else let auth_action = push_bit (unat (st_auth_action s)) 1;
                   output_oob_action = MESHX_BE16_TO_HOST (cap_output_oob_action cap)
               in \<not> (0 = auth_action AND output_oob_action)
     else if st_auth_method s = MESHX_PROV_AUTH_METHOD_INPUT_OOB
     then if cap_input_oob_size cap = 0 then False
          else if st_auth_size s > cap_input_oob_size cap then False
          else let auth_action = push_bit (unat (st_auth_action s)) 1;
                   input_oob_action = MESHX_BE16_TO_HOST (cap_input_oob_action cap)
               in \<not> (0 = auth_action AND input_oob_action)
     else True)"

section \<open>Processing a provisioning unit\<close>

definition MESHX_PROV_FAILED_INVALID_PDU :: u8 where "MESHX_PROV_FAILED_INVALID_PDU = 1"
definition MESHX_PROV_FAILED_INVALID_FORMAT :: u8 where "MESHX_PROV_FAILED_INVALID_FORMAT = 2"
definition MESHX_PROV_FAILED_UNEXPECTED_PDU :: u8 where "MESHX_PROV_FAILED_UNEXPECTED_PDU = 3"
definition MESHX_PROV_FAILED_CONFIMATION_FAILED :: u8 where "MESHX_PROV_FAILED_CONFIMATION_FAILED = 4"
definition MESHX_PROV_FAILED_OUT_OF_RESOURCE :: u8 where "MESHX_PROV_FAILED_OUT_OF_RESOURCE = 5"
definition MESHX_PROV_FAILED_DECRYPTION_FAILED :: u8 where "MESHX_PROV_FAILED_DECRYPTION_FAILED = 6"
definition MESHX_PROV_FAILED_UNEXPECTED_ERROR :: u8 where "MESHX_PROV_FAILED_UNEXPECTED_ERROR = 7"

text \<open>Sending a failure and returning an error; telling the application.\<close>

definition refuse :: "nat \<Rightarrow> u8 \<Rightarrow> errno \<Rightarrow> prov_world \<Rightarrow> (errno \<times> prov_world) option" where
  "refuse p code r w = do { (_, w) \<leftarrow> meshx_prov_failed (Some p) code w; Some (r, w) }"

definition tell :: "prov_ext \<Rightarrow> nat \<Rightarrow> prov_note \<Rightarrow> prov_world \<Rightarrow> (errno \<times> prov_world) option" where
  "tell ext p n w = do { d \<leftarrow> pw_mem w p; Some (MESHX_SUCCESS, snd (meshx_notify ext (dv_bearer d) p n w)) }"

definition process_invite :: "prov_ext \<Rightarrow> nat \<Rightarrow> bytes \<Rightarrow> u8 \<Rightarrow> prov_world \<Rightarrow> (errno \<times> prov_world) option" where
  "process_invite ext p pdata len w = do {
    d \<leftarrow> pw_mem w p;
    if unat len < 1 + 1 then refuse p MESHX_PROV_FAILED_INVALID_FORMAT MESHX_ERR_LENGTH w
    else if dv_state d > MESHX_PROV_STATE_INVITE
    then refuse p MESHX_PROV_FAILED_UNEXPECTED_PDU MESHX_ERR_STATE w
    else do {
      b \<leftarrow> mem_read pdata 1 1;
      tell ext p (PROV_NOTIFY_INVITE (b ! 0))
        (dev_upd p (\<lambda>d. d\<lparr>dv_state := MESHX_PROV_STATE_INVITE, dv_invite := b ! 0\<rparr>) w)
    }
  }"

definition process_capabilites :: "prov_ext \<Rightarrow> nat \<Rightarrow> bytes \<Rightarrow> u8 \<Rightarrow> prov_world \<Rightarrow> (errno \<times> prov_world) option" where
  "process_capabilites ext p pdata len w = do {
    d \<leftarrow> pw_mem w p;
    if unat len < 1 + 11 then refuse p MESHX_PROV_FAILED_INVALID_FORMAT MESHX_ERR_LENGTH w
    else if dv_state d > MESHX_PROV_STATE_CAPABILITES
    then refuse p MESHX_PROV_FAILED_UNEXPECTED_PDU MESHX_ERR_STATE w
    else do {
      b \<leftarrow> mem_read pdata 1 11;
      let cap = cap_of_bytes b in
      if \<not> meshx_prov_validate_capabilites cap
      then refuse p MESHX_PROV_FAILED_INVALID_FORMAT MESHX_ERR_INVAL w
      else tell ext p (PROV_NOTIFY_CAPABILITES (cap_to_host cap))
             (dev_upd p (\<lambda>d. d\<lparr>dv_state := MESHX_PROV_STATE_CAPABILITES, dv_capabilites := cap\<rparr>) w)
    }
  }"

definition process_start :: "prov_ext \<Rightarrow> nat \<Rightarrow> bytes \<Rightarrow> u8 \<Rightarrow> prov_world \<Rightarrow> (errno \<times> prov_world) option" where
  "process_start ext p pdata len w = do {
    d \<leftarrow> pw_mem w p;
    if unat len < 1 + 5 then refuse p MESHX_PROV_FAILED_INVALID_FORMAT MESHX_ERR_LENGTH w
    else if dv_state d > MESHX_PROV_STATE_START
    then refuse p MESHX_PROV_FAILED_UNEXPECTED_PDU MESHX_ERR_STATE w
    else do {
      b \<leftarrow> mem_read pdata 1 5;
      let st = start_of_bytes b in
      if \<not> meshx_prov_validate_start st
      then refuse p MESHX_PROV_FAILED_INVALID_FORMAT MESHX_ERR_INVAL w
      else if \<not> meshx_prov_is_start_supported (dv_capabilites d) st
      then refuse p MESHX_PROV_FAILED_OUT_OF_RESOURCE MESHX_ERR_RESOURCE w
      else tell ext p (PROV_NOTIFY_START st)
             (dev_upd p (\<lambda>d. d\<lparr>dv_state := MESHX_PROV_STATE_START, dv_start := st\<rparr>) w)
    }
  }"

definition process_public_key :: "prov_ext \<Rightarrow> nat \<Rightarrow> bytes \<Rightarrow> u8 \<Rightarrow> prov_world \<Rightarrow> (errno \<times> prov_world) option" where
  "process_public_key ext p pdata len w = do {
    d \<leftarrow> pw_mem w p;
    if unat len < 1 + 64 then refuse p MESHX_PROV_FAILED_INVALID_FORMAT MESHX_ERR_LENGTH w
    else if dv_state d > MESHX_PROV_STATE_PUBLIC_KEY
    then refuse p MESHX_PROV_FAILED_UNEXPECTED_PDU MESHX_ERR_STATE w
    else do {
      key \<leftarrow> mem_read pdata 1 64;
      if meshx_prov_validate_public_key ext key
      then tell ext p (PROV_NOTIFY_PUBLIC_KEY key)
             (dev_upd p (\<lambda>d. d\<lparr>dv_share_secret := ext_ecc_shared ext key (dv_private_key d),
                              dv_state := MESHX_PROV_STATE_PUBLIC_KEY, dv_public_key_remote := key\<rparr>) w)
      else refuse p MESHX_PROV_FAILED_INVALID_FORMAT MESHX_ERR_INVAL w
    }
  }"

definition process_input_complete :: "prov_ext \<Rightarrow> nat \<Rightarrow> bytes \<Rightarrow> u8 \<Rightarrow> prov_world \<Rightarrow> (errno \<times> prov_world) option" where
  "process_input_complete ext p pdata len w = do {
    d \<leftarrow> pw_mem w p;
    if unat len < 1 then refuse p MESHX_PROV_FAILED_INVALID_FORMAT MESHX_ERR_LENGTH w
    else if dv_state d > MESHX_PROV_STATE_INPUT_COMPLETE
    then refuse p MESHX_PROV_FAILED_UNEXPECTED_PDU MESHX_ERR_STATE w
    else tell ext p PROV_NOTIFY_INPUT_COMPLETE
           (dev_upd p (\<lambda>d. d\<lparr>dv_state := MESHX_PROV_STATE_INPUT_COMPLETE\<rparr>) w)
  }"

definition process_confirmation :: "prov_ext \<Rightarrow> nat \<Rightarrow> bytes \<Rightarrow> u8 \<Rightarrow> prov_world \<Rightarrow> (errno \<times> prov_world) option" where
  "process_confirmation ext p pdata len w = do {
    d \<leftarrow> pw_mem w p;
    if unat len < 1 + 16 then refuse p MESHX_PROV_FAILED_INVALID_FORMAT MESHX_ERR_LENGTH w
    else if dv_state d > MESHX_PROV_STATE_CONFIRMATION
    then refuse p MESHX_PROV_FAILED_UNEXPECTED_PDU MESHX_ERR_STATE w
    else do {
      cfm \<leftarrow> mem_read pdata 1 16;
      (_, w) \<leftarrow>
        (let w = dev_upd p (\<lambda>d. d\<lparr>dv_state := MESHX_PROV_STATE_CONFIRMATION, dv_confirmation_remote := cfm\<rparr>) w
         in if dv_role d = MESHX_ROLE_DEVICE
            then meshx_prov_confirmation (Some p) (Some (dv_confirmation d)) w
            else meshx_prov_random (Some p) (Some (dv_random d)) w);
      tell ext p (PROV_NOTIFY_CONFIRMATION cfm) w
    }
  }"

definition process_random :: "prov_ext \<Rightarrow> nat \<Rightarrow> bytes \<Rightarrow> u8 \<Rightarrow> prov_world \<Rightarrow> (errno \<times> prov_world) option" where
  "process_random ext p pdata len w = do {
    d \<leftarrow> pw_mem w p;
    if unat len < 1 + 16 then refuse p MESHX_PROV_FAILED_INVALID_FORMAT MESHX_ERR_LENGTH w
    else if dv_state d > MESHX_PROV_STATE_RANDOM
    then refuse p MESHX_PROV_FAILED_UNEXPECTED_PDU MESHX_ERR_STATE w
    else do {
      rnd \<leftarrow> mem_read pdata 1 16;
      (ok, w) \<leftarrow> meshx_prov_verify_confirmation ext p (dev_upd p (\<lambda>d. d\<lparr>dv_random_remote := rnd\<rparr>) w);
      if ok
      then do {
        (_, w) \<leftarrow>
          (let w = dev_upd p (\<lambda>d. d\<lparr>dv_state := MESHX_PROV_STATE_RANDOM\<rparr>) w
           in if dv_role d = MESHX_ROLE_DEVICE then meshx_prov_random (Some p) (Some (dv_random d)) w
              else Some (MESHX_SUCCESS, w));
        (_, w) \<leftarrow> meshx_prov_calculate_session_device_key ext p w;
        tell ext p (PROV_NOTIFY_RANDOM rnd) w
      }
      else refuse p MESHX_PROV_FAILED_CONFIMATION_FAILED MESHX_ERR_FAIL w
    }
  }"

definition process_data :: "prov_ext \<Rightarrow> nat \<Rightarrow> bytes \<Rightarrow> u8 \<Rightarrow> prov_world \<Rightarrow> (errno \<times> prov_world) option" where
  "process_data ext p pdata len w = do {
    d \<leftarrow> pw_mem w p;
    if unat len < 1 + 33 then refuse p MESHX_PROV_FAILED_INVALID_FORMAT MESHX_ERR_LENGTH w
    else if dv_state d > MESHX_PROV_STATE_DATA
    then refuse p MESHX_PROV_FAILED_UNEXPECTED_PDU MESHX_ERR_STATE w
    else do {
      enc \<leftarrow> mem_read pdata 1 25;
      mic \<leftarrow> mem_read pdata 26 8;
      let (r, out) = meshx_aes_ccm_decrypt (ext_aes ext) (dv_session_key d) (take 13 (drop 3 (dv_session_nonce d)))
                       [] enc mic (data_bytes (dv_data d));
          w = dev_upd p (\<lambda>d. d\<lparr>dv_data := data_of_bytes out (pd_mic (dv_data d))\<rparr>) w
      in if r = MESHX_SUCCESS
         then do {
           (_, w) \<leftarrow> meshx_prov_complete (Some p) (dev_upd p (\<lambda>d. d\<lparr>dv_state := MESHX_PROV_STATE_DATA\<rparr>) w);
           d \<leftarrow> pw_mem w p;
           tell ext p (PROV_NOTIFY_DATA (data_to_host (dv_data d))) w
         }
         else refuse p MESHX_PROV_FAILED_DECRYPTION_FAILED MESHX_ERR_STATE w
    }
  }"

definition process_complete :: "prov_ext \<Rightarrow> nat \<Rightarrow> bytes \<Rightarrow> u8 \<Rightarrow> prov_world \<Rightarrow> (errno \<times> prov_world) option" where
  "process_complete ext p pdata len w = do {
    d \<leftarrow> pw_mem w p;
    if unat len < 1 then refuse p MESHX_PROV_FAILED_INVALID_FORMAT MESHX_ERR_LENGTH w
    else if dv_state d > MESHX_PROV_STATE_COMPLETE
    then refuse p MESHX_PROV_FAILED_UNEXPECTED_PDU MESHX_ERR_STATE w
    else tell ext p PROV_NOTIFY_COMPLETE (dev_upd p (\<lambda>d. d\<lparr>dv_state := MESHX_PROV_STATE_COMPLETE\<rparr>) w)
  }"

definition process_failed :: "prov_ext \<Rightarrow> nat \<Rightarrow> bytes \<Rightarrow> u8 \<Rightarrow> prov_world \<Rightarrow> (errno \<times> prov_world) option" where
  "process_failed ext p pdata len w =
    (if unat len < 1 + 1 then Some (MESHX_ERR_LENGTH, w)
     else do {
       b \<leftarrow> mem_read pdata 1 1;
       tell ext p (PROV_NOTIFY_FAILED (b ! 0)) (dev_upd p (\<lambda>d. d\<lparr>dv_state := MESHX_PROV_STATE_FAILED\<rparr>) w)
     })"

text \<open>The unit's type is the low six bits of its first byte.\<close>

definition meshx_prov_pdu_process :: "prov_ext \<Rightarrow> nat \<Rightarrow> bytes \<Rightarrow> u8 \<Rightarrow> prov_world \<Rightarrow> (errno \<times> prov_world) option" where
  "meshx_prov_pdu_process ext p pdata len w = do {
    m \<leftarrow> mem_read pdata 0 1;
    let t = m ! 0 AND 0x3f in
    if t = MESHX_PROV_TYPE_INVITE then process_invite ext p pdata len w
    else if t = MESHX_PROV_TYPE_CAPABILITES then process_capabilites ext p pdata len w
    else if t = MESHX_PROV_TYPE_START then process_start ext p pdata len w
    else if t = MESHX_PROV_TYPE_PUBLIC_KEY then process_public_key ext p pdata len w
    else if t = MESHX_PROV_TYPE_INPUT_COMPLETE then process_input_complete ext p pdata len w
    else if t = MESHX_PROV_TYPE_CONFIRMATION then process_confirmation ext p pdata len w
    else if t = MESHX_PROV_TYPE_RANDOM then process_random ext p pdata len w
    else if t = MESHX_PROV_TYPE_DATA then process_data ext p pdata len w
    else if t = MESHX_PROV_TYPE_COMPLETE then process_complete ext p pdata len w
    else if t = MESHX_PROV_TYPE_FAILED then process_failed ext p pdata len w
    else refuse p MESHX_PROV_FAILED_INVALID_PDU MESHX_SUCCESS w
  }"

section \<open>Notifications\<close>

text \<open>The notification of an acknowledged transaction points at the state of the device, so
  that the application sees the state the handler leaves.\<close>

definition meshx_prov_handle_notify ::
  "prov_ext \<Rightarrow> meshx_bearer_t \<Rightarrow> nat \<Rightarrow> prov_note \<Rightarrow> prov_world \<Rightarrow> (errno \<times> prov_world) option" where
  "meshx_prov_handle_notify ext b p note w = do {
    (prov_end, note, w) \<leftarrow>
      (case note of
         PROV_NOTIFY_LINK_OPEN result \<Rightarrow>
           if result = MESHX_PROV_LINK_OPEN_SUCCESS
           then Some (False, note, w\<lparr>pw_beacon := meshx_beacon_stop MESHX_BEACON_TYPE_UDB (pw_beacon w)\<rparr>)
           else Some (True, note, w)
       | PROV_NOTIFY_LINK_CLOSE reason \<Rightarrow>
           if node_addr (param (pw_node w)) = MESHX_ADDRESS_UNASSIGNED then Some (True, note, w)
           else do {
             (_, udb_interval) \<leftarrow> meshx_node_param_get MESHX_NODE_PARAM_TYPE_UDB_INTERVAL (zeros 4) (pw_node w);
             let (_, s, e) = meshx_beacon_start (pw_node w) (pw_gap w) b MESHX_BEACON_TYPE_UDB
                               (of_mem32 udb_interval) (pw_beacon w, pw_env w)
             in Some (True, note, w\<lparr>pw_beacon := s, pw_env := e\<rparr>)
           }
       | PROV_NOTIFY_TRANS_ACK st \<Rightarrow>
           if st = MESHX_PROV_STATE_FAILED \<or> st = MESHX_PROV_STATE_COMPLETE
           then do {
             t \<leftarrow> bearer_kind w b;
             if t = MESHX_BEARER_TYPE_ADV
             then do {
               (_, w) \<leftarrow> meshx_pb_adv_link_close p
                 (if st = MESHX_PROV_STATE_COMPLETE then MESHX_PROV_LINK_CLOSE_SUCCESS
                  else MESHX_PROV_LINK_CLOSE_FAIL) w;
               d \<leftarrow> pw_mem w p;
               Some (False, PROV_NOTIFY_TRANS_ACK (dv_state d), w)
             }
             else Some (False, note, w)
           }
           else Some (False, note, w)
       | _ \<Rightarrow> Some (False, note, w));
    let (ret, w) = meshx_notify ext b p note w
    in if prov_end
       then do { w \<leftarrow> meshx_prov_delete_device (Some p) w; Some (ret, w) }
       else Some (ret, w)
  }"

end
