(* ===== verification/Mesh_Pb_Adv.thy ===== *)
theory Mesh_Pb_Adv
  imports Mesh_Prov
begin

text \<open>
  The timers and the receiving half of \<^verbatim>\<open>mesh/provision/meshx_pb_adv.c\<close>: the
  expiry of the delay, retry and link monitor timers, link establishment and closing, the
  reassembly of a provisioning unit from its segments, acknowledgements, and the creation
  of devices; with the two functions of \<^verbatim>\<open>meshx_prov.c\<close> above it,
  \<^verbatim>\<open>meshx_prov_create_device\<close> and \<^verbatim>\<open>meshx_prov_receive\<close>.
\<close>

section \<open>Timers\<close>

text \<open>The unit of a state; in any other state the assertion fails.\<close>

definition send_state_pdu :: "nat \<Rightarrow> prov_world \<Rightarrow> (errno \<times> prov_world) option" where
  "send_state_pdu p w = do {
    d \<leftarrow> pw_mem w p;
    (let b = dv_bearer d; l = pa_link_id d; n = pa_tx_trans_num d in
     case dv_state d of
       MESHX_PROV_STATE_INVITE \<Rightarrow> on_gap (pb_adv_invite b l n (dv_invite d)) w
     | MESHX_PROV_STATE_CAPABILITES \<Rightarrow> on_gap (pb_adv_capabilites b l n (dv_capabilites d)) w
     | MESHX_PROV_STATE_START \<Rightarrow> on_gap (pb_adv_start b l n (dv_start d)) w
     | MESHX_PROV_STATE_PUBLIC_KEY \<Rightarrow> on_gap (pb_adv_public_key b l n (dv_public_key d)) w
     | MESHX_PROV_STATE_INPUT_COMPLETE \<Rightarrow> on_gap (pb_adv_input_complete b l n) w
     | MESHX_PROV_STATE_CONFIRMATION \<Rightarrow> on_gap (pb_adv_confirmation b l n (dv_confirmation d)) w
     | MESHX_PROV_STATE_RANDOM \<Rightarrow> on_gap (pb_adv_random b l n (dv_random d)) w
     | MESHX_PROV_STATE_DATA \<Rightarrow> on_gap (pb_adv_data b l n (dv_data d)) w
     | MESHX_PROV_STATE_COMPLETE \<Rightarrow> on_gap (pb_adv_complete b l n) w
     | MESHX_PROV_STATE_FAILED \<Rightarrow> on_gap (pb_adv_failed b l n (dv_err_code d)) w
     | _ \<Rightarrow> None)
  }"

definition MESHX_IS_VALID_DEVICE_TRANS_NUM :: "u8 \<Rightarrow> bool" where
  "MESHX_IS_VALID_DEVICE_TRANS_NUM num \<longleftrightarrow> num \<ge> 0x80 \<and> num \<le> 0xff"

definition MESHX_IS_VALID_PROVISIONER_TRANS_NUM :: "u8 \<Rightarrow> bool" where
  "MESHX_IS_VALID_PROVISIONER_TRANS_NUM num \<longleftrightarrow> num \<ge> 0 \<and> num \<le> 0x7f"

definition meshx_pb_adv_handle_delay :: "prov_ext \<Rightarrow> nat \<Rightarrow> prov_world \<Rightarrow> prov_world option" where
  "meshx_pb_adv_handle_delay ext p w = do {
    d \<leftarrow> pw_mem w p;
    (case pa_delay_type d of
       PB_ADV_TIMER_DELAY_TYPE_TRANS_ACK \<Rightarrow> do {
         (r, w) \<leftarrow> on_gap (pb_adv_trans_ack (dv_bearer d) (pa_link_id d) (pa_rx_trans_num d)) w;
         let w = (if r = MESHX_SUCCESS then dev_upd p (\<lambda>d. d\<lparr>pa_acked_trans_num := pa_rx_trans_num d\<rparr>) w else w);
             w = dev_upd p (\<lambda>d. d\<lparr>pa_timer_state := PB_ADV_TIMER_STATE_LINK_MONITOR\<rparr>) w;
             w = dev_timer_start p MESHX_LINK_LOSS_TIME w;
             data_len = pa_trans_data_len d;
             w = dev_upd p (\<lambda>d. d\<lparr>pa_trans_data_len := 0\<rparr>) w
         in if (if dv_role d = MESHX_ROLE_DEVICE
                then \<not> MESHX_IS_VALID_PROVISIONER_TRANS_NUM (pa_rx_trans_num d)
                else \<not> MESHX_IS_VALID_DEVICE_TRANS_NUM (pa_rx_trans_num d))
            then do {
              (_, w) \<leftarrow> meshx_pb_adv_failed p
                (dev_upd p (\<lambda>d. d\<lparr>dv_err_code := MESHX_PROV_FAILED_UNEXPECTED_ERROR\<rparr>) w);
              Some w
            }
            else do {
              (_, w) \<leftarrow> meshx_prov_pdu_process ext p (pa_rx_pdu d) (ucast data_len) w;
              Some w
            }
       }
     | PB_ADV_TIMER_DELAY_TYPE_PROV_PDU \<Rightarrow> do {
         (_, w) \<leftarrow> send_state_pdu p w;
         let w = dev_upd p (\<lambda>d. d\<lparr>pa_retry_time := 0, pa_timer_state := PB_ADV_TIMER_STATE_RETRY\<rparr>) w
         in Some (dev_timer_start p MESHX_TRANS_RETRY_PERIOD w)
       })
  }"

definition meshx_pb_adv_handle_link_loss :: "nat \<Rightarrow> prov_world \<Rightarrow> prov_world option" where
  "meshx_pb_adv_handle_link_loss p w = do {
    d \<leftarrow> pw_mem w p;
    let w = (if pa_timer d \<noteq> None then dev_timer_stop p w else w)
    in do { (_, w) \<leftarrow> meshx_pb_adv_link_close p MESHX_PROV_LINK_CLOSE_LINK_LOSS w; Some w }
  }"

definition meshx_pb_adv_handle_retry :: "prov_ext \<Rightarrow> nat \<Rightarrow> prov_world \<Rightarrow> prov_world option" where
  "meshx_pb_adv_handle_retry ext p w = do {
    d \<leftarrow> pw_mem w p;
    if dv_state d = MESHX_PROV_STATE_LINK_OPENING
    then do {
      (_, w) \<leftarrow> on_gap (pb_adv_link_open (dv_bearer d) (pa_link_id d) (dv_uuid d)) w;
      let retry_time = pa_retry_time d + MESHX_LINK_OPEN_RETRY_PERIOD;
          w = dev_upd p (\<lambda>d. d\<lparr>pa_retry_time := retry_time\<rparr>) w
      in if retry_time > MESHX_LINK_LOSS_TIME
         then let w = (if pa_timer d \<noteq> None then dev_timer_stop p w else w)
              in do {
                (_, w) \<leftarrow> meshx_prov_handle_notify ext (dv_bearer d) p
                  (PROV_NOTIFY_LINK_OPEN MESHX_PROV_LINK_OPEN_TIMEOUT) w;
                Some w
              }
         else Some w
    }
    else if dv_state d = MESHX_PROV_STATE_LINK_CLOSING
    then do {
      let reason = (if pa_link_close_reason d = MESHX_PROV_LINK_CLOSE_LINK_LOSS then MESHX_PROV_LINK_CLOSE_TIMEOUT
                    else pa_link_close_reason d)
      in do {
        (_, w) \<leftarrow> on_gap (pb_adv_link_close (dv_bearer d) (pa_link_id d) reason) w;
        let retry_time = pa_retry_time d + MESHX_LINK_CLOSE_RETRY_PERIOD;
            w = dev_upd p (\<lambda>d. d\<lparr>pa_retry_time := retry_time\<rparr>) w
        in if retry_time > MESHX_LINK_CLOSE_TIME
           then let w = (if pa_timer d \<noteq> None then dev_timer_stop p w else w)
                in do {
                  (_, w) \<leftarrow> meshx_prov_handle_notify ext (dv_bearer d) p
                    (PROV_NOTIFY_LINK_CLOSE (pa_link_close_reason d)) w;
                  Some w
                }
           else Some w
      }
    }
    else if dv_state d \<ge> MESHX_PROV_STATE_INVITE \<and> dv_state d \<le> MESHX_PROV_STATE_COMPLETE
    then do {
      (_, w) \<leftarrow> send_state_pdu p w;
      let retry_time = pa_retry_time d + MESHX_TRANS_RETRY_PERIOD;
          w = dev_upd p (\<lambda>d. d\<lparr>pa_retry_time := retry_time\<rparr>) w
      in if retry_time > MESHX_TRANS_LOSS_TIME
         then let w = (if pa_timer d \<noteq> None then dev_timer_stop p w else w)
              in do { (_, w) \<leftarrow> meshx_pb_adv_link_close p MESHX_PROV_LINK_CLOSE_TIMEOUT w; Some w }
         else Some w
    }
    else Some w
  }"

definition meshx_pb_adv_handle_timeout :: "prov_ext \<Rightarrow> nat \<Rightarrow> prov_world \<Rightarrow> prov_world option" where
  "meshx_pb_adv_handle_timeout ext p w =
    (if \<not> meshx_pb_adv_is_device_valid p w then Some w
     else do {
       d \<leftarrow> pw_mem w p;
       (case pa_timer_state d of
          PB_ADV_TIMER_STATE_DELAY \<Rightarrow> meshx_pb_adv_handle_delay ext p w
        | PB_ADV_TIMER_STATE_RETRY \<Rightarrow> meshx_pb_adv_handle_retry ext p w
        | PB_ADV_TIMER_STATE_LINK_MONITOR \<Rightarrow> meshx_pb_adv_handle_link_loss p w)
     })"

definition meshx_pb_adv_async_handle_timeout :: "prov_ext \<Rightarrow> nat \<Rightarrow> prov_world \<Rightarrow> prov_world option" where
  "meshx_pb_adv_async_handle_timeout ext p w = meshx_pb_adv_handle_timeout ext p w"

section \<open>Devices\<close>

definition meshx_pb_adv_create_device :: "meshx_bearer_t \<Rightarrow> bytes \<Rightarrow> prov_world \<Rightarrow> nat option \<times> prov_world" where
  "meshx_pb_adv_create_device b uuid w =
    (case meshx_pb_adv_find_device b uuid w of
       Some p \<Rightarrow> (Some p, w)
     | None \<Rightarrow>
         (case on_env meshx_malloc_ok w of
            (False, w) \<Rightarrow> (None, w)
          | (True, w) \<Rightarrow>
              (case meshx_timer_create None MESHX_TIMER_MODE_REPEATED (pw_env w) of
                 (r, tm, e) \<Rightarrow>
                   let w = w\<lparr>pw_env := e\<rparr> in
                   if r \<noteq> MESHX_SUCCESS then (None, w)
                   else let p = pw_next w in
                     (Some p, w\<lparr>pw_mem := (pw_mem w)(p := Some (dev_zero\<lparr>pa_timer := tm\<rparr>)),
                                pb_adv_devs := pb_adv_devs w @ [p], pw_next := Suc p\<rparr>))))"

definition meshx_prov_create_device ::
  "meshx_bearer_t \<Rightarrow> bytes \<Rightarrow> meshx_role \<Rightarrow> prov_world \<Rightarrow> (nat option \<times> prov_world) option" where
  "meshx_prov_create_device b uuid rl w =
    (case b of
       None \<Rightarrow> Some (None, w)
     | Some h \<Rightarrow>
         if rl \<noteq> MESHX_ROLE_DEVICE \<and> rl \<noteq> MESHX_ROLE_PROVISIONER then Some (None, w)
         else
           (case (if bearer_type (pw_gap w) h = MESHX_BEARER_TYPE_ADV
                  then meshx_pb_adv_create_device b uuid w else (None, w)) of
              (None, w) \<Rightarrow> Some (None, w)
            | (Some p, w) \<Rightarrow>
                let (v, w) = on_env MESHX_ABS_rand w;
                    w = dev_upd p (\<lambda>d. d\<lparr>dv_id := ucast (v mod 255), dv_role := rl, dv_bearer := b, dv_uuid := uuid\<rparr>) w
                in do {
                  (_, w) \<leftarrow> meshx_prov_make_key (Some p) w;
                  (_, w) \<leftarrow> meshx_prov_generate_random (Some p) w;
                  Some (Some p, w)
                }))"

section \<open>Link control\<close>

definition meshx_pb_adv_link_ack :: "prov_ext \<Rightarrow> nat \<Rightarrow> prov_world \<Rightarrow> (errno \<times> prov_world) option" where
  "meshx_pb_adv_link_ack ext p w = do {
    d \<leftarrow> pw_mem w p;
    if dv_state d \<noteq> MESHX_PROV_STATE_LINK_OPENING then Some (MESHX_ERR_STATE, w)
    else do {
      (ret, w) \<leftarrow> on_gap (pb_adv_link_ack (dv_bearer d) (pa_link_id d)) w;
      if ret = MESHX_SUCCESS
      then do {
        (_, w) \<leftarrow> meshx_prov_handle_notify ext (dv_bearer d) p (PROV_NOTIFY_LINK_OPEN MESHX_PROV_LINK_OPEN_SUCCESS)
          (dev_upd p (\<lambda>d. d\<lparr>dv_state := MESHX_PROV_STATE_LINK_OPENED\<rparr>) w);
        d \<leftarrow> pw_mem w p;
        Some (ret, dev_timer_start p MESHX_LINK_LOSS_TIME
                     (dev_upd p (\<lambda>d. d\<lparr>pa_timer_state := PB_ADV_TIMER_STATE_LINK_MONITOR\<rparr>) w))
      }
      else Some (ret, w)
    }
  }"

definition link_id_of :: "bytes \<Rightarrow> u32 option" where
  "link_id_of pdata = do { b \<leftarrow> mem_read pdata 0 4; Some (of_be32 b) }"

definition meshx_pb_adv_recv_link_open ::
  "prov_ext \<Rightarrow> meshx_bearer_t \<Rightarrow> bytes \<Rightarrow> prov_world \<Rightarrow> (errno \<times> prov_world) option" where
  "meshx_pb_adv_recv_link_open ext b pdata w =
    (if length pdata < 22 then Some (MESHX_ERR_LENGTH, w)
     else do {
       link_id \<leftarrow> link_id_of pdata;
       uuid \<leftarrow> mem_read pdata 6 16;
       if dev_uuid (config (pw_node w)) \<noteq> uuid then Some (MESHX_ERR_DIFF, w)
       else do {
         (prov_dev, w) \<leftarrow> meshx_prov_create_device b (dev_uuid (config (pw_node w))) MESHX_ROLE_DEVICE w;
         (case prov_dev of
            None \<Rightarrow> Some (MESHX_ERR_RESOURCE, w)
          | Some p \<Rightarrow> do {
              d \<leftarrow> pw_mem w p;
              if dv_state d = MESHX_PROV_STATE_LINK_OPENED \<and> pa_link_id d \<noteq> link_id
              then Some (MESHX_ERR_DIFF, w)
              else if dv_state d = MESHX_PROV_STATE_LINK_OPENED
              then do { (_, w) \<leftarrow> on_gap (pb_adv_link_ack b (pa_link_id d)) w; Some (MESHX_SUCCESS, w) }
              else if dv_state d > MESHX_PROV_STATE_LINK_OPENED then Some (MESHX_ERR_ALREADY, w)
              else meshx_pb_adv_link_ack ext p
                     (dev_upd p (\<lambda>d. d\<lparr>pa_link_id := link_id, dv_state := MESHX_PROV_STATE_LINK_OPENING,
                        pa_tx_trans_num := 0x7f, pa_acked_trans_num := 0xff, pa_trans_data_len := 0\<rparr>) w)
            })
       }
     })"

definition meshx_pb_adv_recv_link_ack ::
  "prov_ext \<Rightarrow> meshx_bearer_t \<Rightarrow> bytes \<Rightarrow> prov_world \<Rightarrow> (errno \<times> prov_world) option" where
  "meshx_pb_adv_recv_link_ack ext b pdata w =
    (if length pdata < 6 then Some (MESHX_ERR_LENGTH, w)
     else do {
       link_id \<leftarrow> link_id_of pdata;
       (case meshx_find_prov_dev_by_link_id link_id w of
          None \<Rightarrow> Some (MESHX_ERR_RESOURCE, w)
        | Some p \<Rightarrow> do {
            d \<leftarrow> pw_mem w p;
            if dv_state d > MESHX_PROV_STATE_LINK_OPENED then Some (MESHX_ERR_STATE, w)
            else do {
              let w = dev_upd p (\<lambda>d. d\<lparr>pa_retry_time := 0, pa_timer_state := PB_ADV_TIMER_STATE_LINK_MONITOR\<rparr>) w;
                  w = dev_timer_start p MESHX_LINK_LOSS_TIME w;
                  w = dev_upd p (\<lambda>d. d\<lparr>dv_state := MESHX_PROV_STATE_LINK_OPENED\<rparr>) w
              in do {
                (_, w) \<leftarrow> meshx_prov_handle_notify ext (dv_bearer d) p
                  (PROV_NOTIFY_LINK_OPEN MESHX_PROV_LINK_OPEN_SUCCESS) w;
                Some (MESHX_SUCCESS, w)
              }
            }
          })
     })"

definition meshx_pb_adv_recv_link_close ::
  "prov_ext \<Rightarrow> meshx_bearer_t \<Rightarrow> bytes \<Rightarrow> prov_world \<Rightarrow> (errno \<times> prov_world) option" where
  "meshx_pb_adv_recv_link_close ext b pdata w =
    (if length pdata < 7 then Some (MESHX_ERR_LENGTH, w)
     else do {
       link_id \<leftarrow> link_id_of pdata;
       (case meshx_find_prov_dev_by_link_id link_id w of
          None \<Rightarrow> Some (MESHX_ERR_RESOURCE, w)
        | Some p \<Rightarrow> do {
            d \<leftarrow> pw_mem w p;
            reason \<leftarrow> mem_read pdata 6 1;
            (_, w) \<leftarrow> meshx_prov_handle_notify ext (dv_bearer d) p (PROV_NOTIFY_LINK_CLOSE (reason ! 0))
              (if pa_timer d \<noteq> None then dev_timer_stop p w else w);
            Some (MESHX_SUCCESS, w)
          })
     })"

definition meshx_pb_adv_recv_bearer_ctl ::
  "prov_ext \<Rightarrow> meshx_bearer_t \<Rightarrow> bytes \<Rightarrow> prov_world \<Rightarrow> (errno \<times> prov_world) option" where
  "meshx_pb_adv_recv_bearer_ctl ext b pdata w =
    (if length pdata < 6 then Some (MESHX_ERR_LENGTH, w)
     else if pdata ! 4 \<noteq> MESHX_BEARER_CTL_TRANS_NUM then Some (MESHX_ERR_INVAL, w)
     else let opcode = drop_bit 2 (pdata ! 5) in
       if opcode = MESHX_BEARER_LINK_OPEN then meshx_pb_adv_recv_link_open ext b pdata w
       else if opcode = MESHX_BEARER_LINK_ACK then meshx_pb_adv_recv_link_ack ext b pdata w
       else if opcode = MESHX_BEARER_LINK_CLOSE then meshx_pb_adv_recv_link_close ext b pdata w
       else Some (MESHX_ERR_INVAL, w))"

section \<open>Transactions\<close>

definition meshx_pb_adv_recv_prov_pdu :: "nat \<Rightarrow> prov_world \<Rightarrow> (errno \<times> prov_world) option" where
  "meshx_pb_adv_recv_prov_pdu p w = do {
    d \<leftarrow> pw_mem w p;
    if dv_state d = MESHX_PROV_STATE_FAILED then Some (MESHX_ERR_STATE, w)
    else do {
      data \<leftarrow> mem_read (pa_rx_pdu d) 0 (unat (pa_trans_data_len d));
      if meshx_3gpp_crc data \<noteq> pa_fcs d
      then Some (MESHX_ERR_FAIL, dev_upd p (\<lambda>d. d\<lparr>pa_trans_data_len := 0\<rparr>) w)
      else do { (_, w) \<leftarrow> meshx_pb_adv_trans_ack p w; Some (MESHX_SUCCESS, w) }
    }
  }"

definition meshx_pb_adv_is_recv_all_trans_seg :: "pb_adv_dev \<Rightarrow> bool" where
  "meshx_pb_adv_is_recv_all_trans_seg d \<longleftrightarrow> list_all (\<lambda>i. pa_recv_seg d ! i = 0) [0..<8]"

text \<open>The bits of all segments up to the last are set when a transaction starts.\<close>

fun set_seg_bits :: "nat list \<Rightarrow> bytes \<Rightarrow> bytes" where
  "set_seg_bits [] f = f"
| "set_seg_bits (i # is) f = set_seg_bits is (MESHX_BIT_FIELD_SET f i)"

definition recv_seg_done :: "nat \<Rightarrow> prov_world \<Rightarrow> (errno \<times> prov_world) option" where
  "recv_seg_done p w = do {
    d \<leftarrow> pw_mem w p;
    if meshx_pb_adv_is_recv_all_trans_seg d
    then do { (_, w) \<leftarrow> meshx_pb_adv_recv_prov_pdu p w; Some (MESHX_SUCCESS, w) }
    else Some (MESHX_SUCCESS, w)
  }"

definition meshx_pb_adv_recv_trans_start ::
  "meshx_bearer_t \<Rightarrow> bytes \<Rightarrow> prov_world \<Rightarrow> (errno \<times> prov_world) option" where
  "meshx_pb_adv_recv_trans_start b pdata w =
    (if length pdata < 9 then Some (MESHX_ERR_LENGTH, w)
     else do {
       link_id \<leftarrow> link_id_of pdata;
       (case meshx_find_prov_dev_by_link_id link_id w of
          None \<Rightarrow> Some (MESHX_ERR_INVAL, w)
        | Some p \<Rightarrow> do {
            d \<leftarrow> pw_mem w p;
            tl_bytes \<leftarrow> mem_read pdata 6 2;
            let trans_num = pdata ! 4; last_seg_num = drop_bit 2 (pdata ! 5);
                total_len = of_be16 tl_bytes; fcs = pdata ! 8 in
            if dv_state d < MESHX_PROV_STATE_LINK_OPENED then Some (MESHX_ERR_STATE, w)
            else if pa_acked_trans_num d = trans_num
            then do {
              (_, w) \<leftarrow> on_gap (pb_adv_trans_ack (dv_bearer d) (pa_link_id d) (pa_acked_trans_num d)) w;
              Some (MESHX_SUCCESS, w)
            }
            else if total_len = 0 \<or> total_len > 65 then Some (MESHX_ERR_LENGTH, w)
            else if int (unat (meshx_calc_seg_num total_len)) - 1 \<noteq> uint last_seg_num
            then Some (MESHX_ERR_LENGTH, w)
            else
              let d = (if pa_trans_data_len d = 0
                       then d\<lparr>pa_recv_seg := set_seg_bits [0..<Suc (unat last_seg_num)] (zeros 8)\<rparr> else d)
              in if \<not> MESHX_IS_BIT_FIELD_SET (pa_recv_seg d) 0
              then Some (MESHX_ERR_ALREADY, dev_upd p (\<lambda>_. d) w)
              else
                let d = d\<lparr>pa_trans_data_len := total_len, pa_rx_trans_num := trans_num,
                          pa_last_seg_num := last_seg_num, pa_fcs := fcs\<rparr>;
                    recv_data_len = length pdata - 9
                in if recv_data_len \<noteq> (if last_seg_num = 0 then unat total_len else MESHX_PB_ADV_TRANS_START_PDU_MAX_LEN)
                then Some (MESHX_ERR_LENGTH, dev_upd p (\<lambda>_. d) w)
                else do {
                  pdu \<leftarrow> mem_write (pa_rx_pdu d) 0 (drop 9 pdata);
                  recv_seg_done p
                    (dev_upd p (\<lambda>_. d\<lparr>pa_recv_seg := MESHX_BIT_FIELD_CLEAR (pa_recv_seg d) 0, pa_rx_pdu := pdu\<rparr>) w)
                }
          })
     })"

text \<open>The lengths are compared as bytes: the length required of the last segment is cut to
  eight bits, the offset of a segment to sixteen.\<close>

definition continue_required_len :: "pb_adv_dev \<Rightarrow> u8" where
  "continue_required_len d =
    word_of_int (uint (pa_trans_data_len d) - int MESHX_PB_ADV_TRANS_START_PDU_MAX_LEN
      - int MESHX_PB_ADV_TRANS_CONTINUE_PDU_MAX_LEN * (uint (pa_last_seg_num d) - 1))"

definition continue_offset :: "u8 \<Rightarrow> u16" where
  "continue_offset seg_index =
    word_of_int (int MESHX_PB_ADV_TRANS_START_PDU_MAX_LEN
      + int MESHX_PB_ADV_TRANS_CONTINUE_PDU_MAX_LEN * (uint seg_index - 1))"

definition meshx_pb_adv_recv_trans_continue ::
  "meshx_bearer_t \<Rightarrow> bytes \<Rightarrow> prov_world \<Rightarrow> (errno \<times> prov_world) option" where
  "meshx_pb_adv_recv_trans_continue b pdata w =
    (if length pdata < 6 then Some (MESHX_ERR_LENGTH, w)
     else do {
       link_id \<leftarrow> link_id_of pdata;
       (case meshx_find_prov_dev_by_link_id link_id w of
          None \<Rightarrow> Some (MESHX_ERR_INVAL, w)
        | Some p \<Rightarrow> do {
            d \<leftarrow> pw_mem w p;
            let trans_num = pdata ! 4; seg_index = drop_bit 2 (pdata ! 5) in
            if dv_state d < MESHX_PROV_STATE_LINK_OPENED then Some (MESHX_ERR_STATE, w)
            else if pa_acked_trans_num d = trans_num
            then do {
              (_, w) \<leftarrow> on_gap (pb_adv_trans_ack (dv_bearer d) (pa_link_id d) (pa_acked_trans_num d)) w;
              Some (MESHX_SUCCESS, w)
            }
            else if pa_rx_trans_num d \<noteq> trans_num then Some (MESHX_ERR_DIFF, w)
            else if pa_trans_data_len d = 0 then Some (MESHX_ERR_TIMING, w)
            else if seg_index > pa_last_seg_num d then Some (MESHX_ERR_INVAL, w)
            else if \<not> MESHX_IS_BIT_FIELD_SET (pa_recv_seg d) (unat seg_index) then Some (MESHX_ERR_ALREADY, w)
            else
              let recv_data_len = length pdata - 6
              in if recv_data_len \<noteq> (if seg_index < pa_last_seg_num d then MESHX_PB_ADV_TRANS_CONTINUE_PDU_MAX_LEN
                                     else unat (continue_required_len d))
              then Some (MESHX_ERR_LENGTH, w)
              else do {
                pdu \<leftarrow> mem_write (pa_rx_pdu d) (unat (continue_offset seg_index)) (drop 6 pdata);
                recv_seg_done p
                  (dev_upd p (\<lambda>_. d\<lparr>pa_recv_seg := MESHX_BIT_FIELD_CLEAR (pa_recv_seg d) (unat seg_index),
                                    pa_rx_pdu := pdu\<rparr>) w)
              }
          })
     })"

definition meshx_pb_adv_recv_trans_ack ::
  "prov_ext \<Rightarrow> meshx_bearer_t \<Rightarrow> bytes \<Rightarrow> prov_world \<Rightarrow> (errno \<times> prov_world) option" where
  "meshx_pb_adv_recv_trans_ack ext b pdata w =
    (if length pdata < 6 then Some (MESHX_ERR_LENGTH, w)
     else do {
       link_id \<leftarrow> link_id_of pdata;
       (case meshx_find_prov_dev_by_link_id link_id w of
          None \<Rightarrow> Some (MESHX_ERR_INVAL, w)
        | Some p \<Rightarrow> do {
            d \<leftarrow> pw_mem w p;
            if pa_tx_trans_num d \<noteq> pdata ! 4 then Some (MESHX_ERR_DIFF, w)
            else
              let w = dev_upd p (\<lambda>d. d\<lparr>pa_retry_time := 0, pa_timer_state := PB_ADV_TIMER_STATE_LINK_MONITOR\<rparr>) w;
                  w = dev_timer_start p MESHX_LINK_LOSS_TIME w
              in do {
                (_, w) \<leftarrow> meshx_prov_handle_notify ext (dv_bearer d) p (PROV_NOTIFY_TRANS_ACK (dv_state d)) w;
                Some (MESHX_SUCCESS, w)
              }
          })
     })"

text \<open>The control format is read before any length is checked.\<close>

definition meshx_pb_adv_receive ::
  "prov_ext \<Rightarrow> meshx_bearer_t \<Rightarrow> bytes \<Rightarrow> prov_world \<Rightarrow> (errno \<times> prov_world) option" where
  "meshx_pb_adv_receive ext b pdata w = do {
    t \<leftarrow> bearer_kind w b;
    if t \<noteq> MESHX_BEARER_TYPE_ADV then None
    else do {
      c \<leftarrow> mem_read pdata 5 1;
      let gpcf = c ! 0 AND 3 in
      if gpcf = MESHX_GPCF_TRANS_START then meshx_pb_adv_recv_trans_start b pdata w
      else if gpcf = MESHX_GPCF_TRANS_ACK then meshx_pb_adv_recv_trans_ack ext b pdata w
      else if gpcf = MESHX_GPCF_TRANS_CONTINUE then meshx_pb_adv_recv_trans_continue b pdata w
      else if gpcf = MESHX_GPCF_BEARER_CTL then meshx_pb_adv_recv_bearer_ctl ext b pdata w
      else Some (MESHX_SUCCESS, w)
    }
  }"

definition meshx_prov_receive ::
  "prov_ext \<Rightarrow> meshx_bearer_t \<Rightarrow> bytes \<Rightarrow> prov_world \<Rightarrow> (errno \<times> prov_world) option" where
  "meshx_prov_receive ext b pdata w = do {
    t \<leftarrow> bearer_kind w b;
    if t = MESHX_BEARER_TYPE_ADV then meshx_pb_adv_receive ext b pdata w
    else if t = MESHX_BEARER_TYPE_GATT then Some (MESHX_SUCCESS, w)
    else Some (MESHX_ERR_INVAL, w)
  }"

definition meshx_prov_init :: "prov_world \<Rightarrow> errno \<times> prov_world" where
  "meshx_prov_init w = (MESHX_SUCCESS, snd (meshx_pb_adv_init w))"

end
