(* ===== verification/Mesh_Pb_Adv_Facts.thy ===== *)
theory Mesh_Pb_Adv_Facts
  imports Mesh_Pb_Adv
begin

text \<open>
  Facts shared by the properties of provisioning: what is left of the world after a write to
  a device, the search by link id, the bit field of outstanding segments, and a concrete world
  with one device.
\<close>

section \<open>Reading the world after a write\<close>

lemma dev_upd_sel [simp]:
  "pw_gap (dev_upd p f w) = pw_gap w" "pw_env (dev_upd p f w) = pw_env w"
  "pw_node (dev_upd p f w) = pw_node w" "pw_beacon (dev_upd p f w) = pw_beacon w"
  "pb_adv_devs (dev_upd p f w) = pb_adv_devs w" "pw_next (dev_upd p f w) = pw_next w"
  "pw_notes (dev_upd p f w) = pw_notes w"
  "pw_mem (dev_upd p f w) p = map_option f (pw_mem w p)"
  "q \<noteq> p \<Longrightarrow> pw_mem (dev_upd p f w) q = pw_mem w q"
  by (simp_all add: dev_upd_def)

lemma dev_timer_sel [simp]:
  "pw_gap (dev_timer_start p i w) = pw_gap w" "pw_env (dev_timer_start p i w) = pw_env w"
  "pw_node (dev_timer_start p i w) = pw_node w" "pw_beacon (dev_timer_start p i w) = pw_beacon w"
  "pb_adv_devs (dev_timer_start p i w) = pb_adv_devs w" "pw_next (dev_timer_start p i w) = pw_next w"
  "pw_notes (dev_timer_start p i w) = pw_notes w"
  "pw_mem (dev_timer_start p i w) p =
     map_option (\<lambda>d. d\<lparr>pa_timer := snd (meshx_timer_start (pa_timer d) i)\<rparr>) (pw_mem w p)"
  "q \<noteq> p \<Longrightarrow> pw_mem (dev_timer_start p i w) q = pw_mem w q"
  by (simp_all add: dev_timer_start_def)

lemma dev_stop_sel [simp]:
  "pw_gap (dev_timer_stop p w) = pw_gap w" "pw_env (dev_timer_stop p w) = pw_env w"
  "pw_node (dev_timer_stop p w) = pw_node w" "pw_beacon (dev_timer_stop p w) = pw_beacon w"
  "pb_adv_devs (dev_timer_stop p w) = pb_adv_devs w" "pw_next (dev_timer_stop p w) = pw_next w"
  "pw_notes (dev_timer_stop p w) = pw_notes w"
  "pw_mem (dev_timer_stop p w) p =
     map_option (\<lambda>d. d\<lparr>pa_timer := snd (meshx_timer_stop (pa_timer d))\<rparr>) (pw_mem w p)"
  "q \<noteq> p \<Longrightarrow> pw_mem (dev_timer_stop p w) q = pw_mem w q"
  by (simp_all add: dev_timer_stop_def)

lemma arm_delay_sel [simp]:
  "pw_gap (arm_delay p t w) = pw_gap w" "pw_node (arm_delay p t w) = pw_node w"
  "pw_beacon (arm_delay p t w) = pw_beacon w" "pb_adv_devs (arm_delay p t w) = pb_adv_devs w"
  "pw_next (arm_delay p t w) = pw_next w" "pw_notes (arm_delay p t w) = pw_notes w"
  "q \<noteq> p \<Longrightarrow> pw_mem (arm_delay p t w) q = pw_mem w q"
  by (simp_all add: arm_delay_def on_env_def split: prod.splits)

text \<open>The delays drawn are between 20 and 49 milliseconds.\<close>

lemma pb_adv_rand_range:
  assumes "meshx_pb_adv_rand e = (v, e')"
  shows "20 \<le> (ucast v :: u32) \<and> (ucast v :: u32) \<le> 49"
proof -
  obtain r :: u32 where v: "v = ucast (if r mod 50 < 20 then r mod 50 + 20 else r mod 50)"
    using assms by (auto simp: meshx_pb_adv_rand_def Let_def split: prod.splits)
  define m where "m = (if r mod 50 < 20 then r mod 50 + 20 else r mod 50)"
  have "unat (r mod 50) < 50" by (simp add: unat_mod)
  then have m: "20 \<le> unat m" "unat m \<le> 49"
    by (auto simp: m_def word_less_nat_alt unat_word_ariths not_less)
  have "(ucast v :: u32) = m"
    unfolding v m_def [symmetric] using m
    by (simp add: word_unat_eq_iff unsigned_ucast_eq unsigned_take_bit_eq take_bit_nat_eq_self)
  then show ?thesis using m by (simp add: word_le_nat_alt)
qed

text \<open>A device whose delay timer runs for the given purpose.\<close>

definition delay_running :: "pb_adv_delay_type \<Rightarrow> pb_adv_dev \<Rightarrow> bool" where
  "delay_running t d \<longleftrightarrow>
    pa_timer_state d = PB_ADV_TIMER_STATE_DELAY \<and> pa_delay_type d = t \<and>
    (case pa_timer d of None \<Rightarrow> False | Some tm \<Rightarrow> tm_is_active tm \<and> 20 \<le> tm_it_value tm \<and> tm_it_value tm \<le> 49)"

lemma delay_running_start:
  assumes "pa_timer d \<noteq> None" "20 \<le> v" "v \<le> 49"
    "pa_timer d' = snd (meshx_timer_start (pa_timer d) v)" "pa_timer_state d' = PB_ADV_TIMER_STATE_DELAY" "pa_delay_type d' = t"
  shows "delay_running t d'"
proof -
  have "v \<noteq> 0" using assms(2) by auto
  then show ?thesis using assms by (auto simp: delay_running_def meshx_timer_start_def)
qed

text \<open>Arming a timer leaves every other field of the device; the interval is a draw.\<close>

lemma arm_delay_mem:
  assumes "pw_mem w p = Some d"
  obtains v where "pw_mem (arm_delay p t w) p =
    Some (d\<lparr>pa_timer_state := PB_ADV_TIMER_STATE_DELAY, pa_delay_type := t,
            pa_timer := snd (meshx_timer_start (pa_timer d) v)\<rparr>)" "20 \<le> v" "v \<le> 49"
proof -
  obtain v e where e: "meshx_pb_adv_rand (pw_env w) = (v, e)" by (cases "meshx_pb_adv_rand (pw_env w)")
  show ?thesis using assms e pb_adv_rand_range [OF e]
    by (intro that [of "ucast v"]) (simp_all add: arm_delay_def on_env_def)
qed

lemma dev_upd_same [simp]: "pw_mem w p = Some d \<Longrightarrow> dev_upd p (\<lambda>_. d) w = w"
  by (simp add: dev_upd_def fun_upd_idem)

text \<open>The search by link id only looks at the list and the link ids.\<close>

lemma find_link_loop_cong:
  assumes "\<And>q. map_option pa_link_id (pw_mem w' q) = map_option pa_link_id (pw_mem w q)"
  shows "find_link_loop w' l c ps = find_link_loop w l c ps"
proof (induction ps arbitrary: c)
  case (Cons q ps)
  show ?case using assms [of q] Cons by (cases "pw_mem w q"; cases "pw_mem w' q") auto
qed simp

lemma find_link_cong:
  assumes "pb_adv_devs w' = pb_adv_devs w"
    "\<And>q. map_option pa_link_id (pw_mem w' q) = map_option pa_link_id (pw_mem w q)"
  shows "meshx_find_prov_dev_by_link_id l w' = meshx_find_prov_dev_by_link_id l w"
  by (simp add: meshx_find_prov_dev_by_link_id_def assms(1) find_link_loop_cong [OF assms(2)])

lemma find_link_dev_upd [simp]:
  assumes "\<And>d. pw_mem w p = Some d \<Longrightarrow> pa_link_id (f d) = pa_link_id d"
  shows "meshx_find_prov_dev_by_link_id l (dev_upd p f w) = meshx_find_prov_dev_by_link_id l w"
proof (rule find_link_cong)
  show "map_option pa_link_id (pw_mem (dev_upd p f w) q) = map_option pa_link_id (pw_mem w q)" for q
    using assms by (cases "q = p"; cases "pw_mem w p") auto
qed simp

lemma find_link_arm_delay [simp]:
  "meshx_find_prov_dev_by_link_id l (arm_delay p t w) = meshx_find_prov_dev_by_link_id l w"
  by (rule find_link_cong) (auto simp: arm_delay_def on_env_def dev_timer_start_def dev_upd_def option.map_comp o_def split: prod.splits)

section \<open>Bit fields\<close>

lemma bit_field_clear:
  assumes "i div 8 < length f"
  shows "MESHX_IS_BIT_FIELD_SET (MESHX_BIT_FIELD_CLEAR f i) j \<longleftrightarrow> j \<noteq> i \<and> MESHX_IS_BIT_FIELD_SET f j"
proof -
  have t: "w AND push_bit k 1 \<noteq> 0 \<longleftrightarrow> bit w k" if "k < 8" for w :: u8 and k
    using that by (simp add: push_bit_eq_mult and_exp_eq_0_iff_not_bit)
  have m: "j mod 8 < 8" "i mod 8 < 8" by simp_all
  show ?thesis
  proof (cases "j div 8 = i div 8")
    case True
    then have "j mod 8 = i mod 8 \<longleftrightarrow> j = i" by (metis div_mult_mod_eq)
    then show ?thesis using True m assms
      by (auto simp: MESHX_IS_BIT_FIELD_SET_def MESHX_BIT_FIELD_CLEAR_def t bit_and_iff bit_not_iff
          bit_push_bit_iff bit_1_iff simp del: push_bit_of_1)
  next
    case False
    then show ?thesis by (auto simp: MESHX_IS_BIT_FIELD_SET_def MESHX_BIT_FIELD_CLEAR_def)
  qed
qed

lemma bit_field_lengths [simp]:
  "length (MESHX_BIT_FIELD_SET f i) = length f" "length (MESHX_BIT_FIELD_CLEAR f i) = length f"
  "length (set_seg_bits is f) = length f"
proof -
  show s: "length (MESHX_BIT_FIELD_SET f i) = length f" for f i by (simp add: MESHX_BIT_FIELD_SET_def)
  show "length (MESHX_BIT_FIELD_CLEAR f i) = length f" by (simp add: MESHX_BIT_FIELD_CLEAR_def)
  show "length (set_seg_bits is f) = length f" by (induction "is" arbitrary: f) (simp_all add: s)
qed

lemma set_seg_bits_is_set:
  "\<forall>i \<in> set is. i div 8 < length f \<Longrightarrow>
   MESHX_IS_BIT_FIELD_SET (set_seg_bits is f) j \<longleftrightarrow> j \<in> set is \<or> MESHX_IS_BIT_FIELD_SET f j"
  by (induction "is" arbitrary: f) (auto simp: bit_field_set_get)

lemma zeros_not_set: "i < 64 \<Longrightarrow> \<not> MESHX_IS_BIT_FIELD_SET (zeros 8) i"
  by (simp add: MESHX_IS_BIT_FIELD_SET_def)

text \<open>All segments are there when no bit is left.\<close>

lemma recv_all_iff:
  assumes "length (pa_recv_seg d) = 8"
  shows "meshx_pb_adv_is_recv_all_trans_seg d \<longleftrightarrow> (\<forall>i < 64. \<not> MESHX_IS_BIT_FIELD_SET (pa_recv_seg d) i)"
proof -
  have "(pa_recv_seg d ! k = 0) \<longleftrightarrow> (\<forall>i. i div 8 = k \<longrightarrow> \<not> MESHX_IS_BIT_FIELD_SET (pa_recv_seg d) i)" (is "?l \<longleftrightarrow> ?r") for k
  proof
    assume r: ?r
    have "\<not> bit (pa_recv_seg d ! k) n" if n: "n < 8" for n
    proof -
      have "(8 * k + n) div 8 = k" "(8 * k + n) mod 8 = n" using n by simp_all
      then show ?thesis using r [rule_format, of "8 * k + n"] n
        by (simp add: MESHX_IS_BIT_FIELD_SET_def push_bit_eq_mult and_exp_eq_0_iff_not_bit)
    qed
    then show ?l by (intro bit_word_eqI) simp
  qed (simp add: MESHX_IS_BIT_FIELD_SET_def)
  moreover have "i div 8 < 8 \<longleftrightarrow> i < 64" for i :: nat by auto
  ultimately show ?thesis unfolding meshx_pb_adv_is_recv_all_trans_seg_def list_all_iff by (metis atLeastLessThan_iff atLeastLessThan_upt zero_le)
qed

section \<open>A concrete world\<close>

text \<open>A world with one device, at address 0.\<close>

definition demo_prov_world :: "pb_adv_dev \<Rightarrow> prov_world" where
  "demo_prov_world d =
    \<lparr>pw_gap = demo_gap, pw_env = ok_env, pw_node = \<lparr>config = node_default_config, param = node_default_param\<rparr>,
     pw_beacon = \<lparr>beacon_timer = None, beacon_timer_arg = None, meshx_oob_info = 0, meshx_uri_hash_exists = False,
       meshx_uri_hash = 0\<rparr>,
     pw_mem = (\<lambda>q. if q = 0 then Some d else None), pb_adv_devs = [0], pw_next = 1, pw_notes = []\<rparr>"

definition demo_timer :: meshx_timer where
  "demo_timer = \<lparr>tm_mode = MESHX_TIMER_MODE_REPEATED, tm_is_active = False, tm_it_interval = 0, tm_it_value = 0\<rparr>"

definition demo_dev :: pb_adv_dev where
  "demo_dev = dev_zero\<lparr>dv_state := MESHX_PROV_STATE_LINK_OPENED, dv_bearer := Some BEARER_ADV,
    pa_link_id := 5, pa_acked_trans_num := 0xff, pa_timer := Some demo_timer\<rparr>"

definition demo_ext :: prov_ext where
  "demo_ext = \<lparr>ext_aes = demo_aes, ext_ecc_valid = (\<lambda>_. True), ext_ecc_shared = (\<lambda>_ _. zeros 32),
    ext_notify = notify_default\<rparr>"

end
