(* ===== verification/Mesh_Pb_Adv_Trans.thy ===== *)
theory Mesh_Pb_Adv_Trans
  imports Mesh_Pb_Adv_Facts
begin

text \<open>
  Transactions of the PB-ADV link layer: a unit is cut into segments and put together again,
  whatever the order and the repetitions of its CONTINUE segments; the reassembly stays in its
  buffer, except for a CONTINUE segment with index 0.
\<close>

section \<open>Segments\<close>

text \<open>Segment i of a unit: where it starts and what it carries; its packet; how many there
  are.\<close>

definition seg_off :: "nat \<Rightarrow> nat" where
  "seg_off i = (if i = 0 then 0 else 20 + 23 * (i - 1))"

definition seg_chunk :: "bytes \<Rightarrow> nat \<Rightarrow> bytes" where
  "seg_chunk data i = take (if i = 0 then 20 else 23) (drop (seg_off i) data)"

definition seg_count :: "bytes \<Rightarrow> nat" where
  "seg_count data = (if length data \<le> 20 then 1 else if length data \<le> 43 then 2 else 3)"

definition seg_pkt :: "u32 \<Rightarrow> u8 \<Rightarrow> bytes \<Rightarrow> nat \<Rightarrow> bytes" where
  "seg_pkt link_id trans_num data i =
    be32 link_id @
    (if i = 0
     then [trans_num, gpcf_byte MESHX_GPCF_TRANS_START (word_of_nat (seg_count data - 1))] @
          be16 (word_of_nat (length data)) @ [meshx_3gpp_crc data]
     else [trans_num, gpcf_byte MESHX_GPCF_TRANS_CONTINUE (word_of_nat i)]) @ seg_chunk data i"

lemma seg_num_cases:
  "n \<le> 20 \<Longrightarrow> meshx_calc_seg_num (word_of_nat n) = 1"
  "20 < n \<Longrightarrow> n \<le> 43 \<Longrightarrow> meshx_calc_seg_num (word_of_nat n) = 2"
  "43 < n \<Longrightarrow> n \<le> 66 \<Longrightarrow> meshx_calc_seg_num (word_of_nat n) = 3"
proof -
  have u: "n \<le> 66 \<Longrightarrow> unat (word_of_nat n :: u16) = n"
    by (simp add: unsigned_of_nat take_bit_nat_eq_self)
  show "n \<le> 20 \<Longrightarrow> meshx_calc_seg_num (word_of_nat n) = 1"
    using u by (simp add: meshx_calc_seg_num_def pb_adv_lengths)
  show "20 < n \<Longrightarrow> n \<le> 43 \<Longrightarrow> meshx_calc_seg_num (word_of_nat n) = 2"
  proof -
    assume "20 < n" "n \<le> 43"
    then have "(n - 20 + 22) div 23 = 1" by (simp add: div_nat_eqI)
    then show ?thesis using u \<open>20 < n\<close> \<open>n \<le> 43\<close> by (simp add: meshx_calc_seg_num_def pb_adv_lengths)
  qed
  show "43 < n \<Longrightarrow> n \<le> 66 \<Longrightarrow> meshx_calc_seg_num (word_of_nat n) = 3"
  proof -
    assume "43 < n" "n \<le> 66"
    then have "(n - 20 + 22) div 23 = 2" by (simp add: div_nat_eqI)
    then show ?thesis using u \<open>43 < n\<close> \<open>n \<le> 66\<close> by (simp add: meshx_calc_seg_num_def pb_adv_lengths)
  qed
qed

lemma seg_num_count:
  "length data \<le> 65 \<Longrightarrow> meshx_calc_seg_num (word_of_nat (length data)) = word_of_nat (seg_count data)"
  by (simp add: seg_count_def seg_num_cases)

lemma seg_count_range: "1 \<le> seg_count data" "seg_count data \<le> 3"
  by (simp_all add: seg_count_def)

lemma unat_small16: "n \<le> 66 \<Longrightarrow> unat (word_of_nat n :: u16) = n"
  by (simp add: unsigned_of_nat take_bit_nat_eq_self)

lemma uint_small16: "n \<le> 66 \<Longrightarrow> uint (word_of_nat n :: u16) = int n"
  by (simp add: uint_nat unat_small16)

lemma small8: "n \<le> 255 \<Longrightarrow> unat (word_of_nat n :: u8) = n" "n \<le> 255 \<Longrightarrow> uint (word_of_nat n :: u8) = int n"
proof -
  show "n \<le> 255 \<Longrightarrow> unat (word_of_nat n :: u8) = n" by (simp add: unsigned_of_nat take_bit_nat_eq_self)
  then show "n \<le> 255 \<Longrightarrow> uint (word_of_nat n :: u8) = int n" by (simp only: uint_nat)
qed

lemma ucast_small: "n \<le> 66 \<Longrightarrow> unat (ucast (word_of_nat n :: u16) :: u8) = n"
  by (simp add: unsigned_ucast_eq unat_small16 take_bit_nat_eq_self)

lemma ucast_small_diff:
  "20 \<le> n \<Longrightarrow> n \<le> 66 \<Longrightarrow> unat ((ucast (word_of_nat n :: u16) :: u8) - 20) = n - 20"
  "43 \<le> n \<Longrightarrow> n \<le> 66 \<Longrightarrow> unat ((ucast (word_of_nat n :: u16) :: u8) - 43) = n - 43"
  by (subst unat_sub; simp add: word_le_nat_alt ucast_small)+

lemma send_trans_loop_23:
  "send_trans_loop 2 = send_trans_loop (Suc (Suc 0))"
  "send_trans_loop 3 = send_trans_loop (Suc (Suc (Suc 0)))"
  by (simp_all add: numeral_2_eq_2 numeral_3_eq_3)

lemma upt_23: "[0..<2] = [0, Suc 0]" "[0..<3] = [0, Suc 0, 2]"
  by (simp_all add: upt_conv_Cons numeral_2_eq_2 numeral_3_eq_3)

text \<open>Sending and receiving a list of packets.\<close>

fun send_all :: "meshx_bearer_t \<Rightarrow> bytes list \<Rightarrow> gap_state \<Rightarrow> (errno \<times> gap_state) option" where
  "send_all b [] g = Some (MESHX_SUCCESS, g)"
| "send_all b (pkt # pkts) g = do {
    (r, g) \<leftarrow> pb_adv_send b pkt g;
    if r \<noteq> MESHX_SUCCESS then Some (r, g) else send_all b pkts g
  }"

fun receive_all :: "prov_ext \<Rightarrow> meshx_bearer_t \<Rightarrow> bytes list \<Rightarrow> prov_world \<Rightarrow> (errno list \<times> prov_world) option" where
  "receive_all ext b [] w = Some ([], w)"
| "receive_all ext b (pkt # pkts) w = do {
    (r, w) \<leftarrow> meshx_pb_adv_receive ext b pkt w;
    (rs, w) \<leftarrow> receive_all ext b pkts w;
    Some (r # rs, w)
  }"

lemmas seg_defs = seg_pkt_def seg_chunk_def seg_off_def seg_count_def

lemma send_trans_packets:
  assumes "length data \<le> 65"
  shows "pb_adv_send_trans b link_id trans_num data g =
    send_all b (map (seg_pkt link_id trans_num data) [0..<seg_count data]) g"
proof -
  consider "length data \<le> 20" | "20 < length data" "length data \<le> 43" | "43 < length data" by linarith
  then show ?thesis
  proof cases
    case 1
    then show ?thesis
      by (simp add: pb_adv_send_trans_def seg_num_cases Let_def pb_adv_lengths seg_defs
          trans_segment_def ucast_small mem_read_def cong: if_cong)
  next
    case 2
    then have "\<not> 23 < length data - 20" by linarith
    then show ?thesis using 2
      by (simp add: pb_adv_send_trans_def seg_num_cases Let_def pb_adv_lengths seg_defs send_trans_loop_23
          upt_23 trans_segment_def ucast_small_diff mem_read_def cong: if_cong)
  next
    case 3
    then have "\<not> 23 < length data - 43" "min (length data - 20) 23 = 23" using assms by linarith+
    then show ?thesis using assms 3
      by (simp add: pb_adv_send_trans_def seg_num_cases Let_def pb_adv_lengths seg_defs send_trans_loop_23
          upt_23 trans_segment_def ucast_small_diff mem_read_def cong: if_cong)
  qed
qed

text \<open>The chunks tile the unit.\<close>

lemma seg_chunk_fits:
  assumes "i < seg_count data" "length data \<le> 65"
  shows "seg_off i + length (seg_chunk data i) \<le> length data"
    "i + 1 < seg_count data \<Longrightarrow> length (seg_chunk data i) = (if i = 0 then 20 else 23)"
    "i + 1 = seg_count data \<Longrightarrow> seg_off i + length (seg_chunk data i) = length data"
  using assms by (auto simp: seg_defs split: if_splits)

lemma seg_chunks_cover:
  assumes "\<forall>i < seg_count data. mem_read buf (seg_off i) (length (seg_chunk data i)) = Some (seg_chunk data i)"
    "length data \<le> 65" "length buf = 65"
  shows "mem_read buf 0 (length data) = Some data"
proof (rule mem_read_eqI)
  fix k assume k: "k < length data"
  define i where "i = (if k < 20 then 0 else 1 + (k - 20) div 23)"
  have i: "i < seg_count data" using k assms(2) by (auto simp: i_def seg_count_def)
  have o: "seg_off i \<le> k" "k - seg_off i < length (seg_chunk data i)"
    using k assms(2) by (auto simp: i_def seg_defs)
  have "buf ! k = seg_chunk data i ! (k - seg_off i)"
    using mem_read_nth [OF assms(1) [rule_format, OF i] o(2)] o(1) by simp
  also have "\<dots> = data ! k" using o k by (simp add: seg_chunk_def nth_drop)
  finally show "buf ! (0 + k) = data ! k" by simp
qed (use assms in simp)

lemma seg_chunks_disjoint:
  assumes "i \<noteq> j" "i < seg_count data" "j < seg_count data" "length data \<le> 65"
  shows "seg_off i + length (seg_chunk data i) \<le> seg_off j \<or> seg_off j + length (seg_chunk data j) \<le> seg_off i"
  using assms by (auto simp: seg_defs split: if_splits)

section \<open>Reassembly\<close>

lemma gpcf_byte_fields:
  assumes "c < 4" "x < 64"
  shows "gpcf_byte c x AND 3 = c" "drop_bit 2 (gpcf_byte c x) = x"
proof -
  have c: "bit c n \<Longrightarrow> n < 2" for n
    using assms(1) bit_below [of c 2 n] by (simp add: word_less_nat_alt)
  have x: "bit x n \<Longrightarrow> n < 6" for n
    using assms(2) bit_below [of x 6 n] by (simp add: word_less_nat_alt)
  have three: "(3 :: u8) = mask 2" by (simp add: mask_eq_exp_minus_1)
  show "gpcf_byte c x AND 3 = c" unfolding gpcf_byte_def three using c
    by (intro bit_word_eqI) (auto simp: bit_simps)
  show "drop_bit 2 (gpcf_byte c x) = x" unfolding gpcf_byte_def three using c x
    by (intro bit_word_eqI) (auto simp: bit_simps)
qed

lemma be32_cons: "\<exists>a b c d. be32 l = [a, b, c, d]"
  by (simp add: be32_def mem32_def)

text \<open>The fields of a packet.\<close>

lemma seg_pkt_fields:
  assumes "length data \<le> 65" "i < seg_count data"
  shows "link_id_of (seg_pkt l tn data i) = Some l" "seg_pkt l tn data i ! 4 = tn"
    "mem_read (seg_pkt l tn data i) 5 1 = Some [seg_pkt l tn data i ! 5]"
    "seg_pkt l tn data i ! 5 AND 3 = (if i = 0 then MESHX_GPCF_TRANS_START else MESHX_GPCF_TRANS_CONTINUE)"
    "drop_bit 2 (seg_pkt l tn data i ! 5) = word_of_nat (if i = 0 then seg_count data - 1 else i)"
    "length (seg_pkt l tn data i) = (if i = 0 then 9 else 6) + length (seg_chunk data i)"
    "drop (if i = 0 then 9 else 6) (seg_pkt l tn data i) = seg_chunk data i"
    "i = 0 \<Longrightarrow> mem_read (seg_pkt l tn data i) 6 2 = Some (be16 (word_of_nat (length data)))"
    "i = 0 \<Longrightarrow> seg_pkt l tn data i ! 8 = meshx_3gpp_crc data"
proof -
  obtain a b c d where l: "be32 l = [a, b, c, d]" using be32_cons by blast
  have l': "of_be32 [a, b, c, d] = l" using be32_roundtrip [of l] l by simp
  obtain e f where ln: "be16 (word_of_nat (length data)) = [e, f]" by (simp add: be16_bytes)
  have g: "gpcf_byte MESHX_GPCF_TRANS_START x AND 3 = MESHX_GPCF_TRANS_START"
    "gpcf_byte MESHX_GPCF_TRANS_CONTINUE x AND 3 = MESHX_GPCF_TRANS_CONTINUE"
    "drop_bit 2 (gpcf_byte MESHX_GPCF_TRANS_START x) = x"
    "drop_bit 2 (gpcf_byte MESHX_GPCF_TRANS_CONTINUE x) = x" if "x < 64" for x
    using gpcf_byte_fields that by (simp_all add: gpcf_codes)
  have s: "(word_of_nat k :: u8) < 64" if "k \<le> 3" for k
    using that by (simp add: word_less_nat_alt unsigned_of_nat take_bit_nat_eq_self)
  have k: "seg_count data - 1 \<le> 3" "i \<le> 3" using assms(2) seg_count_range [of data] by auto
  show "link_id_of (seg_pkt l tn data i) = Some l"
    by (simp add: link_id_of_def mem_read_def seg_pkt_def l l')
  show "seg_pkt l tn data i ! 4 = tn" by (simp add: seg_pkt_def l)
  show "mem_read (seg_pkt l tn data i) 5 1 = Some [seg_pkt l tn data i ! 5]"
    by (simp add: mem_read_def seg_pkt_def l)
  show "seg_pkt l tn data i ! 5 AND 3 = (if i = 0 then MESHX_GPCF_TRANS_START else MESHX_GPCF_TRANS_CONTINUE)"
    using g(1,2) s k by (simp add: seg_pkt_def l)
  show "drop_bit 2 (seg_pkt l tn data i ! 5) = word_of_nat (if i = 0 then seg_count data - 1 else i)"
    using g(3,4) s k by (simp add: seg_pkt_def l)
  show "length (seg_pkt l tn data i) = (if i = 0 then 9 else 6) + length (seg_chunk data i)"
    "drop (if i = 0 then 9 else 6) (seg_pkt l tn data i) = seg_chunk data i"
    by (simp_all add: seg_pkt_def l ln)
  show "i = 0 \<Longrightarrow> mem_read (seg_pkt l tn data i) 6 2 = Some (be16 (word_of_nat (length data)))"
    "i = 0 \<Longrightarrow> seg_pkt l tn data i ! 8 = meshx_3gpp_crc data"
    by (simp_all add: seg_pkt_def l ln mem_read_def)
qed

text \<open>The device while it holds the segments R of a unit.\<close>

definition seg_state :: "u8 \<Rightarrow> bytes \<Rightarrow> nat set \<Rightarrow> pb_adv_dev \<Rightarrow> bool" where
  "seg_state tn data R d \<longleftrightarrow>
    pa_trans_data_len d = word_of_nat (length data) \<and> pa_rx_trans_num d = tn \<and>
    pa_last_seg_num d = word_of_nat (seg_count data - 1) \<and> pa_fcs d = meshx_3gpp_crc data \<and>
    length (pa_recv_seg d) = 8 \<and> length (pa_rx_pdu d) = 65 \<and>
    (\<forall>i < 64. MESHX_IS_BIT_FIELD_SET (pa_recv_seg d) i \<longleftrightarrow> i < seg_count data \<and> i \<notin> R) \<and>
    (\<forall>i \<in> R. mem_read (pa_rx_pdu d) (seg_off i) (length (seg_chunk data i)) = Some (seg_chunk data i))"

text \<open>What a device must be like for its link to take a unit, and while it takes it: the
  last segment arms the acknowledgement, and nothing before it touches the timer.\<close>

definition link_ready :: "nat \<Rightarrow> u32 \<Rightarrow> u8 \<Rightarrow> meshx_bearer_t \<Rightarrow> pb_adv_dev \<Rightarrow> prov_world \<Rightarrow> bool" where
  "link_ready p l tn b d w \<longleftrightarrow>
    pw_mem w p = Some d \<and> bearer_kind w b = Some MESHX_BEARER_TYPE_ADV \<and>
    meshx_find_prov_dev_by_link_id l w = Some p \<and>
    MESHX_PROV_STATE_LINK_OPENED \<le> dv_state d \<and> dv_state d \<noteq> MESHX_PROV_STATE_FAILED \<and>
    pa_acked_trans_num d \<noteq> tn"

definition ack_armed :: "pb_adv_dev \<Rightarrow> bool" where
  "ack_armed d = delay_running PB_ADV_TIMER_DELAY_TYPE_TRANS_ACK d"

definition reassembling ::
  "nat \<Rightarrow> u32 \<Rightarrow> u8 \<Rightarrow> meshx_bearer_t \<Rightarrow> bytes \<Rightarrow> pb_adv_dev \<Rightarrow> nat set \<Rightarrow> prov_world \<Rightarrow> bool" where
  "reassembling p l tn b data d0 R w \<longleftrightarrow>
    (\<exists>d. link_ready p l tn b d w \<and> seg_state tn data R d \<and> R \<subseteq> {..<seg_count data} \<and>
      (if R = {..<seg_count data} then pa_timer d0 \<noteq> None \<longrightarrow> ack_armed d
       else pa_timer d = pa_timer d0 \<and> pa_timer_state d = pa_timer_state d0 \<and> pa_delay_type d = pa_delay_type d0))"

lemma seg_state_insert:
  assumes "seg_state tn data R d" "R \<subseteq> {..<seg_count data}" "i < seg_count data" "i \<notin> R" "length data \<le> 65"
    "mem_write (pa_rx_pdu d) (seg_off i) (seg_chunk data i) = Some pdu"
  shows "seg_state tn data (insert i R) (d\<lparr>pa_recv_seg := MESHX_BIT_FIELD_CLEAR (pa_recv_seg d) i, pa_rx_pdu := pdu\<rparr>)"
proof -
  have i: "i div 8 < length (pa_recv_seg d)" using assms(1,3) seg_count_range(2) [of data] by (simp add: seg_state_def)
  have "mem_read pdu (seg_off j) (length (seg_chunk data j)) = Some (seg_chunk data j)" if "j \<in> R" for j
    using mem_read_write_disjoint [OF assms(6), of "seg_off j" "length (seg_chunk data j)"]
      seg_chunks_disjoint [of j i data] assms that by (auto simp: seg_state_def subset_iff)
  then show ?thesis using assms(1) mem_read_write_same [OF assms(6)] mem_write_length [OF assms(6)]
    by (auto simp: seg_state_def bit_field_clear [OF i])
qed

lemma seg_state_all:
  assumes "seg_state tn data R d" "R \<subseteq> {..<seg_count data}"
  shows "meshx_pb_adv_is_recv_all_trans_seg d \<longleftrightarrow> R = {..<seg_count data}"
  using assms seg_count_range(2) [of data] by (auto simp: seg_state_def recv_all_iff subset_iff)

lemma seg_state_data:
  assumes "seg_state tn data {..<seg_count data} d" "length data \<le> 65"
  shows "mem_read (pa_rx_pdu d) 0 (unat (pa_trans_data_len d)) = Some data"
  using assms seg_chunks_cover [of data "pa_rx_pdu d"] by (simp add: seg_state_def unat_small16)

lemma recv_seg_done_step:
  assumes "pw_mem w p = Some d" "seg_state tn data R d" "R \<subseteq> {..<seg_count data}" "length data \<le> 65"
    "dv_state d \<noteq> MESHX_PROV_STATE_FAILED"
  shows "recv_seg_done p w = Some (MESHX_SUCCESS,
    if R = {..<seg_count data} then arm_delay p PB_ADV_TIMER_DELAY_TYPE_TRANS_ACK w else w)"
  using assms seg_state_data [of tn data d]
  by (auto simp: recv_seg_done_def seg_state_all [OF assms(2,3)] meshx_pb_adv_recv_prov_pdu_def
      meshx_pb_adv_trans_ack_def seg_state_def)

lemma bearer_kind_dev_upd [simp]: "bearer_kind (dev_upd p f w) b = bearer_kind w b"
  by (simp add: bearer_kind_def)

lemma bearer_kind_arm_delay [simp]: "bearer_kind (arm_delay p t w) b = bearer_kind w b"
  by (simp add: bearer_kind_def)

text \<open>Storing a new segment keeps the invariant.\<close>

lemma reassembling_step:
  assumes "link_ready p l tn b d w" "seg_state tn data R d1" "R \<subseteq> {..<seg_count data}" "i < seg_count data" "i \<notin> R"
    "length data \<le> 65" "R = {..<seg_count data} \<or> (pa_timer d1 = pa_timer d0 \<and> pa_timer_state d1 = pa_timer_state d0 \<and> pa_delay_type d1 = pa_delay_type d0)"
    "dv_state d1 = dv_state d" "pa_link_id d1 = pa_link_id d" "pa_acked_trans_num d1 = pa_acked_trans_num d"
    "mem_write (pa_rx_pdu d1) (seg_off i) (seg_chunk data i) = Some pdu"
  defines "d2 \<equiv> d1\<lparr>pa_recv_seg := MESHX_BIT_FIELD_CLEAR (pa_recv_seg d1) i, pa_rx_pdu := pdu\<rparr>"
  shows "\<exists>w'. recv_seg_done p (dev_upd p (\<lambda>_. d2) w) = Some (MESHX_SUCCESS, w') \<and>
    reassembling p l tn b data d0 (insert i R) w'"
proof -
  let ?w = "dev_upd p (\<lambda>_. d2) w"
  have m: "pw_mem ?w p = Some d2" using assms(1) by (simp add: link_ready_def)
  have s: "seg_state tn data (insert i R) d2" unfolding d2_def by (rule seg_state_insert [OF assms(2-6,11)])
  have sub: "insert i R \<subseteq> {..<seg_count data}" using assms(3,4) by auto
  have f: "dv_state d2 \<noteq> MESHX_PROV_STATE_FAILED" using assms(1,8) by (simp add: d2_def link_ready_def)
  have "meshx_find_prov_dev_by_link_id l ?w = meshx_find_prov_dev_by_link_id l w"
    using assms(1,9) by (intro find_link_dev_upd) (simp add: link_ready_def d2_def)
  then have lr: "link_ready p l tn b d2 ?w" using assms(1,8,10) by (simp add: link_ready_def d2_def)
  have t: "pa_timer d2 = pa_timer d0 \<and> pa_timer_state d2 = pa_timer_state d0 \<and> pa_delay_type d2 = pa_delay_type d0"
    using assms(4,5,7) by (auto simp: d2_def)
  note step = recv_seg_done_step [OF m s sub assms(6) f]
  show ?thesis
  proof (cases "insert i R = {..<seg_count data}")
    case True
    obtain v where v: "pw_mem (arm_delay p PB_ADV_TIMER_DELAY_TYPE_TRANS_ACK ?w) p =
      Some (d2\<lparr>pa_timer_state := PB_ADV_TIMER_STATE_DELAY, pa_delay_type := PB_ADV_TIMER_DELAY_TYPE_TRANS_ACK,
        pa_timer := snd (meshx_timer_start (pa_timer d2) v)\<rparr>)" (is "_ = Some ?d3") and v': "20 \<le> v" "v \<le> 49"
      using arm_delay_mem [OF m] by blast
    have ack: "ack_armed ?d3" if "pa_timer d0 \<noteq> None"
      unfolding ack_armed_def using that t by (intro delay_running_start [OF _ v']) simp_all
    have "link_ready p l tn b ?d3 (arm_delay p PB_ADV_TIMER_DELAY_TYPE_TRANS_ACK ?w)"
      using lr v by (simp add: link_ready_def)
    moreover have "seg_state tn data (insert i R) ?d3" using s by (simp add: seg_state_def)
    ultimately have "reassembling p l tn b data d0 (insert i R) (arm_delay p PB_ADV_TIMER_DELAY_TYPE_TRANS_ACK ?w)"
      unfolding reassembling_def using True ack by (intro exI [of _ ?d3]) simp
    then show ?thesis using step True by simp
  next
    case False
    then have "reassembling p l tn b data d0 (insert i R) ?w"
      unfolding reassembling_def using lr s sub t by (intro exI [of _ d2]) simp
    then show ?thesis using step False by simp
  qed
qed

text \<open>The length of a unit and its number of segments as words.\<close>

lemma unit_words:
  "unat (word_of_nat (seg_count data - 1) :: u8) = seg_count data - 1"
  "Suc (seg_count data - 1) = seg_count data"
  "uint (word_of_nat (seg_count data - 1) :: u8) = int (seg_count data) - 1"
  "1 \<le> length data \<Longrightarrow> length data \<le> 65 \<Longrightarrow> (word_of_nat (length data) :: u16) \<noteq> 0"
  "1 \<le> length data \<Longrightarrow> length data \<le> 65 \<Longrightarrow> \<not> (word_of_nat (length data) :: u16) > 65"
  "1 \<le> length data \<Longrightarrow> length data \<le> 65 \<Longrightarrow>
    uint (meshx_calc_seg_num (word_of_nat (length data))) - 1 = uint (word_of_nat (seg_count data - 1) :: u8)"
proof -
  have k: "seg_count data - 1 \<le> 255" "seg_count data \<le> 255" "1 \<le> seg_count data"
    using seg_count_range [of data] by simp_all
  show "unat (word_of_nat (seg_count data - 1) :: u8) = seg_count data - 1" "Suc (seg_count data - 1) = seg_count data"
    and u: "uint (word_of_nat (seg_count data - 1) :: u8) = int (seg_count data) - 1"
    using small8(1) [OF k(1)] small8(2) [OF k(1)] k(3) by (simp_all only: of_nat_diff of_nat_1)
  assume a: "1 \<le> length data" "length data \<le> 65"
  then have "unat (word_of_nat (length data) :: u16) \<noteq> 0" using unat_small16 [of "length data"] by linarith
  then show "(word_of_nat (length data) :: u16) \<noteq> 0" by (metis unat_0_iff)
  show "\<not> (word_of_nat (length data) :: u16) > 65"
    using a unat_small16 [of "length data"] by (simp add: word_less_nat_alt)
  show "uint (meshx_calc_seg_num (word_of_nat (length data))) - 1 = uint (word_of_nat (seg_count data - 1) :: u8)"
    unfolding seg_num_count [OF a(2)] u by (simp only: small8(2) [OF k(2)])
qed

text \<open>The accepting branch of the two handlers, for any packet.\<close>

lemma recv_trans_start_accept:
  assumes "9 \<le> length pdata" "link_id_of pdata = Some l" "meshx_find_prov_dev_by_link_id l w = Some p"
    "pw_mem w p = Some d" "mem_read pdata 6 2 = Some tb" "of_be16 tb = tlen" "pdata ! 4 = tn"
    "drop_bit 2 (pdata ! 5) = ls" "pdata ! 8 = fcs" "MESHX_PROV_STATE_LINK_OPENED \<le> dv_state d"
    "pa_acked_trans_num d \<noteq> tn" "tlen \<noteq> 0" "\<not> tlen > 65"
    "uint (meshx_calc_seg_num tlen) - 1 = uint ls" "pa_trans_data_len d = 0"
    "MESHX_IS_BIT_FIELD_SET (set_seg_bits [0..<Suc (unat ls)] (zeros 8)) 0"
    "length pdata - 9 = (if ls = 0 then unat tlen else 20)"
    "mem_write (pa_rx_pdu d) 0 (drop 9 pdata) = Some pdu"
  shows "meshx_pb_adv_recv_trans_start b pdata w = recv_seg_done p (dev_upd p
    (\<lambda>_. d\<lparr>pa_trans_data_len := tlen, pa_rx_trans_num := tn, pa_last_seg_num := ls, pa_fcs := fcs,
            pa_recv_seg := MESHX_BIT_FIELD_CLEAR (set_seg_bits [0..<Suc (unat ls)] (zeros 8)) 0,
            pa_rx_pdu := pdu\<rparr>) w)"
proof -
  have n: "\<not> length pdata < 9" "\<not> dv_state d < MESHX_PROV_STATE_LINK_OPENED" using assms(1,10) by auto
  show ?thesis
    by (simp add: meshx_pb_adv_recv_trans_start_def Let_def pb_adv_lengths n assms(2-9,11-18)
        del: upt_Suc set_seg_bits.simps cong: if_cong)
qed

lemma trans_start_step:
  assumes "link_ready p l tn b d w" "pa_trans_data_len d = 0" "length (pa_rx_pdu d) = 65"
    "1 \<le> length data" "length data \<le> 65"
  shows "\<exists>w'. meshx_pb_adv_receive ext b (seg_pkt l tn data 0) w = Some (MESHX_SUCCESS, w') \<and>
    reassembling p l tn b data d {0} w'"
proof -
  have c0: "0 < seg_count data" using seg_count_range(1) [of data] by simp
  note f = seg_pkt_fields [OF assms(5) c0, of l tn, simplified simp_thms if_True]
  define d1 where "d1 = d\<lparr>pa_recv_seg := set_seg_bits [0..<seg_count data] (zeros 8),
    pa_trans_data_len := word_of_nat (length data), pa_rx_trans_num := tn,
    pa_last_seg_num := word_of_nat (seg_count data - 1), pa_fcs := meshx_3gpp_crc data\<rparr>"
  have bits: "MESHX_IS_BIT_FIELD_SET (set_seg_bits [0..<seg_count data] (zeros 8)) i \<longleftrightarrow> i < seg_count data"
    if "i < 64" for i
    using that seg_count_range(2) [of data] by (subst set_seg_bits_is_set) (auto simp: zeros_not_set)
  have s: "seg_state tn data {} d1" using bits assms(3) by (simp add: seg_state_def d1_def)
  obtain pdu where pdu: "mem_write (pa_rx_pdu d1) (seg_off 0) (seg_chunk data 0) = Some pdu"
    using assms(3) mem_write_Some_iff [of "pa_rx_pdu d1" "seg_off 0" "seg_chunk data 0"]
    by (auto simp: d1_def seg_off_def seg_chunk_def)
  obtain w' where w': "recv_seg_done p (dev_upd p (\<lambda>_. d1\<lparr>pa_recv_seg := MESHX_BIT_FIELD_CLEAR (pa_recv_seg d1) 0, pa_rx_pdu := pdu\<rparr>) w)
      = Some (MESHX_SUCCESS, w')" "reassembling p l tn b data d {0} w'"
    using reassembling_step [OF assms(1) s _ c0 _ assms(5) _ _ _ _ pdu, of d] by (auto simp: d1_def)
  note k = seg_count_range(1) [of data]
  note u = unit_words(1-3) [of data]
  note ln = unit_words(4) [OF assms(4,5)] and lm = unit_words(5) [OF assms(4,5)]
  have z: "(word_of_nat (seg_count data - 1) :: u8) = 0 \<longleftrightarrow> seg_count data = 1"
    unfolding unat_0_iff [symmetric] u(1) using k by auto
  have cl: "length (seg_chunk data 0) = (if (word_of_nat (seg_count data - 1) :: u8) = 0 then unat (word_of_nat (length data) :: u16) else 20)"
    unfolding z using seg_chunk_fits(2,3) [OF c0 assms(5)] assms(5) unat_small16 [of "length data"] k
    by (simp add: seg_off_def)
  have b0: "MESHX_IS_BIT_FIELD_SET (set_seg_bits [0..<seg_count data] (zeros 8)) 0" using bits c0 by simp
  have "meshx_pb_adv_receive ext b (seg_pkt l tn data 0) w = meshx_pb_adv_recv_trans_start b (seg_pkt l tn data 0) w"
    using assms(1) f(3,4) by (simp add: meshx_pb_adv_receive_def link_ready_def gpcf_codes)
  also have "\<dots> = recv_seg_done p (dev_upd p (\<lambda>_. d1\<lparr>pa_recv_seg := MESHX_BIT_FIELD_CLEAR (pa_recv_seg d1) 0, pa_rx_pdu := pdu\<rparr>) w)"
  proof -
    have "meshx_pb_adv_recv_trans_start b (seg_pkt l tn data 0) w = recv_seg_done p (dev_upd p
      (\<lambda>_. d\<lparr>pa_trans_data_len := word_of_nat (length data), pa_rx_trans_num := tn,
              pa_last_seg_num := word_of_nat (seg_count data - 1), pa_fcs := meshx_3gpp_crc data,
              pa_recv_seg := MESHX_BIT_FIELD_CLEAR (set_seg_bits [0..<Suc (unat (word_of_nat (seg_count data - 1) :: u8))] (zeros 8)) 0,
              pa_rx_pdu := pdu\<rparr>) w)"
    proof (rule recv_trans_start_accept [OF _ f(1) _ _ f(8) be16_roundtrip f(2) f(5) f(9) _ _ ln lm])
      show "uint (meshx_calc_seg_num (word_of_nat (length data))) - 1 = uint (word_of_nat (seg_count data - 1) :: u8)"
        by (rule unit_words(6) [OF assms(4,5)])
      show "MESHX_IS_BIT_FIELD_SET (set_seg_bits [0..<Suc (unat (word_of_nat (seg_count data - 1) :: u8))] (zeros 8)) 0"
        unfolding u(1,2) by (rule b0)
      show "mem_write (pa_rx_pdu d) 0 (drop 9 (seg_pkt l tn data 0)) = Some pdu"
        using pdu f(7) by (simp add: d1_def seg_off_def)
      show "length (seg_pkt l tn data 0) - 9 =
        (if (word_of_nat (seg_count data - 1) :: u8) = 0 then unat (word_of_nat (length data) :: u16) else 20)"
        unfolding cl [symmetric] f(6) by simp
    qed (use assms(1,2) f(6) in \<open>auto simp: link_ready_def\<close>)
    then show ?thesis unfolding u(1,2) by (simp add: d1_def)
  qed
  finally show ?thesis using w' by (intro exI [of _ w']) simp
qed

text \<open>A repeated segment changes nothing.\<close>

lemma recv_trans_start_again:
  assumes "9 \<le> length pdata" "link_id_of pdata = Some l" "meshx_find_prov_dev_by_link_id l w = Some p"
    "pw_mem w p = Some d" "mem_read pdata 6 2 = Some tb" "of_be16 tb = tlen" "pdata ! 4 = tn"
    "drop_bit 2 (pdata ! 5) = ls" "pdata ! 8 = fcs" "MESHX_PROV_STATE_LINK_OPENED \<le> dv_state d"
    "pa_acked_trans_num d \<noteq> tn" "tlen \<noteq> 0" "\<not> tlen > 65"
    "uint (meshx_calc_seg_num tlen) - 1 = uint ls" "pa_trans_data_len d \<noteq> 0"
    "\<not> MESHX_IS_BIT_FIELD_SET (pa_recv_seg d) 0"
  shows "meshx_pb_adv_recv_trans_start b pdata w = Some (MESHX_ERR_ALREADY, w)"
proof -
  have n: "\<not> length pdata < 9" "\<not> dv_state d < MESHX_PROV_STATE_LINK_OPENED" using assms(1,10) by auto
  show ?thesis
    by (simp add: meshx_pb_adv_recv_trans_start_def Let_def pb_adv_lengths n assms(2-9,11-16) cong: if_cong)
qed

lemma recv_trans_continue_accept:
  assumes "6 \<le> length pdata" "link_id_of pdata = Some l" "meshx_find_prov_dev_by_link_id l w = Some p"
    "pw_mem w p = Some d" "pdata ! 4 = tn" "drop_bit 2 (pdata ! 5) = i"
    "MESHX_PROV_STATE_LINK_OPENED \<le> dv_state d" "pa_acked_trans_num d \<noteq> tn" "pa_rx_trans_num d = tn"
    "pa_trans_data_len d \<noteq> 0" "i \<le> pa_last_seg_num d" "MESHX_IS_BIT_FIELD_SET (pa_recv_seg d) (unat i)"
    "length pdata - 6 = (if i < pa_last_seg_num d then 23 else unat (continue_required_len d))"
    "mem_write (pa_rx_pdu d) (unat (continue_offset i)) (drop 6 pdata) = Some pdu"
  shows "meshx_pb_adv_recv_trans_continue b pdata w = recv_seg_done p (dev_upd p
    (\<lambda>_. d\<lparr>pa_recv_seg := MESHX_BIT_FIELD_CLEAR (pa_recv_seg d) (unat i), pa_rx_pdu := pdu\<rparr>) w)"
proof -
  have n: "\<not> length pdata < 6" "\<not> dv_state d < MESHX_PROV_STATE_LINK_OPENED" "\<not> pa_last_seg_num d < i"
    using assms(1,7,11) by auto
  show ?thesis
    by (simp add: meshx_pb_adv_recv_trans_continue_def Let_def pb_adv_lengths n assms(2-6,8-10,12-14) cong: if_cong)
qed

lemma recv_trans_continue_again:
  assumes "6 \<le> length pdata" "link_id_of pdata = Some l" "meshx_find_prov_dev_by_link_id l w = Some p"
    "pw_mem w p = Some d" "pdata ! 4 = tn" "drop_bit 2 (pdata ! 5) = i"
    "MESHX_PROV_STATE_LINK_OPENED \<le> dv_state d" "pa_acked_trans_num d \<noteq> tn" "pa_rx_trans_num d = tn"
    "pa_trans_data_len d \<noteq> 0" "i \<le> pa_last_seg_num d" "\<not> MESHX_IS_BIT_FIELD_SET (pa_recv_seg d) (unat i)"
  shows "meshx_pb_adv_recv_trans_continue b pdata w = Some (MESHX_ERR_ALREADY, w)"
proof -
  have n: "\<not> length pdata < 6" "\<not> dv_state d < MESHX_PROV_STATE_LINK_OPENED" "\<not> pa_last_seg_num d < i"
    using assms(1,7,11) by auto
  show ?thesis
    by (simp add: meshx_pb_adv_recv_trans_continue_def Let_def n assms(2-6,8-10,12) cong: if_cong)
qed

lemma trans_step:
  assumes "reassembling p l tn b data d0 R w" "0 \<in> R" "i < seg_count data" "1 \<le> length data" "length data \<le> 65"
  shows "\<exists>w'. meshx_pb_adv_receive ext b (seg_pkt l tn data i) w =
      Some (if i \<in> R then MESHX_ERR_ALREADY else MESHX_SUCCESS, w') \<and>
    reassembling p l tn b data d0 (insert i R) w'"
proof -
  obtain d where d: "link_ready p l tn b d w" "seg_state tn data R d" "R \<subseteq> {..<seg_count data}"
    "if R = {..<seg_count data} then pa_timer d0 \<noteq> None \<longrightarrow> ack_armed d
     else pa_timer d = pa_timer d0 \<and> pa_timer_state d = pa_timer_state d0 \<and> pa_delay_type d = pa_delay_type d0"
    using assms(1) unfolding reassembling_def by blast
  note f = seg_pkt_fields [OF assms(5,3), of l tn]
  have i64: "i < 64" "i \<le> 255" using assms(3) seg_count_range(2) [of data] by simp_all
  have bitset: "MESHX_IS_BIT_FIELD_SET (pa_recv_seg d) i \<longleftrightarrow> i \<notin> R"
    using d(2) i64(1) assms(3) by (simp add: seg_state_def)
  show ?thesis
  proof (cases "i = 0")
    case True
    have f5: "drop_bit 2 (seg_pkt l tn data i ! 5) = word_of_nat (seg_count data - 1)"
      by (simp only: f(5) if_P [OF True])
    have "meshx_pb_adv_receive ext b (seg_pkt l tn data i) w = meshx_pb_adv_recv_trans_start b (seg_pkt l tn data i) w"
      using d(1) f(3,4) True by (simp add: meshx_pb_adv_receive_def link_ready_def gpcf_codes)
    also have "\<dots> = Some (MESHX_ERR_ALREADY, w)"
      using True f5 f(6) d(1,2) bitset assms(2) unit_words(4) [OF assms(4,5)]
      by (intro recv_trans_start_again [OF _ f(1) _ _ f(8) [OF True] be16_roundtrip f(2) f5 f(9) [OF True] _ _
            unit_words(4,5,6) [OF assms(4,5)]])
        (auto simp: link_ready_def seg_state_def)
    finally show ?thesis using assms(1,2) True by (simp add: insert_absorb)
  next
    case False
    define i8 where "i8 = (word_of_nat i :: u8)"
    have u: "unat i8 = i" "uint i8 = int i" using small8 [OF i64(2)] by (simp_all add: i8_def)
    have r: "meshx_pb_adv_receive ext b (seg_pkt l tn data i) w = meshx_pb_adv_recv_trans_continue b (seg_pkt l tn data i) w"
      using d(1) f(3,4) False by (simp add: meshx_pb_adv_receive_def link_ready_def gpcf_codes)
    have ix: "drop_bit 2 (seg_pkt l tn data i ! 5) = i8" using f(5) False by (simp add: i8_def)
    have lst: "unat (pa_last_seg_num d) = seg_count data - 1" using d(2) unit_words(1) by (simp add: seg_state_def)
    have le: "i8 \<le> pa_last_seg_num d" using assms(3) u lst by (simp add: word_le_nat_alt)
    have nz: "pa_trans_data_len d \<noteq> 0" using d(2) unit_words(4) [OF assms(4,5)] by (simp add: seg_state_def)
    note args = f(1) _ _ f(2) ix _ _ _ nz le
    show ?thesis
    proof (cases "i \<in> R")
      case True
      have "meshx_pb_adv_recv_trans_continue b (seg_pkt l tn data i) w = Some (MESHX_ERR_ALREADY, w)"
        using d(1,2) True bitset f(6) False
        by (intro recv_trans_continue_again [OF _ f(1) _ _ f(2) ix _ _ _ nz le]) (auto simp: link_ready_def seg_state_def u)
      then show ?thesis using r assms(1) True by (simp add: insert_absorb)
    next
      case nR: False
      have off: "unat (continue_offset i8) = seg_off i"
      proof -
        have "continue_offset i8 = word_of_nat (seg_off i)"
          using False by (simp add: continue_offset_def pb_adv_lengths u seg_off_def of_nat_diff algebra_simps)
        moreover have "seg_off i \<le> 66" 
        proof -
          have "i \<le> 2" using assms(3) seg_count_range(2) [of data] by linarith
          then show ?thesis by (auto simp: seg_off_def)
        qed
        ultimately show ?thesis by (simp only: unat_small16)
      qed
      have req: "length (seg_chunk data i) = (if i8 < pa_last_seg_num d then 23 else unat (continue_required_len d))"
      proof (cases "i + 1 < seg_count data")
        case True
        then have "i8 < pa_last_seg_num d" using u lst by (simp add: word_less_nat_alt)
        then show ?thesis using seg_chunk_fits(2) [OF assms(3,5) True] False by simp
      next
        case nlast: False
        then have i: "i + 1 = seg_count data" using assms(3) by simp
        then have "\<not> i8 < pa_last_seg_num d" using u lst by (simp add: word_less_nat_alt)
        moreover have "continue_required_len d = word_of_nat (length data - seg_off i)"
        proof -
          have "uint (pa_trans_data_len d) = int (length data)" "uint (pa_last_seg_num d) = int i"
            using d(2) assms(5) unit_words(3) [of data] i by (simp_all add: seg_state_def uint_small16)
          moreover have "seg_off i \<le> length data" using seg_chunk_fits(1) [OF assms(3,5)] by simp
          ultimately show ?thesis using False
            by (simp add: continue_required_len_def pb_adv_lengths seg_off_def of_nat_diff algebra_simps)
        qed
        moreover have "length (seg_chunk data i) = length data - seg_off i" "length data - seg_off i \<le> 255"
          using seg_chunk_fits(3) [OF assms(3,5) i] assms(5) by simp_all
        ultimately show ?thesis using small8(1) by simp
      qed
      obtain pdu where pdu: "mem_write (pa_rx_pdu d) (seg_off i) (seg_chunk data i) = Some pdu"
        using mem_write_Some_iff [of "pa_rx_pdu d" "seg_off i" "seg_chunk data i"] seg_chunk_fits(1) [OF assms(3,5)]
          assms(5) d(2) by (auto simp: seg_state_def)
      let ?d2 = "d\<lparr>pa_recv_seg := MESHX_BIT_FIELD_CLEAR (pa_recv_seg d) i, pa_rx_pdu := pdu\<rparr>"
      have "meshx_pb_adv_recv_trans_continue b (seg_pkt l tn data i) w = recv_seg_done p (dev_upd p (\<lambda>_. ?d2) w)"
      proof -
        have fl: "length (seg_pkt l tn data i) - 6 = length (seg_chunk data i)" "drop 6 (seg_pkt l tn data i) = seg_chunk data i"
          "6 \<le> length (seg_pkt l tn data i)"
          using f(6,7) False by simp_all
        have "meshx_pb_adv_recv_trans_continue b (seg_pkt l tn data i) w = recv_seg_done p
          (dev_upd p (\<lambda>_. d\<lparr>pa_recv_seg := MESHX_BIT_FIELD_CLEAR (pa_recv_seg d) (unat i8), pa_rx_pdu := pdu\<rparr>) w)"
          by (rule recv_trans_continue_accept [OF fl(3) f(1) _ _ f(2) ix _ _ _ nz le _ _ pdu [folded off fl(2)]])
            (use d(1,2) nR bitset req in \<open>simp_all only: fl(1) u(1) link_ready_def seg_state_def simp_thms\<close>)
        then show ?thesis by (simp only: u(1))
      qed
      moreover have "\<exists>w'. recv_seg_done p (dev_upd p (\<lambda>_. ?d2) w) = Some (MESHX_SUCCESS, w') \<and>
          reassembling p l tn b data d0 (insert i R) w'"
      proof (rule reassembling_step [OF d(1,2,3) assms(3) nR assms(5) _ _ _ _ pdu])
        have "R \<noteq> {..<seg_count data}" using assms(3) nR by auto
        then show "R = {..<seg_count data} \<or> (pa_timer d = pa_timer d0 \<and> pa_timer_state d = pa_timer_state d0 \<and>
          pa_delay_type d = pa_delay_type d0)" using d(4) by simp
      qed simp_all
      ultimately show ?thesis using r nR by simp
    qed
  qed
qed

lemma receive_all_reassembles:
  assumes "reassembling p l tn b data d0 R w" "0 \<in> R" "set js \<subseteq> {..<seg_count data}" "1 \<le> length data" "length data \<le> 65"
  shows "\<exists>rs w'. receive_all ext b (map (seg_pkt l tn data) js) w = Some (rs, w') \<and>
    reassembling p l tn b data d0 (R \<union> set js) w'"
  using assms(1-3)
proof (induction js arbitrary: R w)
  case (Cons i js)
  have i: "i < seg_count data" using Cons.prems(3) by simp
  obtain r w1 where w1: "meshx_pb_adv_receive ext b (seg_pkt l tn data i) w = Some (r, w1)"
    "reassembling p l tn b data d0 (insert i R) w1"
    using trans_step [OF Cons.prems(1,2) i assms(4,5)] by blast
  have "0 \<in> insert i R" "set js \<subseteq> {..<seg_count data}" using Cons.prems by auto
  then show ?case using Cons.IH [OF w1(2)] w1(1) by auto
qed auto

lemma demo_link_ready:
  "pa_link_id d = 5 \<Longrightarrow> MESHX_PROV_STATE_LINK_OPENED \<le> dv_state d \<Longrightarrow> dv_state d \<noteq> MESHX_PROV_STATE_FAILED \<Longrightarrow>
   pa_acked_trans_num d \<noteq> tn \<Longrightarrow> link_ready 0 5 tn (Some BEARER_ADV) d (demo_prov_world d)"
  by (simp add: link_ready_def demo_prov_world_def bearer_kind_def bearer_type_def demo_gap_def
      MESHX_BEARER_TYPE_ADV_def meshx_find_prov_dev_by_link_id_def)

section \<open>Properties\<close>

text \<open>C3: Segmentation and reassembly: the packets a unit of up to 65 bytes is sent in, received
  on a ready link in any order and with any repetitions as long as the START segment comes
  first, leave the device with the unit and its length once every segment has come, and with
  its timer running for the acknowledgement, over a delay of 20 to 49 milliseconds; before the
  last segment the timer, its state and its purpose are as they were.\<close>

theorem trans_roundtrip:
  assumes "link_ready p l tn b d w" "pa_trans_data_len d = 0" "length (pa_rx_pdu d) = 65"
    "1 \<le> length data" "length data \<le> 65" "set js \<subseteq> {..<seg_count data}" "pa_timer d \<noteq> None"
  shows "pb_adv_send_trans b l tn data g = send_all b (map (seg_pkt l tn data) [0..<seg_count data]) g \<and>
    (\<exists>rs w' d'. receive_all ext b (map (seg_pkt l tn data) (0 # js)) w = Some (rs, w') \<and> pw_mem w' p = Some d' \<and>
      (if insert 0 (set js) = {..<seg_count data}
       then mem_read (pa_rx_pdu d') 0 (unat (pa_trans_data_len d')) = Some data \<and> pa_rx_trans_num d' = tn \<and> ack_armed d'
       else pa_timer d' = pa_timer d \<and> pa_timer_state d' = pa_timer_state d \<and> pa_delay_type d' = pa_delay_type d))"
proof
  show "pb_adv_send_trans b l tn data g = send_all b (map (seg_pkt l tn data) [0..<seg_count data]) g"
    by (rule send_trans_packets [OF assms(5)])
  obtain w1 where w1: "meshx_pb_adv_receive ext b (seg_pkt l tn data 0) w = Some (MESHX_SUCCESS, w1)"
    "reassembling p l tn b data d {0} w1" using trans_start_step [OF assms(1-5)] by blast
  obtain rs w2 where w2: "receive_all ext b (map (seg_pkt l tn data) js) w1 = Some (rs, w2)"
    "reassembling p l tn b data d ({0} \<union> set js) w2"
    using receive_all_reassembles [OF w1(2) _ assms(6,4,5)] by blast
  then obtain d' where d': "pw_mem w2 p = Some d'" "seg_state tn data (insert 0 (set js)) d'"
    "if insert 0 (set js) = {..<seg_count data} then ack_armed d'
     else pa_timer d' = pa_timer d \<and> pa_timer_state d' = pa_timer_state d \<and> pa_delay_type d' = pa_delay_type d"
    using assms(7) by (auto simp: reassembling_def link_ready_def)
  have "if insert 0 (set js) = {..<seg_count data}
       then mem_read (pa_rx_pdu d') 0 (unat (pa_trans_data_len d')) = Some data \<and> pa_rx_trans_num d' = tn \<and> ack_armed d'
       else pa_timer d' = pa_timer d \<and> pa_timer_state d' = pa_timer_state d \<and> pa_delay_type d' = pa_delay_type d"
  proof (cases "insert 0 (set js) = {..<seg_count data}")
    case True
    then have "seg_state tn data {..<seg_count data} d'" using d'(2) by simp
    from seg_state_data [OF this assms(5)] this show ?thesis using True d'(3) by (simp add: seg_state_def)
  qed (use d'(3) in simp)
  then show "\<exists>rs w' d'. receive_all ext b (map (seg_pkt l tn data) (0 # js)) w = Some (rs, w') \<and> pw_mem w' p = Some d' \<and>
      (if insert 0 (set js) = {..<seg_count data}
       then mem_read (pa_rx_pdu d') 0 (unat (pa_trans_data_len d')) = Some data \<and> pa_rx_trans_num d' = tn \<and> ack_armed d'
       else pa_timer d' = pa_timer d \<and> pa_timer_state d' = pa_timer_state d \<and> pa_delay_type d' = pa_delay_type d)"
    using w1(1) w2(1) d'(1) by auto
qed

theorem trans_roundtrip_witness:
  "\<exists>rs w' d'. receive_all demo_ext (Some BEARER_ADV) (map (seg_pkt 5 0 (replicate 45 7)) [0, 2, 1]) (demo_prov_world demo_dev) = Some (rs, w') \<and>
    pw_mem w' 0 = Some d' \<and> mem_read (pa_rx_pdu d') 0 (unat (pa_trans_data_len d')) = Some (replicate 45 7) \<and> ack_armed d'"
proof -
  have lr: "link_ready 0 5 0 (Some BEARER_ADV) demo_dev (demo_prov_world demo_dev)"
    by (rule demo_link_ready) (simp_all add: demo_dev_def prov_order)
  have c: "seg_count (replicate 45 (7 :: u8)) = 3" by (simp add: seg_count_def)
  have s: "insert 0 (set [2, 1]) = {..<seg_count (replicate 45 (7 :: u8))}" unfolding c by auto
  show ?thesis
    using conjunct2 [OF trans_roundtrip [OF lr, of "replicate 45 7" "[2, 1]" demo_gap demo_ext]] s
    by (auto simp: c demo_dev_def dev_zero_def)
qed

text \<open>The reassembly state is well formed when a transaction in progress announces at most 65
  bytes and the number of segments they need.\<close>

definition rx_ok :: "pb_adv_dev \<Rightarrow> bool" where
  "rx_ok d \<longleftrightarrow> length (pa_rx_pdu d) = 65 \<and> length (pa_recv_seg d) = 8 \<and> dv_bearer d \<noteq> None \<and>
    (pa_trans_data_len d \<noteq> 0 \<longrightarrow>
      unat (pa_trans_data_len d) \<le> 65 \<and>
      unat (pa_last_seg_num d) + 1 = unat (meshx_calc_seg_num (pa_trans_data_len d)))"

lemma pb_adv_send_some: "b \<noteq> None \<Longrightarrow> \<exists>r g'. pb_adv_send b pkt g = Some (r, g')"
  by (auto simp: pb_adv_send_def meshx_bearer_adv_send_def MESHX_IS_BEARER_ADV_PKT_TYPE_VALID_def Let_def
      split: prod.splits)

lemma on_gap_send_some: "b \<noteq> None \<Longrightarrow> \<exists>r g. on_gap (pb_adv_trans_ack b l n) w = Some (r, w\<lparr>pw_gap := g\<rparr>)"
  using pb_adv_send_some [of b "be32 l @ [n, gpcf_byte MESHX_GPCF_TRANS_ACK 0]" "pw_gap w"]
  by (auto simp: on_gap_def pb_adv_trans_ack_def)

text \<open>All devices of the list exist and are well formed.\<close>

definition devs_ok :: "prov_world \<Rightarrow> bool" where
  "devs_ok w \<longleftrightarrow> (\<forall>p \<in> set (pb_adv_devs w). \<exists>d. pw_mem w p = Some d \<and> rx_ok d)"

lemma devs_ok_upd: "devs_ok w \<Longrightarrow> rx_ok d \<Longrightarrow> devs_ok (dev_upd p (\<lambda>_. d) w)"
  by (auto simp: devs_ok_def dev_upd_def)

lemma devs_ok_gap: "devs_ok (w\<lparr>pw_gap := g\<rparr>) = devs_ok w"
  by (simp add: devs_ok_def)

lemma devs_ok_arm: "devs_ok w \<Longrightarrow> devs_ok (arm_delay p t w)"
  by (auto simp: devs_ok_def arm_delay_def on_env_def dev_timer_start_def dev_upd_def rx_ok_def split: prod.splits)

lemma recv_seg_done_some:
  assumes "pw_mem w p = Some d" "rx_ok d" "devs_ok w"
  shows "\<exists>r w'. recv_seg_done p w = Some (r, w') \<and> devs_ok w'"
proof -
  obtain data where "mem_read (pa_rx_pdu d) 0 (unat (pa_trans_data_len d)) = Some data"
    using assms(2) by (cases "pa_trans_data_len d = 0") (auto simp: rx_ok_def mem_read_def)
  moreover have "devs_ok (dev_upd p (\<lambda>d. d\<lparr>pa_trans_data_len := 0\<rparr>) w)"
    using assms(2,3) by (auto simp: devs_ok_def dev_upd_def rx_ok_def)
  ultimately show ?thesis using assms devs_ok_arm [OF assms(3)]
    by (auto simp: recv_seg_done_def meshx_pb_adv_recv_prov_pdu_def meshx_pb_adv_trans_ack_def)
qed

lemma continue_in_bounds:
  assumes "rx_ok d" "pa_trans_data_len d \<noteq> 0" "i \<noteq> 0" "i \<le> pa_last_seg_num d"
    "n = (if i < pa_last_seg_num d then 23 else unat (continue_required_len d))"
  shows "unat (continue_offset i) + n \<le> 65"
proof -
  define len where "len = unat (pa_trans_data_len d)"
  define ii where "ii = unat i"
  define lst where "lst = unat (pa_last_seg_num d)"
  have l: "len \<le> 65" "pa_trans_data_len d = word_of_nat len" "lst + 1 = unat (meshx_calc_seg_num (pa_trans_data_len d))"
    using assms(1,2) by (simp_all add: rx_ok_def len_def lst_def)
  have j: "1 \<le> ii" "ii \<le> lst" using assms(3,4) unat_gt_0 [of i] by (simp_all add: word_le_nat_alt lst_def ii_def)
  have cnt: "lst = 1 \<and> 20 < len \<and> len \<le> 43 \<or> lst = 2 \<and> 43 < len"
  proof -
    consider "len \<le> 20" | "20 < len" "len \<le> 43" | "43 < len" by linarith
    then show ?thesis
    proof cases
      case 1
      then have "lst + 1 = 1" using l(2,3) seg_num_cases(1) [of len] by simp
      then show ?thesis using j by simp
    next
      case 2
      then have "lst + 1 = 2" using l(2,3) seg_num_cases(2) [of len] by simp
      then show ?thesis using 2 by simp
    next
      case 3
      then have "lst + 1 = 3" using l seg_num_cases(3) [of len] by simp
      then show ?thesis using 3 by simp
    qed
  qed
  have ui: "uint i = int ii" "uint (pa_last_seg_num d) = int lst" "uint (pa_trans_data_len d) = int len"
    unfolding lst_def len_def ii_def by (rule uint_nat)+
  have off: "continue_offset i = word_of_nat (20 + 23 * (ii - 1))"
    using j by (simp add: continue_offset_def pb_adv_lengths ui of_nat_diff algebra_simps)
  have "20 + 23 * (ii - 1) \<le> 66" using j cnt by auto
  then have o: "unat (continue_offset i) = 20 + 23 * (ii - 1)" unfolding off by (rule unat_small16)
  show ?thesis
  proof (cases "i < pa_last_seg_num d")
    case True
    then have "ii < lst" by (simp add: word_less_nat_alt lst_def ii_def)
    then show ?thesis using True assms(5) o j cnt by auto
  next
    case False
    then have e: "ii = lst" using j by (simp add: word_less_nat_alt lst_def ii_def)
    have "continue_required_len d = word_of_nat (len - 20 - 23 * (lst - 1))"
      using cnt by (auto simp: continue_required_len_def pb_adv_lengths ui of_nat_diff)
    moreover have "len - 20 - 23 * (lst - 1) \<le> 255" using l(1) by simp
    ultimately have "unat (continue_required_len d) = len - 20 - 23 * (lst - 1)" using small8(1) by simp
    then show ?thesis using False assms(5) o e l(1) cnt by auto
  qed
qed

lemma find_link_mem: "find_link_loop w l c ps = Some p \<Longrightarrow> c = None \<or> the c \<in> S \<Longrightarrow> set ps \<subseteq> S \<Longrightarrow> p \<in> S"
proof (induction ps arbitrary: c)
  case (Cons q ps)
  show ?case
  proof (cases "pw_mem w q")
    case None
    then show ?thesis using Cons.prems Cons.IH [of "Some q"] by simp
  next
    case (Some d)
    then show ?thesis using Cons.prems Cons.IH [of "Some q"] by (auto split: if_splits)
  qed
qed auto

lemma find_link_dev:
  assumes "meshx_find_prov_dev_by_link_id l w = Some p" "devs_ok w"
  obtains d where "pw_mem w p = Some d" "rx_ok d"
  using find_link_mem [of w l None "pb_adv_devs w" p "set (pb_adv_devs w)"] assms
  by (auto simp: meshx_find_prov_dev_by_link_id_def devs_ok_def)

lemma calc_seg_num_small:
  assumes "x \<noteq> 0" "\<not> x > 65"
  shows "unat x \<le> 65" "unat (meshx_calc_seg_num x) \<le> 3" "1 \<le> unat (meshx_calc_seg_num x)"
proof -
  have x: "unat x \<le> 65" using assms by (simp add: word_less_nat_alt)
  then show "unat x \<le> 65" .
  have c: "unat x \<le> 20 \<Longrightarrow> meshx_calc_seg_num x = 1"
    "20 < unat x \<Longrightarrow> unat x \<le> 43 \<Longrightarrow> meshx_calc_seg_num x = 2"
    "43 < unat x \<Longrightarrow> unat x \<le> 66 \<Longrightarrow> meshx_calc_seg_num x = 3"
    using seg_num_cases [of "unat x"] by simp_all
  consider "unat x \<le> 20" | "20 < unat x" "unat x \<le> 43" | "43 < unat x" "unat x \<le> 66" using x by linarith
  then have "meshx_calc_seg_num x = 1 \<or> meshx_calc_seg_num x = 2 \<or> meshx_calc_seg_num x = 3"
    by cases (simp_all only: c simp_thms)
  then show "unat (meshx_calc_seg_num x) \<le> 3" "1 \<le> unat (meshx_calc_seg_num x)" by auto
qed

definition handled :: "(errno \<times> prov_world) option \<Rightarrow> bool" where
  "handled x \<longleftrightarrow> (\<exists>r w'. x = Some (r, w') \<and> devs_ok w')"

lemma handled_Some [simp]: "handled (Some (r, w)) \<longleftrightarrow> devs_ok w"
  by (simp add: handled_def)

lemma handled_if: "(c \<Longrightarrow> handled x) \<Longrightarrow> (\<not> c \<Longrightarrow> handled y) \<Longrightarrow> handled (if c then x else y)"
  by simp

lemma recv_trans_start_safe:
  assumes "devs_ok w"
  shows "\<exists>r w'. meshx_pb_adv_recv_trans_start b pdata w = Some (r, w') \<and> devs_ok w'"
proof (cases "length pdata < 9")
  case False
  obtain bs where bs: "mem_read pdata 0 4 = Some bs" using False by (simp add: mem_read_def)
  obtain tb where tb: "mem_read pdata 6 2 = Some tb" using False by (simp add: mem_read_def)
  define l where "l = of_be32 bs"
  define tlen where "tlen = of_be16 tb"
  define ls where "ls = drop_bit 2 (pdata ! 5)"
  show ?thesis
  proof (cases "meshx_find_prov_dev_by_link_id l w")
    case None
    then show ?thesis using False bs assms by (auto simp: meshx_pb_adv_recv_trans_start_def link_id_of_def l_def)
  next
    case (Some p)
    obtain d where d: "pw_mem w p = Some d" "rx_ok d" using find_link_dev [OF Some assms] .
    obtain r g where ack: "on_gap (pb_adv_trans_ack (dv_bearer d) (pa_link_id d) (pa_acked_trans_num d)) w = Some (r, w\<lparr>pw_gap := g\<rparr>)"
      using on_gap_send_some d(2) by (metis rx_ok_def)
    define d1 where "d1 = (if pa_trans_data_len d = 0
      then d\<lparr>pa_recv_seg := set_seg_bits [0..<Suc (unat ls)] (zeros 8)\<rparr> else d)"
    define d2 where "d2 = d1\<lparr>pa_trans_data_len := tlen, pa_rx_trans_num := pdata ! 4, pa_last_seg_num := ls, pa_fcs := pdata ! 8\<rparr>"
    have ok1: "rx_ok d1" using d(2) by (simp add: d1_def rx_ok_def)
    have ok2: "rx_ok d2" if "tlen \<noteq> 0" "\<not> tlen > 65" "int (unat (meshx_calc_seg_num tlen)) - 1 = uint ls"
    proof -
      have "int (unat ls) = uint ls" by (rule uint_nat [symmetric])
      then have "unat ls + 1 = unat (meshx_calc_seg_num tlen)" using that(3) by linarith
      then show ?thesis using ok1 calc_seg_num_small [OF that(1,2)] by (simp add: d2_def rx_ok_def)
    qed
    have store: "\<exists>r w'. recv_seg_done p (dev_upd p (\<lambda>_. d2\<lparr>pa_recv_seg := MESHX_BIT_FIELD_CLEAR (pa_recv_seg d2) 0, pa_rx_pdu := pdu\<rparr>) w)
        = Some (r, w') \<and> devs_ok w'" if "rx_ok d2" "mem_write (pa_rx_pdu d2) 0 x = Some pdu" for pdu x
    proof -
      have o: "rx_ok (d2\<lparr>pa_recv_seg := MESHX_BIT_FIELD_CLEAR (pa_recv_seg d2) 0, pa_rx_pdu := pdu\<rparr>)" (is "rx_ok ?d")
        using that mem_write_length [OF that(2)] by (simp add: rx_ok_def)
      show ?thesis by (rule recv_seg_done_some [OF _ o devs_ok_upd [OF assms o]]) (simp add: d(1))
    qed
    have eq: "meshx_pb_adv_recv_trans_start b pdata w =
      (if dv_state d < MESHX_PROV_STATE_LINK_OPENED then Some (MESHX_ERR_STATE, w)
       else if pa_acked_trans_num d = pdata ! 4 then Some (MESHX_SUCCESS, w\<lparr>pw_gap := g\<rparr>)
       else if tlen = 0 \<or> tlen > 65 then Some (MESHX_ERR_LENGTH, w)
       else if int (unat (meshx_calc_seg_num tlen)) - 1 \<noteq> uint ls then Some (MESHX_ERR_LENGTH, w)
       else if \<not> MESHX_IS_BIT_FIELD_SET (pa_recv_seg d1) 0 then Some (MESHX_ERR_ALREADY, dev_upd p (\<lambda>_. d1) w)
       else if length pdata - 9 \<noteq> (if ls = 0 then unat tlen else MESHX_PB_ADV_TRANS_START_PDU_MAX_LEN)
       then Some (MESHX_ERR_LENGTH, dev_upd p (\<lambda>_. d2) w)
       else do {
         pdu \<leftarrow> mem_write (pa_rx_pdu d2) 0 (drop 9 pdata);
         recv_seg_done p (dev_upd p (\<lambda>_. d2\<lparr>pa_recv_seg := MESHX_BIT_FIELD_CLEAR (pa_recv_seg d2) 0, pa_rx_pdu := pdu\<rparr>) w)
       })"
      unfolding meshx_pb_adv_recv_trans_start_def link_id_of_def Let_def if_not_P [OF False] bs
        Option.bind.bind_lunit l_def [symmetric] Some option.case d(1) tb tlen_def [symmetric] ls_def [symmetric] ack prod.case
        d1_def [symmetric] d2_def [symmetric]
      by (rule refl)
    have wr: "\<exists>pdu. mem_write (pa_rx_pdu d2) 0 (drop 9 pdata) = Some pdu"
      if "length pdata - 9 = (if ls = 0 then unat tlen else MESHX_PB_ADV_TRANS_START_PDU_MAX_LEN)" "\<not> tlen > 65" "tlen \<noteq> 0"
      using that(1) calc_seg_num_small(1) [OF that(3,2)] d(2)
      by (auto simp: mem_write_Some_iff d2_def d1_def rx_ok_def pb_adv_lengths split: if_splits)
    show ?thesis unfolding eq handled_def [symmetric]
    proof (intro handled_if)
      assume c: "\<not> (tlen = 0 \<or> 65 < tlen)" "\<not> int (unat (meshx_calc_seg_num tlen)) - 1 \<noteq> uint ls"
      then have o: "rx_ok d2" using ok2 by simp
      then show "handled (Some (MESHX_ERR_LENGTH, dev_upd p (\<lambda>_. d2) w))" using devs_ok_upd [OF assms] by simp
      assume "\<not> length pdata - 9 \<noteq> (if ls = 0 then unat tlen else MESHX_PB_ADV_TRANS_START_PDU_MAX_LEN)"
      then obtain pdu where "mem_write (pa_rx_pdu d2) 0 (drop 9 pdata) = Some pdu" using wr c(1) by auto
      then show "handled (do {
         pdu \<leftarrow> mem_write (pa_rx_pdu d2) 0 (drop 9 pdata);
         recv_seg_done p (dev_upd p (\<lambda>_. d2\<lparr>pa_recv_seg := MESHX_BIT_FIELD_CLEAR (pa_recv_seg d2) 0, pa_rx_pdu := pdu\<rparr>) w)
       })" using store [OF o] by (simp add: handled_def)
    qed (use assms devs_ok_upd [OF assms ok1] in \<open>simp_all add: devs_ok_gap\<close>)
  qed
qed (use assms in \<open>simp add: meshx_pb_adv_recv_trans_start_def\<close>)

lemma recv_trans_continue_safe:
  assumes "devs_ok w" "drop_bit 2 (pdata ! 5) \<noteq> 0"
  shows "\<exists>r w'. meshx_pb_adv_recv_trans_continue b pdata w = Some (r, w') \<and> devs_ok w'"
proof (cases "length pdata < 6")
  case False
  obtain bs where bs: "mem_read pdata 0 4 = Some bs" using False by (simp add: mem_read_def)
  define l where "l = of_be32 bs"
  define i where "i = drop_bit 2 (pdata ! 5)"
  show ?thesis
  proof (cases "meshx_find_prov_dev_by_link_id l w")
    case None
    then show ?thesis using False bs assms by (auto simp: meshx_pb_adv_recv_trans_continue_def link_id_of_def l_def)
  next
    case (Some p)
    obtain d where d: "pw_mem w p = Some d" "rx_ok d" using find_link_dev [OF Some assms(1)] .
    obtain r g where ack: "on_gap (pb_adv_trans_ack (dv_bearer d) (pa_link_id d) (pa_acked_trans_num d)) w = Some (r, w\<lparr>pw_gap := g\<rparr>)"
      using on_gap_send_some d(2) by (metis rx_ok_def)
    have store: "\<exists>pdu r w'. mem_write (pa_rx_pdu d) (unat (continue_offset i)) (drop 6 pdata) = Some pdu \<and>
        recv_seg_done p (dev_upd p (\<lambda>_. d\<lparr>pa_recv_seg := MESHX_BIT_FIELD_CLEAR (pa_recv_seg d) (unat i), pa_rx_pdu := pdu\<rparr>) w)
        = Some (r, w') \<and> devs_ok w'"
      if c: "pa_trans_data_len d \<noteq> 0" "\<not> pa_last_seg_num d < i"
        "length pdata - 6 = (if i < pa_last_seg_num d then MESHX_PB_ADV_TRANS_CONTINUE_PDU_MAX_LEN else unat (continue_required_len d))"
    proof -
      have "unat (continue_offset i) + (length pdata - 6) \<le> 65"
        using c assms(2) by (intro continue_in_bounds [OF d(2)]) (auto simp: i_def pb_adv_lengths)
      then obtain pdu where pdu: "mem_write (pa_rx_pdu d) (unat (continue_offset i)) (drop 6 pdata) = Some pdu"
        using d(2) mem_write_Some_iff [of "pa_rx_pdu d" "unat (continue_offset i)" "drop 6 pdata"] by (auto simp: rx_ok_def)
      have o: "rx_ok (d\<lparr>pa_recv_seg := MESHX_BIT_FIELD_CLEAR (pa_recv_seg d) (unat i), pa_rx_pdu := pdu\<rparr>)" (is "rx_ok ?d")
        using d(2) mem_write_length [OF pdu] by (simp add: rx_ok_def)
      have "\<exists>r w'. recv_seg_done p (dev_upd p (\<lambda>_. ?d) w) = Some (r, w') \<and> devs_ok w'"
        by (rule recv_seg_done_some [OF _ o devs_ok_upd [OF assms(1) o]]) (simp add: d(1))
      then show ?thesis using pdu by blast
    qed
    have eq: "meshx_pb_adv_recv_trans_continue b pdata w =
      (if dv_state d < MESHX_PROV_STATE_LINK_OPENED then Some (MESHX_ERR_STATE, w)
       else if pa_acked_trans_num d = pdata ! 4 then Some (MESHX_SUCCESS, w\<lparr>pw_gap := g\<rparr>)
       else if pa_rx_trans_num d \<noteq> pdata ! 4 then Some (MESHX_ERR_DIFF, w)
       else if pa_trans_data_len d = 0 then Some (MESHX_ERR_TIMING, w)
       else if pa_last_seg_num d < i then Some (MESHX_ERR_INVAL, w)
       else if \<not> MESHX_IS_BIT_FIELD_SET (pa_recv_seg d) (unat i) then Some (MESHX_ERR_ALREADY, w)
       else if length pdata - 6 \<noteq> (if i < pa_last_seg_num d then MESHX_PB_ADV_TRANS_CONTINUE_PDU_MAX_LEN
                                   else unat (continue_required_len d)) then Some (MESHX_ERR_LENGTH, w)
       else do {
         pdu \<leftarrow> mem_write (pa_rx_pdu d) (unat (continue_offset i)) (drop 6 pdata);
         recv_seg_done p (dev_upd p (\<lambda>_. d\<lparr>pa_recv_seg := MESHX_BIT_FIELD_CLEAR (pa_recv_seg d) (unat i), pa_rx_pdu := pdu\<rparr>) w)
       })"
      unfolding meshx_pb_adv_recv_trans_continue_def link_id_of_def Let_def if_not_P [OF False] bs
        Option.bind.bind_lunit l_def [symmetric] Some option.case d(1) i_def [symmetric] ack prod.case
      by (rule refl)
    show ?thesis unfolding eq handled_def [symmetric]
    proof (intro handled_if)
      assume "pa_trans_data_len d \<noteq> 0" "\<not> pa_last_seg_num d < i"
        "\<not> length pdata - 6 \<noteq> (if i < pa_last_seg_num d then MESHX_PB_ADV_TRANS_CONTINUE_PDU_MAX_LEN
          else unat (continue_required_len d))"
      then show "handled (do {
         pdu \<leftarrow> mem_write (pa_rx_pdu d) (unat (continue_offset i)) (drop 6 pdata);
         recv_seg_done p (dev_upd p (\<lambda>_. d\<lparr>pa_recv_seg := MESHX_BIT_FIELD_CLEAR (pa_recv_seg d) (unat i), pa_rx_pdu := pdu\<rparr>) w)
       })" using store by (auto simp: handled_def)
    qed (use assms in \<open>simp_all add: devs_ok_gap\<close>)
  qed
qed (use assms in \<open>simp add: meshx_pb_adv_recv_trans_continue_def\<close>)

text \<open>C25: The reassembly stays inside its buffer: on well-formed devices, every START segment
  and every CONTINUE segment but one with index 0 is handled without an access outside an
  object, whatever its length and content, and leaves the devices well formed.\<close>

theorem reassembly_in_bounds:
  assumes "devs_ok w" "bearer_kind w b = Some MESHX_BEARER_TYPE_ADV" "6 \<le> length pdata"
    "pdata ! 5 AND 3 = MESHX_GPCF_TRANS_START \<or>
     pdata ! 5 AND 3 = MESHX_GPCF_TRANS_CONTINUE \<and> drop_bit 2 (pdata ! 5) \<noteq> 0"
  shows "\<exists>r w'. meshx_pb_adv_receive ext b pdata w = Some (r, w') \<and> devs_ok w'"
proof -
  have m: "mem_read pdata 5 1 = Some [pdata ! 5]" using assms(3)
    by (simp add: mem_read_def take_Suc_conv_app_nth Cons_nth_drop_Suc [symmetric])
  show ?thesis using assms(4)
  proof
    assume "pdata ! 5 AND 3 = MESHX_GPCF_TRANS_START"
    then have "meshx_pb_adv_receive ext b pdata w = meshx_pb_adv_recv_trans_start b pdata w"
      using assms(2) m by (simp add: meshx_pb_adv_receive_def)
    then show ?thesis using recv_trans_start_safe [OF assms(1)] by simp
  next
    assume c: "pdata ! 5 AND 3 = MESHX_GPCF_TRANS_CONTINUE \<and> drop_bit 2 (pdata ! 5) \<noteq> 0"
    then have "meshx_pb_adv_receive ext b pdata w = meshx_pb_adv_recv_trans_continue b pdata w"
      using assms(2) m by (simp add: meshx_pb_adv_receive_def gpcf_codes)
    then show ?thesis using recv_trans_continue_safe [OF assms(1)] c by simp
  qed
qed

theorem reassembly_in_bounds_witness:
  "\<exists>r w'. meshx_pb_adv_receive demo_ext (Some BEARER_ADV) [0, 0, 0, 5, 0, 6, 1, 2] (demo_prov_world demo_dev) = Some (r, w') \<and> devs_ok w'"
  by (rule reassembly_in_bounds)
    (simp_all add: devs_ok_def demo_prov_world_def demo_dev_def dev_zero_def rx_ok_def bearer_kind_def
      bearer_type_def demo_gap_def MESHX_BEARER_TYPE_ADV_def gpcf_codes)

lemma recv_trans_start_refused:
  assumes "9 \<le> length pdata" "link_id_of pdata = Some l" "meshx_find_prov_dev_by_link_id l w = Some p"
    "pw_mem w p = Some d" "mem_read pdata 6 2 = Some tb" "of_be16 tb = tlen" "pdata ! 4 = tn"
    "drop_bit 2 (pdata ! 5) = ls" "pdata ! 8 = fcs" "MESHX_PROV_STATE_LINK_OPENED \<le> dv_state d"
    "pa_acked_trans_num d \<noteq> tn" "tlen \<noteq> 0" "\<not> tlen > 65"
    "uint (meshx_calc_seg_num tlen) - 1 = uint ls" "pa_trans_data_len d = 0"
    "MESHX_IS_BIT_FIELD_SET (set_seg_bits [0..<Suc (unat ls)] (zeros 8)) 0"
    "length pdata - 9 \<noteq> (if ls = 0 then unat tlen else 20)"
  shows "meshx_pb_adv_recv_trans_start b pdata w = Some (MESHX_ERR_LENGTH, dev_upd p
    (\<lambda>_. d\<lparr>pa_recv_seg := set_seg_bits [0..<Suc (unat ls)] (zeros 8), pa_trans_data_len := tlen,
            pa_rx_trans_num := tn, pa_last_seg_num := ls, pa_fcs := fcs\<rparr>) w)"
proof -
  have n: "\<not> length pdata < 9" "\<not> dv_state d < MESHX_PROV_STATE_LINK_OPENED" using assms(1,10) by auto
  show ?thesis
    by (simp add: meshx_pb_adv_recv_trans_start_def Let_def pb_adv_lengths n assms(2-9,11-17)
        del: upt_Suc set_seg_bits.simps cong: if_cong)
qed

text \<open>C26: A CONTINUE segment with index 0 writes outside the buffer: a START segment with a
  payload of the wrong length is refused but leaves its length and all segments outstanding, and
  a CONTINUE segment with index 0 after it is written at offset 65533.\<close>

theorem continue_zero_overruns:
  assumes "link_ready p l tn b d w" "pa_trans_data_len d = 0" "length (pa_rx_pdu d) = 65"
    "21 \<le> n" "n \<le> 65" "length junk \<noteq> 20" "length chunk = 23"
  defines "start \<equiv> be32 l @ [tn, gpcf_byte MESHX_GPCF_TRANS_START (meshx_calc_seg_num (word_of_nat n) - 1)] @
    be16 (word_of_nat n) @ [0] @ junk"
  shows "\<exists>w1. meshx_pb_adv_receive ext b start w = Some (MESHX_ERR_LENGTH, w1) \<and>
    meshx_pb_adv_receive ext b (be32 l @ [tn, gpcf_byte MESHX_GPCF_TRANS_CONTINUE 0] @ chunk) w1 = None"
proof -
  define tlen where "tlen = (word_of_nat n :: u16)"
  define ls where "ls = meshx_calc_seg_num tlen - 1"
  obtain a1 a2 a3 a4 where l: "be32 l = [a1, a2, a3, a4]" using be32_cons by blast
  have l': "of_be32 [a1, a2, a3, a4] = l" using be32_roundtrip [of l] l by simp
  obtain e1 e2 where tb: "be16 tlen = [e1, e2]" by (simp add: be16_bytes)
  have un: "unat tlen = n" using assms(5) by (simp add: tlen_def unat_small16)
  then have nz: "tlen \<noteq> 0" "\<not> tlen > 65" using assms(4,5) by (auto simp: word_less_nat_alt)
  have cnt: "ls = 1 \<or> ls = 2"
  proof (cases "n \<le> 43")
    case True then show ?thesis using assms(4) seg_num_cases(2) [of n] by (simp add: ls_def tlen_def)
  next
    case False then show ?thesis using assms(5) seg_num_cases(3) [of n] by (simp add: ls_def tlen_def)
  qed
  have cm: "uint (meshx_calc_seg_num tlen) - 1 = uint ls"
  proof -
    have "meshx_calc_seg_num tlen = ls + 1" by (simp add: ls_def)
    then show ?thesis using cnt by auto
  qed
  have ls: "ls < 64" "ls \<noteq> 0" "unat ls \<le> 2" using cnt by auto
  define bits where "bits = set_seg_bits [0..<Suc (unat ls)] (zeros 8)"
  have b0: "MESHX_IS_BIT_FIELD_SET bits 0" using ls(3) unfolding bits_def
    by (subst set_seg_bits_is_set) auto
  define d1 where "d1 = d\<lparr>pa_recv_seg := bits, pa_trans_data_len := tlen, pa_rx_trans_num := tn,
    pa_last_seg_num := ls, pa_fcs := 0\<rparr>"
  have g: "gpcf_byte MESHX_GPCF_TRANS_START ls AND 3 = MESHX_GPCF_TRANS_START"
    "drop_bit 2 (gpcf_byte MESHX_GPCF_TRANS_START ls) = ls"
    "gpcf_byte MESHX_GPCF_TRANS_CONTINUE 0 AND 3 = MESHX_GPCF_TRANS_CONTINUE"
    "drop_bit 2 (gpcf_byte MESHX_GPCF_TRANS_CONTINUE 0) = 0"
    using ls(1) gpcf_byte_fields by (simp_all add: gpcf_codes)
  have st: "start = [a1, a2, a3, a4, tn, gpcf_byte MESHX_GPCF_TRANS_START ls, e1, e2, 0] @ junk"
    by (simp add: start_def l tb [unfolded tlen_def] ls_def tlen_def)
  have dev: "pw_mem w p = Some d" "bearer_kind w b = Some MESHX_BEARER_TYPE_ADV" "meshx_find_prov_dev_by_link_id l w = Some p"
    "MESHX_PROV_STATE_LINK_OPENED \<le> dv_state d" "pa_acked_trans_num d \<noteq> tn"
    using assms(1) by (simp_all add: link_ready_def)
  have "meshx_pb_adv_receive ext b start w = meshx_pb_adv_recv_trans_start b start w"
    using dev(2) g(1) by (simp add: meshx_pb_adv_receive_def mem_read_def st)
  also have "\<dots> = Some (MESHX_ERR_LENGTH, dev_upd p (\<lambda>_. d1) w)" unfolding d1_def bits_def
    by (rule recv_trans_start_refused [OF _ _ dev(3,1) _ be16_roundtrip _ _ _ dev(4,5) nz cm assms(2) b0 [unfolded bits_def]])
      (use ls(2) assms(6) g(2) in \<open>simp_all add: st link_id_of_def mem_read_def l' tb\<close>)
  finally have r1: "meshx_pb_adv_receive ext b start w = Some (MESHX_ERR_LENGTH, dev_upd p (\<lambda>_. d1) w)" .
  have f1: "meshx_find_prov_dev_by_link_id l (dev_upd p (\<lambda>_. d1) w) = Some p"
    using dev(1,3) by (subst find_link_dev_upd) (simp_all add: d1_def)
  have m: "mem_write (pa_rx_pdu d) (unat (continue_offset 0)) chunk = None"
    using assms(3) by (simp add: mem_write_None_iff continue_offset_def pb_adv_lengths)
  have "0 < ls" using ls(2) word_gt_0 by blast
  then have "meshx_pb_adv_receive ext b (be32 l @ [tn, gpcf_byte MESHX_GPCF_TRANS_CONTINUE 0] @ chunk) (dev_upd p (\<lambda>_. d1) w) = None"
    using dev f1 g(3,4) b0 nz assms(7) m
    by (simp add: meshx_pb_adv_receive_def mem_read_def l l' link_id_of_def meshx_pb_adv_recv_trans_continue_def
        gpcf_codes Let_def d1_def pb_adv_lengths not_less cong: if_cong)
  then show ?thesis using r1 by blast
qed

theorem continue_zero_overruns_witness:
  "\<exists>w1. meshx_pb_adv_receive demo_ext (Some BEARER_ADV)
      (be32 5 @ [0, gpcf_byte MESHX_GPCF_TRANS_START (meshx_calc_seg_num (word_of_nat 30) - 1)] @
       be16 (word_of_nat 30) @ [0] @ [1, 2]) (demo_prov_world demo_dev) = Some (MESHX_ERR_LENGTH, w1) \<and>
    meshx_pb_adv_receive demo_ext (Some BEARER_ADV)
      (be32 5 @ [0, gpcf_byte MESHX_GPCF_TRANS_CONTINUE 0] @ replicate 23 7) w1 = None"
  by (rule continue_zero_overruns [OF demo_link_ready]) (simp_all add: demo_dev_def dev_zero_def prov_order)

end
