(* ===== verification/Mesh_Prov_Facts.thy ===== *)
theory Mesh_Prov_Facts
  imports Mesh_Pb_Adv_Trans
begin

text \<open>
  What the provisioning protocol guarantees: the two roles agree on the confirmation and on the
  session keys, the provisioning data arrive as they were sent, the state of a device only moves
  forwards; and where the protocol can be entered too early.
\<close>

section \<open>Agreement of the two roles\<close>

text \<open>The provisioner e and the device d have exchanged invite, capabilities, start parameters
  and public keys, have computed the same shared secret and hold the same authentication
  value.\<close>

definition mirrored :: "pb_adv_dev \<Rightarrow> pb_adv_dev \<Rightarrow> bool" where
  "mirrored e d \<longleftrightarrow>
    dv_role e = MESHX_ROLE_PROVISIONER \<and> dv_role d = MESHX_ROLE_DEVICE \<and>
    dv_public_key e = dv_public_key_remote d \<and> dv_public_key d = dv_public_key_remote e \<and>
    dv_invite e = dv_invite d \<and> dv_capabilites e = dv_capabilites d \<and> dv_start e = dv_start d \<and>
    dv_share_secret e = dv_share_secret d \<and> dv_auth_value e = dv_auth_value d"

lemma mirrored_inputs: "mirrored e d \<Longrightarrow> confirmation_inputs e = confirmation_inputs d"
  by (simp add: mirrored_def confirmation_inputs_def)

lemma confirm_fields [simp]:
  "dv_state (confirm aes r d) = dv_state d" "dv_bearer (confirm aes r d) = dv_bearer d"
  "dv_role (confirm aes r d) = dv_role d" "dv_random (confirm aes r d) = dv_random d"
  "dv_random_remote (confirm aes r d) = dv_random_remote d"
  "dv_share_secret (confirm aes r d) = dv_share_secret d"
  "dv_confirmation_remote (confirm aes r d) = dv_confirmation_remote d"
  "dv_session_key (confirm aes r d) = dv_session_key d"
  "dv_session_nonce (confirm aes r d) = dv_session_nonce d"
  "dv_device_key (confirm aes r d) = dv_device_key d"
  by (simp_all add: confirm_def Let_def)

lemma session_keys_fields [simp]:
  "dv_state (session_keys aes d) = dv_state d" "dv_bearer (session_keys aes d) = dv_bearer d"
  by (simp_all add: session_keys_def Let_def)

lemma mirrored_confirm:
  assumes "mirrored e d"
  shows "dv_confirmation (confirm aes r e) = dv_confirmation (confirm aes r d)"
    "dv_confirmation_salt (confirm aes r' e) = dv_confirmation_salt (confirm aes r d)"
  using assms mirrored_inputs [OF assms] by (simp_all add: confirm_def Let_def mirrored_def meshx_s1_def out_arg_def)

text \<open>The keys do not depend on what the device held before.\<close>

lemma session_keys_cong:
  assumes "dv_confirmation_salt e = dv_confirmation_salt d" "dv_share_secret e = dv_share_secret d"
    "dv_role e = MESHX_ROLE_PROVISIONER" "dv_role d = MESHX_ROLE_DEVICE"
    "dv_random e = dv_random_remote d" "dv_random d = dv_random_remote e"
  shows "dv_session_key (session_keys aes e) = dv_session_key (session_keys aes d)"
    "dv_session_nonce (session_keys aes e) = dv_session_nonce (session_keys aes d)"
    "dv_device_key (session_keys aes e) = dv_device_key (session_keys aes d)"
  using assms by (simp_all add: session_keys_def Let_def meshx_k1_def meshx_s1_def out_arg_def)

section \<open>Operations of a device on the advertising bearer\<close>

lemma by_bearer_adv:
  assumes "pw_mem w p = Some d" "bearer_kind w (dv_bearer d) = Some MESHX_BEARER_TYPE_ADV"
  shows "by_bearer p send w = send p w"
  using assms by (simp add: by_bearer_def)

lemma request_pdu_mem:
  assumes "pw_mem w p = Some d"
  shows "\<exists>w' v. request_pdu require p w = Some (MESHX_SUCCESS, w') \<and>
    pw_mem w' p = Some ((require d)\<lparr>pa_timer_state := PB_ADV_TIMER_STATE_DELAY,
      pa_delay_type := PB_ADV_TIMER_DELAY_TYPE_PROV_PDU,
      pa_timer := snd (meshx_timer_start (pa_timer (require d)) v)\<rparr>) \<and>
    pw_notes w' = pw_notes w \<and> pw_gap w' = pw_gap w \<and> 20 \<le> v \<and> v \<le> 49"
proof -
  have "pw_mem (dev_upd p require w) p = Some (require d)" using assms by simp
  from arm_delay_mem [OF this, of PB_ADV_TIMER_DELAY_TYPE_PROV_PDU] assms show ?thesis
    by (auto simp: request_pdu_def)
qed

lemma require_fields [simp]:
  "dv_state (require_by_role d) = dv_state d" "dv_bearer (require_by_role d) = dv_bearer d"
  "dv_confirmation_salt (require_by_role d) = dv_confirmation_salt d" "dv_share_secret (require_by_role d) = dv_share_secret d"
  "dv_role (require_by_role d) = dv_role d" "dv_random (require_by_role d) = dv_random d"
  "dv_random_remote (require_by_role d) = dv_random_remote d"
  "dv_session_key (require_by_role d) = dv_session_key d" "dv_session_nonce (require_by_role d) = dv_session_nonce d"
  by (simp_all add: require_by_role_def meshx_dev_require_trans_num_def meshx_prov_require_trans_num_def Let_def)

definition quiet :: "prov_ext \<Rightarrow> bool" where
  "quiet ext \<longleftrightarrow> ext_notify ext = notify_default"

lemma tell_quiet:
  assumes "quiet ext" "pw_mem w p = Some d"
  shows "tell ext p n w = Some (MESHX_SUCCESS, w\<lparr>pw_notes := pw_notes w @ [(p, n)]\<rparr>)"
  using assms by (simp add: tell_def quiet_def meshx_notify_def notify_default_def)

lemma generate_confirmation_ok:
  assumes "pw_mem w p = Some d" "mem_src (pw_env w) (mem_pos (pw_env w))"
  shows "\<exists>w'. meshx_prov_generate_confirmation ext (Some p) rnd w = Some (MESHX_SUCCESS, w') \<and>
    pw_mem w' p = Some (confirm (ext_aes ext) rnd d) \<and> pw_gap w' = pw_gap w \<and> pw_notes w' = pw_notes w"
  using assms by (simp add: meshx_prov_generate_confirmation_def on_env_def meshx_malloc_ok_def)

text \<open>The unit of a given type with a payload.\<close>

lemmas prov_types = MESHX_PROV_TYPE_INVITE_def MESHX_PROV_TYPE_CAPABILITES_def MESHX_PROV_TYPE_START_def
  MESHX_PROV_TYPE_PUBLIC_KEY_def MESHX_PROV_TYPE_INPUT_COMPLETE_def MESHX_PROV_TYPE_CONFIRMATION_def
  MESHX_PROV_TYPE_RANDOM_def MESHX_PROV_TYPE_DATA_def MESHX_PROV_TYPE_COMPLETE_def MESHX_PROV_TYPE_FAILED_def

lemma pdu_process_random:
  "meshx_prov_pdu_process ext p (MESHX_PROV_TYPE_RANDOM # x) len w = process_random ext p (MESHX_PROV_TYPE_RANDOM # x) len w"
  by (simp add: meshx_prov_pdu_process_def mem_read_def prov_types)

lemma mem_read_payload: "length x = n \<Longrightarrow> mem_read (t # x @ rest) (Suc 0) n = Some x"
  by (simp add: mem_read_def)

lemma verify_confirmation_ok:
  assumes "pw_mem w p = Some d" "mem_src (pw_env w) (mem_pos (pw_env w))"
  shows "\<exists>w'. meshx_prov_verify_confirmation ext p w =
      Some (dv_confirmation (confirm (ext_aes ext) (dv_random_remote d) d) = dv_confirmation_remote d, w') \<and>
    pw_mem w' p = Some (confirm (ext_aes ext) (dv_random_remote d) d) \<and> pw_gap w' = pw_gap w \<and> pw_notes w' = pw_notes w"
  using generate_confirmation_ok [OF assms, of ext "dv_random_remote d"] assms(1)
  by (auto simp: meshx_prov_verify_confirmation_def)

lemma failed_adv:
  assumes "pw_mem w p = Some d" "bearer_kind w (dv_bearer d) = Some MESHX_BEARER_TYPE_ADV"
    "MESHX_PROV_STATE_INVITE \<le> dv_state d" "dv_state d < MESHX_PROV_STATE_COMPLETE"
  shows "\<exists>w' d'. refuse p code r w = Some (r, w') \<and> pw_mem w' p = Some d' \<and> dv_state d' = MESHX_PROV_STATE_FAILED \<and>
    dv_err_code d' = code \<and> dv_session_key d' = dv_session_key d \<and> dv_session_nonce d' = dv_session_nonce d \<and>
    dv_device_key d' = dv_device_key d \<and> pw_notes w' = pw_notes w"
proof -
  let ?d = "d\<lparr>dv_state := MESHX_PROV_STATE_FAILED, dv_err_code := code\<rparr>"
  have m: "pw_mem (dev_upd p (\<lambda>d. d\<lparr>dv_state := MESHX_PROV_STATE_FAILED, dv_err_code := code\<rparr>) w) p = Some ?d"
    using assms(1) by simp
  obtain w' v where "request_pdu meshx_dev_require_trans_num p (dev_upd p (\<lambda>d. d\<lparr>dv_state := MESHX_PROV_STATE_FAILED, dv_err_code := code\<rparr>) w)
      = Some (MESHX_SUCCESS, w')" "pw_mem w' p = Some ((meshx_dev_require_trans_num ?d)\<lparr>pa_timer_state := PB_ADV_TIMER_STATE_DELAY,
      pa_delay_type := PB_ADV_TIMER_DELAY_TYPE_PROV_PDU,
      pa_timer := snd (meshx_timer_start (pa_timer (meshx_dev_require_trans_num ?d)) v)\<rparr>)"
    "pw_notes w' = pw_notes w"
    using request_pdu_mem [OF m, of meshx_dev_require_trans_num] by auto
  moreover have "by_bearer p meshx_pb_adv_failed (dev_upd p (\<lambda>d. d\<lparr>dv_state := MESHX_PROV_STATE_FAILED, dv_err_code := code\<rparr>) w)
    = request_pdu meshx_dev_require_trans_num p (dev_upd p (\<lambda>d. d\<lparr>dv_state := MESHX_PROV_STATE_FAILED, dv_err_code := code\<rparr>) w)"
    using by_bearer_adv [OF m] assms(2) by (simp add: meshx_pb_adv_failed_def)
  moreover have "\<not> dv_state d < MESHX_PROV_STATE_INVITE" "dv_state d \<noteq> MESHX_PROV_STATE_COMPLETE"
    "dv_state d \<noteq> MESHX_PROV_STATE_FAILED"
    using assms(3,4) by (auto simp: prov_order)
  ultimately show ?thesis using assms(1)
    by (auto simp: refuse_def meshx_prov_failed_def meshx_dev_require_trans_num_def Let_def)
qed

lemma random_adv:
  assumes "pw_mem w p = Some d" "bearer_kind w (dv_bearer d) = Some MESHX_BEARER_TYPE_ADV"
    "dv_state d = MESHX_PROV_STATE_RANDOM"
  shows "\<exists>w' v. meshx_prov_random (Some p) (Some rnd) w = Some (MESHX_SUCCESS, w') \<and>
    pw_mem w' p = Some ((require_by_role (d\<lparr>dv_random := rnd\<rparr>))\<lparr>pa_timer_state := PB_ADV_TIMER_STATE_DELAY,
      pa_delay_type := PB_ADV_TIMER_DELAY_TYPE_PROV_PDU,
      pa_timer := snd (meshx_timer_start (pa_timer (require_by_role (d\<lparr>dv_random := rnd\<rparr>))) v)\<rparr>) \<and>
    pw_notes w' = pw_notes w \<and> pw_gap w' = pw_gap w"
proof -
  let ?w = "dev_upd p (\<lambda>d. d\<lparr>dv_state := MESHX_PROV_STATE_RANDOM, dv_random := rnd\<rparr>) w"
  have m: "pw_mem ?w p = Some (d\<lparr>dv_random := rnd\<rparr>)" using assms(1,3) by simp
  have b: "by_bearer p meshx_pb_adv_random ?w = request_pdu require_by_role p ?w"
    using by_bearer_adv [OF m] assms(2) by (simp add: meshx_pb_adv_random_def)
  show ?thesis using request_pdu_mem [OF m, of require_by_role] b assms(1,3)
    by (auto simp: meshx_prov_random_def prov_order)
qed

section \<open>Provisioning data\<close>

lemma mem16_roundtrip [simp]: "of_mem16 (mem16 x @ r) = x"
  unfolding of_mem16_def mem16_def
  apply (rule bit_word_eqI)
  subgoal for n by (cases "n < 8") (auto simp: bit_simps)
  done

lemma mem32_roundtrip [simp]: "of_mem32 (mem32 x @ r) = x"
  unfolding of_mem32_def mem32_def
  apply (rule bit_word_eqI)
  subgoal for n by (rule split32 [of n]) (auto simp: bit_simps)
  done

lemma swap16_roundtrip [simp]: "MESHX_BE16_TO_HOST (MESHX_HOST_TO_BE16 x) = x"
  unfolding MESHX_BE16_TO_HOST_def MESHX_HOST_TO_BE16_def masks16
  apply (rule bit_word_eqI)
  subgoal for n by (cases "n < 8") (auto simp: bit_simps)
  done

lemma swap32_roundtrip [simp]: "MESHX_BE32_TO_HOST (MESHX_HOST_TO_BE32 x) = x"
  unfolding MESHX_BE32_TO_HOST_def MESHX_HOST_TO_BE32_def masks32
  apply (rule bit_word_eqI)
  subgoal for n by (rule split32 [of n]) (auto simp: bit_simps)
  done

lemma data_host_roundtrip [simp]: "data_to_host ((data_to_be x)\<lparr>pd_mic := m\<rparr>) = x\<lparr>pd_mic := m\<rparr>"
  by (simp add: data_to_host_def data_to_be_def)

lemma data_bytes_length: "length (pd_net_key x) = 16 \<Longrightarrow> length (data_bytes x) = 25"
  by (simp add: data_bytes_def)

lemma of_mem16_append [simp]: "of_mem16 (mem16 x) = x"
  using mem16_roundtrip [of x "[]"] by simp

lemma data_of_data_bytes:
  assumes "length (pd_net_key x) = 16"
  shows "data_of_bytes (data_bytes x) m = x\<lparr>pd_mic := m\<rparr>"
proof -
  have "drop 16 (data_bytes x) = mem16 (pd_key_index x) @ pd_flags x # mem32 (pd_iv_index x) @ mem16 (pd_unicast_address x)"
    "drop 19 (data_bytes x) = mem32 (pd_iv_index x) @ mem16 (pd_unicast_address x)"
    "drop 23 (data_bytes x) = mem16 (pd_unicast_address x)"
    "data_bytes x ! 18 = pd_flags x" "take 16 (data_bytes x) = pd_net_key x"
    using assms by (simp_all add: data_bytes_def nth_append)
  then show ?thesis by (simp add: data_of_bytes_def)
qed

lemma mem16_of_mem16: "2 \<le> length b \<Longrightarrow> mem16 (of_mem16 b) = take 2 b"
proof -
  assume "2 \<le> length b"
  then obtain x y r where b: "b = x # y # r" by (metis Suc_le_length_iff numeral_2_eq_2)
  show ?thesis unfolding b of_mem16_def mem16_def by (auto intro!: bit_word_eqI simp: bit_simps)
qed

lemma mem32_of_mem32: "4 \<le> length b \<Longrightarrow> mem32 (of_mem32 b) = take 4 b"
proof -
  assume "4 \<le> length b"
  then obtain x y z u r where b: "b = x # y # z # u # r" by (auto simp: Suc_le_length_iff numeral_eq_Suc)
  show ?thesis unfolding b of_mem32_def mem32_def by (auto intro!: bit_word_eqI simp: bit_simps)
qed

lemma data_bytes_of_bytes:
  assumes "length b = 25"
  shows "data_bytes (data_of_bytes b m) = b"
proof -
  have "b = take 16 b @ take 2 (drop 16 b) @ [b ! 18] @ take 4 (drop 19 b) @ take 2 (drop 23 b)"
    using assms by (intro nth_equalityI) (auto simp: nth_append less_Suc_eq numeral_eq_Suc)
  then show ?thesis using assms by (simp add: data_bytes_def data_of_bytes_def mem16_of_mem16 mem32_of_mem32)
qed

lemma data_encrypt_decrypt:
  assumes "aes_block aes" "length nonce = 16" "length (pd_net_key x) = 16"
  shows "\<exists>cipher mic. meshx_aes_ccm_encrypt aes key (take 13 (drop 3 nonce)) [] (data_bytes x) 8 = Inr (cipher, mic) \<and>
    length cipher = 25 \<and> length mic = 8 \<and> data_encrypt aes key nonce x = data_of_bytes cipher mic \<and>
    meshx_aes_ccm_decrypt aes key (take 13 (drop 3 nonce)) [] cipher mic buf = (MESHX_SUCCESS, data_bytes x)"
proof -
  have l: "length (data_bytes x) = 25" by (rule data_bytes_length [OF assms(3)])
  obtain cipher mic where e: "meshx_aes_ccm_encrypt aes key (take 13 (drop 3 nonce)) [] (data_bytes x) 8 = Inr (cipher, mic)"
    "length cipher = 25" "length mic = 8"
    using ccm_encrypt_ok [OF assms(1), of "take 13 (drop 3 nonce)" "data_bytes x" "[]" 8 key] assms(2) l by auto
  moreover have "data_encrypt aes key nonce x = data_of_bytes cipher mic"
    using e(1) by (simp add: data_encrypt_def out_arg_def)
  moreover have "meshx_aes_ccm_decrypt aes key (take 13 (drop 3 nonce)) [] cipher mic buf = (MESHX_SUCCESS, data_bytes x)"
    using ccm_decrypt_exact [OF assms(1)] e by simp
  ultimately show ?thesis by blast
qed

lemma dev_require_fields [simp]:
  "dv_state (meshx_dev_require_trans_num d) = dv_state d" "dv_bearer (meshx_dev_require_trans_num d) = dv_bearer d"
  "dv_data (meshx_dev_require_trans_num d) = dv_data d"
  by (simp_all add: meshx_dev_require_trans_num_def Let_def)

lemma complete_adv:
  assumes "pw_mem w p = Some d" "bearer_kind w (dv_bearer d) = Some MESHX_BEARER_TYPE_ADV" "dv_state d = MESHX_PROV_STATE_DATA"
  shows "\<exists>w' d'. meshx_prov_complete (Some p) w = Some (MESHX_SUCCESS, w') \<and> pw_mem w' p = Some d' \<and>
    dv_state d' = MESHX_PROV_STATE_COMPLETE \<and> dv_data d' = dv_data d \<and> pw_notes w' = pw_notes w \<and>
    (pa_timer d \<noteq> None \<longrightarrow> delay_running PB_ADV_TIMER_DELAY_TYPE_PROV_PDU d')"
proof -
  let ?w = "dev_upd p (\<lambda>d. d\<lparr>dv_state := MESHX_PROV_STATE_COMPLETE\<rparr>) w"
  have m: "pw_mem ?w p = Some (d\<lparr>dv_state := MESHX_PROV_STATE_COMPLETE\<rparr>)" using assms(1) by simp
  have b: "by_bearer p meshx_pb_adv_complete ?w = request_pdu meshx_dev_require_trans_num p ?w"
    using by_bearer_adv [OF m] assms(2) by (simp add: meshx_pb_adv_complete_def)
  let ?d = "meshx_dev_require_trans_num (d\<lparr>dv_state := MESHX_PROV_STATE_COMPLETE\<rparr>)"
  obtain w' v where w': "request_pdu meshx_dev_require_trans_num p ?w = Some (MESHX_SUCCESS, w')"
    "pw_mem w' p = Some (?d\<lparr>pa_timer_state := PB_ADV_TIMER_STATE_DELAY,
      pa_delay_type := PB_ADV_TIMER_DELAY_TYPE_PROV_PDU, pa_timer := snd (meshx_timer_start (pa_timer ?d) v)\<rparr>)"
      (is "_ = Some ?d'") "pw_notes w' = pw_notes ?w" "20 \<le> v" "v \<le> 49"
    using request_pdu_mem [OF m, of meshx_dev_require_trans_num] by auto
  have "delay_running PB_ADV_TIMER_DELAY_TYPE_PROV_PDU ?d'" if "pa_timer d \<noteq> None"
    by (rule delay_running_start [OF _ w'(4,5), of ?d])
      (use that in \<open>simp_all add: meshx_dev_require_trans_num_def Let_def\<close>)
  then show ?thesis using w' b assms(1,3)
    by (auto simp: meshx_prov_complete_def prov_order meshx_dev_require_trans_num_def Let_def)
qed

lemma data_adv:
  assumes "pw_mem w p = Some d" "bearer_kind w (dv_bearer d) = Some MESHX_BEARER_TYPE_ADV" "dv_state d = MESHX_PROV_STATE_RANDOM"
  shows "\<exists>w' d'. meshx_prov_data ext (Some p) (Some x) w = Some (MESHX_SUCCESS, w') \<and> pw_mem w' p = Some d' \<and>
    dv_state d' = MESHX_PROV_STATE_DATA \<and>
    dv_data d' = data_encrypt (ext_aes ext) (dv_session_key d) (dv_session_nonce d) (data_to_be sample_prov_data)"
proof -
  let ?w = "dev_upd p (\<lambda>d. d\<lparr>dv_state := MESHX_PROV_STATE_DATA,
    dv_data := data_encrypt (ext_aes ext) (dv_session_key d) (dv_session_nonce d) (data_to_be sample_prov_data)\<rparr>) w"
  let ?d = "d\<lparr>dv_state := MESHX_PROV_STATE_DATA,
    dv_data := data_encrypt (ext_aes ext) (dv_session_key d) (dv_session_nonce d) (data_to_be sample_prov_data)\<rparr>"
  have m: "pw_mem ?w p = Some ?d" using assms(1) by simp
  have b: "by_bearer p meshx_pb_adv_data ?w = request_pdu meshx_dev_require_trans_num p ?w"
    using by_bearer_adv [OF m] assms(2) by (simp add: meshx_pb_adv_data_def)
  show ?thesis using request_pdu_mem [OF m, of meshx_dev_require_trans_num] b assms(1,3)
    by (auto simp: meshx_prov_data_def prov_order)
qed

text \<open>A device in any state up to DATA takes data that were encrypted under its session key.\<close>

lemma process_data_accepts:
  assumes "pw_mem w p = Some d" "bearer_kind w (dv_bearer d) = Some MESHX_BEARER_TYPE_ADV" "quiet ext"
    "aes_block (ext_aes ext)" "length (dv_session_nonce d) = 16" "length (pd_net_key x) = 16"
    "dv_state d \<le> MESHX_PROV_STATE_DATA" "34 \<le> unat len"
  defines "enc \<equiv> data_encrypt (ext_aes ext) (dv_session_key d) (dv_session_nonce d) x"
  shows "\<exists>w' d'. meshx_prov_pdu_process ext p (MESHX_PROV_TYPE_DATA # data_bytes enc @ pd_mic enc @ rest) len w =
      Some (MESHX_SUCCESS, w') \<and>
    pw_mem w' p = Some d' \<and> dv_state d' = MESHX_PROV_STATE_COMPLETE \<and> dv_data d' = x\<lparr>pd_mic := pd_mic (dv_data d)\<rparr> \<and>
    pw_notes w' = pw_notes w @ [(p, PROV_NOTIFY_DATA (data_to_host (dv_data d')))] \<and>
    (pa_timer d \<noteq> None \<longrightarrow> delay_running PB_ADV_TIMER_DELAY_TYPE_PROV_PDU d')"
proof -
  let ?P = "MESHX_PROV_TYPE_DATA # data_bytes enc @ pd_mic enc @ rest"
  obtain cipher mic where c: "length cipher = 25" "length mic = 8" "enc = data_of_bytes cipher mic"
    "meshx_aes_ccm_decrypt (ext_aes ext) (dv_session_key d) (take 13 (drop 3 (dv_session_nonce d))) [] cipher mic
      (data_bytes (dv_data d)) = (MESHX_SUCCESS, data_bytes x)"
    using data_encrypt_decrypt [OF assms(4,5,6), of "dv_session_key d" "data_bytes (dv_data d)"] by (auto simp: enc_def)
  have rd: "mem_read ?P (Suc 0) 25 = Some cipher" "mem_read ?P 26 8 = Some mic"
  proof -
    have "data_bytes enc = cipher" "pd_mic enc = mic"
      using data_bytes_of_bytes [OF c(1)] by (simp_all add: c(3)) (simp add: data_of_bytes_def)
    then show "mem_read ?P (Suc 0) 25 = Some cipher" "mem_read ?P 26 8 = Some mic"
      using c(1,2) by (simp_all add: mem_read_def)
  qed
  define w1 where "w1 = dev_upd p (\<lambda>d. d\<lparr>dv_data := data_of_bytes (data_bytes x) (pd_mic (dv_data d))\<rparr>) w"
  define w2 where "w2 = dev_upd p (\<lambda>d. d\<lparr>dv_state := MESHX_PROV_STATE_DATA\<rparr>) w1"
  have m2: "pw_mem w2 p = Some (d\<lparr>dv_data := x\<lparr>pd_mic := pd_mic (dv_data d)\<rparr>, dv_state := MESHX_PROV_STATE_DATA\<rparr>)"
    "pw_gap w2 = pw_gap w" "pw_notes w2 = pw_notes w"
    using assms(1) by (simp_all add: w2_def w1_def data_of_data_bytes [OF assms(6)])
  obtain w3 d3 where w3: "meshx_prov_complete (Some p) w2 = Some (MESHX_SUCCESS, w3)" "pw_mem w3 p = Some d3"
    "dv_state d3 = MESHX_PROV_STATE_COMPLETE" "dv_data d3 = x\<lparr>pd_mic := pd_mic (dv_data d)\<rparr>" "pw_notes w3 = pw_notes w"
    "pa_timer d \<noteq> None \<longrightarrow> delay_running PB_ADV_TIMER_DELAY_TYPE_PROV_PDU d3"
    using complete_adv [OF m2(1)] assms(2) m2(2,3) by (auto simp: bearer_kind_def)
  have "meshx_prov_pdu_process ext p ?P len w = process_data ext p ?P len w"
    by (simp add: meshx_prov_pdu_process_def mem_read_def prov_types)
  also have "\<dots> = tell ext p (PROV_NOTIFY_DATA (data_to_host (dv_data d3))) w3"
    using assms(1,8) leD [OF assms(7)] rd c(4) w3(1,2)
    by (simp add: process_data_def Let_def w1_def [symmetric] w2_def [symmetric] cong: if_cong)
  finally show ?thesis using tell_quiet [OF assms(3) w3(2)] w3 by simp
qed

section \<open>The state only moves forwards\<close>

text \<open>A step of a device: its state does not decrease, or it ends in failure; the other devices
  are left alone.\<close>

definition advances :: "nat \<Rightarrow> prov_world \<Rightarrow> prov_world \<Rightarrow> bool" where
  "advances p w w' \<longleftrightarrow>
    (\<forall>d. pw_mem w p = Some d \<longrightarrow> (\<exists>d'. pw_mem w' p = Some d' \<and>
       (dv_state d \<le> dv_state d' \<or> MESHX_PROV_STATE_FAILED \<le> dv_state d'))) \<and>
    (\<forall>q. q \<noteq> p \<longrightarrow> pw_mem w' q = pw_mem w q)"

definition advancing :: "nat \<Rightarrow> prov_world \<Rightarrow> ('r \<times> prov_world) option \<Rightarrow> bool" where
  "advancing p w x \<longleftrightarrow> (\<forall>r w'. x = Some (r, w') \<longrightarrow> advances p w w')"

lemma advances_refl [simp]: "advances p w w"
  by (simp add: advances_def)

lemma advances_trans:
  assumes "advances p w w1" "advances p w1 w2"
  shows "advances p w w2"
  unfolding advances_def
proof (intro conjI allI impI)
  fix d assume d: "pw_mem w p = Some d"
  then obtain d1 where d1: "pw_mem w1 p = Some d1" "dv_state d \<le> dv_state d1 \<or> MESHX_PROV_STATE_FAILED \<le> dv_state d1"
    using assms(1) by (auto simp: advances_def)
  then obtain d2 where "pw_mem w2 p = Some d2" "dv_state d1 \<le> dv_state d2 \<or> MESHX_PROV_STATE_FAILED \<le> dv_state d2"
    using assms(2) by (auto simp: advances_def)
  then show "\<exists>d'. pw_mem w2 p = Some d' \<and> (dv_state d \<le> dv_state d' \<or> MESHX_PROV_STATE_FAILED \<le> dv_state d')"
    using d1(2) by (auto intro: order_trans)
qed (use assms in \<open>simp add: advances_def\<close>)

lemma advances_upd:
  "(\<And>d. pw_mem w p = Some d \<Longrightarrow> dv_state d \<le> dv_state (f d) \<or> MESHX_PROV_STATE_FAILED \<le> dv_state (f d)) \<Longrightarrow>
   advances p w (dev_upd p f w)"
  by (auto simp: advances_def)

lemma advances_notes [simp]: "advances p w (w'\<lparr>pw_notes := n\<rparr>) = advances p w w'" "advances p w (w'\<lparr>pw_env := e\<rparr>) = advances p w w'"
  by (simp_all add: advances_def)

lemma advancing_None [simp]: "advancing p w None"
  by (simp add: advancing_def)

lemma advancing_Some [simp]: "advancing p w (Some (r, w')) = advances p w w'"
  by (simp add: advancing_def)

lemma advancing_bind:
  assumes "advancing p w x" "\<And>r w'. x = Some (r, w') \<Longrightarrow> advances p w w' \<Longrightarrow> advancing p w (f (r, w'))"
  shows "advancing p w (Option.bind x f)"
  using assms by (cases x) (auto simp: advancing_def)

lemma advancing_from: "advances p w w1 \<Longrightarrow> advancing p w1 x \<Longrightarrow> advancing p w x"
  using advances_trans by (auto simp: advancing_def)

lemma advances_arm: "advances p w (arm_delay p t w)"
proof -
  have "advances p w (dev_upd p (\<lambda>d. d\<lparr>pa_timer_state := PB_ADV_TIMER_STATE_DELAY, pa_delay_type := t\<rparr>) w)" (is "advances p w ?w")
    by (rule advances_upd) simp
  moreover obtain v e where "meshx_pb_adv_rand (pw_env ?w) = (v, e)" by (cases "meshx_pb_adv_rand (pw_env ?w)")
  ultimately show ?thesis
    by (auto simp: arm_delay_def on_env_def dev_timer_start_def intro!: advances_trans [OF _ advances_upd])
qed

lemma advancing_request:
  assumes "\<And>d. dv_state (require d) = dv_state d"
  shows "advancing p w (request_pdu require p w)"
proof (cases "pw_mem w p")
  case (Some d)
  have "advances p w (dev_upd p require w)" by (rule advances_upd) (simp add: assms)
  then show ?thesis using Some by (auto simp: request_pdu_def intro: advances_trans [OF _ advances_arm])
qed (simp add: request_pdu_def)

lemma advancing_by_bearer: "(\<And>w. advancing p w (send p w)) \<Longrightarrow> advancing p w (by_bearer p send w)"
  by (auto simp: by_bearer_def split: Option.bind_splits)

lemma advancing_requests [simp]:
  "advancing p w (by_bearer p (request_pdu require_by_role) w)"
  "advancing p w (by_bearer p (request_pdu meshx_dev_require_trans_num) w)"
  by (rule advancing_by_bearer, rule advancing_request, simp)+

lemma advancing_refuse [simp]: "advancing p w (refuse p code r w)"
proof -
  have "advancing p w (meshx_prov_failed (Some p) code w)"
  proof (cases "pw_mem w p")
    case (Some d)
    have "advances p w (dev_upd p (\<lambda>d. d\<lparr>dv_state := MESHX_PROV_STATE_FAILED, dv_err_code := code\<rparr>) w)"
      by (rule advances_upd) simp
    from advancing_from [OF this advancing_requests(2)] show ?thesis using Some
      by (simp add: meshx_prov_failed_def meshx_pb_adv_failed_def)
  qed (simp add: meshx_prov_failed_def)
  then show ?thesis unfolding refuse_def by (rule advancing_bind) (simp add: split_def)
qed

lemma advancing_tell: "quiet ext \<Longrightarrow> advancing p w (tell ext p n w)"
  using tell_quiet by (cases "pw_mem w p") (auto simp: tell_def)

text \<open>Setting a state from a state below it, and telling the application.\<close>

lemma advancing_set:
  assumes "quiet ext" "\<And>d. pw_mem w p = Some d \<Longrightarrow> dv_state d \<le> dv_state (f d) \<or> MESHX_PROV_STATE_FAILED \<le> dv_state (f d)"
  shows "advancing p w (tell ext p n (dev_upd p f w))"
  using advancing_from [OF advances_upd [OF assms(2)]] advancing_tell [OF assms(1)] by blast

lemma advancing_confirmation: "advancing p w (meshx_prov_confirmation (Some p) c w)"
proof (cases "pw_mem w p")
  case (Some d)
  have "advances p w (dev_upd p (\<lambda>d. d\<lparr>dv_state := MESHX_PROV_STATE_CONFIRMATION, dv_confirmation := x\<rparr>) w)"
    if "\<not> dv_state d > MESHX_PROV_STATE_CONFIRMATION" for x
    by (rule advances_upd) (use Some that in auto)
  from advancing_from [OF this advancing_requests(1)] show ?thesis using Some
    by (simp add: meshx_prov_confirmation_def meshx_pb_adv_confirmation_def split: option.split)
qed (simp add: meshx_prov_confirmation_def split: option.split)

lemma advancing_random: "advancing p w (meshx_prov_random (Some p) c w)"
proof (cases "pw_mem w p")
  case (Some d)
  have "advances p w (dev_upd p (\<lambda>d. d\<lparr>dv_state := MESHX_PROV_STATE_RANDOM, dv_random := x\<rparr>) w)"
    if "\<not> dv_state d > MESHX_PROV_STATE_RANDOM" for x
    by (rule advances_upd) (use Some that in auto)
  from advancing_from [OF this advancing_requests(1)] show ?thesis using Some
    by (simp add: meshx_prov_random_def meshx_pb_adv_random_def split: option.split)
qed (simp add: meshx_prov_random_def split: option.split)

lemma advancing_complete: "advancing p w (meshx_prov_complete (Some p) w)"
proof (cases "pw_mem w p")
  case (Some d)
  have "advances p w (dev_upd p (\<lambda>d. d\<lparr>dv_state := MESHX_PROV_STATE_COMPLETE\<rparr>) w)"
    if "\<not> dv_state d > MESHX_PROV_STATE_COMPLETE"
    by (rule advances_upd) (use Some that in auto)
  from advancing_from [OF this advancing_requests(2)] show ?thesis using Some
    by (simp add: meshx_prov_complete_def meshx_pb_adv_complete_def)
qed (simp add: meshx_prov_complete_def)

lemma advancing_verify: "advancing p w (meshx_prov_verify_confirmation ext p w)"
proof (cases "pw_mem w p")
  case (Some d)
  have g: "advancing p w (meshx_prov_generate_confirmation ext (Some p) rnd w)" for rnd
  proof -
    have a: "advances p w' (dev_upd p (confirm (ext_aes ext) rnd) w')" for w' by (rule advances_upd) simp
    show ?thesis
      by (auto simp: meshx_prov_generate_confirmation_def on_env_def meshx_malloc_ok_def advancing_def
          intro!: advances_trans [OF _ a] split: prod.splits bool.splits Option.bind_splits)
  qed
  show ?thesis using Some g
    by (auto simp: meshx_prov_verify_confirmation_def advancing_def split: Option.bind_splits)
qed (simp add: meshx_prov_verify_confirmation_def)

lemmas advancing_ops = advancing_confirmation advancing_random advancing_complete advancing_verify

text \<open>The handlers of the units.  A handler that only sets the state and tells the application is
  settled by the guard; the others are composed of the operations above.\<close>

lemma advancing_simple:
  assumes "quiet ext"
  shows "advancing p w (process_invite ext p pdata len w)" "advancing p w (process_capabilites ext p pdata len w)"
    "advancing p w (process_start ext p pdata len w)" "advancing p w (process_public_key ext p pdata len w)"
    "advancing p w (process_input_complete ext p pdata len w)" "advancing p w (process_complete ext p pdata len w)"
    "advancing p w (process_failed ext p pdata len w)"
proof -
  note set = advancing_set [OF assms]
  show "advancing p w (process_invite ext p pdata len w)"
    by (cases "pw_mem w p"; cases "mem_read pdata 1 1") (auto simp: process_invite_def intro!: set)
  show "advancing p w (process_capabilites ext p pdata len w)"
    by (cases "pw_mem w p"; cases "mem_read pdata 1 11") (auto simp: process_capabilites_def Let_def intro!: set)
  show "advancing p w (process_start ext p pdata len w)"
    by (cases "pw_mem w p"; cases "mem_read pdata 1 5") (auto simp: process_start_def Let_def intro!: set)
  show "advancing p w (process_public_key ext p pdata len w)"
    by (cases "pw_mem w p"; cases "mem_read pdata 1 64") (auto simp: process_public_key_def intro!: set)
  show "advancing p w (process_input_complete ext p pdata len w)"
    by (cases "pw_mem w p") (auto simp: process_input_complete_def intro!: set)
  show "advancing p w (process_complete ext p pdata len w)"
    by (cases "pw_mem w p") (auto simp: process_complete_def intro!: set)
  show "advancing p w (process_failed ext p pdata len w)"
    by (cases "mem_read pdata 1 1") (auto simp: process_failed_def intro!: set)
qed

lemma advancing_process_confirmation:
  assumes "quiet ext"
  shows "advancing p w (process_confirmation ext p pdata len w)"
proof (cases "pw_mem w p")
  case (Some d)
  have a: "advances p w (dev_upd p (\<lambda>d. d\<lparr>dv_state := MESHX_PROV_STATE_CONFIRMATION, dv_confirmation_remote := cfm\<rparr>) w)"
    if "\<not> dv_state d > MESHX_PROV_STATE_CONFIRMATION" for cfm
    by (rule advances_upd) (use Some that in auto)
  show ?thesis using Some
    by (cases "mem_read pdata 1 16")
      (auto simp: process_confirmation_def Let_def split_def intro!: advancing_bind advancing_from [OF a]
        advancing_tell [OF assms] advancing_ops elim!: advancing_from)
qed (simp add: process_confirmation_def)

lemma verify_keeps_state:
  assumes "pw_mem w p = Some d" "meshx_prov_verify_confirmation ext p w = Some (ok, w')"
  obtains d' where "pw_mem w' p = Some d'" "dv_state d' = dv_state d"
  using assms
  by (auto simp: meshx_prov_verify_confirmation_def meshx_prov_generate_confirmation_def on_env_def meshx_malloc_ok_def
      split: prod.splits bool.splits Option.bind_splits if_splits)

lemma advancing_process_random:
  assumes "quiet ext"
  shows "advancing p w (process_random ext p pdata len w)"
proof (cases "pw_mem w p")
  case (Some d)
  have k: "advancing p w (meshx_prov_calculate_session_device_key ext p w)" for w
    by (cases "pw_mem w p") (auto simp: meshx_prov_calculate_session_device_key_def intro!: advances_upd)
  have body: "advancing p w (do {
      (ok, w) \<leftarrow> meshx_prov_verify_confirmation ext p (dev_upd p (\<lambda>d. d\<lparr>dv_random_remote := rnd\<rparr>) w);
      if ok
      then do {
        (_, w) \<leftarrow>
          (let w = dev_upd p (\<lambda>d. d\<lparr>dv_state := MESHX_PROV_STATE_RANDOM\<rparr>) w
           in if dv_role d = MESHX_ROLE_DEVICE then meshx_prov_random (Some p) (Some (dv_random d)) w
              else Some (MESHX_SUCCESS, w));
        (_, w) \<leftarrow> meshx_prov_calculate_session_device_key ext p w;
        tell ext p (PROV_NOTIFY_RANDOM rnd) w
      }
      else refuse p MESHX_PROV_FAILED_CONFIMATION_FAILED MESHX_ERR_FAIL w
    })" (is "advancing p w (Option.bind _ ?f)") if guard: "\<not> dv_state d > MESHX_PROV_STATE_RANDOM" for rnd
  proof (rule advancing_from [OF advances_upd advancing_bind [OF advancing_verify]])
    let ?w1 = "dev_upd p (\<lambda>d. d\<lparr>dv_random_remote := rnd\<rparr>) w"
    fix ok w2 assume v: "meshx_prov_verify_confirmation ext p ?w1 = Some (ok, w2)"
    have m: "pw_mem ?w1 p = Some (d\<lparr>dv_random_remote := rnd\<rparr>)" using Some by simp
    obtain d2 where d2: "pw_mem w2 p = Some d2" "dv_state d2 = dv_state d"
      using verify_keeps_state [OF m v] by auto
    have a: "advances p w2 (dev_upd p (\<lambda>d. d\<lparr>dv_state := MESHX_PROV_STATE_RANDOM\<rparr>) w2)"
      by (rule advances_upd) (use d2 guard in auto)
    have r: "advancing p w2 (let w = dev_upd p (\<lambda>d. d\<lparr>dv_state := MESHX_PROV_STATE_RANDOM\<rparr>) w2
           in if dv_role d = MESHX_ROLE_DEVICE then meshx_prov_random (Some p) (Some (dv_random d)) w
              else Some (MESHX_SUCCESS, w))"
      using advancing_from [OF a advancing_random] a by (simp add: Let_def)
    show "advancing p ?w1 (?f (ok, w2))" if "advances p ?w1 w2"
      by (rule advancing_from [OF that], cases ok)
        (auto intro!: advancing_bind [OF r] advancing_bind [OF advancing_from [OF _ k]] advancing_from [OF _ advancing_tell [OF assms]]
          elim: advances_trans)
  qed simp
  show ?thesis using Some body
    by (cases "mem_read pdata 1 16") (auto simp: process_random_def)
qed (simp add: process_random_def)

lemma advancing_process_data:
  assumes "quiet ext"
  shows "advancing p w (process_data ext p pdata len w)"
proof (cases "pw_mem w p")
  case (Some d)
  have a: "advances p w (dev_upd p (\<lambda>d. d\<lparr>dv_data := data_of_bytes out (pd_mic (dv_data d))\<rparr>) w)" for out
    by (rule advances_upd) simp
  have b: "advances p w (dev_upd p (\<lambda>d. d\<lparr>dv_state := MESHX_PROV_STATE_DATA\<rparr>)
      (dev_upd p (\<lambda>d. d\<lparr>dv_data := data_of_bytes out (pd_mic (dv_data d))\<rparr>) w))"
    if "\<not> dv_state d > MESHX_PROV_STATE_DATA" for out
    by (rule advances_trans [OF a advances_upd]) (use Some that in auto)
  have t: "advancing p w (do { d \<leftarrow> pw_mem w p; tell ext p (PROV_NOTIFY_DATA (data_to_host (dv_data d))) w })" for w
    using advancing_tell [OF assms] by (cases "pw_mem w p") auto
  show ?thesis
  proof (cases "mem_read pdata 1 25"; cases "mem_read pdata 26 8")
    fix enc mic assume rd: "mem_read pdata 1 25 = Some enc" "mem_read pdata 26 8 = Some mic"
    obtain r out where dec: "meshx_aes_ccm_decrypt (ext_aes ext) (dv_session_key d) (take 13 (drop 3 (dv_session_nonce d)))
      [] enc mic (data_bytes (dv_data d)) = (r, out)" by (cases "meshx_aes_ccm_decrypt (ext_aes ext) (dv_session_key d)
        (take 13 (drop 3 (dv_session_nonce d))) [] enc mic (data_bytes (dv_data d))")
    show ?thesis using Some rd dec
      by (auto simp: process_data_def Let_def split_def not_less intro!: advancing_from [OF a advancing_refuse]
          advancing_from [OF b advancing_bind [OF advancing_complete]] advancing_from [OF _ t])
  qed (use Some in \<open>simp_all add: process_data_def\<close>)
qed (simp add: process_data_def)

lemma pdu_process_advancing:
  assumes "quiet ext"
  shows "advancing p w (meshx_prov_pdu_process ext p pdata len w)"
  using advancing_simple [OF assms] advancing_process_confirmation [OF assms] advancing_process_random [OF assms]
    advancing_process_data [OF assms]
  by (cases "mem_read pdata 0 1") (simp_all add: meshx_prov_pdu_process_def Let_def)

text \<open>Concrete devices: one that holds the confirmation of a provisioner, and one that has derived
  its session keys.\<close>

definition demo_peer :: pb_adv_dev where
  "demo_peer = dev_zero\<lparr>dv_role := MESHX_ROLE_PROVISIONER\<rparr>"

definition demo_confirmed :: pb_adv_dev where
  "demo_confirmed = demo_dev\<lparr>dv_state := MESHX_PROV_STATE_CONFIRMATION,
    dv_confirmation_remote := dv_confirmation (confirm demo_aes (zeros 16) demo_peer)\<rparr>"

definition demo_keyed :: pb_adv_dev where
  "demo_keyed = demo_dev\<lparr>dv_state := MESHX_PROV_STATE_RANDOM\<rparr>"

lemma demo_world_facts:
  "pw_mem (demo_prov_world d) 0 = Some d"
  "bearer_kind (demo_prov_world d) (Some BEARER_ADV) = Some MESHX_BEARER_TYPE_ADV"
  "mem_src (pw_env (demo_prov_world d)) n" "quiet demo_ext" "aes_block (ext_aes demo_ext)" "ext_aes demo_ext = demo_aes"
  using demo_aes_block
  by (simp_all add: demo_prov_world_def bearer_kind_def bearer_type_def demo_gap_def MESHX_BEARER_TYPE_ADV_def
      ok_env_def quiet_def demo_ext_def)

lemma demo_dev_fields [simp]:
  "dv_bearer demo_dev = Some BEARER_ADV" "dv_state demo_dev = MESHX_PROV_STATE_LINK_OPENED"
  "dv_session_key demo_dev = dv_session_key dev_zero" "dv_session_nonce demo_dev = dv_session_nonce dev_zero"
  by (simp_all add: demo_dev_def)

section \<open>Properties\<close>

text \<open>C8: The exchange of the random numbers authenticates and agrees: a device that holds the
  provisioner's confirmation accepts exactly the random number that opens it; it then holds the
  session key, nonce and device key that the provisioner derives, and otherwise it fails with
  the confirmation error, keeps the session key, nonce and device key it had, and reports
  nothing to the application.\<close>

theorem random_agrees:
  assumes "pw_mem w p = Some d" "bearer_kind w (dv_bearer d) = Some MESHX_BEARER_TYPE_ADV" "quiet ext"
    "mem_src (pw_env w) (mem_pos (pw_env w))" "mirrored e d" "dv_state d = MESHX_PROV_STATE_CONFIRMATION"
    "length rnd = 16" "17 \<le> unat len"
    "dv_confirmation_remote d = dv_confirmation (confirm (ext_aes ext) (dv_random e) e)"
  shows "\<exists>r w' d'. meshx_prov_pdu_process ext p (MESHX_PROV_TYPE_RANDOM # rnd @ rest) len w = Some (r, w') \<and>
    pw_mem w' p = Some d' \<and>
    (if dv_confirmation (confirm (ext_aes ext) rnd e) = dv_confirmation (confirm (ext_aes ext) (dv_random e) e)
     then r = MESHX_SUCCESS \<and> dv_state d' = MESHX_PROV_STATE_RANDOM \<and> pw_notes w' = pw_notes w @ [(p, PROV_NOTIFY_RANDOM rnd)] \<and>
       (let e' = session_keys (ext_aes ext) (confirm (ext_aes ext) (dv_random d)
                   (e\<lparr>dv_random := rnd, dv_random_remote := dv_random d\<rparr>))
        in dv_session_key d' = dv_session_key e' \<and> dv_session_nonce d' = dv_session_nonce e' \<and>
           dv_device_key d' = dv_device_key e')
     else r = MESHX_ERR_FAIL \<and> dv_state d' = MESHX_PROV_STATE_FAILED \<and>
       dv_err_code d' = MESHX_PROV_FAILED_CONFIMATION_FAILED \<and> dv_session_key d' = dv_session_key d \<and>
       dv_session_nonce d' = dv_session_nonce d \<and> dv_device_key d' = dv_device_key d \<and> pw_notes w' = pw_notes w)"
proof -
  let ?aes = "ext_aes ext"
  define d1 where "d1 = d\<lparr>dv_random_remote := rnd\<rparr>"
  define w1 where "w1 = dev_upd p (\<lambda>d. d\<lparr>dv_random_remote := rnd\<rparr>) w"
  have m1: "pw_mem w1 p = Some d1" "pw_gap w1 = pw_gap w" "pw_env w1 = pw_env w" "pw_notes w1 = pw_notes w"
    using assms(1) by (simp_all add: w1_def d1_def)
  have mir1: "mirrored e d1" using assms(5) by (simp add: mirrored_def d1_def)
  obtain w2 where w2: "meshx_prov_verify_confirmation ext p w1 =
      Some (dv_confirmation (confirm ?aes rnd d1) = dv_confirmation_remote d1, w2)"
    "pw_mem w2 p = Some (confirm ?aes rnd d1)" "pw_gap w2 = pw_gap w" "pw_notes w2 = pw_notes w"
    using verify_confirmation_ok [OF m1(1), of ext] assms(4) m1 by (auto simp: d1_def)
  have st: "dv_state d1 = MESHX_PROV_STATE_CONFIRMATION" using assms(6) by (simp add: d1_def)
  have rem: "dv_confirmation_remote d1 = dv_confirmation (confirm ?aes (dv_random e) e)"
    using assms(9) by (simp add: d1_def)
  have ok: "(dv_confirmation (confirm ?aes rnd d1) = dv_confirmation_remote d1) \<longleftrightarrow>
    dv_confirmation (confirm ?aes rnd e) = dv_confirmation (confirm ?aes (dv_random e) e)"
    using mirrored_confirm(1) [OF mir1, of ?aes rnd] by (simp only: rem)
  have b2: "bearer_kind w2 (dv_bearer d1) = Some MESHX_BEARER_TYPE_ADV"
    using assms(2) w2(3) by (simp add: bearer_kind_def d1_def)
  have start: "meshx_prov_pdu_process ext p (MESHX_PROV_TYPE_RANDOM # rnd @ rest) len w =
    process_random ext p (MESHX_PROV_TYPE_RANDOM # rnd @ rest) len w" by (rule pdu_process_random)
  have len: "\<not> unat len < 1 + 16" "\<not> dv_state d > MESHX_PROV_STATE_RANDOM"
    using assms(6,8) by (simp_all add: prov_order)
  show ?thesis
  proof (cases "dv_confirmation (confirm ?aes rnd e) = dv_confirmation (confirm ?aes (dv_random e) e)")
    case True
    define w3 where "w3 = dev_upd p (\<lambda>d. d\<lparr>dv_state := MESHX_PROV_STATE_RANDOM\<rparr>) w2"
    define d3 where "d3 = (confirm ?aes rnd d1)\<lparr>dv_state := MESHX_PROV_STATE_RANDOM\<rparr>"
    have m3: "pw_mem w3 p = Some d3" "bearer_kind w3 (dv_bearer d3) = Some MESHX_BEARER_TYPE_ADV"
      "dv_state d3 = MESHX_PROV_STATE_RANDOM" "pw_notes w3 = pw_notes w"
      using w2 b2 by (simp_all add: w3_def d3_def)
    obtain w4 v where w4: "meshx_prov_random (Some p) (Some (dv_random d)) w3 = Some (MESHX_SUCCESS, w4)"
      "pw_mem w4 p = Some ((require_by_role (d3\<lparr>dv_random := dv_random d\<rparr>))\<lparr>pa_timer_state := PB_ADV_TIMER_STATE_DELAY,
        pa_delay_type := PB_ADV_TIMER_DELAY_TYPE_PROV_PDU,
        pa_timer := snd (meshx_timer_start (pa_timer (require_by_role (d3\<lparr>dv_random := dv_random d\<rparr>))) v)\<rparr>)"
      (is "_ = Some ?d4") "pw_notes w4 = pw_notes w"
      using random_adv [OF m3(1-3), of "dv_random d"] m3(4) by auto
    define e' where "e' = confirm ?aes (dv_random d) (e\<lparr>dv_random := rnd, dv_random_remote := dv_random d\<rparr>)"
    have mir': "mirrored (e\<lparr>dv_random := rnd, dv_random_remote := dv_random d\<rparr>) d1" using mir1 by (simp add: mirrored_def)
    have salt: "dv_confirmation_salt e' = dv_confirmation_salt ?d4"
      using mirrored_confirm(2) [OF mir', of ?aes "dv_random d" rnd] by (simp add: e'_def d3_def)
    have same: "dv_session_key (session_keys ?aes e') = dv_session_key (session_keys ?aes ?d4)"
      "dv_session_nonce (session_keys ?aes e') = dv_session_nonce (session_keys ?aes ?d4)"
      "dv_device_key (session_keys ?aes e') = dv_device_key (session_keys ?aes ?d4)"
      by (rule session_keys_cong [OF salt]; use mir1 in \<open>simp add: e'_def d3_def d1_def mirrored_def\<close>)+
    have "process_random ext p (MESHX_PROV_TYPE_RANDOM # rnd @ rest) len w =
      tell ext p (PROV_NOTIFY_RANDOM rnd) (dev_upd p (session_keys ?aes) w4)"
      using assms(1,5) len w2(1) w4(1,2) ok True mem_read_payload [OF assms(7), of MESHX_PROV_TYPE_RANDOM rest]
      by (simp add: process_random_def w1_def [symmetric] w3_def [symmetric] mirrored_def
          meshx_prov_calculate_session_device_key_def cong: if_cong)
    then show ?thesis using True start w4(2,3) same tell_quiet [OF assms(3), of "dev_upd p (session_keys ?aes) w4" p]
      by (simp add: Let_def e'_def d3_def)
  next
    case False
    obtain w' d' where "refuse p MESHX_PROV_FAILED_CONFIMATION_FAILED MESHX_ERR_FAIL w2 = Some (MESHX_ERR_FAIL, w')"
      "pw_mem w' p = Some d'" "dv_state d' = MESHX_PROV_STATE_FAILED" "dv_err_code d' = MESHX_PROV_FAILED_CONFIMATION_FAILED"
      "dv_session_key d' = dv_session_key d" "dv_session_nonce d' = dv_session_nonce d" "dv_device_key d' = dv_device_key d"
      "pw_notes w' = pw_notes w2"
      using failed_adv [OF w2(2), of MESHX_PROV_FAILED_CONFIMATION_FAILED MESHX_ERR_FAIL] b2 st by (auto simp: prov_order d1_def)
    moreover have "process_random ext p (MESHX_PROV_TYPE_RANDOM # rnd @ rest) len w =
      refuse p MESHX_PROV_FAILED_CONFIMATION_FAILED MESHX_ERR_FAIL w2"
      using assms(1) len w2(1) ok False mem_read_payload [OF assms(7), of MESHX_PROV_TYPE_RANDOM rest]
      by (simp add: process_random_def w1_def [symmetric] cong: if_cong)
    ultimately show ?thesis using False start w2(4) by simp
  qed
qed

theorem random_agrees_witness:
  "\<exists>r w' d'. meshx_prov_pdu_process demo_ext 0 (MESHX_PROV_TYPE_RANDOM # zeros 16 @ []) 17 (demo_prov_world demo_confirmed) = Some (r, w') \<and>
    pw_mem w' 0 = Some d' \<and> dv_state d' = MESHX_PROV_STATE_RANDOM"
proof -
  have e: "dv_random demo_peer = zeros 16" by (simp add: demo_peer_def dev_zero_def)
  have "mirrored demo_peer demo_confirmed" by (simp add: mirrored_def demo_peer_def demo_confirmed_def demo_dev_def dev_zero_def)
  from random_agrees [where rnd = "zeros 16" and rest = "[]" and len = 17, OF demo_world_facts(1) _ demo_world_facts(4) demo_world_facts(3) this]
  show ?thesis by (simp add: e demo_confirmed_def demo_world_facts) fastforce
qed

lemma send_complete:
  "pw_mem w p = Some d \<Longrightarrow> dv_state d = MESHX_PROV_STATE_COMPLETE \<Longrightarrow>
    send_state_pdu p w = on_gap (pb_adv_send_trans (dv_bearer d) (pa_link_id d) (pa_tx_trans_num d) [MESHX_PROV_TYPE_COMPLETE]) w"
  by (simp add: send_state_pdu_def Let_def pb_adv_complete_def)

text \<open>C9: The provisioning data arrive: the data that the provisioner encrypts and sends (always
  the sample data of \<^verbatim>\<open>meshx_prov_data\<close>, whatever it is given) are, for a device with the same
  session key and nonce, accepted, stored in network order with the check value the device held
  before, and reported to the application in host order; the device is then complete, its delay
  timer runs for a unit, and the unit that its expiry sends is COMPLETE.\<close>

theorem prov_data_roundtrip:
  assumes "pw_mem v q = Some e" "bearer_kind v (dv_bearer e) = Some MESHX_BEARER_TYPE_ADV" "dv_state e = MESHX_PROV_STATE_RANDOM"
    "pw_mem w p = Some d" "bearer_kind w (dv_bearer d) = Some MESHX_BEARER_TYPE_ADV" "dv_state d = MESHX_PROV_STATE_RANDOM"
    "quiet ext" "aes_block (ext_aes ext)" "length (dv_session_nonce d) = 16"
    "dv_session_key e = dv_session_key d" "dv_session_nonce e = dv_session_nonce d" "34 \<le> unat len" "pa_timer d \<noteq> None"
  shows "\<exists>v' e' w' d'. meshx_prov_data ext (Some q) (Some x) v = Some (MESHX_SUCCESS, v') \<and> pw_mem v' q = Some e' \<and>
    meshx_prov_pdu_process ext p (MESHX_PROV_TYPE_DATA # data_bytes (dv_data e') @ pd_mic (dv_data e') @ rest) len w =
      Some (MESHX_SUCCESS, w') \<and>
    pw_mem w' p = Some d' \<and> dv_state d' = MESHX_PROV_STATE_COMPLETE \<and>
    dv_data d' = (data_to_be sample_prov_data)\<lparr>pd_mic := pd_mic (dv_data d)\<rparr> \<and>
    pw_notes w' = pw_notes w @ [(p, PROV_NOTIFY_DATA (sample_prov_data\<lparr>pd_mic := pd_mic (dv_data d)\<rparr>))] \<and>
    delay_running PB_ADV_TIMER_DELAY_TYPE_PROV_PDU d' \<and>
    send_state_pdu p w' = on_gap (pb_adv_send_trans (dv_bearer d') (pa_link_id d') (pa_tx_trans_num d') [MESHX_PROV_TYPE_COMPLETE]) w'"
proof -
  have l: "length (pd_net_key (data_to_be sample_prov_data)) = 16"
    by (simp add: data_to_be_def sample_prov_data_def sample_net_key1_def)
  have st: "dv_state d \<le> MESHX_PROV_STATE_DATA" using assms(6) by (simp add: prov_order)
  obtain v' e' where v': "meshx_prov_data ext (Some q) (Some x) v = Some (MESHX_SUCCESS, v')" "pw_mem v' q = Some e'"
    "dv_data e' = data_encrypt (ext_aes ext) (dv_session_key d) (dv_session_nonce d) (data_to_be sample_prov_data)"
    using data_adv [OF assms(1-3), of ext x] assms(10,11) by auto
  show ?thesis
    using v' process_data_accepts [OF assms(4,5,7,8,9) l st assms(12), of rest] assms(13) send_complete by fastforce
qed

theorem prov_data_roundtrip_witness:
  "\<exists>v' e' w' d'. meshx_prov_data demo_ext (Some 0) (Some sample_prov_data) (demo_prov_world demo_keyed) = Some (MESHX_SUCCESS, v') \<and>
    pw_mem v' 0 = Some e' \<and>
    meshx_prov_pdu_process demo_ext 0 (MESHX_PROV_TYPE_DATA # data_bytes (dv_data e') @ pd_mic (dv_data e') @ []) 34
      (demo_prov_world demo_keyed) = Some (MESHX_SUCCESS, w') \<and>
    pw_mem w' 0 = Some d' \<and> dv_state d' = MESHX_PROV_STATE_COMPLETE \<and>
    dv_data d' = (data_to_be sample_prov_data)\<lparr>pd_mic := pd_mic (dv_data demo_keyed)\<rparr> \<and>
    pw_notes w' = pw_notes (demo_prov_world demo_keyed) @
      [(0, PROV_NOTIFY_DATA (sample_prov_data\<lparr>pd_mic := pd_mic (dv_data demo_keyed)\<rparr>))] \<and>
    delay_running PB_ADV_TIMER_DELAY_TYPE_PROV_PDU d' \<and>
    send_state_pdu 0 w' = on_gap (pb_adv_send_trans (dv_bearer d') (pa_link_id d') (pa_tx_trans_num d') [MESHX_PROV_TYPE_COMPLETE]) w'"
  by (rule prov_data_roundtrip [OF demo_world_facts(1) _ _ demo_world_facts(1)])
    (simp_all add: demo_keyed_def demo_dev_def demo_world_facts demo_aes_block dev_zero_def)

text \<open>C27: Provisioning without authentication: the check of the state is only an upper bound, so a
  device whose link has just been opened, before any public key or confirmation was exchanged,
  accepts provisioning data encrypted under the all-zero session key it was created with.\<close>

theorem data_without_authentication:
  fixes x :: prov_data
  assumes "pw_mem w p = Some d" "bearer_kind w (dv_bearer d) = Some MESHX_BEARER_TYPE_ADV" "quiet ext"
    "aes_block (ext_aes ext)" "dv_state d = MESHX_PROV_STATE_LINK_OPENED"
    "dv_session_key d = dv_session_key dev_zero" "dv_session_nonce d = dv_session_nonce dev_zero"
    "length (pd_net_key x) = 16" "34 \<le> unat len"
  shows "\<exists>pdu w' d'. meshx_prov_pdu_process ext p pdu len w = Some (MESHX_SUCCESS, w') \<and>
    pw_mem w' p = Some d' \<and> dv_state d' = MESHX_PROV_STATE_COMPLETE \<and> pd_net_key (dv_data d') = pd_net_key x \<and>
    pd_unicast_address (dv_data d') = pd_unicast_address x"
proof -
  have "length (dv_session_nonce d) = 16" "dv_state d \<le> MESHX_PROV_STATE_DATA"
    using assms(5,7) by (simp_all add: dev_zero_def prov_order)
  from process_data_accepts [OF assms(1-4) this(1) assms(8) this(2) assms(9)] show ?thesis by fastforce
qed

theorem data_without_authentication_witness:
  "\<exists>pdu w' d'. meshx_prov_pdu_process demo_ext 0 pdu 34 (demo_prov_world demo_dev) = Some (MESHX_SUCCESS, w') \<and>
    pw_mem w' 0 = Some d' \<and> dv_state d' = MESHX_PROV_STATE_COMPLETE \<and>
    pd_net_key (dv_data d') = pd_net_key sample_prov_data \<and>
    pd_unicast_address (dv_data d') = pd_unicast_address sample_prov_data"
  by (rule data_without_authentication [OF demo_world_facts(1)])
    (simp_all add: demo_world_facts demo_aes_block sample_prov_data_def sample_net_key1_def)

text \<open>C28: The protocol only moves forwards: with an application that does nothing in its callback,
  processing any unit, well formed or not, leaves the device in a state that is not before the
  one it was in, or in failure, and never touches another device.\<close>

theorem pdu_process_monotone:
  assumes "quiet ext" "pw_mem w p = Some d" "meshx_prov_pdu_process ext p pdata len w = Some (r, w')"
  shows "(\<exists>d'. pw_mem w' p = Some d' \<and> (dv_state d \<le> dv_state d' \<or> MESHX_PROV_STATE_FAILED \<le> dv_state d')) \<and>
    (\<forall>q. q \<noteq> p \<longrightarrow> pw_mem w' q = pw_mem w q)"
  using pdu_process_advancing [OF assms(1), of p w pdata len] assms(2,3) by (auto simp: advancing_def advances_def)

theorem pdu_process_monotone_witness:
  "\<exists>r w' d'. meshx_prov_pdu_process demo_ext 0 [0, 5] 2 (demo_prov_world demo_dev) = Some (r, w') \<and> pw_mem w' 0 = Some d' \<and>
    (MESHX_PROV_STATE_LINK_OPENED \<le> dv_state d' \<or> MESHX_PROV_STATE_FAILED \<le> dv_state d')"
proof -
  obtain r w' where r: "meshx_prov_pdu_process demo_ext 0 [0, 5] 2 (demo_prov_world demo_dev) = Some (r, w')"
    by (simp add: meshx_prov_pdu_process_def mem_read_def prov_types process_invite_def demo_world_facts prov_order
        tell_quiet [OF demo_world_facts(4)])
  show ?thesis using pdu_process_monotone [OF demo_world_facts(4,1) r] r by auto
qed

end
