(* ===== verification/Mesh_Prov_Link.thy ===== *)
theory Mesh_Prov_Link
  imports Mesh_Prov_Facts
begin

text \<open>
  The life of a PB-ADV link: its establishment between a provisioner and a device, the retries
  that end it when the peer is silent, its close, and a close that hits the wrong device.
\<close>

section \<open>The bearer while packets are sent\<close>













text \<open>The unit of a state, as bytes.\<close>

definition state_unit :: "pb_adv_dev \<Rightarrow> bytes" where
  "state_unit d =
    (case dv_state d of
       MESHX_PROV_STATE_INVITE \<Rightarrow> [MESHX_PROV_TYPE_INVITE, dv_invite d]
     | MESHX_PROV_STATE_CAPABILITES \<Rightarrow> MESHX_PROV_TYPE_CAPABILITES # cap_bytes (dv_capabilites d)
     | MESHX_PROV_STATE_START \<Rightarrow> MESHX_PROV_TYPE_START # start_bytes (dv_start d)
     | MESHX_PROV_STATE_PUBLIC_KEY \<Rightarrow> MESHX_PROV_TYPE_PUBLIC_KEY # dv_public_key d
     | MESHX_PROV_STATE_INPUT_COMPLETE \<Rightarrow> [MESHX_PROV_TYPE_INPUT_COMPLETE]
     | MESHX_PROV_STATE_CONFIRMATION \<Rightarrow> MESHX_PROV_TYPE_CONFIRMATION # dv_confirmation d
     | MESHX_PROV_STATE_RANDOM \<Rightarrow> MESHX_PROV_TYPE_RANDOM # dv_random d
     | MESHX_PROV_STATE_DATA \<Rightarrow> MESHX_PROV_TYPE_DATA # data_bytes (dv_data d) @ pd_mic (dv_data d)
     | MESHX_PROV_STATE_COMPLETE \<Rightarrow> [MESHX_PROV_TYPE_COMPLETE]
     | _ \<Rightarrow> [MESHX_PROV_TYPE_FAILED, dv_err_code d])"




section \<open>Timeouts\<close>




text \<open>A device waiting with its repeated timer running for retries.\<close>

definition has_repeated :: "pb_adv_dev \<Rightarrow> bool" where
  "has_repeated d \<longleftrightarrow> (case pa_timer d of None \<Rightarrow> False | Some tm \<Rightarrow> tm_mode tm = MESHX_TIMER_MODE_REPEATED)"

lemma has_repeated_start [simp]:
  "has_repeated (d\<lparr>pa_timer := snd (meshx_timer_start (pa_timer d) i)\<rparr>) = has_repeated d"
  "has_repeated (d\<lparr>pa_timer := snd (meshx_timer_stop (pa_timer d))\<rparr>) = has_repeated d"
  by (simp_all add: has_repeated_def meshx_timer_start_def meshx_timer_stop_def split: option.splits)






text \<open>What a device transmits: the unit of its state, and the close of its link.\<close>

definition unit_send :: "pb_adv_dev \<Rightarrow> gap_state \<Rightarrow> (errno \<times> gap_state) option" where
  "unit_send d = pb_adv_send_trans (dv_bearer d) (pa_link_id d) (pa_tx_trans_num d) (state_unit d)"

definition air_reason :: "u8 \<Rightarrow> u8" where
  "air_reason reason = (if reason = MESHX_PROV_LINK_CLOSE_LINK_LOSS then MESHX_PROV_LINK_CLOSE_TIMEOUT else reason)"

definition close_send :: "pb_adv_dev \<Rightarrow> u8 \<Rightarrow> gap_state \<Rightarrow> (errno \<times> gap_state) option" where
  "close_send d reason = pb_adv_link_close (dv_bearer d) (pa_link_id d) (air_reason reason)"

lemma unit_send_retry [simp]: "unit_send (d\<lparr>pa_retry_time := t\<rparr>) = unit_send d"
  by (cases "dv_state d") (simp_all add: unit_send_def state_unit_def)

lemma close_send_retry [simp]: "close_send (d\<lparr>pa_retry_time := t\<rparr>) = close_send d"
  by (rule ext) (simp add: close_send_def)


lemma notify_close:
  assumes "quiet ext" "pw_mem w p = Some d" "bearer_kind w (dv_bearer d) = Some MESHX_BEARER_TYPE_ADV"
  shows "\<exists>r w'. meshx_prov_handle_notify ext b p (PROV_NOTIFY_LINK_CLOSE reason) w = Some (r, w') \<and>
    pw_mem w' p = None \<and> pb_adv_devs w' = remove1 p (pb_adv_devs w) \<and>
    pw_notes w' = pw_notes w @ [(p, PROV_NOTIFY_LINK_CLOSE reason)] \<and> pw_gap w' = pw_gap w"
proof -
  have del: "\<exists>w'. meshx_prov_delete_device (Some p) v = Some w' \<and> pw_mem w' p = None \<and>
      pb_adv_devs w' = remove1 p (pb_adv_devs v) \<and> pw_notes w' = pw_notes v \<and> pw_gap w' = pw_gap v"
    if "pw_mem v = pw_mem w" "pw_gap v = pw_gap w" for v
    using assms(2,3) that
    by (auto simp: meshx_prov_delete_device_def meshx_pb_adv_delete_device_def bearer_kind_def Let_def dev_upd_def)
  obtain u where u: "meshx_node_param_get MESHX_NODE_PARAM_TYPE_UDB_INTERVAL (zeros 4) (pw_node w) = Some (MESHX_SUCCESS, u)"
    by (simp add: meshx_node_param_get_def mem_write_def)
  show ?thesis
  proof (cases "node_addr (param (pw_node w)) = MESHX_ADDRESS_UNASSIGNED")
    case True
    then show ?thesis using assms(1) del [of "w\<lparr>pw_notes := pw_notes w @ [(p, PROV_NOTIFY_LINK_CLOSE reason)]\<rparr>"]
      by (auto simp: meshx_prov_handle_notify_def meshx_notify_def quiet_def notify_default_def)
  next
    case False
    obtain r s e where "meshx_beacon_start (pw_node w) (pw_gap w) b MESHX_BEACON_TYPE_UDB (of_mem32 u) (pw_beacon w, pw_env w) = (r, s, e)"
      by (cases "meshx_beacon_start (pw_node w) (pw_gap w) b MESHX_BEACON_TYPE_UDB (of_mem32 u) (pw_beacon w, pw_env w)")
    then show ?thesis using False u assms(1)
        del [of "w\<lparr>pw_beacon := s, pw_env := e, pw_notes := pw_notes w @ [(p, PROV_NOTIFY_LINK_CLOSE reason)]\<rparr>"]
      by (auto simp: meshx_prov_handle_notify_def meshx_notify_def quiet_def notify_default_def)
  qed
qed








section \<open>Link control packets\<close>

text \<open>A link control packet, and the dispatch on it.\<close>

definition ctl_pkt :: "u32 \<Rightarrow> u8 \<Rightarrow> bytes \<Rightarrow> bytes" where
  "ctl_pkt l opcode x = be32 l @ [MESHX_BEARER_CTL_TRANS_NUM, gpcf_byte MESHX_GPCF_BEARER_CTL opcode] @ x"

lemma ctl_pkt_fields:
  assumes "opcode < 64"
  shows "link_id_of (ctl_pkt l opcode x) = Some l" "ctl_pkt l opcode x ! 4 = MESHX_BEARER_CTL_TRANS_NUM"
    "mem_read (ctl_pkt l opcode x) 5 1 = Some [ctl_pkt l opcode x ! 5]" "ctl_pkt l opcode x ! 5 AND 3 = MESHX_GPCF_BEARER_CTL"
    "drop_bit 2 (ctl_pkt l opcode x ! 5) = opcode" "length (ctl_pkt l opcode x) = 6 + length x"
    "mem_read (ctl_pkt l opcode x) 6 (length x) = Some x"
proof -
  obtain a b c d where l: "be32 l = [a, b, c, d]" using be32_cons by blast
  have l': "of_be32 [a, b, c, d] = l" using be32_roundtrip [of l] l by simp
  show "link_id_of (ctl_pkt l opcode x) = Some l" "ctl_pkt l opcode x ! 4 = MESHX_BEARER_CTL_TRANS_NUM"
    "mem_read (ctl_pkt l opcode x) 5 1 = Some [ctl_pkt l opcode x ! 5]" "length (ctl_pkt l opcode x) = 6 + length x"
    "mem_read (ctl_pkt l opcode x) 6 (length x) = Some x"
    by (simp_all add: link_id_of_def mem_read_def ctl_pkt_def l l')
  show "ctl_pkt l opcode x ! 5 AND 3 = MESHX_GPCF_BEARER_CTL" "drop_bit 2 (ctl_pkt l opcode x ! 5) = opcode"
    using gpcf_byte_fields [OF _ assms, of MESHX_GPCF_BEARER_CTL] by (simp_all add: ctl_pkt_def l gpcf_codes)
qed

lemma receive_ctl:
  assumes "bearer_kind w b = Some MESHX_BEARER_TYPE_ADV" "opcode < 64"
  shows "meshx_pb_adv_receive ext b (ctl_pkt l opcode x) w =
    (if opcode = MESHX_BEARER_LINK_OPEN then meshx_pb_adv_recv_link_open ext b (ctl_pkt l opcode x) w
     else if opcode = MESHX_BEARER_LINK_ACK then meshx_pb_adv_recv_link_ack ext b (ctl_pkt l opcode x) w
     else if opcode = MESHX_BEARER_LINK_CLOSE then meshx_pb_adv_recv_link_close ext b (ctl_pkt l opcode x) w
     else Some (MESHX_ERR_INVAL, w))"
  using ctl_pkt_fields [OF assms(2), of l x] assms(1)
  by (simp add: meshx_pb_adv_receive_def meshx_pb_adv_recv_bearer_ctl_def gpcf_codes Let_def)

lemma find_link_last:
  "\<forall>q \<in> set (ps @ [p]). \<forall>d. pw_mem w q = Some d \<longrightarrow> pa_link_id d \<noteq> l \<Longrightarrow> find_link_loop w l c (ps @ [p]) = Some p"
  by (induction ps arbitrary: c) (auto split: option.split)

lemma notify_open:
  assumes "quiet ext"
  shows "meshx_prov_handle_notify ext b p (PROV_NOTIFY_LINK_OPEN MESHX_PROV_LINK_OPEN_SUCCESS) w =
    Some (MESHX_SUCCESS, w\<lparr>pw_beacon := meshx_beacon_stop MESHX_BEACON_TYPE_UDB (pw_beacon w),
      pw_notes := pw_notes w @ [(p, PROV_NOTIFY_LINK_OPEN MESHX_PROV_LINK_OPEN_SUCCESS)]\<rparr>)"
  using assms by (simp add: meshx_prov_handle_notify_def meshx_notify_def quiet_def notify_default_def)


section \<open>Properties\<close>




text \<open>C29: A stray close hits the wrong link: a LINK_CLOSE whose link id belongs to no device
  closes and deletes the last device of the list, whose application is told that its own link
  was closed.\<close>

theorem stray_link_close:
  assumes "quiet ext" "bearer_kind w b = Some MESHX_BEARER_TYPE_ADV" "pb_adv_devs w = ps @ [p]" "pw_mem w p = Some d"
    "bearer_kind w (dv_bearer d) = Some MESHX_BEARER_TYPE_ADV"
    "\<forall>q \<in> set (pb_adv_devs w). \<forall>e. pw_mem w q = Some e \<longrightarrow> pa_link_id e \<noteq> l"
  shows "\<exists>w'. meshx_pb_adv_receive ext b (ctl_pkt l MESHX_BEARER_LINK_CLOSE [reason]) w = Some (MESHX_SUCCESS, w') \<and>
    pw_mem w' p = None \<and> pb_adv_devs w' = remove1 p (pb_adv_devs w) \<and>
    pw_notes w' = pw_notes w @ [(p, PROV_NOTIFY_LINK_CLOSE reason)]"
proof -
  define w1 where "w1 = (if pa_timer d \<noteq> None then dev_timer_stop p w else w)"
  define d1 where "d1 = (if pa_timer d \<noteq> None then d\<lparr>pa_timer := snd (meshx_timer_stop (pa_timer d))\<rparr> else d)"
  have c: "MESHX_BEARER_LINK_CLOSE < 64" by (simp add: MESHX_BEARER_LINK_CLOSE_def)
  have m: "pw_mem w1 p = Some d1" "pb_adv_devs w1 = pb_adv_devs w" "pw_notes w1 = pw_notes w" "dv_bearer d1 = dv_bearer d"
    "bearer_kind w1 (dv_bearer d) = bearer_kind w (dv_bearer d)"
    using assms(4) by (simp_all add: w1_def d1_def bearer_kind_def)
  obtain r w' where n: "meshx_prov_handle_notify ext (dv_bearer d) p (PROV_NOTIFY_LINK_CLOSE reason) w1 = Some (r, w')"
    "pw_mem w' p = None" "pb_adv_devs w' = remove1 p (pb_adv_devs w)" "pw_notes w' = pw_notes w @ [(p, PROV_NOTIFY_LINK_CLOSE reason)]"
    using notify_close [OF assms(1) m(1), of "dv_bearer d" reason] m assms(5) by auto
  have f: "meshx_find_prov_dev_by_link_id l w = Some p"
    using find_link_last [of ps p w l] assms(3,6) by (simp add: meshx_find_prov_dev_by_link_id_def)
  have "meshx_pb_adv_recv_link_close ext b (ctl_pkt l MESHX_BEARER_LINK_CLOSE [reason]) w =
    do { (_, w) \<leftarrow> meshx_prov_handle_notify ext (dv_bearer d) p (PROV_NOTIFY_LINK_CLOSE reason) w1; Some (MESHX_SUCCESS, w) }"
    using ctl_pkt_fields [OF c, of l "[reason]"] f assms(4)
    by (simp add: meshx_pb_adv_recv_link_close_def w1_def cong: if_cong)
  then show ?thesis using n receive_ctl [OF assms(2) c, of ext l "[reason]"]
    by (simp add: MESHX_BEARER_LINK_OPEN_def MESHX_BEARER_LINK_ACK_def MESHX_BEARER_LINK_CLOSE_def)
qed

theorem stray_link_close_witness:
  "\<exists>w'. meshx_pb_adv_receive demo_ext (Some BEARER_ADV) (ctl_pkt 7 MESHX_BEARER_LINK_CLOSE [0]) (demo_prov_world demo_dev)
      = Some (MESHX_SUCCESS, w') \<and> pw_mem w' 0 = None \<and> pb_adv_devs w' = []"
proof -
  have "pb_adv_devs (demo_prov_world demo_dev) = [] @ [0]"
    "\<forall>q \<in> set (pb_adv_devs (demo_prov_world demo_dev)). \<forall>e. pw_mem (demo_prov_world demo_dev) q = Some e \<longrightarrow> pa_link_id e \<noteq> 7"
    by (simp_all add: demo_prov_world_def demo_dev_def)
  from stray_link_close [OF demo_world_facts(4) demo_world_facts(2) this(1) demo_world_facts(1) _ this(2), of 0] show ?thesis
    by (simp add: demo_world_facts) (auto simp: demo_prov_world_def)
qed

end
