(* ===== verification/Mesh_World.thy ===== *)
theory Mesh_World
  imports Mesh_Gap Mesh_Key Mesh_Iv_Index Mesh_Node Mesh_Nmc
begin

text \<open>
  The state the layers of the mesh stack share, from the network layer to the access layer:
  the context of a message (\<^verbatim>\<open>meshx_msg_ctx_t\<close> of \<^verbatim>\<open>mesh/inc/meshx_common.h\<close>), the
  network interfaces (\<^verbatim>\<open>mesh/network/meshx_net_internal.h\<close>), the tasks of the lower
  transport layer and the reassembly contexts of the proxy protocol.  Pointers to interfaces,
  tasks and contexts are numbers; a pointer to a network key is the address of its table
  entry and the index of one of its two values.
\<close>

unbundle bit_operations_syntax

section \<open>Message context\<close>

text \<open>The byte \<^verbatim>\<open>mc_misc\<close> is the union of the fields akf, szmic and aid of an access message
  with the opcode of a control message.\<close>

record msg_ctx =
  mc_src :: u16
  mc_dst :: u16
  mc_ttl :: u8
  mc_ctl :: bool
  mc_seq :: u32
  mc_iv_index :: u32
  mc_seq_auth :: u32
  mc_seg :: bool
  mc_net_key :: "(nat \<times> nat) option"
  mc_net_iface :: "nat option"
  mc_misc :: u8
  mc_key :: "bytes option"

definition mc_akf :: "msg_ctx \<Rightarrow> bool" where "mc_akf c = bit (mc_misc c) 0"
definition mc_szmic :: "msg_ctx \<Rightarrow> bool" where "mc_szmic c = bit (mc_misc c) 1"
definition mc_aid :: "msg_ctx \<Rightarrow> u8" where "mc_aid c = drop_bit 2 (mc_misc c)"
definition mc_opcode :: "msg_ctx \<Rightarrow> u8" where "mc_opcode c = mc_misc c"

definition access_misc :: "bool \<Rightarrow> bool \<Rightarrow> u8 \<Rightarrow> u8" where
  "access_misc akf szmic a = of_bool akf OR push_bit 1 (of_bool szmic) OR push_bit 2 a"

text \<open>A value stored in a field of 24 bits.\<close>

definition low24 :: "u32 \<Rightarrow> u32" where
  "low24 x = x AND 0xFFFFFF"

definition mc_zero :: msg_ctx where
  "mc_zero = \<lparr>mc_src = 0, mc_dst = 0, mc_ttl = 0, mc_ctl = False, mc_seq = 0, mc_iv_index = 0,
    mc_seq_auth = 0, mc_seg = False, mc_net_key = None, mc_net_iface = None, mc_misc = 0, mc_key = None\<rparr>"

section \<open>Network interfaces\<close>

record iface_filter_info =
  total_receive :: u32
  filtered_receive :: u32
  total_send :: u32
  filtered_send :: u32

text \<open>The filters are functions of the application: of the interface, and for the output also
  of source and destination.\<close>

record net_iface =
  ni_type :: u8
  ni_bearer :: meshx_bearer_t
  ni_ifilter :: "(nat \<Rightarrow> bool) option"
  ni_ofilter :: "(nat \<Rightarrow> u16 \<Rightarrow> u16 \<Rightarrow> bool) option"
  ni_info :: iface_filter_info

section \<open>Transport tasks and proxy contexts\<close>

record tx_task =
  tt_ctx :: msg_ctx
  tt_pdu :: "bytes option"
  tt_pdu_len :: u16
  tt_seg_bits :: u32
  tt_block_ack :: u32
  tt_timer :: meshx_timer_t
  tt_retry :: u8

text \<open>The flag \<^verbatim>\<open>rt_dangling\<close> is set while a timer handle of the task points to a timer
  that was deleted.\<close>

record rx_task =
  rt_ctx :: msg_ctx
  rt_pdu :: "bytes option"
  rt_pdu_len :: u16
  rt_max_len :: u16
  rt_not_received :: u32
  rt_block_ack :: u32
  rt_ack_timer :: meshx_timer_t
  rt_incomplete_timer :: meshx_timer_t
  rt_dangling :: bool

definition tx_task_zero :: tx_task where
  "tx_task_zero = \<lparr>tt_ctx = mc_zero, tt_pdu = None, tt_pdu_len = 0, tt_seg_bits = 0,
    tt_block_ack = 0, tt_timer = None, tt_retry = 0\<rparr>"

definition rx_task_zero :: rx_task where
  "rx_task_zero = \<lparr>rt_ctx = mc_zero, rt_pdu = None, rt_pdu_len = 0, rt_max_len = 0,
    rt_not_received = 0, rt_block_ack = 0, rt_ack_timer = None, rt_incomplete_timer = None, rt_dangling = False\<rparr>"

record proxy_rx =
  px_bearer :: meshx_bearer_t
  px_msg_type :: u8
  px_data :: bytes
  px_data_len :: u16
  px_max_len :: u16
  px_timer :: meshx_timer_t

section \<open>The world\<close>

text \<open>Beside the states of the lower components: the interfaces (heap and list), the GATT
  bearers (handle of the connection and interface), the GATT notifications sent (connection,
  characteristic, value), the task pools, the proxy contexts, the access messages delivered,
  the value handles of the four characteristics, and what uninitialised memory holds.\<close>

record mesh_world =
  mw_gap :: gap_state
  mw_env :: sys_env
  mw_node :: meshx_node_params
  mw_keys :: key_store
  mw_iv :: iv_world
  mw_nmc :: nmc_state
  mw_iface_mem :: "nat \<Rightarrow> net_iface option"
  mw_ifaces :: "nat list"
  mw_next :: nat
  mw_gatt :: "(u16 \<times> nat option) list"
  mw_gatt_out :: "(u16 \<times> u16 \<times> bytes) list"
  mw_tx :: "nat \<Rightarrow> tx_task"
  tx_idle :: "nat list"
  tx_active :: "nat list"
  tx_pending :: "nat list"
  mw_rx :: "nat \<Rightarrow> rx_task"
  rx_idle :: "nat list"
  rx_active :: "nat list"
  mw_proxy :: "(nat \<times> proxy_rx) list"
  mw_delivered :: "(bytes \<times> msg_ctx) list"
  mw_proxy_out :: u16
  mw_prov_out :: u16
  mw_proxy_in :: u16
  mw_prov_in :: u16
  mw_junk :: "nat \<Rightarrow> u8"

definition junk :: "mesh_world \<Rightarrow> nat \<Rightarrow> bytes" where
  "junk w n = map (mw_junk w) [0..<n]"

lemma length_junk [simp]: "length (junk w n) = n"
  by (simp add: junk_def)

definition tx_upd :: "nat \<Rightarrow> (tx_task \<Rightarrow> tx_task) \<Rightarrow> mesh_world \<Rightarrow> mesh_world" where
  "tx_upd p f w = w\<lparr>mw_tx := (mw_tx w)(p := f (mw_tx w p))\<rparr>"

definition rx_upd :: "nat \<Rightarrow> (rx_task \<Rightarrow> rx_task) \<Rightarrow> mesh_world \<Rightarrow> mesh_world" where
  "rx_upd p f w = w\<lparr>mw_rx := (mw_rx w)(p := f (mw_rx w p))\<rparr>"

definition on_menv :: "(sys_env \<Rightarrow> 'a \<times> sys_env) \<Rightarrow> mesh_world \<Rightarrow> 'a \<times> mesh_world" where
  "on_menv f w = (let (a, e) = f (mw_env w) in (a, w\<lparr>mw_env := e\<rparr>))"

text \<open>A network key value through its pointer; a deleted entry is a dangling pointer.\<close>

definition net_key_at :: "nat \<times> nat \<Rightarrow> key_store \<Rightarrow> net_key_value option" where
  "net_key_at r s = (case find (\<lambda>k. nk_addr k = fst r) (meshx_net_keys s) of
     None \<Rightarrow> None
   | Some k \<Rightarrow> Some (if snd r = 0 then nk_value0 k else nk_value1 k))"

text \<open>The fields of the access union.\<close>

lemma access_misc_fields:
  assumes "a < 64"
  shows "bit (access_misc akf szmic a) 0 = akf" "bit (access_misc akf szmic a) 1 = szmic"
    "drop_bit 2 (access_misc akf szmic a) = a"
proof -
  have "bit a n \<Longrightarrow> n < 6" for n
    using assms bit_below [of a 6 n] by (simp add: word_less_nat_alt)
  then show "drop_bit 2 (access_misc akf szmic a) = a"
    by (auto intro!: bit_word_eqI simp: access_misc_def bit_simps)
  show "bit (access_misc akf szmic a) 0 = akf" "bit (access_misc akf szmic a) 1 = szmic"
    by (simp_all add: access_misc_def bit_simps)
qed

end
