(* ===== verification/Mesh_Net_Iface.thy ===== *)
theory Mesh_Net_Iface
  imports Mesh_World
begin

text \<open>
  The network interfaces, \<^verbatim>\<open>mesh/network/meshx_net_iface.c\<close>, and the registry of GATT
  bearers of \<^verbatim>\<open>mesh/bearer/meshx_bearer_gatt.c\<close> they connect to.  The result \<^verbatim>\<open>None\<close> is a
  pointer to no interface or bearer, a filter that is a null pointer, or the assertion of the
  list operations.
\<close>

definition MESHX_NET_IFACE_TYPE_INVALID :: u8 where "MESHX_NET_IFACE_TYPE_INVALID = 0"
definition MESHX_NET_IFACE_TYPE_ADV :: u8 where "MESHX_NET_IFACE_TYPE_ADV = 1"
definition MESHX_NET_IFACE_TYPE_GATT :: u8 where "MESHX_NET_IFACE_TYPE_GATT = 2"
definition MESHX_NET_IFACE_TYPE_LOOPBACK :: u8 where "MESHX_NET_IFACE_TYPE_LOOPBACK = 3"

definition MESHX_NET_IFACE_MAX_NUM :: nat where "MESHX_NET_IFACE_MAX_NUM = 9"

lemmas iface_types = MESHX_NET_IFACE_TYPE_INVALID_def MESHX_NET_IFACE_TYPE_ADV_def
  MESHX_NET_IFACE_TYPE_GATT_def MESHX_NET_IFACE_TYPE_LOOPBACK_def

section \<open>Bearers\<close>

definition meshx_bearer_gatt_init :: "mesh_world \<Rightarrow> errno \<times> mesh_world" where
  "meshx_bearer_gatt_init w = (MESHX_SUCCESS, w\<lparr>mw_gatt := []\<rparr>)"

fun gatt_get_loop :: "u16 \<Rightarrow> (u16 \<times> nat option) list \<Rightarrow> meshx_bearer_t" where
  "gatt_get_loop conn_handle [] = None"
| "gatt_get_loop conn_handle (x # xs) =
    (if fst x = conn_handle then Some (BEARER_GATT (fst x)) else gatt_get_loop conn_handle xs)"

definition meshx_bearer_gatt_get :: "u16 \<Rightarrow> mesh_world \<Rightarrow> meshx_bearer_t" where
  "meshx_bearer_gatt_get conn_handle w = gatt_get_loop conn_handle (mw_gatt w)"

definition meshx_bearer_gatt_exists :: "bearer \<Rightarrow> mesh_world \<Rightarrow> bool" where
  "meshx_bearer_gatt_exists b w \<longleftrightarrow> list_ex (\<lambda>x. BEARER_GATT (fst x) = b) (mw_gatt w)"

definition meshx_bearer_gatt_create :: "u16 \<Rightarrow> mesh_world \<Rightarrow> meshx_bearer_t \<times> mesh_world" where
  "meshx_bearer_gatt_create conn_handle w = (None, w)"

definition meshx_bearer_gatt_delete :: "meshx_bearer_t \<Rightarrow> mesh_world \<Rightarrow> mesh_world option" where
  "meshx_bearer_gatt_delete b w = (case b of None \<Rightarrow> None | Some _ \<Rightarrow> Some w)"

definition meshx_bearer_gatt_mtu_get :: "meshx_bearer_t \<Rightarrow> u16" where
  "meshx_bearer_gatt_mtu_get b = 1"

text \<open>The platform's notification succeeds; what is sent is recorded.\<close>

definition meshx_gatts_notify :: "u16 \<Rightarrow> u16 \<Rightarrow> bytes \<Rightarrow> mesh_world \<Rightarrow> errno \<times> mesh_world" where
  "meshx_gatts_notify conn_handle char_value_handle pdata w =
    (MESHX_SUCCESS, w\<lparr>mw_gatt_out := mw_gatt_out w @ [(conn_handle, char_value_handle, pdata)]\<rparr>)"

definition meshx_bearer_gatt_send :: "meshx_bearer_t \<Rightarrow> u16 \<Rightarrow> bytes \<Rightarrow> mesh_world \<Rightarrow> errno \<times> mesh_world" where
  "meshx_bearer_gatt_send b char_value_handle pdata w =
    (case b of
       Some (BEARER_GATT h) \<Rightarrow>
         if meshx_bearer_gatt_exists (BEARER_GATT h) w then meshx_gatts_notify h char_value_handle pdata w
         else (MESHX_ERR_INVAL, w)
     | _ \<Rightarrow> (MESHX_ERR_INVAL, w))"

text \<open>The deletion of a bearer of either kind, and what the two initialisers leave.\<close>

definition meshx_bearer_delete :: "meshx_bearer_t \<Rightarrow> mesh_world \<Rightarrow> mesh_world option" where
  "meshx_bearer_delete b w =
    (case b of
       None \<Rightarrow> Some w
     | Some h \<Rightarrow>
         if bearer_type (mw_gap w) h = MESHX_BEARER_TYPE_ADV
         then do { g \<leftarrow> meshx_bearer_adv_delete b (mw_gap w); Some (w\<lparr>mw_gap := g\<rparr>) }
         else if bearer_type (mw_gap w) h = MESHX_BEARER_TYPE_GATT then meshx_bearer_gatt_delete b w
         else Some w)"

definition meshx_bearer_init :: "mesh_world \<Rightarrow> errno \<times> mesh_world" where
  "meshx_bearer_init w =
    (MESHX_SUCCESS,
     if gatt_bearer_enable (config (mw_node w)) then snd (meshx_bearer_gatt_init w) else w)"

text \<open>The field \<^verbatim>\<open>net_iface\<close> of a bearer.\<close>

definition bearer_iface :: "bearer \<Rightarrow> mesh_world \<Rightarrow> nat option option" where
  "bearer_iface b w =
    (case b of
       BEARER_ADV \<Rightarrow> Some (adv_bearer_iface (mw_gap w))
     | BEARER_GATT h \<Rightarrow> map_of (mw_gatt w) h)"

definition set_bearer_iface :: "bearer \<Rightarrow> nat option \<Rightarrow> mesh_world \<Rightarrow> mesh_world" where
  "set_bearer_iface b x w =
    (case b of
       BEARER_ADV \<Rightarrow> w\<lparr>mw_gap := (mw_gap w)\<lparr>adv_bearer_iface := x\<rparr>\<rparr>
     | BEARER_GATT h \<Rightarrow> w\<lparr>mw_gatt := map (\<lambda>e. if fst e = h then (h, x) else e) (mw_gatt w)\<rparr>)"

section \<open>Interfaces\<close>

definition iface_info_zero :: iface_filter_info where
  "iface_info_zero = \<lparr>total_receive = 0, filtered_receive = 0, total_send = 0, filtered_send = 0\<rparr>"

definition meshx_net_default_ifilter :: "nat \<Rightarrow> bool" where
  "meshx_net_default_ifilter net_iface = True"

definition meshx_net_default_ofilter :: "nat \<Rightarrow> u16 \<Rightarrow> u16 \<Rightarrow> bool" where
  "meshx_net_default_ofilter net_iface src_addr dst_addr = True"

definition iface_upd :: "nat \<Rightarrow> (net_iface \<Rightarrow> net_iface) \<Rightarrow> mesh_world \<Rightarrow> mesh_world" where
  "iface_upd a f w = w\<lparr>mw_iface_mem := (mw_iface_mem w)(a := map_option f (mw_iface_mem w a))\<rparr>"

text \<open>A new interface: its memory holds what the allocation left there.\<close>

definition meshx_request_net_iface :: "net_iface \<Rightarrow> mesh_world \<Rightarrow> nat option \<times> mesh_world" where
  "meshx_request_net_iface left w =
    (if length (mw_ifaces w) \<ge> MESHX_NET_IFACE_MAX_NUM then (None, w)
     else case on_menv meshx_malloc_ok w of
       (False, w) \<Rightarrow> (None, w)
     | (True, w) \<Rightarrow>
         (Some (mw_next w), w\<lparr>mw_iface_mem := (mw_iface_mem w)(mw_next w := Some left), mw_next := Suc (mw_next w)\<rparr>))"

definition meshx_release_net_iface :: "nat \<Rightarrow> mesh_world \<Rightarrow> mesh_world option" where
  "meshx_release_net_iface a w = do {
    x \<leftarrow> mw_iface_mem w a;
    if a \<notin> set (mw_ifaces w) then None
    else
      let w = w\<lparr>mw_ifaces := remove1 a (mw_ifaces w)\<rparr>;
          w = (case ni_bearer x of Some b \<Rightarrow> set_bearer_iface b None w | None \<Rightarrow> w)
      in Some (w\<lparr>mw_iface_mem := (mw_iface_mem w)(a := None)\<rparr>)
  }"

definition meshx_net_iface_create_loopback :: "net_iface \<Rightarrow> mesh_world \<Rightarrow> errno \<times> mesh_world" where
  "meshx_net_iface_create_loopback left w =
    (case meshx_request_net_iface left w of
       (None, w) \<Rightarrow> (MESHX_ERR_MEM, w)
     | (Some a, w) \<Rightarrow>
         let w = iface_upd a (\<lambda>_. \<lparr>ni_type = MESHX_NET_IFACE_TYPE_LOOPBACK, ni_bearer = None,
                   ni_ifilter = Some meshx_net_default_ifilter, ni_ofilter = Some meshx_net_default_ofilter,
                   ni_info = iface_info_zero\<rparr>) w
         in (MESHX_SUCCESS, w\<lparr>mw_ifaces := mw_ifaces w @ [a]\<rparr>))"

definition meshx_net_iface_init :: "net_iface \<Rightarrow> mesh_world \<Rightarrow> errno \<times> mesh_world" where
  "meshx_net_iface_init left w = meshx_net_iface_create_loopback left (w\<lparr>mw_ifaces := []\<rparr>)"

definition meshx_net_init :: "net_iface \<Rightarrow> mesh_world \<Rightarrow> errno \<times> mesh_world" where
  "meshx_net_init left w = (MESHX_SUCCESS, snd (meshx_net_iface_init left w))"

text \<open>The size given to \<^verbatim>\<open>memset\<close> is that of the pointer type, eight bytes: they cover the type
  and its padding, and the bearer and all other fields keep what the allocation left.\<close>

definition meshx_net_iface_create :: "net_iface \<Rightarrow> mesh_world \<Rightarrow> nat option \<times> mesh_world" where
  "meshx_net_iface_create left w =
    (case meshx_request_net_iface left w of
       (None, w) \<Rightarrow> (None, w)
     | (Some a, w) \<Rightarrow>
         let w = iface_upd a (\<lambda>x. x\<lparr>ni_type := 0\<rparr>) w
         in (Some a, w\<lparr>mw_ifaces := mw_ifaces w @ [a]\<rparr>))"

definition meshx_net_iface_delete :: "nat option \<Rightarrow> mesh_world \<Rightarrow> mesh_world option" where
  "meshx_net_iface_delete net_iface w =
    (case net_iface of None \<Rightarrow> Some w | Some a \<Rightarrow> meshx_release_net_iface a w)"

definition meshx_net_iface_connect ::
  "nat option \<Rightarrow> meshx_bearer_t \<Rightarrow> (nat \<Rightarrow> bool) option \<Rightarrow> (nat \<Rightarrow> u16 \<Rightarrow> u16 \<Rightarrow> bool) option \<Rightarrow>
   mesh_world \<Rightarrow> (errno \<times> mesh_world) option" where
  "meshx_net_iface_connect net_iface b in_filter out_filter w =
    (case (net_iface, b) of
       (Some a, Some b) \<Rightarrow> do {
         x \<leftarrow> mw_iface_mem w a;
         if ni_bearer x \<noteq> None then Some (MESHX_ERR_ALREADY, w)
         else do {
           bi \<leftarrow> bearer_iface b w;
           if bi \<noteq> None then Some (MESHX_ERR_ALREADY, w)
           else
             let w = iface_upd a (\<lambda>x. x\<lparr>
                       ni_type := (if bearer_type (mw_gap w) b = MESHX_BEARER_TYPE_ADV
                                   then MESHX_NET_IFACE_TYPE_ADV else MESHX_NET_IFACE_TYPE_GATT),
                       ni_bearer := Some b,
                       ni_ifilter := Some (case in_filter of None \<Rightarrow> meshx_net_default_ifilter | Some f \<Rightarrow> f),
                       ni_ofilter := Some (case out_filter of None \<Rightarrow> meshx_net_default_ofilter | Some f \<Rightarrow> f)\<rparr>) w
             in Some (MESHX_SUCCESS, set_bearer_iface b (Some a) w)
         }
       }
     | _ \<Rightarrow> Some (MESHX_ERR_INVAL, w))"

definition meshx_net_iface_disconnect :: "nat option \<Rightarrow> mesh_world \<Rightarrow> mesh_world option" where
  "meshx_net_iface_disconnect net_iface w =
    (case net_iface of
       None \<Rightarrow> Some w
     | Some a \<Rightarrow> do {
         x \<leftarrow> mw_iface_mem w a;
         Some (iface_upd a (\<lambda>x. x\<lparr>ni_type := MESHX_NET_IFACE_TYPE_INVALID, ni_bearer := None,
                 ni_info := iface_info_zero, ni_ifilter := None, ni_ofilter := None\<rparr>)
               (case ni_bearer x of Some b \<Rightarrow> set_bearer_iface b None w | None \<Rightarrow> w)) })"

definition meshx_net_iface_is_connect :: "nat option \<Rightarrow> mesh_world \<Rightarrow> bool option" where
  "meshx_net_iface_is_connect net_iface w =
    (case net_iface of
       None \<Rightarrow> Some False
     | Some a \<Rightarrow> do {
         x \<leftarrow> mw_iface_mem w a;
         Some (if ni_type x = MESHX_NET_IFACE_TYPE_INVALID then False
               else if ni_type x = MESHX_NET_IFACE_TYPE_LOOPBACK then True
               else ni_bearer x \<noteq> None) })"

text \<open>The filters count what they see and what they refuse.\<close>

definition meshx_net_iface_ifilter :: "nat \<Rightarrow> mesh_world \<Rightarrow> (bool \<times> mesh_world) option" where
  "meshx_net_iface_ifilter a w = do {
    x \<leftarrow> mw_iface_mem w a;
    f \<leftarrow> ni_ifilter x;
    let i = (ni_info x)\<lparr>total_receive := total_receive (ni_info x) + 1\<rparr>;
        i = (if f a then i else i\<lparr>filtered_receive := filtered_receive i + 1\<rparr>)
    in Some (f a, iface_upd a (\<lambda>x. x\<lparr>ni_info := i\<rparr>) w)
  }"

definition meshx_net_iface_ofilter :: "nat \<Rightarrow> u16 \<Rightarrow> u16 \<Rightarrow> mesh_world \<Rightarrow> (bool \<times> mesh_world) option" where
  "meshx_net_iface_ofilter a src_addr dst_addr w = do {
    x \<leftarrow> mw_iface_mem w a;
    f \<leftarrow> ni_ofilter x;
    let i = (ni_info x)\<lparr>total_send := total_send (ni_info x) + 1\<rparr>;
        i = (if f a src_addr dst_addr then i else i\<lparr>filtered_send := filtered_send i + 1\<rparr>)
    in Some (f a src_addr dst_addr, iface_upd a (\<lambda>x. x\<lparr>ni_info := i\<rparr>) w)
  }"

definition meshx_net_iface_get_filter_info :: "nat option \<Rightarrow> mesh_world \<Rightarrow> iface_filter_info option" where
  "meshx_net_iface_get_filter_info net_iface w =
    (case net_iface of
       None \<Rightarrow> Some iface_info_zero
     | Some a \<Rightarrow> do { x \<leftarrow> mw_iface_mem w a; Some (ni_info x) })"

text \<open>Without a bearer: the first interface of the list, which is the loopback interface.\<close>

definition meshx_net_iface_get :: "meshx_bearer_t \<Rightarrow> mesh_world \<Rightarrow> nat option option" where
  "meshx_net_iface_get b w =
    (case b of
       None \<Rightarrow> (case mw_ifaces w of [] \<Rightarrow> None | a # _ \<Rightarrow> Some (Some a))
     | Some b \<Rightarrow> bearer_iface b w)"

definition meshx_net_iface_type :: "nat option \<Rightarrow> mesh_world \<Rightarrow> u8 option" where
  "meshx_net_iface_type net_iface w =
    (case net_iface of
       None \<Rightarrow> Some MESHX_NET_IFACE_TYPE_INVALID
     | Some a \<Rightarrow> do { x \<leftarrow> mw_iface_mem w a; Some (ni_type x) })"

definition meshx_net_iface_get_bearer :: "nat option \<Rightarrow> mesh_world \<Rightarrow> meshx_bearer_t option" where
  "meshx_net_iface_get_bearer net_iface w =
    (case net_iface of
       None \<Rightarrow> Some None
     | Some a \<Rightarrow> do { x \<leftarrow> mw_iface_mem w a; Some (ni_bearer x) })"

definition meshx_net_iface_traverse_start :: "mesh_world \<Rightarrow> nat option" where
  "meshx_net_iface_traverse_start w = (case mw_ifaces w of [] \<Rightarrow> None | a # _ \<Rightarrow> Some a)"

fun iface_next :: "nat \<Rightarrow> nat list \<Rightarrow> nat option option" where
  "iface_next a [] = None"
| "iface_next a (x # xs) = (if x = a then Some (case xs of [] \<Rightarrow> None | y # _ \<Rightarrow> Some y) else iface_next a xs)"

definition meshx_net_iface_traverse_continue :: "nat option \<Rightarrow> mesh_world \<Rightarrow> nat option option" where
  "meshx_net_iface_traverse_continue net_iface w = do { a \<leftarrow> net_iface; iface_next a (mw_ifaces w) }"

end
