(* ===== verification/Mesh_Proxy.thy ===== *)
theory Mesh_Proxy
  imports Mesh_Net_Iface Mesh_Beacon
begin

text \<open>
  The proxy protocol, \<^verbatim>\<open>mesh/proxy/meshx_proxy.c\<close> with the two servers and the GATT events
  (\<^verbatim>\<open>mesh/gap/meshx_gatt.c\<close>, \<^verbatim>\<open>mesh/bearer/meshx_bearer_gatt.c\<close>): segmentation and
  reassembly of messages over GATT.  Reception of a network message is an argument, since the
  network layer is above.  The result \<^verbatim>\<open>None\<close> is a write outside the reassembly buffer or a
  context that was freed.
\<close>

definition MESHX_PROXY_MSG_TYPE_NET :: u8 where "MESHX_PROXY_MSG_TYPE_NET = 0"
definition MESHX_PROXY_MSG_TYPE_BEACON :: u8 where "MESHX_PROXY_MSG_TYPE_BEACON = 1"
definition MESHX_PROXY_MSG_TYPE_PROXY_CFG :: u8 where "MESHX_PROXY_MSG_TYPE_PROXY_CFG = 2"
definition MESHX_PROXY_MSG_TYPE_PROV :: u8 where "MESHX_PROXY_MSG_TYPE_PROV = 3"

definition MESHX_PROXY_SAR_COMPLETE_MSG :: u8 where "MESHX_PROXY_SAR_COMPLETE_MSG = 0"
definition MESHX_PROXY_SAR_FIRST_SEG :: u8 where "MESHX_PROXY_SAR_FIRST_SEG = 1"
definition MESHX_PROXY_SAR_CONTINUE_SEG :: u8 where "MESHX_PROXY_SAR_CONTINUE_SEG = 2"
definition MESHX_PROXY_SAR_LAST_SEG :: u8 where "MESHX_PROXY_SAR_LAST_SEG = 3"

definition MESHX_PROXY_INIT_PDU_LEN :: nat where "MESHX_PROXY_INIT_PDU_LEN = 80"
definition MESHX_PROXY_SAR_TRANSFER_TIME :: u32 where "MESHX_PROXY_SAR_TRANSFER_TIME = 20000"

lemmas proxy_codes = MESHX_PROXY_MSG_TYPE_NET_def MESHX_PROXY_MSG_TYPE_BEACON_def
  MESHX_PROXY_MSG_TYPE_PROXY_CFG_def MESHX_PROXY_MSG_TYPE_PROV_def MESHX_PROXY_SAR_COMPLETE_MSG_def
  MESHX_PROXY_SAR_FIRST_SEG_def MESHX_PROXY_SAR_CONTINUE_SEG_def MESHX_PROXY_SAR_LAST_SEG_def

section \<open>Sending\<close>

definition proxy_pdu :: "u8 \<Rightarrow> u8 \<Rightarrow> bytes \<Rightarrow> bytes" where
  "proxy_pdu sar msg_type data = ((msg_type AND 0x3F) OR push_bit 6 sar) # data"

definition meshx_prov_char_data_out_handle :: "mesh_world \<Rightarrow> u16" where
  "meshx_prov_char_data_out_handle w = mw_prov_out w"

definition meshx_proxy_char_data_out_handle :: "mesh_world \<Rightarrow> u16" where
  "meshx_proxy_char_data_out_handle w = mw_proxy_out w"

definition meshx_prov_char_data_in_handle :: "mesh_world \<Rightarrow> u16" where
  "meshx_prov_char_data_in_handle w = mw_prov_in w"

definition meshx_proxy_char_data_in_handle :: "mesh_world \<Rightarrow> u16" where
  "meshx_proxy_char_data_in_handle w = mw_proxy_in w"

definition proxy_out_handle :: "u8 \<Rightarrow> mesh_world \<Rightarrow> u16" where
  "proxy_out_handle msg_type w =
    (if msg_type = MESHX_PROXY_MSG_TYPE_PROV then meshx_prov_char_data_out_handle w
     else meshx_proxy_char_data_out_handle w)"

definition proxy_sar :: "u16 \<Rightarrow> u16 \<Rightarrow> u8" where
  "proxy_sar i seg_num =
    (if i = 0 then MESHX_PROXY_SAR_FIRST_SEG
     else if i = seg_num - 1 then MESHX_PROXY_SAR_LAST_SEG else MESHX_PROXY_SAR_CONTINUE_SEG)"

fun proxy_send_loop ::
  "u16 list \<Rightarrow> meshx_bearer_t \<Rightarrow> u8 \<Rightarrow> bytes \<Rightarrow> u16 \<Rightarrow> u16 \<Rightarrow> u16 \<Rightarrow> mesh_world \<Rightarrow> mesh_world option" where
  "proxy_send_loop [] b msg_type pdata mtu seg_num seg_offset w = Some w"
| "proxy_send_loop (i # is) b msg_type pdata mtu seg_num seg_offset w = do {
    let seg_len = (if i = seg_num - 1 then word_of_nat (length pdata) - seg_offset else mtu);
    d \<leftarrow> mem_read pdata (unat seg_offset) (unat seg_len);
    let w = snd (meshx_bearer_gatt_send b (proxy_out_handle msg_type w)
                  (proxy_pdu (proxy_sar i seg_num) msg_type d) w);
    proxy_send_loop is b msg_type pdata mtu seg_num (seg_offset + seg_len) w
  }"

definition meshx_proxy_send ::
  "meshx_bearer_t \<Rightarrow> u8 \<Rightarrow> bytes \<Rightarrow> mesh_world \<Rightarrow> (errno \<times> mesh_world) option" where
  "meshx_proxy_send b msg_type pdata w =
    (let mtu = meshx_bearer_gatt_mtu_get b; len = word_of_nat (length pdata) :: u16 in
     case on_menv meshx_malloc_ok w of
       (False, w) \<Rightarrow> Some (MESHX_ERR_MEM, w)
     | (True, w) \<Rightarrow>
         if mtu > len
         then Some (MESHX_SUCCESS, snd (meshx_bearer_gatt_send b (proxy_out_handle msg_type w)
                     (proxy_pdu MESHX_PROXY_SAR_COMPLETE_MSG msg_type pdata) w))
         else let seg_num = len div mtu + 1 in do {
           w \<leftarrow> proxy_send_loop (map word_of_nat [0..<unat seg_num]) b msg_type pdata mtu seg_num 0 w;
           Some (MESHX_SUCCESS, w)
         })"

section \<open>Reassembly contexts\<close>

definition meshx_proxy_init :: "mesh_world \<Rightarrow> errno \<times> mesh_world" where
  "meshx_proxy_init w = (MESHX_SUCCESS, w\<lparr>mw_proxy := []\<rparr>)"

fun find_rx_ctx_loop :: "meshx_bearer_t \<Rightarrow> (nat \<times> proxy_rx) list \<Rightarrow> (nat \<times> proxy_rx) option" where
  "find_rx_ctx_loop b [] = None"
| "find_rx_ctx_loop b (x # xs) = (if px_bearer (snd x) = b then Some x else find_rx_ctx_loop b xs)"

definition meshx_proxy_find_rx_ctx :: "meshx_bearer_t \<Rightarrow> mesh_world \<Rightarrow> (nat \<times> proxy_rx) option" where
  "meshx_proxy_find_rx_ctx b w = find_rx_ctx_loop b (mw_proxy w)"

definition meshx_proxy_rx_ctx_release :: "nat \<Rightarrow> mesh_world \<Rightarrow> mesh_world option" where
  "meshx_proxy_rx_ctx_release p w =
    (if p \<in> set (map fst (mw_proxy w))
     then Some (w\<lparr>mw_proxy := filter (\<lambda>x. fst x \<noteq> p) (mw_proxy w)\<rparr>) else None)"

definition meshx_proxy_async_handle_sar_timeout :: "nat \<Rightarrow> mesh_world \<Rightarrow> mesh_world option" where
  "meshx_proxy_async_handle_sar_timeout p w = meshx_proxy_rx_ctx_release p w"

definition proxy_upd :: "nat \<Rightarrow> (proxy_rx \<Rightarrow> proxy_rx) \<Rightarrow> mesh_world \<Rightarrow> mesh_world" where
  "proxy_upd p f w = w\<lparr>mw_proxy := map (\<lambda>x. if fst x = p then (p, f (snd x)) else x) (mw_proxy w)\<rparr>"

text \<open>A new context is appended to the list with a fresh address.\<close>

definition meshx_proxy_rx_ctx_request :: "u16 \<Rightarrow> mesh_world \<Rightarrow> (nat \<times> proxy_rx) option \<times> mesh_world" where
  "meshx_proxy_rx_ctx_request len w =
    (case on_menv meshx_malloc_ok w of
       (False, w) \<Rightarrow> (None, w)
     | (True, w) \<Rightarrow>
         let size = (if unat len > MESHX_PROXY_INIT_PDU_LEN then unat len + MESHX_PROXY_INIT_PDU_LEN
                     else MESHX_PROXY_INIT_PDU_LEN)
         in case on_menv meshx_malloc_ok w of
              (False, w) \<Rightarrow> (None, w)
            | (True, w) \<Rightarrow>
                (case meshx_timer_create None MESHX_TIMER_MODE_SINGLE_SHOT (mw_env w) of
                   (_, tm, e) \<Rightarrow>
                     let w = w\<lparr>mw_env := e\<rparr> in
                     if tm = None then (None, w)
                     else let x = (mw_next w, \<lparr>px_bearer = None, px_msg_type = 0, px_data = junk w size,
                                px_data_len = 0, px_max_len = word_of_nat size, px_timer = tm\<rparr>)
                          in (Some x, w\<lparr>mw_proxy := mw_proxy w @ [x], mw_next := Suc (mw_next w)\<rparr>)))"

text \<open>The new buffer has room for what is there, the new data and 80 bytes; the maximum length
  grows by the new data and 80 bytes.\<close>

definition meshx_proxy_rx_ctx_expand ::
  "nat \<Rightarrow> proxy_rx \<Rightarrow> u16 \<Rightarrow> mesh_world \<Rightarrow> (errno \<times> proxy_rx \<times> mesh_world) option" where
  "meshx_proxy_rx_ctx_expand p x len w =
    (case on_menv meshx_malloc_ok w of
       (False, w) \<Rightarrow> Some (MESHX_ERR_MEM, x, w)
     | (True, w) \<Rightarrow> do {
         old \<leftarrow> mem_read (px_data x) 0 (unat (px_data_len x));
         buf \<leftarrow> mem_write (junk w (unat (px_data_len x) + unat len + MESHX_PROXY_INIT_PDU_LEN)) 0 old;
         let x = x\<lparr>px_max_len := px_max_len x + (len + word_of_nat MESHX_PROXY_INIT_PDU_LEN), px_data := buf\<rparr>;
         Some (MESHX_SUCCESS, x, proxy_upd p (\<lambda>_. x) w)
       })"

section \<open>Receiving\<close>

definition meshx_is_lower_trans_busy :: "mesh_world \<Rightarrow> bool" where
  "meshx_is_lower_trans_busy w \<longleftrightarrow> tx_active w \<noteq> []"

text \<open>The length parameters of the network layer and of the beacons have eight bits.\<close>

definition meshx_proxy_dispatch ::
  "aes128 \<Rightarrow> (nat \<Rightarrow> bytes \<Rightarrow> mesh_world \<Rightarrow> (errno \<times> mesh_world) option) \<Rightarrow>
   meshx_bearer_t \<Rightarrow> u8 \<Rightarrow> bytes \<Rightarrow> mesh_world \<Rightarrow> (errno \<times> mesh_world) option" where
  "meshx_proxy_dispatch aes net_receive b msg_type data w =
    (let short = take (unat (word_of_nat (length data) :: u8)) data in
     if msg_type = MESHX_PROXY_MSG_TYPE_NET
     then do {
       net_iface \<leftarrow> meshx_net_iface_get b w;
       (case net_iface of
          None \<Rightarrow> Some (MESHX_ERR_CONNECT, w)
        | Some a \<Rightarrow> net_receive a short w) }
     else if msg_type = MESHX_PROXY_MSG_TYPE_BEACON
     then do {
       (r, _, keys, iv) \<leftarrow> meshx_beacon_receive aes (meshx_is_lower_trans_busy w) short (mw_keys w, mw_iv w);
       Some (r, w\<lparr>mw_keys := keys, mw_iv := iv\<rparr>) }
     else if msg_type = MESHX_PROXY_MSG_TYPE_PROXY_CFG \<or> msg_type = MESHX_PROXY_MSG_TYPE_PROV
     then Some (MESHX_SUCCESS, w)
     else Some (MESHX_ERR_INVAL, w))"

definition proxy_receive_first ::
  "meshx_bearer_t \<Rightarrow> u8 \<Rightarrow> u8 \<Rightarrow> bytes \<Rightarrow> u16 \<Rightarrow> mesh_world \<Rightarrow> (errno \<times> mesh_world) option" where
  "proxy_receive_first b sar msg_type data len w =
    (if sar \<noteq> MESHX_PROXY_SAR_COMPLETE_MSG \<and> sar \<noteq> MESHX_PROXY_SAR_FIRST_SEG
     then Some (MESHX_ERR_UNEXPECTED, w)
     else case meshx_proxy_rx_ctx_request len w of
       (None, w) \<Rightarrow> Some (MESHX_ERR_MEM, w)
     | (Some (p, x), w) \<Rightarrow> do {
         buf \<leftarrow> mem_write (px_data x) 0 data;
         Some (MESHX_SUCCESS, proxy_upd p (\<lambda>x. x\<lparr>px_bearer := b, px_msg_type := msg_type, px_data := buf,
                 px_data_len := word_of_nat (length data),
                 px_timer := snd (meshx_timer_start (px_timer x) MESHX_PROXY_SAR_TRANSFER_TIME)\<rparr>) w)
       })"

definition proxy_receive_next ::
  "aes128 \<Rightarrow> (nat \<Rightarrow> bytes \<Rightarrow> mesh_world \<Rightarrow> (errno \<times> mesh_world) option) \<Rightarrow>
   meshx_bearer_t \<Rightarrow> nat \<Rightarrow> proxy_rx \<Rightarrow> u8 \<Rightarrow> u8 \<Rightarrow> bytes \<Rightarrow> mesh_world \<Rightarrow> (errno \<times> mesh_world) option" where
  "proxy_receive_next aes net_receive b p x sar msg_type data w =
    (let drop_ctx = (\<lambda>r w. do { w \<leftarrow> meshx_proxy_rx_ctx_release p w; Some (r, w) }) in
     if sar = MESHX_PROXY_SAR_COMPLETE_MSG \<or> sar = MESHX_PROXY_SAR_FIRST_SEG then drop_ctx MESHX_ERR_UNEXPECTED w
     else if px_msg_type x \<noteq> msg_type then drop_ctx MESHX_ERR_UNEXPECTED w
     else do {
       (r, x, w) \<leftarrow>
         (if unat (px_data_len x) + length data > unat (px_max_len x)
          then meshx_proxy_rx_ctx_expand p x (word_of_nat (length data)) w else Some (MESHX_SUCCESS, x, w));
       if r \<noteq> MESHX_SUCCESS then drop_ctx MESHX_ERR_MEM w
       else do {
         buf \<leftarrow> mem_write (px_data x) (unat (px_data_len x)) data;
         let x = x\<lparr>px_data := buf, px_data_len := px_data_len x + word_of_nat (length data)\<rparr>;
         let w = proxy_upd p (\<lambda>_. x) w;
         if sar = MESHX_PROXY_SAR_LAST_SEG
         then do {
           (_, w) \<leftarrow> meshx_proxy_dispatch aes net_receive b (px_msg_type x) (take (unat (px_data_len x)) (px_data x)) w;
           drop_ctx MESHX_SUCCESS w }
         else Some (MESHX_SUCCESS, w)
       }
     })"

definition meshx_proxy_receive ::
  "aes128 \<Rightarrow> (nat \<Rightarrow> bytes \<Rightarrow> mesh_world \<Rightarrow> (errno \<times> mesh_world) option) \<Rightarrow>
   meshx_bearer_t \<Rightarrow> bytes \<Rightarrow> mesh_world \<Rightarrow> (errno \<times> mesh_world) option" where
  "meshx_proxy_receive aes net_receive b pdata w =
    (case pdata of
       [] \<Rightarrow> Some (MESHX_ERR_LENGTH, w)
     | h # data \<Rightarrow>
         if data = [] then Some (MESHX_ERR_LENGTH, w)
         else let sar = drop_bit 6 h; msg_type = h AND 0x3F in
           (case meshx_proxy_find_rx_ctx b w of
              None \<Rightarrow> proxy_receive_first b sar msg_type data (word_of_nat (length pdata)) w
            | Some (p, x) \<Rightarrow> proxy_receive_next aes net_receive b p x sar msg_type data w))"

text \<open>The servers and the write event of a characteristic.\<close>

definition meshx_proxy_server_receive ::
  "aes128 \<Rightarrow> (nat \<Rightarrow> bytes \<Rightarrow> mesh_world \<Rightarrow> (errno \<times> mesh_world) option) \<Rightarrow>
   meshx_bearer_t \<Rightarrow> bytes \<Rightarrow> mesh_world \<Rightarrow> (errno \<times> mesh_world) option" where
  "meshx_proxy_server_receive = meshx_proxy_receive"

definition meshx_prov_server_receive ::
  "aes128 \<Rightarrow> (nat \<Rightarrow> bytes \<Rightarrow> mesh_world \<Rightarrow> (errno \<times> mesh_world) option) \<Rightarrow>
   meshx_bearer_t \<Rightarrow> bytes \<Rightarrow> mesh_world \<Rightarrow> (errno \<times> mesh_world) option" where
  "meshx_prov_server_receive = meshx_proxy_receive"

definition meshx_proxy_server_send :: "meshx_bearer_t \<Rightarrow> bytes \<Rightarrow> errno" where
  "meshx_proxy_server_send b pdata = MESHX_SUCCESS"

definition meshx_bearer_gatt_receive ::
  "aes128 \<Rightarrow> (nat \<Rightarrow> bytes \<Rightarrow> mesh_world \<Rightarrow> (errno \<times> mesh_world) option) \<Rightarrow>
   meshx_bearer_t \<Rightarrow> u16 \<Rightarrow> bytes option \<Rightarrow> mesh_world \<Rightarrow> (int \<times> mesh_world) option" where
  "meshx_bearer_gatt_receive aes net_receive b char_value_handle pdata w =
    (case b of
       None \<Rightarrow> Some (ret_code MESHX_ERR_INVAL, w)
     | Some _ \<Rightarrow> do {
         pdata \<leftarrow> pdata;
         if char_value_handle = meshx_proxy_char_data_in_handle w
         then do { (r, w) \<leftarrow> meshx_proxy_server_receive aes net_receive b pdata w; Some (ret_code r, w) }
         else if char_value_handle = meshx_prov_char_data_in_handle w
         then do { (r, w) \<leftarrow> meshx_prov_server_receive aes net_receive b pdata w; Some (ret_code r, w) }
         else Some (errno_code MESHX_ERR_INVAL, w) })"

datatype meshx_gatts_evt =
    MESHX_GATTS_EVT_WRITE
  | MESHX_GATTS_EVT_READ
  | MESHX_GATTS_EVT_WRITE_PERMIT_REQ
  | MESHX_GATTS_EVT_READ_PERMIT_REQ
  | MESHX_GATTS_EVT_IND_CFM

definition meshx_gatts_event_process ::
  "aes128 \<Rightarrow> (nat \<Rightarrow> bytes \<Rightarrow> mesh_world \<Rightarrow> (errno \<times> mesh_world) option) \<Rightarrow>
   meshx_gatts_evt \<Rightarrow> u16 \<Rightarrow> u16 \<Rightarrow> bytes option \<Rightarrow> mesh_world \<Rightarrow> mesh_world option" where
  "meshx_gatts_event_process aes net_receive evt conn_handle char_value_handle pdata w =
    (case evt of
       MESHX_GATTS_EVT_WRITE \<Rightarrow> do {
         (_, w) \<leftarrow> meshx_bearer_gatt_receive aes net_receive (meshx_bearer_gatt_get conn_handle w) char_value_handle pdata w;
         Some w }
     | _ \<Rightarrow> Some w)"

end
