(* ===== verification/Mesh_Net.thy ===== *)
theory Mesh_Net
  imports Mesh_Proxy
begin

text \<open>
  The network layer, \<^verbatim>\<open>mesh/network/meshx_net.c\<close>: encryption and obfuscation of a network
  pdu, reception under the keys of the node, and sending on the interfaces.  The transport
  layer a received pdu is handed to is an argument, and so is the reception a loopback sends
  to.  A pdu is the byte array of the struct \<^verbatim>\<open>meshx_net_pdu_t\<close>: the nine bytes of the header
  (IVI and NID; CTL and TTL; sequence number; source; destination) and twenty bytes for the
  transport pdu and its MIC.  The result \<^verbatim>\<open>None\<close> is a read or write outside that array.
\<close>

definition MESHX_NET_TRANS_PDU_MAX_LEN :: nat where "MESHX_NET_TRANS_PDU_MAX_LEN = 20"
definition MESHX_NET_ENCRYPT_OFFSET :: nat where "MESHX_NET_ENCRYPT_OFFSET = 7"
definition MESHX_NET_OBFUSCATION_OFFSET :: nat where "MESHX_NET_OBFUSCATION_OFFSET = 1"
definition MESHX_NET_OBFUSCATION_SIZE :: nat where "MESHX_NET_OBFUSCATION_SIZE = 6"
definition NET_METADATA_SIZE :: nat where "NET_METADATA_SIZE = 9"
definition MESHX_NONCE_TYPE_NET :: u8 where "MESHX_NONCE_TYPE_NET = 0"

lemmas net_sizes = MESHX_NET_TRANS_PDU_MAX_LEN_def MESHX_NET_ENCRYPT_OFFSET_def
  MESHX_NET_OBFUSCATION_OFFSET_def MESHX_NET_OBFUSCATION_SIZE_def NET_METADATA_SIZE_def

section \<open>The header\<close>

definition np_nid :: "bytes \<Rightarrow> u8" where "np_nid pdu = pdu ! 0 AND 0x7f"
definition np_ivi :: "bytes \<Rightarrow> bool" where "np_ivi pdu = bit (pdu ! 0) 7"
definition np_ttl :: "bytes \<Rightarrow> u8" where "np_ttl pdu = pdu ! 1 AND 0x7f"
definition np_ctl :: "bytes \<Rightarrow> bool" where "np_ctl pdu = bit (pdu ! 1) 7"
definition np_seq :: "bytes \<Rightarrow> u32" where
  "np_seq pdu = push_bit 8 (push_bit 8 (ucast (pdu ! 2)) OR ucast (pdu ! 3)) OR ucast (pdu ! 4)"
definition np_src :: "bytes \<Rightarrow> u16" where "np_src pdu = of_be16 [pdu ! 5, pdu ! 6]"
definition np_dst :: "bytes \<Rightarrow> u16" where "np_dst pdu = of_be16 [pdu ! 7, pdu ! 8]"

definition seq_bytes :: "u32 \<Rightarrow> bytes" where
  "seq_bytes seq = [ucast (drop_bit 16 seq), ucast (drop_bit 8 seq), ucast seq]"

text \<open>A seven-bit field with a flag above it.\<close>

definition flag7 :: "bool \<Rightarrow> u8 \<Rightarrow> u8" where
  "flag7 f x = (x AND 0x7f) OR push_bit 7 (of_bool f)"

definition net_header :: "u8 \<Rightarrow> msg_ctx \<Rightarrow> bytes" where
  "net_header k_nid c =
    [flag7 (bit (mc_iv_index c) 0) k_nid, flag7 (mc_ctl c) (mc_ttl c)] @ seq_bytes (mc_seq c) @
    be16 (mc_src c) @ be16 (mc_dst c)"

section \<open>Encryption and obfuscation\<close>

text \<open>The nonce has the bytes of the header from CTL and TTL to the source as they are.\<close>

definition net_nonce :: "bytes \<Rightarrow> u32 \<Rightarrow> bytes" where
  "net_nonce pdu iv_index =
    [MESHX_NONCE_TYPE_NET, flag7 (np_ctl pdu) (np_ttl pdu), pdu ! 2, pdu ! 3, pdu ! 4, pdu ! 5, pdu ! 6, 0, 0] @
    be32 iv_index"

definition net_mic_len :: "bool \<Rightarrow> nat" where
  "net_mic_len ctl = (if ctl then 8 else 4)"

definition meshx_net_encrypt ::
  "aes128 \<Rightarrow> bytes \<Rightarrow> u8 \<Rightarrow> u32 \<Rightarrow> net_key_value \<Rightarrow> bytes option" where
  "meshx_net_encrypt aes pdu trans_pdu_len iv_index v = do {
    plain \<leftarrow> mem_read pdu MESHX_NET_ENCRYPT_OFFSET (2 + unat trans_pdu_len);
    (case meshx_aes_ccm_encrypt aes (encryption_key v) (net_nonce pdu iv_index) [] plain (net_mic_len (np_ctl pdu)) of
       Inl _ \<Rightarrow> Some pdu
     | Inr (cipher, mic) \<Rightarrow> do {
         pdu \<leftarrow> mem_write pdu MESHX_NET_ENCRYPT_OFFSET cipher;
         mem_write pdu (NET_METADATA_SIZE + unat trans_pdu_len) mic })
  }"

definition meshx_net_obfuscation :: "aes128 \<Rightarrow> bytes \<Rightarrow> u32 \<Rightarrow> net_key_value \<Rightarrow> bytes" where
  "meshx_net_obfuscation aes pdu iv_index v =
    (let pecb = meshx_e aes (zeros 5 @ be32 iv_index @ take 7 (drop MESHX_NET_ENCRYPT_OFFSET pdu)) (privacy_key v)
     in foldl (\<lambda>pdu i. pdu[MESHX_NET_OBFUSCATION_OFFSET + i := pdu ! (MESHX_NET_OBFUSCATION_OFFSET + i) XOR pecb ! i])
          pdu [0..<MESHX_NET_OBFUSCATION_SIZE])"

definition meshx_net_decrypt ::
  "aes128 \<Rightarrow> bytes \<Rightarrow> u8 \<Rightarrow> u32 \<Rightarrow> net_key_value \<Rightarrow> (errno \<times> bytes) option" where
  "meshx_net_decrypt aes pdu trans_pdu_len iv_index v = do {
    cipher \<leftarrow> mem_read pdu MESHX_NET_ENCRYPT_OFFSET (2 + unat trans_pdu_len);
    mic \<leftarrow> mem_read pdu (NET_METADATA_SIZE + unat trans_pdu_len) (net_mic_len (np_ctl pdu));
    let (ret, plain) = meshx_aes_ccm_decrypt aes (encryption_key v) (net_nonce pdu iv_index) [] cipher mic cipher;
    pdu \<leftarrow> mem_write pdu MESHX_NET_ENCRYPT_OFFSET plain;
    Some (ret, pdu)
  }"

section \<open>Reception\<close>

text \<open>The length of the transport pdu wraps when the packet is too short for header and MIC.\<close>

definition trans_len_of :: "nat \<Rightarrow> bool \<Rightarrow> u8" where
  "trans_len_of len ctl = word_of_int (int len - int NET_METADATA_SIZE - int (net_mic_len ctl))"

text \<open>The values of a key are tried one after the other on the same copy of the packet.\<close>

fun net_try_values ::
  "aes128 \<Rightarrow> nat \<Rightarrow> u32 \<Rightarrow> net_key_info \<Rightarrow> nat list \<Rightarrow> bytes \<Rightarrow> (nat option \<times> bytes) option" where
  "net_try_values aes len iv_index k [] pdu = Some (None, pdu)"
| "net_try_values aes len iv_index k (i # is) pdu =
    (let v = snb_value i k in
     if nid v = np_nid pdu
     then let pdu = meshx_net_obfuscation aes pdu iv_index v in do {
       (ret, pdu) \<leftarrow> meshx_net_decrypt aes pdu (trans_len_of len (np_ctl pdu)) iv_index v;
       if ret = MESHX_SUCCESS then Some (Some i, pdu)
       else net_try_values aes len iv_index k is pdu
     }
     else net_try_values aes len iv_index k is pdu)"

fun net_try_keys ::
  "aes128 \<Rightarrow> nat \<Rightarrow> u32 \<Rightarrow> net_key_info list \<Rightarrow> bytes \<Rightarrow> ((nat \<times> nat) option \<times> bytes) option" where
  "net_try_keys aes len iv_index [] pdu = Some (None, pdu)"
| "net_try_keys aes len iv_index (k # ks) pdu = do {
    (hit, pdu) \<leftarrow> net_try_values aes len iv_index k (snb_indices k) pdu;
    (case hit of
       Some i \<Rightarrow> Some (Some (nk_addr k, i), pdu)
     | None \<Rightarrow> net_try_keys aes len iv_index ks pdu)
  }"

text \<open>What an authenticated packet leads to.\<close>

definition net_accept ::
  "(bytes \<Rightarrow> u8 \<Rightarrow> msg_ctx \<Rightarrow> mesh_world \<Rightarrow> (errno \<times> mesh_world) option) \<Rightarrow>
   nat \<Rightarrow> nat \<Rightarrow> u32 \<Rightarrow> nat \<times> nat \<Rightarrow> bytes \<Rightarrow> mesh_world \<Rightarrow> (errno \<times> mesh_world) option" where
  "net_accept lower_trans_receive a len iv_index key pdu w =
    (let src = np_src pdu; dst = np_dst pdu; seq = np_seq pdu in
     if \<not> MESHX_ADDRESS_IS_VALID src \<or> \<not> MESHX_ADDRESS_IS_VALID dst then Some (MESHX_ERR_INVAL, w)
     else
       let nmc = \<lparr>nmc_src = src, nmc_padding = of_mem16 (junk w 2), nmc_seq = seq\<rparr> in do {
       fresh \<leftarrow> meshx_nmc_check nmc (mw_nmc w);
       if \<not> fresh then Some (MESHX_ERR_FAIL, w)
       else do {
         (_, s) \<leftarrow> meshx_nmc_add nmc (mw_nmc w);
         let w = w\<lparr>mw_nmc := s\<rparr>;
         if meshx_node_is_my_address dst (mw_node w)
         then lower_trans_receive (drop NET_METADATA_SIZE pdu) (trans_len_of len (np_ctl pdu))
                (mc_zero\<lparr>mc_ctl := np_ctl pdu, mc_ttl := np_ttl pdu, mc_src := src, mc_dst := dst,
                   mc_iv_index := iv_index, mc_seq := seq, mc_net_key := Some key, mc_net_iface := Some a\<rparr>) w
         else Some (MESHX_SUCCESS, w)
       }
     })"

text \<open>The packet is copied as a whole struct; what follows it in memory fills the rest.\<close>

definition net_pdu_copy :: "bytes \<Rightarrow> mesh_world \<Rightarrow> bytes" where
  "net_pdu_copy pdata w = take (NET_METADATA_SIZE + MESHX_NET_TRANS_PDU_MAX_LEN) (pdata @ junk w 29)"

definition meshx_net_receive ::
  "aes128 \<Rightarrow> (bytes \<Rightarrow> u8 \<Rightarrow> msg_ctx \<Rightarrow> mesh_world \<Rightarrow> (errno \<times> mesh_world) option) \<Rightarrow>
   nat option \<Rightarrow> bytes \<Rightarrow> mesh_world \<Rightarrow> (errno \<times> mesh_world) option" where
  "meshx_net_receive aes lower_trans_receive net_iface pdata w =
    (case net_iface of
       None \<Rightarrow> Some (MESHX_ERR_INVAL, w)
     | Some a \<Rightarrow> do {
         (pass, w) \<leftarrow> meshx_net_iface_ifilter a w;
         if \<not> pass then Some (MESHX_ERR_FILTER, w)
         else
           let pdu = net_pdu_copy pdata w;
               iv_index = meshx_iv_index_get (iv (mw_iv w));
               iv_index = (if bit iv_index 0 \<noteq> np_ivi pdu then iv_index - 1 else iv_index)
           in do {
           (hit, pdu) \<leftarrow> net_try_keys aes (length pdata) iv_index (meshx_net_keys (mw_keys w)) pdu;
           (case hit of
              None \<Rightarrow> Some (MESHX_ERR_KEY, w)
            | Some key \<Rightarrow> net_accept lower_trans_receive a (length pdata) iv_index key pdu w)
         }
       })"

section \<open>Sending\<close>

definition meshx_net_loopback ::
  "(nat option \<Rightarrow> bytes \<Rightarrow> mesh_world \<Rightarrow> (errno \<times> mesh_world) option) \<Rightarrow>
   bytes \<Rightarrow> msg_ctx \<Rightarrow> mesh_world \<Rightarrow> (errno \<times> mesh_world) option" where
  "meshx_net_loopback net_receive pdata c w = do {
    loopback \<leftarrow> meshx_net_iface_get None w;
    a \<leftarrow> loopback;
    (pass, w) \<leftarrow> meshx_net_iface_ofilter a (mc_src c) (mc_dst c) w;
    if \<not> pass then Some (MESHX_ERR_FILTER, w) else net_receive (Some a) pdata w
  }"

definition meshx_net_send_to_bearer :: "bytes \<Rightarrow> msg_ctx \<Rightarrow> nat \<Rightarrow> mesh_world \<Rightarrow> (errno \<times> mesh_world) option" where
  "meshx_net_send_to_bearer pdata c a w = do {
    (pass, w) \<leftarrow> meshx_net_iface_ofilter a (mc_src c) (mc_dst c) w;
    if \<not> pass then Some (MESHX_ERR_FILTER, w)
    else do {
      x \<leftarrow> mw_iface_mem w a;
      (case ni_bearer x of
         None \<Rightarrow> Some (MESHX_ERR_CONNECT, w)
       | Some b \<Rightarrow>
           if bearer_type (mw_gap w) b = MESHX_BEARER_TYPE_ADV
           then do {
             (r, g) \<leftarrow> meshx_bearer_adv_send (Some b) MESHX_GAP_ADTYPE_MESH_MSG pdata (mw_gap w);
             Some (r, w\<lparr>mw_gap := g\<rparr>) }
           else meshx_proxy_send (Some b) MESHX_PROXY_MSG_TYPE_NET pdata w)
    }
  }"

text \<open>Every interface but the loopback gets the packet.\<close>

fun net_send_all :: "bytes \<Rightarrow> msg_ctx \<Rightarrow> bool \<Rightarrow> nat list \<Rightarrow> mesh_world \<Rightarrow> (bool \<times> mesh_world) option" where
  "net_send_all pdata c valid_iface [] w = Some (valid_iface, w)"
| "net_send_all pdata c valid_iface (a # as) w = do {
    x \<leftarrow> mw_iface_mem w a;
    if ni_type x = MESHX_NET_IFACE_TYPE_LOOPBACK then net_send_all pdata c valid_iface as w
    else do {
      (_, w) \<leftarrow> meshx_net_send_to_bearer pdata c a w;
      net_send_all pdata c True as w
    }
  }"

text \<open>The packet a transport pdu becomes.\<close>

definition net_packet :: "aes128 \<Rightarrow> bytes \<Rightarrow> msg_ctx \<Rightarrow> net_key_value \<Rightarrow> bytes option" where
  "net_packet aes ptrans_pdu c v = do {
    pdu \<leftarrow> mem_write (net_header (nid v) c @ zeros MESHX_NET_TRANS_PDU_MAX_LEN) NET_METADATA_SIZE ptrans_pdu;
    let len = word_of_nat (length ptrans_pdu);
    pdu \<leftarrow> meshx_net_encrypt aes pdu len (mc_iv_index c) v;
    Some (take (NET_METADATA_SIZE + length ptrans_pdu + net_mic_len (mc_ctl c))
           (meshx_net_obfuscation aes pdu (mc_iv_index c) v))
  }"

definition meshx_net_send ::
  "aes128 \<Rightarrow> (nat option \<Rightarrow> bytes \<Rightarrow> mesh_world \<Rightarrow> (errno \<times> mesh_world) option) \<Rightarrow>
   bytes \<Rightarrow> msg_ctx \<Rightarrow> mesh_world \<Rightarrow> (errno \<times> mesh_world) option" where
  "meshx_net_send aes net_receive ptrans_pdu c w =
    (if length ptrans_pdu > MESHX_NET_TRANS_PDU_MAX_LEN then Some (MESHX_ERR_LENGTH, w)
     else if length ptrans_pdu > MESHX_NET_TRANS_PDU_MAX_LEN - net_mic_len (mc_ctl c) then Some (MESHX_ERR_LENGTH, w)
     else do {
       key \<leftarrow> mc_net_key c;
       v \<leftarrow> net_key_at key (mw_keys w);
       pkt \<leftarrow> net_packet aes ptrans_pdu c v;
       (case mc_net_iface c of
          None \<Rightarrow>
            if meshx_node_is_my_address (mc_dst c) (mw_node w) then meshx_net_loopback net_receive pkt c w
            else do {
              (valid_iface, w) \<leftarrow> net_send_all pkt c False (mw_ifaces w) w;
              Some (if valid_iface then MESHX_SUCCESS else MESHX_ERR_INVAL_NET_IFACE, w)
            }
        | Some a \<Rightarrow> do {
            x \<leftarrow> mw_iface_mem w a;
            if ni_type x = MESHX_NET_IFACE_TYPE_LOOPBACK then meshx_net_loopback net_receive pkt c w
            else meshx_net_send_to_bearer pkt c a w
          })
     })"

end
