(* ===== verification/Mesh_Net_Facts.thy ===== *)
theory Mesh_Net_Facts
  imports Mesh_Net
begin

text \<open>
  Facts of the network layer: encryption, obfuscation and decryption on the parts of a packet,
  the reception as a sequence of attempts under the candidate keys, the packet of a message
  and its opening, and the properties that rest on them.
\<close>

lemma mem_read_mid: "off = length xs \<Longrightarrow> n = length ys \<Longrightarrow> mem_read (xs @ ys @ zs) off n = Some ys"
  by (simp add: mem_read_def)

lemma mem_write_mid: "off = length xs \<Longrightarrow> length d = length ys \<Longrightarrow> mem_write (xs @ ys @ zs) off d = Some (xs @ d @ zs)"
  by (simp add: mem_write_def)

lemma take_all_front: "n = length xs \<Longrightarrow> take n (xs @ ys) = xs"
  by simp

section \<open>The parts of a packet\<close>

lemma six_cons:
  assumes "length h = 6"
  obtains h0 h1 h2 h3 h4 h5 where "h = [h0, h1, h2, h3, h4, h5]"
  using assms by (auto simp: eval_nat_numeral length_Suc_conv)

definition net_mask :: "aes128 \<Rightarrow> bytes \<Rightarrow> u32 \<Rightarrow> net_key_value \<Rightarrow> bytes" where
  "net_mask aes body iv_index v = take 6 (meshx_e aes (zeros 5 @ be32 iv_index @ take 7 body) (privacy_key v))"

definition nonce6 :: "bytes \<Rightarrow> u32 \<Rightarrow> bytes" where
  "nonce6 h iv_index = [MESHX_NONCE_TYPE_NET, h ! 0] @ drop 1 h @ [0, 0] @ be32 iv_index"

lemma flag7_id: "flag7 (bit x 7) (x AND 0x7f) = x"
proof -
  have m: "(0x7f :: u8) = mask 7" by (simp add: mask_eq_exp_minus_1)
  show ?thesis unfolding flag7_def m
    apply (rule bit_word_eqI)
    subgoal for n by (cases "n = 7") (auto simp: bit_simps)
    done
qed

lemma flag7_fields: "x < 0x80 \<Longrightarrow> flag7 f x AND 0x7f = x" "x < 0x80 \<Longrightarrow> bit (flag7 f x) 7 = f"
proof -
  have m: "(0x7f :: u8) = mask 7" by (simp add: mask_eq_exp_minus_1)
  assume "x < 0x80"
  then have b: "bit x n \<Longrightarrow> n < 7" for n using bit_below [of x 7 n] by (simp add: word_less_nat_alt)
  show "flag7 f x AND 0x7f = x" unfolding flag7_def m using b by (intro bit_word_eqI) (auto simp: bit_simps)
  show "bit (flag7 f x) 7 = f" unfolding flag7_def m using b by (auto simp: bit_simps)
qed

lemma mask_length [simp]: "aes_block aes \<Longrightarrow> length (net_mask aes body ix v) = 6"
  by (simp add: net_mask_def meshx_e_def)

lemma obfuscation_parts:
  assumes "length h = 6" "aes_block aes"
  shows "meshx_net_obfuscation aes (b0 # h @ body) ix v = b0 # map2 (XOR) h (net_mask aes body ix v) @ body"
proof -
  obtain h0 h1 h2 h3 h4 h5 where h: "h = [h0, h1, h2, h3, h4, h5]" using six_cons [OF assms(1)] .
  define e where "e = meshx_e aes (zeros 5 @ be32 ix @ take 7 body) (privacy_key v)"
  have "length e = 16" using assms(2) by (simp add: e_def meshx_e_def)
  then have m: "take 6 e = [e ! 0, e ! 1, e ! 2, e ! 3, e ! 4, e ! 5]"
    by (intro nth_equalityI) (auto simp: less_Suc_eq eval_nat_numeral)
  have d: "drop 7 (b0 # h @ body) = body" using assms(1) by simp
  have f: "foldl (\<lambda>pdu i. pdu[1 + i := pdu ! (1 + i) XOR e ! i]) (b0 # h @ body) [0..<6] =
    b0 # map2 (XOR) h [e ! 0, e ! 1, e ! 2, e ! 3, e ! 4, e ! 5] @ body"
    by (simp add: h upt_rec eval_nat_numeral)
  show ?thesis
    unfolding meshx_net_obfuscation_def net_mask_def Let_def net_sizes d e_def [symmetric] m f by (rule refl)
qed

lemma nonce_parts: "length h = 6 \<Longrightarrow> net_nonce (b0 # h @ body) ix = nonce6 h ix"
  by (erule six_cons) (simp add: net_nonce_def nonce6_def np_ctl_def np_ttl_def flag7_id)

lemma ctl_parts: "length h = 6 \<Longrightarrow> np_ctl (b0 # h @ body) = bit (h ! 0) 7"
  by (erule six_cons) (simp add: np_ctl_def)

lemma nonce6_length [simp]: "length h = 6 \<Longrightarrow> length (nonce6 h ix) = 13"
  by (simp add: nonce6_def)

text \<open>Decryption on the parts of a packet.\<close>

lemma ccm_decrypt_out_length:
  "aes_block aes \<Longrightarrow> length (snd (meshx_aes_ccm_decrypt aes k n a c t c)) = length c"
  by (auto simp: ccm_decrypt_parts Let_def split: option.splits
      dest: ccm_auth_crypt_inverse(2) [where m' = CCM_ENCRYPT])

lemma decrypt_parts:
  assumes "length h = 6" "aes_block aes" "length cipher = 2 + unat n" "length mic = net_mic_len (bit (h ! 0) 7)"
  shows "meshx_net_decrypt aes (b0 # h @ cipher @ mic @ rest) n ix v =
    (case meshx_aes_ccm_decrypt aes (encryption_key v) (nonce6 h ix) [] cipher mic cipher of
       (ret, plain) \<Rightarrow> Some (ret, b0 # h @ plain @ mic @ rest))"
proof -
  obtain ret plain where d: "meshx_aes_ccm_decrypt aes (encryption_key v) (nonce6 h ix) [] cipher mic cipher = (ret, plain)"
    by fastforce
  have len: "length plain = 2 + unat n" using ccm_decrypt_out_length [OF assms(2)] d assms(3) by (metis snd_conv)
  have r: "mem_read (b0 # h @ cipher @ mic @ rest) 7 (2 + unat n) = Some cipher"
    "mem_read (b0 # h @ cipher @ mic @ rest) (9 + unat n) (net_mic_len (bit (h ! 0) 7)) = Some mic"
    using mem_read_mid [of 7 "b0 # h" "2 + unat n" cipher "mic @ rest"]
      mem_read_mid [of "9 + unat n" "b0 # h @ cipher" "net_mic_len (bit (h ! 0) 7)" mic rest] assms(1,3,4) by simp_all
  have w: "mem_write (b0 # h @ cipher @ mic @ rest) 7 plain = Some (b0 # h @ plain @ mic @ rest)"
    using mem_write_mid [of 7 "b0 # h" plain cipher "mic @ rest"] assms(1,3) len by simp
  show ?thesis
    using r w d by (simp add: meshx_net_decrypt_def net_sizes nonce_parts [OF assms(1)] ctl_parts [OF assms(1)])
qed

lemma encrypt_parts:
  assumes "length h = 6" "aes_block aes" "length plain = 2 + unat n" "unat n + net_mic_len (bit (h ! 0) 7) \<le> 20"
  shows "\<exists>cipher mic. meshx_aes_ccm_encrypt aes (encryption_key v) (nonce6 h ix) [] plain (net_mic_len (bit (h ! 0) 7)) = Inr (cipher, mic) \<and>
    length cipher = 2 + unat n \<and> length mic = net_mic_len (bit (h ! 0) 7) \<and>
    meshx_net_encrypt aes (b0 # h @ plain @ zeros (20 - unat n)) n ix v =
      Some (b0 # h @ cipher @ mic @ zeros (20 - unat n - net_mic_len (bit (h ! 0) 7)))"
proof -
  define m where "m = net_mic_len (bit (h ! 0) 7)"
  have m: "m \<in> {4, 6, 8, 10, 12, 14, 16}" "unat n + m \<le> 20" using assms(4) by (simp_all add: m_def net_mic_len_def)
  have l: "length plain < 65536" "length ([] :: bytes) \<le> 0xFF00" using m(2) assms(3) by simp_all
  obtain cipher mic where c: "meshx_aes_ccm_encrypt aes (encryption_key v) (nonce6 h ix) [] plain m = Inr (cipher, mic)"
    "length cipher = 2 + unat n" "length mic = m"
    using ccm_encrypt_ok [OF assms(2) nonce6_length [OF assms(1)] l m(1)] assms(3) by metis
  have r: "mem_read (b0 # h @ plain @ zeros (20 - unat n)) 7 (2 + unat n) = Some plain"
    using mem_read_mid [of 7 "b0 # h" "2 + unat n" plain] assms(1,3) by simp
  have w: "mem_write (b0 # h @ plain @ zeros (20 - unat n)) 7 cipher = Some (b0 # h @ cipher @ zeros (20 - unat n))"
    using mem_write_mid [of 7 "b0 # h" cipher plain] assms(1,3) c(2) by simp
  have "zeros (20 - unat n) = zeros m @ zeros (20 - unat n - m)"
    using m(2) by (simp add: replicate_add [symmetric])
  then have w': "mem_write (b0 # h @ cipher @ zeros (20 - unat n)) (9 + unat n) mic =
      Some (b0 # h @ cipher @ mic @ zeros (20 - unat n - m))"
    using mem_write_mid [of "9 + unat n" "b0 # h @ cipher" mic "zeros m"] assms(1) c(2,3) by simp
  have "meshx_net_encrypt aes (b0 # h @ plain @ zeros (20 - unat n)) n ix v =
      Some (b0 # h @ cipher @ mic @ zeros (20 - unat n - m))"
    unfolding meshx_net_encrypt_def net_sizes nonce_parts [OF assms(1)] ctl_parts [OF assms(1)] m_def [symmetric] r
    by (simp add: c(1) w w')
  then show ?thesis using c unfolding m_def [symmetric] by blast
qed

section \<open>Candidates\<close>

text \<open>The values with the NID of the packet, in the order of the traversal; an attempt with one.\<close>

definition net_candidates :: "net_key_info list \<Rightarrow> u8 \<Rightarrow> (net_key_info \<times> nat) list" where
  "net_candidates ks n = concat (map (\<lambda>k. map (Pair k) (filter (\<lambda>i. nid (snb_value i k) = n) (snb_indices k))) ks)"

definition net_attempt :: "aes128 \<Rightarrow> nat \<Rightarrow> u32 \<Rightarrow> net_key_value \<Rightarrow> bytes \<Rightarrow> (bool \<times> bytes) option" where
  "net_attempt aes len ix v pdu = do {
    (ret, pdu) \<leftarrow> meshx_net_decrypt aes (meshx_net_obfuscation aes pdu ix v)
      (trans_len_of len (np_ctl (meshx_net_obfuscation aes pdu ix v))) ix v;
    Some (ret = MESHX_SUCCESS, pdu)
  }"

fun net_attempts ::
  "aes128 \<Rightarrow> nat \<Rightarrow> u32 \<Rightarrow> (net_key_info \<times> nat) list \<Rightarrow> bytes \<Rightarrow> ((nat \<times> nat) option \<times> bytes) option" where
  "net_attempts aes len ix [] pdu = Some (None, pdu)"
| "net_attempts aes len ix ((k, i) # cs) pdu = do {
    (ok, pdu) \<leftarrow> net_attempt aes len ix (snb_value i k) pdu;
    if ok then Some (Some (nk_addr k, i), pdu) else net_attempts aes len ix cs pdu
  }"

lemma obfuscation_byte0: "meshx_net_obfuscation aes pdu ix v ! 0 = pdu ! 0" "length (meshx_net_obfuscation aes pdu ix v) = length pdu"
proof -
  have "foldl (\<lambda>pdu i. pdu[1 + i := f pdu i]) pdu is ! 0 = pdu ! 0"
    "length (foldl (\<lambda>pdu i. pdu[1 + i := f pdu i]) pdu is) = length pdu" for f and "is" :: "nat list"
    by (induction "is" arbitrary: pdu) simp_all
  then show "meshx_net_obfuscation aes pdu ix v ! 0 = pdu ! 0" "length (meshx_net_obfuscation aes pdu ix v) = length pdu"
    by (simp_all add: meshx_net_obfuscation_def net_sizes)
qed

lemma obfuscation_nid: "np_nid (meshx_net_obfuscation aes pdu ix v) = np_nid pdu"
  by (simp add: np_nid_def obfuscation_byte0)

lemma attempt_byte0: "net_attempt aes len ix v pdu = Some (r, pdu') \<Longrightarrow> pdu' ! 0 = pdu ! 0 \<and> length pdu' = length pdu"
proof -
  assume "net_attempt aes len ix v pdu = Some (r, pdu')"
  then obtain plain where w: "mem_write (meshx_net_obfuscation aes pdu ix v) 7 plain = Some pdu'"
    by (auto simp: net_attempt_def meshx_net_decrypt_def net_sizes split: Option.bind_splits prod.splits)
  then have "pdu' ! 0 = meshx_net_obfuscation aes pdu ix v ! 0"
    using mem_write_nth [OF w, of 0] by (cases "meshx_net_obfuscation aes pdu ix v") (auto simp: mem_write_def split: if_splits)
  then show ?thesis using obfuscation_byte0 [of aes pdu ix v] mem_write_length [OF w] by simp
qed

lemma attempt_nid: "net_attempt aes len ix v pdu = Some (r, pdu') \<Longrightarrow> np_nid pdu' = np_nid pdu"
  by (simp add: np_nid_def attempt_byte0)

lemma net_try_values_attempts:
  "net_try_values aes len ix k is pdu = do {
    (hit, pdu) \<leftarrow> net_attempts aes len ix (map (Pair k) (filter (\<lambda>i. nid (snb_value i k) = np_nid pdu) is)) pdu;
    Some (map_option snd hit, pdu) }"
proof (induction "is" arbitrary: pdu)
  case (Cons i js)
  show ?case
  proof (cases "nid (snb_value i k) = np_nid pdu")
    case True
    then show ?thesis
      using Cons.IH attempt_nid [of aes len ix "snb_value i k" pdu]
      by (auto simp: net_attempt_def Let_def split: Option.bind_splits)
  qed (simp add: Cons.IH)
qed simp

lemma net_attempts_append:
  "net_attempts aes len ix (xs @ ys) pdu = do {
    (hit, pdu) \<leftarrow> net_attempts aes len ix xs pdu;
    (case hit of Some h \<Rightarrow> Some (Some h, pdu) | None \<Rightarrow> net_attempts aes len ix ys pdu) }"
  by (induction aes len ix xs pdu rule: net_attempts.induct) (auto split: Option.bind_split)

lemma net_attempts_nid: "net_attempts aes len ix xs pdu = Some (r, pdu') \<Longrightarrow> np_nid pdu' = np_nid pdu"
  by (induction aes len ix xs pdu rule: net_attempts.induct)
    (auto split: Option.bind_splits if_splits dest: attempt_nid)

lemma net_attempts_key: "net_attempts aes len ix (map (Pair k) is) pdu = Some (Some h, pdu') \<Longrightarrow> h = (nk_addr k, snd h)"
  by (induction "is" arbitrary: pdu) (auto split: Option.bind_splits if_splits)

lemma net_try_keys_attempts:
  "net_try_keys aes len ix ks pdu = net_attempts aes len ix (net_candidates ks (np_nid pdu)) pdu"
proof (induction ks arbitrary: pdu)
  case (Cons k ks)
  let ?c = "map (Pair k) (filter (\<lambda>i. nid (snb_value i k) = np_nid pdu) (snb_indices k))"
  have c: "net_candidates (k # ks) (np_nid pdu) = ?c @ net_candidates ks (np_nid pdu)" by (simp add: net_candidates_def)
  show ?case
  proof (cases "net_attempts aes len ix ?c pdu")
    case (Some r)
    obtain hit pdu' where r: "r = (hit, pdu')" by fastforce
    show ?thesis
    proof (cases hit)
      case None
      then show ?thesis using Some r Cons.IH net_attempts_nid [of aes len ix ?c pdu hit pdu']
        by (simp add: net_try_values_attempts c net_attempts_append)
    next
      case (Some h)
      then show ?thesis using \<open>net_attempts aes len ix ?c pdu = Some r\<close> r net_attempts_key [of aes len ix k _ pdu h pdu']
        by (simp add: net_try_values_attempts c net_attempts_append)
    qed
  qed (simp add: net_try_values_attempts c net_attempts_append)
qed (simp add: net_candidates_def)

section \<open>The packet of a message\<close>

definition hdr0 :: "net_key_value \<Rightarrow> msg_ctx \<Rightarrow> u8" where
  "hdr0 v c = flag7 (bit (mc_iv_index c) 0) (nid v)"

definition hdr6 :: "msg_ctx \<Rightarrow> bytes" where
  "hdr6 c = flag7 (mc_ctl c) (mc_ttl c) # seq_bytes (mc_seq c) @ be16 (mc_src c)"

lemma hdr6_length [simp]: "length (hdr6 c) = 6"
  by (simp add: hdr6_def seq_bytes_def)

lemma net_header_parts: "net_header (nid v) c = hdr0 v c # hdr6 c @ be16 (mc_dst c)"
  by (simp add: net_header_def hdr0_def hdr6_def)

text \<open>A context whose fields fit, with a transport pdu of a length the layer sends.\<close>

definition net_sendable :: "bytes \<Rightarrow> msg_ctx \<Rightarrow> bool" where
  "net_sendable tp c \<longleftrightarrow> mc_ttl c < 0x80 \<and> unat (mc_seq c) < 2 ^ 24 \<and> 0 < length tp \<and>
    length tp + net_mic_len (mc_ctl c) \<le> 20"

lemma hdr6_ctl: "net_sendable tp c \<Longrightarrow> bit (hdr6 c ! 0) 7 = mc_ctl c"
  by (simp add: hdr6_def flag7_fields net_sendable_def)

lemma net_mask_append: "7 \<le> length body \<Longrightarrow> net_mask aes (body @ r) ix v = net_mask aes body ix v"
  by (simp add: net_mask_def)

lemma net_packet_parts:
  assumes "aes_block aes" "net_sendable tp c"
  shows "\<exists>cipher mic. meshx_aes_ccm_encrypt aes (encryption_key v) (nonce6 (hdr6 c) (mc_iv_index c)) []
        (be16 (mc_dst c) @ tp) (net_mic_len (mc_ctl c)) = Inr (cipher, mic) \<and>
    length cipher = 2 + length tp \<and> length mic = net_mic_len (mc_ctl c) \<and>
    net_packet aes tp c v = Some (hdr0 v c #
      map2 (XOR) (hdr6 c) (net_mask aes (cipher @ mic) (mc_iv_index c) v) @ cipher @ mic)"
proof -
  define m where "m = net_mic_len (mc_ctl c)"
  have len: "length tp + m \<le> 20" "0 < length tp" "4 \<le> m"
    using assms(2) by (simp_all add: net_sendable_def m_def net_mic_len_def)
  have u: "unat (word_of_nat (length tp) :: u8) = length tp"
    using len(1) by (simp add: unsigned_of_nat take_bit_nat_eq_self)
  note ctl = hdr6_ctl [OF assms(2)]
  have wr: "mem_write (net_header (nid v) c @ zeros 20) 9 tp =
    Some (hdr0 v c # hdr6 c @ (be16 (mc_dst c) @ tp) @ zeros (20 - length tp))"
  proof -
    have z: "zeros 20 = zeros (length tp) @ zeros (20 - length tp)" using len(1) by (simp add: replicate_add [symmetric])
    show ?thesis unfolding net_header_parts z
      using mem_write_mid [of 9 "hdr0 v c # hdr6 c @ be16 (mc_dst c)" tp "zeros (length tp)" "zeros (20 - length tp)"] by simp
  qed
  obtain cipher mic where c: "meshx_aes_ccm_encrypt aes (encryption_key v) (nonce6 (hdr6 c) (mc_iv_index c)) []
        (be16 (mc_dst c) @ tp) m = Inr (cipher, mic)" "length cipher = 2 + length tp" "length mic = m"
    "meshx_net_encrypt aes (hdr0 v c # hdr6 c @ (be16 (mc_dst c) @ tp) @ zeros (20 - length tp)) (word_of_nat (length tp)) (mc_iv_index c) v =
      Some (hdr0 v c # hdr6 c @ cipher @ mic @ zeros (20 - length tp - m))"
    using encrypt_parts [OF hdr6_length assms(1), of "be16 (mc_dst c) @ tp" "word_of_nat (length tp)" c v "mc_iv_index c" "hdr0 v c"] len
    unfolding ctl m_def [symmetric] u by auto
  have o: "meshx_net_obfuscation aes (hdr0 v c # hdr6 c @ cipher @ mic @ zeros (20 - length tp - m)) (mc_iv_index c) v =
    hdr0 v c # map2 (XOR) (hdr6 c) (net_mask aes (cipher @ mic) (mc_iv_index c) v) @ cipher @ mic @ zeros (20 - length tp - m)"
    using obfuscation_parts [OF hdr6_length assms(1), of "hdr0 v c" c "cipher @ mic @ zeros (20 - length tp - m)" "mc_iv_index c" v]
      net_mask_append [of "cipher @ mic" aes "zeros (20 - length tp - m)" "mc_iv_index c" v] len c(2,3) by simp
  have "net_packet aes tp c v = Some (hdr0 v c #
      map2 (XOR) (hdr6 c) (net_mask aes (cipher @ mic) (mc_iv_index c) v) @ cipher @ mic)"
    unfolding net_packet_def net_sizes wr m_def [symmetric] Option.bind.bind_lunit Let_def c(4) o
    using take_all_front [of "9 + length tp + m" "hdr0 v c # map2 (XOR) (hdr6 c) (net_mask aes (cipher @ mic) (mc_iv_index c) v) @ cipher @ mic"]
      c(2,3) assms(1) by simp
  then show ?thesis using c unfolding m_def [symmetric] by blast
qed

lemma xor_twice: "length a = length b \<Longrightarrow> map2 (XOR) (map2 (XOR) a b) b = (a :: bytes)"
  by (induction a b rule: list_induct2) (simp_all add: xor.assoc)

lemma trans_len_exact: "n \<le> 20 \<Longrightarrow> trans_len_of (9 + n + net_mic_len ctl) ctl = word_of_nat n"
  by (simp add: trans_len_of_def net_sizes)

text \<open>An attempt with the key of the sender opens the packet.\<close>

definition net_opened :: "bytes \<Rightarrow> msg_ctx \<Rightarrow> net_key_value \<Rightarrow> bytes \<Rightarrow> bytes" where
  "net_opened tp c v rest = hdr0 v c # hdr6 c @ be16 (mc_dst c) @ tp @ rest"

lemma net_attempt_opens:
  assumes "aes_block aes" "net_sendable tp c" "net_packet aes tp c v = Some pkt" "length left = 29"
  shows "\<exists>rest. net_attempt aes (length pkt) (mc_iv_index c) v (take 29 (pkt @ left)) = Some (True, net_opened tp c v rest) \<and>
    length rest = 20 - length tp \<and> length pkt = 9 + length tp + net_mic_len (mc_ctl c) \<and> pkt ! 0 = hdr0 v c"
proof -
  obtain cipher mic where e: "meshx_aes_ccm_encrypt aes (encryption_key v) (nonce6 (hdr6 c) (mc_iv_index c)) []
        (be16 (mc_dst c) @ tp) (net_mic_len (mc_ctl c)) = Inr (cipher, mic)"
    "length cipher = 2 + length tp" "length mic = net_mic_len (mc_ctl c)"
    "net_packet aes tp c v = Some (hdr0 v c # map2 (XOR) (hdr6 c) (net_mask aes (cipher @ mic) (mc_iv_index c) v) @ cipher @ mic)"
    using net_packet_parts [OF assms(1,2)] by blast
  let ?h = "map2 (XOR) (hdr6 c) (net_mask aes (cipher @ mic) (mc_iv_index c) v)"
  have pkt: "pkt = hdr0 v c # ?h @ cipher @ mic" using e(4) assms(3) by simp
  have h: "length ?h = 6" using assms(1) by simp
  have len: "0 < length tp" "length tp + net_mic_len (mc_ctl c) \<le> 20" "4 \<le> net_mic_len (mc_ctl c)"
    using assms(2) by (simp_all add: net_sendable_def net_mic_len_def)
  have lp: "length pkt = 9 + length tp + net_mic_len (mc_ctl c)" using pkt h e(2,3) by simp
  define r where "r = take (29 - length pkt) left"
  have copy: "take 29 (pkt @ left) = hdr0 v c # ?h @ cipher @ mic @ r"
  proof -
    have "take 29 (pkt @ left) = pkt @ r" using lp len(2) by (simp add: r_def)
    then show ?thesis by (simp add: pkt)
  qed
  have o: "meshx_net_obfuscation aes (hdr0 v c # ?h @ cipher @ mic @ r) (mc_iv_index c) v = hdr0 v c # hdr6 c @ cipher @ mic @ r"
    using obfuscation_parts [OF h assms(1), of "hdr0 v c" "cipher @ mic @ r" "mc_iv_index c" v]
      net_mask_append [of "cipher @ mic" aes r "mc_iv_index c" v] len e(2,3) xor_twice [of "hdr6 c" "net_mask aes (cipher @ mic) (mc_iv_index c) v"]
      assms(1) by simp
  have u: "unat (word_of_nat (length tp) :: u8) = length tp"
    using len(2) by (simp add: unsigned_of_nat take_bit_nat_eq_self)
  have n: "trans_len_of (length pkt) (np_ctl (hdr0 v c # hdr6 c @ cipher @ mic @ r)) = word_of_nat (length tp)"
    using trans_len_exact [of "length tp" "mc_ctl c"] len(2) by (simp add: lp ctl_parts hdr6_ctl [OF assms(2)])
  have d: "meshx_aes_ccm_decrypt aes (encryption_key v) (nonce6 (hdr6 c) (mc_iv_index c)) [] cipher mic cipher =
    (MESHX_SUCCESS, be16 (mc_dst c) @ tp)"
    using ccm_decrypt_exact [OF assms(1)] e(1,3) by simp
  have "net_attempt aes (length pkt) (mc_iv_index c) v (take 29 (pkt @ left)) =
    Some (True, hdr0 v c # hdr6 c @ (be16 (mc_dst c) @ tp) @ mic @ r)"
    unfolding net_attempt_def copy o n
    using decrypt_parts [OF hdr6_length assms(1), of cipher "word_of_nat (length tp)" mic c "hdr0 v c" r "mc_iv_index c" v]
      hdr6_ctl [OF assms(2)] e(2,3) u d by simp
  moreover have "length (mic @ r) = 20 - length tp" using lp len(2) e(3) assms(4) by (simp add: r_def)
  moreover have "pkt ! 0 = hdr0 v c" by (simp add: pkt)
  ultimately show ?thesis using lp by (intro exI [of _ "mic @ r"]) (simp add: net_opened_def)
qed

lemma seq_bytes_fields:
  assumes "unat q < 2 ^ 24"
  shows "push_bit 8 (push_bit 8 (ucast (ucast (drop_bit 16 q) :: u8)) OR ucast (ucast (drop_bit 8 q) :: u8)) OR ucast (ucast q :: u8) = (q :: u32)"
proof -
  have b: "bit q n \<Longrightarrow> n < 24" for n using bit_below [OF assms] .
  show ?thesis
    apply (rule bit_word_eqI)
    subgoal for n by (rule split32 [of n]) (use b [of n] in \<open>auto simp: bit_simps\<close>)
    done
qed

lemma net_opened_fields:
  assumes "net_sendable tp c"
  shows "np_ctl (net_opened tp c v r) = mc_ctl c" "np_ttl (net_opened tp c v r) = mc_ttl c"
    "np_seq (net_opened tp c v r) = mc_seq c" "np_src (net_opened tp c v r) = mc_src c"
    "np_dst (net_opened tp c v r) = mc_dst c" "drop 9 (net_opened tp c v r) = tp @ r"
    "np_nid (net_opened tp c v r) = np_nid [hdr0 v c]"
proof -
  obtain a b where s: "be16 (mc_src c) = [a, b]" "of_be16 [a, b] = mc_src c"
    using be16_roundtrip [of "mc_src c"] by (metis be16_bytes)
  obtain a' b' where d: "be16 (mc_dst c) = [a', b']" "of_be16 [a', b'] = mc_dst c"
    using be16_roundtrip [of "mc_dst c"] by (metis be16_bytes)
  have t: "mc_ttl c < 0x80" "unat (mc_seq c) < 2 ^ 24" using assms by (simp_all add: net_sendable_def)
  show "np_ctl (net_opened tp c v r) = mc_ctl c" "np_ttl (net_opened tp c v r) = mc_ttl c"
    "np_seq (net_opened tp c v r) = mc_seq c" "np_src (net_opened tp c v r) = mc_src c"
    "np_dst (net_opened tp c v r) = mc_dst c" "drop 9 (net_opened tp c v r) = tp @ r"
    "np_nid (net_opened tp c v r) = np_nid [hdr0 v c]"
    using flag7_fields [OF t(1)] seq_bytes_fields [OF t(2)] s(2) d(2)
    by (simp_all add: net_opened_def np_ctl_def np_ttl_def np_seq_def np_src_def np_dst_def np_nid_def hdr6_def
        seq_bytes_def s(1) d(1))
qed

section \<open>The choice of the IV index\<close>

definition net_index :: "u32 \<Rightarrow> bool \<Rightarrow> u32" where
  "net_index cur ivi = (if bit cur 0 \<noteq> ivi then cur - 1 else cur)"

lemma net_index_follows: "cur = ix \<or> cur = ix + 1 \<Longrightarrow> net_index cur (bit ix 0) = ix"
  by (auto simp: net_index_def bit_0)

lemma net_index_parity: "bit (net_index cur ivi) 0 = ivi"
  by (auto simp: net_index_def bit_0)

lemma flag7_low: "flag7 f x AND 0x7f = x AND 0x7f" "bit (flag7 f x) 7 = f"
proof -
  have m: "(0x7f :: u8) = mask 7" by (simp add: mask_eq_exp_minus_1)
  show "flag7 f x AND 0x7f = x AND 0x7f" unfolding flag7_def m by (intro bit_word_eqI) (auto simp: bit_simps)
  show "bit (flag7 f x) 7 = f" unfolding flag7_def m by (auto simp: bit_simps)
qed

lemma hdr0_fields: "np_ivi (hdr0 v c # x) = bit (mc_iv_index c) 0" "np_nid (hdr0 v c # x) = nid v AND 0x7f"
  by (simp_all add: np_ivi_def np_nid_def hdr0_def flag7_low)

lemma net_receive_eq:
  assumes "mw_iface_mem w a = Some x" "ni_ifilter x = Some f" "f a"
  shows "\<exists>i. meshx_net_receive aes up (Some a) pdata w = do {
      (hit, pdu) \<leftarrow> net_attempts aes (length pdata) (net_index (cur_iv_index (iv (mw_iv w))) (np_ivi (net_pdu_copy pdata w)))
        (net_candidates (meshx_net_keys (mw_keys w)) (np_nid (net_pdu_copy pdata w))) (net_pdu_copy pdata w);
      (case hit of
         None \<Rightarrow> Some (MESHX_ERR_KEY, iface_upd a (\<lambda>x. x\<lparr>ni_info := i\<rparr>) w)
       | Some key \<Rightarrow> net_accept up a (length pdata) (net_index (cur_iv_index (iv (mw_iv w))) (np_ivi (net_pdu_copy pdata w)))
           key pdu (iface_upd a (\<lambda>x. x\<lparr>ni_info := i\<rparr>) w)) }"
proof -
  have c: "net_pdu_copy pdata (iface_upd a g w) = net_pdu_copy pdata w" for g
    by (simp add: net_pdu_copy_def junk_def iface_upd_def)
  have k: "mw_keys (iface_upd a g w) = mw_keys w" "mw_iv (iface_upd a g w) = mw_iv w" for g
    by (simp_all add: iface_upd_def)
  show ?thesis using assms
    by (intro exI [of _ "(ni_info x)\<lparr>total_receive := total_receive (ni_info x) + 1\<rparr>"],
        cases "bit (cur_iv_index (iv (mw_iv w))) 0 = np_ivi (net_pdu_copy pdata w)")
      (simp_all add: meshx_net_receive_def meshx_net_iface_ifilter_def Let_def c k meshx_iv_index_get_def
        net_try_keys_attempts net_index_def cong: if_cong option.case_cong)
qed

section \<open>What an attempt accepts\<close>

text \<open>The context reception makes of an opened packet.\<close>

definition net_ctx :: "nat \<Rightarrow> u32 \<Rightarrow> nat \<times> nat \<Rightarrow> bytes \<Rightarrow> msg_ctx" where
  "net_ctx a ix key pdu = mc_zero\<lparr>mc_ctl := np_ctl pdu, mc_ttl := np_ttl pdu, mc_src := np_src pdu, mc_dst := np_dst pdu,
     mc_iv_index := ix, mc_seq := np_seq pdu, mc_net_key := Some key, mc_net_iface := Some a\<rparr>"

lemma trans_len_fits:
  assumes "len \<le> 29" "unat (trans_len_of len ctl) \<le> 20"
  shows "len = 9 + unat (trans_len_of len ctl) + net_mic_len ctl"
proof (cases "9 + net_mic_len ctl \<le> len")
  case True
  then obtain n where n: "len = 9 + n + net_mic_len ctl" by (metis add.assoc add.commute le_Suc_ex)
  then show ?thesis using trans_len_exact [of n ctl] assms(1) by (simp add: unsigned_of_nat take_bit_nat_eq_self)
next
  case False
  define d where "d = 9 + net_mic_len ctl - len"
  have "net_mic_len ctl \<le> 8" by (simp add: net_mic_len_def)
  then have d: "9 + net_mic_len ctl = len + d" "0 < d" "d \<le> 17" using False by (simp_all add: d_def)
  have "int len - int 9 - int (net_mic_len ctl) = - int d" using d(1) by linarith
  then have "trans_len_of len ctl = word_of_int (- int d)" by (simp only: trans_len_of_def net_sizes)
  also have "\<dots> = word_of_nat (256 - d)" using d(3) by (simp add: of_nat_diff)
  finally have "unat (trans_len_of len ctl) = 256 - d" using d(2) by (simp add: unsigned_of_nat take_bit_nat_eq_self)
  then show ?thesis using assms(2) d(3) by simp
qed

lemma flag7_join: "flag7 (bit b 7) x = b" if "x AND 0x7f = b AND 0x7f" for b :: u8
proof -
  have "flag7 f x = flag7 f (x AND 0x7f)" for f by (simp add: flag7_def and.assoc)
  then show ?thesis using that flag7_id [of b] by simp
qed

lemma seq_join:
  fixes a b c :: u8
  defines "q \<equiv> push_bit 8 (push_bit 8 (ucast a) OR ucast b) OR ucast c :: u32"
  shows "seq_bytes q = [a, b, c]" "unat q < 2 ^ 24"
proof -
  show "seq_bytes q = [a, b, c]" unfolding q_def seq_bytes_def
    by (auto intro!: bit_word_eqI simp: bit_simps)
  have "take_bit 24 q = q" unfolding q_def
    by (rule bit_word_eqI) (auto simp: bit_simps)
  then have "unat q = take_bit 24 (unat q)" by (metis unsigned_take_bit_eq)
  then show "unat q < 2 ^ 24" by (metis take_bit_nat_less_exp)
qed

lemma split_at: "a + b \<le> length xs \<Longrightarrow> xs = take a xs @ take b (drop a xs) @ drop (a + b) xs"
  by (metis add.commute append_take_drop_id drop_drop)

lemma attempt_inverse:
  assumes "aes_block aes" "net_attempt aes len ix v pdu = Some (True, pdu')" "length pdu = 29" "len \<le> 29"
    "nid v AND 0x7f = np_nid pdu" "np_ivi pdu = bit ix 0" "trans_len_of len (np_ctl pdu') \<noteq> 0"
  shows "net_packet aes (take (unat (trans_len_of len (np_ctl pdu'))) (drop 9 pdu')) (net_ctx a ix key pdu') v = Some (take len pdu)"
    "length pdu' = 29" "len = 9 + unat (trans_len_of len (np_ctl pdu')) + net_mic_len (np_ctl pdu')"
proof -
  obtain b0 h' rest where pdu: "pdu = b0 # h' @ rest" "length h' = 6" "length rest = 22"
    using assms(3) by (cases pdu) (auto intro: that [of _ "take 6 (tl pdu)" "drop 6 (tl pdu)"])
  define mask where "mask = net_mask aes rest ix v"
  define h where "h = map2 (XOR) h' mask"
  have hl: "length h = 6" using pdu(2) assms(1) by (simp add: h_def mask_def)
  have o: "meshx_net_obfuscation aes pdu ix v = b0 # h @ rest"
    using obfuscation_parts [OF pdu(2) assms(1)] by (simp add: pdu(1) h_def mask_def)
  define ctl where "ctl = bit (h ! 0) 7"
  define n where "n = trans_len_of len ctl"
  have dec: "meshx_net_decrypt aes (b0 # h @ rest) n ix v = Some (MESHX_SUCCESS, pdu')"
    using assms(2) by (auto simp: net_attempt_def o ctl_parts [OF hl] ctl_def [symmetric] n_def [symmetric] split: Option.bind_splits)
  have bounds: "9 + unat n + net_mic_len ctl \<le> 29"
  proof -
    have "mem_read (b0 # h @ rest) (9 + unat n) (net_mic_len ctl) \<noteq> None"
      using dec by (auto simp: meshx_net_decrypt_def net_sizes ctl_parts [OF hl] ctl_def [symmetric] split: Option.bind_splits)
    then show ?thesis using hl pdu(3) by (auto simp: mem_read_def split: if_splits)
  qed
  have len: "len = 9 + unat n + net_mic_len ctl"
    using trans_len_fits [OF assms(4), of ctl] bounds by (simp add: n_def)
  define cipher where "cipher = take (2 + unat n) rest"
  define mic where "mic = take (net_mic_len ctl) (drop (2 + unat n) rest)"
  define r where "r = drop (2 + unat n + net_mic_len ctl) rest"
  have rest: "rest = cipher @ mic @ r" unfolding cipher_def mic_def r_def
    by (rule split_at) (use bounds pdu(3) in simp)
  have cl: "length cipher = 2 + unat n" "length mic = net_mic_len ctl"
    using bounds pdu(3) by (simp_all add: cipher_def mic_def)
  obtain plain where pl: "meshx_aes_ccm_decrypt aes (encryption_key v) (nonce6 h ix) [] cipher mic cipher = (MESHX_SUCCESS, plain)"
    "pdu' = b0 # h @ plain @ mic @ r"
    using dec decrypt_parts [OF hl assms(1) cl(1), of mic b0 r ix v] cl(2) rest by (auto simp: ctl_def split: prod.splits)
  have enc: "meshx_aes_ccm_encrypt aes (encryption_key v) (nonce6 h ix) [] plain (net_mic_len ctl) = Inr (cipher, mic)"
    using ccm_decrypt_exact [OF assms(1)] pl(1) cl(2) by simp
  have pll: "length plain = 2 + unat n"
    using ccm_decrypt_out_length [OF assms(1)] pl(1) cl(1) by (metis snd_conv)
  then obtain p0 p1 tp where plain: "plain = [p0, p1] @ tp" "length tp = unat n"
    by (auto simp: length_Suc_conv numeral_2_eq_2)
  obtain h0 h1 h2 h3 h4 h5 where h6: "h = [h0, h1, h2, h3, h4, h5]" using six_cons [OF hl] .
  let ?c = "net_ctx a ix key pdu'"
  have ctl': "np_ctl pdu' = ctl" by (simp add: pl(2) ctl_parts [OF hl] ctl_def)
  have fields: "np_ttl pdu' = h0 AND 0x7f" "np_src pdu' = of_be16 [h4, h5]" "np_dst pdu' = of_be16 [p0, p1]"
    "np_seq pdu' = push_bit 8 (push_bit 8 (ucast h1) OR ucast h2) OR ucast h3" "drop 9 pdu' = tp @ mic @ r"
    by (simp_all add: pl(2) h6 plain(1) np_ttl_def np_src_def np_dst_def np_seq_def)
  have sq: "seq_bytes (np_seq pdu') = [h1, h2, h3]" "unat (np_seq pdu') < 2 ^ 24"
    unfolding fields(4) by (rule seq_join)+
  have hd6: "hdr6 ?c = h"
    by (simp add: hdr6_def net_ctx_def mc_zero_def ctl' sq(1) fields(1,2) be16_of_be16_bytes ctl_def h6 flag7_id)
  have hd0: "hdr0 v ?c = b0"
    using flag7_join [of "nid v" b0] assms(5,6) by (simp add: hdr0_def net_ctx_def mc_zero_def np_nid_def np_ivi_def pdu(1))
  have tp0: "tp \<noteq> []" using assms(7) plain(2) ctl' by (auto simp: n_def unat_eq_zero)
  then have n0: "0 < unat n" using plain(2) by (metis length_greater_0_conv)
  have ok: "net_sendable tp ?c"
  proof -
    have "h0 AND 0x7f < 0x80"
      using word_and_le1 [of h0 "0x7f"] by (simp add: word_le_nat_alt word_less_nat_alt)
    then show ?thesis using n0 plain(2) bounds
      by (simp add: net_sendable_def net_ctx_def mc_zero_def fields(1) ctl' sq(2) [simplified] and.commute)
  qed
  have dst: "be16 (mc_dst ?c) @ tp = plain" by (simp add: net_ctx_def mc_zero_def fields be16_of_be16_bytes plain(1))
  have "net_packet aes tp ?c v = Some (b0 # map2 (XOR) h (net_mask aes (cipher @ mic) ix v) @ cipher @ mic)"
    using net_packet_parts [OF assms(1) ok, of v] enc unfolding dst hd6 hd0
    by (simp add: net_ctx_def mc_zero_def ctl')
  moreover have "net_mask aes (cipher @ mic) ix v = mask"
    using net_mask_append [of "cipher @ mic" aes r ix v] cl n0 rest by (auto simp: mask_def net_mic_len_def split: if_splits)
  moreover have "map2 (XOR) h mask = h'" using xor_twice [of h' mask] pdu(2) assms(1) by (simp add: h_def mask_def)
  moreover have "take len pdu = b0 # h' @ cipher @ mic"
    using take_all_front [of len "b0 # h' @ cipher @ mic" r] pdu(1,2) cl rest len by simp
  ultimately show "net_packet aes (take (unat (trans_len_of len (np_ctl pdu'))) (drop 9 pdu')) ?c v = Some (take len pdu)"
    using plain(2) by (simp add: ctl' n_def [symmetric] fields)
  show "length pdu' = 29" using pl(2) hl pll cl(2) pdu(3) rest cl by simp
  show "len = 9 + unat (trans_len_of len (np_ctl pdu')) + net_mic_len (np_ctl pdu')" using len by (simp add: ctl' n_def)
qed

lemma net_delivers:
  assumes "aes_block aes" "net_sendable tp c" "MESHX_ADDRESS_IS_VALID (mc_src c)" "MESHX_ADDRESS_IS_VALID (mc_dst c)"
    and "mw_iface_mem w a = Some x" "ni_ifilter x = Some f" "f a"
    and "net_candidates (meshx_net_keys (mw_keys w)) (nid v AND 0x7f) = (k, i) # cs" "snb_value i k = v"
    and "cur_iv_index (iv (mw_iv w)) = mc_iv_index c \<or> cur_iv_index (iv (mw_iv w)) = mc_iv_index c + 1"
    and "mc_dst c = node_addr (param (mw_node w))"
    and "meshx_nmc_check \<lparr>nmc_src = mc_src c, nmc_padding = of_mem16 (junk w 2), nmc_seq = mc_seq c\<rparr> (mw_nmc w) = Some True"
    and "meshx_nmc_add \<lparr>nmc_src = mc_src c, nmc_padding = of_mem16 (junk w 2), nmc_seq = mc_seq c\<rparr> (mw_nmc w) = Some (r, s)"
  shows "\<exists>pkt rest w'. net_packet aes tp c v = Some pkt \<and>
    meshx_net_receive aes up (Some a) pkt w = up (tp @ rest) (word_of_nat (length tp))
      (mc_zero\<lparr>mc_ctl := mc_ctl c, mc_ttl := mc_ttl c, mc_src := mc_src c, mc_dst := mc_dst c,
        mc_iv_index := mc_iv_index c, mc_seq := mc_seq c, mc_net_key := Some (nk_addr k, i), mc_net_iface := Some a\<rparr>) w' \<and>
    length (tp @ rest) = 20 \<and> mw_nmc w' = s \<and> mw_keys w' = mw_keys w \<and> mw_iv w' = mw_iv w \<and>
    length pkt \<le> 29 \<and> np_nid (net_pdu_copy pkt w) = nid v AND 0x7f \<and> mw_delivered w' = mw_delivered w"
proof -
  obtain pkt where pkt: "net_packet aes tp c v = Some pkt" using net_packet_parts [OF assms(1,2)] by blast
  have len: "length (junk w 29) = 29" "length tp \<le> 20" using assms(2) by (simp_all add: net_sendable_def)
  obtain rest where r: "net_attempt aes (length pkt) (mc_iv_index c) v (take 29 (pkt @ junk w 29)) = Some (True, net_opened tp c v rest)"
    "length rest = 20 - length tp" "length pkt = 9 + length tp + net_mic_len (mc_ctl c)" "pkt ! 0 = hdr0 v c"
    using net_attempt_opens [OF assms(1,2) pkt len(1)] by blast
  obtain y where y: "pkt = hdr0 v c # y" using r(3,4) by (cases pkt) simp_all
  have copy: "net_pdu_copy pkt w = take 29 (pkt @ junk w 29)" by (simp add: net_pdu_copy_def net_sizes)
  then have h: "np_ivi (net_pdu_copy pkt w) = bit (mc_iv_index c) 0" "np_nid (net_pdu_copy pkt w) = nid v AND 0x7f"
    using hdr0_fields [of v c] by (simp_all add: y)
  obtain inf where e: "meshx_net_receive aes up (Some a) pkt w =
      net_accept up a (length pkt) (mc_iv_index c) (nk_addr k, i) (net_opened tp c v rest) (iface_upd a (\<lambda>x. x\<lparr>ni_info := inf\<rparr>) w)"
    using net_receive_eq [OF assms(5-7), of aes up pkt] r(1) assms(8,9) net_index_follows [OF assms(10)] h copy by auto
  note fields = net_opened_fields [OF assms(2), of v rest]
  have j: "junk (iface_upd a g w) n = junk w n" "mw_nmc (iface_upd a g w) = mw_nmc w" "mw_node (iface_upd a g w) = mw_node w" for g n
    by (simp_all add: junk_def iface_upd_def)
  have n: "trans_len_of (length pkt) (mc_ctl c) = word_of_nat (length tp)" using trans_len_exact [OF len(2)] r(3) by simp
  have "net_accept up a (length pkt) (mc_iv_index c) (nk_addr k, i) (net_opened tp c v rest) (iface_upd a (\<lambda>x. x\<lparr>ni_info := inf\<rparr>) w) =
    up (tp @ rest) (word_of_nat (length tp)) (mc_zero\<lparr>mc_ctl := mc_ctl c, mc_ttl := mc_ttl c, mc_src := mc_src c, mc_dst := mc_dst c,
        mc_iv_index := mc_iv_index c, mc_seq := mc_seq c, mc_net_key := Some (nk_addr k, i), mc_net_iface := Some a\<rparr>)
      ((iface_upd a (\<lambda>x. x\<lparr>ni_info := inf\<rparr>) w)\<lparr>mw_nmc := s\<rparr>)"
    using assms(3,4,11-13) by (simp add: net_accept_def fields n j net_sizes meshx_node_is_my_address_def Let_def)
  then show ?thesis using pkt e r(2,3) len(2) h(2) assms(2)
    by (intro exI [of _ pkt] exI [of _ rest] exI [of _ "(iface_upd a (\<lambda>x. x\<lparr>ni_info := inf\<rparr>) w)\<lparr>mw_nmc := s\<rparr>"])
      (simp add: iface_upd_def net_sendable_def)
qed

lemma copy_length [simp]: "length (net_pdu_copy pdata w) = 29"
  by (simp add: net_pdu_copy_def net_sizes)

lemma candidate_nid: "(k, i) \<in> set (net_candidates ks (np_nid pdu)) \<Longrightarrow> nid (snb_value i k) AND 0x7f = np_nid pdu"
proof -
  assume "(k, i) \<in> set (net_candidates ks (np_nid pdu))"
  then have "nid (snb_value i k) = np_nid pdu" by (auto simp: net_candidates_def)
  then show ?thesis by (simp add: np_nid_def and.assoc)
qed

lemma net_receive_some:
  assumes "mw_iface_mem w a = Some x" "ni_ifilter x = Some f" "f a" "meshx_net_receive aes up (Some a) pdata w = Some (r, w')"
  obtains hit pdu inf where "net_attempts aes (length pdata) (net_index (cur_iv_index (iv (mw_iv w))) (np_ivi (net_pdu_copy pdata w)))
      (net_candidates (meshx_net_keys (mw_keys w)) (np_nid (net_pdu_copy pdata w))) (net_pdu_copy pdata w) = Some (hit, pdu)"
    "(case hit of None \<Rightarrow> Some (MESHX_ERR_KEY, iface_upd a (\<lambda>x. x\<lparr>ni_info := inf\<rparr>) w)
       | Some key \<Rightarrow> net_accept up a (length pdata) (net_index (cur_iv_index (iv (mw_iv w))) (np_ivi (net_pdu_copy pdata w)))
           key pdu (iface_upd a (\<lambda>x. x\<lparr>ni_info := inf\<rparr>) w)) = Some (r, w')"
  using net_receive_eq [OF assms(1-3), of aes up pdata] assms(4)
  by (cases "net_attempts aes (length pdata) (net_index (cur_iv_index (iv (mw_iv w))) (np_ivi (net_pdu_copy pdata w)))
      (net_candidates (meshx_net_keys (mw_keys w)) (np_nid (net_pdu_copy pdata w))) (net_pdu_copy pdata w)") auto

section \<open>A concrete node\<close>

definition demo_iface :: net_iface where
  "demo_iface = \<lparr>ni_type = MESHX_NET_IFACE_TYPE_ADV, ni_bearer = Some BEARER_ADV,
    ni_ifilter = Some meshx_net_default_ifilter, ni_ofilter = Some meshx_net_default_ofilter, ni_info = iface_info_zero\<rparr>"

definition demo_mesh :: mesh_world where
  "demo_mesh =
    \<lparr>mw_gap = demo_gap\<lparr>adv_bearer_iface := Some 0\<rparr>, mw_env = ok_env,
     mw_node = \<lparr>config = node_default_config, param = node_default_param\<lparr>node_addr := 2\<rparr>\<rparr>,
     mw_keys = demo_store,
     mw_iv = \<lparr>iv = iv_reset, seqs = \<lparr>seq_array = Some [0], meshx_element_num = 1\<rparr>,
       rpls = \<lparr>rpl_array = Some (replicate 4 rpl_zero), rpl_index = 0, rpl_size = 4\<rparr>\<rparr>,
     mw_nmc = \<lparr>nmc_array = Some (replicate 4 nmc_zero), nmc_index = 0, nmc_circle = False, nmc_size = 4\<rparr>,
     mw_iface_mem = (\<lambda>a. if a = 0 then Some demo_iface else None), mw_ifaces = [0], mw_next = 1,
     mw_gatt = [], mw_gatt_out = [], mw_tx = (\<lambda>_. tx_task_zero), tx_idle = [0, 1, 2], tx_active = [], tx_pending = [],
     mw_rx = (\<lambda>_. rx_task_zero), rx_idle = [0, 1, 2], rx_active = [], mw_proxy = [], mw_delivered = [],
     mw_proxy_out = 1, mw_prov_out = 2, mw_proxy_in = 3, mw_prov_in = 4, mw_junk = (\<lambda>_. 0)\<rparr>"

definition demo_ctx :: msg_ctx where
  "demo_ctx = mc_zero\<lparr>mc_src := 1, mc_dst := 2, mc_ttl := 5, mc_seq := 7, mc_net_key := Some (1, 0)\<rparr>"

lemma demo_mesh_facts:
  "mw_iface_mem demo_mesh 0 = Some demo_iface" "ni_ifilter demo_iface = Some meshx_net_default_ifilter"
  "meshx_net_default_ifilter 0" "meshx_net_keys (mw_keys demo_mesh) = [demo_net_info]"
  "cur_iv_index (iv (mw_iv demo_mesh)) = 0" "snb_value 0 demo_net_info = demo_net_value"
  "net_candidates [demo_net_info] 0 = [(demo_net_info, 0)]" "nid demo_net_value = 0"
  "nk_addr demo_net_info = 1" "node_addr (param (mw_node demo_mesh)) = 2" "mw_delivered demo_mesh = []"
  by (simp_all add: demo_mesh_def demo_iface_def meshx_net_default_ifilter_def demo_store_def key_store_init_def
      iv_reset_def demo_net_info_def net_candidates_def snb_indices_def demo_net_value_def)

lemma demo_sendable: "net_sendable [9] demo_ctx"
  by (simp add: net_sendable_def demo_ctx_def mc_zero_def net_mic_len_def)

lemma demo_nmc:
  "meshx_nmc_check m (mw_nmc demo_mesh) = Some True"
  "\<exists>s. meshx_nmc_add m (mw_nmc demo_mesh) = Some (MESHX_SUCCESS, s)"
  by (simp_all add: demo_mesh_def meshx_nmc_check_def nmc_check_loop_def meshx_nmc_add_def)

lemma demo_addresses: "MESHX_ADDRESS_IS_VALID (mc_src demo_ctx)" "MESHX_ADDRESS_IS_VALID (mc_dst demo_ctx)"
  by (simp_all add: demo_ctx_def MESHX_ADDRESS_IS_VALID_def MESHX_ADDRESS_IS_RFU_def word_le_nat_alt)

text \<open>The transport layer of the witnesses: it records what it is given.\<close>

definition net_record :: "bytes \<Rightarrow> u8 \<Rightarrow> msg_ctx \<Rightarrow> mesh_world \<Rightarrow> (errno \<times> mesh_world) option" where
  "net_record buf n c w = Some (MESHX_SUCCESS, w\<lparr>mw_delivered := mw_delivered w @ [(take (unat n) buf, c)]\<rparr>)"

lemma demo_ctx_header:
  "mc_zero\<lparr>mc_ctl := mc_ctl demo_ctx, mc_ttl := mc_ttl demo_ctx, mc_src := mc_src demo_ctx, mc_dst := mc_dst demo_ctx,
     mc_iv_index := mc_iv_index demo_ctx, mc_seq := mc_seq demo_ctx, mc_net_key := Some (1, 0), mc_net_iface := Some 0\<rparr> =
   demo_ctx\<lparr>mc_net_iface := Some 0\<rparr>" "mc_iv_index demo_ctx = 0" "mc_dst demo_ctx = 2"
  "mc_zero\<lparr>mc_ctl := mc_ctl demo_ctx, mc_ttl := mc_ttl demo_ctx, mc_src := mc_src demo_ctx, mc_dst := 2,
     mc_iv_index := 0, mc_seq := mc_seq demo_ctx, mc_net_key := Some (Suc 0, 0), mc_net_iface := Some 0\<rparr> =
   demo_ctx\<lparr>mc_net_iface := Some 0\<rparr>"
  by (simp_all add: demo_ctx_def mc_zero_def)

lemma demo_delivers:
  obtains pkt rest w1 where "net_packet demo_aes [9] demo_ctx demo_net_value = Some pkt"
    "meshx_net_receive demo_aes net_record (Some 0) pkt demo_mesh = net_record ([9] @ rest) 1 (demo_ctx\<lparr>mc_net_iface := Some 0\<rparr>) w1"
    "length pkt \<le> 29" "np_nid (net_pdu_copy pkt demo_mesh) = 0" "mw_delivered w1 = []"
proof -
  obtain s where s: "meshx_nmc_add \<lparr>nmc_src = mc_src demo_ctx, nmc_padding = of_mem16 (junk demo_mesh 2), nmc_seq = mc_seq demo_ctx\<rparr>
    (mw_nmc demo_mesh) = Some (MESHX_SUCCESS, s)" using demo_nmc(2) by blast
  from net_delivers [OF demo_aes_block demo_sendable demo_addresses demo_mesh_facts(1-3) _ demo_mesh_facts(6) _ _ demo_nmc(1) s, of "[]" net_record]
  show ?thesis using that by (auto simp: demo_mesh_facts demo_ctx_header)
qed

section \<open>A cipher for two keys with one NID\<close>

text \<open>Its output is the first byte of the key, sixteen times, but zero for blocks that begin
  with one: the key stream is zero and the tag is the key.\<close>

definition flat_aes :: aes128 where
  "flat_aes k b = replicate 16 (if hd b = 1 then 0 else hd k)"
lemma flat_block: "aes_block flat_aes" by (simp add: aes_block_def flat_aes_def)

lemma rep16: "replicate 16 x = x # replicate 15 x"
  by (simp add: eval_nat_numeral)

lemma flat_start: "length n = 13 \<Longrightarrow> l < 256 \<Longrightarrow> ccm_start flat_aes k n [] l 4 = Some (2, replicate 16 (hd k))"
  by (cases n) (simp_all add: ccm_start_def Let_def ccm_length_field_def block_of_def UPDATE_CBC_MAC_def meshx_aes128_encrypt_def
     flat_aes_def upt_rec rep16 [of 0])

lemma flat_crypt:
  assumes "length n = 13" "length x = 3" "hd k XOR hd x \<noteq> 1"
  shows "ccm_auth_crypt flat_aes m k n [] x 4 = Some (x, replicate 4 (hd k))"
proof -
  have st: "ccm_start flat_aes k n [] (length x) 4 = Some (2, replicate 16 (hd k))"
    using flat_start [OF assms(1), of "length x" k] assms(2) by simp
  have x: "x = [x ! 0, x ! 1, x ! 2]" using assms(2) by (auto simp: numeral_3_eq_3 numeral_2_eq_2 length_Suc_conv)
  have u: "UPDATE_CBC_MAC flat_aes k (replicate 16 (hd k)) (block_of x) = replicate 16 (hd k)"
    using assms(3) x by (cases x) (simp_all add: UPDATE_CBC_MAC_def meshx_aes128_encrypt_def flat_aes_def rep16 [of "hd k"] block_of_def)
  have t: "CTR_CRYPT flat_aes k (1 # y) z = map2 (XOR) z (zeros 16)" for y z
    by (simp add: CTR_CRYPT_def meshx_aes128_encrypt_def flat_aes_def)
  have z: "map2 (XOR) (replicate 16 (hd k)) (zeros 16) = replicate 16 (hd k)"
    by (simp add: eval_nat_numeral)
  have zx: "map2 (XOR) x (zeros 16) = x"
    by (subst (1 2) x) (simp add: eval_nat_numeral)
  have tk: "take 16 x = x" "drop 16 x = []" "length x > 0" "x \<noteq> []" using assms(2) by auto
  obtain l where l: "length x = Suc l" using assms(2) by (cases x) auto
  have b: "ccm_blocks (length x) m flat_aes k 2 (replicate 16 (hd k)) (1 # (n @ zeros 2)[14 := 1]) x = (replicate 16 (hd k), x)"
    unfolding l by (cases m) (simp_all add: Let_def tk t u zx)
  show ?thesis
    unfolding ccm_auth_crypt_def st by (simp add: b t z Let_def del: upt.simps) 
qed

text \<open>A node with two keys of one NID.\<close>

definition demo_first :: net_key_value where "demo_first = demo_net_value\<lparr>encryption_key := [0], privacy_key := [7]\<rparr>"
definition demo_second :: net_key_value where "demo_second = demo_net_value\<lparr>encryption_key := [3], privacy_key := [5]\<rparr>"
definition demo_keys :: "net_key_info list" where
  "demo_keys = [demo_net_info\<lparr>nk_value0 := demo_first\<rparr>, demo_net_info\<lparr>nk_addr := 2, nk_value0 := demo_second\<rparr>]"
definition demo_collide :: mesh_world where
  "demo_collide = demo_mesh\<lparr>mw_keys := demo_store\<lparr>meshx_net_keys := demo_keys\<rparr>\<rparr>"

lemma flat_mask: "body = b # bs \<Longrightarrow> privacy_key v = [p] \<Longrightarrow> net_mask flat_aes body ix v = replicate 6 p"
  by (simp add: net_mask_def meshx_e_def meshx_aes128_encrypt_def flat_aes_def)

lemma demo_hdr: "hdr6 demo_ctx = [5, 0, 0, 7, 0, 1]" "be16 (mc_dst demo_ctx) = [0, 2]" "mc_iv_index demo_ctx = 0" "\<not> mc_ctl demo_ctx"
  by (simp_all add: hdr6_def demo_ctx_def mc_zero_def flag7_def seq_bytes_def be16_def mem16_def MESHX_HOST_TO_BE16_def)

lemma demo_second_packet: "net_packet flat_aes [9] demo_ctx demo_second = Some [0, 0, 5, 5, 2, 5, 4, 0, 2, 9, 3, 3, 3, 3]"
proof -
  obtain cipher mic where c: "meshx_aes_ccm_encrypt flat_aes (encryption_key demo_second) (nonce6 (hdr6 demo_ctx) 0) [] [0, 2, 9] 4 = Inr (cipher, mic)"
    "net_packet flat_aes [9] demo_ctx demo_second = Some (hdr0 demo_second demo_ctx #
      map2 (XOR) (hdr6 demo_ctx) (net_mask flat_aes (cipher @ mic) 0 demo_second) @ cipher @ mic)"
    using net_packet_parts [OF flat_block demo_sendable, of demo_second] by (auto simp: demo_hdr net_mic_len_def)
  have "ccm_auth_crypt flat_aes CCM_ENCRYPT [3] (nonce6 (hdr6 demo_ctx) 0) [] [0, 2, 9] 4 = Some ([0, 2, 9], replicate 4 3)"
    using flat_crypt [of "nonce6 (hdr6 demo_ctx) 0" "[0, 2, 9]" "[3]" CCM_ENCRYPT] by simp
  then have "cipher = [0, 2, 9]" "mic = replicate 4 3" using c(1) by (simp_all add: ccm_encrypt_parts demo_second_def)
  then show ?thesis unfolding c(2)
    by (simp add: flat_mask [of _ 0 "[2, 9, 3, 3, 3, 3]" _ 5] demo_second_def demo_net_value_def demo_hdr hdr0_def flag7_def eval_nat_numeral)
qed

lemma flat_attempt:
  assumes "length h = 6" "privacy_key v = [p]" "encryption_key v = [k]" "k XOR x \<noteq> 1" "\<not> bit (h ! 0 XOR p) 7"
  shows "net_attempt flat_aes 14 ix v (b0 # h @ [x, y, z] @ replicate 4 t @ rest) =
    Some (t = k, b0 # map2 (XOR) h (replicate 6 p) @ [x, y, z] @ replicate 4 t @ rest)"
proof -
  define h' where "h' = map2 (XOR) h (replicate 6 p)"
  have h': "length h' = 6" "\<not> bit (h' ! 0) 7" using assms(1,5) by (simp_all add: h'_def)
  have o: "meshx_net_obfuscation flat_aes (b0 # h @ [x, y, z] @ replicate 4 t @ rest) ix v = b0 # h' @ [x, y, z] @ replicate 4 t @ rest"
    using obfuscation_parts [OF assms(1) flat_block, of b0 "[x, y, z] @ replicate 4 t @ rest" ix v]
      flat_mask [of "[x, y, z] @ replicate 4 t @ rest" x "[y, z] @ replicate 4 t @ rest" v p ix] assms(2) by (simp add: h'_def)
  have c: "\<not> np_ctl (b0 # h' @ [x, y, z] @ replicate 4 t @ rest)" using ctl_parts [OF h'(1)] h'(2) by simp
  have n: "trans_len_of 14 False = 1" by (simp add: trans_len_of_def net_sizes net_mic_len_def)
  have d: "meshx_aes_ccm_decrypt flat_aes [k] (nonce6 h' ix) [] [x, y, z] (replicate 4 t) [x, y, z] =
      (if t = k then MESHX_SUCCESS else MESHX_ERR_FAIL, [x, y, z])"
    using flat_crypt [of "nonce6 h' ix" "[x, y, z]" "[k]" CCM_DECRYPT] assms(4) h'(1)
    by (simp add: ccm_decrypt_parts upt_rec or_eq_0_iff eval_nat_numeral)
  show ?thesis
    unfolding net_attempt_def o h'_def [symmetric]
    using decrypt_parts [OF h'(1) flat_block, of "[x, y, z]" 1 "replicate 4 t" b0 rest ix v] c n h'(2) assms(3) d
    by (simp add: net_mic_len_def)
qed

lemma demo_collide_facts:
  "mw_iface_mem demo_collide = mw_iface_mem demo_mesh" "mw_iv demo_collide = mw_iv demo_mesh" "mw_nmc demo_collide = mw_nmc demo_mesh"
  "mw_junk demo_collide = mw_junk demo_mesh" "mw_node demo_collide = mw_node demo_mesh" "meshx_net_keys (mw_keys demo_collide) = demo_keys"
  "mw_delivered demo_collide = mw_delivered demo_mesh"
  by (simp_all add: demo_collide_def)

abbreviation collided :: bytes where
  "collided \<equiv> [0, 0, 5, 5, 2, 5, 4, 0, 2, 9, 3, 3, 3, 3]"

lemma demo_collided_copy: "net_pdu_copy collided demo_collide = 0 # [0, 5, 5, 2, 5, 4] @ [0, 2, 9] @ replicate 4 3 @ zeros 15"
  by (simp add: net_pdu_copy_def net_sizes junk_def demo_collide_facts demo_mesh_def eval_nat_numeral)

lemma demo_attempts:
  "net_attempt flat_aes 14 0 demo_first (0 # [0, 5, 5, 2, 5, 4] @ [0, 2, 9] @ replicate 4 3 @ zeros 15) =
    Some (False, 0 # [7, 2, 2, 5, 2, 3] @ [0, 2, 9] @ replicate 4 3 @ zeros 15)"
  "net_attempt flat_aes 14 0 demo_second (0 # [7, 2, 2, 5, 2, 3] @ [0, 2, 9] @ replicate 4 3 @ zeros 15) =
    Some (True, 0 # [2, 7, 7, 0, 7, 6] @ [0, 2, 9] @ replicate 4 3 @ zeros 15)"
proof -
  have x: "map2 (XOR) [0, 5, 5, 2, 5, 4] (replicate 6 7) = ([7, 2, 2, 5, 2, 3] :: bytes)"
    "map2 (XOR) [7, 2, 2, 5, 2, 3] (replicate 6 5) = ([2, 7, 7, 0, 7, 6] :: bytes)" by (simp_all add: eval_nat_numeral)
  show "net_attempt flat_aes 14 0 demo_first (0 # [0, 5, 5, 2, 5, 4] @ [0, 2, 9] @ replicate 4 3 @ zeros 15) =
    Some (False, 0 # [7, 2, 2, 5, 2, 3] @ [0, 2, 9] @ replicate 4 3 @ zeros 15)"
    using flat_attempt [of "[0, 5, 5, 2, 5, 4]" demo_first 7 0 0 0 0 2 9 3 "zeros 15", unfolded x] by (simp add: demo_first_def)
  show "net_attempt flat_aes 14 0 demo_second (0 # [7, 2, 2, 5, 2, 3] @ [0, 2, 9] @ replicate 4 3 @ zeros 15) =
    Some (True, 0 # [2, 7, 7, 0, 7, 6] @ [0, 2, 9] @ replicate 4 3 @ zeros 15)"
    using flat_attempt [of "[7, 2, 2, 5, 2, 3]" demo_second 5 3 0 0 0 2 9 3 "zeros 15", unfolded x] by (simp add: demo_second_def)
qed

lemma demo_collide_candidates:
  "net_candidates demo_keys 0 = [(demo_net_info\<lparr>nk_value0 := demo_first\<rparr>, 0), (demo_net_info\<lparr>nk_addr := 2, nk_value0 := demo_second\<rparr>, 0)]"
  by (simp add: net_candidates_def demo_keys_def snb_indices_def demo_net_info_def demo_first_def demo_second_def demo_net_value_def)

lemma demo_collide_receives: "\<exists>r w'. meshx_net_receive flat_aes net_record (Some 0) collided demo_collide = Some (r, w')"
proof -
  note f = demo_collide_facts
  have acc: "\<exists>r w'. net_accept net_record 0 14 0 key pdu (iface_upd 0 g demo_collide) = Some (r, w')" for key pdu g
  proof -
    obtain s where "meshx_nmc_add \<lparr>nmc_src = np_src pdu, nmc_padding = of_mem16 (junk (iface_upd 0 g demo_collide) 2), nmc_seq = np_seq pdu\<rparr>
      (mw_nmc demo_mesh) = Some (MESHX_SUCCESS, s)" using demo_nmc(2) by blast
    then show ?thesis by (simp add: net_accept_def net_record_def iface_upd_def f demo_nmc(1) Let_def)
  qed
  have n: "np_nid (net_pdu_copy collided demo_collide) = 0" "net_index (cur_iv_index (iv (mw_iv demo_collide))) (np_ivi (net_pdu_copy collided demo_collide)) = 0"
    by (simp_all add: demo_collided_copy np_nid_def np_ivi_def net_index_def f demo_mesh_facts(5))
  have len: "length collided = 14" by simp
  have att: "net_attempts flat_aes 14 0 (net_candidates demo_keys 0) (net_pdu_copy collided demo_collide) =
      Some (Some (2, 0), 0 # [2, 7, 7, 0, 7, 6] @ [0, 2, 9] @ replicate 4 3 @ zeros 15)"
    unfolding demo_collide_candidates demo_collided_copy
    by (simp add: demo_attempts demo_net_info_def del: append.simps replicate.simps)
  obtain inf where "meshx_net_receive flat_aes net_record (Some 0) collided demo_collide =
      net_accept net_record 0 14 0 (2, 0) (0 # [2, 7, 7, 0, 7, 6] @ [0, 2, 9] @ replicate 4 3 @ zeros 15) (iface_upd 0 (\<lambda>x. x\<lparr>ni_info := inf\<rparr>) demo_collide)"
    using net_receive_eq [OF demo_mesh_facts(1-3) [folded f(1)], of flat_aes net_record collided]
    unfolding n len f(6) att by auto
  then show ?thesis using acc by simp
qed

section \<open>Properties\<close>

text \<open>C4: What the network layer of one node sends, that of another delivers: a packet made for
  a context and a transport pdu is, at the node it is addressed to, handed to the transport
  layer with the same pdu and the same context, under the key it was sent with.  The key is the
  first the node tries for the NID of the packet, the packet was sent under the IV index of the
  node or the one before, it comes in on an interface whose filter passes, and the message
  cache takes it for new.\<close>

theorem net_roundtrip:
  assumes "aes_block aes" "net_sendable tp c" "MESHX_ADDRESS_IS_VALID (mc_src c)" "MESHX_ADDRESS_IS_VALID (mc_dst c)"
    and "mw_iface_mem w a = Some x" "ni_ifilter x = Some f" "f a"
    and "net_candidates (meshx_net_keys (mw_keys w)) (nid v AND 0x7f) = (k, i) # cs" "snb_value i k = v"
    and "cur_iv_index (iv (mw_iv w)) = mc_iv_index c \<or> cur_iv_index (iv (mw_iv w)) = mc_iv_index c + 1"
    and "mc_dst c = node_addr (param (mw_node w))"
    and "meshx_nmc_check \<lparr>nmc_src = mc_src c, nmc_padding = of_mem16 (junk w 2), nmc_seq = mc_seq c\<rparr> (mw_nmc w) = Some True"
    and "meshx_nmc_add \<lparr>nmc_src = mc_src c, nmc_padding = of_mem16 (junk w 2), nmc_seq = mc_seq c\<rparr> (mw_nmc w) = Some (r, s)"
  shows "\<exists>pkt rest w'. net_packet aes tp c v = Some pkt \<and>
    meshx_net_receive aes up (Some a) pkt w = up (tp @ rest) (word_of_nat (length tp))
      (mc_zero\<lparr>mc_ctl := mc_ctl c, mc_ttl := mc_ttl c, mc_src := mc_src c, mc_dst := mc_dst c,
        mc_iv_index := mc_iv_index c, mc_seq := mc_seq c, mc_net_key := Some (nk_addr k, i), mc_net_iface := Some a\<rparr>) w' \<and>
    length (tp @ rest) = 20 \<and> mw_nmc w' = s \<and> mw_keys w' = mw_keys w \<and> mw_iv w' = mw_iv w"
  using net_delivers [OF assms, of up] by blast

theorem net_roundtrip_witness:
  "\<exists>pkt rest w'. net_packet demo_aes [9] demo_ctx demo_net_value = Some pkt \<and>
    meshx_net_receive demo_aes net_record (Some 0) pkt demo_mesh =
      net_record ([9] @ rest) 1 (demo_ctx\<lparr>mc_net_iface := Some 0\<rparr>) w'"
proof -
  obtain s where s: "meshx_nmc_add \<lparr>nmc_src = mc_src demo_ctx, nmc_padding = of_mem16 (junk demo_mesh 2), nmc_seq = mc_seq demo_ctx\<rparr>
    (mw_nmc demo_mesh) = Some (MESHX_SUCCESS, s)" using demo_nmc(2) by blast
  from net_roundtrip [OF demo_aes_block demo_sendable demo_addresses demo_mesh_facts(1-3) _ demo_mesh_facts(6) _ _ demo_nmc(1) s, of "[]" net_record]
  show ?thesis by (auto simp: demo_mesh_facts demo_ctx_header)
qed

lemma net_accept_record:
  assumes "net_accept net_record a len ix key pdu w = Some (r, w')" "mw_delivered w' = mw_delivered w @ [(tp, c)]"
  shows "tp = take (unat (trans_len_of len (np_ctl pdu))) (drop 9 pdu)" "c = net_ctx a ix key pdu"
  using assms by (auto simp: net_accept_def net_record_def net_ctx_def net_sizes Let_def split: if_splits Option.bind_splits)

lemma attempts_single_hit:
  "net_attempts aes len ix [(k, i)] pdu = Some (Some key, pdu') \<Longrightarrow>
    net_attempt aes len ix (snb_value i k) pdu = Some (True, pdu') \<and> key = (nk_addr k, i)"
  by (auto split: Option.bind_splits if_splits)

text \<open>C5: What is delivered was sent under a key of the node: when one key value has the NID of a
  packet, and the packet is handed to the transport layer, then the packet is, byte for byte,
  the one that sending the delivered pdu with the delivered context under that key makes.\<close>

theorem net_authentic:
  assumes "aes_block aes" "mw_iface_mem w a = Some x" "ni_ifilter x = Some f" "f a" "length pdata \<le> 29"
    "net_candidates (meshx_net_keys (mw_keys w)) (np_nid (net_pdu_copy pdata w)) = [(k, i)]"
    "meshx_net_receive aes net_record (Some a) pdata w = Some (r, w')"
    "mw_delivered w' = mw_delivered w @ [(tp, c)]" "tp \<noteq> []"
  shows "net_packet aes tp c (snb_value i k) = Some pdata \<and> mc_net_key c = Some (nk_addr k, i)"
proof -
  define ix where "ix = net_index (cur_iv_index (iv (mw_iv w))) (np_ivi (net_pdu_copy pdata w))"
  obtain hit pdu inf where h: "net_attempts aes (length pdata) ix [(k, i)] (net_pdu_copy pdata w) = Some (hit, pdu)"
    "(case hit of None \<Rightarrow> Some (MESHX_ERR_KEY, iface_upd a (\<lambda>x. x\<lparr>ni_info := inf\<rparr>) w)
       | Some key \<Rightarrow> net_accept net_record a (length pdata) ix key pdu (iface_upd a (\<lambda>x. x\<lparr>ni_info := inf\<rparr>) w)) = Some (r, w')"
    using net_receive_some [OF assms(2-4,7)] unfolding assms(6) ix_def [symmetric] by metis
  have d: "mw_delivered (iface_upd a g w) = mw_delivered w" for g by (simp add: iface_upd_def)
  obtain key where key: "hit = Some key" using h(2) assms(8) d by (cases hit) auto
  note hit = attempts_single_hit [OF h(1) [unfolded key]]
  have acc: "tp = take (unat (trans_len_of (length pdata) (np_ctl pdu))) (drop 9 pdu)" "c = net_ctx a ix key pdu"
    using net_accept_record [of a "length pdata" ix key pdu "iface_upd a (\<lambda>x. x\<lparr>ni_info := inf\<rparr>) w" r w' tp c] h(2) key assms(8) d by simp_all
  have n: "nid (snb_value i k) AND 0x7f = np_nid (net_pdu_copy pdata w)"
    by (rule candidate_nid [of k i "meshx_net_keys (mw_keys w)"]) (simp add: assms(6))
  have t: "trans_len_of (length pdata) (np_ctl pdu) \<noteq> 0" using acc(1) assms(9) by auto
  have "take (length pdata) (net_pdu_copy pdata w) = pdata" using assms(5) by (simp add: net_pdu_copy_def net_sizes)
  then have "net_packet aes tp c (snb_value i k) = Some pdata"
    using attempt_inverse(1) [OF assms(1) conjunct1 [OF hit] copy_length assms(5) n _ t, of a key] acc
    by (simp add: ix_def net_index_parity)
  then show ?thesis using hit acc(2) by (simp add: net_ctx_def)
qed

theorem net_authentic_witness:
  "\<exists>pkt r w'. meshx_net_receive demo_aes net_record (Some 0) pkt demo_mesh = Some (r, w') \<and>
    mw_delivered w' = [([9], demo_ctx\<lparr>mc_net_iface := Some 0\<rparr>)] \<and>
    net_packet demo_aes [9] (demo_ctx\<lparr>mc_net_iface := Some 0\<rparr>) demo_net_value = Some pkt"
proof -
  obtain pkt rest w1 where p: "meshx_net_receive demo_aes net_record (Some 0) pkt demo_mesh = net_record ([9] @ rest) 1 (demo_ctx\<lparr>mc_net_iface := Some 0\<rparr>) w1"
    "length pkt \<le> 29" "np_nid (net_pdu_copy pkt demo_mesh) = 0" "mw_delivered w1 = []"
    by (rule demo_delivers)
  have r: "meshx_net_receive demo_aes net_record (Some 0) pkt demo_mesh =
      Some (MESHX_SUCCESS, w1\<lparr>mw_delivered := [([9], demo_ctx\<lparr>mc_net_iface := Some 0\<rparr>)]\<rparr>)"
    using p(1,4) by (simp add: net_record_def)
  have "net_candidates (meshx_net_keys (mw_keys demo_mesh)) (np_nid (net_pdu_copy pkt demo_mesh)) = [(demo_net_info, 0)]"
    by (simp add: p(3) demo_mesh_facts)
  from net_authentic [OF demo_aes_block demo_mesh_facts(1-3) p(2) this r, of "[9]" "demo_ctx\<lparr>mc_net_iface := Some 0\<rparr>"]
  have "net_packet demo_aes [9] (demo_ctx\<lparr>mc_net_iface := Some 0\<rparr>) demo_net_value = Some pkt"
    by (simp add: demo_mesh_facts(6) [simplified] demo_mesh_facts(11))
  with r show ?thesis by (intro exI [of _ pkt]) simp
qed

lemma net_packet_header:
  "net_packet aes tp (mc_zero\<lparr>mc_ctl := mc_ctl c, mc_ttl := mc_ttl c, mc_src := mc_src c, mc_dst := mc_dst c,
     mc_iv_index := mc_iv_index c, mc_seq := mc_seq c, mc_net_key := key, mc_net_iface := a\<rparr>) v = net_packet aes tp c v"
  by (simp add: net_packet_def net_header_def mc_zero_def)

text \<open>C30: A failed attempt is not undone: when two key values share the NID of a packet, the first
  attempt deobfuscates and decrypts the only copy of it, so unless it happened to leave the
  bytes of the packet as they were, a message sent under the second key is not delivered.\<close>

theorem nid_collision_loses:
  assumes "aes_block aes" "net_packet aes tp c v = Some pkt" "length pkt \<le> 29" "pkt \<noteq> []" "tp \<noteq> []"
    and "mw_iface_mem w a = Some x" "ni_ifilter x = Some f" "f a"
    and "net_candidates (meshx_net_keys (mw_keys w)) (np_nid pkt) = [(k1, i1), (k2, i2)]" "snb_value i2 k2 = v"
    and "net_index (cur_iv_index (iv (mw_iv w))) (np_ivi pkt) = mc_iv_index c"
    and "net_attempt aes (length pkt) (mc_iv_index c) (snb_value i1 k1) (net_pdu_copy pkt w) = Some (False, pdu1)"
    and "take (length pkt) pdu1 \<noteq> pkt"
    and "meshx_net_receive aes net_record (Some a) pkt w = Some (r, w')"
  shows "mw_delivered w' \<noteq> mw_delivered w @
    [(tp, mc_zero\<lparr>mc_ctl := mc_ctl c, mc_ttl := mc_ttl c, mc_src := mc_src c, mc_dst := mc_dst c,
        mc_iv_index := mc_iv_index c, mc_seq := mc_seq c, mc_net_key := Some key, mc_net_iface := Some a\<rparr>)]"
proof
  let ?c = "mc_zero\<lparr>mc_ctl := mc_ctl c, mc_ttl := mc_ttl c, mc_src := mc_src c, mc_dst := mc_dst c,
        mc_iv_index := mc_iv_index c, mc_seq := mc_seq c, mc_net_key := Some key, mc_net_iface := Some a\<rparr>"
  assume del: "mw_delivered w' = mw_delivered w @ [(tp, ?c)]"
  have b0: "np_nid (net_pdu_copy pkt w) = np_nid pkt" "np_ivi (net_pdu_copy pkt w) = np_ivi pkt"
    using assms(4) by (cases pkt; simp add: net_pdu_copy_def net_sizes np_nid_def np_ivi_def)+
  obtain hit pdu inf where h: "net_attempts aes (length pkt) (mc_iv_index c) [(k1, i1), (k2, i2)] (net_pdu_copy pkt w) = Some (hit, pdu)"
    "(case hit of None \<Rightarrow> Some (MESHX_ERR_KEY, iface_upd a (\<lambda>x. x\<lparr>ni_info := inf\<rparr>) w)
       | Some key \<Rightarrow> net_accept net_record a (length pkt) (mc_iv_index c) key pdu (iface_upd a (\<lambda>x. x\<lparr>ni_info := inf\<rparr>) w)) = Some (r, w')"
    using net_receive_some [OF assms(6-8,14)] unfolding b0 assms(9,11) by metis
  have d: "mw_delivered (iface_upd a g w) = mw_delivered w" for g by (simp add: iface_upd_def)
  obtain kk where kk: "hit = Some kk" using h(2) del d by (cases hit) auto
  have "net_attempts aes (length pkt) (mc_iv_index c) [(k2, i2)] pdu1 = Some (Some kk, pdu)"
    using h(1) assms(12) kk by simp
  note hit = attempts_single_hit [OF this, unfolded assms(10)]
  have acc: "tp = take (unat (trans_len_of (length pkt) (np_ctl pdu))) (drop 9 pdu)" "?c = net_ctx a (mc_iv_index c) kk pdu"
    using net_accept_record [of a "length pkt" "mc_iv_index c" kk pdu "iface_upd a (\<lambda>x. x\<lparr>ni_info := inf\<rparr>) w" r w' tp ?c] h(2) kk del d by simp_all
  note p1 = attempt_byte0 [OF assms(12)]
  have n: "nid v AND 0x7f = np_nid pdu1" "np_ivi pdu1 = bit (mc_iv_index c) 0" "length pdu1 = 29"
    using candidate_nid [of k2 i2 "meshx_net_keys (mw_keys w)" pkt] assms(9,10) p1 b0 assms(11) net_index_parity [of _ "np_ivi pkt"]
    by (simp_all add: np_nid_def np_ivi_def) metis
  have t: "trans_len_of (length pkt) (np_ctl pdu) \<noteq> 0" using acc(1) assms(5) by auto
  have "net_packet aes tp ?c v = Some (take (length pkt) pdu1)"
    using attempt_inverse(1) [OF assms(1) conjunct1 [OF hit] n(3) assms(3) n(1,2) t, of a kk] acc by simp
  then show False using assms(2,13) unfolding net_packet_header by simp
qed

theorem nid_collision_loses_witness:
  "\<exists>r w'. meshx_net_receive flat_aes net_record (Some 0) collided demo_collide = Some (r, w') \<and>
    mw_delivered w' \<noteq> [([9], mc_zero\<lparr>mc_ctl := mc_ctl demo_ctx, mc_ttl := mc_ttl demo_ctx, mc_src := mc_src demo_ctx,
      mc_dst := mc_dst demo_ctx, mc_iv_index := mc_iv_index demo_ctx, mc_seq := mc_seq demo_ctx, mc_net_key := Some (2, 0),
      mc_net_iface := Some 0\<rparr>)]"
proof -
  note f = demo_collide_facts
  obtain r w' where r: "meshx_net_receive flat_aes net_record (Some 0) collided demo_collide = Some (r, w')"
    using demo_collide_receives by blast
  have n: "np_nid collided = 0" "net_index (cur_iv_index (iv (mw_iv demo_collide))) (np_ivi collided) = mc_iv_index demo_ctx"
    by (simp_all add: np_nid_def np_ivi_def net_index_def f demo_mesh_facts(5) demo_hdr)
  have c: "net_candidates (meshx_net_keys (mw_keys demo_collide)) (np_nid collided) =
    [(demo_net_info\<lparr>nk_value0 := demo_first\<rparr>, 0), (demo_net_info\<lparr>nk_addr := 2, nk_value0 := demo_second\<rparr>, 0)]"
    unfolding n f(6) by (rule demo_collide_candidates)
  have v: "snb_value 0 (demo_net_info\<lparr>nk_addr := 2, nk_value0 := demo_second\<rparr>) = demo_second"
    "snb_value 0 (demo_net_info\<lparr>nk_value0 := demo_first\<rparr>) = demo_first"
    by (simp_all add: demo_net_info_def)
  have len: "length collided = 14" by simp
  have a: "net_attempt flat_aes (length collided) (mc_iv_index demo_ctx)
      (snb_value 0 (demo_net_info\<lparr>nk_value0 := demo_first\<rparr>)) (net_pdu_copy collided demo_collide) =
    Some (False, 0 # [7, 2, 2, 5, 2, 3] @ [0, 2, 9] @ replicate 4 3 @ zeros 15)"
    unfolding len v demo_hdr demo_collided_copy by (rule demo_attempts)
  show ?thesis
    using nid_collision_loses [OF flat_block demo_second_packet _ _ _ demo_mesh_facts(1-3) [folded f(1)] c v(1) n(2) a _ r, of "(2, 0)"] r
    by (auto simp: f demo_mesh_facts(11))
qed

text \<open>C33: Short packets overrun: a packet of less than thirteen bytes whose NID is that of a key
  makes the length of the transport pdu wrap, and decryption reads behind the packet's struct,
  before anything was authenticated.\<close>

theorem short_packet_overruns:
  assumes "mw_iface_mem w a = Some x" "ni_ifilter x = Some f" "f a" "length pdata < 13"
    "net_candidates (meshx_net_keys (mw_keys w)) (np_nid (net_pdu_copy pdata w)) \<noteq> []"
  shows "meshx_net_receive aes up (Some a) pdata w = None"
proof -
  obtain k i cs where c: "net_candidates (meshx_net_keys (mw_keys w)) (np_nid (net_pdu_copy pdata w)) = (k, i) # cs"
    using assms(5) by (metis list.exhaust prod.exhaust)
  have "net_attempt aes (length pdata) ix v (net_pdu_copy pdata w) = None" for ix v
  proof -
    let ?o = "meshx_net_obfuscation aes (net_pdu_copy pdata w) ix v"
    have "20 < unat (trans_len_of (length pdata) (np_ctl ?o))"
    proof (rule ccontr)
      assume "\<not> 20 < unat (trans_len_of (length pdata) (np_ctl ?o))"
      then show False using trans_len_fits [of "length pdata" "np_ctl ?o"] assms(4) by (auto simp: net_mic_len_def split: if_splits)
    qed
    then show ?thesis by (simp add: net_attempt_def meshx_net_decrypt_def net_sizes mem_read_def obfuscation_byte0(2))
  qed
  then show ?thesis using net_receive_eq [OF assms(1-3), of aes up pdata] by (auto simp: c)
qed

theorem short_packet_overruns_witness:
  "meshx_net_receive demo_aes net_record (Some 0) [0, 1, 2] demo_mesh = None"
proof -
  have "np_nid (net_pdu_copy [0, 1, 2] demo_mesh) = 0" by (simp add: np_nid_def net_pdu_copy_def net_sizes)
  then have "net_candidates (meshx_net_keys (mw_keys demo_mesh)) (np_nid (net_pdu_copy [0, 1, 2] demo_mesh)) \<noteq> []"
    by (simp add: demo_mesh_facts)
  from short_packet_overruns [OF demo_mesh_facts(1-3) _ this] show ?thesis by simp
qed

end
