(* ===== verification/Mesh_Lower_Trans.thy ===== *)
theory Mesh_Lower_Trans
  imports Mesh_Net
begin

text \<open>
  The lower transport layer, \<^verbatim>\<open>mesh/transport/meshx_lower_trans.c\<close>: segmentation with
  retransmission, reassembly, block acknowledgements and the task pools.  The network layer's
  send (\<^verbatim>\<open>ns\<close>) and the upper layer's reception (\<^verbatim>\<open>ur\<close>) are arguments; both may come back
  into this layer, since a packet to an own address is received while it is being sent, so
  tasks are read through their number after every call.  The result \<^verbatim>\<open>None\<close> is a read or
  write outside a buffer, a buffer that was freed, a timer freed twice, or the assertion of
  the list operations.
\<close>

type_synonym net_sender = "bytes \<Rightarrow> msg_ctx \<Rightarrow> mesh_world \<Rightarrow> (errno \<times> mesh_world) option"
type_synonym pdu_receiver = "bytes \<Rightarrow> u16 \<Rightarrow> msg_ctx \<Rightarrow> mesh_world \<Rightarrow> (errno \<times> mesh_world) option"

definition MESHX_LOWER_TRANS_UNSEG_ACCESS_MAX_PDU_SIZE :: nat where
  "MESHX_LOWER_TRANS_UNSEG_ACCESS_MAX_PDU_SIZE = 15"
definition MESHX_LOWER_TRANS_SEG_ACCESS_MAX_PDU_SIZE :: nat where
  "MESHX_LOWER_TRANS_SEG_ACCESS_MAX_PDU_SIZE = 12"
definition MESHX_LOWER_TRANS_UNSEG_CTL_MAX_PDU_SIZE :: nat where
  "MESHX_LOWER_TRANS_UNSEG_CTL_MAX_PDU_SIZE = 11"
definition MESHX_LOWER_TRANS_SEG_CTL_MAX_PDU_SIZE :: nat where
  "MESHX_LOWER_TRANS_SEG_CTL_MAX_PDU_SIZE = 8"
definition MESHX_LOWER_TRANS_MAX_SEG_SIZE :: u8 where "MESHX_LOWER_TRANS_MAX_SEG_SIZE = 0x1F"
definition MESHX_LOWER_TRANS_TX_RETRY_BASE :: u32 where "MESHX_LOWER_TRANS_TX_RETRY_BASE = 200"
definition MESHX_LOWER_TRANS_TX_RETRY_TTL_FACTOR :: u32 where "MESHX_LOWER_TRANS_TX_RETRY_TTL_FACTOR = 50"
definition MESHX_LOWER_TRANS_INCOMPLETE_TIMEOUT :: u32 where "MESHX_LOWER_TRANS_INCOMPLETE_TIMEOUT = 10000"
definition MESHX_LOWER_TRANS_RX_ACK_BASE :: u32 where "MESHX_LOWER_TRANS_RX_ACK_BASE = 150"
definition MESHX_LOWER_TRANS_RX_ACK_TTL_FACTOR :: u32 where "MESHX_LOWER_TRANS_RX_ACK_TTL_FACTOR = 50"
definition MESHX_LOWER_TRANS_STORE_TIMEOUT :: u32 where "MESHX_LOWER_TRANS_STORE_TIMEOUT = 10000"

definition MESHX_LOWER_TRANS_IS_SEQ_AUTH_VALID :: "u32 \<Rightarrow> u32 \<Rightarrow> bool" where
  "MESHX_LOWER_TRANS_IS_SEQ_AUTH_VALID seq seq_auth \<longleftrightarrow> seq \<ge> seq_auth \<and> seq - seq_auth < 0x2000"

definition MESHX_LOWER_TRANS_SEQ_ZERO :: "u32 \<Rightarrow> u32" where
  "MESHX_LOWER_TRANS_SEQ_ZERO seq = seq AND 0x1fff"

definition MESHX_LOWER_TRANS_SEQ_AUTH :: "u32 \<Rightarrow> u32 \<Rightarrow> u32" where
  "MESHX_LOWER_TRANS_SEQ_AUTH seq_zero seq =
    seq_zero + ((seq AND NOT 0x1fff) - (if seq_zero > seq AND 0x1fff then 0x2000 else 0))"

lemmas lower_sizes = MESHX_LOWER_TRANS_UNSEG_ACCESS_MAX_PDU_SIZE_def
  MESHX_LOWER_TRANS_SEG_ACCESS_MAX_PDU_SIZE_def MESHX_LOWER_TRANS_UNSEG_CTL_MAX_PDU_SIZE_def
  MESHX_LOWER_TRANS_SEG_CTL_MAX_PDU_SIZE_def MESHX_LOWER_TRANS_MAX_SEG_SIZE_def

section \<open>Formats\<close>

text \<open>The first byte of a pdu, and the three bytes of a segment: its flag, SeqZero, SegO and
  SegN, big endian.\<close>

definition access_metadata :: "bool \<Rightarrow> u8 \<Rightarrow> bool \<Rightarrow> u8" where
  "access_metadata akf k_aid seg = (k_aid AND 0x3f) OR push_bit 6 (of_bool akf) OR push_bit 7 (of_bool seg)"

definition ctl_metadata :: "u8 \<Rightarrow> bool \<Rightarrow> u8" where
  "ctl_metadata opcode seg = flag7 seg opcode"

definition seg_misc :: "u8 \<Rightarrow> u8 \<Rightarrow> u32 \<Rightarrow> bool \<Rightarrow> bytes" where
  "seg_misc segn sego seq_zero flag =
    seq_bytes ((ucast segn AND 0x1f) OR push_bit 5 (ucast sego AND 0x1f) OR push_bit 10 (seq_zero AND 0x1fff) OR
      push_bit 23 (of_bool flag))"

definition misc_value :: "bytes \<Rightarrow> u32" where
  "misc_value b = push_bit 8 (push_bit 8 (ucast (b ! 0)) OR ucast (b ! 1)) OR ucast (b ! 2)"

definition misc_segn :: "bytes \<Rightarrow> u8" where "misc_segn b = ucast (misc_value b AND 0x1f)"
definition misc_sego :: "bytes \<Rightarrow> u8" where "misc_sego b = ucast (drop_bit 5 (misc_value b) AND 0x1f)"
definition misc_seq_zero :: "bytes \<Rightarrow> u32" where "misc_seq_zero b = drop_bit 10 (misc_value b) AND 0x1fff"
definition misc_szmic :: "bytes \<Rightarrow> bool" where "misc_szmic b = bit (misc_value b) 23"

definition seg_size :: "bool \<Rightarrow> nat" where
  "seg_size ctl = (if ctl then MESHX_LOWER_TRANS_SEG_CTL_MAX_PDU_SIZE else MESHX_LOWER_TRANS_SEG_ACCESS_MAX_PDU_SIZE)"

section \<open>Initialisation and helpers\<close>

definition meshx_lower_trans_init :: "mesh_world \<Rightarrow> errno \<times> mesh_world" where
  "meshx_lower_trans_init w =
    (case on_menv meshx_malloc_ok w of
       (False, w) \<Rightarrow> (MESHX_ERR_MEM, w)
     | (True, w) \<Rightarrow>
         (case on_menv meshx_malloc_ok w of
            (False, w) \<Rightarrow> (MESHX_ERR_MEM, w)
          | (True, w) \<Rightarrow>
              (MESHX_SUCCESS,
               w\<lparr>mw_tx := (\<lambda>_. tx_task_zero), tx_idle := [0..<unat (trans_tx_task_num (config (mw_node w)))],
                 tx_active := [], tx_pending := [],
                 mw_rx := (\<lambda>_. rx_task_zero), rx_idle := [0..<unat (trans_rx_task_num (config (mw_node w)))],
                 rx_active := []\<rparr>)))"

definition meshx_lower_trans_random :: "sys_env \<Rightarrow> u8 \<times> sys_env" where
  "meshx_lower_trans_random e =
    (let (random, e) = MESHX_ABS_rand e; random = random mod 50 in
     (ucast (if random < 20 then random + 20 else random), e))"

definition meshx_lower_trans_rpl_check :: "meshx_rpl \<Rightarrow> mesh_world \<Rightarrow> (bool \<times> mesh_world) option" where
  "meshx_lower_trans_rpl_check rpl w = do {
    fresh \<leftarrow> meshx_rpl_check rpl (rpls (mw_iv w));
    if \<not> fresh then Some (False, w)
    else do {
      (r, s) \<leftarrow> meshx_rpl_update rpl (rpls (mw_iv w));
      Some (r = MESHX_SUCCESS, w\<lparr>mw_iv := (mw_iv w)\<lparr>rpls := s\<rparr>\<rparr>)
    }
  }"

text \<open>A sequence number of the element with an address.\<close>

definition element_seq_use :: "u16 \<Rightarrow> mesh_world \<Rightarrow> (u32 \<times> mesh_world) option" where
  "element_seq_use src w = do {
    (seq, s) \<leftarrow> meshx_seq_use (ucast (src - node_addr (param (mw_node w)))) (seqs (mw_iv w));
    Some (seq, w\<lparr>mw_iv := (mw_iv w)\<lparr>seqs := s\<rparr>\<rparr>)
  }"

definition ctx_rpl :: "msg_ctx \<Rightarrow> meshx_rpl" where
  "ctx_rpl c = \<lparr>rpl_src = mc_src c, rpl_seq = mc_seq c, rpl_iv_index = mc_iv_index c\<rparr>"

section \<open>Sending segments\<close>

text \<open>The buffer \<^verbatim>\<open>pdu\<close> lives through the loop: the bit above SeqZero of a control segment
  is never assigned, and what the swap of the previous segment left there is sent.\<close>

definition seg_header :: "msg_ctx \<Rightarrow> u8 \<Rightarrow> u8 \<Rightarrow> bytes \<Rightarrow> bytes" where
  "seg_header c segn sego pdu =
    pdu ! 0 # seg_misc segn sego (MESHX_LOWER_TRANS_SEQ_ZERO (mc_seq_auth c))
      (if mc_ctl c then bit (pdu ! 3) 7 else mc_szmic c)"

fun send_seg_loop ::
  "net_sender \<Rightarrow> nat \<Rightarrow> u16 \<Rightarrow> u8 \<Rightarrow> u32 \<Rightarrow> u8 list \<Rightarrow> u16 \<Rightarrow> bytes \<Rightarrow> mesh_world \<Rightarrow> (errno \<times> mesh_world) option" where
  "send_seg_loop ns p pdu_len seg_num block_ack [] data_offset pdu w = Some (MESHX_SUCCESS, w)"
| "send_seg_loop ns p pdu_len seg_num block_ack (i # is) data_offset pdu w =
    (let size = seg_size (mc_ctl (tt_ctx (mw_tx w p)));
         seg_len = (if unat seg_num = unat i + 1 then ucast (pdu_len - data_offset) else word_of_nat size) :: u8
     in if bit block_ack (unat i)
        then send_seg_loop ns p pdu_len seg_num block_ack is (data_offset + ucast seg_len) pdu w
        else do {
          (seq, w) \<leftarrow> element_seq_use (mc_src (tt_ctx (mw_tx w p))) w;
          let w = tx_upd p (\<lambda>t. t\<lparr>tt_ctx := (tt_ctx t)\<lparr>mc_seq := low24 seq\<rparr>\<rparr>) w;
          let c = tt_ctx (mw_tx w p);
          if \<not> MESHX_LOWER_TRANS_IS_SEQ_AUTH_VALID (mc_seq c) (mc_seq_auth c) then Some (MESHX_ERR_INVAL, w)
          else do {
            ppdu \<leftarrow> tt_pdu (mw_tx w p);
            d \<leftarrow> mem_read ppdu (unat data_offset) (unat seg_len);
            pdu \<leftarrow> mem_write pdu 0 (seg_header c (seg_num - 1) i pdu);
            pdu \<leftarrow> mem_write pdu 4 d;
            (_, w) \<leftarrow> ns (take (4 + unat seg_len) pdu) c w;
            send_seg_loop ns p pdu_len seg_num block_ack is (data_offset + ucast seg_len) pdu w
          }
        })"

definition seg_num_of :: "u16 \<Rightarrow> nat \<Rightarrow> u8" where
  "seg_num_of pdu_len seg = word_of_nat ((unat pdu_len + seg - 1) div seg)"

text \<open>The arguments of the C function are the fields of the task its callers pass.\<close>

definition meshx_lower_trans_send_seg_msg ::
  "net_sender \<Rightarrow> nat \<Rightarrow> u32 \<Rightarrow> mesh_world \<Rightarrow> (errno \<times> mesh_world) option" where
  "meshx_lower_trans_send_seg_msg ns p block_ack w =
    (let c = tt_ctx (mw_tx w p); pdu_len = tt_pdu_len (mw_tx w p);
         seg_num = seg_num_of pdu_len (seg_size (mc_ctl c));
         first = (if mc_ctl c then ctl_metadata (mc_opcode c) True
                  else access_metadata (mc_akf c) (if mc_akf c then mc_aid c else 0) True)
     in send_seg_loop ns p pdu_len seg_num block_ack (map word_of_nat [0..<unat seg_num]) 0
          (first # drop 1 (junk w 20)) w)"

section \<open>Tasks that send\<close>

definition meshx_lower_trans_tx_task_release :: "nat \<Rightarrow> mesh_world \<Rightarrow> mesh_world option" where
  "meshx_lower_trans_tx_task_release p w =
    (if p \<notin> set (tx_idle w) \<union> set (tx_active w) \<union> set (tx_pending w) then None
     else let w = tx_upd p (\<lambda>t. t\<lparr>tt_timer := None, tt_pdu := None\<rparr>) w
       in Some (w\<lparr>tx_idle := remove1 p (tx_idle w) @ [p], tx_active := remove1 p (tx_active w),
                  tx_pending := remove1 p (tx_pending w)\<rparr>))"

definition meshx_lower_trans_tx_timer_start :: "nat \<Rightarrow> mesh_world \<Rightarrow> mesh_world" where
  "meshx_lower_trans_tx_timer_start p w =
    (let t = mw_tx w p;
         interval = MESHX_LOWER_TRANS_TX_RETRY_BASE + MESHX_LOWER_TRANS_TX_RETRY_TTL_FACTOR * ucast (mc_ttl (tt_ctx t))
     in if MESHX_ADDRESS_IS_UNICAST (mc_dst (tt_ctx t))
        then tx_upd p (\<lambda>t. t\<lparr>tt_timer := snd (if meshx_timer_is_active (tt_timer t)
               then meshx_timer_restart (tt_timer t) interval else meshx_timer_start (tt_timer t) interval)\<rparr>) w
        else let (delay, w) = on_menv meshx_lower_trans_random w
          in tx_upd p (\<lambda>t. t\<lparr>tt_timer := snd (meshx_timer_start (tt_timer t) (ucast delay))\<rparr>) w)"

text \<open>The first pending task whose destination no active task has.\<close>

definition pending_ready :: "mesh_world \<Rightarrow> nat option" where
  "pending_ready w =
    find (\<lambda>q. \<not> list_ex (\<lambda>a. mc_dst (tt_ctx (mw_tx w q)) = mc_dst (tt_ctx (mw_tx w a))) (tx_active w)) (tx_pending w)"

text \<open>Finishing a task runs a pending one, which finishes at once when it cannot be sent; every
  turn takes a task from the pending list, whose length bounds the number of turns.\<close>

fun meshx_lower_trans_tx_task_finish :: "net_sender \<Rightarrow> nat \<Rightarrow> nat \<Rightarrow> mesh_world \<Rightarrow> mesh_world option"
and meshx_lower_trans_tx_task_run :: "net_sender \<Rightarrow> nat \<Rightarrow> nat \<Rightarrow> mesh_world \<Rightarrow> (errno \<times> mesh_world) option" where
  "meshx_lower_trans_tx_task_finish ns 0 p w = None"
| "meshx_lower_trans_tx_task_finish ns (Suc n) p w = do {
    w \<leftarrow> meshx_lower_trans_tx_task_release p w;
    let w = (if meshx_is_iv_update_state_transit_pending (iv (mw_iv w))
             then w\<lparr>mw_iv := (mw_iv w)\<lparr>iv := meshx_iv_update_state_set MESHX_IV_UPDATE_STATE_NORMAL (iv (mw_iv w))\<rparr>\<rparr>
             else w);
    (case pending_ready w of
       None \<Rightarrow> Some w
     | Some q \<Rightarrow> do {
         (_, w) \<leftarrow> meshx_lower_trans_tx_task_run ns n q (w\<lparr>tx_pending := remove1 q (tx_pending w)\<rparr>);
         Some w })
  }"
| "meshx_lower_trans_tx_task_run ns 0 p w = None"
| "meshx_lower_trans_tx_task_run ns (Suc n) p w =
    (case meshx_timer_create (tt_timer (mw_tx w p)) MESHX_TIMER_MODE_SINGLE_SHOT (mw_env w) of
       (r, tm, e) \<Rightarrow>
         let w = tx_upd p (\<lambda>t. t\<lparr>tt_timer := tm\<rparr>) (w\<lparr>mw_env := e\<rparr>) in
         if r \<noteq> MESHX_SUCCESS
         then do { w \<leftarrow> meshx_lower_trans_tx_task_finish ns n p w; Some (MESHX_ERR_RESOURCE, w) }
         else let w = w\<lparr>tx_active := tx_active w @ [p]\<rparr> in do {
           (ret, w) \<leftarrow> meshx_lower_trans_send_seg_msg ns p (tt_block_ack (mw_tx w p)) w;
           if ret \<noteq> MESHX_SUCCESS
           then do { w \<leftarrow> meshx_lower_trans_tx_task_finish ns n p w; Some (ret, w) }
           else Some (ret, meshx_lower_trans_tx_timer_start p w)
         })"

definition tx_turns :: "mesh_world \<Rightarrow> nat" where
  "tx_turns w = 2 * length (tx_pending w) + 2"

definition meshx_lower_trans_handle_tx_timeout :: "net_sender \<Rightarrow> nat \<Rightarrow> mesh_world \<Rightarrow> mesh_world option" where
  "meshx_lower_trans_handle_tx_timeout ns p w =
    (let w = tx_upd p (\<lambda>t. t\<lparr>tt_retry := tt_retry t + 1\<rparr>) w in
     if tt_retry (mw_tx w p) > trans_tx_retry_times (config (mw_node w))
     then meshx_lower_trans_tx_task_finish ns (tx_turns w) p w
     else do {
       (_, w) \<leftarrow> meshx_lower_trans_send_seg_msg ns p (tt_block_ack (mw_tx w p)) w;
       let c = tt_ctx (mw_tx w p);
       if \<not> MESHX_LOWER_TRANS_IS_SEQ_AUTH_VALID (mc_seq c) (mc_seq_auth c)
       then meshx_lower_trans_tx_task_finish ns (tx_turns w) p w
       else Some (meshx_lower_trans_tx_timer_start p w)
     })"

definition meshx_lower_trans_async_handle_tx_timeout :: "net_sender \<Rightarrow> nat \<Rightarrow> mesh_world \<Rightarrow> mesh_world option" where
  "meshx_lower_trans_async_handle_tx_timeout ns p w = meshx_lower_trans_handle_tx_timeout ns p w"

definition meshx_lower_trans_tx_task_try ::
  "net_sender \<Rightarrow> nat \<Rightarrow> mesh_world \<Rightarrow> (errno \<times> mesh_world) option" where
  "meshx_lower_trans_tx_task_try ns p w =
    (if list_ex (\<lambda>a. mc_dst (tt_ctx (mw_tx w a)) = mc_dst (tt_ctx (mw_tx w p))) (tx_active w)
     then Some (MESHX_SUCCESS, w\<lparr>tx_pending := tx_pending w @ [p]\<rparr>)
     else meshx_lower_trans_tx_task_run ns (tx_turns w) p w)"

definition meshx_lower_trans_tx_task_request :: "u16 \<Rightarrow> mesh_world \<Rightarrow> nat option \<times> mesh_world" where
  "meshx_lower_trans_tx_task_request pdu_len w =
    (case tx_idle w of
       [] \<Rightarrow> (None, w)
     | p # rest \<Rightarrow>
         (case on_menv meshx_malloc_ok w of
            (False, w) \<Rightarrow> (None, tx_upd p (\<lambda>t. t\<lparr>tt_pdu := None\<rparr>) (w\<lparr>tx_idle := rest @ [p]\<rparr>))
          | (True, w) \<Rightarrow>
              (Some p, tx_upd p (\<lambda>t. t\<lparr>tt_pdu := Some (junk w (unat pdu_len)), tt_retry := 0, tt_block_ack := 0,
                                       tt_seg_bits := 0\<rparr>) (w\<lparr>tx_idle := rest\<rparr>))))"

definition meshx_lower_trans_is_tx_task_exist :: "msg_ctx \<Rightarrow> mesh_world \<Rightarrow> bool" where
  "meshx_lower_trans_is_tx_task_exist c w \<longleftrightarrow>
    list_ex (\<lambda>a. mc_dst (tt_ctx (mw_tx w a)) = mc_dst c \<and> mc_seq_auth (tt_ctx (mw_tx w a)) = mc_seq_auth c) (tx_active w)"

definition low_bits :: "u8 \<Rightarrow> u32" where
  "low_bits n = foldl (\<lambda>b i. b OR push_bit i 1) 0 [0..<unat n]"

definition meshx_lower_trans_process_seg_msg ::
  "net_sender \<Rightarrow> bytes \<Rightarrow> nat \<Rightarrow> msg_ctx \<Rightarrow> mesh_world \<Rightarrow> (errno \<times> mesh_world) option" where
  "meshx_lower_trans_process_seg_msg ns pupper_trans_pdu max_seg_size c w =
    (let pdu_len = word_of_nat (length pupper_trans_pdu); seg_num = seg_num_of pdu_len max_seg_size in
     if seg_num > MESHX_LOWER_TRANS_MAX_SEG_SIZE then Some (MESHX_ERR_LENGTH, w)
     else if meshx_lower_trans_is_tx_task_exist c w then Some (MESHX_ERR_ALREADY, w)
     else case meshx_lower_trans_tx_task_request pdu_len w of
       (None, w) \<Rightarrow> Some (MESHX_ERR_BUSY, w)
     | (Some p, w) \<Rightarrow>
         meshx_lower_trans_tx_task_try ns p
           (tx_upd p (\<lambda>t. t\<lparr>tt_ctx := c, tt_pdu := Some pupper_trans_pdu, tt_pdu_len := pdu_len,
                            tt_seg_bits := tt_seg_bits t OR low_bits seg_num\<rparr>) w))"

text \<open>The caller's context is updated in place: once a message was segmented, its flag stays.\<close>

definition meshx_lower_trans_send ::
  "net_sender \<Rightarrow> bytes \<Rightarrow> msg_ctx \<Rightarrow> mesh_world \<Rightarrow> (errno \<times> msg_ctx \<times> mesh_world) option" where
  "meshx_lower_trans_send ns pupper_trans_pdu c w =
    (if pupper_trans_pdu = [] then Some (MESHX_ERR_LENGTH, c, w)
     else if \<not> MESHX_ADDRESS_IS_VALID (mc_dst c) then Some (MESHX_ERR_INVAL, c, w)
     else if mc_seg c \<or> length pupper_trans_pdu >
         (if mc_ctl c then MESHX_LOWER_TRANS_UNSEG_CTL_MAX_PDU_SIZE else MESHX_LOWER_TRANS_UNSEG_ACCESS_MAX_PDU_SIZE)
     then let c = c\<lparr>mc_seg := True\<rparr> in do {
       (r, w) \<leftarrow> meshx_lower_trans_process_seg_msg ns pupper_trans_pdu (seg_size (mc_ctl c)) c w;
       Some (r, c, w) }
     else let first = (if mc_ctl c then ctl_metadata (mc_opcode c) False
                       else access_metadata (mc_akf c) (if mc_akf c then mc_aid c else 0) False) in do {
       (r, w) \<leftarrow> ns (first # pupper_trans_pdu) c w;
       Some (r, c, w) })"

section \<open>Acknowledgements\<close>

text \<open>SeqZero above two reserved bits, then the acknowledged segments.\<close>

definition seg_ack_bytes :: "u32 \<Rightarrow> u32 \<Rightarrow> bytes" where
  "seg_ack_bytes seq_zero block_ack = be16 (ucast (push_bit 2 (seq_zero AND 0x1fff))) @ be32 block_ack"

definition meshx_lower_trans_seg_ack ::
  "net_sender \<Rightarrow> u32 \<Rightarrow> msg_ctx \<Rightarrow> mesh_world \<Rightarrow> (errno \<times> mesh_world) option" where
  "meshx_lower_trans_seg_ack ns block_ack c w = do {
    let seg_ack = seg_ack_bytes (MESHX_LOWER_TRANS_SEQ_ZERO (mc_seq_auth c)) block_ack;
    (seq, w) \<leftarrow> element_seq_use (mc_dst c) w;
    let t = mc_zero\<lparr>mc_src := mc_dst c, mc_dst := mc_src c, mc_ttl := default_ttl (param (mw_node w)) AND 0x7f,
              mc_ctl := True, mc_iv_index := meshx_iv_index_tx_get (iv (mw_iv w)), mc_net_key := mc_net_key c,
              mc_seq := low24 seq\<rparr>;
    (r, _, w) \<leftarrow> meshx_lower_trans_send ns seg_ack t w;
    Some (r, w)
  }"

text \<open>The first active task with the SeqZero of the acknowledgement.\<close>

definition meshx_lower_trans_recv_block_ack :: "net_sender \<Rightarrow> bytes \<Rightarrow> mesh_world \<Rightarrow> mesh_world option" where
  "meshx_lower_trans_recv_block_ack ns seg_ack w =
    (let seq_zero = drop_bit 2 (ucast (of_be16 (take 2 seg_ack)) :: u32) AND 0x1fff;
         block_ack = of_be32 (take 4 (drop 2 seg_ack)) in
     case find (\<lambda>p. MESHX_LOWER_TRANS_SEQ_ZERO (mc_seq_auth (tt_ctx (mw_tx w p))) = seq_zero) (tx_active w) of
       None \<Rightarrow> Some w
     | Some p \<Rightarrow>
         if tt_seg_bits (mw_tx w p) = block_ack \<or> block_ack = 0
         then meshx_lower_trans_tx_task_finish ns (tx_turns w) p w
         else let w = tx_upd p (\<lambda>t. t\<lparr>tt_retry := tt_retry t + 1\<rparr>) w in
           if tt_retry (mw_tx w p) > trans_tx_retry_times (config (mw_node w))
           then meshx_lower_trans_tx_task_finish ns (tx_turns w) p w
           else let w = tx_upd p (\<lambda>t. t\<lparr>tt_block_ack := block_ack\<rparr>) w in do {
             (_, w) \<leftarrow> meshx_lower_trans_send_seg_msg ns p block_ack w;
             let c = tt_ctx (mw_tx w p);
             if \<not> MESHX_LOWER_TRANS_IS_SEQ_AUTH_VALID (mc_seq c) (mc_seq_auth c)
             then meshx_lower_trans_tx_task_finish ns (tx_turns w) p w
             else Some (meshx_lower_trans_tx_timer_start p w)
           })"

section \<open>Tasks that receive\<close>

definition meshx_lower_trans_rx_task_release :: "nat \<Rightarrow> mesh_world \<Rightarrow> mesh_world option" where
  "meshx_lower_trans_rx_task_release p w =
    (if p \<notin> set (rx_idle w) \<union> set (rx_active w) \<or> rt_dangling (mw_rx w p) then None
     else let w = rx_upd p (\<lambda>t. t\<lparr>rt_ack_timer := None, rt_incomplete_timer := None, rt_pdu := None\<rparr>) w
       in Some (w\<lparr>rx_idle := remove1 p (rx_idle w) @ [p], rx_active := remove1 p (rx_active w)\<rparr>))"

definition meshx_lower_trans_async_handle_rx_ack_timeout :: "net_sender \<Rightarrow> nat \<Rightarrow> mesh_world \<Rightarrow> mesh_world option" where
  "meshx_lower_trans_async_handle_rx_ack_timeout ns p w = do {
    (_, w) \<leftarrow> meshx_lower_trans_seg_ack ns (rt_block_ack (mw_rx w p)) (rt_ctx (mw_rx w p)) w;
    Some w
  }"

definition meshx_lower_trans_async_handle_rx_incomplete_timeout :: "nat \<Rightarrow> mesh_world \<Rightarrow> mesh_world option" where
  "meshx_lower_trans_async_handle_rx_incomplete_timeout p w = meshx_lower_trans_rx_task_release p w"

definition meshx_lower_trans_seq_auth :: "u32 \<Rightarrow> u32 \<Rightarrow> u64" where
  "meshx_lower_trans_seq_auth iv_index seq = push_bit 24 (ucast iv_index) + ucast seq"

text \<open>A task from the idle list.  The received length and the segments not received are those
  its last message left; a failure leaves the handles of deleted timers in it.\<close>

definition rx_task_new :: "u16 \<Rightarrow> msg_ctx \<Rightarrow> mesh_world \<Rightarrow> nat option \<times> mesh_world" where
  "rx_task_new max_pdu_len c w =
    (case rx_idle w of
       [] \<Rightarrow> (None, w)
     | p # rest \<Rightarrow>
         (case meshx_timer_create (rt_ack_timer (mw_rx w p)) MESHX_TIMER_MODE_SINGLE_SHOT (mw_env w) of
            (r, ack, e) \<Rightarrow>
              if r \<noteq> MESHX_SUCCESS then (None, w\<lparr>mw_env := e, rx_idle := rest @ [p]\<rparr>)
              else
                (case meshx_timer_create (rt_incomplete_timer (mw_rx w p)) MESHX_TIMER_MODE_SINGLE_SHOT e of
                   (r, incomplete, e) \<Rightarrow>
                     if r \<noteq> MESHX_SUCCESS
                     then (None, rx_upd p (\<lambda>t. t\<lparr>rt_ack_timer := None, rt_dangling := True\<rparr>)
                             (w\<lparr>mw_env := e, rx_idle := rest @ [p]\<rparr>))
                     else
                       (case meshx_malloc_ok e of
                          (False, e) \<Rightarrow>
                            (None, rx_upd p (\<lambda>t. t\<lparr>rt_ack_timer := None, rt_incomplete_timer := None, rt_dangling := True,
                                     rt_pdu := None\<rparr>) (w\<lparr>mw_env := e, rx_idle := rest @ [p]\<rparr>))
                        | (True, e) \<Rightarrow>
                            (Some p, rx_upd p (\<lambda>t. t\<lparr>rt_ack_timer := ack, rt_incomplete_timer := incomplete,
                                     rt_dangling := False, rt_pdu := Some (junk w (unat max_pdu_len)), rt_max_len := max_pdu_len,
                                     rt_ctx := c, rt_block_ack := 0, rt_not_received := rt_not_received t OR
                                       low_bits (word_of_nat (unat max_pdu_len div seg_size (mc_ctl c)))\<rparr>)
                               (w\<lparr>mw_env := e, rx_idle := rest, rx_active := rx_active w @ [p]\<rparr>))))))"

text \<open>A newer message of the same source displaces the one being received; the displaced task
  keeps its timers.\<close>

definition meshx_lower_trans_rx_task_request :: "u16 \<Rightarrow> msg_ctx \<Rightarrow> mesh_world \<Rightarrow> nat option \<times> mesh_world" where
  "meshx_lower_trans_rx_task_request max_pdu_len c w =
    (case find (\<lambda>p. mc_src (rt_ctx (mw_rx w p)) = mc_src c) (rx_active w) of
       None \<Rightarrow> rx_task_new max_pdu_len c w
     | Some p \<Rightarrow>
         let new = meshx_lower_trans_seq_auth (mc_iv_index c) (mc_seq_auth c);
             store = meshx_lower_trans_seq_auth (mc_iv_index (rt_ctx (mw_rx w p))) (mc_seq_auth (rt_ctx (mw_rx w p)))
         in if new > store
            then rx_task_new max_pdu_len c
                   (rx_upd p (\<lambda>t. t\<lparr>rt_pdu := None\<rparr>)
                      (w\<lparr>rx_active := remove1 p (rx_active w), rx_idle := rx_idle w @ [p]\<rparr>))
            else if new = store then (Some p, w) else (None, w))"

section \<open>Receiving\<close>

text \<open>The answer to a segment that cannot be received.\<close>

definition rx_refuse :: "net_sender \<Rightarrow> errno \<Rightarrow> nat \<Rightarrow> msg_ctx \<Rightarrow> mesh_world \<Rightarrow> (errno \<times> mesh_world) option" where
  "rx_refuse ns r p c w = do {
    (_, w) \<leftarrow> meshx_lower_trans_seg_ack ns 0 c w;
    w \<leftarrow> meshx_lower_trans_rx_task_release p w;
    Some (r, w)
  }"

text \<open>What is done when every segment was received: acknowledge, keep the state for a while,
  and hand the message up.\<close>

definition rx_complete ::
  "net_sender \<Rightarrow> pdu_receiver \<Rightarrow> nat \<Rightarrow> msg_ctx \<Rightarrow> mesh_world \<Rightarrow> (errno \<times> mesh_world) option" where
  "rx_complete ns ur p c w = do {
    (_, w) \<leftarrow> meshx_lower_trans_seg_ack ns (rt_block_ack (mw_rx w p)) c w;
    let w = rx_upd p (\<lambda>t. t\<lparr>rt_ack_timer := None,
              rt_incomplete_timer := snd (meshx_timer_restart (rt_incomplete_timer t) MESHX_LOWER_TRANS_STORE_TIMEOUT)\<rparr>) w;
    ppdu \<leftarrow> rt_pdu (mw_rx w p);
    (_, w) \<leftarrow> ur ppdu (rt_pdu_len (mw_rx w p)) (c\<lparr>mc_seg := True\<rparr>) w;
    Some (MESHX_SUCCESS, w)
  }"

definition rx_single ::
  "net_sender \<Rightarrow> pdu_receiver \<Rightarrow> bytes \<Rightarrow> u8 \<Rightarrow> nat \<Rightarrow> msg_ctx \<Rightarrow> mesh_world \<Rightarrow> (errno \<times> mesh_world) option" where
  "rx_single ns ur pdata len p c w = do {
    (ok, w) \<leftarrow> meshx_lower_trans_rpl_check (ctx_rpl c) w;
    if \<not> ok then rx_refuse ns MESHX_ERR_FAIL p c w
    else do {
      let pdu_len = ucast len - 4;
      d \<leftarrow> mem_read pdata 4 (unat pdu_len);
      ppdu \<leftarrow> rt_pdu (mw_rx w p);
      ppdu \<leftarrow> mem_write ppdu 0 d;
      rx_complete ns ur p c
        (rx_upd p (\<lambda>t. t\<lparr>rt_not_received := 0, rt_block_ack := 1, rt_pdu_len := pdu_len, rt_pdu := Some ppdu\<rparr>) w)
    }
  }"

definition rx_segment ::
  "net_sender \<Rightarrow> pdu_receiver \<Rightarrow> bytes \<Rightarrow> u8 \<Rightarrow> u8 \<Rightarrow> u8 \<Rightarrow> nat \<Rightarrow> msg_ctx \<Rightarrow> mesh_world \<Rightarrow>
   (errno \<times> mesh_world) option" where
  "rx_segment ns ur pdata len sego segn p c w = do {
    let size = seg_size (mc_ctl c);
    let seg_len = (if sego = segn then len - 4 else word_of_nat size);
    d \<leftarrow> mem_read pdata 4 (unat seg_len);
    ppdu \<leftarrow> rt_pdu (mw_rx w p);
    ppdu \<leftarrow> mem_write ppdu (unat sego * size) d;
    let w = rx_upd p (\<lambda>t. t\<lparr>rt_pdu := Some ppdu, rt_not_received := rt_not_received t AND NOT (push_bit (unat sego) 1),
              rt_block_ack := rt_block_ack t OR push_bit (unat sego) 1, rt_pdu_len := rt_pdu_len t + ucast seg_len\<rparr>) w;
    if rt_not_received (mw_rx w p) = 0
    then do {
      (ok, w) \<leftarrow> meshx_lower_trans_rpl_check (ctx_rpl c) w;
      if \<not> ok then rx_refuse ns MESHX_ERR_FAIL p c w else rx_complete ns ur p c w
    }
    else Some (MESHX_SUCCESS, rx_upd p (\<lambda>t. t\<lparr>
           rt_ack_timer := (if meshx_timer_is_active (rt_ack_timer t) then rt_ack_timer t
             else snd (meshx_timer_start (rt_ack_timer t)
                    (MESHX_LOWER_TRANS_RX_ACK_BASE + MESHX_LOWER_TRANS_RX_ACK_TTL_FACTOR * ucast (mc_ttl c)))),
           rt_incomplete_timer := snd (meshx_timer_restart (rt_incomplete_timer t) MESHX_LOWER_TRANS_INCOMPLETE_TIMEOUT)\<rparr>) w)
  }"

text \<open>The context of a segment, from its header.\<close>

definition seg_ctx :: "u8 \<Rightarrow> bytes \<Rightarrow> msg_ctx \<Rightarrow> msg_ctx" where
  "seg_ctx first misc c = c\<lparr>
    mc_seq_auth := low24 (MESHX_LOWER_TRANS_SEQ_AUTH (misc_seq_zero misc) (mc_seq c)),
    mc_misc := (if mc_ctl c then first AND 0x7f else access_misc (bit first 6) (misc_szmic misc) (first AND 0x3f))\<rparr>"

definition meshx_lower_trans_receive_seg_msg ::
  "net_sender \<Rightarrow> pdu_receiver \<Rightarrow> bytes \<Rightarrow> u8 \<Rightarrow> msg_ctx \<Rightarrow> mesh_world \<Rightarrow> (errno \<times> mesh_world) option" where
  "meshx_lower_trans_receive_seg_msg ns ur pdata len c w = do {
    misc \<leftarrow> mem_read pdata 1 3;
    let c = seg_ctx (pdata ! 0) misc c;
    let sego = misc_sego misc;
    let segn = misc_segn misc;
    let max_pdu_len = (ucast segn + 1) * word_of_nat (seg_size (mc_ctl c));
    (case meshx_lower_trans_rx_task_request max_pdu_len c w of
       (None, w) \<Rightarrow> do { (_, w) \<leftarrow> meshx_lower_trans_seg_ack ns 0 c w; Some (MESHX_ERR_BUSY, w) }
     | (Some p, w) \<Rightarrow>
         let t = mw_rx w p in
         if (if mc_ctl c then mc_opcode (rt_ctx t) \<noteq> mc_opcode c
             else mc_akf (rt_ctx t) \<noteq> mc_akf c \<or> mc_aid (rt_ctx t) \<noteq> mc_aid c \<or> mc_szmic (rt_ctx t) \<noteq> mc_szmic c)
         then rx_refuse ns MESHX_ERR_INVAL p c w
         else if rt_max_len t \<noteq> max_pdu_len then rx_refuse ns MESHX_ERR_LENGTH p c w
         else if rt_not_received t = 0
         then do {
           (_, s) \<leftarrow> meshx_rpl_update (ctx_rpl c) (rpls (mw_iv w));
           (_, w) \<leftarrow> meshx_lower_trans_seg_ack ns (rt_block_ack t) c (w\<lparr>mw_iv := (mw_iv w)\<lparr>rpls := s\<rparr>\<rparr>);
           Some (MESHX_ERR_ALREADY, w) }
         else if \<not> bit (rt_not_received t) (unat sego) then Some (MESHX_ERR_ALREADY, w)
         else if segn = 0 then rx_single ns ur pdata len p c w
         else rx_segment ns ur pdata len sego segn p c w)
  }"

definition meshx_lower_trans_receive ::
  "net_sender \<Rightarrow> pdu_receiver \<Rightarrow> bytes \<Rightarrow> u8 \<Rightarrow> msg_ctx \<Rightarrow> mesh_world \<Rightarrow> (errno \<times> mesh_world) option" where
  "meshx_lower_trans_receive ns ur pdata len c w = do {
    first \<leftarrow> mem_read pdata 0 1;
    let first = first ! 0;
    if mc_ctl c \<and> first AND 0x7f = 0
    then do {
      (ok, w) \<leftarrow> meshx_lower_trans_rpl_check (ctx_rpl c) w;
      if \<not> ok then Some (MESHX_ERR_FAIL, w)
      else do {
        seg_ack \<leftarrow> mem_read pdata 1 6;
        w \<leftarrow> meshx_lower_trans_recv_block_ack ns seg_ack w;
        Some (MESHX_SUCCESS, w) } }
    else if bit first 7 then meshx_lower_trans_receive_seg_msg ns ur pdata len c w
    else do {
      (ok, w) \<leftarrow> meshx_lower_trans_rpl_check (ctx_rpl c) w;
      if \<not> ok then Some (MESHX_ERR_FAIL, w)
      else do {
        let c = c\<lparr>mc_seg := False, mc_seq_auth := mc_seq c,
                  mc_misc := (if mc_ctl c then first AND 0x7f else access_misc (bit first 6) False (first AND 0x3f))\<rparr>;
        (_, w) \<leftarrow> ur (drop 1 pdata) (ucast (len - 1)) c w;
        Some (MESHX_SUCCESS, w) } }
  }"

end
