(* ===== verification/Mesh_Access.thy ===== *)
theory Mesh_Access
  imports Mesh_World
begin

text \<open>
  The access layer, \<^verbatim>\<open>mesh/access/meshx_access.c\<close>: opcodes in a message, the checks before a
  message is sent, and reception.  The upper transport layer's send (\<^verbatim>\<open>us\<close>) is an argument.
\<close>

type_synonym msg_sender = "bytes \<Rightarrow> msg_ctx \<Rightarrow> mesh_world \<Rightarrow> (errno \<times> msg_ctx \<times> mesh_world) option"

definition MESHX_UNSEG_ACCESS_MAX_PDU_SIZE :: nat where "MESHX_UNSEG_ACCESS_MAX_PDU_SIZE = 11"
definition MESHX_MAX_ACCESS_PDU_SIZE :: nat where "MESHX_MAX_ACCESS_PDU_SIZE = 380"
definition MESHX_ACCESS_OPCODE_RFU :: u32 where "MESHX_ACCESS_OPCODE_RFU = 0x7F"

section \<open>Opcodes\<close>

definition MESHX_ACCESS_OPCODE_SIZE :: "u32 \<Rightarrow> nat" where
  "MESHX_ACCESS_OPCODE_SIZE opcode = (if opcode \<ge> 0xC00000 then 3 else if opcode \<ge> 0x8000 then 2 else 1)"

definition opcode_bytes :: "u32 \<Rightarrow> bytes" where
  "opcode_bytes opcode =
    (if MESHX_ACCESS_OPCODE_SIZE opcode = 1 then [ucast opcode]
     else if MESHX_ACCESS_OPCODE_SIZE opcode = 2
     then [ucast (drop_bit 8 opcode AND 0xff), ucast (opcode AND 0xff)]
     else [ucast (drop_bit 16 opcode AND 0xff), ucast (drop_bit 8 opcode AND 0xff), ucast (opcode AND 0xff)])"

text \<open>The buffer is \<^verbatim>\<open>None\<close> for a null pointer.\<close>

definition meshx_access_opcode_to_buf :: "u32 \<Rightarrow> bytes option \<Rightarrow> bytes option option" where
  "meshx_access_opcode_to_buf opcode pdata =
    (case pdata of
       None \<Rightarrow> Some None
     | Some buf \<Rightarrow> do { buf \<leftarrow> mem_write buf 0 (opcode_bytes opcode); Some (Some buf) })"

definition meshx_access_buf_to_opcode :: "bytes option \<Rightarrow> u32 option" where
  "meshx_access_buf_to_opcode pdata =
    (case pdata of
       None \<Rightarrow> Some MESHX_ACCESS_OPCODE_RFU
     | Some buf \<Rightarrow> do {
         b \<leftarrow> mem_read buf 0 1;
         if b ! 0 AND 0x80 = 0 then Some (ucast (b ! 0))
         else if b ! 0 AND 0x40 = 0
         then do { b \<leftarrow> mem_read buf 0 2; Some (push_bit 8 (ucast (b ! 0)) OR ucast (b ! 1)) }
         else do { b \<leftarrow> mem_read buf 0 3; Some (push_bit 8 (push_bit 8 (ucast (b ! 0)) OR ucast (b ! 1)) OR ucast (b ! 2)) }
       })"

section \<open>Sending and receiving\<close>

definition meshx_access_send ::
  "msg_sender \<Rightarrow> bytes \<Rightarrow> msg_ctx \<Rightarrow> mesh_world \<Rightarrow> (errno \<times> msg_ctx \<times> mesh_world) option" where
  "meshx_access_send us pdata c w =
    (if \<not> MESHX_ADDRESS_IS_VALID (mc_src c) \<or> \<not> MESHX_ADDRESS_IS_VALID (mc_dst c) then Some (MESHX_ERR_INVAL, c, w)
     else if mc_net_key c = None \<or> mc_key c = None then Some (MESHX_ERR_KEY, c, w)
     else if mc_akf c \<and> mc_aid c = 0 \<or> \<not> mc_akf c \<and> mc_aid c \<noteq> 0 then Some (MESHX_ERR_INVAL, c, w)
     else if length pdata \<le> MESHX_UNSEG_ACCESS_MAX_PDU_SIZE \<and> \<not> mc_seg c \<and> mc_szmic c then Some (MESHX_ERR_INVAL, c, w)
     else if mc_szmic c \<and> length pdata > MESHX_MAX_ACCESS_PDU_SIZE - 4 then Some (MESHX_ERR_LENGTH, c, w)
     else if \<not> mc_szmic c \<and> length pdata > MESHX_MAX_ACCESS_PDU_SIZE then Some (MESHX_ERR_LENGTH, c, w)
     else us pdata c w)"

text \<open>Received messages go to the application: they are recorded.\<close>

definition meshx_access_receive :: "bytes \<Rightarrow> u8 \<Rightarrow> msg_ctx \<Rightarrow> mesh_world \<Rightarrow> (errno \<times> mesh_world) option" where
  "meshx_access_receive pdata len c w =
    Some (MESHX_SUCCESS, w\<lparr>mw_delivered := mw_delivered w @ [(take (unat len) pdata, c)]\<rparr>)"

end
