(* ===== verification/Mesh_Upper_Trans.thy ===== *)
theory Mesh_Upper_Trans
  imports Mesh_Lower_Trans Mesh_Access
begin

text \<open>
  The upper transport layer, \<^verbatim>\<open>mesh/transport/meshx_upper_trans.c\<close>: encryption and
  authentication of access messages under application and device keys.  The lengths of
  the two cipher routines have eight bits.  The result \<^verbatim>\<open>None\<close> is a read or write outside
  the buffer of the message or a key that is a null pointer.
\<close>

definition MESHX_MAX_CTL_PDU_SIZE :: nat where "MESHX_MAX_CTL_PDU_SIZE = 256"
definition MESHX_NONCE_TYPE_APP :: u8 where "MESHX_NONCE_TYPE_APP = 1"
definition MESHX_NONCE_TYPE_DEVICE :: u8 where "MESHX_NONCE_TYPE_DEVICE = 2"

definition meshx_upper_trans_init :: errno where
  "meshx_upper_trans_init = MESHX_SUCCESS"

text \<open>The application and the device nonce differ in their type only.\<close>

definition trans_nonce :: "msg_ctx \<Rightarrow> bytes" where
  "trans_nonce c =
    [if mc_akf c then MESHX_NONCE_TYPE_APP else MESHX_NONCE_TYPE_DEVICE, push_bit 7 (of_bool (mc_szmic c))] @
    seq_bytes (mc_seq_auth c) @ be16 (mc_src c) @ be16 (mc_dst c) @ be32 (mc_iv_index c)"

definition meshx_upper_trans_encrypt ::
  "aes128 \<Rightarrow> bytes \<Rightarrow> u8 \<Rightarrow> nat \<Rightarrow> nat \<Rightarrow> msg_ctx \<Rightarrow> bytes option" where
  "meshx_upper_trans_encrypt aes ppdu pdu_len mic_off trans_mic_len c = do {
    key \<leftarrow> mc_key c;
    plain \<leftarrow> mem_read ppdu 0 (unat pdu_len);
    (case meshx_aes_ccm_encrypt aes key (trans_nonce c) [] plain trans_mic_len of
       Inl _ \<Rightarrow> Some ppdu
     | Inr (cipher, mic) \<Rightarrow> do {
         ppdu \<leftarrow> mem_write ppdu 0 cipher;
         mem_write ppdu mic_off mic })
  }"

text \<open>One decryption in place: the message is overwritten whether the MIC is right or not.  The
  position of the MIC is negative when the message is shorter than its MIC.\<close>

definition trans_open ::
  "aes128 \<Rightarrow> bytes \<Rightarrow> bytes \<Rightarrow> u8 \<Rightarrow> int \<Rightarrow> nat \<Rightarrow> bytes \<Rightarrow> (errno \<times> bytes) option" where
  "trans_open aes key nonce pdu_len mic_off trans_mic_len pdata = do {
    cipher \<leftarrow> mem_read pdata 0 (unat pdu_len);
    mic \<leftarrow> (if mic_off < 0 then None else mem_read pdata (nat mic_off) trans_mic_len);
    let (ret, plain) = meshx_aes_ccm_decrypt aes key nonce [] cipher mic cipher;
    pdata \<leftarrow> mem_write pdata 0 plain;
    Some (ret, pdata)
  }"

definition app_value :: "nat \<Rightarrow> app_key_info \<Rightarrow> app_key_value" where
  "app_value i k = (if i = 0 then ak_value0 k else ak_value1 k)"

definition app_indices :: "app_key_info \<Rightarrow> nat list" where
  "app_indices k =
    (if ak_state k = MESHX_KEY_STATE_PHASE1 \<or> ak_state k = MESHX_KEY_STATE_PHASE2 then [0, 1] else [0])"

fun app_try_values ::
  "aes128 \<Rightarrow> bytes \<Rightarrow> u8 \<Rightarrow> int \<Rightarrow> nat \<Rightarrow> u8 \<Rightarrow> app_key_info \<Rightarrow> nat list \<Rightarrow> bytes \<Rightarrow> (bytes option \<times> bytes) option" where
  "app_try_values aes nonce pdu_len mic_off mic_len k_aid k [] pdata = Some (None, pdata)"
| "app_try_values aes nonce pdu_len mic_off mic_len k_aid k (i # is) pdata =
    (if aid (app_value i k) = k_aid
     then do {
       (ret, pdata) \<leftarrow> trans_open aes (app_key (app_value i k)) nonce pdu_len mic_off mic_len pdata;
       if ret = MESHX_SUCCESS then Some (Some (app_key (app_value i k)), pdata)
       else app_try_values aes nonce pdu_len mic_off mic_len k_aid k is pdata
     }
     else app_try_values aes nonce pdu_len mic_off mic_len k_aid k is pdata)"

fun app_try_keys ::
  "aes128 \<Rightarrow> bytes \<Rightarrow> u8 \<Rightarrow> int \<Rightarrow> nat \<Rightarrow> u8 \<Rightarrow> app_key_info list \<Rightarrow> bytes \<Rightarrow> (bytes option \<times> bytes) option" where
  "app_try_keys aes nonce pdu_len mic_off mic_len k_aid [] pdata = Some (None, pdata)"
| "app_try_keys aes nonce pdu_len mic_off mic_len k_aid (k # ks) pdata = do {
    (hit, pdata) \<leftarrow> app_try_values aes nonce pdu_len mic_off mic_len k_aid k (app_indices k) pdata;
    (case hit of
       Some key \<Rightarrow> Some (Some key, pdata)
     | None \<Rightarrow> app_try_keys aes nonce pdu_len mic_off mic_len k_aid ks pdata)
  }"

definition meshx_upper_trans_decrypt ::
  "aes128 \<Rightarrow> bytes \<Rightarrow> u8 \<Rightarrow> int \<Rightarrow> nat \<Rightarrow> msg_ctx \<Rightarrow> mesh_world \<Rightarrow> (errno \<times> bytes \<times> msg_ctx) option" where
  "meshx_upper_trans_decrypt aes pdata pdu_len mic_off trans_mic_len c w =
    (if mc_akf c
     then do {
       (hit, pdata) \<leftarrow> app_try_keys aes (trans_nonce c) pdu_len mic_off trans_mic_len (mc_aid c)
         (meshx_app_keys (mw_keys w)) pdata;
       (case hit of
          None \<Rightarrow> Some (MESHX_ERR_KEY, pdata, c)
        | Some key \<Rightarrow> Some (MESHX_SUCCESS, pdata, c\<lparr>mc_key := Some key\<rparr>)) }
     else
       (case meshx_dev_key_get (node_addr (param (mw_node w))) (mw_keys w) of
          None \<Rightarrow> Some (MESHX_ERR_KEY, pdata, c)
        | Some k \<Rightarrow> do {
            (ret, pdata) \<leftarrow> trans_open aes (dev_key k) (trans_nonce c) pdu_len mic_off trans_mic_len pdata;
            Some (ret, pdata, c\<lparr>mc_key := Some (dev_key k)\<rparr>) }))"

definition meshx_upper_trans_send ::
  "aes128 \<Rightarrow> net_sender \<Rightarrow> bytes \<Rightarrow> msg_ctx \<Rightarrow> mesh_world \<Rightarrow> (errno \<times> msg_ctx \<times> mesh_world) option" where
  "meshx_upper_trans_send aes ns pdata c w = do {
    connected \<leftarrow> (case mc_net_iface c of None \<Rightarrow> Some True | Some a \<Rightarrow> meshx_net_iface_is_connect (Some a) w);
    if \<not> connected then Some (MESHX_ERR_CONNECT, c, w)
    else if mc_ctl c
    then if length pdata > MESHX_MAX_CTL_PDU_SIZE then Some (MESHX_ERR_LENGTH, c, w)
      else meshx_lower_trans_send ns pdata c w
    else
      let trans_mic_len = (if mc_szmic c then 8 else 4) :: nat in
      (case on_menv meshx_malloc_ok w of
         (False, w) \<Rightarrow> Some (MESHX_ERR_MEM, c, w)
       | (True, w) \<Rightarrow> do {
           (seq, w) \<leftarrow> element_seq_use (mc_src c) w;
           let c = c\<lparr>mc_seq := low24 seq, mc_seq_auth := low24 seq\<rparr>;
           ppdu \<leftarrow> meshx_upper_trans_encrypt aes (pdata @ junk w trans_mic_len) (word_of_nat (length pdata))
             (length pdata) trans_mic_len c;
           meshx_lower_trans_send ns ppdu c w })
  }"

definition meshx_upper_trans_receive ::
  "aes128 \<Rightarrow> bytes \<Rightarrow> u16 \<Rightarrow> msg_ctx \<Rightarrow> mesh_world \<Rightarrow> (errno \<times> mesh_world) option" where
  "meshx_upper_trans_receive aes pdata len c w =
    (if mc_ctl c then Some (MESHX_SUCCESS, w)
     else
       let trans_mic_len = (if mc_seg c \<and> mc_szmic c then 8 else 4) :: nat;
           rest = uint len - int trans_mic_len in do {
       (ret, pdata, c) \<leftarrow> meshx_upper_trans_decrypt aes pdata (word_of_int rest) rest trans_mic_len c w;
       if ret = MESHX_SUCCESS then meshx_access_receive pdata (word_of_int rest) c w
       else Some (ret, w)
     })"

end
