(* ===== verification/Mesh_Stack.thy ===== *)
theory Mesh_Stack
  imports Mesh_Upper_Trans
begin

text \<open>
  The layers on each other.  Sending to an own address comes back through the loopback
  interface while the sender still runs, and the acknowledgement of a segment is itself sent:
  the layers call each other.  The first argument of the definitions bounds how deep they do;
  beyond it the result is \<^verbatim>\<open>None\<close>.
\<close>

fun net_receive_at :: "nat \<Rightarrow> aes128 \<Rightarrow> nat option \<Rightarrow> bytes \<Rightarrow> mesh_world \<Rightarrow> (errno \<times> mesh_world) option" where
  "net_receive_at 0 aes net_iface pdata w = None"
| "net_receive_at (Suc d) aes net_iface pdata w =
    meshx_net_receive aes (meshx_lower_trans_receive (meshx_net_send aes (net_receive_at d aes)) (meshx_upper_trans_receive aes))
      net_iface pdata w"

definition net_send_at :: "nat \<Rightarrow> aes128 \<Rightarrow> net_sender" where
  "net_send_at d aes = meshx_net_send aes (net_receive_at d aes)"

definition access_send_at ::
  "nat \<Rightarrow> aes128 \<Rightarrow> bytes \<Rightarrow> msg_ctx \<Rightarrow> mesh_world \<Rightarrow> (errno \<times> msg_ctx \<times> mesh_world) option" where
  "access_send_at d aes = meshx_access_send (meshx_upper_trans_send aes (net_send_at d aes))"

end
