(* ===== verification/Mesh_Async.thy ===== *)
theory Mesh_Async
  imports Mesh_Prelude
begin

text \<open>
  Asynchronous messages, \<^verbatim>\<open>mesh/common/meshx_async.c\<close>: the handlers of timers only queue a
  message; the main loop takes the messages in order and calls the component each is for.  The
  state of the components is a type parameter, their handlers are a record of functions.
\<close>

record async_msg =
  am_type :: u8
  am_data :: nat
  am_data_len :: u8

definition MESHX_ASYNC_MSG_TYPE_TIMEOUT_PB_ADV :: u8 where "MESHX_ASYNC_MSG_TYPE_TIMEOUT_PB_ADV = 0"
definition MESHX_ASYNC_MSG_TYPE_TIMEOUT_BEACON :: u8 where "MESHX_ASYNC_MSG_TYPE_TIMEOUT_BEACON = 1"
definition MESHX_ASYNC_MSG_TYPE_TIMEOUT_LOWER_TRANS_TX :: u8 where "MESHX_ASYNC_MSG_TYPE_TIMEOUT_LOWER_TRANS_TX = 2"
definition MESHX_ASYNC_MSG_TYPE_TIMEOUT_LOWER_TRANS_RX_ACK :: u8 where
  "MESHX_ASYNC_MSG_TYPE_TIMEOUT_LOWER_TRANS_RX_ACK = 3"
definition MESHX_ASYNC_MSG_TYPE_TIMEOUT_LOWER_TRANS_RX_INCOMPLETE :: u8 where
  "MESHX_ASYNC_MSG_TYPE_TIMEOUT_LOWER_TRANS_RX_INCOMPLETE = 4"
definition MESHX_ASYNC_MSG_TYPE_TIMEOUT_IV_INDEX :: u8 where "MESHX_ASYNC_MSG_TYPE_TIMEOUT_IV_INDEX = 5"
definition MESHX_ASYNC_MSG_TYPE_TIMEOUT_PROXY_SAR :: u8 where "MESHX_ASYNC_MSG_TYPE_TIMEOUT_PROXY_SAR = 6"

lemmas async_types = MESHX_ASYNC_MSG_TYPE_TIMEOUT_PB_ADV_def MESHX_ASYNC_MSG_TYPE_TIMEOUT_BEACON_def
  MESHX_ASYNC_MSG_TYPE_TIMEOUT_LOWER_TRANS_TX_def MESHX_ASYNC_MSG_TYPE_TIMEOUT_LOWER_TRANS_RX_ACK_def
  MESHX_ASYNC_MSG_TYPE_TIMEOUT_LOWER_TRANS_RX_INCOMPLETE_def MESHX_ASYNC_MSG_TYPE_TIMEOUT_IV_INDEX_def
  MESHX_ASYNC_MSG_TYPE_TIMEOUT_PROXY_SAR_def

record 'w async_handlers =
  on_pb_adv :: "async_msg \<Rightarrow> 'w \<Rightarrow> 'w option"
  on_beacon :: "async_msg \<Rightarrow> 'w \<Rightarrow> 'w option"
  on_lower_tx :: "async_msg \<Rightarrow> 'w \<Rightarrow> 'w option"
  on_lower_rx_ack :: "async_msg \<Rightarrow> 'w \<Rightarrow> 'w option"
  on_lower_rx_incomplete :: "async_msg \<Rightarrow> 'w \<Rightarrow> 'w option"
  on_iv_index :: "async_msg \<Rightarrow> 'w \<Rightarrow> 'w option"
  on_proxy_sar :: "async_msg \<Rightarrow> 'w \<Rightarrow> 'w option"

text \<open>The two lists of nodes, whether the application gave its own notification, and the
  state of the components.\<close>

record 'w async_world =
  async_active :: "(nat \<times> async_msg) list"
  async_idle :: "nat list"
  async_user_notify :: bool
  async_state :: 'w

definition async_dispatch :: "'w async_handlers \<Rightarrow> async_msg \<Rightarrow> 'w \<Rightarrow> 'w option" where
  "async_dispatch h m w =
    (if am_type m = MESHX_ASYNC_MSG_TYPE_TIMEOUT_PB_ADV then on_pb_adv h m w
     else if am_type m = MESHX_ASYNC_MSG_TYPE_TIMEOUT_BEACON then on_beacon h m w
     else if am_type m = MESHX_ASYNC_MSG_TYPE_TIMEOUT_LOWER_TRANS_TX then on_lower_tx h m w
     else if am_type m = MESHX_ASYNC_MSG_TYPE_TIMEOUT_LOWER_TRANS_RX_ACK then on_lower_rx_ack h m w
     else if am_type m = MESHX_ASYNC_MSG_TYPE_TIMEOUT_LOWER_TRANS_RX_INCOMPLETE then on_lower_rx_incomplete h m w
     else if am_type m = MESHX_ASYNC_MSG_TYPE_TIMEOUT_IV_INDEX then on_iv_index h m w
     else if am_type m = MESHX_ASYNC_MSG_TYPE_TIMEOUT_PROXY_SAR then on_proxy_sar h m w
     else Some w)"

text \<open>The argument \<^verbatim>\<open>ok\<close> is the answer of the allocation.\<close>

definition meshx_async_msg_init :: "nat \<Rightarrow> bool \<Rightarrow> bool \<Rightarrow> 'w async_world \<Rightarrow> errno \<times> 'w async_world" where
  "meshx_async_msg_init msg_max_num user_handler ok a =
    (let a = a\<lparr>async_user_notify := user_handler, async_active := [], async_idle := []\<rparr> in
     if \<not> ok then (MESHX_ERR_MEM, a) else (MESHX_SUCCESS, a\<lparr>async_idle := [0..<msg_max_num]\<rparr>))"

definition meshx_async_msg_request :: "'w async_world \<Rightarrow> nat option \<times> 'w async_world" where
  "meshx_async_msg_request a =
    (case async_idle a of [] \<Rightarrow> (None, a) | p # rest \<Rightarrow> (Some p, a\<lparr>async_idle := rest\<rparr>))"

definition meshx_async_msg_release :: "nat \<Rightarrow> 'w async_world \<Rightarrow> 'w async_world" where
  "meshx_async_msg_release p a = a\<lparr>async_idle := async_idle a @ [p]\<rparr>"

definition meshx_async_msg_process :: "'w async_handlers \<Rightarrow> 'w async_world \<Rightarrow> 'w async_world option" where
  "meshx_async_msg_process h a =
    (case async_active a of
       [] \<Rightarrow> Some a
     | (p, m) # rest \<Rightarrow> do {
         w \<leftarrow> async_dispatch h m (async_state a);
         Some (meshx_async_msg_release p (a\<lparr>async_active := rest, async_state := w\<rparr>)) })"

definition meshx_default_msg_notify :: "'w async_handlers \<Rightarrow> 'w async_world \<Rightarrow> (errno \<times> 'w async_world) option" where
  "meshx_default_msg_notify h a = do { a \<leftarrow> meshx_async_msg_process h a; Some (MESHX_SUCCESS, a) }"

text \<open>A notification of the application only wakes its main loop.\<close>

definition meshx_async_msg_send ::
  "'w async_handlers \<Rightarrow> async_msg \<Rightarrow> 'w async_world \<Rightarrow> (errno \<times> 'w async_world) option" where
  "meshx_async_msg_send h m a =
    (case meshx_async_msg_request a of
       (None, a) \<Rightarrow> Some (MESHX_ERR_RESOURCE, a)
     | (Some p, a) \<Rightarrow>
         let a = a\<lparr>async_active := async_active a @ [(p, m)]\<rparr> in
         if async_user_notify a then Some (MESHX_SUCCESS, a)
         else do { (_, a) \<leftarrow> meshx_default_msg_notify h a; Some (MESHX_SUCCESS, a) })"

text \<open>The handlers of the timers: each queues a message with the argument of its timer, and
  ignores that the pool may be empty.\<close>

definition timer_message :: "u8 \<Rightarrow> 'w async_handlers \<Rightarrow> nat \<Rightarrow> 'w async_world \<Rightarrow> 'w async_world option" where
  "timer_message t h pargs a = do {
    (_, a) \<leftarrow> meshx_async_msg_send h \<lparr>am_type = t, am_data = pargs, am_data_len = 0\<rparr> a;
    Some a
  }"

definition meshx_lower_trans_tx_timeout_handler :: "'w async_handlers \<Rightarrow> nat \<Rightarrow> 'w async_world \<Rightarrow> 'w async_world option" where
  "meshx_lower_trans_tx_timeout_handler = timer_message MESHX_ASYNC_MSG_TYPE_TIMEOUT_LOWER_TRANS_TX"

definition meshx_lower_trans_rx_ack_timeout_handler :: "'w async_handlers \<Rightarrow> nat \<Rightarrow> 'w async_world \<Rightarrow> 'w async_world option" where
  "meshx_lower_trans_rx_ack_timeout_handler = timer_message MESHX_ASYNC_MSG_TYPE_TIMEOUT_LOWER_TRANS_RX_ACK"

definition meshx_lower_trans_rx_incomplete_timeout_handler ::
  "'w async_handlers \<Rightarrow> nat \<Rightarrow> 'w async_world \<Rightarrow> 'w async_world option" where
  "meshx_lower_trans_rx_incomplete_timeout_handler = timer_message MESHX_ASYNC_MSG_TYPE_TIMEOUT_LOWER_TRANS_RX_INCOMPLETE"

definition meshx_pb_adv_timeout_handler :: "'w async_handlers \<Rightarrow> nat \<Rightarrow> 'w async_world \<Rightarrow> 'w async_world option" where
  "meshx_pb_adv_timeout_handler = timer_message MESHX_ASYNC_MSG_TYPE_TIMEOUT_PB_ADV"

definition meshx_beacon_timer_timeout :: "'w async_handlers \<Rightarrow> nat \<Rightarrow> 'w async_world \<Rightarrow> 'w async_world option" where
  "meshx_beacon_timer_timeout = timer_message MESHX_ASYNC_MSG_TYPE_TIMEOUT_BEACON"

definition meshx_iv_operate_tick_timeout :: "'w async_handlers \<Rightarrow> nat \<Rightarrow> 'w async_world \<Rightarrow> 'w async_world option" where
  "meshx_iv_operate_tick_timeout = timer_message MESHX_ASYNC_MSG_TYPE_TIMEOUT_IV_INDEX"

definition meshx_proxy_sar_timeout_handler :: "'w async_handlers \<Rightarrow> nat \<Rightarrow> 'w async_world \<Rightarrow> 'w async_world option" where
  "meshx_proxy_sar_timeout_handler = timer_message MESHX_ASYNC_MSG_TYPE_TIMEOUT_PROXY_SAR"

lemmas timer_handlers = meshx_lower_trans_tx_timeout_handler_def meshx_lower_trans_rx_ack_timeout_handler_def
  meshx_lower_trans_rx_incomplete_timeout_handler_def meshx_pb_adv_timeout_handler_def meshx_beacon_timer_timeout_def
  meshx_iv_operate_tick_timeout_def meshx_proxy_sar_timeout_handler_def

section \<open>Properties\<close>

text \<open>Sending and processing many messages; what the components do with them.\<close>

fun async_send_all :: "'w async_handlers \<Rightarrow> async_msg list \<Rightarrow> 'w async_world \<Rightarrow> 'w async_world option" where
  "async_send_all h [] a = Some a"
| "async_send_all h (m # ms) a = do {
    (r, a) \<leftarrow> meshx_async_msg_send h m a;
    if r = MESHX_SUCCESS then async_send_all h ms a else None
  }"

fun async_process_all :: "nat \<Rightarrow> 'w async_handlers \<Rightarrow> 'w async_world \<Rightarrow> 'w async_world option" where
  "async_process_all 0 h a = Some a"
| "async_process_all (Suc n) h a = do { a \<leftarrow> meshx_async_msg_process h a; async_process_all n h a }"

fun async_handle_all :: "'w async_handlers \<Rightarrow> async_msg list \<Rightarrow> 'w \<Rightarrow> 'w option" where
  "async_handle_all h [] w = Some w"
| "async_handle_all h (m # ms) w = do { w \<leftarrow> async_dispatch h m w; async_handle_all h ms w }"

lemma async_send_all_active:
  assumes "length ms \<le> length (async_idle a)" "async_user_notify a"
  shows "async_send_all h ms a = Some (a\<lparr>async_idle := drop (length ms) (async_idle a),
    async_active := async_active a @ zip (async_idle a) ms\<rparr>)"
  using assms
proof (induction ms arbitrary: a)
  case (Cons m ms)
  then obtain p rest where "async_idle a = p # rest" by (cases "async_idle a") auto
  with Cons show ?case by (simp add: meshx_async_msg_send_def meshx_async_msg_request_def)
qed simp

lemma async_process_all_active:
  assumes "async_active a = zip ps ms @ rest" "length ps = length ms"
  shows "async_process_all (length ms) h a =
    map_option (\<lambda>w. a\<lparr>async_state := w, async_active := rest, async_idle := async_idle a @ ps\<rparr>)
      (async_handle_all h ms (async_state a))"
  using assms
proof (induction ms arbitrary: a ps)
  case (Cons m ms)
  then obtain p qs where ps: "ps = p # qs" by (cases ps) auto
  show ?case
  proof (cases "async_dispatch h m (async_state a)")
    case (Some w)
    then show ?thesis using Cons.prems ps
      Cons.IH [of "a\<lparr>async_active := zip qs ms @ rest, async_state := w, async_idle := async_idle a @ [p]\<rparr>" qs]
      by (simp add: meshx_async_msg_process_def meshx_async_msg_release_def option.map_comp comp_def)
  qed (use Cons.prems ps in \<open>simp add: meshx_async_msg_process_def\<close>)
qed simp

lemma zip_front: "zip (take (length ys) xs) ys = zip xs ys"
proof (induction xs arbitrary: ys)
  case (Cons x xs)
  then show ?case by (cases ys) simp_all
qed simp

text \<open>Messages are handled once each and in order: sending as many messages as the pool has
  nodes, and then running the main loop as many times, has the effect of the handlers on the
  components in the order of sending, and every node is back in the pool.\<close>

lemma async_in_order:
  assumes "length ms \<le> length (async_idle a)" "async_user_notify a" "async_active a = []"
    and "async_handle_all h ms (async_state a) = Some w"
  shows "\<exists>a1 a2. async_send_all h ms a = Some a1 \<and> async_process_all (length ms) h a1 = Some a2 \<and>
    async_state a2 = w \<and> async_active a2 = [] \<and> set (async_idle a2) = set (async_idle a) \<and>
    length (async_idle a2) = length (async_idle a)"
proof -
  let ?n = "length ms" and ?i = "async_idle a"
  let ?a1 = "a\<lparr>async_idle := drop ?n ?i, async_active := zip ?i ms\<rparr>"
  have z: "zip ?i ms = zip (take ?n ?i) ms @ []" by (simp add: zip_front)
  have "async_process_all ?n h ?a1 = Some (?a1\<lparr>async_state := w, async_active := [], async_idle := drop ?n ?i @ take ?n ?i\<rparr>)"
    using async_process_all_active [of ?a1 "take ?n ?i" ms "[]" h] z assms(1,4) by simp
  moreover have "set (drop ?n ?i @ take ?n ?i) = set ?i" by (metis append_take_drop_id set_append sup_commute)
  ultimately show ?thesis using async_send_all_active [OF assms(1,2), of h] assms(1,3) by simp
qed

definition demo_handlers :: "nat list async_handlers" where
  "demo_handlers = (let h = \<lambda>m w. Some (w @ [am_data m]) in
    \<lparr>on_pb_adv = h, on_beacon = h, on_lower_tx = h, on_lower_rx_ack = h, on_lower_rx_incomplete = h,
     on_iv_index = h, on_proxy_sar = h\<rparr>)"

lemma demo_dispatch:
  "am_type m = MESHX_ASYNC_MSG_TYPE_TIMEOUT_PB_ADV \<or> am_type m = MESHX_ASYNC_MSG_TYPE_TIMEOUT_PROXY_SAR \<Longrightarrow>
    async_dispatch demo_handlers m w = Some (w @ [am_data m])"
  by (auto simp: async_dispatch_def demo_handlers_def Let_def)

end
