(* ===== verification/Mesh_Lower_Facts.thy ===== *)
theory Mesh_Lower_Facts
  imports Mesh_Lower_Trans
begin

text \<open>
  Facts of the lower transport layer.  Its tasks are numbered; each is in one of the lists, and
  what it holds depends on the list.  The locale \<^verbatim>\<open>transport\<close> is the contract with the layers
  around: they keep the pools, since they may call back into this layer.  Inside it every
  operation is shown to keep them; \<^verbatim>\<open>Mesh_Stack_Facts\<close> interprets it on the stack.
\<close>

section \<open>The task pools\<close>

definition tx_view :: "mesh_world \<Rightarrow> nat \<Rightarrow> bool \<times> bool \<times> u16" where
  "tx_view w p = (tt_pdu (mw_tx w p) = None, tt_timer (mw_tx w p) = None, mc_dst (tt_ctx (mw_tx w p)))"

definition rx_view :: "mesh_world \<Rightarrow> nat \<Rightarrow> bool \<times> u16" where
  "rx_view w p = (rt_pdu (mw_rx w p) = None, mc_src (rt_ctx (mw_rx w p)))"

definition tx_inv :: "nat set \<Rightarrow> mesh_world \<Rightarrow> bool" where
  "tx_inv S w \<longleftrightarrow>
    distinct (tx_idle w @ tx_active w @ tx_pending w) \<and>
    set (tx_idle w) \<union> set (tx_active w) \<union> set (tx_pending w) = S \<and>
    (\<forall>p \<in> set (tx_idle w). tt_pdu (mw_tx w p) = None \<and> tt_timer (mw_tx w p) = None) \<and>
    (\<forall>p \<in> set (tx_active w). tt_pdu (mw_tx w p) \<noteq> None \<and> tt_timer (mw_tx w p) \<noteq> None) \<and>
    (\<forall>p \<in> set (tx_pending w). tt_pdu (mw_tx w p) \<noteq> None \<and> tt_timer (mw_tx w p) = None) \<and>
    distinct (map (\<lambda>p. mc_dst (tt_ctx (mw_tx w p))) (tx_active w))"

definition rx_inv :: "nat set \<Rightarrow> mesh_world \<Rightarrow> bool" where
  "rx_inv R w \<longleftrightarrow>
    distinct (rx_idle w @ rx_active w) \<and> set (rx_idle w) \<union> set (rx_active w) = R \<and>
    (\<forall>p \<in> set (rx_idle w). rt_pdu (mw_rx w p) = None) \<and>
    (\<forall>p \<in> set (rx_active w). rt_pdu (mw_rx w p) \<noteq> None) \<and>
    distinct (map (\<lambda>p. mc_src (rt_ctx (mw_rx w p))) (rx_active w))"

definition pools :: "nat set \<Rightarrow> nat set \<Rightarrow> mesh_world \<Rightarrow> bool" where
  "pools S R w \<longleftrightarrow> tx_inv S w \<and> rx_inv R w"

text \<open>The invariants read the lists and the views only.\<close>

definition same_pools :: "mesh_world \<Rightarrow> mesh_world \<Rightarrow> bool" where
  "same_pools w w' \<longleftrightarrow> tx_idle w' = tx_idle w \<and> tx_active w' = tx_active w \<and> tx_pending w' = tx_pending w \<and>
    rx_idle w' = rx_idle w \<and> rx_active w' = rx_active w \<and> tx_view w' = tx_view w \<and> rx_view w' = rx_view w"

lemma tx_inv_view:
  "tx_inv S w \<longleftrightarrow>
    distinct (tx_idle w @ tx_active w @ tx_pending w) \<and>
    set (tx_idle w) \<union> set (tx_active w) \<union> set (tx_pending w) = S \<and>
    (\<forall>p \<in> set (tx_idle w). fst (tx_view w p) \<and> fst (snd (tx_view w p))) \<and>
    (\<forall>p \<in> set (tx_active w). \<not> fst (tx_view w p) \<and> \<not> fst (snd (tx_view w p))) \<and>
    (\<forall>p \<in> set (tx_pending w). \<not> fst (tx_view w p) \<and> fst (snd (tx_view w p))) \<and>
    distinct (map (\<lambda>p. snd (snd (tx_view w p))) (tx_active w))"
  by (simp add: tx_inv_def tx_view_def)

lemma rx_inv_view:
  "rx_inv R w \<longleftrightarrow>
    distinct (rx_idle w @ rx_active w) \<and> set (rx_idle w) \<union> set (rx_active w) = R \<and>
    (\<forall>p \<in> set (rx_idle w). fst (rx_view w p)) \<and> (\<forall>p \<in> set (rx_active w). \<not> fst (rx_view w p)) \<and>
    distinct (map (\<lambda>p. snd (rx_view w p)) (rx_active w))"
  by (simp add: rx_inv_def rx_view_def)

lemma same_pools_inv: "same_pools w w' \<Longrightarrow> tx_inv S w' = tx_inv S w" "same_pools w w' \<Longrightarrow> rx_inv R w' = rx_inv R w"
  "same_pools w w' \<Longrightarrow> pools S R w' = pools S R w"
  by (simp_all add: same_pools_def tx_inv_view rx_inv_view pools_def)

lemma same_pools_refl [simp]: "same_pools w w"
  by (simp add: same_pools_def)

lemma same_pools_trans: "same_pools w w' \<Longrightarrow> same_pools w' w'' \<Longrightarrow> same_pools w w''"
  by (simp add: same_pools_def)

lemma same_pools_tx_upd:
  assumes "\<And>t. (tt_pdu (f t) = None) = (tt_pdu t = None)" "\<And>t. (tt_timer (f t) = None) = (tt_timer t = None)"
    "\<And>t. mc_dst (tt_ctx (f t)) = mc_dst (tt_ctx t)"
  shows "same_pools w (tx_upd p f w)"
  using assms by (auto simp: same_pools_def tx_view_def rx_view_def tx_upd_def fun_eq_iff)

lemma same_pools_rx_upd:
  assumes "(rt_pdu (f (mw_rx w p)) = None) = (rt_pdu (mw_rx w p) = None)" "mc_src (rt_ctx (f (mw_rx w p))) = mc_src (rt_ctx (mw_rx w p))"
  shows "same_pools w (rx_upd p f w)"
  using assms by (auto simp: same_pools_def tx_view_def rx_view_def rx_upd_def fun_eq_iff)

lemma same_pools_fields [simp]:
  "same_pools w (w\<lparr>mw_iv := x\<rparr>)" "same_pools w (w\<lparr>mw_env := e\<rparr>)" "same_pools w (w\<lparr>mw_delivered := l\<rparr>)"
  "same_pools w (w\<lparr>mw_nmc := m\<rparr>)" "same_pools w (w\<lparr>mw_gap := g\<rparr>)" "same_pools w (w\<lparr>mw_gatt_out := o1\<rparr>)"
  "same_pools w (w\<lparr>mw_iface_mem := i\<rparr>)"
  by (simp_all add: same_pools_def tx_view_def rx_view_def fun_eq_iff)

lemma same_pools_on_menv: "on_menv f w = (x, w') \<Longrightarrow> same_pools w w'"
  by (auto simp: on_menv_def split: prod.splits)

lemma same_pools_seq_use: "element_seq_use a w = Some (s, w') \<Longrightarrow> same_pools w w'"
  by (auto simp: element_seq_use_def split: Option.bind_splits)

lemma same_pools_rpl_check: "meshx_lower_trans_rpl_check r w = Some (b, w') \<Longrightarrow> same_pools w w'"
  by (auto simp: meshx_lower_trans_rpl_check_def split: Option.bind_splits if_splits)

lemma same_pools_timer_start: "same_pools w (meshx_lower_trans_tx_timer_start p w)"
proof (cases "MESHX_ADDRESS_IS_UNICAST (mc_dst (tt_ctx (mw_tx w p)))")
  case True
  then show ?thesis unfolding meshx_lower_trans_tx_timer_start_def Let_def
    by (simp add: same_pools_tx_upd timer_restart_start)
next
  case False
  obtain delay w' where e: "on_menv meshx_lower_trans_random w = (delay, w')" by fastforce
  from False show ?thesis unfolding meshx_lower_trans_tx_timer_start_def Let_def e
    by simp (rule same_pools_trans [OF same_pools_on_menv [OF e] same_pools_tx_upd], simp_all)
qed


section \<open>What the layer relies on\<close>

text \<open>The network layer's send and the upper layer's reception keep the pools.\<close>

locale transport =
  fixes ns :: net_sender and ur :: pdu_receiver and S :: "nat set" and R :: "nat set"
  assumes ns_pools: "pools S R w \<Longrightarrow> ns pkt c w = Some (r, w') \<Longrightarrow> pools S R w'"
    and ur_pools: "pools S R w \<Longrightarrow> ur buf len c w = Some (r, w') \<Longrightarrow> pools S R w'"
begin

lemma send_loop_pools:
  "pools S R w \<Longrightarrow> send_seg_loop ns p pdu_len seg_num block_ack js off pdu w = Some (r, w') \<Longrightarrow> pools S R w'"
proof (induction js arbitrary: off pdu w)
  case (Cons i js)
  show ?case
  proof (cases "bit block_ack (unat i)")
    case True
    then show ?thesis using Cons by simp
  next
    case False
    define f :: "u32 \<Rightarrow> tx_task \<Rightarrow> tx_task" where "f seq = (\<lambda>t. t\<lparr>tt_ctx := (tt_ctx t)\<lparr>mc_seq := low24 seq\<rparr>\<rparr>)" for seq
    from False Cons.prems(2) obtain seq w1 where s: "element_seq_use (mc_src (tt_ctx (mw_tx w p))) w = Some (seq, w1)"
      by (auto simp: Let_def split: Option.bind_splits)
    have v: "pools S R (tx_upd p (f seq) w1)"
      using Cons.prems(1) same_pools_inv(3) [OF same_pools_trans [OF same_pools_seq_use [OF s] same_pools_tx_upd [of "f seq" w1 p]]]
      by (simp add: f_def)
    show ?thesis
      using Cons.prems(2) False s v
      by (auto simp: Let_def f_def split: Option.bind_splits if_splits dest: ns_pools intro: Cons.IH)
  qed
qed simp

lemma send_seg_pools:
  "pools S R w \<Longrightarrow> meshx_lower_trans_send_seg_msg ns p block_ack w = Some (r, w') \<Longrightarrow> pools S R w'"
  unfolding meshx_lower_trans_send_seg_msg_def Let_def by (rule send_loop_pools)

end

lemma distinct_map_remove1: "distinct (map g xs) \<Longrightarrow> distinct (map g (remove1 p xs))"
  by (auto simp: distinct_map intro: inj_on_subset dest: notin_set_remove1)

lemma tx_release_pools:
  assumes "meshx_lower_trans_tx_task_release p w = Some w'" "pools S R w"
  shows "pools S R w'" "p \<in> S"
proof -
  have p: "p \<in> set (tx_idle w) \<union> set (tx_active w) \<union> set (tx_pending w)"
    and w': "w' = (tx_upd p (\<lambda>t. t\<lparr>tt_timer := None, tt_pdu := None\<rparr>) w)
      \<lparr>tx_idle := remove1 p (tx_idle w) @ [p], tx_active := remove1 p (tx_active w), tx_pending := remove1 p (tx_pending w)\<rparr>"
    using assms(1) by (auto simp: meshx_lower_trans_tx_task_release_def tx_upd_def Let_def split: if_splits)
  show "p \<in> S" using p assms(2) by (auto simp: pools_def tx_inv_def)
  have d: "mc_dst (tt_ctx (mw_tx w' q)) = mc_dst (tt_ctx (mw_tx w q))" for q by (simp add: w' tx_upd_def)
  have "tx_inv S w'" unfolding tx_inv_def d
  proof (intro conjI)
    show "distinct (map (\<lambda>p. mc_dst (tt_ctx (mw_tx w p))) (tx_active w'))"
      using assms(2) by (simp add: w' pools_def tx_inv_def distinct_map_remove1)
  qed (use assms(2) p in \<open>auto simp: w' pools_def tx_inv_def tx_upd_def set_remove1_eq\<close>)
  moreover have "rx_inv R w'" using assms(2) by (simp add: w' pools_def rx_inv_def tx_upd_def)
  ultimately show "pools S R w'" by (simp add: pools_def)
qed

text \<open>A task outside the lists that may be run.\<close>

definition tx_waiting :: "nat set \<Rightarrow> nat set \<Rightarrow> nat \<Rightarrow> mesh_world \<Rightarrow> bool" where
  "tx_waiting S R p w \<longleftrightarrow> pools (S - {p}) R w \<and> p \<in> S \<and> tt_pdu (mw_tx w p) \<noteq> None \<and> tt_timer (mw_tx w p) = None"

definition dst_free :: "nat \<Rightarrow> mesh_world \<Rightarrow> bool" where
  "dst_free p w \<longleftrightarrow> (\<forall>a \<in> set (tx_active w). mc_dst (tt_ctx (mw_tx w a)) \<noteq> mc_dst (tt_ctx (mw_tx w p)))"

lemma pending_ready_waiting:
  assumes "pending_ready w = Some q" "pools S R w"
  shows "tx_waiting S R q (w\<lparr>tx_pending := remove1 q (tx_pending w)\<rparr>)" "dst_free q (w\<lparr>tx_pending := remove1 q (tx_pending w)\<rparr>)"
proof -
  have q: "q \<in> set (tx_pending w)" "dst_free q w"
    using assms(1) unfolding pending_ready_def find_Some_iff dst_free_def by (auto simp: list_ex_iff)
  show "dst_free q (w\<lparr>tx_pending := remove1 q (tx_pending w)\<rparr>)" using q(2) by (simp add: dst_free_def)
  show "tx_waiting S R q (w\<lparr>tx_pending := remove1 q (tx_pending w)\<rparr>)"
    using assms(2) q(1) by (auto simp: tx_waiting_def pools_def tx_inv_def rx_inv_def)
qed

lemma run_start_pools:
  assumes "tx_waiting S R p w" "dst_free p w"
  shows "pools S R ((tx_upd p (\<lambda>t. t\<lparr>tt_timer := Some tm\<rparr>) (w\<lparr>mw_env := e\<rparr>))\<lparr>tx_active := tx_active w @ [p]\<rparr>)"
    (is "pools S R ?w")
proof -
  have d: "mc_dst (tt_ctx (mw_tx ?w q)) = mc_dst (tt_ctx (mw_tx w q))" for q by (simp add: tx_upd_def)
  have "tx_inv S ?w" unfolding tx_inv_def d
    using assms by (auto simp: tx_waiting_def pools_def tx_inv_def tx_upd_def dst_free_def)
  moreover have "rx_inv R ?w" using assms(1) by (simp add: tx_waiting_def pools_def rx_inv_def tx_upd_def)
  ultimately show ?thesis by (simp add: pools_def)
qed

lemma release_out: "p \<notin> set (tx_idle w) \<union> set (tx_active w) \<union> set (tx_pending w) \<Longrightarrow>
    meshx_lower_trans_tx_task_finish ns n p w = None"
  by (cases n) (auto simp: meshx_lower_trans_tx_task_release_def)

context transport
begin

lemma finish_run_pools:
  "(\<forall>p w w'. pools S R w \<longrightarrow> meshx_lower_trans_tx_task_finish ns n p w = Some w' \<longrightarrow> pools S R w') \<and>
   (\<forall>p w r w'. tx_waiting S R p w \<longrightarrow> dst_free p w \<longrightarrow> meshx_lower_trans_tx_task_run ns n p w = Some (r, w') \<longrightarrow> pools S R w')"
proof (induction n)
  case (Suc n)
  note fin = Suc [THEN conjunct1, rule_format] and run = Suc [THEN conjunct2, rule_format]
  have "pools S R w'" if a1: "pools S R w" and a2: "meshx_lower_trans_tx_task_finish ns (Suc n) p w = Some w'" for p w w'
  proof -
    obtain w1 where w1: "meshx_lower_trans_tx_task_release p w = Some w1" using a2 by (auto split: Option.bind_splits)
    define w2 where "w2 = (if meshx_is_iv_update_state_transit_pending (iv (mw_iv w1))
      then w1\<lparr>mw_iv := (mw_iv w1)\<lparr>iv := meshx_iv_update_state_set MESHX_IV_UPDATE_STATE_NORMAL (iv (mw_iv w1))\<rparr>\<rparr> else w1)"
    have "same_pools w1 w2" by (simp add: w2_def)
    then have w2: "pools S R w2" using same_pools_inv(3) tx_release_pools(1) [OF w1 a1] by blast
    have e: "(case pending_ready w2 of None \<Rightarrow> Some w2
       | Some q \<Rightarrow> do { (_, w) \<leftarrow> meshx_lower_trans_tx_task_run ns n q (w2\<lparr>tx_pending := remove1 q (tx_pending w2)\<rparr>); Some w }) = Some w'"
      using a2 unfolding meshx_lower_trans_tx_task_finish.simps w1 Option.bind.bind_lunit Let_def w2_def [symmetric] .
    show ?thesis
    proof (cases "pending_ready w2")
      case None
      then show ?thesis using e w2 by simp
    next
      case (Some q)
      then show ?thesis using e run [OF pending_ready_waiting [OF Some w2]] by (auto split: Option.bind_splits)
    qed
  qed
  moreover have "pools S R w'" if a1: "tx_waiting S R p w" and a2: "dst_free p w" and a3: "meshx_lower_trans_tx_task_run ns (Suc n) p w = Some (r, w')" for p w r w'
  proof -
    obtain r1 tm e where c: "meshx_timer_create (tt_timer (mw_tx w p)) MESHX_TIMER_MODE_SINGLE_SHOT (mw_env w) = (r1, tm, e)"
      using prod_cases3 by blast
    define w1 where "w1 = tx_upd p (\<lambda>t. t\<lparr>tt_timer := tm\<rparr>) (w\<lparr>mw_env := e\<rparr>)"
    have out: "p \<notin> set (tx_idle w1) \<union> set (tx_active w1) \<union> set (tx_pending w1)"
      using a1 by (auto simp: w1_def tx_upd_def tx_waiting_def pools_def tx_inv_def)
    have ok: "r1 = MESHX_SUCCESS" using a3 release_out [OF out] by (auto simp: c Let_def w1_def split: if_splits)
    then obtain tm' where tm: "tm = Some tm'" using c by (auto simp: meshx_timer_create_def split: prod.splits if_splits bool.splits)
    define w2 where "w2 = w1\<lparr>tx_active := tx_active w1 @ [p]\<rparr>"
    have w2: "pools S R w2" using run_start_pools [OF a1 a2, of tm' e] by (simp add: w2_def w1_def tm tx_upd_def)
    have b: "(do { (ret, w) \<leftarrow> meshx_lower_trans_send_seg_msg ns p (tt_block_ack (mw_tx w1 p)) w2;
        if ret \<noteq> MESHX_SUCCESS then do { w \<leftarrow> meshx_lower_trans_tx_task_finish ns n p w; Some (ret, w) }
        else Some (ret, meshx_lower_trans_tx_timer_start p w) }) = Some (r, w')"
      using a3 by (simp add: c ok Let_def w1_def [symmetric] w2_def [symmetric])
    then obtain ret w3 where s: "meshx_lower_trans_send_seg_msg ns p (tt_block_ack (mw_tx w1 p)) w2 = Some (ret, w3)"
      and f: "(if ret \<noteq> MESHX_SUCCESS then do { w \<leftarrow> meshx_lower_trans_tx_task_finish ns n p w3; Some (ret, w) }
        else Some (ret, meshx_lower_trans_tx_timer_start p w3)) = Some (r, w')"
      by (cases "meshx_lower_trans_send_seg_msg ns p (tt_block_ack (mw_tx w1 p)) w2") auto
    have w3: "pools S R w3" by (rule send_seg_pools [OF w2 s])
    show ?thesis
      using f fin [OF w3] w3 same_pools_inv(3) [OF same_pools_timer_start] by (auto split: if_splits Option.bind_splits)
  qed
  ultimately show ?case by blast
qed simp

lemmas finish_pools = finish_run_pools [THEN conjunct1, rule_format]
  and run_pools = finish_run_pools [THEN conjunct2, rule_format]

end


text \<open>Statements about every result of an operation that may be undefined.\<close>

definition results :: "('a \<Rightarrow> bool) \<Rightarrow> 'a option \<Rightarrow> bool" where
  "results Q m \<longleftrightarrow> (\<forall>x. m = Some x \<longrightarrow> Q x)"

abbreviation "leaves I m \<equiv> results (\<lambda>x. I (snd x)) m"

lemma results_simps [simp]: "results Q None" "results Q (Some x) = Q x"
  by (simp_all add: results_def)

lemma results_bind: "results P m \<Longrightarrow> (\<And>x. P x \<Longrightarrow> results Q (f x)) \<Longrightarrow> results Q (m \<bind> f)"
  by (cases m) simp_all

lemma results_bind_any: "(\<And>x. m = Some x \<Longrightarrow> results Q (f x)) \<Longrightarrow> results Q (m \<bind> f)"
  by (cases m) simp_all

lemma results_D: "results Q m \<Longrightarrow> m = Some x \<Longrightarrow> Q x"
  by (simp add: results_def)

context transport
begin

abbreviation "I \<equiv> pools S R"

lemma ns_leaves: "I w \<Longrightarrow> leaves I (ns pkt c w)" by (auto simp: results_def dest: ns_pools)
lemma ur_leaves: "I w \<Longrightarrow> leaves I (ur buf len c w)" by (auto simp: results_def dest: ur_pools)
lemma send_leaves: "I w \<Longrightarrow> leaves I (meshx_lower_trans_send_seg_msg ns p b w)" by (auto simp: results_def dest: send_seg_pools)
lemma finish_leaves: "I w \<Longrightarrow> results I (meshx_lower_trans_tx_task_finish ns n p w)" by (auto simp: results_def dest: finish_pools)

lemma I_tx_upd:
  assumes "\<And>t. (tt_pdu (f t) = None) = (tt_pdu t = None)" "\<And>t. (tt_timer (f t) = None) = (tt_timer t = None)"
    "\<And>t. mc_dst (tt_ctx (f t)) = mc_dst (tt_ctx t)"
  shows "I (tx_upd p f w) = I w"
  by (rule same_pools_inv(3) [OF same_pools_tx_upd [OF assms]])

lemma resend_leaves:
  assumes "I w"
  shows "results I (do {
       (_, w) \<leftarrow> meshx_lower_trans_send_seg_msg ns p b w;
       let c = tt_ctx (mw_tx w p);
       if \<not> MESHX_LOWER_TRANS_IS_SEQ_AUTH_VALID (mc_seq c) (mc_seq_auth c)
       then meshx_lower_trans_tx_task_finish ns (tx_turns w) p w
       else Some (meshx_lower_trans_tx_timer_start p w) })"
  by (rule results_bind [OF send_leaves [OF assms]])
    (auto simp: Let_def split_def intro: finish_leaves simp: same_pools_inv(3) [OF same_pools_timer_start])

lemma timeout_leaves:
  assumes "I w"
  shows "results I (meshx_lower_trans_handle_tx_timeout ns p w)"
proof -
  have i: "I (tx_upd p (\<lambda>t. t\<lparr>tt_retry := tt_retry t + 1\<rparr>) w)" by (subst I_tx_upd) (simp_all add: assms)
  show ?thesis
    unfolding meshx_lower_trans_handle_tx_timeout_def Let_def [of "tx_upd p _ w"]
    using i by (auto intro: finish_leaves resend_leaves)
qed

lemma ack_leaves:
  assumes "I w"
  shows "results I (meshx_lower_trans_recv_block_ack ns seg_ack w)"
proof (cases "find (\<lambda>p. MESHX_LOWER_TRANS_SEQ_ZERO (mc_seq_auth (tt_ctx (mw_tx w p))) =
    drop_bit 2 (ucast (of_be16 (take 2 seg_ack)) :: u32) AND 0x1fff) (tx_active w)")
  case None
  then show ?thesis using assms by (simp add: meshx_lower_trans_recv_block_ack_def Let_def)
next
  case (Some p)
  define ack where "ack = of_be32 (take 4 (drop 2 seg_ack))"
  define w1 where "w1 = tx_upd p (\<lambda>t. t\<lparr>tt_retry := tt_retry t + 1\<rparr>) w"
  define w2 where "w2 = tx_upd p (\<lambda>t. t\<lparr>tt_block_ack := ack\<rparr>) w1"
  have w1: "I w1" unfolding w1_def by (subst I_tx_upd) (simp_all add: assms)
  have w2: "I w2" unfolding w2_def by (subst I_tx_upd) (simp_all add: w1)
  show ?thesis
    unfolding meshx_lower_trans_recv_block_ack_def Let_def [of "drop_bit 2 _ AND _"] Let_def [of "of_be32 _"] Some option.case
      ack_def [symmetric] Let_def [of "tx_upd _ _ w"] w1_def [symmetric] Let_def [of "tx_upd _ _ w1"] w2_def [symmetric]
    using assms w1 w2 [unfolded w2_def] by (auto intro: finish_leaves resend_leaves)
qed

end


text \<open>Taking a task for a message.\<close>

lemma tx_request_waiting:
  assumes "pools S R w" "meshx_lower_trans_tx_task_request n w = (Some p, w')"
  shows "tx_waiting S R p w'"
proof -
  obtain rest w1 where r: "tx_idle w = p # rest" "on_menv meshx_malloc_ok w = (True, w1)"
    "w' = tx_upd p (\<lambda>t. t\<lparr>tt_pdu := Some (junk w1 (unat n)), tt_retry := 0, tt_block_ack := 0, tt_seg_bits := 0\<rparr>) (w1\<lparr>tx_idle := rest\<rparr>)"
    using assms(2) by (auto simp: meshx_lower_trans_tx_task_request_def split: list.splits prod.splits bool.splits)
  have "w1 = w\<lparr>mw_env := mw_env w1\<rparr>" using r(2) by (auto simp: on_menv_def split: prod.splits)
  then obtain e where e: "w1 = w\<lparr>mw_env := e\<rparr>" by blast
  have d: "mc_dst (tt_ctx (mw_tx w' q)) = mc_dst (tt_ctx (mw_tx w q))" for q by (simp add: r(3) e tx_upd_def)
  have "tx_inv (S - {p}) w'" unfolding tx_inv_def d
    using assms(1) r(1) by (auto simp: r(3) e pools_def tx_inv_def tx_upd_def)
  moreover have "rx_inv R w'" using assms(1) by (simp add: r(3) e pools_def rx_inv_def tx_upd_def)
  moreover have "p \<in> S" "tt_timer (mw_tx w p) = None" using assms(1) r(1) by (auto simp: pools_def tx_inv_def)
  ultimately show ?thesis by (simp add: tx_waiting_def pools_def r(3) e tx_upd_def)
qed

lemma tx_request_none:
  assumes "pools S R w" "meshx_lower_trans_tx_task_request n w = (None, w')"
  shows "pools S R w'"
proof (cases "tx_idle w")
  case Nil
  then show ?thesis using assms by (simp add: meshx_lower_trans_tx_task_request_def)
next
  case (Cons p rest)
  then obtain e where w': "w' = tx_upd p (\<lambda>t. t\<lparr>tt_pdu := None\<rparr>) (w\<lparr>mw_env := e, tx_idle := rest @ [p]\<rparr>)"
    using assms(2) by (auto simp: meshx_lower_trans_tx_task_request_def on_menv_def split: prod.splits bool.splits)
  have d: "mc_dst (tt_ctx (mw_tx w' q)) = mc_dst (tt_ctx (mw_tx w q))" for q by (simp add: w' tx_upd_def)
  have "tx_inv S w'" unfolding tx_inv_def d using assms(1) Cons by (auto simp: w' pools_def tx_inv_def tx_upd_def)
  moreover have "rx_inv R w'" using assms(1) by (simp add: w' pools_def rx_inv_def tx_upd_def)
  ultimately show ?thesis by (simp add: pools_def)
qed

lemma tx_waiting_upd:
  assumes "tx_waiting S R p w" "\<And>t. tt_pdu (f t) \<noteq> None" "\<And>t. tt_timer (f t) = tt_timer t"
  shows "tx_waiting S R p (tx_upd p f w)"
proof -
  have n: "p \<notin> set (tx_idle w) \<union> set (tx_active w) \<union> set (tx_pending w)"
    using assms(1) by (auto simp: tx_waiting_def pools_def tx_inv_def)
  have d: "map (\<lambda>q. mc_dst (tt_ctx (mw_tx (tx_upd p f w) q))) (tx_active w) = map (\<lambda>q. mc_dst (tt_ctx (mw_tx w q))) (tx_active w)"
    using n by (auto simp: tx_upd_def)
  have l: "tx_idle (tx_upd p f w) = tx_idle w" "tx_active (tx_upd p f w) = tx_active w" "tx_pending (tx_upd p f w) = tx_pending w"
    by (simp_all add: tx_upd_def)
  have "tx_inv (S - {p}) (tx_upd p f w)"
    using assms(1) n unfolding tx_waiting_def pools_def tx_inv_def l d by (auto simp: tx_upd_def)
  then show ?thesis using assms by (auto simp: tx_waiting_def pools_def rx_inv_def tx_upd_def)
qed

context transport
begin

lemma try_leaves:
  assumes "tx_waiting S R p w"
  shows "leaves I (meshx_lower_trans_tx_task_try ns p w)"
proof (cases "dst_free p w")
  case True
  then have "\<not> list_ex (\<lambda>a. mc_dst (tt_ctx (mw_tx w a)) = mc_dst (tt_ctx (mw_tx w p))) (tx_active w)"
    by (auto simp: dst_free_def list_ex_iff)
  then show ?thesis using run_pools [OF assms True] by (simp add: meshx_lower_trans_tx_task_try_def results_def)
next
  case False
  then have "list_ex (\<lambda>a. mc_dst (tt_ctx (mw_tx w a)) = mc_dst (tt_ctx (mw_tx w p))) (tx_active w)"
    by (auto simp: dst_free_def list_ex_iff)
  then show ?thesis using assms
    by (auto simp: meshx_lower_trans_tx_task_try_def tx_waiting_def pools_def tx_inv_def rx_inv_def)
qed

lemma process_leaves:
  assumes "I w"
  shows "leaves I (meshx_lower_trans_process_seg_msg ns pdu n c w)"
proof (cases "meshx_lower_trans_tx_task_request (word_of_nat (length pdu)) w")
  case (Pair q w1)
  show ?thesis
  proof (cases q)
    case None
    then show ?thesis using assms tx_request_none [OF assms Pair [unfolded None]]
      by (simp add: meshx_lower_trans_process_seg_msg_def Let_def Pair)
  next
    case (Some p)
    note t = tx_waiting_upd [OF tx_request_waiting [OF assms Pair [unfolded Some]]]
    show ?thesis using assms by (auto simp: meshx_lower_trans_process_seg_msg_def Let_def Pair Some intro!: try_leaves t)
  qed
qed

lemma lower_send_leaves:
  assumes "I w"
  shows "results (\<lambda>x. I (snd (snd x))) (meshx_lower_trans_send ns pdu c w)"
  using assms unfolding meshx_lower_trans_send_def Let_def
  by (auto simp: split_def intro!: results_bind [OF process_leaves [OF assms]] results_bind [OF ns_leaves [OF assms]])

lemma seg_ack_leaves:
  assumes "I w"
  shows "leaves I (meshx_lower_trans_seg_ack ns b c w)"
  unfolding meshx_lower_trans_seg_ack_def Let_def
proof (rule results_bind_any, clarify, rule results_bind)
  fix seq w1 assume s: "element_seq_use (mc_dst c) w = Some (seq, w1)"
  show "results (\<lambda>x. I (snd (snd x))) (meshx_lower_trans_send ns
    (seg_ack_bytes (MESHX_LOWER_TRANS_SEQ_ZERO (mc_seq_auth c)) b)
    (mc_zero\<lparr>mc_src := mc_dst c, mc_dst := mc_src c, mc_ttl := default_ttl (param (mw_node w1)) AND 0x7f,
              mc_ctl := True, mc_iv_index := meshx_iv_index_tx_get (iv (mw_iv w1)), mc_net_key := mc_net_key c,
              mc_seq := low24 seq\<rparr>) w1)"
    using lower_send_leaves assms same_pools_inv(3) [OF same_pools_seq_use [OF s]] by simp
qed (simp add: split_def)

end


lemma rx_release_leaves:
  assumes "pools S R w"
  shows "results (pools S R) (meshx_lower_trans_rx_task_release p w)"
proof (cases "p \<notin> set (rx_idle w) \<union> set (rx_active w) \<or> rt_dangling (mw_rx w p)")
  case True
  then show ?thesis by (simp add: meshx_lower_trans_rx_task_release_def)
next
  case False
  define w' where "w' = (rx_upd p (\<lambda>t. t\<lparr>rt_ack_timer := None, rt_incomplete_timer := None, rt_pdu := None\<rparr>) w)
    \<lparr>rx_idle := remove1 p (rx_idle w) @ [p], rx_active := remove1 p (rx_active w)\<rparr>"
  have s: "mc_src (rt_ctx (mw_rx w' q)) = mc_src (rt_ctx (mw_rx w q))" for q by (simp add: w'_def rx_upd_def)
  have "rx_inv R w'" unfolding rx_inv_def s
  proof (intro conjI)
    show "distinct (map (\<lambda>p. mc_src (rt_ctx (mw_rx w p))) (rx_active w'))"
      using assms by (simp add: w'_def pools_def rx_inv_def distinct_map_remove1)
  qed (use assms False in \<open>auto simp: w'_def pools_def rx_inv_def rx_upd_def set_remove1_eq\<close>)
  moreover have "tx_inv S w'" using assms by (simp add: w'_def pools_def tx_inv_def rx_upd_def)
  ultimately have "pools S R w'" by (simp add: pools_def)
  moreover have "meshx_lower_trans_rx_task_release p w = Some w'"
    unfolding meshx_lower_trans_rx_task_release_def w'_def using False by (simp add: Let_def rx_upd_def)
  ultimately show ?thesis by simp
qed

text \<open>The cases of a new task.\<close>

lemma rx_task_new_cases:
  assumes "rx_task_new n c w = (q, w')"
  obtains "q = None" "w' = w"
    | p rest e f where "q = None" "rx_idle w = p # rest" "w' = rx_upd p f (w\<lparr>mw_env := e, rx_idle := rest @ [p]\<rparr>)"
        "\<And>t. rt_pdu t = None \<Longrightarrow> rt_pdu (f t) = None" "\<And>t. rt_ctx (f t) = rt_ctx t"
    | p rest e f where "q = Some p" "rx_idle w = p # rest"
        "w' = rx_upd p f (w\<lparr>mw_env := e, rx_idle := rest, rx_active := rx_active w @ [p]\<rparr>)"
        "\<And>t. rt_pdu (f t) \<noteq> None" "\<And>t. rt_ctx (f t) = c"
proof (cases "rx_idle w")
  case Nil
  then show ?thesis using that(1) assms by (simp add: rx_task_new_def)
next
  case (Cons p rest)
  obtain r1 ack e1 where a: "meshx_timer_create (rt_ack_timer (mw_rx w p)) MESHX_TIMER_MODE_SINGLE_SHOT (mw_env w) = (r1, ack, e1)"
    using prod_cases3 by blast
  obtain r2 inc e2 where i: "meshx_timer_create (rt_incomplete_timer (mw_rx w p)) MESHX_TIMER_MODE_SINGLE_SHOT e1 = (r2, inc, e2)"
    using prod_cases3 by blast
  obtain ok e3 where m: "meshx_malloc_ok e2 = (ok, e3)" by fastforce
  have id: "rx_upd p (\<lambda>t. t) v = v" for v by (simp add: rx_upd_def)
  consider "r1 \<noteq> MESHX_SUCCESS" | "r1 = MESHX_SUCCESS" "r2 \<noteq> MESHX_SUCCESS" | "r1 = MESHX_SUCCESS" "r2 = MESHX_SUCCESS" "\<not> ok"
    | "r1 = MESHX_SUCCESS" "r2 = MESHX_SUCCESS" ok by blast
  then show ?thesis
  proof cases
    case 1
    then show ?thesis using that(2) [of p rest "\<lambda>t. t" e1] assms Cons by (simp add: rx_task_new_def a id)
  next
    case 2
    then show ?thesis using that(2) [of p rest "\<lambda>t. t\<lparr>rt_ack_timer := None, rt_dangling := True\<rparr>" e2] assms Cons
      by (simp add: rx_task_new_def a i)
  next
    case 3
    then show ?thesis using that(2) [of p rest "\<lambda>t. t\<lparr>rt_ack_timer := None, rt_incomplete_timer := None,
        rt_dangling := True, rt_pdu := None\<rparr>" e3] assms Cons by (simp add: rx_task_new_def a i m)
  next
    case 4
    then show ?thesis using that(3) [of p rest "\<lambda>t. t\<lparr>rt_ack_timer := ack, rt_incomplete_timer := inc,
          rt_dangling := False, rt_pdu := Some (junk w (unat n)), rt_max_len := n, rt_ctx := c, rt_block_ack := 0,
          rt_not_received := rt_not_received t OR low_bits (word_of_nat (unat n div seg_size (mc_ctl c)))\<rparr>" e3] assms Cons
      by (simp add: rx_task_new_def a i m)
  qed
qed

lemma rx_task_new_pools:
  assumes "pools S R w" "\<forall>a \<in> set (rx_active w). mc_src (rt_ctx (mw_rx w a)) \<noteq> mc_src c" "rx_task_new n c w = (q, w')"
  shows "pools S R w'"
  using assms(3)
proof (cases rule: rx_task_new_cases)
  case 1
  then show ?thesis using assms(1) by simp
next
  case (2 p rest e f)
  have s: "mc_src (rt_ctx (mw_rx w' q)) = mc_src (rt_ctx (mw_rx w q))" for q by (simp add: 2 rx_upd_def)
  have "rx_inv R w'" unfolding rx_inv_def s using assms(1) 2 by (auto simp: pools_def rx_inv_def rx_upd_def)
  then show ?thesis using assms(1) by (simp add: 2 pools_def tx_inv_def rx_upd_def)
next
  case (3 p rest e f)
  have p: "p \<notin> set (rx_active w)" using assms(1) 3(2) by (auto simp: pools_def rx_inv_def)
  then have s: "map (\<lambda>q. mc_src (rt_ctx (mw_rx w' q))) (rx_active w') = map (\<lambda>q. mc_src (rt_ctx (mw_rx w q))) (rx_active w) @ [mc_src c]"
    by (auto simp: 3 rx_upd_def)
  have "rx_inv R w'" unfolding rx_inv_def s
    using assms(1,2) p 3(2,4) by (auto simp: 3(3) pools_def rx_inv_def rx_upd_def)
  then show ?thesis using assms(1) by (simp add: 3 pools_def tx_inv_def rx_upd_def)
qed

lemma rx_task_request_pools:
  assumes "pools S R w" "meshx_lower_trans_rx_task_request n c w = (q, w')"
  shows "pools S R w'"
proof (cases "find (\<lambda>p. mc_src (rt_ctx (mw_rx w p)) = mc_src c) (rx_active w)")
  case None
  then have "\<forall>a \<in> set (rx_active w). mc_src (rt_ctx (mw_rx w a)) \<noteq> mc_src c" by (auto simp: find_None_iff)
  then show ?thesis using assms None rx_task_new_pools [of S R w c n q w']
    by (simp add: meshx_lower_trans_rx_task_request_def)
next
  case (Some p)
  then have p: "p \<in> set (rx_active w)" "mc_src (rt_ctx (mw_rx w p)) = mc_src c" by (auto simp: find_Some_iff)
  define w1 where "w1 = rx_upd p (\<lambda>t. t\<lparr>rt_pdu := None\<rparr>) (w\<lparr>rx_active := remove1 p (rx_active w), rx_idle := rx_idle w @ [p]\<rparr>)"
  have s: "mc_src (rt_ctx (mw_rx w1 q)) = mc_src (rt_ctx (mw_rx w q))" for q by (simp add: w1_def rx_upd_def)
  have d: "distinct (rx_active w)" "distinct (map (\<lambda>p. mc_src (rt_ctx (mw_rx w p))) (rx_active w))"
    using assms(1) by (auto simp: pools_def rx_inv_def)
  have "rx_inv R w1" unfolding rx_inv_def s
  proof (intro conjI)
    show "distinct (map (\<lambda>p. mc_src (rt_ctx (mw_rx w p))) (rx_active w1))"
      using d by (simp add: w1_def rx_upd_def distinct_map_remove1)
  qed (use assms(1) p in \<open>auto simp: w1_def pools_def rx_inv_def rx_upd_def set_remove1_eq\<close>)
  then have w1: "pools S R w1" using assms(1) by (simp add: w1_def pools_def tx_inv_def rx_upd_def)
  have f: "\<forall>a \<in> set (rx_active w1). mc_src (rt_ctx (mw_rx w1 a)) \<noteq> mc_src c"
    unfolding s using d p by (auto simp: w1_def rx_upd_def distinct_map inj_on_def)
  show ?thesis
    using assms rx_task_new_pools [OF w1 f, of n q w'] Some
    by (auto simp: meshx_lower_trans_rx_task_request_def Let_def w1_def [symmetric] split: if_splits)
qed

context transport
begin

lemma rx_upd_leaves: "I w \<Longrightarrow> (rt_pdu (f (mw_rx w p)) = None) = (rt_pdu (mw_rx w p) = None) \<Longrightarrow>
    mc_src (rt_ctx (f (mw_rx w p))) = mc_src (rt_ctx (mw_rx w p)) \<Longrightarrow> I (rx_upd p f w)"
  by (simp add: same_pools_inv(3) [OF same_pools_rx_upd])

lemma seg_ack_pools: "meshx_lower_trans_seg_ack ns b c w = Some (r, w') \<Longrightarrow> I w \<Longrightarrow> I w'"
  using results_D [OF seg_ack_leaves] by fastforce

lemma refuse_leaves: "I w \<Longrightarrow> leaves I (rx_refuse ns r p c w)"
  unfolding rx_refuse_def
  by (rule results_bind [OF seg_ack_leaves]) (auto simp: split_def intro: results_bind [OF rx_release_leaves])

lemma complete_leaves: "I w \<Longrightarrow> leaves I (rx_complete ns ur p c w)"
  unfolding rx_complete_def Let_def
  by (auto intro!: results_bind_any dest!: seg_ack_pools ur_pools [rotated] simp: rx_upd_leaves)

lemma single_leaves:
  assumes "I w"
  shows "leaves I (rx_single ns ur pdata len p c w)"
  unfolding rx_single_def
proof (rule results_bind_any, clarify)
  fix ok w1 assume "meshx_lower_trans_rpl_check (ctx_rpl c) w = Some (ok, w1)"
  then have "I w1" using assms same_pools_inv(3) [OF same_pools_rpl_check] by blast
  then show "leaves I (if \<not> ok then rx_refuse ns MESHX_ERR_FAIL p c w1
    else do {
      let pdu_len = ucast len - 4;
      d \<leftarrow> mem_read pdata 4 (unat pdu_len);
      ppdu \<leftarrow> rt_pdu (mw_rx w1 p);
      ppdu \<leftarrow> mem_write ppdu 0 d;
      rx_complete ns ur p c
        (rx_upd p (\<lambda>t. t\<lparr>rt_not_received := 0, rt_block_ack := 1, rt_pdu_len := pdu_len, rt_pdu := Some ppdu\<rparr>) w1)
    })"
    by (auto simp: Let_def intro!: refuse_leaves results_bind_any complete_leaves rx_upd_leaves)
qed

lemma segment_leaves:
  assumes "I w"
  shows "leaves I (rx_segment ns ur pdata len sego segn p c w)"
  unfolding rx_segment_def Let_def [of "seg_size _"] Let_def [of "if _ then _ else _"]
proof (intro results_bind_any)
  fix d ppdu ppdu'
  assume "rt_pdu (mw_rx w p) = Some ppdu"
  define l :: u8 where "l = (if sego = segn then len - 4 else word_of_nat (seg_size (mc_ctl c)))"
  define w1 where "w1 = rx_upd p (\<lambda>t. t\<lparr>rt_pdu := Some ppdu', rt_not_received := rt_not_received t AND NOT (push_bit (unat sego) 1),
              rt_block_ack := rt_block_ack t OR push_bit (unat sego) 1, rt_pdu_len := rt_pdu_len t + ucast l\<rparr>) w"
  have w1: "I w1" unfolding w1_def by (rule rx_upd_leaves) (simp_all add: assms \<open>rt_pdu (mw_rx w p) = Some ppdu\<close>)
  have rpl: "I w2" if "meshx_lower_trans_rpl_check (ctx_rpl c) w1 = Some (ok, w2)" for ok w2
    using w1 that same_pools_inv(3) [OF same_pools_rpl_check] by blast
  show "leaves I (let w = rx_upd p (\<lambda>t. t\<lparr>rt_pdu := Some ppdu', rt_not_received := rt_not_received t AND NOT (push_bit (unat sego) 1),
              rt_block_ack := rt_block_ack t OR push_bit (unat sego) 1, rt_pdu_len := rt_pdu_len t + ucast (if sego = segn then len - 4 else word_of_nat (seg_size (mc_ctl c)) :: u8)\<rparr>) w in
    if rt_not_received (mw_rx w p) = 0
    then do {
      (ok, w) \<leftarrow> meshx_lower_trans_rpl_check (ctx_rpl c) w;
      if \<not> ok then rx_refuse ns MESHX_ERR_FAIL p c w else rx_complete ns ur p c w
    }
    else Some (MESHX_SUCCESS, rx_upd p (\<lambda>t. t\<lparr>
           rt_ack_timer := (if meshx_timer_is_active (rt_ack_timer t) then rt_ack_timer t
             else snd (meshx_timer_start (rt_ack_timer t)
                    (MESHX_LOWER_TRANS_RX_ACK_BASE + MESHX_LOWER_TRANS_RX_ACK_TTL_FACTOR * ucast (mc_ttl c)))),
           rt_incomplete_timer := snd (meshx_timer_restart (rt_incomplete_timer t) MESHX_LOWER_TRANS_INCOMPLETE_TIMEOUT)\<rparr>) w))"
    unfolding l_def [symmetric] Let_def [of "rx_upd _ _ w"] w1_def [symmetric]
    using w1 rpl by (auto intro!: refuse_leaves results_bind_any complete_leaves rx_upd_leaves)
qed

lemma receive_seg_leaves:
  assumes "I w"
  shows "leaves I (meshx_lower_trans_receive_seg_msg ns ur pdata len c w)"
  unfolding meshx_lower_trans_receive_seg_msg_def Let_def
proof (rule results_bind_any)
  fix misc
  define c1 where "c1 = seg_ctx (pdata ! 0) misc c"
  define n :: u16 where "n = (ucast (misc_segn misc) + 1) * word_of_nat (seg_size (mc_ctl c1))"
  obtain q w1 where q: "meshx_lower_trans_rx_task_request n c1 w = (q, w1)" by fastforce
  note w1 = rx_task_request_pools [OF assms q]
  have "same_pools w1 (w1\<lparr>mw_iv := x\<rparr>)" for x by simp
  then have iv: "I (w1\<lparr>mw_iv := x\<rparr>)" for x using w1 same_pools_inv(3) by blast
  show "leaves I (case meshx_lower_trans_rx_task_request ((ucast (misc_segn misc) + 1) *
      word_of_nat (seg_size (mc_ctl (seg_ctx (pdata ! 0) misc c)))) (seg_ctx (pdata ! 0) misc c) w of
       (None, w) \<Rightarrow> do { (_, w) \<leftarrow> meshx_lower_trans_seg_ack ns 0 (seg_ctx (pdata ! 0) misc c) w; Some (MESHX_ERR_BUSY, w) }
     | (Some p, w) \<Rightarrow>
         if (if mc_ctl (seg_ctx (pdata ! 0) misc c) then mc_opcode (rt_ctx (mw_rx w p)) \<noteq> mc_opcode (seg_ctx (pdata ! 0) misc c)
             else mc_akf (rt_ctx (mw_rx w p)) \<noteq> mc_akf (seg_ctx (pdata ! 0) misc c) \<or>
               mc_aid (rt_ctx (mw_rx w p)) \<noteq> mc_aid (seg_ctx (pdata ! 0) misc c) \<or>
               mc_szmic (rt_ctx (mw_rx w p)) \<noteq> mc_szmic (seg_ctx (pdata ! 0) misc c))
         then rx_refuse ns MESHX_ERR_INVAL p (seg_ctx (pdata ! 0) misc c) w
         else if rt_max_len (mw_rx w p) \<noteq> (ucast (misc_segn misc) + 1) * word_of_nat (seg_size (mc_ctl (seg_ctx (pdata ! 0) misc c)))
         then rx_refuse ns MESHX_ERR_LENGTH p (seg_ctx (pdata ! 0) misc c) w
         else if rt_not_received (mw_rx w p) = 0
         then do {
           (_, s) \<leftarrow> meshx_rpl_update (ctx_rpl (seg_ctx (pdata ! 0) misc c)) (rpls (mw_iv w));
           (_, w) \<leftarrow> meshx_lower_trans_seg_ack ns (rt_block_ack (mw_rx w p)) (seg_ctx (pdata ! 0) misc c) (w\<lparr>mw_iv := (mw_iv w)\<lparr>rpls := s\<rparr>\<rparr>);
           Some (MESHX_ERR_ALREADY, w) }
         else if \<not> bit (rt_not_received (mw_rx w p)) (unat (misc_sego misc)) then Some (MESHX_ERR_ALREADY, w)
         else if misc_segn misc = 0 then rx_single ns ur pdata len p (seg_ctx (pdata ! 0) misc c) w
         else rx_segment ns ur pdata len (misc_sego misc) (misc_segn misc) p (seg_ctx (pdata ! 0) misc c) w)"
    unfolding c1_def [symmetric] n_def [symmetric] q
    using w1 iv by (cases q) (auto intro!: refuse_leaves single_leaves segment_leaves results_bind_any dest!: seg_ack_pools
        simp del: de_Morgan_conj not_all)
qed

end


context transport
begin

lemma receive_leaves:
  assumes "I w"
  shows "leaves I (meshx_lower_trans_receive ns ur pdata len c w)"
proof -
  have rpl: "I w2" if "meshx_lower_trans_rpl_check r w = Some (ok, w2)" for ok w2 r
    using assms that same_pools_inv(3) [OF same_pools_rpl_check] by blast
  have ack: "results I m \<Longrightarrow> leaves I (do { w \<leftarrow> m; Some (MESHX_SUCCESS, w) })" for m by (cases m) simp_all
  have ur: "leaves I (do { (_, w) \<leftarrow> ur b n k v; Some (MESHX_SUCCESS, w) })" if "I v" for b n k v
    by (auto intro!: results_bind_any dest: ur_pools [OF that])
  show ?thesis unfolding meshx_lower_trans_receive_def Let_def
  proof (intro results_bind_any)
    fix first :: bytes
    let ?f = "first ! 0"
    show "leaves I (if mc_ctl c \<and> ?f AND 0x7f = 0
      then do {
        (ok, w) \<leftarrow> meshx_lower_trans_rpl_check (ctx_rpl c) w;
        if \<not> ok then Some (MESHX_ERR_FAIL, w)
        else do { seg_ack \<leftarrow> mem_read pdata 1 6; w \<leftarrow> meshx_lower_trans_recv_block_ack ns seg_ack w; Some (MESHX_SUCCESS, w) } }
      else if bit ?f 7 then meshx_lower_trans_receive_seg_msg ns ur pdata len c w
      else do {
        (ok, w) \<leftarrow> meshx_lower_trans_rpl_check (ctx_rpl c) w;
        if \<not> ok then Some (MESHX_ERR_FAIL, w)
        else do { (_, w) \<leftarrow> ur (drop 1 pdata) (ucast (len - 1)) (c\<lparr>mc_seg := False, mc_seq_auth := mc_seq c,
                  mc_misc := (if mc_ctl c then ?f AND 0x7f else access_misc (bit ?f 6) False (?f AND 0x3f))\<rparr>) w;
          Some (MESHX_SUCCESS, w) } })"
      (is "leaves I (if ?c then ?a else if ?b then ?r else ?u)")
    proof -
      have "leaves I ?a"
        by (rule results_bind_any) (auto dest!: rpl intro!: results_bind_any [where m = "mem_read _ _ _"] ack ack_leaves simp del: bind_assoc)
      moreover have "leaves I ?u" by (rule results_bind_any) (auto dest!: rpl intro!: ur simp del: bind_assoc)
      ultimately show ?thesis using receive_seg_leaves [OF assms] by simp
    qed
  qed
qed

lemma ack_timeout_leaves: "I w \<Longrightarrow> results I (meshx_lower_trans_async_handle_rx_ack_timeout ns p w)"
  unfolding meshx_lower_trans_async_handle_rx_ack_timeout_def by (auto intro!: results_bind_any dest!: seg_ack_pools)

end

section \<open>The layers below and above\<close>

lemma same_pools_iface_upd [simp]: "same_pools w (iface_upd a f w)"
  by (simp add: iface_upd_def)

lemma same_pools_ofilter: "meshx_net_iface_ofilter a s d w = Some (b, w') \<Longrightarrow> same_pools w w'"
  by (auto simp: meshx_net_iface_ofilter_def Let_def split: Option.bind_splits)

lemma same_pools_ifilter: "meshx_net_iface_ifilter a w = Some (b, w') \<Longrightarrow> same_pools w w'"
  by (auto simp: meshx_net_iface_ifilter_def Let_def split: Option.bind_splits)

lemma same_pools_gatt_send: "same_pools w (snd (meshx_bearer_gatt_send b h d w))"
  by (auto simp: meshx_bearer_gatt_send_def meshx_gatts_notify_def split: option.splits bearer.splits)

lemma same_pools_proxy_loop: "proxy_send_loop js b t pdata mtu n off w = Some w' \<Longrightarrow> same_pools w w'"
proof (induction js arbitrary: off w)
  case (Cons i js)
  then show ?case
    by (auto simp: Let_def split: Option.bind_splits intro: same_pools_trans [OF same_pools_gatt_send])
qed simp

lemma same_pools_proxy_send:
  assumes "meshx_proxy_send b t pdata w = Some (r, w')"
  shows "same_pools w w'"
proof -
  obtain ok w1 where m: "on_menv meshx_malloc_ok w = (ok, w1)" by fastforce
  note s = same_pools_on_menv [OF m]
  show ?thesis
    using assms s same_pools_trans [OF s same_pools_gatt_send] same_pools_trans [OF s same_pools_proxy_loop]
    by (auto simp: meshx_proxy_send_def Let_def m split: bool.splits if_splits Option.bind_splits)
qed

lemma same_pools_to_bearer:
  assumes "meshx_net_send_to_bearer pdata c a w = Some (r, w')"
  shows "same_pools w w'"
proof -
  obtain pass w1 where f: "meshx_net_iface_ofilter a (mc_src c) (mc_dst c) w = Some (pass, w1)"
    using assms by (auto simp: meshx_net_send_to_bearer_def split: Option.bind_splits)
  note s = same_pools_ofilter [OF f]
  have "same_pools w1 (w1\<lparr>mw_gap := g\<rparr>)" for g by simp
  then show ?thesis
    using assms s same_pools_trans [OF s] same_pools_trans [OF s same_pools_proxy_send]
    by (auto simp: meshx_net_send_to_bearer_def f split: if_splits Option.bind_splits option.splits)
qed

lemma same_pools_send_all: "net_send_all pdata c v as w = Some (r, w') \<Longrightarrow> same_pools w w'"
proof (induction "as" arbitrary: v w)
  case (Cons a as)
  then show ?case
    by (auto split: Option.bind_splits if_splits intro: same_pools_trans [OF same_pools_to_bearer])
qed simp

lemma net_send_pools:
  assumes rec: "\<And>i pkt w r w'. pools S R w \<Longrightarrow> nr i pkt w = Some (r, w') \<Longrightarrow> pools S R w'"
    and "pools S R w" "meshx_net_send aes nr pdu c w = Some (r, w')"
  shows "pools S R w'"
proof -
  have lo: "pools S R w'" if l: "meshx_net_loopback nr pkt c w = Some (r, w')" for pkt
  proof -
    obtain a pass w1 where f: "meshx_net_iface_ofilter a (mc_src c) (mc_dst c) w = Some (pass, w1)"
      and n: "(if \<not> pass then Some (MESHX_ERR_FILTER, w1) else nr (Some a) pkt w1) = Some (r, w')"
      using l by (auto simp: meshx_net_loopback_def split: Option.bind_splits)
    have "pools S R w1" using assms(2) same_pools_inv(3) [OF same_pools_ofilter [OF f]] by blast
    then show ?thesis using n rec by (auto split: if_splits)
  qed
  have sp: "pools S R w'" if "same_pools w w'" using assms(2) same_pools_inv(3) [OF that] by blast
  show ?thesis
    using assms(2,3) lo sp same_pools_to_bearer same_pools_send_all
    by (auto simp: meshx_net_send_def split: if_splits Option.bind_splits option.splits)
qed

lemma net_receive_pools:
  assumes rec: "\<And>buf n c w. pools S R w \<Longrightarrow> leaves (pools S R) (lr buf n c w)"
    and "pools S R w" "meshx_net_receive aes lr i pkt w = Some (r, w')"
  shows "pools S R w'"
proof (cases i)
  case None
  then show ?thesis using assms(2,3) by (simp add: meshx_net_receive_def)
next
  case (Some a)
  obtain pass w1 where f: "meshx_net_iface_ifilter a w = Some (pass, w1)"
    using assms(3) Some by (auto simp: meshx_net_receive_def split: Option.bind_splits)
  have w1: "pools S R w1" using assms(2) same_pools_inv(3) [OF same_pools_ifilter [OF f]] by blast
  have acc: "pools S R w2" if "net_accept lr a n ix key pdu w1 = Some (r, w2)" for n ix key pdu w2
  proof -
    have "same_pools w1 (w1\<lparr>mw_nmc := s\<rparr>)" for s by simp
    then have "pools S R (w1\<lparr>mw_nmc := s\<rparr>)" for s using w1 same_pools_inv(3) by blast
    then show ?thesis using w1 that results_D [OF rec] by (fastforce simp: net_accept_def Let_def split: if_splits Option.bind_splits)
  qed
  show ?thesis
    using assms(3) w1 acc by (auto simp: meshx_net_receive_def Some f Let_def split: if_splits Option.bind_splits option.splits)
qed

end
