(* ===== verification/Mesh_Stack_Facts.thy ===== *)
theory Mesh_Stack_Facts
  imports Mesh_Stack Mesh_Lower_Facts Mesh_Net_Facts
begin

text \<open>
  Facts of the layers on each other.  The contract the lower transport layer has with its
  neighbours holds for the network layer and the upper transport layer of the stack, at every
  depth of calls.
\<close>

section \<open>The task pools of the stack\<close>

lemma upper_receive_pools:
  "pools S R w \<Longrightarrow> meshx_upper_trans_receive aes buf len c w = Some (r, w') \<Longrightarrow> pools S R w'"
proof -
  have "pools S R (w\<lparr>mw_delivered := l\<rparr>) = pools S R w" for l by (rule same_pools_inv(3)) simp
  then show "pools S R w \<Longrightarrow> meshx_upper_trans_receive aes buf len c w = Some (r, w') \<Longrightarrow> pools S R w'"
    by (auto simp: meshx_upper_trans_receive_def meshx_access_receive_def Let_def split: if_splits Option.bind_splits)
qed

lemma net_receive_at_pools:
  "pools S R w \<Longrightarrow> net_receive_at d aes i pkt w = Some (r, w') \<Longrightarrow> pools S R w'"
proof (induction d arbitrary: i pkt w r w')
  case (Suc d)
  have t: "transport (meshx_net_send aes (net_receive_at d aes)) (meshx_upper_trans_receive aes) S R"
  proof
    show "pools S R w \<Longrightarrow> meshx_net_send aes (net_receive_at d aes) pkt c w = Some (r, w') \<Longrightarrow> pools S R w'" for pkt c w r w'
      using net_send_pools [where nr = "net_receive_at d aes"] Suc.IH by blast
  qed (rule upper_receive_pools)
  show ?case
    using net_receive_pools [of S R "meshx_lower_trans_receive (meshx_net_send aes (net_receive_at d aes)) (meshx_upper_trans_receive aes)"]
      transport.receive_leaves [OF t] Suc.prems by simp
qed simp

interpretation stack: transport "net_send_at d aes" "meshx_upper_trans_receive aes" S R for d aes S R
proof
  show "pools S R w \<Longrightarrow> net_send_at d aes pkt c w = Some (r, w') \<Longrightarrow> pools S R w'" for pkt c w r w'
    unfolding net_send_at_def using net_send_pools [where nr = "net_receive_at d aes"] net_receive_at_pools by blast
qed (rule upper_receive_pools)

lemma upper_send_pools:
  assumes "pools S R w" "meshx_upper_trans_send aes (net_send_at d aes) pdata c w = Some (r, c', w')"
  shows "pools S R w'"
proof -
  have lower: "pools S R w2" if "meshx_lower_trans_send (net_send_at d aes) pdu k v = Some (r, c', w2)" "pools S R v" for pdu k v w2
    using results_D [OF stack.lower_send_leaves [OF that(2)] that(1)] by simp
  obtain ok w1 where m: "on_menv meshx_malloc_ok w = (ok, w1)" by fastforce
  have w1: "pools S R w1" using assms(1) same_pools_inv(3) [OF same_pools_on_menv [OF m]] by blast
  have w2: "pools S R w2" if "element_seq_use a w1 = Some (s, w2)" for a s w2
    using w1 same_pools_inv(3) [OF same_pools_seq_use [OF that]] by blast
  show ?thesis
    using assms w1
    by (auto simp: meshx_upper_trans_send_def m Let_def split: if_splits Option.bind_splits bool.splits dest!: w2 dest: lower)
qed

text \<open>What can happen to the stack: a packet arrives, a message is sent, a timer of a task
  expires, or another part of the program runs.\<close>

inductive stack_step :: "aes128 \<Rightarrow> mesh_world \<Rightarrow> mesh_world \<Rightarrow> bool" for aes where
  packet: "net_receive_at d aes net_iface pdata w = Some (r, w') \<Longrightarrow> stack_step aes w w'"
| message: "access_send_at d aes pdata c w = Some (r, c', w') \<Longrightarrow> stack_step aes w w'"
| control: "meshx_upper_trans_send aes (net_send_at d aes) pdata c w = Some (r, c', w') \<Longrightarrow> stack_step aes w w'"
| tx_timer: "meshx_lower_trans_async_handle_tx_timeout (net_send_at d aes) p w = Some w' \<Longrightarrow> stack_step aes w w'"
| ack_timer: "meshx_lower_trans_async_handle_rx_ack_timeout (net_send_at d aes) p w = Some w' \<Longrightarrow> stack_step aes w w'"
| incomplete_timer: "meshx_lower_trans_async_handle_rx_incomplete_timeout p w = Some w' \<Longrightarrow> stack_step aes w w'"
| elsewhere: "same_pools w w' \<Longrightarrow> stack_step aes w w'"

inductive stack_reachable :: "aes128 \<Rightarrow> nat \<Rightarrow> nat \<Rightarrow> mesh_world \<Rightarrow> bool" for aes where
  start: "meshx_lower_trans_init w = (MESHX_SUCCESS, w') \<Longrightarrow>
    stack_reachable aes (unat (trans_tx_task_num (config (mw_node w)))) (unat (trans_rx_task_num (config (mw_node w)))) w'"
| step: "stack_reachable aes n m w \<Longrightarrow> stack_step aes w w' \<Longrightarrow> stack_reachable aes n m w'"

lemma stack_step_pools: "stack_step aes w w' \<Longrightarrow> pools S R w \<Longrightarrow> pools S R w'"
proof (induction rule: stack_step.induct)
  case (packet d net_iface pdata w r w')
  then show ?case by (blast intro: net_receive_at_pools)
next
  case (message d pdata c w r c' w')
  then show ?case using upper_send_pools by (auto simp: access_send_at_def meshx_access_send_def split: if_splits)
next
  case (control d pdata c w r c' w')
  then show ?case by (blast intro: upper_send_pools)
next
  case (tx_timer d p w w')
  then show ?case using results_D [OF stack.timeout_leaves] by (simp add: meshx_lower_trans_async_handle_tx_timeout_def)
next
  case (ack_timer d p w w')
  then show ?case using results_D [OF stack.ack_timeout_leaves] by blast
next
  case (incomplete_timer p w w')
  then show ?case using results_D [OF rx_release_leaves]
    by (simp add: meshx_lower_trans_async_handle_rx_incomplete_timeout_def)
next
  case (elsewhere w w')
  then show ?case by (simp add: same_pools_inv)
qed

lemma init_pools:
  assumes "meshx_lower_trans_init w = (MESHX_SUCCESS, w')"
  shows "pools {..<unat (trans_tx_task_num (config (mw_node w)))} {..<unat (trans_rx_task_num (config (mw_node w)))} w'"
  using assms
  by (auto simp: meshx_lower_trans_init_def on_menv_def pools_def tx_inv_def rx_inv_def tx_task_zero_def rx_task_zero_def
      lessThan_atLeast0 split: prod.splits bool.splits)

text \<open>The tasks of the transport layer are never lost and never shared: whatever arrives, is
  sent or times out, every task is in exactly one of the lists, a task holds memory exactly
  when it is not idle and a timer exactly when it is active, no two active tasks send to one
  destination, and no two receive from one source.\<close>

lemma transport_pools:
  "stack_reachable aes n m w \<Longrightarrow> pools {..<n} {..<m} w"
  by (induction rule: stack_reachable.induct) (auto intro: init_pools stack_step_pools)

text \<open>A node without interfaces sends a control message in segments: the task stays active.\<close>

definition lone_mesh :: mesh_world where
  "lone_mesh = demo_mesh\<lparr>mw_ifaces := []\<rparr>"

definition lone_ctx :: msg_ctx where
  "lone_ctx = demo_ctx\<lparr>mc_src := 2, mc_dst := 5, mc_ctl := True, mc_seg := True, mc_seq_auth := 0\<rparr>"

lemma net_packet_some: "net_sendable tp c \<Longrightarrow> net_packet demo_aes tp c v \<noteq> None"
  using net_packet_parts [OF demo_aes_block] by blast

lemma lone_net_send:
  assumes "mw_ifaces w = []" "mw_keys w = demo_store" "mw_node w = mw_node demo_mesh" "net_sendable pkt c"
    "mc_net_key c = Some (1, 0)" "mc_net_iface c = None" "mc_dst c = 5"
  shows "net_send_at d demo_aes pkt c w = Some (MESHX_ERR_INVAL_NET_IFACE, w)"
proof -
  obtain p where p: "net_packet demo_aes pkt c demo_net_value = Some p" using net_packet_some [OF assms(4)] by blast
  have l: "length pkt \<le> 20 - net_mic_len (mc_ctl c)" "length pkt \<le> 29"
    using assms(4) by (auto simp: net_sendable_def net_mic_len_def)
  have k: "net_key_at (1, 0) demo_store = Some demo_net_value"
    by (simp add: net_key_at_def demo_store_def demo_net_info_def key_store_init_def demo_net_value_def)
  have "\<not> meshx_node_is_my_address 5 (mw_node demo_mesh)"
    by (simp add: demo_mesh_def meshx_node_is_my_address_def node_default_config_def node_default_param_def)
  then show ?thesis
    using l k by (simp add: net_send_at_def meshx_net_send_def assms p net_sizes)
qed

lemma lone_init:
  assumes "meshx_lower_trans_init lone_mesh = (r, w)"
  shows "r = MESHX_SUCCESS" "mw_ifaces w = []" "mw_keys w = demo_store" "mw_node w = mw_node demo_mesh"
    "tx_idle w = [0, 1, 2]" "tx_active w = []" "tx_pending w = []" "mw_tx w = (\<lambda>_. tx_task_zero)"
    "mem_src (mw_env w) = (\<lambda>_. True)" "tmr_src (mw_env w) = (\<lambda>_. True)" "seqs (mw_iv w) = \<lparr>seq_array = Some [0], meshx_element_num = 1\<rparr>"
  using assms
  by (simp_all add: meshx_lower_trans_init_def on_menv_def lone_mesh_def demo_mesh_def meshx_malloc_ok_def ok_env_def
      node_default_config_def upt_rec, auto)

lemma lone_run:
  assumes "mw_ifaces w = []" "mw_keys w = demo_store" "mw_node w = mw_node demo_mesh" "tx_active w = []"
    "mem_src (mw_env w) = (\<lambda>_. True)" "tmr_src (mw_env w) = (\<lambda>_. True)" "seqs (mw_iv w) = \<lparr>seq_array = Some [0], meshx_element_num = 1\<rparr>"
    "tt_ctx (mw_tx w 0) = lone_ctx" "tt_pdu (mw_tx w 0) = Some [9]" "tt_pdu_len (mw_tx w 0) = 1" "tt_block_ack (mw_tx w 0) = 0"
  shows "\<exists>r w'. meshx_lower_trans_tx_task_run (net_send_at 1 demo_aes) (Suc n) 0 w = Some (r, w') \<and> tx_active w' = [0]"
proof -
  obtain r tm e where c: "meshx_timer_create (tt_timer (mw_tx w 0)) MESHX_TIMER_MODE_SINGLE_SHOT (mw_env w) = (r, tm, e)" "r = MESHX_SUCCESS"
    by (simp add: meshx_timer_create_def meshx_malloc_ok_def timer_create_ok_def assms)
  define w0 where "w0 = tx_upd 0 (\<lambda>t. t\<lparr>tt_timer := tm\<rparr>) (w\<lparr>mw_env := e\<rparr>)"
  define w1 where "w1 = w0\<lparr>tx_active := tx_active w0 @ [0]\<rparr>"
  have w1: "mw_ifaces w1 = []" "mw_keys w1 = demo_store" "mw_node w1 = mw_node demo_mesh" "tx_active w1 = [0]"
    "seqs (mw_iv w1) = \<lparr>seq_array = Some [0], meshx_element_num = 1\<rparr>"
    "tt_ctx (mw_tx w1 0) = lone_ctx" "tt_pdu (mw_tx w1 0) = Some [9]" "tt_pdu_len (mw_tx w1 0) = 1" "tt_block_ack (mw_tx w0 0) = 0"
    by (simp_all add: w1_def w0_def tx_upd_def assms)
  obtain w2 where s: "meshx_lower_trans_send_seg_msg (net_send_at 1 demo_aes) 0 0 w1 = Some (MESHX_SUCCESS, w2)" "tx_active w2 = [0]"
  proof -
    have c: "seg_size True = 8" "mc_src lone_ctx = 2" "mc_seq_auth lone_ctx = 0" "mc_ctl lone_ctx" "mc_opcode lone_ctx = 0"
      by (simp_all add: seg_size_def lower_sizes lone_ctx_def demo_ctx_def mc_zero_def mc_opcode_def)
    have n: "node_addr (param (mw_node demo_mesh)) = 2" by (rule demo_mesh_facts)
    obtain w3 where u: "element_seq_use 2 w1 = Some (0, w3)" "w3 = w1\<lparr>mw_iv := mw_iv w3\<rparr>"
      by (simp add: element_seq_use_def w1 n meshx_seq_use_def)
    define w4 where "w4 = tx_upd 0 (\<lambda>t. t\<lparr>tt_ctx := (tt_ctx t)\<lparr>mc_seq := low24 0\<rparr>\<rparr>) w3"
    have w4: "mw_ifaces w4 = []" "mw_keys w4 = demo_store" "mw_node w4 = mw_node demo_mesh" "tx_active w4 = [0]"
      "tt_ctx (mw_tx w4 0) = lone_ctx\<lparr>mc_seq := 0\<rparr>" "tt_pdu (mw_tx w4 0) = Some [9]"
      by (subst w4_def, subst u(2), simp add: w1 tx_upd_def low24_def)+
    have sendable: "net_sendable p (lone_ctx\<lparr>mc_seq := 0\<rparr>)" if "length p = 5" for p
      using that by (simp add: net_sendable_def lone_ctx_def demo_ctx_def mc_zero_def net_mic_len_def)
    have ns: "net_send_at 1 demo_aes p (lone_ctx\<lparr>mc_seq := 0\<rparr>) w4 = Some (MESHX_ERR_INVAL_NET_IFACE, w4)" if "length p = 5" for p
      by (rule lone_net_send) (simp_all add: w4 sendable that, simp_all add: lone_ctx_def demo_ctx_def mc_zero_def)
    have j: "length (junk w1 20) = 20" by (simp add: junk_def)
    have v: "MESHX_LOWER_TRANS_IS_SEQ_AUTH_VALID 0 0" by (simp add: MESHX_LOWER_TRANS_IS_SEQ_AUTH_VALID_def)
    show ?thesis
      using that ns by (simp add: meshx_lower_trans_send_seg_msg_def w1 seg_num_of_def c u(1) w4_def [symmetric] w4 v Let_def
        mem_read_def mem_write_def j seg_header_def seg_misc_def seq_bytes_def)
  qed
  have "tx_active (meshx_lower_trans_tx_timer_start 0 w2) = [0]"
    using same_pools_timer_start [of w2 0] s(2) by (simp add: same_pools_def)
  then show ?thesis
    using s(1) by (simp add: c w0_def [symmetric] w1_def [symmetric] Let_def w1)
qed


lemma lone_send:
  assumes "meshx_lower_trans_init lone_mesh = (MESHX_SUCCESS, w)"
  shows "\<exists>r c' w'. meshx_upper_trans_send demo_aes (net_send_at 1 demo_aes) [9] lone_ctx w = Some (r, c', w') \<and> tx_active w' = [0]"
proof -
  note w = lone_init [OF assms]
  obtain w1 where m: "on_menv meshx_malloc_ok w = (True, w1)" "w1 = w\<lparr>mw_env := mw_env w1\<rparr>"
    "mem_src (mw_env w1) = (\<lambda>_. True)" "tmr_src (mw_env w1) = (\<lambda>_. True)"
    by (simp add: on_menv_def meshx_malloc_ok_def w)
  have w1: "mw_ifaces w1 = []" "mw_keys w1 = demo_store" "mw_node w1 = mw_node demo_mesh" "tx_active w1 = []"
    "seqs (mw_iv w1) = \<lparr>seq_array = Some [0], meshx_element_num = 1\<rparr>"
    by (subst m(2), simp add: w)+
  define w2 where "w2 = tx_upd 0 (\<lambda>t. t\<lparr>tt_ctx := lone_ctx, tt_pdu := Some [9], tt_pdu_len := 1,
      tt_seg_bits := tt_seg_bits t OR low_bits 1\<rparr>)
    (tx_upd 0 (\<lambda>t. t\<lparr>tt_pdu := Some (junk w1 1), tt_retry := 0, tt_block_ack := 0, tt_seg_bits := 0\<rparr>) (w1\<lparr>tx_idle := [1, 2]\<rparr>))"
  have w2: "mw_ifaces w2 = []" "mw_keys w2 = demo_store" "mw_node w2 = mw_node demo_mesh" "tx_active w2 = []"
    "mem_src (mw_env w2) = (\<lambda>_. True)" "tmr_src (mw_env w2) = (\<lambda>_. True)" "seqs (mw_iv w2) = \<lparr>seq_array = Some [0], meshx_element_num = 1\<rparr>"
    "tt_ctx (mw_tx w2 0) = lone_ctx" "tt_pdu (mw_tx w2 0) = Some [9]" "tt_pdu_len (mw_tx w2 0) = 1" "tt_block_ack (mw_tx w2 0) = 0"
    by (simp_all add: w2_def tx_upd_def w1 m(3,4))
  have c: "mc_net_iface lone_ctx = None" "mc_ctl lone_ctx" "mc_dst lone_ctx = 5" "mc_seg lone_ctx"
    by (simp_all add: lone_ctx_def demo_ctx_def mc_zero_def)
  have v: "MESHX_ADDRESS_IS_VALID 5" by (simp add: MESHX_ADDRESS_IS_VALID_def MESHX_ADDRESS_IS_RFU_def word_le_nat_alt)
  have i: "lone_ctx\<lparr>mc_seg := True\<rparr> = lone_ctx" by (simp add: lone_ctx_def)
  obtain r w' where r: "meshx_lower_trans_tx_task_run (net_send_at 1 demo_aes) (tx_turns w2) 0 w2 = Some (r, w')" "tx_active w' = [0]"
    using lone_run [OF w2, of "Suc (2 * length (tx_pending w2))"] by (auto simp: tx_turns_def)
  have "meshx_lower_trans_process_seg_msg (net_send_at 1 demo_aes) [9] 8 lone_ctx w = Some (r, w')"
  proof -
    have q: "meshx_lower_trans_tx_task_request 1 w = (Some 0, tx_upd 0 (\<lambda>t. t\<lparr>tt_pdu := Some (junk w1 1), tt_retry := 0,
        tt_block_ack := 0, tt_seg_bits := 0\<rparr>) (w1\<lparr>tx_idle := [1, 2]\<rparr>))"
      by (simp add: meshx_lower_trans_tx_task_request_def w(5) m(1))
    have n: "seg_num_of 1 8 = 1" "\<not> MESHX_LOWER_TRANS_MAX_SEG_SIZE < 1" "word_of_nat (length [9 :: u8]) = (1 :: u16)"
      by (simp_all add: seg_num_of_def lower_sizes)
    have t: "meshx_lower_trans_tx_task_try (net_send_at 1 demo_aes) 0 w2 = Some (r, w')"
      unfolding meshx_lower_trans_tx_task_try_def w2(4) using r(1) by simp
    have e: "\<not> meshx_lower_trans_is_tx_task_exist lone_ctx w" by (simp add: meshx_lower_trans_is_tx_task_exist_def w(6))
    show ?thesis
      unfolding meshx_lower_trans_process_seg_msg_def Let_def n(3) n(1) q using n(2) e t by (simp add: w2_def)
  qed
  then show ?thesis
    using r(2) by (simp add: meshx_upper_trans_send_def c v i meshx_lower_trans_send_def MESHX_MAX_CTL_PDU_SIZE_def seg_size_def lower_sizes)
qed

end
