(* ===== verification/Mesh_Seg_Facts.thy ===== *)
theory Mesh_Seg_Facts
  imports Mesh_Lower_Facts Mesh_Net_Facts
begin

text \<open>
  Segmentation and reassembly of the lower transport layer.  The segments a task sends are
  received, in any order and with repetitions, as the pdu they were cut from.
\<close>

section \<open>The header of a segment\<close>

lemma mask_0x1f: "(0x1f :: u32) = mask 5" and mask_0x1fff: "(0x1fff :: u32) = mask 13"
  by (simp_all add: mask_eq_exp_minus_1)

lemma misc_fields:
  assumes "segn < 32" "sego < 32"
  shows "misc_segn (seg_misc segn sego z f) = segn" "misc_sego (seg_misc segn sego z f) = sego"
    "misc_seq_zero (seg_misc segn sego z f) = z AND 0x1fff" "misc_szmic (seg_misc segn sego z f) = f"
proof -
  define v where "v = ((ucast segn AND 0x1f) OR push_bit 5 (ucast sego AND 0x1f) OR push_bit 10 (z AND 0x1fff) OR
      push_bit 23 (of_bool f) :: u32)"
  have n: "unat segn < 2 ^ 5" "unat sego < 2 ^ 5" using assms by (simp_all add: word_less_nat_alt)
  have b: "bit v i \<longleftrightarrow> i < 5 \<and> bit segn i \<or> 5 \<le> i \<and> i < 10 \<and> bit sego (i - 5) \<or>
      10 \<le> i \<and> i < 23 \<and> bit z (i - 10) \<or> i = 23 \<and> f" for i
  proof -
    consider "i < 5" | "5 \<le> i" "i < 10" | "10 \<le> i" "i < 23" | "i = 23" | "23 < i" by linarith
    then show ?thesis unfolding v_def mask_0x1f mask_0x1fff
      by cases (auto simp: bit_simps)
  qed
  have "unat v < 2 ^ 24"
  proof -
    have "take_bit 24 v = v" by (rule bit_word_eqI) (auto simp: bit_simps b)
    then have "unat (take_bit 24 v) = unat v" by simp
    then show ?thesis by (metis take_bit_nat_less_exp unsigned_take_bit_eq)
  qed
  from seq_bytes_fields [OF this] have m: "misc_value (seg_misc segn sego z f) = v"
    unfolding misc_value_def seg_misc_def v_def [symmetric] seq_bytes_def by simp
  show "misc_segn (seg_misc segn sego z f) = segn" unfolding misc_segn_def m mask_0x1f
    by (rule bit_word_eqI) (auto simp: bit_simps b dest: bit_below [OF n(1)])
  show "misc_sego (seg_misc segn sego z f) = sego" unfolding misc_sego_def m mask_0x1f
    by (rule bit_word_eqI) (auto simp: bit_simps b dest: bit_below [OF n(2)])
  show "misc_seq_zero (seg_misc segn sego z f) = z AND 0x1fff" unfolding misc_seq_zero_def m mask_0x1fff
    by (rule bit_word_eqI) (auto simp: bit_simps b)
  show "misc_szmic (seg_misc segn sego z f) = f" unfolding misc_szmic_def m by (simp add: b)
qed

text \<open>SeqZero and a later sequence number determine SeqAuth.\<close>

lemma div_window:
  assumes "A \<le> S" "S - A < (c :: nat)"
  shows "S div c = A div c + (if S mod c < A mod c then 1 else 0)"
proof -
  define x where "x = A mod c + (S - A)"
  have "S = x + c * (A div c)" using assms(1) div_mult_mod_eq [of A c] by (simp add: x_def algebra_simps)
  then have s: "S div c = A div c + x div c" "S mod c = x mod c" using assms(2) by simp_all
  have c: "A mod c < c" using assms(2) by simp
  show ?thesis
  proof (cases "x < c")
    case True
    then show ?thesis by (simp add: s) (simp add: x_def)
  next
    case False
    moreover have "x - c < c" using assms(2) c unfolding x_def by linarith
    ultimately have "x div c = 1" "x mod c = x - c" using c by (simp_all add: le_div_geq le_mod_geq)
    moreover have "x - c < A mod c" using assms(2) c False by (simp add: x_def)
    ultimately show ?thesis by (simp add: s)
  qed
qed

lemma seq_auth_window:
  assumes "a \<le> s" "s - a < 0x2000"
  shows "MESHX_LOWER_TRANS_SEQ_AUTH (MESHX_LOWER_TRANS_SEQ_ZERO a) s = a"
proof -
  define A S where "A = unat a" and "S = unat s"
  have le: "A \<le> S" using assms(1) by (simp add: A_def S_def word_le_nat_alt)
  have d: "S - A < 8192" using assms by (simp add: A_def S_def word_less_nat_alt unat_sub)
  have z: "x AND 0x1fff = word_of_nat (unat x mod 8192)" for x :: u32
  proof -
    have "x AND 0x1fff = take_bit 13 x" by (simp add: mask_0x1fff take_bit_eq_mask)
    moreover have "unat (take_bit 13 x) = unat x mod 8192"
      using take_bit_eq_mod [of 13 "unat x"] by (simp only: unsigned_take_bit_eq) simp
    ultimately show ?thesis by (metis of_nat_unat ucast_id)
  qed
  have nz: "x AND NOT 0x1fff = x - (x AND 0x1fff)" for x :: u32
  proof -
    have "x = (x AND NOT 0x1fff) OR (x AND 0x1fff)"
      unfolding mask_0x1fff by (rule bit_word_eqI) (auto simp: bit_simps)
    also have "\<dots> = (x AND NOT 0x1fff) + (x AND 0x1fff)"
      unfolding mask_0x1fff by (rule disjunctive_add [symmetric]) (auto simp: bit_simps)
    finally show ?thesis by (rule eq_diff_eq [THEN iffD2, OF sym])
  qed
  define e where "e = (if A mod 8192 > S mod 8192 then 1 else 0 :: nat)"
  have div: "S div 8192 = A div 8192 + e" using div_window [OF le d] unfolding e_def by simp
  have hs: "s - (s AND 0x1fff) = word_of_nat (S div 8192 * 8192)"
  proof -
    have "s = word_of_nat (S div 8192 * 8192) + word_of_nat (S mod 8192)"
      by (metis S_def of_nat_add of_nat_unat ucast_id div_mult_mod_eq)
    then show ?thesis unfolding z S_def by (metis add_diff_cancel_right')
  qed
  have ha: "a = word_of_nat (A div 8192 * 8192) + word_of_nat (A mod 8192)"
    by (metis A_def of_nat_add of_nat_unat ucast_id div_mult_mod_eq)
  have g: "a AND 0x1fff > s AND 0x1fff \<longleftrightarrow> e = 1"
    unfolding z by (simp add: e_def A_def S_def word_less_nat_alt unsigned_of_nat take_bit_eq_mod)
  define lo hi where "lo = a AND 0x1fff" and "hi = (word_of_nat (A div 8192 * 8192) :: u32)"
  have h: "a = hi + lo" using ha unfolding lo_def hi_def z A_def .
  have "word_of_nat ((A div 8192 + e) * 8192) = hi + (if e = 1 then 0x2000 else 0)"
    by (simp add: e_def hi_def algebra_simps)
  then show ?thesis
    unfolding MESHX_LOWER_TRANS_SEQ_AUTH_def MESHX_LOWER_TRANS_SEQ_ZERO_def nz hs div g
    unfolding lo_def [symmetric]
    by (subst h) simp
qed

text \<open>The bits of the segments of a message.\<close>

lemma low_bits_bit: "unat n < 32 \<Longrightarrow> bit (low_bits n) i \<longleftrightarrow> i < unat n"
proof -
  have "m < 32 \<Longrightarrow> bit (foldl (\<lambda>b i. b OR push_bit i (1 :: u32)) 0 [0..<m]) i \<longleftrightarrow> i < m" for m
    by (induction m) (auto simp: bit_simps)
  then show "unat n < 32 \<Longrightarrow> bit (low_bits n) i \<longleftrightarrow> i < unat n" unfolding low_bits_def .
qed

section \<open>The chunks of a pdu\<close>

definition low_chunk :: "nat \<Rightarrow> bytes \<Rightarrow> nat \<Rightarrow> bytes" where
  "low_chunk sz P i = take sz (drop (i * sz) P)"

definition low_count :: "nat \<Rightarrow> bytes \<Rightarrow> nat" where
  "low_count sz P = (length P + sz - 1) div sz"

lemma low_count_bounds:
  assumes "0 < sz" "P \<noteq> []"
  shows "i < low_count sz P \<longleftrightarrow> i * sz < length P" "0 < low_count sz P"
    "Suc i = low_count sz P \<Longrightarrow> length P \<le> Suc i * sz"
proof -
  have c: "low_count sz P = Suc ((length P - 1) div sz)"
    using assms by (cases "length P") (auto simp: low_count_def div_add_self2)
  show "0 < low_count sz P" by (simp add: c)
  have i: "i < low_count sz P \<longleftrightarrow> i * sz < length P" for i
    using assms by (cases "length P") (auto simp: c less_Suc_eq_le less_eq_div_iff_mult_less_eq)
  show "i < low_count sz P \<longleftrightarrow> i * sz < length P" by (rule i)
  show "Suc i = low_count sz P \<Longrightarrow> length P \<le> Suc i * sz" using i [of "Suc i"] by simp
qed

lemma low_chunk_length:
  assumes "0 < sz" "P \<noteq> []" "i < low_count sz P"
  shows "length (low_chunk sz P i) = (if Suc i = low_count sz P then length P - i * sz else sz)"
    "0 < length (low_chunk sz P i)" "length (low_chunk sz P i) \<le> sz"
  using low_count_bounds(1,3) [OF assms(1,2), of i] low_count_bounds(1) [OF assms(1,2), of "Suc i"] assms
  by (auto simp: low_chunk_def)

lemma low_chunk_total:
  assumes "0 < sz" "P \<noteq> []"
  shows "(\<Sum>i < low_count sz P. length (low_chunk sz P i)) = length P"
proof -
  have s: "(\<Sum>i < m. length (low_chunk sz P i)) = min (m * sz) (length P)" for m
    by (induction m) (auto simp: low_chunk_def)
  obtain m where m: "low_count sz P = Suc m" using low_count_bounds(2) [OF assms] by (cases "low_count sz P") auto
  show ?thesis unfolding s using low_count_bounds(3) [OF assms, of m] m by simp
qed

lemma low_chunk_concat:
  assumes "0 < sz" "length buf = n * sz" "\<forall>i < n. take (length (low_chunk sz P i)) (drop (i * sz) buf) = low_chunk sz P i"
    "length P \<le> n * sz"
  shows "take (length P) buf = P"
proof (rule nth_equalityI)
  show "length (take (length P) buf) = length P" using assms by simp
  fix k assume k: "k < length (take (length P) buf)"
  define i where "i = k div sz"
  have d: "k = i * sz + k mod sz" "k mod sz < sz" using assms(1) by (simp_all add: i_def)
  have i: "i < n" using k assms by (simp add: i_def less_mult_imp_div_less)
  have "k mod sz < length (low_chunk sz P i)" using d k assms by (simp add: low_chunk_def)
  then have "low_chunk sz P i ! (k mod sz) = drop (i * sz) buf ! (k mod sz)"
    using assms(3) i by (metis nth_take)
  moreover have "low_chunk sz P i ! (k mod sz) = P ! k" using d k assms by (simp add: low_chunk_def)
  moreover have "drop (i * sz) buf ! (k mod sz) = buf ! (i * sz + k mod sz)" using i assms by (intro nth_drop) simp
  ultimately show "take (length P) buf ! k = P ! k" using k d(1) by simp
qed

section \<open>Sending\<close>

text \<open>A network layer that records what it is given.\<close>

definition net_log :: net_sender where
  "net_log pkt c w = Some (MESHX_SUCCESS, w\<lparr>mw_delivered := mw_delivered w @ [(pkt, c)]\<rparr>)"

text \<open>The next sequence number of an element is \<^verbatim>\<open>q\<close>, and there are \<^verbatim>\<open>m\<close> more.\<close>

definition seq_ready :: "u16 \<Rightarrow> u32 \<Rightarrow> nat \<Rightarrow> mesh_world \<Rightarrow> bool" where
  "seq_ready src q m w \<longleftrightarrow>
    (let e = ucast (src - node_addr (param (mw_node w))) :: u8; s = seqs (mw_iv w) in
     e < meshx_element_num s \<and> unat q + m \<le> 0xFFFFFF \<and>
     (case seq_array s of None \<Rightarrow> False | Some arr \<Rightarrow> unat e < length arr \<and> arr ! unat e = q))"

lemma seq_ready_use:
  assumes "seq_ready src q (Suc m) w"
  shows "\<exists>x. element_seq_use src w = Some (q, w\<lparr>mw_iv := x\<rparr>) \<and> seq_ready src (q + 1) m (w\<lparr>mw_iv := x\<rparr>)"
proof -
  obtain arr where arr: "seq_array (seqs (mw_iv w)) = Some arr" using assms by (auto simp: seq_ready_def Let_def split: option.splits)
  have u: "unat (q + 1) = Suc (unat q)"
    using assms by (simp add: seq_ready_def Let_def unat_add_lem [THEN iffD1])
  have "MESHX_SEQ_MAX \<noteq> q" using assms by (auto simp: seq_ready_def Let_def MESHX_SEQ_MAX_def)
  then show ?thesis
    using assms arr u by (auto simp: element_seq_use_def meshx_seq_use_def seq_ready_def Let_def not_le)
qed

definition seg_first :: "msg_ctx \<Rightarrow> u8" where
  "seg_first c = (if mc_ctl c then ctl_metadata (mc_opcode c) True
    else access_metadata (mc_akf c) (if mc_akf c then mc_aid c else 0) True)"

text \<open>Segment \<^verbatim>\<open>i\<close> of a message, sent with the sequence number \<^verbatim>\<open>s\<close>.  The bit above SeqZero
  of a control segment is not determined.\<close>

definition seg_of :: "msg_ctx \<Rightarrow> bytes \<Rightarrow> nat \<Rightarrow> u32 \<Rightarrow> bytes \<times> msg_ctx \<Rightarrow> bool" where
  "seg_of c P i s x \<longleftrightarrow> snd x = c\<lparr>mc_seq := s\<rparr> \<and>
    (\<exists>f. fst x = seg_first c # seg_misc (word_of_nat (low_count (seg_size (mc_ctl c)) P - 1)) (word_of_nat i)
        (MESHX_LOWER_TRANS_SEQ_ZERO (mc_seq_auth c)) f @ low_chunk (seg_size (mc_ctl c)) P i \<and>
      (\<not> mc_ctl c \<longrightarrow> f = mc_szmic c))"

lemma seg_size_bounds: "0 < seg_size b" "seg_size b \<le> 12"
  by (simp_all add: seg_size_def lower_sizes)

lemma low24_id: "unat q \<le> 0xFFFFFF \<Longrightarrow> low24 q = q"
proof -
  have m: "(0xFFFFFF :: u32) = mask 24" by (simp add: mask_eq_exp_minus_1)
  assume "unat q \<le> 0xFFFFFF"
  then have n: "unat q < 2 ^ 24" by simp
  show ?thesis unfolding low24_def m by (intro bit_word_eqI) (auto simp: bit_simps dest: bit_below [OF n])
qed

lemma length_seg_misc [simp]: "length (seg_misc n i z f) = 3"
  by (simp add: seg_misc_def seq_bytes_def)

lemma seg_header_buffer:
  assumes "length buf = 20" "length h = 4" "length d \<le> 16"
  shows "mem_write buf 0 h = Some (h @ drop 4 buf)"
    "mem_write (h @ drop 4 buf) 4 d = Some (h @ d @ drop (4 + length d) buf)"
  using assms by (simp_all add: mem_write_def add.commute)

lemma send_seg_step:
  assumes "\<not> bit block_ack (unat i)" "element_seq_use (mc_src (tt_ctx (mw_tx w p))) w = Some (seq, w0)"
    "tx_upd p (\<lambda>t. t\<lparr>tt_ctx := (tt_ctx t)\<lparr>mc_seq := low24 seq\<rparr>\<rparr>) w0 = w1" "tt_ctx (mw_tx w1 p) = c"
    "MESHX_LOWER_TRANS_IS_SEQ_AUTH_VALID (mc_seq c) (mc_seq_auth c)" "tt_pdu (mw_tx w1 p) = Some ppdu"
    "(if unat seg_num = unat i + 1 then ucast (pdu_len - data_offset) else word_of_nat (seg_size (mc_ctl (tt_ctx (mw_tx w p))))) = (seg_len :: u8)"
    "mem_read ppdu (unat data_offset) (unat seg_len) = Some d" "mem_write pdu 0 (seg_header c (seg_num - 1) i pdu) = Some pdu1"
    "mem_write pdu1 4 d = Some pdu2"
  shows "send_seg_loop ns p pdu_len seg_num block_ack (i # js) data_offset pdu w = do {
    (_, w) \<leftarrow> ns (take (4 + unat seg_len) pdu2) c w1;
    send_seg_loop ns p pdu_len seg_num block_ack js (data_offset + ucast seg_len) pdu2 w }"
  using assms by (cases "unat seg_num = unat i + 1") (simp_all add: Let_def)

text \<open>The length the sender computes for a segment, and the bytes it reads.\<close>

lemma seg_len_chunk:
  assumes "P \<noteq> []" "n = low_count sz P" "n \<le> 31" "0 < sz" "sz \<le> 12" "i < n"
  shows "(if unat (word_of_nat n :: u8) = unat (word_of_nat i :: u8) + 1
      then ucast (word_of_nat (length P) - word_of_nat (i * sz) :: u16) else word_of_nat sz) = (word_of_nat (length (low_chunk sz P i)) :: u8)"
    "unat (word_of_nat (length (low_chunk sz P i)) :: u8) = length (low_chunk sz P i)" "length (low_chunk sz P i) \<le> 12"
    "unat (word_of_nat (i * sz) :: u16) = i * sz" "mem_read P (i * sz) (length (low_chunk sz P i)) = Some (low_chunk sz P i)"
    "Suc i < n \<Longrightarrow> word_of_nat (i * sz) + ucast (word_of_nat (length (low_chunk sz P i)) :: u8) = (word_of_nat (Suc i * sz) :: u16)"
    "unat (word_of_nat (length P) :: u16) = length P" "unat (word_of_nat i :: u8) = i" "unat (word_of_nat n :: u8) = n"
proof -
  note len = low_chunk_length [OF assms(4,1) assms(6) [unfolded assms(2)], folded assms(2)]
  have P: "i * sz < length P" "length P \<le> n * sz"
    using low_count_bounds(1) [OF assms(4,1), of i] low_count_bounds(3) [OF assms(4,1), of "n - 1"] assms(2,6) by simp_all
  have b: "n * sz \<le> 31 * 12" using mult_le_mono [OF assms(3,5)] by simp
  then show u: "unat (word_of_nat i :: u8) = i" "unat (word_of_nat n :: u8) = n" "unat (word_of_nat (length P) :: u16) = length P"
    "unat (word_of_nat (i * sz) :: u16) = i * sz"
    using assms(3,6) P by (simp_all add: unsigned_of_nat take_bit_nat_eq_self del: of_nat_mult)
  have "word_of_nat (length P) - word_of_nat (i * sz) = (word_of_nat (length P - i * sz) :: u16)"
    using P(1) by (simp add: of_nat_diff del: of_nat_mult)
  moreover have "ucast (word_of_nat (length P - i * sz) :: u16) = (word_of_nat (length P - i * sz) :: u8)"
    using P b by (simp only: unsigned_of_nat) (simp add: take_bit_nat_eq_self)
  ultimately show "(if unat (word_of_nat n :: u8) = unat (word_of_nat i :: u8) + 1
      then ucast (word_of_nat (length P) - word_of_nat (i * sz) :: u16) else word_of_nat sz) = (word_of_nat (length (low_chunk sz P i)) :: u8)"
    using len(1) u(1,2) by (simp only: split: if_splits) auto
  show d: "unat (word_of_nat (length (low_chunk sz P i)) :: u8) = length (low_chunk sz P i)" "length (low_chunk sz P i) \<le> 12"
    using len(3) assms(5) by (simp_all add: unsigned_of_nat take_bit_nat_eq_self)
  show "mem_read P (i * sz) (length (low_chunk sz P i)) = Some (low_chunk sz P i)"
    using P(1) by (auto simp: mem_read_def low_chunk_def min_def)
  show "word_of_nat (i * sz) + ucast (word_of_nat (length (low_chunk sz P i)) :: u8) = (word_of_nat (Suc i * sz) :: u16)" if "Suc i < n"
    using that len(1) assms(5) by (simp add: unsigned_of_nat take_bit_nat_eq_self)
qed

text \<open>The segments from the \<^verbatim>\<open>i\<close>th on.\<close>

lemma send_loop_log:
  assumes "P \<noteq> []" "n = low_count sz P" "n \<le> 31" "sz = seg_size (mc_ctl c)"
  shows "seq_ready (mc_src c) q m w \<Longrightarrow> m = n - i \<Longrightarrow> i \<le> n \<Longrightarrow> mc_seq_auth c \<le> q \<Longrightarrow>
    unat q + m \<le> unat (mc_seq_auth c) + 0x2000 \<Longrightarrow>
    tt_ctx (mw_tx w p) = c\<lparr>mc_seq := s\<rparr> \<Longrightarrow> tt_pdu (mw_tx w p) = Some P \<Longrightarrow> length buf = 20 \<Longrightarrow> buf ! 0 = seg_first c \<Longrightarrow>
    \<exists>w' L. send_seg_loop net_log p (word_of_nat (length P)) (word_of_nat n) 0 (map word_of_nat [i..<n]) (word_of_nat (i * sz)) buf w =
        Some (MESHX_SUCCESS, w') \<and> mw_delivered w' = mw_delivered w @ L \<and> length L = m \<and>
      (\<forall>k < m. seg_of c P (i + k) (q + word_of_nat k) (L ! k))"
proof (induction m arbitrary: i q s w buf)
  case 0
  then show ?case by simp
next
  case (Suc m)
  have i: "i < n" and js: "[i..<n] = i # [Suc i..<n]" using Suc.prems(2) by (simp_all add: upt_conv_Cons)
  have sz: "0 < sz" "sz \<le> 12" using seg_size_bounds assms(4) by simp_all
  define d where "d = low_chunk sz P i"
  note sl = seg_len_chunk [OF assms(1-3) sz i, folded d_def]
  note seg_len = sl(1) and d = sl(2,3) and rd = sl(5)
  obtain x where x: "element_seq_use (mc_src c) w = Some (q, w\<lparr>mw_iv := x\<rparr>)" "seq_ready (mc_src c) (q + 1) m (w\<lparr>mw_iv := x\<rparr>)"
    using seq_ready_use [OF Suc.prems(1)] by blast
  have q: "unat q + Suc m \<le> 0xFFFFFF" using Suc.prems(1) by (simp add: seq_ready_def Let_def)
  have v: "MESHX_LOWER_TRANS_IS_SEQ_AUTH_VALID q (mc_seq_auth c)"
    using Suc.prems(4,5) by (simp add: MESHX_LOWER_TRANS_IS_SEQ_AUTH_VALID_def word_less_nat_alt unat_sub word_le_nat_alt)
  define w1 where "w1 = tx_upd p (\<lambda>t. t\<lparr>tt_ctx := (tt_ctx t)\<lparr>mc_seq := low24 q\<rparr>\<rparr>) (w\<lparr>mw_iv := x\<rparr>)"
  have w1: "tt_ctx (mw_tx w1 p) = c\<lparr>mc_seq := q\<rparr>" "tt_pdu (mw_tx w1 p) = Some P" "seq_ready (mc_src c) (q + 1) m w1"
    "mw_delivered w1 = mw_delivered w"
    using x(2) Suc.prems(6,7) low24_id [of q] q by (simp_all add: w1_def tx_upd_def seq_ready_def)
  define h where "h = seg_header (c\<lparr>mc_seq := q\<rparr>) (word_of_nat n - 1) (word_of_nat i) buf"
  have h: "length h = 4" by (simp add: h_def seg_header_def)
  define buf' where "buf' = h @ d @ drop (4 + length d) buf"
  have h0: "h ! 0 = seg_first c" using Suc.prems(9) by (simp add: h_def seg_header_def)
  then have buf': "length buf' = 20" "buf' ! 0 = seg_first c" "take (4 + length d) buf' = h @ d"
    using h d(2) Suc.prems(8) by (simp_all add: buf'_def nth_append)
  define w2 where "w2 = w1\<lparr>mw_delivered := mw_delivered w1 @ [(h @ d, c\<lparr>mc_seq := q\<rparr>)]\<rparr>"
  have w2: "tt_ctx (mw_tx w2 p) = c\<lparr>mc_seq := q\<rparr>" "tt_pdu (mw_tx w2 p) = Some P" "seq_ready (mc_src c) (q + 1) m w2"
    "mw_delivered w2 = mw_delivered w @ [(h @ d, c\<lparr>mc_seq := q\<rparr>)]"
    using w1 by (simp_all add: w2_def seq_ready_def)
  have e: "send_seg_loop net_log p (word_of_nat (length P)) (word_of_nat n) 0 (map word_of_nat [i..<n]) (word_of_nat (i * sz)) buf w =
    send_seg_loop net_log p (word_of_nat (length P)) (word_of_nat n) 0 (map word_of_nat [Suc i..<n])
      (word_of_nat (i * sz) + ucast (word_of_nat (length d) :: u8)) buf' w2"
    unfolding js list.map
  proof (subst send_seg_step [where seg_len = "word_of_nat (length d)" and d = d and ?pdu1.0 = "h @ drop 4 buf" and ?pdu2.0 = buf' and
        ?w0.0 = "w\<lparr>mw_iv := x\<rparr>" and seq = q and ppdu = P and c = "c\<lparr>mc_seq := q\<rparr>" and ?w1.0 = w1])
    have "seg_size (mc_ctl (tt_ctx (mw_tx w p))) = sz" using Suc.prems(6) assms(4) by simp
    with seg_len show "(if unat (word_of_nat n :: u8) = unat (word_of_nat i :: u8) + 1
        then ucast (word_of_nat (length P) - word_of_nat (i * sz) :: u16)
        else word_of_nat (seg_size (mc_ctl (tt_ctx (mw_tx w p))))) = (word_of_nat (length d) :: u8)" by metis
  qed (use rd d seg_header_buffer [OF Suc.prems(8) h, of d] x(1) v Suc.prems(6) sl(4) w1 buf'(3)
    in \<open>simp_all add: h_def [symmetric] w1_def [symmetric] buf'_def [symmetric] net_log_def w2_def del: of_nat_mult\<close>)
  have g: "seg_of c P i q (h @ d, c\<lparr>mc_seq := q\<rparr>)"
  proof -
    have "word_of_nat n - 1 = (word_of_nat (n - 1) :: u8)" using i by (simp add: of_nat_diff)
    then have "h = seg_first c # seg_misc (word_of_nat (n - 1)) (word_of_nat i) (MESHX_LOWER_TRANS_SEQ_ZERO (mc_seq_auth c))
        (if mc_ctl c then bit (buf ! 3) 7 else mc_szmic c)"
      using Suc.prems(9) by (simp add: h_def seg_header_def mc_szmic_def)
    then show ?thesis using assms(2,4) by (auto simp: seg_of_def d_def)
  qed
  show ?case
  proof (cases m)
    case 0
    then have "[Suc i..<n] = []" using Suc.prems(2) by simp
    then show ?thesis unfolding e using 0 g w2(4) by auto
  next
    case (Suc k)
    then have off: "word_of_nat (i * sz) + ucast (word_of_nat (length d) :: u8) = (word_of_nat (Suc i * sz) :: u16)"
      using sl(6) Suc.prems(2) by simp
    have u1: "unat (q + 1) = Suc (unat q)" using q by (simp add: unat_add_lem [THEN iffD1])
    have pre: "m = n - Suc i" "Suc i \<le> n" "mc_seq_auth c \<le> q + 1" "unat (q + 1) + m \<le> unat (mc_seq_auth c) + 0x2000"
      using Suc.prems(2,4,5) u1 i by (simp_all add: word_le_nat_alt)
    obtain w' L where L: "send_seg_loop net_log p (word_of_nat (length P)) (word_of_nat n) 0 (map word_of_nat [Suc i..<n])
        (word_of_nat (Suc i * sz)) buf' w2 = Some (MESHX_SUCCESS, w')"
      "mw_delivered w' = mw_delivered w2 @ L" "length L = m" "\<And>k. k < m \<Longrightarrow> seg_of c P (Suc i + k) (q + 1 + word_of_nat k) (L ! k)"
      using Suc.IH [OF w2(3) pre w2(1,2) buf'(1,2)] by auto
    have "seg_of c P (i + k) (q + word_of_nat k) (((h @ d, c\<lparr>mc_seq := q\<rparr>) # L) ! k)" if "k < Suc m" for k
      using that g L(4) [of "k - 1"] by (cases k) (auto simp: algebra_simps)
    then show ?thesis unfolding e off using L(1-3) w2(4) by auto
  qed
qed

lemma send_seg_log:
  assumes "P \<noteq> []" "n = low_count (seg_size (mc_ctl c)) P" "n \<le> 31"
    and "tt_ctx (mw_tx w p) = c" "tt_pdu (mw_tx w p) = Some P" "tt_pdu_len (mw_tx w p) = word_of_nat (length P)"
    and "seq_ready (mc_src c) q n w" "mc_seq_auth c \<le> q" "unat q + n \<le> unat (mc_seq_auth c) + 0x2000"
  shows "\<exists>w' L. meshx_lower_trans_send_seg_msg net_log p 0 w = Some (MESHX_SUCCESS, w') \<and>
    mw_delivered w' = mw_delivered w @ L \<and> length L = n \<and> (\<forall>i < n. seg_of c P i (q + word_of_nat i) (L ! i))"
proof -
  have sz: "0 < seg_size (mc_ctl c)" "seg_size (mc_ctl c) \<le> 12" by (rule seg_size_bounds)+
  have "length P \<le> n * seg_size (mc_ctl c)"
    using low_count_bounds(3) [OF sz(1) assms(1), of "n - 1"] low_count_bounds(2) [OF sz(1) assms(1)] assms(2) by simp
  then have "length P \<le> 31 * 12" using mult_le_mono [OF assms(3) sz(2)] by simp
  then have u: "unat (word_of_nat (length P) :: u16) = length P" "unat (word_of_nat n :: u8) = n"
    using assms(3) by (simp_all add: unsigned_of_nat take_bit_nat_eq_self)
  have n: "seg_num_of (word_of_nat (length P)) (seg_size (mc_ctl c)) = word_of_nat n"
    unfolding seg_num_of_def u(1) assms(2) low_count_def ..
  have b: "length (x # drop 1 (junk w 20)) = 20" for x by simp
  have c: "c = c\<lparr>mc_seq := mc_seq c\<rparr>" by simp
  show ?thesis
    using send_loop_log [OF assms(1-3) refl assms(7), of 0 p "mc_seq c" "seg_first c # drop 1 (junk w 20)"] assms(4,5,8,9) b
    unfolding meshx_lower_trans_send_seg_msg_def Let_def assms(4,6) n u(2) seg_first_def by auto
qed

section \<open>Receiving\<close>

text \<open>The context a segment arrives with, as the network layer makes it.\<close>

definition seg_arrives :: "nat \<times> nat \<Rightarrow> nat \<Rightarrow> msg_ctx \<Rightarrow> msg_ctx" where
  "seg_arrives key a c = mc_zero\<lparr>mc_ctl := mc_ctl c, mc_ttl := mc_ttl c, mc_src := mc_src c, mc_dst := mc_dst c,
    mc_iv_index := mc_iv_index c, mc_seq := mc_seq c, mc_net_key := Some key, mc_net_iface := Some a\<rparr>"

text \<open>Segments one after the other; behind each in its buffer are the bytes \<^verbatim>\<open>pad\<close>.\<close>

fun receive_segs :: "net_sender \<Rightarrow> pdu_receiver \<Rightarrow> bytes \<Rightarrow> (bytes \<times> msg_ctx) list \<Rightarrow> mesh_world \<Rightarrow> mesh_world option" where
  "receive_segs ns ur pad [] w = Some w"
| "receive_segs ns ur pad ((pkt, c) # l) w = do {
    (_, w) \<leftarrow> meshx_lower_trans_receive ns ur (pkt @ pad) (word_of_nat (length pkt)) c w;
    receive_segs ns ur pad l w }"

text \<open>A message whose context survives the format: a control message with an opcode other than
  that of an acknowledgement, or an access message with an AID only under an application key.\<close>

definition seg_sendable :: "msg_ctx \<Rightarrow> bytes \<Rightarrow> bool" where
  "seg_sendable c P \<longleftrightarrow> P \<noteq> [] \<and> low_count (seg_size (mc_ctl c)) P \<le> 31 \<and> unat (mc_seq_auth c) < 2 ^ 24 \<and>
    (if mc_ctl c then 0 < mc_misc c \<and> mc_misc c < 0x80 else mc_akf c \<or> mc_aid c = 0)"

lemma access_metadata_fields:
  assumes "unat k < 2 ^ 6"
  shows "bit (access_metadata b k s) 6 = b" "access_metadata b k s AND 0x3f = k" "bit (access_metadata b k s) 7 = s"
proof -
  have m: "(0x3f :: u8) = mask 6" by (simp add: mask_eq_exp_minus_1)
  show "bit (access_metadata b k s) 6 = b" "bit (access_metadata b k s) 7 = s"
    unfolding access_metadata_def m by (auto simp: bit_simps)
  show "access_metadata b k s AND 0x3f = k"
    unfolding access_metadata_def m by (rule bit_word_eqI) (auto simp: bit_simps dest: bit_below [OF assms])
qed

lemma mc_aid_below: "unat (mc_aid c) < 2 ^ 6"
proof -
  have "unat (mc_aid c) = unat (mc_misc c) div 4" by (simp add: mc_aid_def drop_bit_eq_div unat_div)
  then show ?thesis using unsigned_less [of "mc_misc c", where ?'a = nat] by simp
qed

lemma access_misc_id: "access_misc (mc_akf c) (mc_szmic c) (mc_aid c) = mc_misc c"
proof (rule bit_word_eqI)
  fix i :: nat assume i: "i < LENGTH(8)"
  consider "i = 0" | "i = 1" | j where "i = Suc (Suc j)" by (metis One_nat_def not0_implies_Suc)
  then show "bit (access_misc (mc_akf c) (mc_szmic c) (mc_aid c)) i = bit (mc_misc c) i"
    unfolding access_misc_def mc_akf_def mc_szmic_def mc_aid_def using i by cases (auto simp: bit_simps)
qed

lemma seg_ctx_arrives:
  assumes "seg_sendable c P" "mc_seq_auth c \<le> s" "s - mc_seq_auth c < 0x2000" "\<not> mc_ctl c \<longrightarrow> f = mc_szmic c"
    "n < 32" "i < 32"
  shows "seg_ctx (seg_first c) (seg_misc n i (MESHX_LOWER_TRANS_SEQ_ZERO (mc_seq_auth c)) f) (seg_arrives key a (c\<lparr>mc_seq := s\<rparr>)) =
    (seg_arrives key a (c\<lparr>mc_seq := s\<rparr>))\<lparr>mc_seq_auth := mc_seq_auth c, mc_misc := mc_misc c\<rparr>"
    "bit (seg_first c) 7" "\<not> (mc_ctl c \<and> seg_first c AND 0x7f = 0)"
proof -
  have z: "MESHX_LOWER_TRANS_SEQ_ZERO x AND 0x1fff = MESHX_LOWER_TRANS_SEQ_ZERO x" for x
    by (simp add: MESHX_LOWER_TRANS_SEQ_ZERO_def and.assoc)
  have a: "low24 (mc_seq_auth c) = mc_seq_auth c" using assms(1) by (intro low24_id) (simp add: seg_sendable_def)
  have m: "(if mc_ctl c then seg_first c AND 0x7f else access_misc (bit (seg_first c) 6) f (seg_first c AND 0x3f)) = mc_misc c"
    "bit (seg_first c) 7"
    using assms(1,4) flag7_fields [of "mc_misc c" True] access_metadata_fields [OF mc_aid_below, of "mc_akf c" c True]
      access_metadata_fields [of 0 False True] access_misc_id [of c]
    by (auto simp: seg_first_def seg_sendable_def ctl_metadata_def mc_opcode_def)
  show "bit (seg_first c) 7" by (rule m)
  show "\<not> (mc_ctl c \<and> seg_first c AND 0x7f = 0)" using m(1) assms(1) by (auto simp: seg_sendable_def)
  show "seg_ctx (seg_first c) (seg_misc n i (MESHX_LOWER_TRANS_SEQ_ZERO (mc_seq_auth c)) f) (seg_arrives key a (c\<lparr>mc_seq := s\<rparr>)) =
    (seg_arrives key a (c\<lparr>mc_seq := s\<rparr>))\<lparr>mc_seq_auth := mc_seq_auth c, mc_misc := mc_misc c\<rparr>"
    using m(1) by (cases "mc_ctl c")
      (simp_all add: seg_ctx_def misc_fields [OF assms(5,6)] z seq_auth_window [OF assms(2,3)] a seg_arrives_def)
qed

definition seg_rx_ctx :: "nat \<times> nat \<Rightarrow> nat \<Rightarrow> msg_ctx \<Rightarrow> u32 \<Rightarrow> msg_ctx" where
  "seg_rx_ctx key a c s =
    (seg_arrives key a (c\<lparr>mc_seq := s\<rparr>))\<lparr>mc_seq_auth := mc_seq_auth c, mc_misc := mc_misc c\<rparr>"

text \<open>Task \<^verbatim>\<open>t\<close> has received the segments \<^verbatim>\<open>J\<close> of the message; its length was \<^verbatim>\<open>l0\<close> before.\<close>

definition rx_partial :: "nat \<Rightarrow> msg_ctx \<Rightarrow> bytes \<Rightarrow> nat \<Rightarrow> nat set \<Rightarrow> mesh_world \<Rightarrow> bool" where
  "rx_partial l0 c P t J w \<longleftrightarrow>
    (let sz = seg_size (mc_ctl c); n = low_count sz P; T = mw_rx w t in
     find (\<lambda>p. mc_src (rt_ctx (mw_rx w p)) = mc_src c) (rx_active w) = Some t \<and>
     mc_iv_index (rt_ctx T) = mc_iv_index c \<and> mc_seq_auth (rt_ctx T) = mc_seq_auth c \<and> mc_misc (rt_ctx T) = mc_misc c \<and>
     rt_max_len T = word_of_nat (n * sz) \<and> (\<forall>i. bit (rt_not_received T) i \<longleftrightarrow> i < n \<and> i \<notin> J) \<and>
     (\<exists>buf. rt_pdu T = Some buf \<and> length buf = n * sz \<and>
       (\<forall>i \<in> J. take (length (low_chunk sz P i)) (drop (i * sz) buf) = low_chunk sz P i)) \<and>
     rt_pdu_len T = word_of_nat (l0 + (\<Sum>i \<in> J. length (low_chunk sz P i))))"

lemma same_misc: "mc_misc c = mc_misc k \<Longrightarrow> mc_opcode c = mc_opcode k" "mc_misc c = mc_misc k \<Longrightarrow> mc_akf c = mc_akf k"
  "mc_misc c = mc_misc k \<Longrightarrow> mc_aid c = mc_aid k" "mc_misc c = mc_misc k \<Longrightarrow> mc_szmic c = mc_szmic k"
  by (simp_all add: mc_opcode_def mc_akf_def mc_aid_def mc_szmic_def)

lemma receive_seg_at:
  fixes c :: msg_ctx and P :: bytes
  defines "n \<equiv> low_count (seg_size (mc_ctl c)) P"
  assumes "seg_sendable c P" "seg_of c P i s (pkt, c')" "i < n" "mc_seq_auth c \<le> s" "s - mc_seq_auth c < 0x2000"
    "meshx_lower_trans_rx_task_request (word_of_nat (n * seg_size (mc_ctl c))) (seg_rx_ctx key a c s) w = (Some t, w1)"
    "rx_partial l0 c P t J w1" "J \<subset> {..<n}"
  shows "meshx_lower_trans_receive ns ur (pkt @ pad) (word_of_nat (length pkt)) (seg_arrives key a (c\<lparr>mc_seq := s\<rparr>)) w =
    (if i \<in> J then Some (MESHX_ERR_ALREADY, w1)
     else if n = 1 then rx_single ns ur (pkt @ pad) (word_of_nat (length pkt)) t (seg_rx_ctx key a c s) w1
     else rx_segment ns ur (pkt @ pad) (word_of_nat (length pkt)) (word_of_nat i) (word_of_nat (n - 1)) t (seg_rx_ctx key a c s) w1)"
proof -
  obtain f where pkt: "pkt = seg_first c # seg_misc (word_of_nat (n - 1)) (word_of_nat i)
      (MESHX_LOWER_TRANS_SEQ_ZERO (mc_seq_auth c)) f @ low_chunk (seg_size (mc_ctl c)) P i" "\<not> mc_ctl c \<longrightarrow> f = mc_szmic c"
    using assms(3) by (auto simp: seg_of_def n_def)
  define m where "m = seg_misc (word_of_nat (n - 1)) (word_of_nat i) (MESHX_LOWER_TRANS_SEQ_ZERO (mc_seq_auth c)) f"
  have m3: "length m = 3" by (simp add: m_def)
  have n: "n \<le> 31" "0 < n" using assms(2,4) by (simp_all add: seg_sendable_def n_def)
  have u8: "unat (word_of_nat x :: u8) = x" "(word_of_nat x :: u8) < 32" if "x \<le> 31" for x
    using that by (simp_all add: word_less_nat_alt unsigned_of_nat take_bit_nat_eq_self)
  have u: "unat (word_of_nat i :: u8) = i" "unat (word_of_nat (n - 1) :: u8) = n - 1"
    and b: "(word_of_nat (n - 1) :: u8) < 32" "(word_of_nat i :: u8) < 32"
    using n assms(4) u8(1) [of i] u8(1) [of "n - 1"] u8(2) [of i] u8(2) [of "n - 1"] by (simp_all only:)
  have rd: "mem_read (pkt @ pad) 0 1 = Some [seg_first c]" "mem_read (pkt @ pad) 1 3 = Some m" "(pkt @ pad) ! 0 = seg_first c"
    using m3 by (simp_all add: mem_read_def pkt(1) [folded m_def])
  note k = seg_ctx_arrives(1) [OF assms(2,5,6) pkt(2) b, of key a, folded m_def seg_rx_ctx_def]
    seg_ctx_arrives(2,3) [OF assms(2,5,6) pkt(2) b]
  have max: "(ucast (word_of_nat (n - 1) :: u8) + 1) * word_of_nat z = (word_of_nat (n * z) :: u16)" for z
    using n by (cases n) (simp_all add: unsigned_of_nat take_bit_nat_eq_self distrib_right)
  have t: "mc_misc (rt_ctx (mw_rx w1 t)) = mc_misc (seg_rx_ctx key a c s)" "rt_max_len (mw_rx w1 t) = word_of_nat (n * seg_size (mc_ctl c))"
    "bit (rt_not_received (mw_rx w1 t)) j \<longleftrightarrow> j < n \<and> j \<notin> J" for j
    using assms(8) by (auto simp: rx_partial_def Let_def n_def seg_rx_ctx_def)
  obtain j where "j < n" "j \<notin> J" using assms(9) by auto
  then have nr: "rt_not_received (mw_rx w1 t) \<noteq> 0" using t(3) [of j] by auto
  have ctl: "mc_ctl (seg_arrives key a (c\<lparr>mc_seq := s\<rparr>)) = mc_ctl c" "mc_ctl (seg_rx_ctx key a c s) = mc_ctl c"
    by (simp_all add: seg_arrives_def seg_rx_ctx_def)
  have z: "word_of_nat (n - 1) = (0 :: u8) \<longleftrightarrow> n = 1" unfolding unat_eq_zero [symmetric] u(2) using n(2) by auto
  have "meshx_lower_trans_receive_seg_msg ns ur (pkt @ pad) (word_of_nat (length pkt)) (seg_arrives key a (c\<lparr>mc_seq := s\<rparr>)) w =
    (if i \<in> J then Some (MESHX_ERR_ALREADY, w1)
     else if n = 1 then rx_single ns ur (pkt @ pad) (word_of_nat (length pkt)) t (seg_rx_ctx key a c s) w1
     else rx_segment ns ur (pkt @ pad) (word_of_nat (length pkt)) (word_of_nat i) (word_of_nat (n - 1)) t (seg_rx_ctx key a c s) w1)"
  proof -
    define g where "g = (word_of_nat (n - 1) :: u8)"
    define mx where "mx = (word_of_nat (n * seg_size (mc_ctl c)) :: u16)"
    note mf = misc_fields(1,2) [OF b, of "MESHX_LOWER_TRANS_SEQ_ZERO (mc_seq_auth c)" f, folded m_def g_def]
    note max = max [of "seg_size (mc_ctl c)", folded g_def mx_def] and req = assms(7) [folded mx_def]
    show ?thesis
      unfolding meshx_lower_trans_receive_seg_msg_def rd Option.bind.bind_lunit k(1) Let_def mf ctl max req g_def [symmetric]
      using same_misc [OF t(1)] t(2) [folded mx_def] t(3) [of i] nr u(1) assms(4) z [folded g_def] by simp
  qed
  then show ?thesis
    unfolding meshx_lower_trans_receive_def rd Option.bind.bind_lunit Let_def ctl nth_Cons_0 if_not_P [OF k(3)] if_P [OF k(2)] .
qed

section \<open>A segment in the buffer\<close>

lemma write_elsewhere:
  assumes "p + length d \<le> length buf" "q + m \<le> p \<or> p + length d \<le> q"
  shows "take m (drop q (take p buf @ d @ drop (p + length d) buf)) = take m (drop q buf)"
  using assms(2)
proof
  assume "q + m \<le> p"
  then show ?thesis using assms(1) by (simp add: drop_take min_absorb1)
next
  assume "p + length d \<le> q"
  then show ?thesis using assms(1) by (simp add: min_absorb2)
qed

text \<open>What segment \<^verbatim>\<open>i\<close> does to a task that has received \<^verbatim>\<open>J\<close>.\<close>

lemma partial_insert:
  fixes c :: msg_ctx and P :: bytes
  defines "sz \<equiv> seg_size (mc_ctl c)" and "n \<equiv> low_count (seg_size (mc_ctl c)) P"
  assumes "seg_sendable c P" "rx_partial l0 c P t J w" "J \<subseteq> {..<n}" "i < n" "i \<notin> J"
  obtains buf buf' where "rt_pdu (mw_rx w t) = Some buf" "mem_write buf (i * sz) (low_chunk sz P i) = Some buf'"
    "rx_partial l0 c P t (insert i J) (rx_upd t (\<lambda>T. T\<lparr>rt_pdu := Some buf',
      rt_not_received := rt_not_received T AND NOT (push_bit i 1), rt_block_ack := b,
      rt_pdu_len := rt_pdu_len T + word_of_nat (length (low_chunk sz P i))\<rparr>) w)"
    "length buf' = n * sz"
proof -
  have sz: "0 < sz" "P \<noteq> []" using assms(3) by (simp_all add: sz_def seg_size_bounds seg_sendable_def)
  note len = low_chunk_length [OF sz, folded n_def [folded sz_def]]
  obtain buf where buf: "rt_pdu (mw_rx w t) = Some buf" "length buf = n * sz"
    "\<forall>j \<in> J. take (length (low_chunk sz P j)) (drop (j * sz) buf) = low_chunk sz P j"
    using assms(4) by (auto simp: rx_partial_def Let_def sz_def n_def)
  define buf' where "buf' = take (i * sz) buf @ low_chunk sz P i @ drop (i * sz + length (low_chunk sz P i)) buf"
  have room: "i * sz + length (low_chunk sz P i) \<le> n * sz"
  proof -
    have "Suc i * sz \<le> n * sz" using assms(6) by (intro mult_le_mono1) simp
    then show ?thesis using len(3) [OF assms(6)] by simp
  qed
  have buf': "mem_write buf (i * sz) (low_chunk sz P i) = Some buf'" "length buf' = n * sz"
    using room buf(2) by (simp_all add: mem_write_def buf'_def)
  have old: "take (length (low_chunk sz P j)) (drop (j * sz) buf') = low_chunk sz P j" if "j \<in> J" for j
  proof -
    have j: "j < n" "j \<noteq> i" using that assms(5,7) by auto
    have "j * sz + length (low_chunk sz P j) \<le> i * sz \<or> i * sz + length (low_chunk sz P i) \<le> j * sz"
    proof (cases "j < i")
      case True
      then have "Suc j * sz \<le> i * sz" by (intro mult_le_mono1) simp
      then show ?thesis using len(3) [OF j(1)] by simp
    next
      case False
      then have "Suc i * sz \<le> j * sz" using j(2) by (intro mult_le_mono1) simp
      then show ?thesis using len(3) [OF assms(6)] by simp
    qed
    then show ?thesis
      using write_elsewhere [of "i * sz" "low_chunk sz P i" buf "j * sz"] buf(2,3) room that by (simp add: buf'_def)
  qed
  have new: "take (length (low_chunk sz P i)) (drop (i * sz) buf') = low_chunk sz P i"
  proof -
    have "i * sz \<le> n * sz" using room by linarith
    then show ?thesis using buf(2) by (simp add: buf'_def min_absorb2)
  qed
  have fin: "finite J" using assms(5) finite_subset by blast
  define w' where "w' = rx_upd t (\<lambda>T. T\<lparr>rt_pdu := Some buf',
      rt_not_received := rt_not_received T AND NOT (push_bit i 1), rt_block_ack := b,
      rt_pdu_len := rt_pdu_len T + word_of_nat (length (low_chunk sz P i))\<rparr>) w"
  have src: "(\<lambda>p. mc_src (rt_ctx (mw_rx w' p)) = mc_src c) = (\<lambda>p. mc_src (rt_ctx (mw_rx w p)) = mc_src c)" "rx_active w' = rx_active w"
    by (auto simp: w'_def rx_upd_def)
  have T: "rt_ctx (mw_rx w' t) = rt_ctx (mw_rx w t)" "rt_max_len (mw_rx w' t) = rt_max_len (mw_rx w t)" "rt_pdu (mw_rx w' t) = Some buf'"
    "rt_pdu_len (mw_rx w' t) = rt_pdu_len (mw_rx w t) + word_of_nat (length (low_chunk sz P i))"
    "rt_not_received (mw_rx w' t) = rt_not_received (mw_rx w t) AND NOT (push_bit i 1)"
    by (simp_all add: w'_def rx_upd_def)
  have bits: "bit (rt_not_received (mw_rx w t) AND NOT (push_bit i 1)) k \<longleftrightarrow> k < n \<and> k \<notin> insert i J" for k
    using assms(3,4) by (auto simp: rx_partial_def seg_sendable_def Let_def n_def bit_simps dest: bit_imp_le_length)
  have "rx_partial l0 c P t (insert i J) w'"
    using assms(4) buf'(2) old new fin assms(7) bits
    unfolding rx_partial_def Let_def src T n_def [symmetric]
    unfolding sz_def [symmetric]
    by (auto simp: algebra_simps)
  then show ?thesis using that [OF buf(1) buf'(1) _ buf'(2)] by (simp add: w'_def)
qed

lemma partial_timers:
  "rx_partial l0 c P t J (rx_upd q (\<lambda>T. T\<lparr>rt_ack_timer := f T, rt_incomplete_timer := g T\<rparr>) w) = rx_partial l0 c P t J w"
proof -
  have "(\<lambda>p. mc_src (rt_ctx (if p = q then mw_rx w q\<lparr>rt_ack_timer := f (mw_rx w q), rt_incomplete_timer := g (mw_rx w q)\<rparr>
      else mw_rx w p)) = mc_src c) = (\<lambda>p. mc_src (rt_ctx (mw_rx w p)) = mc_src c)" by auto
  then show ?thesis by (auto simp: rx_partial_def Let_def rx_upd_def)
qed

lemma partial_done: "seg_sendable c P \<Longrightarrow> rx_partial l0 c P t J w \<Longrightarrow> J \<subseteq> {..<low_count (seg_size (mc_ctl c)) P} \<Longrightarrow>
    rt_not_received (mw_rx w t) = 0 \<longleftrightarrow> J = {..<low_count (seg_size (mc_ctl c)) P}"
  by (auto simp: rx_partial_def seg_sendable_def Let_def bit_eq_iff [of "rt_not_received (mw_rx w t)"])

text \<open>The payload of a segment in its buffer.\<close>

lemma seg_payload:
  fixes c :: msg_ctx and P :: bytes
  defines "sz \<equiv> seg_size (mc_ctl c)" and "n \<equiv> low_count (seg_size (mc_ctl c)) P"
  assumes "seg_sendable c P" "seg_of c P i s (pkt, c')" "i < n"
  shows "mem_read (pkt @ pad) 4 (length (low_chunk sz P i)) = Some (low_chunk sz P i)"
    "length pkt = 4 + length (low_chunk sz P i)" "length (low_chunk sz P i) \<le> 12" "i * sz < length P" "length P \<le> n * sz"
    "length (low_chunk sz P i) = (if Suc i = n then length P - i * sz else sz)" "n \<le> 31"
proof -
  have sz: "0 < sz" "P \<noteq> []" using assms(3) by (simp_all add: sz_def seg_size_bounds seg_sendable_def)
  note len = low_chunk_length [OF sz, folded n_def [folded sz_def]]
  obtain f where pkt: "pkt = seg_first c # seg_misc (word_of_nat (n - 1)) (word_of_nat i)
      (MESHX_LOWER_TRANS_SEQ_ZERO (mc_seq_auth c)) f @ low_chunk sz P i"
    using assms(4) by (auto simp: seg_of_def n_def sz_def)
  show "length pkt = 4 + length (low_chunk sz P i)" by (simp add: pkt)
  show "mem_read (pkt @ pad) 4 (length (low_chunk sz P i)) = Some (low_chunk sz P i)" by (simp add: pkt mem_read_def)
  show "length (low_chunk sz P i) \<le> 12" using len(3) [OF assms(5)] seg_size_bounds(2) [of "mc_ctl c"] by (simp add: sz_def)
  show "i * sz < length P" using low_count_bounds(1) [OF sz, of i] assms(5) by (simp add: n_def sz_def)
  show "length P \<le> n * sz"
    using low_count_bounds(2) [OF sz] low_count_bounds(3) [OF sz, of "n - 1"] by (simp add: n_def sz_def)
  show "length (low_chunk sz P i) = (if Suc i = n then length P - i * sz else sz)" by (rule len(1) [OF assms(5)])
  show "n \<le> 31" using assms(3) by (simp add: seg_sendable_def n_def)
qed

lemma rx_segment_step:
  fixes c :: msg_ctx and P :: bytes
  defines "n \<equiv> low_count (seg_size (mc_ctl c)) P"
  assumes "seg_sendable c P" "seg_of c P i s (pkt, c')" "rx_partial l0 c P t J w" "J \<subseteq> {..<n}" "i < n" "i \<notin> J" "mc_ctl k = mc_ctl c"
  obtains w1 g where "rx_partial l0 c P t (insert i J) w1" "mw_delivered w1 = mw_delivered w" "mw_iv w1 = mw_iv w" "mw_node w1 = mw_node w"
    "rx_segment ns ur (pkt @ pad) (word_of_nat (length pkt)) (word_of_nat i) (word_of_nat (n - 1)) t k w =
      (if insert i J = {..<n} then do {
         (ok, w) \<leftarrow> meshx_lower_trans_rpl_check (ctx_rpl k) w1;
         if \<not> ok then rx_refuse ns MESHX_ERR_FAIL t k w else rx_complete ns ur t k w }
       else Some (MESHX_SUCCESS, rx_upd t g w1))"
    "rx_partial l0 c P t (insert i J) (rx_upd t g w1)"
proof -
  define sz where "sz = seg_size (mc_ctl c)"
  note pay = seg_payload [OF assms(2,3) assms(6) [unfolded n_def], folded n_def, folded sz_def]
  have u8: "unat (word_of_nat x :: u8) = x" if "x \<le> 31" for x
    using that by (simp add: unsigned_of_nat take_bit_nat_eq_self)
  have last: "word_of_nat i = (word_of_nat (n - 1) :: u8) \<longleftrightarrow> Suc i = n"
  proof
    assume "word_of_nat i = (word_of_nat (n - 1) :: u8)"
    then have "unat (word_of_nat i :: u8) = unat (word_of_nat (n - 1) :: u8)" by (simp only:)
    then show "Suc i = n" using u8 [of i] u8 [of "n - 1"] pay(7) assms(6) by simp
  qed auto
  have ui: "unat (word_of_nat i :: u8) = i" using u8 assms(6) pay(7) by simp
  define l where "l = (word_of_nat (length (low_chunk sz P i)) :: u8)"
  have l: "unat l = length (low_chunk sz P i)" "ucast l = (word_of_nat (length (low_chunk sz P i)) :: u16)"
    using pay(3) by (simp_all add: l_def unsigned_of_nat take_bit_nat_eq_self)
  have seg_len: "(if word_of_nat i = (word_of_nat (n - 1) :: u8) then word_of_nat (length pkt) - 4 else word_of_nat sz) = l"
    using pay(2,6) by (auto simp: last l_def)
  obtain buf buf' where b: "rt_pdu (mw_rx w t) = Some buf" "mem_write buf (i * sz) (low_chunk sz P i) = Some buf'"
    "rx_partial l0 c P t (insert i J) (rx_upd t (\<lambda>T. T\<lparr>rt_pdu := Some buf',
      rt_not_received := rt_not_received T AND NOT (push_bit i 1), rt_block_ack := rt_block_ack (mw_rx w t) OR push_bit i 1,
      rt_pdu_len := rt_pdu_len T + word_of_nat (length (low_chunk sz P i))\<rparr>) w)"
    using partial_insert [OF assms(2,4) _ _ assms(7), folded n_def, OF assms(5,6), folded sz_def] by blast
  define w1 where "w1 = rx_upd t (\<lambda>T. T\<lparr>rt_pdu := Some buf', rt_not_received := rt_not_received T AND NOT (push_bit i 1),
      rt_block_ack := rt_block_ack T OR push_bit i 1, rt_pdu_len := rt_pdu_len T + ucast l\<rparr>) w"
  have w1: "rx_partial l0 c P t (insert i J) w1" using b(3) by (simp add: w1_def l(2) rx_upd_def)
  define g where "g = (\<lambda>T. T\<lparr>
           rt_ack_timer := (if meshx_timer_is_active (rt_ack_timer T) then rt_ack_timer T
             else snd (meshx_timer_start (rt_ack_timer T)
                    (MESHX_LOWER_TRANS_RX_ACK_BASE + MESHX_LOWER_TRANS_RX_ACK_TTL_FACTOR * ucast (mc_ttl k)))),
           rt_incomplete_timer := snd (meshx_timer_restart (rt_incomplete_timer T) MESHX_LOWER_TRANS_INCOMPLETE_TIMEOUT)\<rparr> :: rx_task)"
  have z: "rt_not_received (mw_rx w1 t) = 0 \<longleftrightarrow> insert i J = {..<n}"
    using partial_done [OF assms(2) w1] assms(5,6) by (simp add: n_def)
  have "rx_segment ns ur (pkt @ pad) (word_of_nat (length pkt)) (word_of_nat i) (word_of_nat (n - 1)) t k w =
      (if insert i J = {..<n} then do {
         (ok, w) \<leftarrow> meshx_lower_trans_rpl_check (ctx_rpl k) w1;
         if \<not> ok then rx_refuse ns MESHX_ERR_FAIL t k w else rx_complete ns ur t k w }
       else Some (MESHX_SUCCESS, rx_upd t g w1))"
    unfolding rx_segment_def Let_def assms(8) sz_def [symmetric] seg_len l(1) pay(1) Option.bind.bind_lunit b(1) ui b(2)
      w1_def [symmetric] g_def [symmetric] z ..
  moreover have "rx_partial l0 c P t (insert i J) (rx_upd t g w1)" unfolding g_def partial_timers by (rule w1)
  moreover have "mw_delivered w1 = mw_delivered w" "mw_iv w1 = mw_iv w" "mw_node w1 = mw_node w"
    by (simp_all add: w1_def rx_upd_def)
  ultimately show ?thesis using that [of w1 g] w1 by blast
qed

section \<open>The last segment\<close>

text \<open>A network layer that sends and leaves the receiving tasks alone.\<close>

definition rx_quiet :: "net_sender \<Rightarrow> bool" where
  "rx_quiet ns \<longleftrightarrow> (\<forall>pkt c w. \<exists>r w'. ns pkt c w = Some (r, w') \<and> mw_rx w' = mw_rx w \<and> mw_delivered w' = mw_delivered w)"

text \<open>The replay list has room and no entry of the source.\<close>

definition rpl_open :: "u16 \<Rightarrow> iv_world \<Rightarrow> bool" where
  "rpl_open src x \<longleftrightarrow> rpl_inv (rpls x) \<and> rpl_array (rpls x) \<noteq> None \<and> rpl_index (rpls x) < rpl_size (rpls x) \<and> src \<noteq> 0 \<and>
    src \<notin> rpl_src ` set (rpl_entries (rpls x))"

lemma rpl_open_check:
  assumes "rpl_open (mc_src k) (mw_iv w)"
  shows "\<exists>x. meshx_lower_trans_rpl_check (ctx_rpl k) w = Some (True, w\<lparr>mw_iv := x\<rparr>) \<and> seqs x = seqs (mw_iv w)"
proof -
  note o = assms [unfolded rpl_open_def]
  have "find (\<lambda>x. rpl_src x = rpl_src (ctx_rpl k)) (rpl_entries (rpls (mw_iv w))) = None"
    using o by (force simp: find_None_iff ctx_rpl_def)
  then have c: "meshx_rpl_check (ctx_rpl k) (rpls (mw_iv w)) = Some True"
    using rpl_check_by_first [of "rpls (mw_iv w)" "ctx_rpl k"] o by simp
  obtain s where "meshx_rpl_update (ctx_rpl k) (rpls (mw_iv w)) = Some (MESHX_SUCCESS, s)"
    using rpl_update_room [of "rpls (mw_iv w)" "ctx_rpl k"] o by (auto simp: ctx_rpl_def)
  then show ?thesis using c by (auto simp: meshx_lower_trans_rpl_check_def)
qed

lemma lower_send_quiet:
  assumes "rx_quiet ns" "pdu \<noteq> []" "length pdu \<le> 11" "\<not> mc_seg c" "MESHX_ADDRESS_IS_VALID (mc_dst c)"
  shows "\<exists>r w'. meshx_lower_trans_send ns pdu c w = Some (r, c, w') \<and> mw_rx w' = mw_rx w \<and> mw_delivered w' = mw_delivered w"
proof -
  define x where "x = (if mc_ctl c then ctl_metadata (mc_opcode c) False
                       else access_metadata (mc_akf c) (if mc_akf c then mc_aid c else 0) False) # pdu"
  obtain r w' where "ns x c w = Some (r, w')" "mw_rx w' = mw_rx w" "mw_delivered w' = mw_delivered w"
    using assms(1) by (auto simp: rx_quiet_def) metis
  then show ?thesis
    using assms(2-) by (simp add: meshx_lower_trans_send_def x_def lower_sizes Let_def)
qed

lemma seg_ack_quiet:
  assumes "rx_quiet ns" "MESHX_ADDRESS_IS_VALID (mc_src k)" "seq_array (seqs (mw_iv w)) \<noteq> None"
  shows "\<exists>r w'. meshx_lower_trans_seg_ack ns b k w = Some (r, w') \<and> mw_rx w' = mw_rx w \<and> mw_delivered w' = mw_delivered w"
proof -
  obtain seq w1 where s: "element_seq_use (mc_dst k) w = Some (seq, w1)" "mw_rx w1 = mw_rx w" "mw_delivered w1 = mw_delivered w"
  proof -
    define e where "e = (ucast (mc_dst k - node_addr (param (mw_node w))) :: u8)"
    have "meshx_seq_use e (seqs (mw_iv w)) \<noteq> None" using assms(3) by (auto simp: meshx_seq_use_def)
    then obtain q s' where "meshx_seq_use e (seqs (mw_iv w)) = Some (q, s')" by auto
    then show ?thesis by (intro that [of q "w\<lparr>mw_iv := (mw_iv w)\<lparr>seqs := s'\<rparr>\<rparr>"]) (simp_all add: element_seq_use_def e_def)
  qed
  have b: "seg_ack_bytes z b \<noteq> []" "length (seg_ack_bytes z b) = 6" for z
    by (simp_all add: seg_ack_bytes_def be16_def be32_def mem16_def mem32_def)
  show ?thesis
    unfolding meshx_lower_trans_seg_ack_def Let_def s(1) Option.bind.bind_lunit split
    using lower_send_quiet [OF assms(1), of "seg_ack_bytes (MESHX_LOWER_TRANS_SEQ_ZERO (mc_seq_auth k)) b"
        "mc_zero\<lparr>mc_src := mc_dst k, mc_dst := mc_src k, mc_ttl := default_ttl (param (mw_node w1)) AND 0x7f,
              mc_ctl := True, mc_iv_index := meshx_iv_index_tx_get (iv (mw_iv w1)), mc_net_key := mc_net_key k,
              mc_seq := low24 seq\<rparr>" w1] b assms(2) s(2,3)
    by (force simp: mc_zero_def)
qed

lemma rx_complete_quiet:
  assumes "rx_quiet ns" "MESHX_ADDRESS_IS_VALID (mc_src k)" "seq_array (seqs (mw_iv w)) \<noteq> None" "rt_pdu (mw_rx w t) = Some buf"
  shows "\<exists>w2. rx_complete ns ur t k w = do { (_, w) \<leftarrow> ur buf (rt_pdu_len (mw_rx w t)) (k\<lparr>mc_seg := True\<rparr>) w2; Some (MESHX_SUCCESS, w) } \<and>
    mw_delivered w2 = mw_delivered w"
proof -
  obtain r w1 where a: "meshx_lower_trans_seg_ack ns (rt_block_ack (mw_rx w t)) k w = Some (r, w1)"
    "mw_rx w1 = mw_rx w" "mw_delivered w1 = mw_delivered w"
    using seg_ack_quiet [OF assms(1-3)] by blast
  define w2 where "w2 = rx_upd t (\<lambda>t. t\<lparr>rt_ack_timer := None,
      rt_incomplete_timer := snd (meshx_timer_restart (rt_incomplete_timer t) MESHX_LOWER_TRANS_STORE_TIMEOUT)\<rparr>) w1"
  have w2: "rt_pdu (mw_rx w2 t) = Some buf" "rt_pdu_len (mw_rx w2 t) = rt_pdu_len (mw_rx w t)" "mw_delivered w2 = mw_delivered w"
    using a(2,3) assms(4) by (simp_all add: w2_def rx_upd_def)
  show ?thesis
    unfolding rx_complete_def a(1) Option.bind.bind_lunit split Let_def w2_def [symmetric] w2(1,2) using w2(3) by blast
qed

lemma partial_pdu:
  assumes "seg_sendable c P" "rx_partial l0 c P t {..<low_count (seg_size (mc_ctl c)) P} w"
  shows "\<exists>buf. rt_pdu (mw_rx w t) = Some buf \<and> length buf = low_count (seg_size (mc_ctl c)) P * seg_size (mc_ctl c) \<and>
    take (length P) buf = P" "rt_pdu_len (mw_rx w t) = word_of_nat (l0 + length P)"
proof -
  have sz: "0 < seg_size (mc_ctl c)" "P \<noteq> []" using assms(1) by (simp_all add: seg_size_bounds seg_sendable_def)
  show "rt_pdu_len (mw_rx w t) = word_of_nat (l0 + length P)"
    using assms(2) low_chunk_total [OF sz] by (simp add: rx_partial_def Let_def del: of_nat_sum of_nat_add)
  have "length P \<le> low_count (seg_size (mc_ctl c)) P * seg_size (mc_ctl c)"
    using low_count_bounds(2) [OF sz] low_count_bounds(3) [OF sz, of "low_count (seg_size (mc_ctl c)) P - 1"] by simp
  then show "\<exists>buf. rt_pdu (mw_rx w t) = Some buf \<and> length buf = low_count (seg_size (mc_ctl c)) P * seg_size (mc_ctl c) \<and>
    take (length P) buf = P"
    using assms(2) low_chunk_concat [OF sz(1)] by (fastforce simp: rx_partial_def Let_def)
qed

text \<open>What the upper layer gets: a buffer that starts with the pdu, and a length.\<close>

definition hands_up :: "pdu_receiver \<Rightarrow> msg_ctx \<Rightarrow> nat \<Rightarrow> bytes \<Rightarrow> (bytes \<times> msg_ctx) list \<Rightarrow> (errno \<times> mesh_world) option \<Rightarrow> bool" where
  "hands_up ur k len P old m \<longleftrightarrow> (\<exists>buf w. m = do { (_, w) \<leftarrow> ur buf (word_of_nat len) (k\<lparr>mc_seg := True\<rparr>) w; Some (MESHX_SUCCESS, w) } \<and>
    length buf < length P + 12 \<and> take (length P) buf = P \<and> mw_delivered w = old)"

lemma complete_hands_up:
  assumes "seg_sendable c P" "rx_partial l0 c P t {..<low_count (seg_size (mc_ctl c)) P} w"
    "rx_quiet ns" "MESHX_ADDRESS_IS_VALID (mc_src k)" "seq_array (seqs (mw_iv w)) \<noteq> None"
  shows "hands_up ur k (l0 + length P) P (mw_delivered w) (rx_complete ns ur t k w)"
proof -
  have sz: "0 < seg_size (mc_ctl c)" "P \<noteq> []" "seg_size (mc_ctl c) \<le> 12" using assms(1) by (simp_all add: seg_size_bounds seg_sendable_def)
  obtain buf where b: "rt_pdu (mw_rx w t) = Some buf" "length buf = low_count (seg_size (mc_ctl c)) P * seg_size (mc_ctl c)"
    "take (length P) buf = P" using partial_pdu(1) [OF assms(1,2)] by blast
  obtain m where m: "low_count (seg_size (mc_ctl c)) P = Suc m"
    using low_count_bounds(2) [OF sz(1,2)] by (cases "low_count (seg_size (mc_ctl c)) P") auto
  then have "m * seg_size (mc_ctl c) < length P" using low_count_bounds(1) [OF sz(1,2), of m] by simp
  then have "length buf < length P + 12" using b(2) m sz(3) by simp
  then show ?thesis
    using rx_complete_quiet [OF assms(3-5) b(1), of ur] b(3) partial_pdu(2) [OF assms(1,2)] by (auto simp: hands_up_def)
qed

lemma partial_iv: "rx_partial l0 c P t J (w\<lparr>mw_iv := x\<rparr>) = rx_partial l0 c P t J w"
  by (simp add: rx_partial_def)

lemma segment_hands_up:
  fixes c :: msg_ctx and P :: bytes
  defines "n \<equiv> low_count (seg_size (mc_ctl c)) P"
  assumes "seg_sendable c P" "seg_of c P i s (pkt, c')" "rx_partial l0 c P t J w" "insert i J = {..<n}" "i \<notin> J"
    "rx_quiet ns" "MESHX_ADDRESS_IS_VALID (mc_src c)" "seq_array (seqs (mw_iv w)) \<noteq> None" "rpl_open (mc_src c) (mw_iv w)"
  shows "hands_up ur (seg_rx_ctx key a c s) (l0 + length P) P (mw_delivered w)
    (rx_segment ns ur (pkt @ pad) (word_of_nat (length pkt)) (word_of_nat i) (word_of_nat (n - 1)) t (seg_rx_ctx key a c s) w)"
proof -
  have k: "mc_ctl (seg_rx_ctx key a c s) = mc_ctl c" "mc_src (seg_rx_ctx key a c s) = mc_src c"
    by (simp_all add: seg_rx_ctx_def seg_arrives_def)
  have J: "J \<subseteq> {..<n}" "i < n" using assms(5) by auto
  obtain w1 g where w1: "rx_partial l0 c P t (insert i J) w1" "mw_delivered w1 = mw_delivered w" "mw_iv w1 = mw_iv w"
    "mw_node w1 = mw_node w"
    "rx_segment ns ur (pkt @ pad) (word_of_nat (length pkt)) (word_of_nat i) (word_of_nat (n - 1)) t (seg_rx_ctx key a c s) w =
      (if insert i J = {..<n} then do {
         (ok, w) \<leftarrow> meshx_lower_trans_rpl_check (ctx_rpl (seg_rx_ctx key a c s)) w1;
         if \<not> ok then rx_refuse ns MESHX_ERR_FAIL t (seg_rx_ctx key a c s) w else rx_complete ns ur t (seg_rx_ctx key a c s) w }
       else Some (MESHX_SUCCESS, rx_upd t g w1))" "rx_partial l0 c P t (insert i J) (rx_upd t g w1)"
    by (rule rx_segment_step [OF assms(2-4), folded n_def, OF J assms(6) k(1), of ns ur pad])
  obtain x where x: "meshx_lower_trans_rpl_check (ctx_rpl (seg_rx_ctx key a c s)) w1 = Some (True, w1\<lparr>mw_iv := x\<rparr>)"
    "seqs x = seqs (mw_iv w)"
    using rpl_open_check [of "seg_rx_ctx key a c s" w1] assms(10) k(2) w1(3) by auto
  have "rx_partial l0 c P t {..<low_count (seg_size (mc_ctl c)) P} (w1\<lparr>mw_iv := x\<rparr>)"
    using w1(1) by (simp add: partial_iv assms(5) n_def [symmetric])
  from complete_hands_up [OF assms(2) this assms(7), of "seg_rx_ctx key a c s" ur] show ?thesis
    using assms(5,8,9) k(2) x w1(2,5) by simp
qed

lemma single_hands_up:
  assumes "seg_sendable c P" "seg_of c P i s (pkt, c')" "rx_partial l0 c P t {} w" "low_count (seg_size (mc_ctl c)) P = 1" "i = 0"
    "rx_quiet ns" "MESHX_ADDRESS_IS_VALID (mc_src c)" "seq_array (seqs (mw_iv w)) \<noteq> None" "rpl_open (mc_src c) (mw_iv w)"
  shows "hands_up ur (seg_rx_ctx key a c s) (length P) P (mw_delivered w)
    (rx_single ns ur (pkt @ pad) (word_of_nat (length pkt)) t (seg_rx_ctx key a c s) w)"
proof -
  have k: "mc_ctl (seg_rx_ctx key a c s) = mc_ctl c" "mc_src (seg_rx_ctx key a c s) = mc_src c"
    by (simp_all add: seg_rx_ctx_def seg_arrives_def)
  define sz where "sz = seg_size (mc_ctl c)"
  have z: "i < low_count (seg_size (mc_ctl c)) P" using assms(4,5) by simp
  note pay = seg_payload(1) [OF assms(1,2) z, of pad, unfolded assms(4,5), folded sz_def]
    seg_payload(2-) [OF assms(1,2) z, unfolded assms(4,5), folded sz_def]
  have chunk: "low_chunk sz P 0 = P" using pay(5) by (simp add: low_chunk_def)
  obtain x where x: "meshx_lower_trans_rpl_check (ctx_rpl (seg_rx_ctx key a c s)) w = Some (True, w\<lparr>mw_iv := x\<rparr>)"
    "seqs x = seqs (mw_iv w)"
    using rpl_open_check [of "seg_rx_ctx key a c s" w] assms(9) k(2) by auto
  obtain buf where buf: "rt_pdu (mw_rx w t) = Some buf" "length buf = sz"
    using assms(3,4) by (auto simp: rx_partial_def Let_def sz_def)
  have len: "length P \<le> sz" "length P \<le> 12" "0 < length P" using pay chunk by simp_all
  have u: "ucast (word_of_nat (length pkt) :: u8) - 4 = (word_of_nat (length P) :: u16)" "unat (word_of_nat (length P) :: u16) = length P"
  proof -
    have "length pkt < 2 ^ 8" using pay(2) chunk len by simp
    then have "ucast (word_of_nat (length pkt) :: u8) = (word_of_nat (length pkt) :: u16)"
      by (simp add: unsigned_of_nat take_bit_nat_eq_self)
    then show "ucast (word_of_nat (length pkt) :: u8) - 4 = (word_of_nat (length P) :: u16)" using pay(2) chunk by simp
    show "unat (word_of_nat (length P) :: u16) = length P" using len by (simp add: unsigned_of_nat take_bit_nat_eq_self)
  qed
  define w2 where "w2 = rx_upd t (\<lambda>t. t\<lparr>rt_not_received := 0, rt_block_ack := 1, rt_pdu_len := word_of_nat (length P),
      rt_pdu := Some (P @ drop (length P) buf)\<rparr>) (w\<lparr>mw_iv := x\<rparr>)"
  have w2: "rt_pdu (mw_rx w2 t) = Some (P @ drop (length P) buf)" "rt_pdu_len (mw_rx w2 t) = word_of_nat (length P)"
    "mw_delivered w2 = mw_delivered w" "seqs (mw_iv w2) = seqs (mw_iv w)" by (simp_all add: w2_def rx_upd_def x(2))
  have "rx_single ns ur (pkt @ pad) (word_of_nat (length pkt)) t (seg_rx_ctx key a c s) w = rx_complete ns ur t (seg_rx_ctx key a c s) w2"
    using pay(1) chunk buf len unfolding rx_single_def Let_def u x(1) w2_def
    by (simp add: mem_write_def u)
  moreover have "sz < length P + 12" using len(3) seg_size_bounds(2) [of "mc_ctl c"] unfolding sz_def by linarith
  moreover obtain w3 where "rx_complete ns ur t (seg_rx_ctx key a c s) w2 = do {
      (_, w) \<leftarrow> ur (P @ drop (length P) buf) (word_of_nat (length P)) ((seg_rx_ctx key a c s)\<lparr>mc_seg := True\<rparr>) w3; Some (MESHX_SUCCESS, w) }"
    "mw_delivered w3 = mw_delivered w"
    using rx_complete_quiet [OF assms(6) _ _ w2(1), of "seg_rx_ctx key a c s" ur] assms(7,8) k(2) w2(2-4) by auto
  ultimately show ?thesis unfolding hands_up_def
    by (intro exI [of _ "P @ drop (length P) buf"] exI [of _ w3]) (simp add: buf(2) len(1))
qed

section \<open>Reassembly\<close>

text \<open>A free task can be had for a message of the source; its last message had \<^verbatim>\<open>l0\<close> bytes.\<close>

definition rx_free :: "nat \<Rightarrow> u16 \<Rightarrow> mesh_world \<Rightarrow> bool" where
  "rx_free l0 src w \<longleftrightarrow>
    (\<forall>p \<in> set (rx_active w). mc_src (rt_ctx (mw_rx w p)) \<noteq> src) \<and>
    (case rx_idle w of [] \<Rightarrow> False | t # _ \<Rightarrow>
      t \<notin> set (rx_active w) \<and> rt_not_received (mw_rx w t) = 0 \<and> rt_pdu_len (mw_rx w t) = word_of_nat l0) \<and>
    (\<forall>i. mem_src (mw_env w) i \<and> tmr_src (mw_env w) i)"

lemma timer_create_free:
  assumes "\<forall>i. mem_src e i \<and> tmr_src e i"
  shows "\<exists>tm e'. meshx_timer_create t m e = (MESHX_SUCCESS, tm, e') \<and> (\<forall>i. mem_src e' i \<and> tmr_src e' i)"
  using assms by (simp add: meshx_timer_create_def meshx_malloc_ok_def timer_create_ok_def)

lemma free_request:
  fixes c :: msg_ctx and P :: bytes
  defines "n \<equiv> low_count (seg_size (mc_ctl c)) P"
  assumes "rx_free l0 (mc_src c) w" "seg_sendable c P"
  shows "\<exists>t w1. meshx_lower_trans_rx_task_request (word_of_nat (n * seg_size (mc_ctl c))) (seg_rx_ctx key a c s) w = (Some t, w1) \<and>
    rx_partial l0 c P t {} w1 \<and> mw_delivered w1 = mw_delivered w \<and> mw_iv w1 = mw_iv w"
proof -
  define k where "k = seg_rx_ctx key a c s"
  have k: "mc_src k = mc_src c" "mc_iv_index k = mc_iv_index c" "mc_seq_auth k = mc_seq_auth c" "mc_misc k = mc_misc c" "mc_ctl k = mc_ctl c"
    by (simp_all add: k_def seg_rx_ctx_def seg_arrives_def)
  obtain t rest where t: "rx_idle w = t # rest" "t \<notin> set (rx_active w)" "rt_not_received (mw_rx w t) = 0"
    "rt_pdu_len (mw_rx w t) = word_of_nat l0" and env: "\<forall>i. mem_src (mw_env w) i \<and> tmr_src (mw_env w) i"
    and none: "\<forall>p \<in> set (rx_active w). mc_src (rt_ctx (mw_rx w p)) \<noteq> mc_src c"
    using assms(2) by (auto simp: rx_free_def split: list.splits)
  obtain a1 e1 where a1: "meshx_timer_create (rt_ack_timer (mw_rx w t)) MESHX_TIMER_MODE_SINGLE_SHOT (mw_env w) = (MESHX_SUCCESS, a1, e1)"
    "\<forall>i. mem_src e1 i \<and> tmr_src e1 i" using timer_create_free [OF env] by blast
  obtain a2 e2 where a2: "meshx_timer_create (rt_incomplete_timer (mw_rx w t)) MESHX_TIMER_MODE_SINGLE_SHOT e1 = (MESHX_SUCCESS, a2, e2)"
    "\<forall>i. mem_src e2 i \<and> tmr_src e2 i" using timer_create_free [OF a1(2)] by blast
  obtain e3 where e3: "meshx_malloc_ok e2 = (True, e3)" using a2(2) by (simp add: meshx_malloc_ok_def)
  have n: "n \<le> 31" using assms(3) by (simp add: seg_sendable_def n_def)
  have sz: "0 < seg_size (mc_ctl c)" "seg_size (mc_ctl c) \<le> 12" by (rule seg_size_bounds)+
  define mx where "mx = (word_of_nat (n * seg_size (mc_ctl c)) :: u16)"
  have "n * seg_size (mc_ctl c) \<le> 31 * 12" using mult_le_mono [OF n sz(2)] by simp
  then have mx: "unat mx = n * seg_size (mc_ctl c)" by (simp add: mx_def unsigned_of_nat take_bit_nat_eq_self del: of_nat_mult)
  define lb where "lb = low_bits (word_of_nat (unat mx div seg_size (mc_ctl c)))"
  have lb: "bit lb i \<longleftrightarrow> i < n" for i
    using n sz(1) low_bits_bit [of "word_of_nat n" i] by (simp add: lb_def mx unsigned_of_nat take_bit_nat_eq_self)
  define T where "T = (mw_rx w t)\<lparr>rt_ack_timer := a1, rt_incomplete_timer := a2, rt_dangling := False, rt_pdu := Some (junk w (unat mx)),
      rt_max_len := mx, rt_ctx := k, rt_block_ack := 0, rt_not_received := rt_not_received (mw_rx w t) OR lb\<rparr>"
  define w1 where "w1 = w\<lparr>mw_rx := (mw_rx w)(t := T), mw_env := e3, rx_idle := rest, rx_active := rx_active w @ [t]\<rparr>"
  have f: "find (\<lambda>p. mc_src (rt_ctx (mw_rx w p)) = mc_src c) (rx_active w) = None" using none by (auto simp: find_None_iff)
  have req: "meshx_lower_trans_rx_task_request mx k w = (Some t, w1)"
    unfolding meshx_lower_trans_rx_task_request_def k(1) f rx_task_new_def t(1) using a1(1) a2(1) e3
    by (simp add: rx_upd_def w1_def T_def lb_def k(5))
  have find1: "find (\<lambda>p. mc_src (rt_ctx (mw_rx w1 p)) = mc_src c) (rx_active w1) = Some t"
  proof -
    have "find (\<lambda>p. mc_src (rt_ctx (mw_rx w1 p)) = mc_src c) (xs @ [t]) = Some t" if "set xs \<subseteq> set (rx_active w)" for xs
      using that none t(2) by (induction xs) (auto simp: w1_def T_def k)
    then show ?thesis by (simp add: w1_def)
  qed
  have "rx_partial l0 c P t {} w1"
    unfolding rx_partial_def Let_def find1 n_def [symmetric] mx_def [symmetric]
    using lb t(3,4) mx by (simp add: w1_def T_def k)
  then show ?thesis using req by (auto simp: k_def mx_def w1_def simp del: of_nat_mult)
qed

lemma partial_request:
  assumes "rx_partial l0 c P t J w"
  shows "meshx_lower_trans_rx_task_request m (seg_rx_ctx key a c s) w = (Some t, w)"
  using assms by (simp add: rx_partial_def meshx_lower_trans_rx_task_request_def Let_def seg_rx_ctx_def seg_arrives_def)

definition rx_ready :: "nat \<Rightarrow> msg_ctx \<Rightarrow> bytes \<Rightarrow> nat set \<Rightarrow> mesh_world \<Rightarrow> bool" where
  "rx_ready l0 c P J w \<longleftrightarrow> J = {} \<and> rx_free l0 (mc_src c) w \<or> (\<exists>t. rx_partial l0 c P t J w)"

lemma ready_request:
  assumes "rx_ready l0 c P J w" "seg_sendable c P"
  obtains t w1 where "meshx_lower_trans_rx_task_request (word_of_nat (low_count (seg_size (mc_ctl c)) P * seg_size (mc_ctl c)))
      (seg_rx_ctx key a c s) w = (Some t, w1)"
    "rx_partial l0 c P t J w1" "mw_delivered w1 = mw_delivered w" "mw_iv w1 = mw_iv w"
  using assms(1) free_request [OF _ assms(2), of l0 w key a s] partial_request [of l0 c P _ J w]
  unfolding rx_ready_def by blast

lemma receive_one:
  fixes c :: msg_ctx and P :: bytes
  defines "n \<equiv> low_count (seg_size (mc_ctl c)) P"
  assumes "seg_sendable c P" "seg_of c P i s (pkt, c')" "i < n" "mc_seq_auth c \<le> s" "s - mc_seq_auth c < 0x2000"
    "rx_ready l0 c P J w" "J \<subset> {..<n}" "insert i J \<noteq> {..<n}"
  shows "\<exists>r w'. meshx_lower_trans_receive ns ur (pkt @ pad) (word_of_nat (length pkt)) (seg_arrives key a (c\<lparr>mc_seq := s\<rparr>)) w =
      Some (r, w') \<and> rx_ready l0 c P (insert i J) w' \<and> mw_delivered w' = mw_delivered w \<and> mw_iv w' = mw_iv w"
proof -
  obtain t w1 where t: "meshx_lower_trans_rx_task_request (word_of_nat (n * seg_size (mc_ctl c))) (seg_rx_ctx key a c s) w = (Some t, w1)"
    "rx_partial l0 c P t J w1" "mw_delivered w1 = mw_delivered w" "mw_iv w1 = mw_iv w"
    using ready_request [OF assms(7,2), folded n_def] by blast
  note at = receive_seg_at [OF assms(2,3) assms(4) [unfolded n_def] assms(5,6) t(1) [unfolded n_def] t(2) assms(8) [unfolded n_def],
      folded n_def, of ns ur pad]
  show ?thesis
  proof (cases "i \<in> J")
    case True
    then show ?thesis using at t(2-4) by (auto simp: rx_ready_def insert_absorb)
  next
    case False
    have k: "mc_ctl (seg_rx_ctx key a c s) = mc_ctl c" by (simp add: seg_rx_ctx_def seg_arrives_def)
    have n1: "n \<noteq> 1" using assms(4,8,9) False by auto
    obtain w2 g where w2: "rx_partial l0 c P t (insert i J) w2" "mw_delivered w2 = mw_delivered w1" "mw_iv w2 = mw_iv w1" "mw_node w2 = mw_node w1"
      "rx_segment ns ur (pkt @ pad) (word_of_nat (length pkt)) (word_of_nat i) (word_of_nat (n - 1)) t (seg_rx_ctx key a c s) w1 =
      (if insert i J = {..<n} then do {
         (ok, w) \<leftarrow> meshx_lower_trans_rpl_check (ctx_rpl (seg_rx_ctx key a c s)) w2;
         if \<not> ok then rx_refuse ns MESHX_ERR_FAIL t (seg_rx_ctx key a c s) w else rx_complete ns ur t (seg_rx_ctx key a c s) w }
       else Some (MESHX_SUCCESS, rx_upd t g w2))" "rx_partial l0 c P t (insert i J) (rx_upd t g w2)"
      using assms(8) by (rule_tac rx_segment_step [OF assms(2,3) t(2), folded n_def, OF _ assms(4) False k, of ns ur pad]) auto
    show ?thesis
      using at w2 False n1 assms(9) t(3,4) by (auto simp: rx_ready_def rx_upd_def)
  qed
qed

lemma receive_last:
  fixes c :: msg_ctx and P :: bytes
  defines "n \<equiv> low_count (seg_size (mc_ctl c)) P"
  assumes "seg_sendable c P" "seg_of c P i s (pkt, c')" "mc_seq_auth c \<le> s" "s - mc_seq_auth c < 0x2000"
    "rx_ready l0 c P J w" "insert i J = {..<n}" "i \<notin> J"
    "rx_quiet ns" "MESHX_ADDRESS_IS_VALID (mc_src c)" "seq_array (seqs (mw_iv w)) \<noteq> None" "rpl_open (mc_src c) (mw_iv w)"
  shows "hands_up ur (seg_rx_ctx key a c s) (if n = 1 then length P else l0 + length P) P (mw_delivered w)
    (meshx_lower_trans_receive ns ur (pkt @ pad) (word_of_nat (length pkt)) (seg_arrives key a (c\<lparr>mc_seq := s\<rparr>)) w)"
proof -
  have J: "J \<subset> {..<n}" "i < n" using assms(7,8) by auto
  obtain t w1 where t: "meshx_lower_trans_rx_task_request (word_of_nat (n * seg_size (mc_ctl c))) (seg_rx_ctx key a c s) w = (Some t, w1)"
    "rx_partial l0 c P t J w1" "mw_delivered w1 = mw_delivered w" "mw_iv w1 = mw_iv w"
    using ready_request [OF assms(6,2), folded n_def] by blast
  note at = receive_seg_at [OF assms(2,3) J(2) [unfolded n_def] assms(4,5) t(1) [unfolded n_def] t(2) J(1) [unfolded n_def],
      folded n_def, of ns ur pad]
  show ?thesis
  proof (cases "n = 1")
    case True
    then have "J = {}" "i = 0" using J by auto
    then show ?thesis
      using single_hands_up [OF assms(2,3), of l0 t w1 ns ur key a pad] t True assms(8-) at by (simp add: n_def)
  next
    case False
    then show ?thesis
      using segment_hands_up [OF assms(2,3) t(2) assms(7) [unfolded n_def] assms(8-10), folded n_def, of ur key a pad] t(3,4) assms(8,11,12) at by simp
  qed
qed

lemma receive_segs_partial:
  fixes c :: msg_ctx and P :: bytes
  defines "n \<equiv> low_count (seg_size (mc_ctl c)) P"
  assumes "seg_sendable c P" "\<forall>i < n. seg_of c P i (q i) (L ! i) \<and> mc_seq_auth c \<le> q i \<and> q i - mc_seq_auth c < 0x2000"
  shows "rx_ready l0 c P J w \<Longrightarrow> J \<union> set ks \<subset> {..<n} \<Longrightarrow>
    \<exists>w'. receive_segs ns ur pad (map (\<lambda>i. (fst (L ! i), seg_arrives key a (snd (L ! i)))) ks @ l) w = receive_segs ns ur pad l w' \<and>
      rx_ready l0 c P (J \<union> set ks) w' \<and> mw_delivered w' = mw_delivered w \<and> mw_iv w' = mw_iv w"
proof (induction ks arbitrary: J w)
  case (Cons i ks)
  have i: "i < n" "J \<subset> {..<n}" "insert i J \<noteq> {..<n}" "insert i J \<union> set ks \<subset> {..<n}" using Cons.prems(2) by auto
  obtain pkt where L: "L ! i = (pkt, c\<lparr>mc_seq := q i\<rparr>)" "seg_of c P i (q i) (pkt, c\<lparr>mc_seq := q i\<rparr>)"
    using assms(3) i(1) by (metis prod.collapse seg_of_def)
  obtain r w1 where w1: "meshx_lower_trans_receive ns ur (pkt @ pad) (word_of_nat (length pkt)) (seg_arrives key a (c\<lparr>mc_seq := q i\<rparr>)) w =
      Some (r, w1)" "rx_ready l0 c P (insert i J) w1" "mw_delivered w1 = mw_delivered w" "mw_iv w1 = mw_iv w"
    using receive_one [OF assms(2) L(2) i(1) [unfolded n_def] _ _ Cons.prems(1), folded n_def, OF _ _ i(2,3), of ns ur pad key a]
      assms(3) i(1) by blast
  show ?case using Cons.IH [OF w1(2) i(4)] w1 L(1) by auto
next
  case Nil
  then show ?case by (intro exI [of _ w]) simp
qed

text \<open>An upper layer that reads and records what it is handed.\<close>

definition upper_log :: pdu_receiver where
  "upper_log buf len c w = do {
    d \<leftarrow> mem_read buf 0 (unat len);
    Some (MESHX_SUCCESS, w\<lparr>mw_delivered := mw_delivered w @ [(d, c)]\<rparr>) }"

lemma receive_segs_all:
  fixes c :: msg_ctx and P :: bytes
  defines "n \<equiv> low_count (seg_size (mc_ctl c)) P"
  assumes "seg_sendable c P" "\<forall>i < n. seg_of c P i (q i) (L ! i) \<and> mc_seq_auth c \<le> q i \<and> q i - mc_seq_auth c < 0x2000"
    "rx_free l0 (mc_src c) w" "set ks \<union> {j} = {..<n}" "j \<notin> set ks"
    "rx_quiet ns" "MESHX_ADDRESS_IS_VALID (mc_src c)" "seq_array (seqs (mw_iv w)) \<noteq> None" "rpl_open (mc_src c) (mw_iv w)"
  shows "\<exists>m. hands_up ur (seg_rx_ctx key a c (q j)) (if n = 1 then length P else l0 + length P) P (mw_delivered w) m \<and>
    receive_segs ns ur pad (map (\<lambda>i. (fst (L ! i), seg_arrives key a (snd (L ! i)))) (ks @ [j])) w = map_option snd m"
proof -
  have r: "rx_ready l0 c P {} w" using assms(4) by (simp add: rx_ready_def)
  have s: "{} \<union> set ks \<subset> {..<n}" and j: "j < n" "insert j (set ks) = {..<n}" using assms(5,6) by auto
  obtain w' where w': "receive_segs ns ur pad (map (\<lambda>i. (fst (L ! i), seg_arrives key a (snd (L ! i)))) ks @
      [(fst (L ! j), seg_arrives key a (snd (L ! j)))]) w = receive_segs ns ur pad [(fst (L ! j), seg_arrives key a (snd (L ! j)))] w'"
    "rx_ready l0 c P (set ks) w'" "mw_delivered w' = mw_delivered w" "mw_iv w' = mw_iv w"
    using receive_segs_partial [OF assms(2,3) [unfolded n_def] r s [unfolded n_def]] by fastforce
  obtain pkt where L: "L ! j = (pkt, c\<lparr>mc_seq := q j\<rparr>)" "seg_of c P j (q j) (pkt, c\<lparr>mc_seq := q j\<rparr>)"
    using assms(3) j(1) by (metis prod.collapse seg_of_def)
  define m where "m = meshx_lower_trans_receive ns ur (pkt @ pad) (word_of_nat (length pkt)) (seg_arrives key a (c\<lparr>mc_seq := q j\<rparr>)) w'"
  have "hands_up ur (seg_rx_ctx key a c (q j)) (if n = 1 then length P else l0 + length P) P (mw_delivered w) m"
    using receive_last [OF assms(2) L(2) _ _ w'(2) j(2) [unfolded n_def] assms(6,7,8), folded n_def, of ur key a pad] assms(3,9,10) j(1) w'(3,4)
    by (simp add: m_def)
  moreover have "receive_segs ns ur pad (map (\<lambda>i. (fst (L ! i), seg_arrives key a (snd (L ! i)))) (ks @ [j])) w = map_option snd m"
    using w'(1) L(1) by (cases m) (auto simp: m_def [symmetric])
  ultimately show ?thesis by blast
qed

section \<open>Properties\<close>

lemma hands_up_log:
  assumes "hands_up upper_log k (length P) P old m" "length P < 2 ^ 16"
  shows "\<exists>w. m = Some (MESHX_SUCCESS, w) \<and> mw_delivered w = old @ [(P, k\<lparr>mc_seg := True\<rparr>)]"
proof -
  obtain buf w where b: "m = do { (_, w) \<leftarrow> upper_log buf (word_of_nat (length P)) (k\<lparr>mc_seg := True\<rparr>) w; Some (MESHX_SUCCESS, w) }"
    "take (length P) buf = P" "mw_delivered w = old" using assms(1) by (auto simp: hands_up_def)
  have "unat (word_of_nat (length P) :: u16) = length P" using assms(2) by (simp add: unsigned_of_nat take_bit_nat_eq_self)
  moreover have "length P \<le> length buf" using b(2) by (metis length_take min.cobounded1)
  ultimately show ?thesis using b by (simp add: upper_log_def mem_read_def)
qed

lemma seg_sendable_length: "seg_sendable c P \<Longrightarrow> length P \<le> 372"
proof -
  assume s: "seg_sendable c P"
  then have sz: "0 < seg_size (mc_ctl c)" "P \<noteq> []" "seg_size (mc_ctl c) \<le> 12" "low_count (seg_size (mc_ctl c)) P \<le> 31"
    by (simp_all add: seg_size_bounds seg_sendable_def)
  have "length P \<le> low_count (seg_size (mc_ctl c)) P * seg_size (mc_ctl c)"
    using low_count_bounds(2) [OF sz(1,2)] low_count_bounds(3) [OF sz(1,2), of "low_count (seg_size (mc_ctl c)) P - 1"] by simp
  then show "length P \<le> 372" using mult_le_mono [OF sz(4,3)] by simp
qed

lemma sent_segs:
  fixes c :: msg_ctx and P :: bytes
  defines "n \<equiv> low_count (seg_size (mc_ctl c)) P"
  assumes "\<forall>i < n. seg_of c P i (q + word_of_nat i) (L ! i)" "mc_seq_auth c \<le> q" "unat q + n \<le> unat (mc_seq_auth c) + 0x2000" "unat q + n \<le> 0xFFFFFF"
  shows "\<forall>i < n. seg_of c P i (q + word_of_nat i) (L ! i) \<and> mc_seq_auth c \<le> q + word_of_nat i \<and> q + word_of_nat i - mc_seq_auth c < 0x2000"
proof (intro allI impI conjI)
  fix i assume i: "i < n"
  have "unat (q + word_of_nat i) = unat q + i"
    using i assms(5) by (subst unat_add_lem [THEN iffD1]) (simp_all add: unsigned_of_nat take_bit_nat_eq_self)
  then show "mc_seq_auth c \<le> q + word_of_nat i" "q + word_of_nat i - mc_seq_auth c < 0x2000"
    using assms(3,4) i by (simp_all add: word_le_nat_alt word_less_nat_alt unat_sub)
  show "seg_of c P i (q + word_of_nat i) (L ! i)" using assms(2) i by blast
qed

text \<open>A message of two segments between two nodes.\<close>

definition seg_demo :: "msg_ctx \<times> bytes" where
  "seg_demo = (mc_zero\<lparr>mc_src := 2, mc_dst := 3, mc_ttl := 5\<rparr>, replicate 20 7)"

definition seg_sender :: mesh_world where
  "seg_sender = demo_mesh\<lparr>mw_tx := (\<lambda>_. tx_task_zero\<lparr>tt_ctx := fst seg_demo, tt_pdu := Some (snd seg_demo), tt_pdu_len := 20\<rparr>)\<rparr>"

definition ack_sink :: net_sender where
  "ack_sink pkt c w = Some (MESHX_SUCCESS, w)"

lemma seg_demo_facts:
  "seg_sendable (fst seg_demo) (snd seg_demo)" "low_count (seg_size (mc_ctl (fst seg_demo))) (snd seg_demo) = 2"
  "tt_ctx (mw_tx seg_sender 0) = fst seg_demo" "tt_pdu (mw_tx seg_sender 0) = Some (snd seg_demo)"
  "tt_pdu_len (mw_tx seg_sender 0) = word_of_nat (length (snd seg_demo))" "mc_src (fst seg_demo) = 2" "mc_seq_auth (fst seg_demo) = 0"
  "length (snd seg_demo) = 20" "rx_quiet ack_sink" "MESHX_ADDRESS_IS_VALID 2"
  by (simp_all add: seg_demo_def seg_sender_def seg_sendable_def mc_zero_def seg_size_def lower_sizes low_count_def
      mc_akf_def mc_aid_def rx_quiet_def ack_sink_def MESHX_ADDRESS_IS_VALID_def MESHX_ADDRESS_IS_RFU_def word_le_nat_alt)

lemma seg_demo_worlds:
  "seq_ready 2 0 2 seg_sender" "rx_free 0 2 demo_mesh" "seq_array (seqs (mw_iv demo_mesh)) \<noteq> None"
  "rpl_open 2 (mw_iv demo_mesh)" "rx_free 20 2 (demo_mesh\<lparr>mw_rx := (\<lambda>_. rx_task_zero\<lparr>rt_pdu_len := 20\<rparr>)\<rparr>)"
  by (simp_all add: seq_ready_def seg_sender_def demo_mesh_def rx_free_def rx_task_zero_def rpl_open_def rpl_inv_def
      rpl_entries_def ok_env_def)

text \<open>C15: A message survives segmentation: the segments a task sends are received, in any order
  and with repetitions, and when the last missing one arrives the upper layer is handed, once,
  the pdu the sender had, with its SeqAuth, its key flags and its addresses.  The sender has
  enough sequence numbers, the receiver a free task that is not stale, a replay list with room
  and no entry of the source, and a network layer that takes its acknowledgement.\<close>

theorem seg_roundtrip:
  fixes c :: msg_ctx and P :: bytes
  assumes "seg_sendable c P" "n = low_count (seg_size (mc_ctl c)) P"
    and "tt_ctx (mw_tx ws p) = c" "tt_pdu (mw_tx ws p) = Some P" "tt_pdu_len (mw_tx ws p) = word_of_nat (length P)"
    and "seq_ready (mc_src c) q n ws" "mc_seq_auth c \<le> q" "unat q + n \<le> unat (mc_seq_auth c) + 0x2000"
    and "rx_free 0 (mc_src c) w" "rx_quiet ns" "MESHX_ADDRESS_IS_VALID (mc_src c)" "seq_array (seqs (mw_iv w)) \<noteq> None"
    and "rpl_open (mc_src c) (mw_iv w)" "set ks \<union> {j} = {..<n}" "j \<notin> set ks"
  shows "\<exists>ws' L w'. meshx_lower_trans_send_seg_msg net_log p 0 ws = Some (MESHX_SUCCESS, ws') \<and>
    mw_delivered ws' = mw_delivered ws @ L \<and> length L = n \<and>
    receive_segs ns upper_log pad (map (\<lambda>i. (fst (L ! i), seg_arrives key a (snd (L ! i)))) (ks @ [j])) w = Some w' \<and>
    mw_delivered w' = mw_delivered w @ [(P, (seg_rx_ctx key a c (q + word_of_nat j))\<lparr>mc_seg := True\<rparr>)]"
proof -
  have P: "P \<noteq> []" "n \<le> 31" "unat q + n \<le> 0xFFFFFF"
    using assms(1,2,6) by (simp_all add: seg_sendable_def seq_ready_def Let_def)
  obtain ws' L where s: "meshx_lower_trans_send_seg_msg net_log p 0 ws = Some (MESHX_SUCCESS, ws')"
    "mw_delivered ws' = mw_delivered ws @ L" "length L = n" "\<forall>i < n. seg_of c P i (q + word_of_nat i) (L ! i)"
    using send_seg_log [OF P(1) assms(2) P(2) assms(3-8)] by blast
  obtain m where m: "hands_up upper_log (seg_rx_ctx key a c (q + word_of_nat j)) (length P) P (mw_delivered w) m"
    "receive_segs ns upper_log pad (map (\<lambda>i. (fst (L ! i), seg_arrives key a (snd (L ! i)))) (ks @ [j])) w = map_option snd m"
    using receive_segs_all [OF assms(1) sent_segs [OF s(4) [unfolded assms(2)] assms(7)] assms(9) _ assms(15,10-13), where ur = upper_log and key = key and a = a and pad = pad,
        unfolded add_0 if_cancel]
      assms(2,8,14) P(3) by auto
  show ?thesis using s(1-3) m(2) hands_up_log [OF m(1)] seg_sendable_length [OF assms(1)] by fastforce
qed

theorem seg_roundtrip_witness:
  "\<exists>ws' L w'. meshx_lower_trans_send_seg_msg net_log 0 0 seg_sender = Some (MESHX_SUCCESS, ws') \<and>
    mw_delivered ws' = mw_delivered seg_sender @ L \<and> length L = 2 \<and>
    receive_segs ack_sink upper_log [] (map (\<lambda>i. (fst (L ! i), seg_arrives (1, 0) 0 (snd (L ! i)))) ([1, 1] @ [0])) demo_mesh = Some w' \<and>
    mw_delivered w' = mw_delivered demo_mesh @
      [(snd seg_demo, (seg_rx_ctx (1, 0) 0 (fst seg_demo) (0 + word_of_nat 0))\<lparr>mc_seg := True\<rparr>)]"
  by (rule seg_roundtrip [OF seg_demo_facts(1) seg_demo_facts(2) [symmetric] seg_demo_facts(3-5)])
    (simp_all add: seg_demo_facts seg_demo_worlds, auto)

text \<open>C34: The length of a reassembled message is never reset: a task that received a message of
  \<^verbatim>\<open>l0\<close> bytes and was released keeps that length, and the next message of at least two
  segments it receives is handed to the upper layer, whatever that does, with \<^verbatim>\<open>l0\<close> added to
  its own length, in a buffer that starts with the message and is less than twelve bytes longer;
  when \<^verbatim>\<open>l0\<close> is twelve or more, a read of that length runs over the end of the buffer.  The
  source of the message has no entry in the replay list.\<close>

theorem stale_length_overruns:
  fixes c :: msg_ctx and P :: bytes
  assumes "seg_sendable c P" "n = low_count (seg_size (mc_ctl c)) P" "2 \<le> n"
    and "\<forall>i < n. seg_of c P i (q i) (L ! i) \<and> mc_seq_auth c \<le> q i \<and> q i - mc_seq_auth c < 0x2000"
    and "rx_free l0 (mc_src c) w" "rx_quiet ns" "MESHX_ADDRESS_IS_VALID (mc_src c)" "seq_array (seqs (mw_iv w)) \<noteq> None"
    and "rpl_open (mc_src c) (mw_iv w)" "l0 \<le> 372"
  shows "(\<exists>buf w1. receive_segs ns ur pad (map (\<lambda>i. (fst (L ! i), seg_arrives key a (snd (L ! i)))) [0..<n]) w =
      map_option snd (ur buf (word_of_nat (l0 + length P)) ((seg_rx_ctx key a c (q (n - 1)))\<lparr>mc_seg := True\<rparr>) w1) \<and>
      unat (word_of_nat (l0 + length P) :: u16) = l0 + length P \<and>
      take (length P) buf = P \<and> length buf < length P + 12 \<and> mw_delivered w1 = mw_delivered w \<and>
      (12 \<le> l0 \<longrightarrow> mem_read buf 0 (l0 + length P) = None)) \<and>
    (\<forall>t v v'. meshx_lower_trans_rx_task_release t v = Some v' \<longrightarrow> rt_pdu_len (mw_rx v' t) = rt_pdu_len (mw_rx v t))"
proof -
  obtain j where j: "n = Suc j" using assms(3) by (cases n) auto
  then have u: "set [0..<j] \<union> {j} = {..<n}" "j \<notin> set [0..<j]" "[0..<n] = [0..<j] @ [j]" by auto
  obtain m where m: "hands_up ur (seg_rx_ctx key a c (q j)) (l0 + length P) P (mw_delivered w) m"
    "receive_segs ns ur pad (map (\<lambda>i. (fst (L ! i), seg_arrives key a (snd (L ! i)))) [0..<n]) w = map_option snd m"
    using receive_segs_all [OF assms(1,4) [unfolded assms(2)] assms(5) u(1) [unfolded assms(2)] u(2) assms(6-9),
        where ur = ur and key = key and a = a and pad = pad] assms(2,3) u(3) by auto
  obtain buf w1 where b: "m = do { (_, w) \<leftarrow> ur buf (word_of_nat (l0 + length P)) ((seg_rx_ctx key a c (q j))\<lparr>mc_seg := True\<rparr>) w1;
      Some (MESHX_SUCCESS, w) }" "length buf < length P + 12" "take (length P) buf = P" "mw_delivered w1 = mw_delivered w"
    using m(1) by (auto simp: hands_up_def)
  have "map_option snd m = map_option snd (ur buf (word_of_nat (l0 + length P)) ((seg_rx_ctx key a c (q j))\<lparr>mc_seg := True\<rparr>) w1)"
    unfolding b(1) by (cases "ur buf (word_of_nat (l0 + length P)) ((seg_rx_ctx key a c (q j))\<lparr>mc_seg := True\<rparr>) w1") auto
  moreover have "unat (word_of_nat (l0 + length P) :: u16) = l0 + length P"
    using seg_sendable_length [OF assms(1)] assms(10) by (simp add: unsigned_of_nat take_bit_nat_eq_self del: of_nat_add)
  moreover have "12 \<le> l0 \<longrightarrow> mem_read buf 0 (l0 + length P) = None" using b(2) by (simp add: mem_read_def)
  ultimately have "\<exists>buf w1. receive_segs ns ur pad (map (\<lambda>i. (fst (L ! i), seg_arrives key a (snd (L ! i)))) [0..<n]) w =
      map_option snd (ur buf (word_of_nat (l0 + length P)) ((seg_rx_ctx key a c (q (n - 1)))\<lparr>mc_seg := True\<rparr>) w1) \<and>
      unat (word_of_nat (l0 + length P) :: u16) = l0 + length P \<and>
      take (length P) buf = P \<and> length buf < length P + 12 \<and> mw_delivered w1 = mw_delivered w \<and>
      (12 \<le> l0 \<longrightarrow> mem_read buf 0 (l0 + length P) = None)"
    using m(2) b(2-4) j by (intro exI [of _ buf] exI [of _ w1]) simp
  then show ?thesis by (auto simp: meshx_lower_trans_rx_task_release_def rx_upd_def Let_def split: if_splits)
qed

theorem stale_length_overruns_witness:
  "\<exists>L buf k w1. length L = 2 \<and> receive_segs ack_sink upper_log [] (map (\<lambda>i. (fst (L ! i), seg_arrives (1, 0) 0 (snd (L ! i)))) [0..<2])
      (demo_mesh\<lparr>mw_rx := (\<lambda>_. rx_task_zero\<lparr>rt_pdu_len := 20\<rparr>)\<rparr>) = map_option snd (upper_log buf (word_of_nat 40) k w1) \<and>
    take 20 buf = snd seg_demo \<and> mem_read buf 0 40 = None"
proof -
  have "snd seg_demo \<noteq> []" by (simp add: seg_demo_def)
  then obtain L where "length L = 2" "\<forall>i < 2. seg_of (fst seg_demo) (snd seg_demo) i (0 + word_of_nat i) (L ! i)"
    using send_seg_log [OF _ seg_demo_facts(2) [symmetric] _ seg_demo_facts(3-5), of 0] by (auto simp: seg_demo_facts seg_demo_worlds)
  moreover from this(2) have "\<forall>i < 2. seg_of (fst seg_demo) (snd seg_demo) i (0 + word_of_nat i) (L ! i) \<and>
      mc_seq_auth (fst seg_demo) \<le> 0 + word_of_nat i \<and> 0 + word_of_nat i - mc_seq_auth (fst seg_demo) < 0x2000"
    using sent_segs [of "fst seg_demo" "snd seg_demo" 0 L] by (simp add: seg_demo_facts)
  moreover have "length (snd seg_demo) = 20" by (simp add: seg_demo_def)
  ultimately show ?thesis
    using stale_length_overruns [OF seg_demo_facts(1) seg_demo_facts(2) [symmetric] _ _ _ seg_demo_facts(9), where ?l0.0 = 20 and q = "\<lambda>i. 0 + word_of_nat i"
        and L = L and w = "demo_mesh\<lparr>mw_rx := (\<lambda>_. rx_task_zero\<lparr>rt_pdu_len := 20\<rparr>)\<rparr>" and key = "(1, 0)" and a = 0 and pad = "[]" and ur = upper_log]
    by (auto simp: seg_demo_facts seg_demo_worlds)
qed

end
