(* ===== verification/Mesh_Tx_Facts.thy ===== *)
theory Mesh_Tx_Facts
  imports Mesh_Seg_Facts Mesh_Stack_Facts
begin

text \<open>
  How a transmission ends.  A finishing task hands over to the pending ones and comes to an end
  within the turns granted to it; a task whose segments are never acknowledged is given up
  after the configured number of retries.  Both rest on a network layer that sends, which the
  one of the stack does towards other nodes.
\<close>

section \<open>Tasks ready to be sent\<close>

text \<open>A task that holds a message which fits into its segments.\<close>

definition tx_ready :: "nat \<Rightarrow> mesh_world \<Rightarrow> bool" where
  "tx_ready p w \<longleftrightarrow>
    (let t = mw_tx w p in \<exists>P. tt_pdu t = Some P \<and> tt_pdu_len t = word_of_nat (length P) \<and> P \<noteq> [] \<and>
      low_count (seg_size (mc_ctl (tt_ctx t))) P \<le> 31)"

text \<open>What sending a packet leaves alone.\<close>

definition tx_same :: "mesh_world \<Rightarrow> mesh_world \<Rightarrow> bool" where
  "tx_same w w' \<longleftrightarrow> mw_tx w' = mw_tx w \<and> tx_idle w' = tx_idle w \<and> tx_active w' = tx_active w \<and>
    tx_pending w' = tx_pending w \<and> mw_node w' = mw_node w"

text \<open>What sending the segments of a task leaves: everything but the sequence number in its context.\<close>

definition tx_sent :: "nat \<Rightarrow> mesh_world \<Rightarrow> mesh_world \<Rightarrow> bool" where
  "tx_sent p w w' \<longleftrightarrow> (\<exists>s. mw_tx w' = (mw_tx w)(p := (mw_tx w p)\<lparr>tt_ctx := (tt_ctx (mw_tx w p))\<lparr>mc_seq := s\<rparr>\<rparr>)) \<and>
    tx_idle w' = tx_idle w \<and> tx_active w' = tx_active w \<and> tx_pending w' = tx_pending w \<and> mw_node w' = mw_node w"

lemma tx_sent_trans: "tx_sent p w w1 \<Longrightarrow> tx_sent p w1 w2 \<Longrightarrow> tx_sent p w w2"
  by (auto simp: tx_sent_def)

lemma seq_use_total:
  assumes "seq_array (seqs (mw_iv w)) \<noteq> None"
  shows "\<exists>s x. element_seq_use a w = Some (s, w\<lparr>mw_iv := x\<rparr>) \<and> seq_array (seqs x) \<noteq> None"
proof -
  define e where "e = (ucast (a - node_addr (param (mw_node w))) :: u8)"
  obtain q s' where "meshx_seq_use e (seqs (mw_iv w)) = Some (q, s')" "seq_array s' \<noteq> None"
    using assms by (cases "meshx_seq_use e (seqs (mw_iv w))") (auto simp: meshx_seq_use_def Let_def split: if_splits)
  then show ?thesis by (auto simp: element_seq_use_def e_def)
qed

lemma low24_small: "unat (low24 s) < 2 ^ 24"
proof -
  have "low24 s \<le> 0xFFFFFF" unfolding low24_def by (rule word_and_le1)
  then show ?thesis by (simp add: word_le_nat_alt)
qed

text \<open>Starting the timer of a task makes it run.\<close>

definition tx_armed :: "nat \<Rightarrow> mesh_world \<Rightarrow> bool" where
  "tx_armed p w \<longleftrightarrow>
    (case tt_timer (mw_tx w p) of None \<Rightarrow> False | Some tm \<Rightarrow> tm_mode tm = MESHX_TIMER_MODE_SINGLE_SHOT \<and> tm_is_active tm)"

lemma random_delay:
  assumes "meshx_lower_trans_random e = (v, e')"
  shows "(ucast v :: u32) \<noteq> 0" "mem_src e' = mem_src e" "tmr_src e' = tmr_src e"
proof -
  obtain r :: u32 where v: "v = ucast (if r mod 50 < 20 then r mod 50 + 20 else r mod 50)"
    and e': "mem_src e' = mem_src e" "tmr_src e' = tmr_src e"
    using assms by (auto simp: meshx_lower_trans_random_def MESHX_ABS_rand_def meshx_rand_def Let_def split: prod.splits)
  define m where "m = (if r mod 50 < 20 then r mod 50 + 20 else r mod 50)"
  have "unat (r mod 50) < 50" by (simp add: unat_mod)
  then have m: "20 \<le> unat m" "unat m \<le> 49"
    by (auto simp: m_def word_less_nat_alt unat_word_ariths not_less)
  have "(ucast v :: u32) = m"
    unfolding v m_def [symmetric] using m
    by (simp add: word_unat_eq_iff unsigned_ucast_eq unsigned_take_bit_eq take_bit_nat_eq_self)
  then show "(ucast v :: u32) \<noteq> 0" using m by auto
  show "mem_src e' = mem_src e" "tmr_src e' = tmr_src e" by (fact e')+
qed

lemma retry_interval:
  "MESHX_LOWER_TRANS_TX_RETRY_BASE + MESHX_LOWER_TRANS_TX_RETRY_TTL_FACTOR * ucast (t :: u8) \<noteq> (0 :: u32)"
proof -
  have t: "unat t < 256" using unsigned_less [of t] by simp
  have "unat (200 + 50 * ucast t :: u32) = 200 + 50 * unat t"
    using t by (simp add: unat_word_ariths unsigned_ucast_eq take_bit_nat_eq_self)
  then show ?thesis unfolding MESHX_LOWER_TRANS_TX_RETRY_BASE_def MESHX_LOWER_TRANS_TX_RETRY_TTL_FACTOR_def
    by (metis add_is_0 unat_0 zero_neq_numeral)
qed

lemma timer_start_shape:
  "\<exists>x e. meshx_lower_trans_tx_timer_start p w = tx_upd p (\<lambda>t. t\<lparr>tt_timer := snd (meshx_timer_start (tt_timer t) x)\<rparr>) (w\<lparr>mw_env := e\<rparr>) \<and>
    x \<noteq> 0 \<and> mem_src e = mem_src (mw_env w) \<and> tmr_src e = tmr_src (mw_env w)"
proof (cases "MESHX_ADDRESS_IS_UNICAST (mc_dst (tt_ctx (mw_tx w p)))")
  case True
  show ?thesis
  proof (intro exI conjI)
    show "meshx_lower_trans_tx_timer_start p w = tx_upd p (\<lambda>t. t\<lparr>tt_timer := snd (meshx_timer_start (tt_timer t)
        (MESHX_LOWER_TRANS_TX_RETRY_BASE + MESHX_LOWER_TRANS_TX_RETRY_TTL_FACTOR * ucast (mc_ttl (tt_ctx (mw_tx w p)))))\<rparr>) (w\<lparr>mw_env := mw_env w\<rparr>)"
      using True by (simp add: meshx_lower_trans_tx_timer_start_def Let_def timer_restart_start cong: if_cong)
  qed (simp_all add: retry_interval)
next
  case False
  obtain v e where e: "meshx_lower_trans_random (mw_env w) = (v, e)" by fastforce
  show ?thesis using False random_delay [OF e]
    by (intro exI [of _ "ucast v"] exI [of _ e]) (simp add: meshx_lower_trans_tx_timer_start_def Let_def on_menv_def e)
qed

section \<open>Timers that expire\<close>

text \<open>The timer of a task expires only while it runs; a single-shot timer then stops, so that it
  expires again only when the handler has started it anew.\<close>

definition tx_expires :: "net_sender \<Rightarrow> nat \<Rightarrow> mesh_world \<Rightarrow> mesh_world option" where
  "tx_expires ns p w = do {
    tm \<leftarrow> tt_timer (mw_tx w p);
    if tm_is_active tm
    then meshx_lower_trans_async_handle_tx_timeout ns p (tx_upd p (\<lambda>t. t\<lparr>tt_timer := Some (timer_handle_thread tm)\<rparr>) w)
    else None
  }"

text \<open>The timer expires n times, or until the task is no longer active.\<close>

fun tx_timeouts :: "net_sender \<Rightarrow> nat \<Rightarrow> nat \<Rightarrow> mesh_world \<Rightarrow> mesh_world option" where
  "tx_timeouts ns p 0 w = Some w"
| "tx_timeouts ns p (Suc n) w =
    (if p \<in> set (tx_active w) then do { w \<leftarrow> tx_expires ns p w; tx_timeouts ns p n w } else Some w)"

section \<open>A network layer that sends\<close>

text \<open>The contract of a finishing task with the layers around it: in worlds J, packets of contexts
  Q are sent and J is kept; in J the platform grants memory and timers and the sequence
  numbers are there, and J does not look at the transmissions.\<close>

locale calm_sender = transport ns ur S R for ns ur S R +
  fixes J :: "mesh_world \<Rightarrow> bool" and Q :: "msg_ctx \<Rightarrow> bool"
  assumes ns_calm: "J w \<Longrightarrow> Q c \<Longrightarrow> unat (mc_seq c) < 2 ^ 24 \<Longrightarrow> 0 < length pkt \<Longrightarrow> length pkt + net_mic_len (mc_ctl c) \<le> 20 \<Longrightarrow>
      \<exists>r w'. ns pkt c w = Some (r, w') \<and> tx_same w w' \<and> J w'"
    and Q_seq: "Q (c\<lparr>mc_seq := s\<rparr>) = Q c"
    and J_seq: "J w \<Longrightarrow> seq_array (seqs (mw_iv w)) \<noteq> None"
    and J_env: "J w \<Longrightarrow> mem_src (mw_env w) m \<and> tmr_src (mw_env w) m"
    and J_cong: "J w \<Longrightarrow> mw_gap w' = mw_gap w \<Longrightarrow> mw_ifaces w' = mw_ifaces w \<Longrightarrow> mw_iface_mem w' = mw_iface_mem w \<Longrightarrow>
      mw_keys w' = mw_keys w \<Longrightarrow> mw_node w' = mw_node w \<Longrightarrow> mem_src (mw_env w') = mem_src (mw_env w) \<Longrightarrow>
      tmr_src (mw_env w') = tmr_src (mw_env w) \<Longrightarrow> seq_array (seqs (mw_iv w')) \<noteq> None \<Longrightarrow> J w'"
begin

lemma J_tx_upd [simp]: "J (tx_upd p f w) = J w"
proof -
  have "J w'" if "J v" "mw_gap w' = mw_gap v" "mw_ifaces w' = mw_ifaces v" "mw_iface_mem w' = mw_iface_mem v"
    "mw_keys w' = mw_keys v" "mw_node w' = mw_node v" "mw_env w' = mw_env v" "mw_iv w' = mw_iv v" for v w'
    using J_cong [OF that(1-6)] that(7,8) J_seq [OF that(1)] by simp
  then show ?thesis by (auto simp: tx_upd_def)
qed

lemma J_lists: "J w \<Longrightarrow> J (w\<lparr>tx_idle := i, tx_active := x, tx_pending := y\<rparr>)" "J w \<Longrightarrow> J (w\<lparr>tx_active := x\<rparr>)"
  "J w \<Longrightarrow> J (w\<lparr>tx_pending := y\<rparr>)"
proof -
  show "J (w\<lparr>tx_idle := i, tx_active := x, tx_pending := y\<rparr>)" if "J w" using that by (rule J_cong) (simp_all add: J_seq [OF that])
  show "J (w\<lparr>tx_active := x\<rparr>)" if "J w" using that by (rule J_cong) (simp_all add: J_seq [OF that])
  show "J (w\<lparr>tx_pending := y\<rparr>)" if "J w" using that by (rule J_cong) (simp_all add: J_seq [OF that])
qed

definition good :: "nat \<Rightarrow> mesh_world \<Rightarrow> bool" where
  "good p w \<longleftrightarrow> tx_ready p w \<and> Q (tt_ctx (mw_tx w p))"

definition queued :: "mesh_world \<Rightarrow> bool" where
  "queued w \<longleftrightarrow> (\<forall>q \<in> set (tx_pending w). good q w)"

lemma good_cong:
  "tt_pdu (mw_tx w' p) = tt_pdu (mw_tx w p) \<Longrightarrow> tt_pdu_len (mw_tx w' p) = tt_pdu_len (mw_tx w p) \<Longrightarrow>
    tt_ctx (mw_tx w' p) = (tt_ctx (mw_tx w p))\<lparr>mc_seq := s\<rparr> \<Longrightarrow> good p w' = good p w"
  by (simp add: good_def tx_ready_def Let_def Q_seq)

lemma good_same: "mw_tx w' p = mw_tx w p \<Longrightarrow> good p w' = good p w"
  by (simp add: good_def tx_ready_def)

lemma tx_sent_good: "tx_sent p w w' \<Longrightarrow> good q w' = good q w"
  using good_cong [of w' p w] good_same [of w' q w] by (cases "q = p") (auto simp: tx_sent_def)

lemma send_loop_total:
  assumes "P \<noteq> []" "n = low_count sz P" "n \<le> 31"
  shows "sz = seg_size (mc_ctl (tt_ctx (mw_tx w p))) \<Longrightarrow> m = n - i \<Longrightarrow> tt_pdu (mw_tx w p) = Some P \<Longrightarrow> length buf = 20 \<Longrightarrow>
    J w \<and> Q (tt_ctx (mw_tx w p)) \<Longrightarrow> i \<le> n \<Longrightarrow> (i < n \<Longrightarrow> off = word_of_nat (i * sz)) \<Longrightarrow>
    \<exists>r w'. send_seg_loop ns p (word_of_nat (length P)) (word_of_nat n) b (map word_of_nat [i..<n]) off buf w = Some (r, w') \<and> tx_sent p w w' \<and> J w'"
proof (induction m arbitrary: i w buf off)
  case 0
  have "mw_tx w = (mw_tx w)(p := (mw_tx w p)\<lparr>tt_ctx := (tt_ctx (mw_tx w p))\<lparr>mc_seq := mc_seq (tt_ctx (mw_tx w p))\<rparr>\<rparr>)" by simp
  then have "tx_sent p w w" unfolding tx_sent_def by blast
  then show ?case using 0 by auto
next
  case (Suc m)
  have i: "i < n" and js: "[i..<n] = i # [Suc i..<n]" using Suc.prems(2) by (simp_all add: upt_conv_Cons)
  have sz: "0 < sz" "sz \<le> 12" using seg_size_bounds Suc.prems(1) by simp_all
  define d where "d = low_chunk sz P i"
  note sl = seg_len_chunk [OF assms(1-3) sz i, folded d_def]
  have off: "off = word_of_nat (i * sz)" using Suc.prems(7) i by blast
  define off' where "off' = off + ucast (word_of_nat (length d) :: u8)"
  have next_off: "Suc i < n \<Longrightarrow> off' = word_of_nat (Suc i * sz)" using sl(6) by (simp add: off'_def off)
  have seg_len: "(if unat (word_of_nat n :: u8) = unat (word_of_nat i :: u8) + 1 then ucast (word_of_nat (length P) - off)
      else word_of_nat (seg_size (mc_ctl (tt_ctx (mw_tx w p))))) = (word_of_nat (length d) :: u8)"
    using sl(1) unfolding off Suc.prems(1) by simp
  have k: "m = n - Suc i" "Suc i \<le> n" using Suc.prems(2) i by auto
  show ?case
  proof (cases "bit b i")
    case True
    have "send_seg_loop ns p (word_of_nat (length P)) (word_of_nat n) b (map word_of_nat [i..<n]) off buf w =
        send_seg_loop ns p (word_of_nat (length P)) (word_of_nat n) b (map word_of_nat [Suc i..<n]) off' buf w"
      unfolding js list.map send_seg_loop.simps Let_def seg_len
      unfolding sl(8) using True by (simp add: off'_def)
    then show ?thesis using Suc.IH [OF Suc.prems(1) k(1) Suc.prems(3-5) k(2) next_off] by simp
  next
    case False
    obtain s x where x: "element_seq_use (mc_src (tt_ctx (mw_tx w p))) w = Some (s, w\<lparr>mw_iv := x\<rparr>)" "seq_array (seqs x) \<noteq> None"
      using seq_use_total [OF J_seq] Suc.prems(5) by blast
    define w1 where "w1 = tx_upd p (\<lambda>t. t\<lparr>tt_ctx := (tt_ctx t)\<lparr>mc_seq := low24 s\<rparr>\<rparr>) (w\<lparr>mw_iv := x\<rparr>)"
    have w1: "tx_sent p w w1" "tt_pdu (mw_tx w1 p) = Some P" "mc_ctl (tt_ctx (mw_tx w1 p)) = mc_ctl (tt_ctx (mw_tx w p))"
      using Suc.prems(3) by (auto simp: w1_def tx_sent_def tx_upd_def)
    have "J (w\<lparr>mw_iv := x\<rparr>)" using Suc.prems(5) x(2) by (auto elim!: J_cong)
    then have j1: "J w1" by (simp add: w1_def)
    define c where "c = tt_ctx (mw_tx w1 p)"
    show ?thesis
    proof (cases "MESHX_LOWER_TRANS_IS_SEQ_AUTH_VALID (mc_seq c) (mc_seq_auth c)")
      case False
      then show ?thesis
        unfolding js list.map send_seg_loop.simps Let_def seg_len
        unfolding sl(8) x(1) Option.bind.bind_lunit split w1_def [symmetric] c_def [symmetric]
        using \<open>\<not> bit b i\<close> w1(1) j1 by simp
    next
      case True
      define h where "h = seg_header c (word_of_nat n - 1) (word_of_nat i) buf"
      have h: "length h = 4" by (simp add: h_def seg_header_def)
      define buf' where "buf' = h @ d @ drop (4 + length d) buf"
      note hb = seg_header_buffer [OF Suc.prems(4) h, of d, folded buf'_def]
      have buf': "length buf' = 20" using h sl(3) Suc.prems(4) by (simp add: buf'_def)
      have cc: "c = (tt_ctx (mw_tx w p))\<lparr>mc_seq := low24 s\<rparr>" by (simp add: c_def w1_def tx_upd_def)
      have q: "Q c" using Suc.prems(5) by (simp add: cc Q_seq)
      have "length d \<le> sz" by (simp add: d_def low_chunk_def)
      then have "4 + length d + net_mic_len (mc_ctl c) \<le> 20"
        using Suc.prems(1) by (cases "mc_ctl c") (simp_all add: cc seg_size_def lower_sizes net_mic_len_def)
      then obtain r w2 where ns: "ns (take (4 + length d) buf') c w1 = Some (r, w2)" "tx_same w1 w2" "J w2"
        using ns_calm [OF j1 q, of "take (4 + length d) buf'"] buf' low24_small [of s] sl(3) by (auto simp: cc)
      have w2: "tx_sent p w w2" "tt_pdu (mw_tx w2 p) = Some P" "mc_ctl (tt_ctx (mw_tx w2 p)) = mc_ctl (tt_ctx (mw_tx w p))"
        using w1 ns(2) by (auto simp: tx_sent_def tx_same_def)
      have "tt_ctx (mw_tx w2 p) = c" using ns(2) by (simp add: tx_same_def c_def)
      then have jq: "J w2 \<and> Q (tt_ctx (mw_tx w2 p))" using ns(3) q by simp
      have "send_seg_loop ns p (word_of_nat (length P)) (word_of_nat n) b (map word_of_nat [i..<n]) off buf w =
          send_seg_loop ns p (word_of_nat (length P)) (word_of_nat n) b (map word_of_nat [Suc i..<n]) off' buf' w2"
        unfolding js list.map
        by (subst send_seg_step [where seg_len = "word_of_nat (length d)" and d = d and ?pdu1.0 = "h @ drop 4 buf" and ?pdu2.0 = buf' and
            ?w0.0 = "w\<lparr>mw_iv := x\<rparr>" and seq = s and ppdu = P and c = c and ?w1.0 = w1])
          (use x(1) sl True False \<open>\<not> bit b i\<close> w1(2) hb ns(1) seg_len in
            \<open>simp_all add: h_def [symmetric] c_def [symmetric] w1_def [symmetric] off'_def off\<close>)
      moreover have "sz = seg_size (mc_ctl (tt_ctx (mw_tx w2 p)))" using Suc.prems(1) w2(3) by simp
      ultimately show ?thesis
        using Suc.IH [OF _ k(1) w2(2) buf' jq k(2) next_off] tx_sent_trans [OF w2(1)] by auto
    qed
  qed
qed

lemma send_total:
  assumes "J w" "good p w"
  shows "\<exists>r w'. meshx_lower_trans_send_seg_msg ns p b w = Some (r, w') \<and> tx_sent p w w' \<and> J w'"
proof -
  define c where "c = tt_ctx (mw_tx w p)"
  obtain P where P: "tt_pdu (mw_tx w p) = Some P" "tt_pdu_len (mw_tx w p) = word_of_nat (length P)" "P \<noteq> []"
    "low_count (seg_size (mc_ctl c)) P \<le> 31" and jq: "J w \<and> Q (tt_ctx (mw_tx w p))"
    using assms by (auto simp: good_def tx_ready_def Let_def c_def)
  define n where "n = low_count (seg_size (mc_ctl c)) P"
  have sz: "0 < seg_size (mc_ctl c)" "seg_size (mc_ctl c) \<le> 12" by (rule seg_size_bounds)+
  have n: "0 < n" "n \<le> 31" using low_count_bounds(2) [OF sz(1) P(3)] P(4) by (simp_all add: n_def)
  note sl = seg_len_chunk [OF P(3) n_def n(2) sz n(1)]
  have num: "seg_num_of (word_of_nat (length P)) (seg_size (mc_ctl c)) = word_of_nat n"
    unfolding seg_num_of_def sl(7) n_def low_count_def ..
  show ?thesis
    using send_loop_total [OF P(3) n_def n(2) _ _ P(1) _ jq, where off = 0 and i = 0 and b = b] c_def
    unfolding meshx_lower_trans_send_seg_msg_def Let_def P(2) c_def [symmetric] num sl(9) by simp
qed

text \<open>Starting the timer afterwards.\<close>

lemma timer_start_keeps:
  assumes "J w" and e: "meshx_lower_trans_tx_timer_start p w = w'"
  shows "J w'" "good q w' = good q w" "tx_idle w' = tx_idle w" "tx_active w' = tx_active w" "tx_pending w' = tx_pending w"
    "mw_node w' = mw_node w" "tt_retry (mw_tx w' q) = tt_retry (mw_tx w q)"
    "tt_timer (mw_tx w p) = Some tm \<Longrightarrow> tm_mode tm = MESHX_TIMER_MODE_SINGLE_SHOT \<Longrightarrow> tx_armed p w'"
proof -
  obtain x e where w': "w' = tx_upd p (\<lambda>t. t\<lparr>tt_timer := snd (meshx_timer_start (tt_timer t) x)\<rparr>) (w\<lparr>mw_env := e\<rparr>)"
    "x \<noteq> 0" "mem_src e = mem_src (mw_env w)" "tmr_src e = tmr_src (mw_env w)"
    using timer_start_shape [of p w] by (auto simp: e)
  have "J (w\<lparr>mw_env := e\<rparr>)" using assms(1) by (rule J_cong) (simp_all add: w'(3,4) J_seq [OF assms(1)])
  then show "J w'" by (simp add: w'(1))
  have "good q w' = good q w" for q
    by (rule good_cong [where s = "mc_seq (tt_ctx (mw_tx w q))"]) (simp_all add: w'(1) tx_upd_def)
  then show "good q w' = good q w" .
  show "tx_idle w' = tx_idle w" "tx_active w' = tx_active w" "tx_pending w' = tx_pending w"
    "mw_node w' = mw_node w" "tt_retry (mw_tx w' q) = tt_retry (mw_tx w q)"
    by (simp_all add: w'(1) tx_upd_def)
  show "tx_armed p w'" if "tt_timer (mw_tx w p) = Some tm" "tm_mode tm = MESHX_TIMER_MODE_SINGLE_SHOT"
    using that w'(2) by (simp add: w'(1) tx_upd_def tx_armed_def meshx_timer_start_def)
qed

section \<open>The turns of a finishing task\<close>

definition finished :: "nat \<Rightarrow> mesh_world \<Rightarrow> mesh_world \<Rightarrow> bool" where
  "finished p w w' \<longleftrightarrow> J w' \<and> queued w' \<and> mw_node w' = mw_node w \<and> insert p (set (tx_idle w)) \<subseteq> set (tx_idle w')"

lemma finish_run_total:
  "(\<forall>p w. J w \<longrightarrow> pools S R w \<longrightarrow> p \<in> S \<longrightarrow> queued w \<longrightarrow> 2 * length (tx_pending w) + 1 \<le> n \<longrightarrow>
      (\<exists>w'. meshx_lower_trans_tx_task_finish ns n p w = Some w' \<and> finished p w w')) \<and>
   (\<forall>p w. J w \<longrightarrow> tx_waiting S R p w \<longrightarrow> dst_free p w \<longrightarrow> good p w \<longrightarrow> queued w \<longrightarrow> 2 * length (tx_pending w) + 2 \<le> n \<longrightarrow>
      (\<exists>r w'. meshx_lower_trans_tx_task_run ns n p w = Some (r, w') \<and> J w' \<and> queued w' \<and> mw_node w' = mw_node w \<and>
        set (tx_idle w) \<subseteq> set (tx_idle w')))"
proof (induction n)
  case (Suc n)
  note fin = Suc [THEN conjunct1, rule_format] and run = Suc [THEN conjunct2, rule_format]
  have "\<exists>w'. meshx_lower_trans_tx_task_finish ns (Suc n) p w = Some w' \<and> finished p w w'"
    if a: "J w" "pools S R w" "p \<in> S" "queued w" "2 * length (tx_pending w) + 1 \<le> Suc n" for p w
  proof -
    define w1 where "w1 = (tx_upd p (\<lambda>t. t\<lparr>tt_timer := None, tt_pdu := None\<rparr>) w)
      \<lparr>tx_idle := remove1 p (tx_idle w) @ [p], tx_active := remove1 p (tx_active w), tx_pending := remove1 p (tx_pending w)\<rparr>"
    have p: "p \<in> set (tx_idle w) \<union> set (tx_active w) \<union> set (tx_pending w)" and d: "distinct (tx_pending w)"
      using a(2,3) by (auto simp: pools_def tx_inv_def)
    have w1: "meshx_lower_trans_tx_task_release p w = Some w1"
      using p by (simp add: meshx_lower_trans_tx_task_release_def w1_def Let_def tx_upd_def)
    define w2 where "w2 = (if meshx_is_iv_update_state_transit_pending (iv (mw_iv w1))
      then w1\<lparr>mw_iv := (mw_iv w1)\<lparr>iv := meshx_iv_update_state_set MESHX_IV_UPDATE_STATE_NORMAL (iv (mw_iv w1))\<rparr>\<rparr> else w1)"
    have w2: "mw_tx w2 = mw_tx w1" "tx_idle w2 = remove1 p (tx_idle w) @ [p]" "tx_pending w2 = remove1 p (tx_pending w)"
      "mw_node w2 = mw_node w" by (simp_all add: w2_def w1_def tx_upd_def)
    have j1: "J w1" unfolding w1_def by (rule J_lists(1)) (simp add: a(1))
    have j2: "J w2" unfolding w2_def using j1 J_seq [OF j1] by (auto elim!: J_cong)
    have p2: "pools S R w2"
      using tx_release_pools(1) [OF w1 a(2)] same_pools_inv(3) [of w1 w2] by (simp add: w2_def)
    have q2: "queued w2" unfolding queued_def
    proof
      fix q assume "q \<in> set (tx_pending w2)"
      then have q: "q \<in> set (tx_pending w)" "q \<noteq> p" using d by (auto simp: w2(3))
      have "good q w2 = good q w" by (rule good_same) (simp add: w2(1) w1_def tx_upd_def q(2))
      then show "good q w2" using a(4) q(1) by (simp add: queued_def)
    qed
    have "q \<in> insert p (set (remove1 p (tx_idle w)))" if "q \<in> set (tx_idle w)" for q
      using that by (cases "q = p") simp_all
    then have sub: "insert p (set (tx_idle w)) \<subseteq> set (tx_idle w2)" by (auto simp: w2(2))
    show ?thesis
    proof (cases "pending_ready w2")
      case None
      then have "meshx_lower_trans_tx_task_finish ns (Suc n) p w = Some w2"
        unfolding meshx_lower_trans_tx_task_finish.simps w1 Option.bind.bind_lunit Let_def w2_def [symmetric] by simp
      then show ?thesis using j2 q2 sub w2(4) by (simp add: finished_def)
    next
      case (Some q)
      have q: "q \<in> set (tx_pending w2)" using Some by (auto simp: pending_ready_def find_Some_iff)
      let ?v = "w2\<lparr>tx_pending := remove1 q (tx_pending w2)\<rparr>"
      have "Suc (length (remove1 q (tx_pending w2))) = length (tx_pending w2)"
        using q by (metis One_nat_def Suc_pred length_pos_if_in_set length_remove1)
      moreover have "length (tx_pending w2) \<le> length (tx_pending w)" by (simp add: w2(3) length_remove1)
      ultimately have n: "2 * length (tx_pending ?v) + 2 \<le> n" using a(5) by simp
      have gq: "good q' ?v = good q' w2" for q' by (rule good_same) simp
      have "good q ?v" "queued ?v" using q2 q gq by (auto simp: queued_def dest: notin_set_remove1 [rotated])
      from run [OF J_lists(3) [OF j2] pending_ready_waiting [OF Some p2] this n]
      obtain r w' where w': "meshx_lower_trans_tx_task_run ns n q ?v = Some (r, w')" "J w'" "queued w'" "mw_node w' = mw_node w2"
        "set (tx_idle w2) \<subseteq> set (tx_idle w')" by auto
      have "meshx_lower_trans_tx_task_finish ns (Suc n) p w = Some w'"
        unfolding meshx_lower_trans_tx_task_finish.simps w1 Option.bind.bind_lunit Let_def w2_def [symmetric]
        by (simp add: Some w'(1))
      then show ?thesis using w'(2-5) sub w2(4) by (auto simp: finished_def)
    qed
  qed
  moreover have "\<exists>r w'. meshx_lower_trans_tx_task_run ns (Suc n) p w = Some (r, w') \<and> J w' \<and> queued w' \<and> mw_node w' = mw_node w \<and>
      set (tx_idle w) \<subseteq> set (tx_idle w')"
    if a: "J w" "tx_waiting S R p w" "dst_free p w" "good p w" "queued w" "2 * length (tx_pending w) + 2 \<le> Suc n" for p w
  proof -
    obtain tm e where c: "meshx_timer_create (tt_timer (mw_tx w p)) MESHX_TIMER_MODE_SINGLE_SHOT (mw_env w) = (MESHX_SUCCESS, Some tm, e)"
      "mem_src e = mem_src (mw_env w)" "tmr_src e = tmr_src (mw_env w)"
      using J_env [OF a(1)] by (simp add: meshx_timer_create_def meshx_malloc_ok_def timer_create_ok_def)
    define w1 where "w1 = tx_upd p (\<lambda>t. t\<lparr>tt_timer := Some tm\<rparr>) (w\<lparr>mw_env := e\<rparr>)"
    define w2 where "w2 = w1\<lparr>tx_active := tx_active w1 @ [p]\<rparr>"
    have m2: "mw_tx w2 = mw_tx w1" by (simp add: w2_def)
    have p2: "pools S R w2" using run_start_pools [OF a(2,3), of tm e] by (simp add: w2_def w1_def tx_upd_def)
    have "J (w\<lparr>mw_env := e\<rparr>)" using a(1) by (rule J_cong) (simp_all add: c(2,3) J_seq [OF a(1)])
    then have j2: "J w2" unfolding w2_def w1_def by (intro J_lists(2)) simp
    have out: "p \<notin> set (tx_pending w)" and pS: "p \<in> S" using a(2) by (auto simp: tx_waiting_def pools_def tx_inv_def)
    have g2: "good q w2 = good q w" for q
      by (rule good_cong [where s = "mc_seq (tt_ctx (mw_tx w q))"]) (simp_all add: w2_def w1_def tx_upd_def)
    have w2: "tx_pending w2 = tx_pending w" "tx_idle w2 = tx_idle w" "mw_node w2 = mw_node w" by (simp_all add: w2_def w1_def tx_upd_def)
    obtain ret w3 where s: "meshx_lower_trans_send_seg_msg ns p (tt_block_ack (mw_tx w2 p)) w2 = Some (ret, w3)" "tx_sent p w2 w3" "J w3"
      using send_total [OF j2] a(4) g2 by blast
    have w3: "tx_pending w3 = tx_pending w" "tx_idle w3 = tx_idle w" "mw_node w3 = mw_node w"
      using s(2) w2 by (auto simp: tx_sent_def)
    have q3: "queued w3" using a(5) tx_sent_good [OF s(2)] g2 w3(1) by (simp add: queued_def)
    have b: "meshx_lower_trans_tx_task_run ns (Suc n) p w =
      (if ret \<noteq> MESHX_SUCCESS then do { w \<leftarrow> meshx_lower_trans_tx_task_finish ns n p w3; Some (ret, w) }
       else Some (ret, meshx_lower_trans_tx_timer_start p w3))"
      using s(1) [unfolded m2] by (simp add: c(1) Let_def w1_def [symmetric] w2_def [symmetric])
    show ?thesis
    proof (cases "ret = MESHX_SUCCESS")
      case True
      note t = timer_start_keeps [OF s(3) refl, of p]
      have gt: "good q (meshx_lower_trans_tx_timer_start p w3) = good q w3" for q
        using timer_start_keeps(2) [OF s(3) refl] .
      show ?thesis using True b t(1,3,5,6) gt q3 w3 by (simp add: queued_def del: meshx_lower_trans_tx_task_run.simps)
    next
      case False
      have "2 * length (tx_pending w3) + 1 \<le> n" using a(6) w3(1) by simp
      from fin [OF s(3) send_seg_pools [OF p2 s(1)] pS q3 this] show ?thesis using False b w3 by (auto simp: finished_def)
    qed
  qed
  ultimately show ?case by blast
qed simp

lemma finish_total:
  assumes "J w" "pools S R w" "p \<in> S" "queued w" "tx_turns w \<le> n"
  shows "\<exists>w'. meshx_lower_trans_tx_task_finish ns n p w = Some w' \<and> finished p w w' \<and> pools S R w'"
proof -
  have "2 * length (tx_pending w) + 1 \<le> n" using assms(5) by (simp add: tx_turns_def)
  then obtain w' where "meshx_lower_trans_tx_task_finish ns n p w = Some w'" "finished p w w'"
    using finish_run_total [of n] assms(1-4) by blast
  then show ?thesis using finish_pools assms(2) by blast
qed

section \<open>A transmission without answer\<close>

text \<open>Task \<^verbatim>\<open>p\<close> sends a message and has timed out \<^verbatim>\<open>k\<close> times.\<close>

definition sending :: "nat \<Rightarrow> nat \<Rightarrow> mesh_world \<Rightarrow> bool" where
  "sending p k w \<longleftrightarrow> J w \<and> pools S R w \<and> queued w \<and> p \<in> set (tx_active w) \<and> good p w \<and> tx_armed p w \<and>
    tt_retry (mw_tx w p) = word_of_nat k"

definition given_up :: "nat \<Rightarrow> mesh_world \<Rightarrow> bool" where
  "given_up p w \<longleftrightarrow> pools S R w \<and> p \<in> set (tx_idle w)"

lemma timeout_step:
  assumes "sending p k w" "k \<le> unat (trans_tx_retry_times (config (mw_node w)))"
    "trans_tx_retry_times (config (mw_node w)) < 255"
  shows "\<exists>w'. tx_expires ns p w = Some w' \<and> mw_node w' = mw_node w \<and>
    (given_up p w' \<or> k < unat (trans_tx_retry_times (config (mw_node w))) \<and> sending p (Suc k) w')"
proof -
  obtain tm where tm: "tt_timer (mw_tx w p) = Some tm" "tm_mode tm = MESHX_TIMER_MODE_SINGLE_SHOT" "tm_is_active tm"
    using assms(1) by (auto simp: sending_def tx_armed_def split: option.splits)
  define w0 where "w0 = tx_upd p (\<lambda>t. t\<lparr>tt_timer := Some (tm\<lparr>tm_is_active := False\<rparr>)\<rparr>) w"
  define w1 where "w1 = tx_upd p (\<lambda>t. t\<lparr>tt_retry := tt_retry t + 1\<rparr>) w0"
  have e0: "tx_expires ns p w = meshx_lower_trans_handle_tx_timeout ns p w0"
    using tm by (simp add: tx_expires_def timer_handle_thread_def w0_def meshx_lower_trans_async_handle_tx_timeout_def)
  have "same_pools w w0" using tm(1) by (auto simp: w0_def same_pools_def tx_view_def rx_view_def tx_upd_def fun_eq_iff)
  moreover have "same_pools w0 w1" unfolding w1_def by (rule same_pools_tx_upd) simp_all
  ultimately have p1: "pools S R w1" using assms(1) same_pools_inv(3) by (simp add: sending_def)
  have g1: "good q w1 = good q w" for q
    by (rule good_cong [where s = "mc_seq (tt_ctx (mw_tx w q))"]) (simp_all add: w1_def w0_def tx_upd_def)
  have w1: "tx_active w1 = tx_active w" "tx_pending w1 = tx_pending w" "mw_node w1 = mw_node w" "J w1"
    "tt_timer (mw_tx w1 p) = Some (tm\<lparr>tm_is_active := False\<rparr>)" "tt_retry (mw_tx w1 p) = word_of_nat (Suc k)"
    using assms(1) by (simp_all add: w1_def w0_def sending_def, simp_all add: tx_upd_def)
  have pS: "p \<in> S" using assms(1) by (auto simp: sending_def pools_def tx_inv_def)
  have fin: "\<exists>w'. meshx_lower_trans_tx_task_finish ns (tx_turns v) p v = Some w' \<and> mw_node w' = mw_node w \<and> given_up p w'"
    if "J v" "pools S R v" "queued v" "mw_node v = mw_node w" for v
    using finish_total [OF that(1,2) pS that(3) order_refl] that(4) by (auto simp: finished_def given_up_def)
  have q1: "queued w1" using assms(1) g1 w1(2) by (simp add: sending_def queued_def)
  have b: "Suc k < 2 ^ 8" using assms(2,3) by (simp add: word_less_nat_alt)
  have cmp: "tt_retry (mw_tx w1 p) > trans_tx_retry_times (config (mw_node w)) \<longleftrightarrow> k = unat (trans_tx_retry_times (config (mw_node w)))"
    using b assms(2) unfolding w1(6) by (auto simp: word_less_nat_alt unsigned_of_nat take_bit_nat_eq_self simp del: of_nat_Suc)
  show ?thesis
  proof (cases "k = unat (trans_tx_retry_times (config (mw_node w)))")
    case True
    then have "tx_expires ns p w = meshx_lower_trans_tx_task_finish ns (tx_turns w1) p w1"
      using cmp w1(3) by (simp add: e0 meshx_lower_trans_handle_tx_timeout_def w1_def [symmetric])
    then show ?thesis using fin [OF w1(4) p1 q1 w1(3)] by auto
  next
    case False
    have gp: "good p w1" using assms(1) g1 by (simp add: sending_def)
    obtain r w2 where s: "meshx_lower_trans_send_seg_msg ns p (tt_block_ack (mw_tx w1 p)) w1 = Some (r, w2)" "tx_sent p w1 w2" "J w2"
      using send_total [OF w1(4) gp] by blast
    have w2: "tx_active w2 = tx_active w" "tx_pending w2 = tx_pending w" "mw_node w2 = mw_node w"
      "tt_timer (mw_tx w2 p) = Some (tm\<lparr>tm_is_active := False\<rparr>)" "tt_retry (mw_tx w2 p) = word_of_nat (Suc k)"
      using s(2) w1 by (auto simp: tx_sent_def)
    have p2: "pools S R w2" by (rule send_seg_pools [OF p1 s(1)])
    have g2: "good q w2 = good q w" for q using tx_sent_good [OF s(2)] g1 by simp
    have q2: "queued w2" using assms(1) g2 w2(2) by (simp add: sending_def queued_def)
    define c where "c = tt_ctx (mw_tx w2 p)"
    have e: "tx_expires ns p w =
        (if \<not> MESHX_LOWER_TRANS_IS_SEQ_AUTH_VALID (mc_seq c) (mc_seq_auth c) then meshx_lower_trans_tx_task_finish ns (tx_turns w2) p w2
         else Some (meshx_lower_trans_tx_timer_start p w2))"
      using cmp w1(3) False s(1) by (simp add: e0 meshx_lower_trans_handle_tx_timeout_def w1_def [symmetric] c_def Let_def)
    note t = timer_start_keeps [OF s(3) refl, of p]
    have gt: "good q (meshx_lower_trans_tx_timer_start p w2) = good q w2" for q
      using timer_start_keeps(2) [OF s(3) refl] .
    have "sending p (Suc k) (meshx_lower_trans_tx_timer_start p w2)"
      using gt t(1,3-5,7) t(8) [OF w2(4)] tm(2) same_pools_inv(3) [OF same_pools_timer_start] p2 q2 w2(1,5) g2 assms(1)
      by (simp add: sending_def queued_def)
    then show ?thesis using e fin [OF s(3) p2 q2 w2(3)] False assms(2) t(6) w2(3) by auto
  qed
qed

lemma timeouts_end:
  "sending p k w \<Longrightarrow> trans_tx_retry_times (config (mw_node w)) < 255 \<Longrightarrow>
    k + n = unat (trans_tx_retry_times (config (mw_node w))) \<Longrightarrow>
    \<exists>w'. tx_timeouts ns p (Suc n) w = Some w' \<and> given_up p w'"
proof (induction n arbitrary: k w)
  case 0
  have p: "p \<in> set (tx_active w)" using 0(1) by (simp add: sending_def)
  from timeout_step [OF 0(1) _ 0(2)] 0(3) p show ?case by auto
next
  case (Suc n)
  have p: "p \<in> set (tx_active w)" using Suc.prems(1) by (simp add: sending_def)
  have k: "k \<le> unat (trans_tx_retry_times (config (mw_node w)))" using Suc.prems(3) by simp
  from timeout_step [OF Suc.prems(1) k Suc.prems(2)] obtain w1 where w1: "tx_expires ns p w = Some w1"
    "mw_node w1 = mw_node w" "given_up p w1 \<or> sending p (Suc k) w1" by blast
  show ?case
  proof (cases "given_up p w1")
    case True
    then have "p \<notin> set (tx_active w1)" by (auto simp: given_up_def pools_def tx_inv_def)
    then show ?thesis using w1(1) True p by simp
  next
    case False
    then show ?thesis using Suc.IH [of "Suc k" w1] w1 Suc.prems(2,3) p by simp
  qed
qed

end

section \<open>The network layer of the stack\<close>

text \<open>A node ready to send: memory and timers are granted, it has sequence numbers, and its
  interfaces are the loopback and those of advertising bearers.\<close>

definition radio_ready :: "aes128 \<Rightarrow> meshx_node_params \<Rightarrow> key_store \<Rightarrow> mesh_world \<Rightarrow> bool" where
  "radio_ready aes n k w \<longleftrightarrow> aes_block aes \<and> mw_node w = n \<and> mw_keys w = k \<and>
    (\<forall>m. mem_src (mw_env w) m \<and> tmr_src (mw_env w) m) \<and> seq_array (seqs (mw_iv w)) \<noteq> None \<and>
    (\<forall>a \<in> set (mw_ifaces w). \<exists>x. mw_iface_mem w a = Some x \<and> ni_ofilter x \<noteq> None \<and>
      (\<forall>b. ni_bearer x = Some b \<longrightarrow> bearer_type (mw_gap w) b = MESHX_BEARER_TYPE_ADV))"

text \<open>A message to another node, under a key that the node has.\<close>

definition remote :: "meshx_node_params \<Rightarrow> key_store \<Rightarrow> msg_ctx \<Rightarrow> bool" where
  "remote n k c \<longleftrightarrow> mc_net_iface c = None \<and> \<not> meshx_node_is_my_address (mc_dst c) n \<and> mc_ttl c < 0x80 \<and>
    (case mc_net_key c of None \<Rightarrow> False | Some i \<Rightarrow> net_key_at i k \<noteq> None)"

lemma adv_send_total:
  assumes "bearer_type g b = MESHX_BEARER_TYPE_ADV"
  shows "\<exists>r g'. meshx_bearer_adv_send (Some b) MESHX_GAP_ADTYPE_MESH_MSG pkt g = Some (r, g') \<and> bearer_type g' = bearer_type g"
proof -
  have s: "adv_bearer_type (snd (meshx_gap_add_action x g)) = adv_bearer_type g" for x
    using add_action_bearer .
  then have "bearer_type (snd (meshx_gap_add_action x g)) = bearer_type g" for x
    by (auto simp: bearer_type_def fun_eq_iff split: bearer.splits)
  then show ?thesis using assms
    by (cases "meshx_gap_add_action (ACTION_ADV MESHX_GAP_ADV_TYPE_NONCONN_IND
        (word_of_nat (length pkt + 1) # MESHX_GAP_ADTYPE_MESH_MSG # pkt)) g")
      (simp add: meshx_bearer_adv_send_def MESHX_IS_BEARER_ADV_PKT_TYPE_VALID_def Let_def, metis snd_conv)
qed

lemma to_bearer_total:
  assumes "radio_ready aes n k w" "a \<in> set (mw_ifaces w)"
  shows "\<exists>r w'. meshx_net_send_to_bearer pkt c a w = Some (r, w') \<and> tx_same w w' \<and> radio_ready aes n k w' \<and> mw_ifaces w' = mw_ifaces w"
proof -
  obtain x f where x: "mw_iface_mem w a = Some x" "ni_ofilter x = Some f"
    "\<forall>b. ni_bearer x = Some b \<longrightarrow> bearer_type (mw_gap w) b = MESHX_BEARER_TYPE_ADV"
    using assms by (auto simp: radio_ready_def)
  obtain i where o': "meshx_net_iface_ofilter a (mc_src c) (mc_dst c) w =
      Some (f a (mc_src c) (mc_dst c), iface_upd a (\<lambda>x. x\<lparr>ni_info := i\<rparr>) w)"
    using x(1,2) by (simp add: meshx_net_iface_ofilter_def Let_def)
  define w1 where "w1 = iface_upd a (\<lambda>x. x\<lparr>ni_info := i\<rparr>) w"
  have w1: "tx_same w w1" "mw_ifaces w1 = mw_ifaces w" "mw_gap w1 = mw_gap w" "mw_iface_mem w1 a = Some (x\<lparr>ni_info := i\<rparr>)"
    using x(1) by (simp_all add: w1_def iface_upd_def tx_same_def)
  have r1: "radio_ready aes n k w1" using assms(1) by (fastforce simp: radio_ready_def w1_def iface_upd_def)
  have o1: "meshx_net_iface_ofilter a (mc_src c) (mc_dst c) w = Some (f a (mc_src c) (mc_dst c), w1)"
    using o' by (simp add: w1_def)
  show ?thesis
  proof (cases "f a (mc_src c) (mc_dst c) \<and> ni_bearer x \<noteq> None")
    case True
    then obtain b where b: "ni_bearer x = Some b" by blast
    then have t: "bearer_type (mw_gap w1) b = MESHX_BEARER_TYPE_ADV" using x(3) w1(3) by simp
    obtain r g where g: "meshx_bearer_adv_send (Some b) MESHX_GAP_ADTYPE_MESH_MSG pkt (mw_gap w1) = Some (r, g)"
      "bearer_type g = bearer_type (mw_gap w1)" using adv_send_total [OF t] by blast
    have "radio_ready aes n k (w1\<lparr>mw_gap := g\<rparr>)" using r1 g(2) by (simp add: radio_ready_def)
    moreover have "tx_same w (w1\<lparr>mw_gap := g\<rparr>)" using w1(1) by (simp add: tx_same_def)
    ultimately show ?thesis using True b t g(1) w1(2,4) by (simp add: meshx_net_send_to_bearer_def o1)
  next
    case False
    then show ?thesis using w1 r1 by (auto simp: meshx_net_send_to_bearer_def o1)
  qed
qed

lemma tx_same_trans: "tx_same w w1 \<Longrightarrow> tx_same w1 w2 \<Longrightarrow> tx_same w w2"
  by (simp add: tx_same_def)

lemma send_all_total:
  assumes "radio_ready aes n k w" "set as \<subseteq> set (mw_ifaces w)"
  shows "\<exists>v w'. net_send_all pkt c v0 as w = Some (v, w') \<and> tx_same w w' \<and> radio_ready aes n k w'"
  using assms
proof (induction "as" arbitrary: v0 w)
  case Nil
  then show ?case by (simp add: tx_same_def)
next
  case (Cons a as)
  obtain x where x: "mw_iface_mem w a = Some x" using Cons.prems by (auto simp: radio_ready_def)
  obtain r w1 where w1: "meshx_net_send_to_bearer pkt c a w = Some (r, w1)" "tx_same w w1" "radio_ready aes n k w1"
    "mw_ifaces w1 = mw_ifaces w" using to_bearer_total [OF Cons.prems(1), of a pkt c] Cons.prems(2) by auto
  obtain v w2 where "net_send_all pkt c True as w1 = Some (v, w2)" "tx_same w1 w2" "radio_ready aes n k w2"
    using Cons.IH [OF w1(3), of True] Cons.prems(2) w1(4) by auto
  moreover obtain v' w3 where "net_send_all pkt c v0 as w = Some (v', w3)" "tx_same w w3" "radio_ready aes n k w3"
    using Cons.IH [OF Cons.prems(1), of v0] Cons.prems(2) by auto
  ultimately show ?case using x w1(1,2) tx_same_trans by (cases "ni_type x = MESHX_NET_IFACE_TYPE_LOOPBACK") auto
qed

lemma radio_send:
  assumes "radio_ready aes n k w" "remote n k c" "unat (mc_seq c) < 2 ^ 24" "0 < length pkt" "length pkt + net_mic_len (mc_ctl c) \<le> 20"
  shows "\<exists>r w'. net_send_at d aes pkt c w = Some (r, w') \<and> tx_same w w' \<and> radio_ready aes n k w'"
proof -
  obtain i v where c: "mc_net_key c = Some i" "net_key_at i k = Some v" "mc_net_iface c = None"
    "\<not> meshx_node_is_my_address (mc_dst c) n" "mc_ttl c < 0x80"
    using assms(2) by (auto simp: remote_def split: option.splits)
  have s: "net_sendable pkt c" using assms(3-5) c(5) by (simp add: net_sendable_def)
  have w: "mw_node w = n" "mw_keys w = k" "aes_block aes" using assms(1) by (simp_all add: radio_ready_def)
  obtain p where p: "net_packet aes pkt c v = Some p" using net_packet_parts [OF w(3) s, of v] by blast
  obtain b w' where "net_send_all p c False (mw_ifaces w) w = Some (b, w')" "tx_same w w'" "radio_ready aes n k w'"
    using send_all_total [OF assms(1), of "mw_ifaces w" p c False] by auto
  moreover have "length pkt \<le> 20" "length pkt \<le> 20 - net_mic_len (mc_ctl c)" using assms(5) by simp_all
  ultimately show ?thesis using c p w by (simp add: net_send_at_def meshx_net_send_def net_sizes)
qed

interpretation radio: calm_sender "net_send_at d aes" "meshx_upper_trans_receive aes" S R "radio_ready aes n k" "remote n k"
  for d aes S R n k
proof (unfold_locales, goal_cases)
  case (1 w c pkt)
  then show ?case by (rule radio_send)
next
  case (2 c s)
  then show ?case by (simp add: remote_def)
next
  case (3 w)
  then show ?case by (simp add: radio_ready_def)
next
  case (4 w m)
  then show ?case by (simp add: radio_ready_def)
next
  case (5 w w')
  then show ?case by (simp add: radio_ready_def)
qed

section \<open>A node that sends\<close>

text \<open>A node that sends one message and has another one pending, both to node 3.\<close>

definition tx_demo :: mesh_world where
  "tx_demo = demo_mesh\<lparr>tx_idle := [2], tx_active := [0], tx_pending := [1],
    mw_tx := (\<lambda>q. if q = 2 then tx_task_zero
      else tx_task_zero\<lparr>tt_ctx := (fst seg_demo)\<lparr>mc_net_key := Some (1, 0)\<rparr>, tt_pdu := Some (snd seg_demo), tt_pdu_len := 20,
        tt_timer := (if q = 0 then Some \<lparr>tm_mode = MESHX_TIMER_MODE_SINGLE_SHOT, tm_is_active = True, tm_it_interval = 0, tm_it_value = 450\<rparr> else None)\<rparr>)\<rparr>"

lemma tx_demo_facts:
  "pools {0, 1, 2} {0, 1, 2} tx_demo" "tx_ready 0 tx_demo" "tx_ready 1 tx_demo" "tx_armed 0 tx_demo" "tt_retry (mw_tx tx_demo 0) = 0"
  "tx_active tx_demo = [0]" "tx_pending tx_demo = [1]" "trans_tx_retry_times (config (mw_node tx_demo)) = 2"
  by (auto simp: tx_demo_def demo_mesh_def pools_def tx_inv_def rx_inv_def tx_ready_def Let_def seg_demo_def tx_task_zero_def
      rx_task_zero_def mc_zero_def tx_armed_def node_default_config_def low_count_def seg_size_def lower_sizes)

lemma tx_demo_radio:
  "radio_ready demo_aes (mw_node tx_demo) (mw_keys tx_demo) tx_demo"
  "remote (mw_node tx_demo) (mw_keys tx_demo) (tt_ctx (mw_tx tx_demo 0))"
  "remote (mw_node tx_demo) (mw_keys tx_demo) (tt_ctx (mw_tx tx_demo 1))"
proof -
  have k: "net_key_at (1, 0) demo_store = Some demo_net_value"
    by (simp add: net_key_at_def demo_store_def demo_net_info_def key_store_init_def demo_net_value_def)
  show "radio_ready demo_aes (mw_node tx_demo) (mw_keys tx_demo) tx_demo"
    by (simp add: radio_ready_def tx_demo_def demo_mesh_def demo_aes_block ok_env_def demo_iface_def bearer_type_def demo_gap_def MESHX_BEARER_TYPE_ADV_def)
  show "remote (mw_node tx_demo) (mw_keys tx_demo) (tt_ctx (mw_tx tx_demo 0))"
    "remote (mw_node tx_demo) (mw_keys tx_demo) (tt_ctx (mw_tx tx_demo 1))"
    by (simp_all add: remote_def tx_demo_def demo_mesh_def seg_demo_def tx_task_zero_def mc_zero_def meshx_node_is_my_address_def
        k [unfolded One_nat_def])
qed

section \<open>Properties\<close>

text \<open>C20: A task that finishes comes to an end: releasing a task, which starts the first pending
  one that may run, which finishes in turn when it cannot be sent, returns within two turns for
  every pending task and two more, when the pending tasks hold messages to other nodes and the
  platform grants timers.  The released task is idle afterwards, without memory and timer, and
  every task is still in exactly one list.  This is for the network layer of the stack, at every
  call depth.\<close>

theorem task_finish_returns:
  assumes "radio_ready aes (mw_node w) (mw_keys w) w" "pools S R w" "p \<in> S"
    "\<forall>q \<in> set (tx_pending w). tx_ready q w \<and> remote (mw_node w) (mw_keys w) (tt_ctx (mw_tx w q))"
    "2 * length (tx_pending w) + 2 \<le> turns"
  shows "\<exists>w'. meshx_lower_trans_tx_task_finish (net_send_at d aes) turns p w = Some w' \<and> pools S R w' \<and>
    p \<in> set (tx_idle w') \<and> tt_pdu (mw_tx w' p) = None \<and> tt_timer (mw_tx w' p) = None"
proof -
  have q: "radio.queued (mw_node w) (mw_keys w) w" using assms(4) by (simp add: radio.queued_def radio.good_def)
  obtain w' where "meshx_lower_trans_tx_task_finish (net_send_at d aes) turns p w = Some w'" "pools S R w'" "p \<in> set (tx_idle w')"
    using radio.finish_total [OF assms(1-3) q, of turns] assms(5) by (auto simp: tx_turns_def radio.finished_def)
  then show ?thesis by (auto simp: pools_def tx_inv_def)
qed

theorem task_finish_returns_witness:
  "\<exists>w'. meshx_lower_trans_tx_task_finish (net_send_at 1 demo_aes) 4 0 tx_demo = Some w' \<and> pools {0, 1, 2} {0, 1, 2} w' \<and>
    0 \<in> set (tx_idle w') \<and> tt_pdu (mw_tx w' 0) = None \<and> tt_timer (mw_tx w' 0) = None"
  by (rule task_finish_returns [OF tx_demo_radio(1) tx_demo_facts(1)])
    (simp_all add: tx_demo_facts tx_demo_radio del: One_nat_def)

text \<open>C19: A transmission nobody answers ends: the timer of a sending task, which expires only
  while it runs and has to be started again by the handler, expires at most once more than the
  configured number of retries; then, whatever was acknowledged before, the task is idle and
  holds neither memory nor a timer.  The task sends to another node over the network layer of
  the stack, the pending tasks hold messages to other nodes, and the retries are fewer than 255,
  since their counter has eight bits.\<close>

theorem silent_peer_given_up:
  assumes "radio_ready aes (mw_node w) (mw_keys w) w" "pools S R w" "p \<in> set (tx_active w)" "tx_armed p w"
    "tt_retry (mw_tx w p) = 0"
    "\<forall>q \<in> insert p (set (tx_pending w)). tx_ready q w \<and> remote (mw_node w) (mw_keys w) (tt_ctx (mw_tx w q))"
    "trans_tx_retry_times (config (mw_node w)) < 255"
  shows "\<exists>w'. tx_timeouts (net_send_at d aes) p (Suc (unat (trans_tx_retry_times (config (mw_node w))))) w = Some w' \<and>
    pools S R w' \<and> p \<in> set (tx_idle w') \<and> p \<notin> set (tx_active w') \<and> tt_pdu (mw_tx w' p) = None \<and> tt_timer (mw_tx w' p) = None"
proof -
  have "radio.sending S R aes (mw_node w) (mw_keys w) p 0 w"
    using assms by (simp add: radio.sending_def radio.queued_def radio.good_def)
  from radio.timeouts_end [OF this assms(7), of _ d] obtain w' where
    "tx_timeouts (net_send_at d aes) p (Suc (unat (trans_tx_retry_times (config (mw_node w))))) w = Some w'" "pools S R w'"
    "p \<in> set (tx_idle w')" by (auto simp: radio.given_up_def)
  then show ?thesis by (auto simp: pools_def tx_inv_def)
qed

theorem silent_peer_given_up_witness:
  "\<exists>w'. tx_timeouts (net_send_at 1 demo_aes) 0 3 tx_demo = Some w' \<and> pools {0, 1, 2} {0, 1, 2} w' \<and>
    0 \<in> set (tx_idle w') \<and> 0 \<notin> set (tx_active w') \<and> tt_pdu (mw_tx w' 0) = None \<and> tt_timer (mw_tx w' 0) = None"
proof -
  have "Suc (unat (trans_tx_retry_times (config (mw_node tx_demo)))) = 3" by (simp add: tx_demo_facts)
  then show ?thesis
    using silent_peer_given_up [OF tx_demo_radio(1) tx_demo_facts(1) _ tx_demo_facts(4,5), of 1]
    by (simp add: tx_demo_facts tx_demo_radio del: One_nat_def)
qed

end
