(* ===== verification/Mesh_Upper_Facts.thy ===== *)
theory Mesh_Upper_Facts
  imports Mesh_Stack Mesh_Seg_Facts
begin

text \<open>
  Facts of the upper transport layer and of the layers together: an access message sealed under
  an application or device key opens at the other side, and travels from the access layer of one
  node to that of another.
\<close>

section \<open>Sealing and opening\<close>

lemma trans_nonce_length [simp]: "length (trans_nonce c) = 13"
  by (simp add: trans_nonce_def seq_bytes_def be16_def be32_def mem16_def mem32_def)

lemma trans_seals:
  assumes "aes_block aes" "mc_key c = Some key" "length pdata < 256" "m \<in> {4, 8}" "length tail = m"
  obtains cipher mic where "meshx_aes_ccm_encrypt aes key (trans_nonce c) [] pdata m = Inr (cipher, mic)"
    "length cipher = length pdata" "length mic = m"
    "meshx_upper_trans_encrypt aes (pdata @ tail) (word_of_nat (length pdata)) (length pdata) m c = Some (cipher @ mic)"
proof -
  obtain cipher mic where e: "meshx_aes_ccm_encrypt aes key (trans_nonce c) [] pdata m = Inr (cipher, mic)"
    "length cipher = length pdata" "length mic = m"
    using ccm_encrypt_ok [OF assms(1), of "trans_nonce c" pdata "[]" m key] assms(3,4) by auto
  have u: "unat (word_of_nat (length pdata) :: u8) = length pdata"
    using assms(3) by (simp add: unsigned_of_nat take_bit_nat_eq_self)
  have "meshx_upper_trans_encrypt aes (pdata @ tail) (word_of_nat (length pdata)) (length pdata) m c = Some (cipher @ mic)"
    using e assms(2,5) by (simp add: meshx_upper_trans_encrypt_def u mem_read_def mem_write_def)
  then show ?thesis using that e by blast
qed

lemma trans_opens:
  assumes "aes_block aes" "meshx_aes_ccm_encrypt aes key nonce [] plain m = Inr (cipher, mic)" "length cipher = length plain"
    "length mic = m" "length plain < 256"
  shows "trans_open aes key nonce (word_of_nat (length plain)) (int (length plain)) m ((cipher @ mic) @ pad) =
    Some (MESHX_SUCCESS, plain @ mic @ pad)"
proof -
  have u: "unat (word_of_nat (length plain) :: u8) = length plain"
    using assms(5) by (simp add: unsigned_of_nat take_bit_nat_eq_self)
  have d: "meshx_aes_ccm_decrypt aes key nonce [] cipher mic cipher = (MESHX_SUCCESS, plain)"
    using ccm_decrypt_exact [OF assms(1)] assms(2,4) by simp
  show ?thesis
    using assms(3,4) by (simp add: trans_open_def u mem_read_def mem_write_def d)
qed

text \<open>The application key values a message may be under.\<close>

definition app_candidates :: "app_key_info list \<Rightarrow> u8 \<Rightarrow> (app_key_info \<times> nat) list" where
  "app_candidates ks a = [(k, i). k \<leftarrow> ks, i \<leftarrow> app_indices k, aid (app_value i k) = a]"

fun app_attempts ::
  "aes128 \<Rightarrow> bytes \<Rightarrow> u8 \<Rightarrow> int \<Rightarrow> nat \<Rightarrow> (app_key_info \<times> nat) list \<Rightarrow> bytes \<Rightarrow> (bytes option \<times> bytes) option" where
  "app_attempts aes nonce n off m [] pdata = Some (None, pdata)"
| "app_attempts aes nonce n off m ((k, i) # cs) pdata = do {
    (ret, pdata) \<leftarrow> trans_open aes (app_key (app_value i k)) nonce n off m pdata;
    if ret = MESHX_SUCCESS then Some (Some (app_key (app_value i k)), pdata) else app_attempts aes nonce n off m cs pdata }"

lemma app_attempts_append:
  "app_attempts aes nonce n off m (cs @ ds) pdata = do {
    (hit, pdata) \<leftarrow> app_attempts aes nonce n off m cs pdata;
    (case hit of Some key \<Rightarrow> Some (Some key, pdata) | None \<Rightarrow> app_attempts aes nonce n off m ds pdata) }"
proof (induction cs arbitrary: pdata)
  case (Cons c cs)
  obtain k i where c: "c = (k, i)" by fastforce
  show ?case
    by (cases "trans_open aes (app_key (app_value i k)) nonce n off m pdata") (auto simp: c Cons.IH)
qed simp

lemma app_try_values_attempts:
  "app_try_values aes nonce n off m a k js pdata =
    app_attempts aes nonce n off m [(k, i). i \<leftarrow> js, aid (app_value i k) = a] pdata"
  by (induction js arbitrary: pdata) (auto intro!: Option.bind_cong)

lemma app_try_keys_attempts:
  "app_try_keys aes nonce n off m a ks pdata = app_attempts aes nonce n off m (app_candidates ks a) pdata"
proof (induction ks arbitrary: pdata)
  case (Cons k ks)
  have "app_candidates (k # ks) a = [(k, i). i \<leftarrow> app_indices k, aid (app_value i k) = a] @ app_candidates ks a"
    by (simp add: app_candidates_def)
  then show ?case by (auto simp: app_attempts_append app_try_values_attempts Cons.IH intro!: Option.bind_cong split: option.splits)
qed (simp add: app_candidates_def)

text \<open>The key of the receiver for a message is the sender's.\<close>

definition shares_key :: "msg_ctx \<Rightarrow> bytes \<Rightarrow> mesh_world \<Rightarrow> bool" where
  "shares_key c key w \<longleftrightarrow>
    (if mc_akf c
     then case app_candidates (meshx_app_keys (mw_keys w)) (mc_aid c) of [] \<Rightarrow> False | (k, i) # _ \<Rightarrow> app_key (app_value i k) = key
     else map_option dev_key (meshx_dev_key_get (node_addr (param (mw_node w))) (mw_keys w)) = Some key)"

lemma upper_opens:
  assumes "aes_block aes" "meshx_aes_ccm_encrypt aes key (trans_nonce c) [] plain m = Inr (cipher, mic)" "length cipher = length plain"
    "length mic = m" "length plain < 256" "\<not> mc_ctl c" "m = (if mc_seg c \<and> mc_szmic c then 8 else 4)" "shares_key c key w"
  shows "meshx_upper_trans_receive aes ((cipher @ mic) @ pad) (word_of_nat (length (cipher @ mic))) c w =
    Some (MESHX_SUCCESS, w\<lparr>mw_delivered := mw_delivered w @ [(plain, c\<lparr>mc_key := Some key\<rparr>)]\<rparr>)"
proof -
  have u: "uint (word_of_nat (length (cipher @ mic)) :: u16) - int m = int (length plain)"
  proof -
    have "length (cipher @ mic) = length plain + m" "length plain + m < 2 ^ 16" using assms(3-5,7) by simp_all
    then have "unat (word_of_nat (length (cipher @ mic)) :: u16) = length plain + m"
      by (simp add: unsigned_of_nat take_bit_nat_eq_self del: of_nat_add)
    then show ?thesis unfolding uint_nat by simp
  qed
  have w: "(word_of_int (int (length plain)) :: u8) = word_of_nat (length plain)" by simp
  have l: "unat (word_of_nat (length plain) :: u8) = length plain"
    using assms(5) by (simp add: unsigned_of_nat take_bit_nat_eq_self)
  note o = trans_opens [OF assms(1-5), of pad]
  have d: "meshx_upper_trans_decrypt aes ((cipher @ mic) @ pad) (word_of_nat (length plain)) (int (length plain)) m c w =
    Some (MESHX_SUCCESS, plain @ mic @ pad, c\<lparr>mc_key := Some key\<rparr>)"
  proof (cases "mc_akf c")
    case True
    then obtain k i cs where "app_candidates (meshx_app_keys (mw_keys w)) (mc_aid c) = (k, i) # cs" "app_key (app_value i k) = key"
      using assms(8) by (auto simp: shares_key_def split: list.splits)
    then show ?thesis using True o by (simp add: meshx_upper_trans_decrypt_def app_try_keys_attempts)
  next
    case False
    then obtain k where "meshx_dev_key_get (node_addr (param (mw_node w))) (mw_keys w) = Some k" "dev_key k = key"
      using assms(8) by (auto simp: shares_key_def)
    then show ?thesis using False o by (simp add: meshx_upper_trans_decrypt_def)
  qed
  show ?thesis
    unfolding meshx_upper_trans_receive_def Let_def assms(7) [symmetric] u w d Option.bind.bind_lunit split
    using assms(6) by (simp add: meshx_access_receive_def l)
qed

text \<open>A message under an application key, the key at the receiver, and the receiver.\<close>

definition app_ctx :: msg_ctx where
  "app_ctx = mc_zero\<lparr>mc_src := 2, mc_dst := 3, mc_ttl := 5, mc_net_key := Some (1, 0), mc_misc := 13, mc_key := Some (zeros 16)\<rparr>"

definition app_mesh :: mesh_world where
  "app_mesh = demo_mesh\<lparr>mw_node := \<lparr>config = node_default_config, param = node_default_param\<lparr>node_addr := 3\<rparr>\<rparr>,
    mw_keys := demo_store\<lparr>meshx_app_keys :=
      [\<lparr>ak_addr = 5, ak_state = MESHX_KEY_STATE_NORMAL, ak_index = 0, ak_value0 = \<lparr>app_key = zeros 16, aid = 3\<rparr>,
        ak_value1 = \<lparr>app_key = zeros 16, aid = 4\<rparr>, ak_bind = 7\<rparr>]\<rparr>\<rparr>"

lemma app_ctx_facts:
  "mc_key app_ctx = Some (zeros 16)" "\<not> mc_ctl app_ctx" "\<not> mc_seg app_ctx" "\<not> mc_szmic app_ctx" "mc_akf app_ctx" "mc_aid app_ctx = 3"
  "mc_src app_ctx = 2" "mc_dst app_ctx = 3" "mc_net_key app_ctx = Some (1, 0)" "mc_net_iface app_ctx = None" "mc_ttl app_ctx < 0x80"
  "mc_iv_index app_ctx = 0"
  by (simp_all add: app_ctx_def mc_zero_def mc_akf_def mc_aid_def mc_szmic_def)

lemma app_shares_key: "shares_key app_ctx (zeros 16) app_mesh"
  by (simp add: shares_key_def app_ctx_facts app_candidates_def app_indices_def app_value_def app_mesh_def)

text \<open>C7: An access message is protected between its ends: what the upper transport layer makes of
  up to 255 bytes under an application or device key, with a MIC of four or eight bytes, the
  upper transport layer of a receiver opens again and hands to the access layer, whatever
  follows it in the buffer of the lower layer.  The receiver computes the same nonce, and the
  key is the one it tries first: its first application key with the identifier of the message,
  or the device key it has under its own address.\<close>

theorem access_seal_open:
  assumes "aes_block aes" "mc_key c = Some key" "length pdata < 256" "m = (if mc_szmic c then 8 else 4)"
    and "trans_nonce c' = trans_nonce c" "\<not> mc_ctl c'" "mc_seg c' \<and> mc_szmic c' \<longleftrightarrow> mc_szmic c" "shares_key c' key w"
  shows "\<exists>ppdu. meshx_upper_trans_encrypt aes (pdata @ junk v m) (word_of_nat (length pdata)) (length pdata) m c = Some ppdu \<and>
    length ppdu = length pdata + m \<and>
    meshx_upper_trans_receive aes (ppdu @ pad) (word_of_nat (length ppdu)) c' w =
      Some (MESHX_SUCCESS, w\<lparr>mw_delivered := mw_delivered w @ [(pdata, c'\<lparr>mc_key := Some key\<rparr>)]\<rparr>)"
proof -
  have m: "m \<in> {4, 8}" "m = (if mc_seg c' \<and> mc_szmic c' then 8 else 4)" using assms(4,7) by auto
  obtain cipher mic where e: "meshx_aes_ccm_encrypt aes key (trans_nonce c') [] pdata m = Inr (cipher, mic)"
    "length cipher = length pdata" "length mic = m"
    "meshx_upper_trans_encrypt aes (pdata @ junk v m) (word_of_nat (length pdata)) (length pdata) m c = Some (cipher @ mic)"
    using trans_seals [OF assms(1-3) m(1), of "junk v m"] assms(5) by auto
  show ?thesis
    by (intro exI [of _ "cipher @ mic"] conjI e(4) upper_opens [OF assms(1) e(1-3) assms(3,6) m(2) assms(8)]) (simp add: e(2,3))
qed

theorem access_seal_open_witness:
  "\<exists>ppdu. meshx_upper_trans_encrypt demo_aes ([1, 2, 3] @ junk demo_mesh 4) (word_of_nat (length [1 :: u8, 2, 3])) (length [1 :: u8, 2, 3]) 4 app_ctx = Some ppdu \<and> length ppdu = 7 \<and>
    meshx_upper_trans_receive demo_aes (ppdu @ [9]) (word_of_nat (length ppdu)) app_ctx app_mesh =
      Some (MESHX_SUCCESS, app_mesh\<lparr>mw_delivered := mw_delivered app_mesh @ [([1, 2, 3], app_ctx\<lparr>mc_key := Some (zeros 16)\<rparr>)]\<rparr>)"
  using access_seal_open [OF demo_aes_block app_ctx_facts(1), of "[1, 2, 3]" 4 app_ctx app_mesh demo_mesh "[9]"] app_ctx_facts app_shares_key
  by simp

text \<open>A message of more than 255 bytes in the sealing routine.\<close>

lemma long_message_sealed:
  assumes "aes_block aes" "mc_key c = Some key" "256 \<le> length pdata" "length pdata \<le> 380" "m = (if mc_szmic c then 8 else 4)"
  obtains cipher mic where "meshx_aes_ccm_encrypt aes key (trans_nonce c) [] (take (length pdata - 256) pdata) m = Inr (cipher, mic)"
    "length cipher = length pdata - 256" "length mic = m"
    "meshx_upper_trans_encrypt aes (pdata @ junk v m) (word_of_nat (length pdata)) (length pdata) m c =
      Some (cipher @ drop (length pdata - 256) pdata @ mic)"
proof -
  have m: "m \<in> {4, 8}" and n: "length pdata - 256 < 65536" using assms(4,5) by simp_all
  have u: "unat (word_of_nat (length pdata) :: u8) = length pdata - 256"
  proof -
    have "length pdata mod 256 = length pdata - 256" using assms(3,4) by (simp add: le_mod_geq)
    then show ?thesis by (simp add: unsigned_of_nat take_bit_eq_mod)
  qed
  obtain cipher mic where e: "meshx_aes_ccm_encrypt aes key (trans_nonce c) [] (take (length pdata - 256) pdata) m = Inr (cipher, mic)"
    "length cipher = length pdata - 256" "length mic = m"
    using ccm_encrypt_ok [OF assms(1), of "trans_nonce c" "take (length pdata - 256) pdata" "[]" m key] n m by auto
  have "mem_read (pdata @ junk v m) 0 (length pdata - 256) = Some (take (length pdata - 256) pdata)" by (simp add: mem_read_def)
  moreover have "mem_write (pdata @ junk v m) 0 cipher = Some (cipher @ drop (length pdata - 256) pdata @ junk v m)"
    using e(2) by (simp add: mem_write_def)
  moreover have "mem_write (cipher @ drop (length pdata - 256) pdata @ junk v m) (length pdata) mic =
      Some (cipher @ drop (length pdata - 256) pdata @ mic)"
    using e(2,3) assms(3) by (simp add: mem_write_def)
  ultimately show ?thesis using that [OF e] e(1) assms(2) by (simp add: meshx_upper_trans_encrypt_def u)
qed

text \<open>A node with a free task sends a message of several segments at once.\<close>

definition can_segment :: "msg_ctx \<Rightarrow> u32 \<Rightarrow> nat \<Rightarrow> mesh_world \<Rightarrow> bool" where
  "can_segment c q n w \<longleftrightarrow> MESHX_ADDRESS_IS_VALID (mc_src c) \<and> MESHX_ADDRESS_IS_VALID (mc_dst c) \<and>
    mc_net_key c \<noteq> None \<and> mc_net_iface c = None \<and> (mc_akf c \<longleftrightarrow> mc_aid c \<noteq> 0) \<and> \<not> mc_ctl c \<and>
    (\<forall>i. mem_src (mw_env w) i \<and> tmr_src (mw_env w) i) \<and> seq_ready (mc_src c) q (Suc n) w \<and>
    (case tx_idle w of [] \<Rightarrow> False | p # _ \<Rightarrow> \<forall>a \<in> set (tx_active w). a \<noteq> p \<and> mc_dst (tt_ctx (mw_tx w a)) \<noteq> mc_dst c)"

lemma timer_start_delivered: "mw_delivered (meshx_lower_trans_tx_timer_start p w) = mw_delivered w"
  by (auto simp: meshx_lower_trans_tx_timer_start_def Let_def on_menv_def tx_upd_def split: prod.splits)

lemma segmented_at_once:
  fixes c :: msg_ctx and P :: bytes
  defines "c' \<equiv> c\<lparr>mc_seg := True\<rparr>"
  assumes "P \<noteq> []" "n = low_count (seg_size (mc_ctl c)) P" "n \<le> 31" "15 < length P" "\<not> mc_ctl c" "MESHX_ADDRESS_IS_VALID (mc_dst c)"
    and "\<forall>i. mem_src (mw_env w) i \<and> tmr_src (mw_env w) i" "seq_ready (mc_src c) q n w"
    and "mc_seq_auth c \<le> q" "unat q + n \<le> unat (mc_seq_auth c) + 0x2000"
    and "tx_idle w = p # ps" "\<forall>a \<in> set (tx_active w). a \<noteq> p \<and> mc_dst (tt_ctx (mw_tx w a)) \<noteq> mc_dst c"
  shows "\<exists>w' L. meshx_lower_trans_send net_log P c w = Some (MESHX_SUCCESS, c', w') \<and>
    mw_delivered w' = mw_delivered w @ L \<and> length L = n \<and> (\<forall>i < n. seg_of c' P i (q + word_of_nat i) (L ! i))"
proof -
  have sz: "0 < seg_size (mc_ctl c)" "seg_size (mc_ctl c) \<le> 12" by (rule seg_size_bounds)+
  have n: "seg_num_of (word_of_nat (length P)) (seg_size (mc_ctl c)) = word_of_nat n"
  proof -
    have "length P \<le> n * seg_size (mc_ctl c)"
      using low_count_bounds(3) [OF sz(1) assms(2), of "n - 1"] low_count_bounds(2) [OF sz(1) assms(2)] assms(3) by simp
    then have "length P \<le> 31 * 12" using mult_le_mono [OF assms(4) sz(2)] by simp
    then have "unat (word_of_nat (length P) :: u16) = length P" by (simp add: unsigned_of_nat take_bit_nat_eq_self)
    then show ?thesis unfolding seg_num_of_def assms(3) low_count_def by simp
  qed
  obtain e where e: "on_menv meshx_malloc_ok w = (True, w\<lparr>mw_env := e\<rparr>)" "\<forall>i. mem_src e i \<and> tmr_src e i"
    using assms(8) by (simp add: on_menv_def meshx_malloc_ok_def)
  define w1 where "w1 = tx_upd p (\<lambda>t. t\<lparr>tt_retry := 0, tt_block_ack := 0, tt_ctx := c', tt_pdu := Some P, tt_pdu_len := word_of_nat (length P),
    tt_seg_bits := low_bits (word_of_nat n)\<rparr>) (w\<lparr>mw_env := e, tx_idle := ps\<rparr>)"
  obtain tm e' where t: "meshx_timer_create (tt_timer (mw_tx w1 p)) MESHX_TIMER_MODE_SINGLE_SHOT (mw_env w1) = (MESHX_SUCCESS, tm, e')"
    using timer_create_free [of e "tt_timer (mw_tx w1 p)" MESHX_TIMER_MODE_SINGLE_SHOT] e(2) by (auto simp: w1_def tx_upd_def)
  define w2 where "w2 = (tx_upd p (\<lambda>t. t\<lparr>tt_timer := tm\<rparr>) (w1\<lparr>mw_env := e'\<rparr>))\<lparr>tx_active := tx_active w1 @ [p]\<rparr>"
  have w2: "tt_ctx (mw_tx w2 p) = c'" "tt_pdu (mw_tx w2 p) = Some P" "tt_pdu_len (mw_tx w2 p) = word_of_nat (length P)"
    "tt_block_ack (mw_tx w2 p) = 0" "mw_delivered w2 = mw_delivered w" "seq_ready (mc_src c') q n w2"
    using assms(9) by (simp_all add: w2_def w1_def tx_upd_def seq_ready_def c'_def)
  obtain w3 L where l: "meshx_lower_trans_send_seg_msg net_log p 0 w2 = Some (MESHX_SUCCESS, w3)" "mw_delivered w3 = mw_delivered w @ L"
    "length L = n" "\<forall>i < n. seg_of c' P i (q + word_of_nat i) (L ! i)"
    using send_seg_log [OF assms(2) _ assms(4) w2(1-3,6)] assms(3,10,11) w2(5) by (auto simp: c'_def)
  have b: "tt_block_ack (mw_tx w1 p) = 0" by (simp add: w1_def tx_upd_def)
  have run: "meshx_lower_trans_tx_task_run net_log (tx_turns w1) p w1 = Some (MESHX_SUCCESS, meshx_lower_trans_tx_timer_start p w3)"
    using l(1) w2(4) unfolding tx_turns_def w2_def
    by (simp add: t Let_def) (simp add: tx_upd_def)
  have "\<not> list_ex (\<lambda>a. mc_dst (tt_ctx (mw_tx w1 a)) = mc_dst (tt_ctx (mw_tx w1 p))) (tx_active w1)"
    using assms(13) by (auto simp: list_ex_iff w1_def tx_upd_def c'_def)
  then have tried: "meshx_lower_trans_tx_task_try net_log p w1 = Some (MESHX_SUCCESS, meshx_lower_trans_tx_timer_start p w3)"
    using run by (simp add: meshx_lower_trans_tx_task_try_def)
  have ex: "\<not> meshx_lower_trans_is_tx_task_exist c' w"
    using assms(13) by (auto simp: meshx_lower_trans_is_tx_task_exist_def list_ex_iff c'_def)
  have nn: "\<not> (word_of_nat n :: u8) > MESHX_LOWER_TRANS_MAX_SEG_SIZE"
    using assms(4) by (simp add: lower_sizes word_less_nat_alt unsigned_of_nat take_bit_nat_eq_self)
  have "meshx_lower_trans_process_seg_msg net_log P (seg_size (mc_ctl c)) c' w = Some (MESHX_SUCCESS, meshx_lower_trans_tx_timer_start p w3)"
    using nn ex tried unfolding meshx_lower_trans_process_seg_msg_def Let_def n
    by (simp add: meshx_lower_trans_tx_task_request_def assms(12) e(1) w1_def tx_upd_def)
  then have "meshx_lower_trans_send net_log P c w = Some (MESHX_SUCCESS, c', meshx_lower_trans_tx_timer_start p w3)"
    using assms(2,5,6,7) by (simp add: meshx_lower_trans_send_def Let_def lower_sizes c'_def)
  then show ?thesis using l(2-4) by (intro exI [of _ "meshx_lower_trans_tx_timer_start p w3"] exI [of _ L]) (simp add: timer_start_delivered)
qed

text \<open>C35: The routine that seals an access message takes its length in eight bits.  A message of
  256 bytes or more that makes, with its MIC, at most the 372 bytes the lower transport layer
  takes is accepted and sent, but only its first length - 256 bytes are encrypted and
  authenticated under the application or device key: the segments given to the network layer
  carry the remaining 256 bytes as they are.  The sender has a free task, no other message to
  the destination on its way, enough sequence numbers, and is granted memory and a timer.\<close>

theorem long_message_in_clear:
  fixes c :: msg_ctx and pdata :: bytes
  assumes "aes_block aes" "mc_key c = Some key" "256 \<le> length pdata" "m = (if mc_szmic c then 8 else 4)" "length pdata + m \<le> 372"
    and "can_segment c q n w" "n = (length pdata + m + 11) div 12" "c' = c\<lparr>mc_seq := q, mc_seq_auth := q, mc_seg := True\<rparr>"
  shows "\<exists>cipher mic w' L. meshx_access_send (meshx_upper_trans_send aes net_log) pdata c w = Some (MESHX_SUCCESS, c', w') \<and>
    mw_delivered w' = mw_delivered w @ L \<and> length L = n \<and>
    (\<forall>i < n. seg_of c' (cipher @ drop (length pdata - 256) pdata @ mic) i (q + 1 + word_of_nat i) (L ! i)) \<and>
    length cipher = length pdata - 256 \<and> length mic = m \<and>
    meshx_aes_ccm_encrypt aes key (trans_nonce c') [] (take (length pdata - 256) pdata) m = Inr (cipher, mic)"
proof -
  obtain p ps where g: "MESHX_ADDRESS_IS_VALID (mc_src c)" "MESHX_ADDRESS_IS_VALID (mc_dst c)" "mc_net_key c \<noteq> None" "mc_net_iface c = None"
    "mc_akf c \<longleftrightarrow> mc_aid c \<noteq> 0" "\<not> mc_ctl c" "\<forall>i. mem_src (mw_env w) i \<and> tmr_src (mw_env w) i" "seq_ready (mc_src c) q (Suc n) w"
    "tx_idle w = p # ps" "\<forall>a \<in> set (tx_active w). a \<noteq> p \<and> mc_dst (tt_ctx (mw_tx w a)) \<noteq> mc_dst c"
    using assms(6) by (auto simp: can_segment_def split: list.splits)
  have q: "low24 q = q" "unat q + Suc n \<le> 0xFFFFFF" using g(8) by (auto intro!: low24_id simp: seq_ready_def Let_def)
  obtain e where e: "on_menv meshx_malloc_ok w = (True, w\<lparr>mw_env := e\<rparr>)" "\<forall>i. mem_src e i \<and> tmr_src e i"
    using g(7) by (simp add: on_menv_def meshx_malloc_ok_def)
  have "seq_ready (mc_src c) q (Suc n) (w\<lparr>mw_env := e\<rparr>)" using g(8) by (simp add: seq_ready_def)
  then obtain x where x: "element_seq_use (mc_src c) (w\<lparr>mw_env := e\<rparr>) = Some (q, w\<lparr>mw_env := e, mw_iv := x\<rparr>)"
    "seq_ready (mc_src c) (q + 1) n (w\<lparr>mw_env := e, mw_iv := x\<rparr>)" using seq_ready_use by fastforce
  define w1 where "w1 = w\<lparr>mw_env := e, mw_iv := x\<rparr>"
  define c1 where "c1 = c\<lparr>mc_seq := q, mc_seq_auth := q\<rparr>"
  have c1: "c\<lparr>mc_seq := low24 q, mc_seq_auth := low24 q\<rparr> = c1" "c1\<lparr>mc_seg := True\<rparr> = c'" "mc_key c1 = Some key" "mc_szmic c1 = mc_szmic c"
    "mc_ctl c1 = mc_ctl c" "mc_dst c1 = mc_dst c" "mc_src c1 = mc_src c" "mc_seq_auth c1 = q" "trans_nonce c1 = trans_nonce c'"
    using q(1) assms(2,8) by (simp_all add: c1_def mc_szmic_def trans_nonce_def mc_akf_def)
  have len: "length pdata \<le> 380" using assms(5) by simp
  have m1: "m = (if mc_szmic c1 then 8 else 4)" using assms(4) c1(4) by simp
  obtain cipher mic where s: "meshx_aes_ccm_encrypt aes key (trans_nonce c') [] (take (length pdata - 256) pdata) m = Inr (cipher, mic)"
    "length cipher = length pdata - 256" "length mic = m"
    "meshx_upper_trans_encrypt aes (pdata @ junk w1 m) (word_of_nat (length pdata)) (length pdata) m c1 =
      Some (cipher @ drop (length pdata - 256) pdata @ mic)"
    using long_message_sealed [OF assms(1) c1(3) assms(3) len m1, where v = w1] unfolding c1(9) by metis
  define P where "P = cipher @ drop (length pdata - 256) pdata @ mic"
  have lP: "length P = length pdata + m" using s(2,3) assms(3) by (simp add: P_def)
  have P: "P \<noteq> []" "n = low_count (seg_size (mc_ctl c1)) P" "n \<le> 31" "15 < length P"
    using lP assms(3,5,7) g(6) by (auto simp: low_count_def seg_size_def lower_sizes c1(5))
  have u: "unat (q + 1) = unat q + 1" using q(2) by (subst unat_add_lem [THEN iffD1]) simp_all
  have "q \<le> q + 1" "unat (q + 1) + n \<le> unat q + 0x2000" using u P(3) by (simp_all add: word_le_nat_alt)
  then obtain w' L where l: "meshx_lower_trans_send net_log P c1 w1 = Some (MESHX_SUCCESS, c', w')" "mw_delivered w' = mw_delivered w @ L"
    "length L = n" "\<forall>i < n. seg_of c' P i (q + 1 + word_of_nat i) (L ! i)"
    using segmented_at_once [OF P, of w1 "q + 1" p ps] g e(2) x(2) unfolding c1(2,5-8) by (auto simp: w1_def)
  have "meshx_access_send (meshx_upper_trans_send aes net_log) pdata c w = meshx_upper_trans_send aes net_log pdata c w"
    using assms(2-5) g(1-5) by (auto simp: meshx_access_send_def MESHX_MAX_ACCESS_PDU_SIZE_def MESHX_UNSEG_ACCESS_MAX_PDU_SIZE_def)
  also have "\<dots> = meshx_lower_trans_send net_log P c1 w1"
    unfolding meshx_upper_trans_send_def Let_def using g(4,6) e(1) x(1) s(4) c1(1)
    by (simp add: assms(4) [symmetric] w1_def [symmetric] P_def)
  finally show ?thesis using l s(1-3)
    by (intro exI [of _ cipher] exI [of _ mic] exI [of _ w'] exI [of _ L]) (simp add: P_def)
qed

text \<open>A node that sends 300 bytes.\<close>

definition long_ctx :: msg_ctx where
  "long_ctx = app_ctx\<lparr>mc_seq := 0, mc_seq_auth := 0, mc_seg := True\<rparr>"

lemma long_ready: "can_segment app_ctx 0 26 demo_mesh"
  using app_ctx_facts
  by (simp add: can_segment_def seq_ready_def demo_mesh_def ok_env_def)
    (simp add: app_ctx_def mc_zero_def MESHX_ADDRESS_IS_VALID_def MESHX_ADDRESS_IS_RFU_def word_le_nat_alt)

theorem long_message_in_clear_witness:
  "\<exists>cipher mic w' L. meshx_access_send (meshx_upper_trans_send demo_aes net_log) (zeros 300) app_ctx demo_mesh = Some (MESHX_SUCCESS, long_ctx, w') \<and>
    mw_delivered w' = mw_delivered demo_mesh @ L \<and> length L = 26 \<and>
    (\<forall>i < 26. seg_of long_ctx (cipher @ zeros 256 @ mic) i (1 + word_of_nat i) (L ! i)) \<and> length cipher = 44 \<and> length mic = 4"
proof -
  define Z where "Z = (zeros 300 :: bytes)"
  have z: "length Z = 300" "drop 44 Z = zeros 256" by (simp_all only: Z_def length_replicate drop_replicate) simp
  have n: "(26 :: nat) = (length Z + 4 + 11) div 12" "256 \<le> length Z" "length Z + 4 \<le> 372" "length Z - 256 = 44" by (simp_all add: z(1))
  have c: "(4 :: nat) = (if mc_szmic app_ctx then 8 else 4)" "long_ctx = app_ctx\<lparr>mc_seq := 0, mc_seq_auth := 0, mc_seg := True\<rparr>"
    by (simp_all add: app_ctx_facts long_ctx_def)
  from long_message_in_clear [OF demo_aes_block app_ctx_facts(1) n(2) c(1) n(3) long_ready n(1) c(2), unfolded n(4) z(2)]
  show ?thesis unfolding Z_def [symmetric] by simp blast
qed

section \<open>From access layer to access layer\<close>












end
