(* ===== verification/Mesh_Cmd.thy ===== *)
theory Mesh_Cmd
  imports Mesh_Lib
begin

text \<open>
  The command line of \<^verbatim>\<open>common/meshx_cmd.c\<close>: the line editor with its history, the parser
  and the execution of commands, and the commands of \<^verbatim>\<open>cmd/meshx_cmd_base.c\<close> that list the
  table.  The buffers have the size of the code; the counters of eight bits stay below 161 and
  are numbers here.  A function pointer of the table is a value the argument \<^verbatim>\<open>run\<close> interprets;
  what is written to the terminal is appended to \<^verbatim>\<open>tty\<close>.
\<close>

section \<open>State\<close>

definition MESHX_CMD_MAX_LEN :: nat where "MESHX_CMD_MAX_LEN = 160"
definition MESHX_CMD_MAX_PARAMETERS :: nat where "MESHX_CMD_MAX_PARAMETERS = 20"
definition MESHX_CMD_MAX_HISTORY_SIZE :: nat where "MESHX_CMD_MAX_HISTORY_SIZE = 3"

lemmas cmd_sizes = MESHX_CMD_MAX_LEN_def MESHX_CMD_MAX_PARAMETERS_def MESHX_CMD_MAX_HISTORY_SIZE_def

record meshx_user_cmd_info =
  cmd :: string
  cmd_len :: nat
  cursor_pos :: nat
  cmd_temp :: string
  cmd_temp_len :: nat
  cmd_history :: "string list"
  cmd_history_len :: "nat list"
  history_save_index :: nat
  history_traverse_index :: nat
  history_looped :: bool
  history_traversing :: bool
  history_traversed_to_head :: bool
  history_traversed_to_tail :: bool
  cmd_prompt :: char
  cmd_crlf :: string

text \<open>A pointer of the parsed data is the C string it points to, \<^verbatim>\<open>None\<close> the null pointer: the
  buffer does not change any more between the terminator written after a word and the return
  of the command.\<close>

record meshx_cmd_parsed_data =
  pd_cmd :: "string option"
  param_cnt :: nat
  param_val :: "int list"
  param_ptr :: "string option list"

definition parsed_zero :: meshx_cmd_parsed_data where
  "parsed_zero = \<lparr>pd_cmd = None, param_cnt = 0, param_val = replicate MESHX_CMD_MAX_PARAMETERS 0,
     param_ptr = replicate MESHX_CMD_MAX_PARAMETERS None\<rparr>"

record 'p meshx_cmd =
  pcmd :: string
  pusage :: string
  phelp :: string
  process :: "'p option"

record ('p, 'w) cmd_env =
  puser_cmds :: "'p meshx_cmd list"
  tty :: string
  app :: 'w

type_synonym ('p, 'w) cmd_run = "'p \<Rightarrow> meshx_cmd_parsed_data \<Rightarrow> ('p, 'w) cmd_env \<Rightarrow> (errno \<times> ('p, 'w) cmd_env) option"

definition NUL :: char where "NUL = CHR 0x00"
definition BS :: char where "BS = CHR 0x08"
definition CR :: char where "CR = CHR 0x0D"
definition LF :: char where "LF = CHR 0x0A"
definition DEL :: char where "DEL = CHR 0x7F"

lemmas control_chars = NUL_def BS_def CR_def LF_def DEL_def

definition meshx_tty_send :: "string \<Rightarrow> ('p, 'w) cmd_env \<Rightarrow> ('p, 'w) cmd_env" where
  "meshx_tty_send s e = e\<lparr>tty := tty e @ s\<rparr>"

definition cmd_info_zero :: meshx_user_cmd_info where
  "cmd_info_zero = \<lparr>cmd = replicate (MESHX_CMD_MAX_LEN + 2) NUL, cmd_len = 0, cursor_pos = 0,
     cmd_temp = replicate (MESHX_CMD_MAX_LEN + 2) NUL, cmd_temp_len = 0,
     cmd_history = replicate MESHX_CMD_MAX_HISTORY_SIZE (replicate (MESHX_CMD_MAX_LEN + 2) NUL),
     cmd_history_len = replicate MESHX_CMD_MAX_HISTORY_SIZE 0, history_save_index = 0,
     history_traverse_index = 0, history_looped = False, history_traversing = False,
     history_traversed_to_head = False, history_traversed_to_tail = False, cmd_prompt = NUL,
     cmd_crlf = [NUL, NUL]\<rparr>"

definition meshx_cmd_init ::
  "'p meshx_cmd list \<Rightarrow> meshx_user_cmd_info \<Rightarrow> ('p, 'w) cmd_env \<Rightarrow> errno \<times> meshx_user_cmd_info \<times> ('p, 'w) cmd_env" where
  "meshx_cmd_init pcmds s e =
    (let s = s\<lparr>history_save_index := MESHX_CMD_MAX_HISTORY_SIZE, cmd_prompt := CHR ''$'', cmd_crlf := [CR, LF]\<rparr>;
         e = meshx_tty_send [cmd_prompt s] e
     in (MESHX_SUCCESS, s, e\<lparr>puser_cmds := pcmds\<rparr>))"

section \<open>The parser\<close>

text \<open>The position of the next character that is no space, or that the end was reached.\<close>

function word_start :: "string \<Rightarrow> nat \<Rightarrow> nat \<Rightarrow> nat option option" where
  "word_start b e p =
    (if length b \<le> p then None
     else if b ! p = CHR '' '' then (if e \<le> p + 1 then Some None else word_start b e (p + 1))
     else Some (Some p))"
  by auto
termination by (relation "measure (\<lambda>(b, e, p). length b - p)") auto

text \<open>The position after a word, and whether the end was reached.\<close>

function word_end :: "string \<Rightarrow> nat \<Rightarrow> nat \<Rightarrow> (nat \<times> bool) option" where
  "word_end b e q =
    (if length b \<le> q then None
     else if b ! q \<noteq> CHR '' '' then (if e \<le> q + 1 then Some (q + 1, True) else word_end b e (q + 1))
     else Some (q, False))"
  by auto
termination by (relation "measure (\<lambda>(b, e, q). length b - q)") auto

declare word_start.simps [simp del] word_end.simps [simp del]

lemma word_start_ge: "word_start b e p = Some (Some p') \<Longrightarrow> p \<le> p' \<and> p' < length b"
  by (induction b e p rule: word_start.induct) (subst (asm) word_start.simps, auto split: if_splits)

lemma word_end_ge: "word_end b e q = Some (q', x) \<Longrightarrow> q \<le> q' \<and> q' \<le> length b"
  by (induction b e q rule: word_end.induct) (subst (asm) word_end.simps, auto split: if_splits)

definition put_char :: "string \<Rightarrow> nat \<Rightarrow> char \<Rightarrow> string option" where
  "put_char b i c = (if i < length b then Some (b[i := c]) else None)"

text \<open>The C string at a position.\<close>

definition c_string :: "string \<Rightarrow> nat \<Rightarrow> string option" where
  "c_string b p = (if NUL \<in> set (drop p b) then Some (takeWhile (\<lambda>c. c \<noteq> NUL) (drop p b)) else None)"

definition add_param :: "string \<Rightarrow> meshx_cmd_parsed_data \<Rightarrow> meshx_cmd_parsed_data option" where
  "add_param s d =
    (if param_cnt d < length (param_ptr d) then do {
       (v, _) \<leftarrow> meshx_atoi s;
       Some (d\<lparr>param_ptr := (param_ptr d)[param_cnt d := Some s], param_val := (param_val d)[param_cnt d := v],
               param_cnt := param_cnt d + 1\<rparr>)
     } else None)"

text \<open>The word at \<^verbatim>\<open>p\<close> is cut off the line: its end, whether that is the end of the line, the
  word and the line with the terminator.\<close>

definition cut_word :: "string \<Rightarrow> nat \<Rightarrow> nat \<Rightarrow> (nat \<times> bool \<times> string \<times> string) option" where
  "cut_word b e p = do {
     (q, fin) \<leftarrow> word_end b e p;
     b \<leftarrow> put_char b q NUL;
     s \<leftarrow> c_string b p;
     Some (q, fin, s, b)
   }"

lemma cut_word_ge: "cut_word b e p = Some (q, x, s, b') \<Longrightarrow> p \<le> q \<and> q < length b \<and> length b' = length b"
  by (auto simp: cut_word_def put_char_def split: Option.bind_splits prod.splits if_splits dest: word_end_ge)

function parse_params :: "string \<Rightarrow> nat \<Rightarrow> nat \<Rightarrow> meshx_cmd_parsed_data \<Rightarrow> (string \<times> meshx_cmd_parsed_data) option" where
  "parse_params b e p d =
    (case word_start b e p of
       None \<Rightarrow> None
     | Some None \<Rightarrow> Some (b, d)
     | Some (Some p) \<Rightarrow>
         (case cut_word b e p of
            None \<Rightarrow> None
          | Some (q, fin, s, b) \<Rightarrow>
              (case add_param s d of
                 None \<Rightarrow> None
               | Some d \<Rightarrow> if fin then Some (b, d) else parse_params b e (q + 1) d)))"
  by auto
termination
  by (relation "measure (\<lambda>(b, e, p, d). length b - p)") (auto dest!: word_start_ge cut_word_ge)

declare parse_params.simps [simp del]

definition meshx_cmd_parse :: "string \<Rightarrow> nat \<Rightarrow> (bool \<times> string \<times> meshx_cmd_parsed_data) option" where
  "meshx_cmd_parse pdata n = do {
     let d = parsed_zero;
     st \<leftarrow> word_start pdata n 0;
     case st of
       None \<Rightarrow> Some (False, pdata, d)
     | Some p \<Rightarrow> do {
         (q, fin, s, b) \<leftarrow> cut_word pdata n p;
         let d = d\<lparr>pd_cmd := Some s\<rparr>;
         if fin then Some (True, b, d)
         else do {
           (b, d) \<leftarrow> parse_params b n (q + 1) d;
           Some (True, b, d)
         }
       }
   }"

section \<open>Commands\<close>

fun meshx_cmd_find :: "'p meshx_cmd list \<Rightarrow> string \<Rightarrow> 'p meshx_cmd option" where
  "meshx_cmd_find [] s = None"
| "meshx_cmd_find (c # cs) s = (if pcmd c = s then Some c else meshx_cmd_find cs s)"

definition meshx_cmd_execute ::
  "('p, 'w) cmd_run \<Rightarrow> meshx_cmd_parsed_data \<Rightarrow> ('p, 'w) cmd_env \<Rightarrow> (errno \<times> ('p, 'w) cmd_env) option" where
  "meshx_cmd_execute run d e = do {
     name \<leftarrow> pd_cmd d;
     case meshx_cmd_find (puser_cmds e) name of
       None \<Rightarrow> Some (MESHX_ERR_NOT_FOUND, e)
     | Some c \<Rightarrow> (case process c of None \<Rightarrow> Some (MESHX_SUCCESS, e) | Some f \<Rightarrow> run f d e)
   }"

definition meshx_cmd_list :: "string \<Rightarrow> string \<Rightarrow> ('p, 'w) cmd_env \<Rightarrow> ('p, 'w) cmd_env" where
  "meshx_cmd_list crlf name e =
    (case meshx_cmd_find (puser_cmds e) name of
       None \<Rightarrow> e
     | Some c \<Rightarrow>
         let e = meshx_tty_send crlf e;
             e = meshx_tty_send ''usage: '' e;
             e = meshx_tty_send (pusage c) e;
             e = meshx_tty_send crlf e;
             e = meshx_tty_send (phelp c) e
         in meshx_tty_send crlf e)"

fun list_all_loop :: "string \<Rightarrow> 'p meshx_cmd list \<Rightarrow> ('p, 'w) cmd_env \<Rightarrow> ('p, 'w) cmd_env" where
  "list_all_loop crlf [] e = e"
| "list_all_loop crlf (c # cs) e =
    (let e = meshx_tty_send crlf e;
         e = meshx_tty_send (pcmd c) e;
         e = meshx_tty_send crlf e;
         e = meshx_tty_send ''  '' e;
         e = meshx_tty_send ''usage: '' e;
         e = meshx_tty_send (pusage c) e;
         e = meshx_tty_send crlf e;
         e = meshx_tty_send ''  '' e;
         e = meshx_tty_send (phelp c) e;
         e = meshx_tty_send crlf e
     in list_all_loop crlf cs e)"

definition meshx_cmd_list_all :: "string \<Rightarrow> ('p, 'w) cmd_env \<Rightarrow> ('p, 'w) cmd_env" where
  "meshx_cmd_list_all crlf e = list_all_loop crlf (puser_cmds e) e"

text \<open>\<^verbatim>\<open>strcmp\<close> on a null pointer is undefined; the test on the number of parameters keeps it away.\<close>

definition meshx_cmd_help :: "string \<Rightarrow> meshx_cmd_parsed_data \<Rightarrow> ('p, 'w) cmd_env \<Rightarrow> (errno \<times> ('p, 'w) cmd_env) option" where
  "meshx_cmd_help crlf d e =
    (if param_cnt d = 0 then Some (MESHX_ERR_INVAL, e)
     else do {
       s \<leftarrow> param_ptr d ! 0;
       Some (MESHX_SUCCESS, if s = ''*'' then meshx_cmd_list_all crlf e else meshx_cmd_list crlf s e)
     })"

section \<open>The line editor\<close>

text \<open>\<^verbatim>\<open>"\b \b"\<close> for every character of the line.\<close>

definition meshx_cmd_clear :: "meshx_user_cmd_info \<Rightarrow> ('p, 'w) cmd_env \<Rightarrow> ('p, 'w) cmd_env" where
  "meshx_cmd_clear s e = meshx_tty_send (concat (replicate (cmd_len s) [BS, CHR '' '', BS])) e"

definition copy_char :: "string \<Rightarrow> nat \<Rightarrow> nat \<Rightarrow> string option" where
  "copy_char b dst src = (if src < length b then put_char b dst (b ! src) else None)"

text \<open>The characters from a position on move one place to the left, or up to it to the right.\<close>

fun shift_left :: "nat \<Rightarrow> nat \<Rightarrow> string \<Rightarrow> string option" where
  "shift_left 0 p b = Some b"
| "shift_left (Suc n) p b = (if p = 0 then None else do { b \<leftarrow> copy_char b (p - 1) p; shift_left n (p + 1) b })"

fun shift_right :: "nat \<Rightarrow> nat \<Rightarrow> string \<Rightarrow> string option" where
  "shift_right 0 p b = Some b"
| "shift_right (Suc n) p b = (if p = 0 then None else do { b \<leftarrow> copy_char b p (p - 1); shift_right n (p - 1) b })"

definition meshx_cmd_move_forward ::
  "meshx_user_cmd_info \<Rightarrow> ('p, 'w) cmd_env \<Rightarrow> (meshx_user_cmd_info \<times> ('p, 'w) cmd_env) option" where
  "meshx_cmd_move_forward s e = do {
     b \<leftarrow> shift_left (cmd_len s + 1 - cursor_pos s) (cursor_pos s) (cmd s);
     if cmd_len s = 0 then None else do {
       b \<leftarrow> put_char b (cmd_len s - 1) (CHR '' '');
       Some (s\<lparr>cmd := b\<rparr>, meshx_tty_send [BS] e)
     }
   }"

definition meshx_cmd_move_back :: "meshx_user_cmd_info \<Rightarrow> meshx_user_cmd_info option" where
  "meshx_cmd_move_back s = do {
     b \<leftarrow> shift_right (cmd_len s - cursor_pos s) (cmd_len s) (cmd s);
     Some (s\<lparr>cmd := b\<rparr>)
   }"

definition meshx_cmd_cursor_move_back :: "meshx_user_cmd_info \<Rightarrow> ('p, 'w) cmd_env \<Rightarrow> ('p, 'w) cmd_env" where
  "meshx_cmd_cursor_move_back s e = meshx_tty_send (replicate (cmd_len s - cursor_pos s) BS) e"

type_synonym ('p, 'w) cmd_step = "meshx_user_cmd_info \<Rightarrow> ('p, 'w) cmd_env \<Rightarrow> (meshx_user_cmd_info \<times> ('p, 'w) cmd_env) option"

definition collect_backspace :: "('p, 'w) cmd_step" where
  "collect_backspace s e =
    (if cursor_pos s > 0 \<and> cmd_len s > 0 then do {
       (s, e) \<leftarrow> meshx_cmd_move_forward s e;
       let s = s\<lparr>cursor_pos := cursor_pos s - 1\<rparr>;
       t \<leftarrow> mem_read (cmd s) (cursor_pos s) (cmd_len s - cursor_pos s);
       let e = meshx_tty_send t e;
       b \<leftarrow> put_char (cmd s) (cmd_len s - 1) NUL;
       let s = s\<lparr>cmd := b\<rparr>;
       let e = meshx_cmd_cursor_move_back s e;
       Some (s\<lparr>cmd_len := cmd_len s - 1\<rparr>, e)
     } else Some (s, e))"

definition collect_left :: "('p, 'w) cmd_step" where
  "collect_left s e =
    (if cursor_pos s > 0
     then let e = meshx_tty_send [BS] e in Some (s\<lparr>cursor_pos := cursor_pos s - 1\<rparr>, e)
     else Some (s, e))"

definition collect_right :: "('p, 'w) cmd_step" where
  "collect_right s e =
    (if cursor_pos s < cmd_len s then do {
       t \<leftarrow> mem_read (cmd s) (cursor_pos s) 1;
       let e = meshx_tty_send t e;
       Some (s\<lparr>cursor_pos := cursor_pos s + 1\<rparr>, e)
     } else Some (s, e))"

definition collect_insert :: "char \<Rightarrow> ('p, 'w) cmd_step" where
  "collect_insert c s e =
    (if cmd_len s < MESHX_CMD_MAX_LEN then do {
       s \<leftarrow> meshx_cmd_move_back s;
       b \<leftarrow> put_char (cmd s) (cursor_pos s) c;
       let s = s\<lparr>cmd := b, cmd_len := cmd_len s + 1, cursor_pos := cursor_pos s + 1\<rparr>;
       t \<leftarrow> mem_read (cmd s) (cursor_pos s - 1) (cmd_len s - cursor_pos s + 1);
       let e = meshx_tty_send t e;
       let e = meshx_cmd_cursor_move_back s e;
       Some (s, e)
     } else Some (s, e))"

text \<open>A line of the history: its first \<^verbatim>\<open>cmd_history_len\<close> characters.\<close>

definition history_line :: "meshx_user_cmd_info \<Rightarrow> string option" where
  "history_line s =
    (let i = history_traverse_index s
     in if i < length (cmd_history s) \<and> i < length (cmd_history_len s)
        then mem_read (cmd_history s ! i) 0 (cmd_history_len s ! i) else None)"

text \<open>The older line: where the oldest one is shown already, only that is noted.\<close>

definition history_back :: "meshx_user_cmd_info \<Rightarrow> meshx_user_cmd_info" where
  "history_back s =
    (if history_looped s
     then if history_traverse_index s = (history_save_index s + 1) mod MESHX_CMD_MAX_HISTORY_SIZE
          then s\<lparr>history_traversed_to_head := True\<rparr>
          else if history_traverse_index s = 0
          then s\<lparr>history_traverse_index := MESHX_CMD_MAX_HISTORY_SIZE - 1\<rparr>
          else s\<lparr>history_traverse_index := history_traverse_index s - 1\<rparr>
     else if history_traverse_index s = 0
          then s\<lparr>history_traversed_to_head := True\<rparr>
          else s\<lparr>history_traverse_index := history_traverse_index s - 1\<rparr>)"

text \<open>The first older line: the text being typed is set aside.\<close>

definition history_start :: "meshx_user_cmd_info \<Rightarrow> meshx_user_cmd_info option" where
  "history_start s = do {
     let s = s\<lparr>history_traversing := True\<rparr>;
     t \<leftarrow> mem_read (cmd s) 0 (cmd_len s);
     b \<leftarrow> mem_write (cmd_temp s) 0 t;
     Some (s\<lparr>cmd_temp := b, cmd_temp_len := cmd_len s\<rparr>)
   }"

definition collect_previous :: "('p, 'w) cmd_step" where
  "collect_previous s e =
    (if history_save_index s \<noteq> MESHX_CMD_MAX_HISTORY_SIZE \<and> \<not> history_traversed_to_head s then do {
       let s = s\<lparr>history_traversed_to_tail := False\<rparr>;
       s \<leftarrow> (if history_traversing s then Some (history_back s) else history_start s);
       if \<not> history_traversed_to_head s then do {
         let e = meshx_cmd_clear s e;
         t \<leftarrow> history_line s;
         b \<leftarrow> mem_write (cmd s) 0 t;
         let s = s\<lparr>cmd := b, cmd_len := length t, cursor_pos := length t\<rparr>;
         t \<leftarrow> mem_read (cmd s) 0 (cmd_len s);
         Some (s, meshx_tty_send t e)
       } else Some (s, e)
     } else Some (s, e))"

definition history_forward :: "meshx_user_cmd_info \<Rightarrow> meshx_user_cmd_info" where
  "history_forward s =
    (if history_traverse_index s = history_save_index s then s\<lparr>history_traversed_to_tail := True\<rparr>
     else if history_looped s
     then s\<lparr>history_traverse_index := (history_traverse_index s + 1) mod MESHX_CMD_MAX_HISTORY_SIZE\<rparr>
     else s\<lparr>history_traverse_index := history_traverse_index s + 1\<rparr>)"

definition collect_next :: "('p, 'w) cmd_step" where
  "collect_next s e =
    (if history_save_index s \<noteq> MESHX_CMD_MAX_HISTORY_SIZE \<and> \<not> history_traversed_to_tail s then do {
       let s = s\<lparr>history_traversed_to_head := False\<rparr>;
       let e = meshx_cmd_clear s e;
       let s = history_forward s;
       if history_traversed_to_tail s then do {
         t \<leftarrow> mem_read (cmd_temp s) 0 (cmd_temp_len s);
         let e = meshx_tty_send t e;
         b \<leftarrow> mem_write (cmd s) 0 t;
         Some (s\<lparr>cmd := b, cmd_len := cmd_temp_len s, cursor_pos := cmd_temp_len s, history_traversing := False\<rparr>, e)
       } else do {
         t \<leftarrow> history_line s;
         let e = meshx_tty_send t e;
         b \<leftarrow> mem_write (cmd s) 0 t;
         Some (s\<lparr>cmd := b, cmd_len := length t, cursor_pos := length t\<rparr>, e)
       }
     } else Some (s, e))"

text \<open>Enter.  The line goes to the next slot of the history, is parsed and executed.\<close>

definition history_save :: "meshx_user_cmd_info \<Rightarrow> meshx_user_cmd_info option" where
  "history_save s = do {
     let s = (if history_save_index s = MESHX_CMD_MAX_HISTORY_SIZE then s\<lparr>history_save_index := 0\<rparr>
              else if history_save_index s + 1 = MESHX_CMD_MAX_HISTORY_SIZE
              then s\<lparr>history_save_index := 0, history_looped := True\<rparr>
              else s\<lparr>history_save_index := history_save_index s + 1\<rparr>);
     let i = history_save_index s;
     if i < length (cmd_history s) then do {
       t \<leftarrow> mem_read (cmd s) 0 (cmd_len s);
       h \<leftarrow> mem_write (cmd_history s ! i) 0 t;
       h \<leftarrow> put_char h (cmd_len s) NUL;
       b \<leftarrow> put_char (cmd s) (cmd_len s) NUL;
       Some (s\<lparr>cmd_history := (cmd_history s)[i := h],
               cmd_history_len := (cmd_history_len s)[i := cmd_len s], cmd := b\<rparr>)
     } else None
   }"

definition run_line :: "('p, 'w) cmd_run \<Rightarrow> ('p, 'w) cmd_step" where
  "run_line run s e = do {
     (ok, b, d) \<leftarrow> meshx_cmd_parse (cmd s) (cmd_len s);
     let s = s\<lparr>cmd := b\<rparr>;
     if ok then do {
       (ret, e) \<leftarrow> meshx_cmd_execute run d e;
       if ret \<noteq> MESHX_SUCCESS then do {
         let e = meshx_tty_send (cmd_crlf s) e;
         name \<leftarrow> pd_cmd d;
         let e = meshx_tty_send name e;
         let e = meshx_tty_send '': '' e;
         t \<leftarrow> meshx_errno_to_string (ret_code ret);
         Some (s, meshx_tty_send t e)
       } else Some (s, e)
     } else Some (s, e)
   }"

definition collect_enter :: "('p, 'w) cmd_run \<Rightarrow> ('p, 'w) cmd_step" where
  "collect_enter run s e = do {
     (s, e) \<leftarrow> (if cmd_len s > 0 then do {
         s \<leftarrow> history_save s;
         (s, e) \<leftarrow> run_line run s e;
         Some (s\<lparr>cmd_len := 0, cursor_pos := 0, history_traverse_index := history_save_index s,
                 history_traversed_to_head := False, history_traversed_to_tail := True,
                 history_traversing := False\<rparr>, e)
       } else Some (s, e));
     let e = meshx_tty_send (cmd_crlf s) e;
     Some (s, meshx_tty_send [cmd_prompt s] e)
   }"

definition collect_char :: "('p, 'w) cmd_run \<Rightarrow> char \<Rightarrow> ('p, 'w) cmd_step" where
  "collect_char run c s e =
    (if c = CR \<or> c = LF then collect_enter run s e
     else if c = DEL \<or> c = BS then collect_backspace s e
     else if c = CHR ''['' then collect_left s e
     else if c = CHR '']'' then collect_right s e
     else if c = CHR '','' then collect_previous s e
     else if c = CHR ''.'' then collect_next s e
     else collect_insert c s e)"

fun meshx_cmd_collect :: "('p, 'w) cmd_run \<Rightarrow> string \<Rightarrow> ('p, 'w) cmd_step" where
  "meshx_cmd_collect run [] s e = Some (s, e)"
| "meshx_cmd_collect run (c # cs) s e = do {
     (s, e) \<leftarrow> collect_char run c s e;
     meshx_cmd_collect run cs s e
   }"

end
