(* ===== verification/Mesh_Cmd_Facts.thy ===== *)
theory Mesh_Cmd_Facts
  imports Mesh_Cmd
begin

text \<open>
  What the line editor promises: no editing key leaves the buffers, the editor is a zipper
  whose text is what the terminal shows, the history gives back what was typed.  And where it
  fails: a history key away from the end of the line.
\<close>

section \<open>Moving characters\<close>

lemma shift_left_append:
  "shift_left (length ys) (Suc (length xs)) (xs @ a # ys @ zs) = Some (xs @ ys @ last (a # ys) # zs)"
proof (induction ys arbitrary: xs a)
  case (Cons y ys)
  show ?case using Cons.IH [of "xs @ [y]" y]
    by (simp add: copy_char_def put_char_def nth_append list_update_append)
qed simp

lemma shift_right_append:
  "shift_right (length ys) (length xs + length ys) (xs @ ys @ z # zs) = Some (xs @ hd (ys @ [z]) # ys @ zs)"
proof (induction ys arbitrary: z zs rule: rev_induct)
  case (snoc y ys)
  show ?case using snoc.IH [of y "y # zs"]
    by (simp add: copy_char_def put_char_def nth_append list_update_append hd_append)
qed simp

lemma text_read_mid: "length xs = n \<Longrightarrow> length ys = m \<Longrightarrow> mem_read (xs @ ys @ zs) n m = Some ys"
  by (simp add: mem_read_def)

lemma put_char_mid: "length xs = n \<Longrightarrow> put_char (xs @ a # zs) n c = Some (xs @ c # zs)"
  by (simp add: put_char_def list_update_append)

section \<open>The invariant of the buffers\<close>

definition cmd_ok :: "meshx_user_cmd_info \<Rightarrow> bool" where
  "cmd_ok s \<longleftrightarrow> length (cmd s) = MESHX_CMD_MAX_LEN + 2 \<and> cmd_len s \<le> MESHX_CMD_MAX_LEN \<and> cursor_pos s \<le> cmd_len s \<and>
     length (cmd_temp s) = MESHX_CMD_MAX_LEN + 2 \<and> cmd_temp_len s \<le> MESHX_CMD_MAX_LEN \<and>
     length (cmd_history s) = MESHX_CMD_MAX_HISTORY_SIZE \<and> list_all (\<lambda>h. length h = MESHX_CMD_MAX_LEN + 2) (cmd_history s) \<and>
     length (cmd_history_len s) = MESHX_CMD_MAX_HISTORY_SIZE \<and> list_all (\<lambda>n. n \<le> MESHX_CMD_MAX_LEN) (cmd_history_len s) \<and>
     history_save_index s \<le> MESHX_CMD_MAX_HISTORY_SIZE \<and> history_traverse_index s < MESHX_CMD_MAX_HISTORY_SIZE \<and>
     (history_looped s \<longrightarrow> history_save_index s < MESHX_CMD_MAX_HISTORY_SIZE) \<and>
     (history_save_index s < MESHX_CMD_MAX_HISTORY_SIZE \<and> \<not> history_looped s \<longrightarrow> history_traverse_index s \<le> history_save_index s)"

text \<open>The text left and right of the cursor.\<close>

definition editing :: "meshx_user_cmd_info \<Rightarrow> string \<Rightarrow> string \<Rightarrow> bool" where
  "editing s l r \<longleftrightarrow> cmd_ok s \<and> cursor_pos s = length l \<and> cmd_len s = length l + length r \<and>
     (\<exists>rest. cmd s = l @ r @ rest)"

lemma editing_ok: "editing s l r \<Longrightarrow> cmd_ok s"
  by (simp add: editing_def)

lemma ok_editing:
  assumes "cmd_ok s"
  shows "editing s (take (cursor_pos s) (cmd s)) (take (cmd_len s - cursor_pos s) (drop (cursor_pos s) (cmd s)))"
proof -
  have le: "cursor_pos s \<le> cmd_len s" "cmd_len s \<le> length (cmd s)" using assms by (auto simp: cmd_ok_def)
  have "cmd s = take (cursor_pos s) (cmd s) @ take (cmd_len s - cursor_pos s) (drop (cursor_pos s) (cmd s)) @ drop (cmd_len s) (cmd s)"
    using le by (metis append_take_drop_id drop_drop le_add_diff_inverse2)
  then show ?thesis using assms le by (auto simp: editing_def)
qed

lemma editing_room:
  assumes "editing s l r"
  obtains x y rest where "cmd s = l @ r @ x # y # rest" "length l + length r \<le> MESHX_CMD_MAX_LEN"
proof -
  obtain rest where r: "cmd s = l @ r @ rest" using assms by (auto simp: editing_def)
  have n: "length (cmd s) = MESHX_CMD_MAX_LEN + 2" "length l + length r \<le> MESHX_CMD_MAX_LEN"
    using assms by (auto simp: editing_def cmd_ok_def)
  obtain x y rest' where "rest = x # y # rest'"
    using r n by (cases rest; cases "tl rest") auto
  then show ?thesis using that r n by blast
qed

section \<open>Editing keys\<close>

fun edit :: "char \<Rightarrow> string \<times> string \<Rightarrow> string \<times> string" where
  "edit c (l, r) =
    (if c = DEL \<or> c = BS then (butlast l, r)
     else if c = CHR ''['' then (if l = [] then (l, r) else (butlast l, last l # r))
     else if c = CHR '']'' then (case r of [] \<Rightarrow> (l, r) | x # r \<Rightarrow> (l @ [x], r))
     else if length l + length r < MESHX_CMD_MAX_LEN then (l @ [c], r) else (l, r))"

text \<open>What a key writes to the terminal.\<close>

definition echo :: "char \<Rightarrow> string \<times> string \<Rightarrow> string" where
  "echo c z = (case z of (l, r) \<Rightarrow>
    (if c = DEL \<or> c = BS then (if l = [] then [] else BS # r @ '' '' @ replicate (length r + 1) BS)
     else if c = CHR ''['' then (if l = [] then [] else [BS])
     else if c = CHR '']'' then take 1 r
     else if length l + length r < MESHX_CMD_MAX_LEN then c # r @ replicate (length r) BS else []))"

lemma editing_upd:
  assumes "editing s l r" "b = l' @ r' @ rest'" "length b = length (cmd s)" "length l' + length r' \<le> MESHX_CMD_MAX_LEN"
  shows "editing (s\<lparr>cmd := b, cmd_len := length l' + length r', cursor_pos := length l'\<rparr>) l' r'"
  using assms by (auto simp: editing_def cmd_ok_def)

lemma backspace_edit:
  assumes "editing s (l @ [a]) r"
  shows "\<exists>s'. collect_backspace s e = Some (s', meshx_tty_send (BS # r @ '' '' @ replicate (length r + 1) BS) e) \<and> editing s' l r"
proof -
  obtain x y rest where b: "cmd s = (l @ [a]) @ r @ x # y # rest" and n: "length l + length r + 1 \<le> MESHX_CMD_MAX_LEN"
    by (rule editing_room [OF assms]) auto
  have c: "cursor_pos s = Suc (length l)" "cmd_len s = Suc (length l + length r)" using assms by (auto simp: editing_def)
  have sh: "shift_left (Suc (length r)) (Suc (length l)) (l @ a # r @ x # y # rest) = Some (l @ r @ x # x # y # rest)"
    using shift_left_append [of "r @ [x]" l a "y # rest"] by simp
  define s' where "s' = s\<lparr>cmd := l @ r @ NUL # x # y # rest, cmd_len := length l + length r, cursor_pos := length l\<rparr>"
  have "collect_backspace s e = Some (s', meshx_tty_send (BS # r @ '' '' @ replicate (length r + 1) BS) e)"
    using put_char_mid [of "l @ r" "length l + length r" x "x # y # rest" "CHR '' ''"]
      put_char_mid [of "l @ r" "length l + length r" "CHR '' ''" "x # y # rest" NUL]
      text_read_mid [of l "length l" "r @ '' ''" "Suc (length r)" "x # y # rest"]
    by (simp add: collect_backspace_def meshx_cmd_move_forward_def c b sh Let_def meshx_tty_send_def
        meshx_cmd_cursor_move_back_def s'_def del: shift_left.simps)
  moreover have "editing s' l r"
    unfolding s'_def by (rule editing_upd [OF assms, where rest' = "NUL # x # y # rest"]) (use n b in auto)
  ultimately show ?thesis by blast
qed

lemma insert_edit:
  assumes "editing s l r" "length l + length r < MESHX_CMD_MAX_LEN"
  shows "\<exists>s'. collect_insert c s e = Some (s', meshx_tty_send (c # r @ replicate (length r) BS) e) \<and> editing s' (l @ [c]) r"
proof -
  obtain x y rest where b: "cmd s = l @ r @ x # y # rest" by (rule editing_room [OF assms(1)])
  have cc: "cursor_pos s = length l" "cmd_len s = length l + length r" using assms by (auto simp: editing_def)
  define s' where "s' = s\<lparr>cmd := l @ c # r @ y # rest, cmd_len := Suc (length l + length r), cursor_pos := Suc (length l)\<rparr>"
  have "collect_insert c s e = Some (s', meshx_tty_send (c # r @ replicate (length r) BS) e)"
    using put_char_mid [of l "length l" "hd (r @ [x])" "r @ y # rest" c]
      text_read_mid [of l "length l" "c # r" "Suc (length r)" "y # rest"] assms(2)
    by (simp add: collect_insert_def meshx_cmd_move_back_def cc b shift_right_append Let_def meshx_tty_send_def
        meshx_cmd_cursor_move_back_def s'_def)
  moreover have "editing s' (l @ [c]) r"
    using editing_upd [OF assms(1), of "l @ c # r @ y # rest" "l @ [c]" r "y # rest"] assms(2) b by (simp add: s'_def)
  ultimately show ?thesis by blast
qed

definition edit_key :: "char \<Rightarrow> bool" where
  "edit_key c \<longleftrightarrow> c \<noteq> CR \<and> c \<noteq> LF \<and> c \<noteq> CHR '','' \<and> c \<noteq> CHR ''.''"

lemma editing_move:
  assumes "editing s l r" "l @ r = l' @ r'"
  shows "editing (s\<lparr>cursor_pos := length l'\<rparr>) l' r'"
proof -
  have "length l + length r = length l' + length r'" using assms(2) by (metis length_append)
  moreover obtain rest where "cmd s = l' @ r' @ rest" using assms by (auto simp: editing_def) (metis append.assoc)
  ultimately show ?thesis using assms(1) by (auto simp: editing_def cmd_ok_def)
qed

lemma char_edit:
  assumes "editing s l r" "edit_key c"
  shows "\<exists>s'. collect_char run c s e = Some (s', meshx_tty_send (echo c (l, r)) e) \<and>
    editing s' (fst (edit c (l, r))) (snd (edit c (l, r)))"
proof -
  have n: "cursor_pos s = length l" "cmd_len s = length l + length r" using assms by (auto simp: editing_def)
  have send0: "meshx_tty_send [] e = e" by (simp add: meshx_tty_send_def)
  note [simp] = collect_char_def echo_def send0
  have c: "c \<noteq> CR" "c \<noteq> LF" "c \<noteq> CHR '',''" "c \<noteq> CHR ''.''" using assms(2) by (simp_all add: edit_key_def)
  consider "c = DEL \<or> c = BS" | "c = CHR ''[''" | "c = CHR '']''" | "c \<noteq> DEL" "c \<noteq> BS" "c \<noteq> CHR ''[''" "c \<noteq> CHR '']''" by blast
  then show ?thesis
  proof cases
    case 1
    then show ?thesis
    proof (cases l rule: rev_cases)
      case Nil
      then show ?thesis using 1 c assms(1) n by (auto simp: collect_backspace_def)
    next
      case (snoc l' a)
      then show ?thesis using backspace_edit [of s l' a r e] assms(1) 1 c by auto
    qed
  next
    case 2
    then show ?thesis
    proof (cases l rule: rev_cases)
      case Nil
      then show ?thesis using 2 assms(1) n by (auto simp: collect_left_def control_chars)
    next
      case (snoc l' a)
      then show ?thesis using editing_move [OF assms(1), of l' "a # r"] 2 n
        by (auto simp: collect_left_def control_chars Let_def)
    qed
  next
    case 3
    then show ?thesis
    proof (cases r)
      case Nil
      then show ?thesis using 3 assms(1) n by (auto simp: collect_right_def control_chars)
    next
      case (Cons a r')
      obtain x y rest where b: "cmd s = l @ r @ x # y # rest" by (rule editing_room [OF assms(1)])
      have "mem_read (cmd s) (length l) (Suc 0) = Some [a]" using text_read_mid [of l "length l" "[a]" 1] by (simp add: b Cons)
      then show ?thesis using editing_move [OF assms(1), of "l @ [a]" r'] 3 n Cons
        by (auto simp: collect_right_def control_chars Let_def)
    qed
  next
    case 4
    then show ?thesis
    proof (cases "length l + length r < MESHX_CMD_MAX_LEN")
      case True
      then show ?thesis using insert_edit [OF assms(1) True, of c e] 4 c by auto
    next
      case False
      then show ?thesis using 4 c assms(1) n by (auto simp: collect_insert_def)
    qed
  qed
qed

section \<open>The terminal\<close>

text \<open>A terminal shows a line of characters with a cursor: a backspace moves it left, a carriage
  return to the first column, a line feed begins an empty line, anything else is written under
  the cursor, which moves on.\<close>

fun term_put :: "string \<times> nat \<Rightarrow> char \<Rightarrow> string \<times> nat" where
  "term_put (line, col) c =
    (if c = BS then (line, col - 1)
     else if c = CR then (line, 0)
     else if c = LF then ([], col)
     else (take col (line @ replicate (col - length line) (CHR '' '')) @ c # drop (col + 1) line, col + 1))"

definition screen :: "string \<Rightarrow> string \<times> nat" where
  "screen out = foldl term_put ([], 0) out"

definition printable :: "char \<Rightarrow> bool" where
  "printable c \<longleftrightarrow> 32 \<le> (of_char c :: nat) \<and> (of_char c :: nat) < 127"

definition plain :: "char \<Rightarrow> bool" where
  "plain c \<longleftrightarrow> c \<noteq> BS \<and> c \<noteq> CR \<and> c \<noteq> LF"

lemma printable_plain: "printable c \<Longrightarrow> plain c"
  by (auto simp: printable_def plain_def control_chars)

lemma plain_space [simp]: "plain (CHR '' '')"
  by (simp add: plain_def control_chars)

lemma screen_append: "screen (a @ b) = foldl term_put (screen a) b"
  by (simp add: screen_def)

lemma put_text:
  "list_all plain t \<Longrightarrow> length pre = n \<Longrightarrow> foldl term_put (pre @ mid, n) t = (pre @ t @ drop (length t) mid, n + length t)"
proof (induction t arbitrary: pre mid n)
  case (Cons c t)
  have "foldl term_put ((pre @ [c]) @ drop 1 mid, Suc n) t = ((pre @ [c]) @ t @ drop (length t) (drop 1 mid), Suc n + length t)"
    using Cons.prems by (intro Cons.IH) auto
  then show ?case using Cons.prems by (simp add: plain_def)
qed simp

lemma put_back: "foldl term_put (line, col) (replicate n BS) = (line, col - n)"
  by (induction n arbitrary: col) auto

definition shows_text :: "char \<Rightarrow> string \<Rightarrow> string \<Rightarrow> string \<times> nat \<Rightarrow> bool" where
  "shows_text prompt l r scr \<longleftrightarrow> (\<exists>k. scr = (prompt # l @ r @ replicate k (CHR '' ''), Suc (length l)))"

lemma shows_insert:
  assumes "shows_text p l r scr" "plain c" "list_all plain r"
  shows "shows_text p (l @ [c]) r (foldl term_put scr (c # r @ replicate (length r) BS))"
proof -
  obtain k where scr: "scr = ((p # l) @ (r @ replicate k (CHR '' '')), Suc (length l))" using assms(1) by (auto simp: shows_text_def)
  have "foldl term_put scr (c # r) = ((p # l) @ (c # r) @ drop (length (c # r)) (r @ replicate k (CHR '' '')), Suc (length l) + length (c # r))"
    unfolding scr using assms by (intro put_text) auto
  also have "\<dots> = (p # (l @ [c]) @ r @ replicate (k - 1) (CHR '' ''), Suc (length (l @ [c])) + length r)" by simp
  finally have f: "foldl term_put scr (c # r) = \<dots>" .
  have "foldl term_put scr ((c # r) @ replicate (length r) BS) = (p # (l @ [c]) @ r @ replicate (k - 1) (CHR '' ''), Suc (length (l @ [c])))"
    unfolding foldl_append f put_back by simp
  then show ?thesis by (auto simp: shows_text_def)
qed

lemma shows_backspace:
  assumes "shows_text p (l @ [a]) r scr" "list_all plain r"
  shows "shows_text p l r (foldl term_put scr (BS # r @ '' '' @ replicate (length r + 1) BS))"
proof -
  obtain k where scr: "scr = ((p # l) @ (a # r @ replicate k (CHR '' '')), Suc (Suc (length l)))" using assms(1) by (auto simp: shows_text_def)
  have b: "term_put scr BS = ((p # l) @ (a # r @ replicate k (CHR '' '')), Suc (length l))" by (simp add: scr)
  have "foldl term_put (term_put scr BS) (r @ '' '') =
      ((p # l) @ (r @ '' '') @ drop (length (r @ '' '')) (a # r @ replicate k (CHR '' '')), Suc (length l) + length (r @ '' ''))"
    unfolding b using assms by (intro put_text) auto
  also have "\<dots> = (p # l @ r @ replicate (Suc k) (CHR '' ''), Suc (length l) + (length r + 1))" by simp
  finally have f: "foldl term_put (term_put scr BS) (r @ '' '') = \<dots>" .
  have "foldl term_put (term_put scr BS) ((r @ '' '') @ replicate (length r + 1) BS) = (p # l @ r @ replicate (Suc k) (CHR '' ''), Suc (length l))"
    by (subst foldl_append, unfold f put_back) simp
  then show ?thesis by (auto simp: shows_text_def simp del: replicate.simps)
qed

lemma shows_left:
  "shows_text p (l @ [a]) r scr \<Longrightarrow> shows_text p l (a # r) (term_put scr BS)"
  by (auto simp: shows_text_def)

lemma shows_right:
  assumes "shows_text p l (a # r) scr" "plain a"
  shows "shows_text p (l @ [a]) r (term_put scr a)"
proof -
  obtain k where scr: "scr = ((p # l) @ (a # r @ replicate k (CHR '' '')), Suc (length l))" using assms(1) by (auto simp: shows_text_def)
  show ?thesis using put_text [of "[a]" "p # l" "Suc (length l)" "a # r @ replicate k (CHR '' '')"] assms(2)
    by (auto simp: scr shows_text_def)
qed

lemma shows_edit:
  assumes "shows_text p l r scr" "list_all plain l" "list_all plain r" "edit_key c"
  shows "shows_text p (fst (edit c (l, r))) (snd (edit c (l, r))) (foldl term_put scr (echo c (l, r)))"
proof -
  have c: "c \<noteq> CR" "c \<noteq> LF" using assms(4) by (simp_all add: edit_key_def)
  consider "c = DEL \<or> c = BS" | "c = CHR ''[''" | "c = CHR '']''" | "c \<noteq> DEL" "c \<noteq> BS" "c \<noteq> CHR ''[''" "c \<noteq> CHR '']''" by blast
  then show ?thesis
  proof cases
    case 1
    then show ?thesis using assms shows_backspace [of p _ _ r scr] by (cases l rule: rev_cases) (auto simp: echo_def)
  next
    case 2
    then show ?thesis using assms shows_left [of p _ _ r scr] by (cases l rule: rev_cases) (auto simp: echo_def control_chars)
  next
    case 3
    then show ?thesis using assms shows_right [of p l _ _ scr] by (cases r) (auto simp: echo_def control_chars)
  next
    case 4
    then show ?thesis using assms shows_insert [of p l r scr c] c by (auto simp: echo_def plain_def)
  qed
qed

lemma edit_plain:
  "list_all plain l \<Longrightarrow> list_all plain r \<Longrightarrow> edit_key c \<Longrightarrow>
   list_all plain (fst (edit c (l, r))) \<and> list_all plain (snd (edit c (l, r)))"
  by (cases l rule: rev_cases) (auto simp: edit_key_def plain_def list_all_iff split: list.splits dest: in_set_butlastD)

text \<open>A session: the buffers hold the text and the terminal shows it.\<close>

definition session :: "meshx_user_cmd_info \<Rightarrow> ('p, 'w) cmd_env \<Rightarrow> string \<times> string \<Rightarrow> bool" where
  "session s e z \<longleftrightarrow> editing s (fst z) (snd z) \<and> list_all plain (fst z) \<and> list_all plain (snd z) \<and>
     shows_text (cmd_prompt s) (fst z) (snd z) (screen (tty e))"

lemma char_prompt:
  assumes "collect_char run c s e = Some (s', e')" "edit_key c"
  shows "cmd_prompt s' = cmd_prompt s \<and> cmd_crlf s' = cmd_crlf s"
  using assms by (auto simp: collect_char_def edit_key_def collect_backspace_def collect_left_def collect_right_def collect_insert_def
      meshx_cmd_move_forward_def meshx_cmd_move_back_def Let_def split: if_splits Option.bind_splits)

lemma session_edit:
  assumes "session s e z" "edit_key c"
  shows "\<exists>s' e'. collect_char run c s e = Some (s', e') \<and> session s' e' (edit c z)"
proof -
  obtain l r where z: "z = (l, r)" by (cases z)
  have a: "editing s l r" "list_all plain l" "list_all plain r" "shows_text (cmd_prompt s) l r (screen (tty e))"
    using assms(1) by (simp_all add: session_def z)
  from char_edit [OF a(1) assms(2), of run e] obtain s' where s': "collect_char run c s e = Some (s', meshx_tty_send (echo c (l, r)) e)"
    "editing s' (fst (edit c (l, r))) (snd (edit c (l, r)))" by blast
  have "session s' (meshx_tty_send (echo c (l, r)) e) (edit c (l, r))"
    unfolding session_def using s'(2) edit_plain [OF a(2,3) assms(2)] shows_edit [OF a(4,2,3) assms(2)] char_prompt [OF s'(1) assms(2)]
    by (simp add: meshx_tty_send_def screen_append)
  then show ?thesis using s'(1) z by blast
qed

text \<open>C23: The editor is a zipper and what it writes keeps the terminal in step: after any sequence of
  typed characters and editing keys (backspace and the two cursor keys) the buffers hold the text the keys
  describe, the terminal shows the prompt with that text, and its cursor is where the
  next character goes.  None of them leaves a buffer.\<close>

theorem editor_refines_zipper:
  assumes "session s e z" "\<forall>c\<in>set cs. edit_key c"
  shows "\<exists>s' e'. meshx_cmd_collect run cs s e = Some (s', e') \<and> session s' e' (fold edit cs z)"
  using assms
proof (induction cs arbitrary: s e z)
  case (Cons c cs)
  from session_edit [OF Cons.prems(1), of c run] Cons.prems(2) obtain s1 e1 where
    1: "collect_char run c s e = Some (s1, e1)" "session s1 e1 (edit c z)" by auto
  then show ?case using Cons.IH [OF 1(2)] Cons.prems(2) by simp
qed simp

definition cmd_ready :: "'p meshx_cmd list \<Rightarrow> meshx_user_cmd_info \<times> ('p, unit) cmd_env" where
  "cmd_ready cs = snd (meshx_cmd_init cs cmd_info_zero \<lparr>puser_cmds = [], tty = [], app = ()\<rparr>)"

lemma ready_session: "session (fst (cmd_ready cs)) (snd (cmd_ready cs)) ([], [])"
  by (simp add: session_def cmd_ready_def meshx_cmd_init_def cmd_info_zero_def editing_def cmd_ok_def cmd_sizes Let_def
      meshx_tty_send_def screen_def shows_text_def control_chars list_all_iff)

theorem editor_refines_zipper_witness:
  "\<exists>s' e'. meshx_cmd_collect (\<lambda>_ _ _. None) ''ab[c'' (fst (cmd_ready ([] :: unit meshx_cmd list))) (snd (cmd_ready ([] :: unit meshx_cmd list))) = Some (s', e') \<and>
    session s' e' (''ac'', ''b'')"
proof -
  have k: "\<forall>c\<in>set ''ab[c''. edit_key c" by (simp add: edit_key_def control_chars)
  have f: "fold edit ''ab[c'' ([], []) = (''ac'', ''b'')" by (simp add: control_chars cmd_sizes)
  show ?thesis using editor_refines_zipper [OF ready_session k, of "\<lambda>_ _ _. None" "[] :: unit meshx_cmd list"] unfolding f .
qed

section \<open>Every key keeps the buffers\<close>

lemma all_nth: "list_all P xs \<Longrightarrow> i < length xs \<Longrightarrow> P (xs ! i)"
  by (simp add: list_all_length)

text \<open>The text the history shows at a position.\<close>

definition line_at :: "meshx_user_cmd_info \<Rightarrow> nat \<Rightarrow> string" where
  "line_at s i = take (cmd_history_len s ! i) (cmd_history s ! i)"

lemma history_line_ok:
  assumes "cmd_ok s"
  shows "history_line s = Some (line_at s (history_traverse_index s))"
    and "length (line_at s (history_traverse_index s)) \<le> MESHX_CMD_MAX_LEN"
    and "length (line_at s (history_traverse_index s)) = cmd_history_len s ! history_traverse_index s"
proof -
  define i where "i = history_traverse_index s"
  have i: "i < length (cmd_history s)" "i < length (cmd_history_len s)" using assms by (auto simp: cmd_ok_def i_def)
  have l: "length (cmd_history s ! i) = MESHX_CMD_MAX_LEN + 2" "cmd_history_len s ! i \<le> MESHX_CMD_MAX_LEN"
    using assms i all_nth [of "\<lambda>h. length h = MESHX_CMD_MAX_LEN + 2" "cmd_history s" i]
      all_nth [of "\<lambda>n. n \<le> MESHX_CMD_MAX_LEN" "cmd_history_len s" i] by (auto simp: cmd_ok_def)
  show "history_line s = Some (line_at s (history_traverse_index s))"
    "length (line_at s (history_traverse_index s)) \<le> MESHX_CMD_MAX_LEN"
    "length (line_at s (history_traverse_index s)) = cmd_history_len s ! history_traverse_index s"
    using i l by (simp_all add: history_line_def line_at_def Let_def mem_read_def i_def)
qed

text \<open>A text is put into the line, the cursor behind it.\<close>

definition set_line :: "string \<Rightarrow> meshx_user_cmd_info \<Rightarrow> meshx_user_cmd_info" where
  "set_line t s = s\<lparr>cmd := t @ drop (length t) (cmd s), cmd_len := length t, cursor_pos := length t\<rparr>"

lemma set_line_write:
  "cmd_ok s \<Longrightarrow> length t \<le> MESHX_CMD_MAX_LEN \<Longrightarrow> mem_write (cmd s) 0 t = Some (t @ drop (length t) (cmd s))"
  by (auto simp: mem_write_def cmd_ok_def)

lemma set_line_ok: "cmd_ok s \<Longrightarrow> length t \<le> MESHX_CMD_MAX_LEN \<Longrightarrow> cmd_ok (set_line t s)"
  by (auto simp: cmd_ok_def set_line_def)

lemma back_ok: "cmd_ok s \<Longrightarrow> history_save_index s \<noteq> MESHX_CMD_MAX_HISTORY_SIZE \<Longrightarrow> cmd_ok (history_back s)"
  by (auto simp: cmd_ok_def history_back_def cmd_sizes)

lemma forward_ok: "cmd_ok s \<Longrightarrow> history_save_index s \<noteq> MESHX_CMD_MAX_HISTORY_SIZE \<Longrightarrow> cmd_ok (history_forward s)"
  by (auto simp: cmd_ok_def history_forward_def cmd_sizes)

text \<open>The current text, and the state in which it is set aside.\<close>

definition line_text :: "meshx_user_cmd_info \<Rightarrow> string" where
  "line_text s = take (cmd_len s) (cmd s)"

definition set_aside :: "meshx_user_cmd_info \<Rightarrow> meshx_user_cmd_info" where
  "set_aside s = s\<lparr>history_traversing := True, cmd_temp := line_text s @ drop (cmd_len s) (cmd_temp s), cmd_temp_len := cmd_len s\<rparr>"

lemma set_aside_ok: "cmd_ok s \<Longrightarrow> cmd_ok (set_aside s)"
  by (auto simp: cmd_ok_def set_aside_def line_text_def)

lemma line_text_set [simp]: "line_text (set_line t s) = t"
  by (simp add: line_text_def set_line_def)

lemma length_line_text: "cmd_ok s \<Longrightarrow> length (line_text s) = cmd_len s"
  by (simp add: line_text_def cmd_ok_def)

text \<open>The older line.\<close>

definition step_back :: "meshx_user_cmd_info \<Rightarrow> meshx_user_cmd_info" where
  "step_back s = (let s = s\<lparr>history_traversed_to_tail := False\<rparr> in if history_traversing s then history_back s else set_aside s)"

lemma previous_step:
  assumes "cmd_ok s" "history_save_index s \<noteq> MESHX_CMD_MAX_HISTORY_SIZE" "\<not> history_traversed_to_head s"
  shows "collect_previous s e =
    (if history_traversed_to_head (step_back s) then Some (step_back s, e)
     else Some (set_line (line_at (step_back s) (history_traverse_index (step_back s))) (step_back s),
       meshx_tty_send (line_at (step_back s) (history_traverse_index (step_back s))) (meshx_cmd_clear (step_back s) e)))"
    and "cmd_ok (step_back s)"
proof -
  define s1 where "s1 = s\<lparr>history_traversed_to_tail := False\<rparr>"
  have ok1: "cmd_ok s1" using assms(1) by (simp add: s1_def cmd_ok_def)
  have sb: "step_back s = (if history_traversing s1 then history_back s1 else set_aside s1)"
    by (simp add: step_back_def s1_def Let_def)
  show ok: "cmd_ok (step_back s)" using back_ok [OF ok1] set_aside_ok [OF ok1] assms(2) by (simp add: sb s1_def)
  have m: "mem_read (cmd s1) 0 (cmd_len s1) = Some (line_text s1)" "mem_write (cmd_temp s1) 0 (line_text s1) = Some (line_text s1 @ drop (cmd_len s1) (cmd_temp s1))"
    using ok1 by (auto simp: mem_read_def mem_write_def line_text_def cmd_ok_def)
  have body: "(if history_traversing s1 then Some (history_back s1) else history_start s1) = Some (step_back s)"
    by (simp add: m sb set_aside_def Let_def history_start_def)
  define t where "t = line_at (step_back s) (history_traverse_index (step_back s))"
  have t: "history_line (step_back s) = Some t" "length t \<le> MESHX_CMD_MAX_LEN" using history_line_ok [OF ok] by (simp_all add: t_def)
  have r: "mem_read (t @ drop (length t) (cmd (step_back s))) 0 (length t) = Some t" by (simp add: mem_read_def)
  show "collect_previous s e =
    (if history_traversed_to_head (step_back s) then Some (step_back s, e)
     else Some (set_line (line_at (step_back s) (history_traverse_index (step_back s))) (step_back s),
       meshx_tty_send (line_at (step_back s) (history_traverse_index (step_back s))) (meshx_cmd_clear (step_back s) e)))"
    unfolding collect_previous_def s1_def [symmetric] Let_def [of "s1"] body bind.bind_lunit t_def [symmetric]
    using assms t set_line_write [OF ok t(2)] r by (simp add: Let_def set_line_def)
qed

text \<open>The newer line, in the end the one set aside.\<close>

definition step_on :: "meshx_user_cmd_info \<Rightarrow> meshx_user_cmd_info" where
  "step_on s = history_forward (s\<lparr>history_traversed_to_head := False\<rparr>)"

definition aside_line :: "meshx_user_cmd_info \<Rightarrow> string" where
  "aside_line s = take (cmd_temp_len s) (cmd_temp s)"

lemma next_step:
  assumes "cmd_ok s" "history_save_index s \<noteq> MESHX_CMD_MAX_HISTORY_SIZE" "\<not> history_traversed_to_tail s"
  shows "\<exists>e'. collect_next s e =
    (if history_traversed_to_tail (step_on s) then Some ((set_line (aside_line (step_on s)) (step_on s))\<lparr>history_traversing := False\<rparr>, e')
     else Some (set_line (line_at (step_on s) (history_traverse_index (step_on s))) (step_on s), e'))"
    and "cmd_ok (step_on s)"
proof -
  have ok1: "cmd_ok (s\<lparr>history_traversed_to_head := False\<rparr>)" using assms(1) by (simp add: cmd_ok_def)
  show ok: "cmd_ok (step_on s)" using forward_ok [OF ok1] assms(2) by (simp add: step_on_def)
  define t where "t = line_at (step_on s) (history_traverse_index (step_on s))"
  define u where "u = aside_line (step_on s)"
  have t: "history_line (step_on s) = Some t" "length t \<le> MESHX_CMD_MAX_LEN" using history_line_ok [OF ok] by (simp_all add: t_def)
  have u: "mem_read (cmd_temp (step_on s)) 0 (cmd_temp_len (step_on s)) = Some u" "length u = cmd_temp_len (step_on s)"
    "length u \<le> MESHX_CMD_MAX_LEN"
    using ok by (auto simp: u_def aside_line_def mem_read_def cmd_ok_def)
  show "\<exists>e'. collect_next s e =
    (if history_traversed_to_tail (step_on s) then Some ((set_line (aside_line (step_on s)) (step_on s))\<lparr>history_traversing := False\<rparr>, e')
     else Some (set_line (line_at (step_on s) (history_traverse_index (step_on s))) (step_on s), e'))"
    unfolding collect_next_def Let_def [of "s\<lparr>history_traversed_to_head := False\<rparr>"] step_on_def [symmetric] t_def [symmetric] u_def [symmetric]
    using assms t u set_line_write [OF ok t(2)] set_line_write [OF ok u(3)]
    by (simp add: Let_def set_line_def step_on_def [symmetric])
qed

lemma cmd_ok_flags [simp]: "cmd_ok (s\<lparr>history_traversing := b\<rparr>) = cmd_ok s"
  by (simp add: cmd_ok_def)

lemma length_aside: "cmd_ok s \<Longrightarrow> length (aside_line s) \<le> MESHX_CMD_MAX_LEN"
  by (simp add: aside_line_def cmd_ok_def)

lemma previous_ok:
  assumes "cmd_ok s"
  shows "\<exists>s' e'. collect_previous s e = Some (s', e') \<and> cmd_ok s'"
proof (cases "history_save_index s \<noteq> MESHX_CMD_MAX_HISTORY_SIZE \<and> \<not> history_traversed_to_head s")
  case True
  then have a: "history_save_index s \<noteq> MESHX_CMD_MAX_HISTORY_SIZE" "\<not> history_traversed_to_head s" by auto
  show ?thesis using previous_step(1) [OF assms a, of e] previous_step(2) [OF assms a]
      set_line_ok [OF previous_step(2) [OF assms a] history_line_ok(2) [OF previous_step(2) [OF assms a]]] by auto
next
  case False
  then show ?thesis using assms by (auto simp: collect_previous_def)
qed

lemma next_ok:
  assumes "cmd_ok s"
  shows "\<exists>s' e'. collect_next s e = Some (s', e') \<and> cmd_ok s'"
proof (cases "history_save_index s \<noteq> MESHX_CMD_MAX_HISTORY_SIZE \<and> \<not> history_traversed_to_tail s")
  case True
  then have a: "history_save_index s \<noteq> MESHX_CMD_MAX_HISTORY_SIZE" "\<not> history_traversed_to_tail s" by auto
  note ok = next_step(2) [OF assms a]
  show ?thesis using next_step(1) [OF assms a, of e] set_line_ok [OF ok history_line_ok(2) [OF ok]] set_line_ok [OF ok length_aside [OF ok]]
    by (auto split: if_splits)
next
  case False
  then show ?thesis using assms by (auto simp: collect_next_def)
qed

lemma parse_params_length: "parse_params b e p d = Some (b', d') \<Longrightarrow> length b' = length b"
proof (induction b e p d arbitrary: b' d' rule: parse_params.induct)
  case (1 b e p d)
  show ?case using "1.prems" "1.IH" unfolding parse_params.simps [of b e p d]
    by (auto split: option.splits prod.splits if_splits dest!: cut_word_ge)
qed

lemma parse_length: "meshx_cmd_parse b n = Some (ok, b', d) \<Longrightarrow> length b' = length b"
  by (auto simp: meshx_cmd_parse_def Let_def split: Option.bind_splits option.splits prod.splits if_splits
      dest!: parse_params_length cut_word_ge)

lemma list_all_update: "list_all P xs \<Longrightarrow> P y \<Longrightarrow> list_all P (xs[i := y])"
  using all_set_update [of xs P y i] by (simp add: list_all_iff)

text \<open>The slot the next line goes to.\<close>

definition next_slot :: "meshx_user_cmd_info \<Rightarrow> nat" where
  "next_slot s = (if history_save_index s = MESHX_CMD_MAX_HISTORY_SIZE \<or> history_save_index s + 1 = MESHX_CMD_MAX_HISTORY_SIZE
     then 0 else history_save_index s + 1)"

lemma save_step:
  assumes "cmd_ok s"
  shows "\<exists>h. length h = MESHX_CMD_MAX_LEN + 2 \<and> take (cmd_len s) h = line_text s \<and> history_save s =
    Some (s\<lparr>history_save_index := next_slot s,
      history_looped := (history_looped s \<or> history_save_index s + 1 = MESHX_CMD_MAX_HISTORY_SIZE),
      cmd_history := (cmd_history s)[next_slot s := h],
      cmd_history_len := (cmd_history_len s)[next_slot s := cmd_len s], cmd := (cmd s)[cmd_len s := NUL]\<rparr>)"
proof -
  define i where "i = next_slot s"
  have i: "i < length (cmd_history s)" using assms by (auto simp: cmd_ok_def i_def next_slot_def cmd_sizes)
  have h: "length (cmd_history s ! i) = MESHX_CMD_MAX_LEN + 2"
    using assms i all_nth [of "\<lambda>h. length h = MESHX_CMD_MAX_LEN + 2" "cmd_history s" i] by (auto simp: cmd_ok_def)
  have n: "length (cmd s) = MESHX_CMD_MAX_LEN + 2" "cmd_len s \<le> MESHX_CMD_MAX_LEN" using assms by (auto simp: cmd_ok_def)
  define t where "t = line_text s"
  have t: "mem_read (cmd s) 0 (cmd_len s) = Some t" "length t = cmd_len s" using n by (auto simp: t_def line_text_def mem_read_def)
  define g where "g = (t @ drop (length t) (cmd_history s ! i))[cmd_len s := NUL]"
  have g: "mem_write (cmd_history s ! i) 0 t = Some (t @ drop (length t) (cmd_history s ! i))"
    "put_char (t @ drop (length t) (cmd_history s ! i)) (cmd_len s) NUL = Some g"
    "put_char (cmd s) (cmd_len s) NUL = Some ((cmd s)[cmd_len s := NUL])"
    using n h t by (auto simp: mem_write_def put_char_def g_def)
  have s1: "(if history_save_index s = MESHX_CMD_MAX_HISTORY_SIZE then s\<lparr>history_save_index := 0\<rparr>
      else if history_save_index s + 1 = MESHX_CMD_MAX_HISTORY_SIZE
      then s\<lparr>history_save_index := 0, history_looped := True\<rparr>
      else s\<lparr>history_save_index := history_save_index s + 1\<rparr>) =
    s\<lparr>history_save_index := i, history_looped := (history_looped s \<or> history_save_index s + 1 = MESHX_CMD_MAX_HISTORY_SIZE)\<rparr>"
    by (auto simp: i_def next_slot_def)
  have "history_save s = Some (s\<lparr>history_save_index := i,
      history_looped := (history_looped s \<or> history_save_index s + 1 = MESHX_CMD_MAX_HISTORY_SIZE),
      cmd_history := (cmd_history s)[i := g], cmd_history_len := (cmd_history_len s)[i := cmd_len s], cmd := (cmd s)[cmd_len s := NUL]\<rparr>)"
    unfolding history_save_def s1 using i t g by (simp add: Let_def)
  moreover have "length g = MESHX_CMD_MAX_LEN + 2" "take (cmd_len s) g = t" using n h t by (auto simp: g_def)
  ultimately show ?thesis unfolding i_def t_def by blast
qed

lemma save_ok:
  assumes "cmd_ok s" "history_save s = Some s'"
  shows "cmd_ok (s'\<lparr>cmd_len := 0, cursor_pos := 0, history_traverse_index := history_save_index s'\<rparr>)"
proof -
  have i: "next_slot s < MESHX_CMD_MAX_HISTORY_SIZE" using assms by (auto simp: cmd_ok_def next_slot_def cmd_sizes)
  show ?thesis using save_step [OF assms(1)] assms i
    by (auto simp: cmd_ok_def intro!: list_all_update)
qed

lemma run_line_keeps:
  assumes "run_line run s e = Some (s', e')"
  shows "length (cmd s') = length (cmd s) \<and> s' = s\<lparr>cmd := cmd s'\<rparr>"
  using assms by (auto simp: run_line_def Let_def split: Option.bind_splits if_splits dest!: parse_length)

lemma enter_ok:
  assumes "cmd_ok s" "collect_enter run s e = Some (s', e')"
  shows "cmd_ok s'"
proof (cases "cmd_len s > 0")
  case True
  with assms(2) obtain s1 s2 e2 where 1: "history_save s = Some s1" "run_line run s1 e = Some (s2, e2)"
    and s': "s' = s2\<lparr>cmd_len := 0, cursor_pos := 0, history_traverse_index := history_save_index s2,
      history_traversed_to_head := False, history_traversed_to_tail := True, history_traversing := False\<rparr>"
    by (auto simp: collect_enter_def Let_def split: Option.bind_splits)
  from run_line_keeps [OF 1(2)] obtain b where "length b = length (cmd s1)" "s2 = s1\<lparr>cmd := b\<rparr>" by blast
  then show ?thesis using save_ok [OF assms(1) 1(1)] by (simp add: s' cmd_ok_def)
next
  case False
  then show ?thesis using assms by (auto simp: collect_enter_def Let_def)
qed

lemma error_text: "\<exists>t. meshx_errno_to_string (ret_code r) = Some t"
  using errno_code_bounds [of r] by (simp add: meshx_errno_to_string_def ret_code_def Let_def MESHX_ERR_USER_DEFINED_def)

lemma enter_fails:
  assumes "cmd_ok s" "collect_enter run s e = None"
  shows "0 < cmd_len s \<and>
    (let line = (cmd s)[cmd_len s := NUL] in meshx_cmd_parse line (cmd_len s) = None \<or>
      (\<exists>b d. meshx_cmd_parse line (cmd_len s) = Some (True, b, d) \<and> meshx_cmd_execute run d e = None))"
proof -
  have n: "0 < cmd_len s" using assms(2) by (auto simp: collect_enter_def Let_def split: if_splits)
  obtain s1 where s1: "history_save s = Some s1" "cmd s1 = (cmd s)[cmd_len s := NUL]" "cmd_len s1 = cmd_len s"
    using save_step [OF assms(1)] by auto
  have f: "run_line run s1 e = None"
    using assms(2) n s1(1) by (auto simp: collect_enter_def Let_def split: Option.bind_splits)
  have "meshx_cmd_execute run d e = None"
    if p: "meshx_cmd_parse (cmd s1) (cmd_len s1) = Some (True, b, d)" for b d
  proof (rule ccontr)
    assume "meshx_cmd_execute run d e \<noteq> None"
    then obtain ret e1 where x: "meshx_cmd_execute run d e = Some (ret, e1)" by auto
    then obtain name where "pd_cmd d = Some name" by (auto simp: meshx_cmd_execute_def split: Option.bind_splits)
    moreover obtain t where "meshx_errno_to_string (ret_code ret) = Some t" using error_text by blast
    ultimately show False using f p x by (auto simp: run_line_def Let_def split: if_splits)
  qed
  moreover have "meshx_cmd_parse (cmd s1) (cmd_len s1) = None \<or> (\<exists>b d. meshx_cmd_parse (cmd s1) (cmd_len s1) = Some (True, b, d))"
    using f by (auto simp: run_line_def Let_def split: Option.bind_splits if_splits)
  ultimately show ?thesis using n unfolding Let_def s1(2,3) by blast
qed

text \<open>C36: The record of the command line is well-formed after every key: lengths, cursor and history
  indexes stay within their arrays.  A key fails only when it is Enter, on a line that is not
  empty, and then the parser has no result for the terminated line, or the parser accepted it
  and the command it names has none.\<close>

theorem keys_keep_buffers:
  assumes "cmd_ok s"
  shows "(collect_char run c s e = None \<longrightarrow> (c = CR \<or> c = LF) \<and> 0 < cmd_len s \<and>
      (let line = (cmd s)[cmd_len s := NUL] in meshx_cmd_parse line (cmd_len s) = None \<or>
        (\<exists>b d. meshx_cmd_parse line (cmd_len s) = Some (True, b, d) \<and> meshx_cmd_execute run d e = None))) \<and>
    (\<forall>s' e'. collect_char run c s e = Some (s', e') \<longrightarrow> cmd_ok s')"
proof -
  consider "c = CR \<or> c = LF" | "c = CHR '',''" | "c = CHR ''.''" | "edit_key c" by (auto simp: edit_key_def)
  then show ?thesis
  proof cases
    case 1
    then have c: "collect_char run c s e = collect_enter run s e" by (simp add: collect_char_def)
    show ?thesis using 1 enter_ok [OF assms] enter_fails [OF assms, of run e] unfolding c by blast
  next
    case 2
    then show ?thesis using previous_ok [OF assms, of e] by (auto simp: collect_char_def control_chars)
  next
    case 3
    then show ?thesis using next_ok [OF assms, of e] by (auto simp: collect_char_def control_chars)
  next
    case 4
    then show ?thesis using char_edit [OF ok_editing [OF assms] 4, of run e] by (auto dest: editing_ok)
  qed
qed

theorem keys_keep_buffers_witness:
  "\<exists>s' e'. collect_char (\<lambda>_ _ _. None) (CHR '','') (fst (cmd_ready ([] :: unit meshx_cmd list))) (snd (cmd_ready ([] :: unit meshx_cmd list))) =
    Some (s', e') \<and> cmd_ok s'"
proof -
  have "cmd_ok (fst (cmd_ready ([] :: unit meshx_cmd list)))" using ready_session [of "[] :: unit meshx_cmd list"] by (simp add: session_def editing_def)
  from keys_keep_buffers [OF this, where c = "CHR '',''" and run = "\<lambda>_ _ _. None" and e = "snd (cmd_ready ([] :: unit meshx_cmd list))"]
  show ?thesis by (cases "collect_char (\<lambda>_ _ _. None) (CHR '','') (fst (cmd_ready ([] :: unit meshx_cmd list)))
      (snd (cmd_ready ([] :: unit meshx_cmd list)))") (auto simp: control_chars)
qed

section \<open>The history\<close>

text \<open>The number of lines kept, and where the \<^verbatim>\<open>k\<close>-th latest of them is.\<close>

definition history_count :: "meshx_user_cmd_info \<Rightarrow> nat" where
  "history_count s = (if history_save_index s = MESHX_CMD_MAX_HISTORY_SIZE then 0
     else if history_looped s then MESHX_CMD_MAX_HISTORY_SIZE else history_save_index s + 1)"

definition recent_index :: "meshx_user_cmd_info \<Rightarrow> nat \<Rightarrow> nat" where
  "recent_index s k = (history_save_index s + (MESHX_CMD_MAX_HISTORY_SIZE - k)) mod MESHX_CMD_MAX_HISTORY_SIZE"

definition recent :: "meshx_user_cmd_info \<Rightarrow> nat \<Rightarrow> string" where
  "recent s k = line_at s (recent_index s k)"

text \<open>The history at rest, as after Enter or after some typing, and after \<^verbatim>\<open>k + 1\<close> steps back
  from there.\<close>

definition at_rest :: "meshx_user_cmd_info \<Rightarrow> bool" where
  "at_rest s \<longleftrightarrow> cmd_ok s \<and> history_traverse_index s = history_save_index s \<and> \<not> history_traversing s \<and>
     \<not> history_traversed_to_head s \<and> history_traversed_to_tail s"

definition same_history :: "meshx_user_cmd_info \<Rightarrow> meshx_user_cmd_info \<Rightarrow> bool" where
  "same_history s s' \<longleftrightarrow> cmd_history s' = cmd_history s \<and> cmd_history_len s' = cmd_history_len s \<and>
     history_save_index s' = history_save_index s \<and> history_looped s' = history_looped s"

definition browsing :: "meshx_user_cmd_info \<Rightarrow> nat \<Rightarrow> meshx_user_cmd_info \<Rightarrow> bool" where
  "browsing s k s' \<longleftrightarrow> cmd_ok s' \<and> same_history s s' \<and> history_traversing s' \<and> \<not> history_traversed_to_head s' \<and>
     \<not> history_traversed_to_tail s' \<and> history_traverse_index s' = recent_index s k \<and> aside_line s' = line_text s \<and>
     line_text s' = recent s k \<and> cursor_pos s' = cmd_len s'"

text \<open>A prompt with one line of history and a cursor inside the text.\<close>

definition demo_prompt :: meshx_user_cmd_info where
  "demo_prompt = (fst (cmd_ready ([] :: unit meshx_cmd list)))\<lparr>cmd := ''ab'' @ replicate 160 NUL, cmd_len := 2, cursor_pos := 1,
     cmd_history := [''ls'' @ replicate 160 NUL, replicate 162 NUL, replicate 162 NUL], cmd_history_len := [2, 0, 0],
     history_save_index := 0, history_traverse_index := 0, history_traversed_to_tail := True\<rparr>"

definition demo_tty :: "(unit, unit) cmd_env" where
  "demo_tty = \<lparr>puser_cmds = [], tty = ''$ab'' @ [BS], app = ()\<rparr>"

lemma demo_prompt_facts:
  "at_rest demo_prompt" "history_count demo_prompt = 1" "recent demo_prompt 0 = ''ls''" "line_text demo_prompt = ''ab''"
  "session demo_prompt demo_tty (''a'', ''b'')"
proof -
  show a: "at_rest demo_prompt"
    by (simp add: at_rest_def demo_prompt_def cmd_ok_def cmd_sizes cmd_ready_def meshx_cmd_init_def cmd_info_zero_def Let_def)
  show "history_count demo_prompt = 1" "recent demo_prompt 0 = ''ls''" "line_text demo_prompt = ''ab''"
    by (simp_all add: demo_prompt_def cmd_ready_def meshx_cmd_init_def cmd_info_zero_def history_count_def recent_def recent_index_def
        line_at_def line_text_def cmd_sizes Let_def)
  have "cursor_pos demo_prompt = 1" "cmd_len demo_prompt = 2" "cmd demo_prompt = ''a'' @ ''b'' @ replicate 160 NUL" "cmd_prompt demo_prompt = CHR ''$''"
    by (simp_all add: demo_prompt_def cmd_ready_def meshx_cmd_init_def Let_def)
  then show "session demo_prompt demo_tty (''a'', ''b'')"
    using a by (simp add: session_def editing_def at_rest_def demo_tty_def screen_def shows_text_def plain_def control_chars)
qed

lemma recent_zero: "history_save_index s < MESHX_CMD_MAX_HISTORY_SIZE \<Longrightarrow> recent_index s 0 = history_save_index s"
  by (simp add: recent_index_def)

lemma line_at_same: "same_history s s' \<Longrightarrow> line_at s' i = line_at s i"
  by (simp add: line_at_def same_history_def)

lemma three_cases: "i < MESHX_CMD_MAX_HISTORY_SIZE \<Longrightarrow> i = 0 \<or> i = 1 \<or> i = (2::nat)"
  by (auto simp: cmd_sizes)

lemma set_line_same [simp]: "same_history s (set_line t s') = same_history s s'"
  "history_traversing (set_line t s') = history_traversing s'"
  "history_traversed_to_head (set_line t s') = history_traversed_to_head s'"
  "history_traversed_to_tail (set_line t s') = history_traversed_to_tail s'"
  "history_traverse_index (set_line t s') = history_traverse_index s'"
  "history_save_index (set_line t s') = history_save_index s'"
  "aside_line (set_line t s') = aside_line s'" "cursor_pos (set_line t s') = cmd_len (set_line t s')"
  by (simp_all add: set_line_def same_history_def aside_line_def)

lemma browse_first:
  assumes "at_rest s" "0 < history_count s"
  shows "\<exists>s'. collect_previous s e = Some (s', meshx_tty_send (recent s 0) (meshx_cmd_clear s e)) \<and> browsing s 0 s'"
proof -
  have a: "cmd_ok s" "history_save_index s \<noteq> MESHX_CMD_MAX_HISTORY_SIZE" "\<not> history_traversed_to_head s"
    "\<not> history_traversing s" "history_traverse_index s = history_save_index s"
    using assms by (auto simp: at_rest_def history_count_def split: if_splits)
  then have lt: "history_save_index s < MESHX_CMD_MAX_HISTORY_SIZE" by (auto simp: cmd_ok_def)
  have sb: "step_back s = set_aside (s\<lparr>history_traversed_to_tail := False\<rparr>)" using a by (simp add: step_back_def Let_def)
  have f: "\<not> history_traversed_to_head (step_back s)" "history_traverse_index (step_back s) = history_save_index s"
    "same_history s (step_back s)" "history_traversing (step_back s)" "\<not> history_traversed_to_tail (step_back s)"
    using a by (auto simp: sb set_aside_def same_history_def)
  have t: "aside_line (step_back s) = line_text s" using a(1)
    by (simp add: sb set_aside_def aside_line_def line_text_def cmd_ok_def)
  have r: "line_at (step_back s) (history_save_index s) = recent s 0"
    using line_at_same [OF f(3)] recent_zero [OF lt] by (simp add: recent_def)
  have c: "meshx_cmd_clear (step_back s) e = meshx_cmd_clear s e" by (simp add: meshx_cmd_clear_def sb set_aside_def)
  note ok = previous_step(2) [OF a(1-3)]
  have "collect_previous s e = Some (set_line (recent s 0) (step_back s), meshx_tty_send (recent s 0) (meshx_cmd_clear s e))"
    using previous_step(1) [OF a(1-3), of e] f r c by simp
  moreover have "browsing s 0 (set_line (recent s 0) (step_back s))"
    using f t recent_zero [OF lt] set_line_ok [OF ok] history_line_ok(2) [OF ok] r by (simp add: browsing_def)
  ultimately show ?thesis by blast
qed

lemma recent_older:
  assumes "history_save_index s < MESHX_CMD_MAX_HISTORY_SIZE" "Suc k < history_count s"
  shows "recent_index s (Suc k) = (if recent_index s k = 0 then MESHX_CMD_MAX_HISTORY_SIZE - 1 else recent_index s k - 1)"
    and "recent_index s k = (recent_index s (Suc k) + 1) mod MESHX_CMD_MAX_HISTORY_SIZE"
    and "recent_index s (Suc k) \<noteq> history_save_index s"
    and "history_looped s \<Longrightarrow> recent_index s k \<noteq> (history_save_index s + 1) mod MESHX_CMD_MAX_HISTORY_SIZE"
    and "\<not> history_looped s \<Longrightarrow> recent_index s k = Suc (recent_index s (Suc k))"
proof -
  have "Suc k < MESHX_CMD_MAX_HISTORY_SIZE" using assms by (auto simp: history_count_def split: if_splits)
  then have k: "k = 0 \<or> k = 1" by (auto simp: cmd_sizes)
  note i = three_cases [OF assms(1)]
  show "recent_index s (Suc k) = (if recent_index s k = 0 then MESHX_CMD_MAX_HISTORY_SIZE - 1 else recent_index s k - 1)"
    using k i by (elim disjE) (simp_all add: recent_index_def cmd_sizes)
  show "recent_index s k = (recent_index s (Suc k) + 1) mod MESHX_CMD_MAX_HISTORY_SIZE"
    using k i by (elim disjE) (simp_all add: recent_index_def cmd_sizes)
  show "recent_index s (Suc k) \<noteq> history_save_index s"
    using k i by (elim disjE) (simp_all add: recent_index_def cmd_sizes)
  show "history_looped s \<Longrightarrow> recent_index s k \<noteq> (history_save_index s + 1) mod MESHX_CMD_MAX_HISTORY_SIZE"
    using k i by (elim disjE) (simp_all add: recent_index_def cmd_sizes)
  show "\<not> history_looped s \<Longrightarrow> recent_index s k = Suc (recent_index s (Suc k))"
    using k i assms(2) by (elim disjE) (simp_all add: recent_index_def cmd_sizes history_count_def)
qed

lemma browse_older:
  assumes "browsing s k s'" "Suc k < history_count s"
  shows "\<exists>s2 e2. collect_previous s' e = Some (s2, e2) \<and> browsing s (Suc k) s2"
proof -
  have a: "cmd_ok s'" "history_save_index s' \<noteq> MESHX_CMD_MAX_HISTORY_SIZE" "\<not> history_traversed_to_head s'"
    "history_traversing s'" "history_traverse_index s' = recent_index s k" "same_history s s'"
    using assms by (auto simp: browsing_def same_history_def history_count_def split: if_splits)
  have sv: "history_save_index s < MESHX_CMD_MAX_HISTORY_SIZE" using a by (auto simp: cmd_ok_def same_history_def)
  have lp: "history_looped s' = history_looped s" "history_save_index s' = history_save_index s" using a(6) by (auto simp: same_history_def)
  have i: "step_back s' = s'\<lparr>history_traversed_to_tail := False, history_traverse_index := recent_index s (Suc k)\<rparr>"
  proof (cases "history_looped s")
    case True
    then show ?thesis using a(4,5) lp recent_older(1) [OF sv assms(2)] recent_older(4) [OF sv assms(2) True]
      by (simp add: step_back_def history_back_def Let_def)
  next
    case False
    have "recent_index s k \<noteq> 0" "recent_index s (Suc k) = recent_index s k - 1" using recent_older(5) [OF sv assms(2) False] by simp_all
    then show ?thesis using a(4,5) lp False by (simp add: step_back_def history_back_def Let_def)
  qed
  have h: "same_history s (step_back s')" "history_traverse_index (step_back s') = recent_index s (Suc k)"
    "\<not> history_traversed_to_head (step_back s')" "aside_line (step_back s') = line_text s"
    using a assms(1) by (auto simp: i same_history_def aside_line_def browsing_def)
  note ok = previous_step(2) [OF a(1-3)]
  have r: "line_at (step_back s') (recent_index s (Suc k)) = recent s (Suc k)" using line_at_same [OF h(1)] by (simp add: recent_def)
  have "browsing s (Suc k) (set_line (recent s (Suc k)) (step_back s'))"
    using h a set_line_ok [OF ok] history_line_ok(2) [OF ok] r by (simp add: browsing_def i)
  then show ?thesis using previous_step(1) [OF a(1-3), of e] h r by auto
qed

lemma browse_newer:
  assumes "browsing s (Suc k) s'" "Suc k < history_count s"
  shows "\<exists>s2 e2. collect_next s' e = Some (s2, e2) \<and> browsing s k s2"
proof -
  have a: "cmd_ok s'" "history_save_index s' \<noteq> MESHX_CMD_MAX_HISTORY_SIZE" "\<not> history_traversed_to_tail s'"
    "history_traversing s'" "history_traverse_index s' = recent_index s (Suc k)" "same_history s s'" "\<not> history_traversed_to_head s'"
    using assms by (auto simp: browsing_def same_history_def history_count_def split: if_splits)
  have sv: "history_save_index s < MESHX_CMD_MAX_HISTORY_SIZE" using a by (auto simp: cmd_ok_def same_history_def)
  have lp: "history_looped s' = history_looped s" "history_save_index s' = history_save_index s" using a(6) by (auto simp: same_history_def)
  have i: "step_on s' = s'\<lparr>history_traversed_to_head := False, history_traverse_index := recent_index s k\<rparr>"
    using a(4,5) lp recent_older(2,3) [OF sv assms(2)] recent_older(5) [OF sv assms(2)]
    by (cases "history_looped s") (simp_all add: step_on_def history_forward_def)
  have h: "same_history s (step_on s')" "history_traverse_index (step_on s') = recent_index s k"
    "\<not> history_traversed_to_tail (step_on s')" "aside_line (step_on s') = line_text s"
    using a assms(1) by (auto simp: i same_history_def aside_line_def browsing_def)
  note ok = next_step(2) [OF a(1-3)]
  have r: "line_at (step_on s') (recent_index s k) = recent s k" using line_at_same [OF h(1)] by (simp add: recent_def)
  have "browsing s k (set_line (recent s k) (step_on s'))"
    using h a set_line_ok [OF ok] history_line_ok(2) [OF ok] r by (simp add: browsing_def i)
  then show ?thesis using next_step(1) [OF a(1-3), of e] h r by auto
qed

lemma browse_last:
  assumes "browsing s 0 s'" "0 < history_count s" "cmd_ok s"
  shows "\<exists>s2 e2. collect_next s' e = Some (s2, e2) \<and> at_rest s2 \<and> same_history s s2 \<and> line_text s2 = line_text s \<and> cursor_pos s2 = cmd_len s2"
proof -
  have a: "cmd_ok s'" "history_save_index s' \<noteq> MESHX_CMD_MAX_HISTORY_SIZE" "\<not> history_traversed_to_tail s'"
    "history_traversing s'" "history_traverse_index s' = history_save_index s'" "same_history s s'"
    using assms recent_zero [of s] by (auto simp: browsing_def same_history_def history_count_def cmd_ok_def split: if_splits)
  have i: "step_on s' = s'\<lparr>history_traversed_to_head := False, history_traversed_to_tail := True\<rparr>"
    using a by (simp add: step_on_def history_forward_def)
  have h: "history_traversed_to_tail (step_on s')" "aside_line (step_on s') = line_text s" "same_history s (step_on s')"
    using assms(1) a by (auto simp: i browsing_def aside_line_def same_history_def)
  note ok = next_step(2) [OF a(1-3)]
  define s2 where "s2 = (set_line (line_text s) (step_on s'))\<lparr>history_traversing := False\<rparr>"
  have "length (line_text s) \<le> MESHX_CMD_MAX_LEN" using length_aside [OF ok] h by simp
  then have "at_rest s2" using set_line_ok [OF ok] a by (simp add: at_rest_def s2_def i)
  moreover have "same_history s s2" "line_text s2 = line_text s" "cursor_pos s2 = cmd_len s2"
    using h(3) assms(3) by (auto simp: s2_def same_history_def line_text_def set_line_def min_def cmd_ok_def)
  ultimately show ?thesis using next_step(1) [OF a(1-3), of e] h by (auto simp: s2_def)
qed

lemma comma_step: "collect_char run (CHR '','') = collect_previous"
  by (intro ext) (simp add: collect_char_def control_chars)

lemma dot_step: "collect_char run (CHR ''.'') = collect_next"
  by (intro ext) (simp add: collect_char_def control_chars)

lemma collect_append:
  "meshx_cmd_collect run (xs @ ys) s e = do { (s, e) \<leftarrow> meshx_cmd_collect run xs s e; meshx_cmd_collect run ys s e }"
  by (induction xs arbitrary: s e) (auto split: Option.bind_splits)

lemma commas:
  assumes "at_rest s"
  shows "n < history_count s \<Longrightarrow> \<exists>s' e'. meshx_cmd_collect run (replicate (Suc n) (CHR '','')) s e = Some (s', e') \<and> browsing s n s'"
proof (induction n)
  case 0
  then show ?case using browse_first [OF assms, of e] by (auto simp: comma_step)
next
  case (Suc n)
  then obtain s1 e1 where 1: "meshx_cmd_collect run (replicate (Suc n) (CHR '','')) s e = Some (s1, e1)" "browsing s n s1" by auto
  show ?case using browse_older [OF 1(2) Suc.prems, of e1] 1(1)
    unfolding replicate_Suc [of "Suc n"] replicate_append_same [symmetric] collect_append by (auto simp: comma_step)
qed

lemma dots:
  assumes "cmd_ok s"
  shows "browsing s n s1 \<Longrightarrow> n < history_count s \<Longrightarrow> \<exists>s' e'. meshx_cmd_collect run (replicate (Suc n) (CHR ''.'')) s1 e1 = Some (s', e') \<and>
    at_rest s' \<and> same_history s s' \<and> line_text s' = line_text s \<and> cursor_pos s' = cmd_len s'"
proof (induction n arbitrary: s1 e1)
  case 0
  then show ?case using browse_last [OF 0(1) _ assms, of e1] by (auto simp: dot_step)
next
  case (Suc n)
  from browse_newer [OF Suc.prems, of e1] obtain s2 e2 where 2: "collect_next s1 e1 = Some (s2, e2)" "browsing s n s2" by blast
  show ?case using Suc.IH [OF 2(2), of e2] Suc.prems(2) 2(1) unfolding replicate_Suc [of "Suc n"] by (simp add: dot_step)
qed

text \<open>The history keys.  From the prompt, the key for the previous command pressed as often as there
  are lines kept shows the latest, the one before, and so on; pressing the key for the next
  command as often gives back the line that was being typed, with the history unchanged.\<close>

lemma history_roundtrip:
  assumes "at_rest s" "n < history_count s"
  shows "\<exists>s1 e1 s2 e2. meshx_cmd_collect run (replicate (Suc n) (CHR '','')) s e = Some (s1, e1) \<and> line_text s1 = recent s n \<and>
    meshx_cmd_collect run (replicate (Suc n) (CHR ''.'')) s1 e1 = Some (s2, e2) \<and> line_text s2 = line_text s \<and>
    at_rest s2 \<and> same_history s s2"
proof -
  obtain s1 e1 where 1: "meshx_cmd_collect run (replicate (Suc n) (CHR '','')) s e = Some (s1, e1)" "browsing s n s1"
    using commas [OF assms] by blast
  have "cmd_ok s" using assms(1) by (simp add: at_rest_def)
  from dots [OF this 1(2) assms(2), of run e1] 1 show ?thesis by (auto simp: browsing_def)
qed

text \<open>Enter on a line with text: it becomes the latest of the history, the others move up.\<close>

lemma enter_remembers:
  assumes "cmd_ok s" "cmd_len s > 0" "collect_enter run s e = Some (s', e')"
  shows "at_rest s' \<and> recent s' 0 = line_text s \<and> (\<forall>k. Suc k < history_count s' \<longrightarrow> recent s' (Suc k) = recent s k) \<and>
    history_count s' = min (Suc (history_count s)) MESHX_CMD_MAX_HISTORY_SIZE"
proof -
  from assms(2,3) obtain s1 s2 e2 where 1: "history_save s = Some s1" "run_line run s1 e = Some (s2, e2)"
    and s': "s' = s2\<lparr>cmd_len := 0, cursor_pos := 0, history_traverse_index := history_save_index s2,
      history_traversed_to_head := False, history_traversed_to_tail := True, history_traversing := False\<rparr>"
    by (auto simp: collect_enter_def Let_def split: Option.bind_splits)
  obtain b where b: "s2 = s1\<lparr>cmd := b\<rparr>" using run_line_keeps [OF 1(2)] by blast
  obtain h where h: "take (cmd_len s) h = line_text s" and s1: "s1 = s\<lparr>history_save_index := next_slot s,
      history_looped := (history_looped s \<or> history_save_index s + 1 = MESHX_CMD_MAX_HISTORY_SIZE),
      cmd_history := (cmd_history s)[next_slot s := h],
      cmd_history_len := (cmd_history_len s)[next_slot s := cmd_len s], cmd := (cmd s)[cmd_len s := NUL]\<rparr>"
    using save_step [OF assms(1)] 1(1) by auto
  have i: "next_slot s < MESHX_CMD_MAX_HISTORY_SIZE" using assms(1) by (auto simp: cmd_ok_def next_slot_def cmd_sizes)
  have n: "length (cmd_history s) = MESHX_CMD_MAX_HISTORY_SIZE" "length (cmd_history_len s) = MESHX_CMD_MAX_HISTORY_SIZE"
    "history_save_index s \<le> MESHX_CMD_MAX_HISTORY_SIZE" using assms(1) by (auto simp: cmd_ok_def)
  have f: "history_save_index s' = next_slot s" "cmd_history s' = (cmd_history s)[next_slot s := h]"
    "cmd_history_len s' = (cmd_history_len s)[next_slot s := cmd_len s]"
    "history_looped s' = (history_looped s \<or> history_save_index s + 1 = MESHX_CMD_MAX_HISTORY_SIZE)"
    by (simp_all add: s' b s1)
  have "at_rest s'" using enter_ok [OF assms(1,3)] by (simp add: at_rest_def s')
  moreover have "recent s' 0 = line_text s"
    using i n h recent_zero [of s'] by (simp add: recent_def line_at_def f)
  moreover have "recent s' (Suc k) = recent s k" if k: "Suc k < history_count s'" for k
  proof -
    have s0: "history_save_index s = 0 \<or> history_save_index s = 1 \<or> history_save_index s = 2 \<or> history_save_index s = 3"
      using n by (auto simp: cmd_sizes)
    have "Suc k < MESHX_CMD_MAX_HISTORY_SIZE" using k i by (auto simp: history_count_def f split: if_splits)
    then have k3: "k = 0 \<or> k = 1" by (auto simp: cmd_sizes)
    have "history_looped s \<longrightarrow> history_save_index s < 3" using assms(1) by (simp add: cmd_ok_def cmd_sizes)
    then have "history_save_index s \<noteq> 3" using k by (auto simp: history_count_def f next_slot_def cmd_sizes split: if_splits)
    then have r: "recent_index s' (Suc k) = recent_index s k" "recent_index s k \<noteq> next_slot s"
      using k3 s0 k by (auto simp: recent_index_def f next_slot_def cmd_sizes)
    then show ?thesis by (simp add: recent_def line_at_def f)
  qed
  moreover have "history_count s' = min (Suc (history_count s)) MESHX_CMD_MAX_HISTORY_SIZE"
    using n i assms(1) by (auto simp: history_count_def f next_slot_def cmd_sizes cmd_ok_def)
  ultimately show ?thesis by blast
qed

text \<open>A history key away from the end of the line.  The erasing goes back over the prompt.\<close>

lemma erase_step: "foldl term_put (line, Suc n) [BS, CHR '' '', BS] = (fst (term_put (line, n) (CHR '' '')), n)"
  by simp (simp add: control_chars)

lemma erase_col: "snd (foldl term_put (line, n) (concat (replicate k [BS, CHR '' '', BS]))) = n - k"
proof (induction k arbitrary: line n)
  case (Suc k)
  obtain line' where "foldl term_put (line, n) [BS, CHR '' '', BS] = (line', n - 1)"
    by (cases n) (auto simp: control_chars)
  then show ?case using Suc.IH [of line' "n - 1"] by simp
qed simp

lemma text_col: "list_all plain t \<Longrightarrow> snd (foldl term_put (line, n) t) = n + length t"
  by (induction t arbitrary: line n) (auto simp: plain_def)

text \<open>A history key pressed while the cursor is inside the line spoils the terminal: the text is
  erased as if the cursor stood at its end, so the prompt is erased as well and the
  recalled line is not shown where the editor takes it to be.\<close>

lemma history_key_spoils_display:
  assumes "session s e (l, r)" "r \<noteq> []" "at_rest s" "0 < history_count s" "list_all plain (recent s 0)"
  shows "\<exists>s' e'. collect_previous s e = Some (s', e') \<and> (\<forall>z. \<not> session s' e' z)"
proof -
  obtain s' where s': "collect_previous s e = Some (s', meshx_tty_send (recent s 0) (meshx_cmd_clear s e))" "browsing s 0 s'"
    using browse_first [OF assms(3,4)] by blast
  have c: "cmd_len s = length l + length r" using assms(1) by (simp add: session_def editing_def)
  obtain line where sc: "screen (tty e) = (line, Suc (length l))" using assms(1) by (auto simp: session_def shows_text_def)
  define e' where "e' = meshx_tty_send (recent s 0) (meshx_cmd_clear s e)"
  obtain line' where er: "foldl term_put (line, Suc (length l)) (concat (replicate (cmd_len s) [BS, CHR '' '', BS])) = (line', 0)"
    using erase_col [of line "Suc (length l)" "cmd_len s"] c assms(2) by (cases r) (auto simp: prod_eq_iff)
  have "screen (tty e') = foldl term_put (line', 0) (recent s 0)"
    unfolding e'_def meshx_tty_send_def meshx_cmd_clear_def by (simp add: screen_append sc er)
  then have col: "snd (screen (tty e')) = length (recent s 0)" using text_col [OF assms(5), of line' 0] by simp
  have "cursor_pos s' = length (recent s 0)"
    using s'(2) by (metis browsing_def length_line_text)
  then have "\<not> session s' e' z" for z
    using col by (auto simp: session_def editing_def shows_text_def)
  then show ?thesis using s'(1) by (auto simp: e'_def)
qed

end
