(* ===== verification/Mesh_Cmd_Parse.thy ===== *)
theory Mesh_Cmd_Parse
  imports Mesh_Cmd_Facts
begin

text \<open>
  The parser of the command line: a line of words is parsed into them; which lines it has no
  defined behaviour for.
\<close>

section \<open>The parser\<close>

definition is_word :: "string \<Rightarrow> bool" where
  "is_word w \<longleftrightarrow> w \<noteq> [] \<and> list_all (\<lambda>c. c \<noteq> CHR '' '' \<and> c \<noteq> NUL) w"

fun unwords :: "string list \<Rightarrow> string" where
  "unwords [] = []"
| "unwords [w] = w"
| "unwords (w # ws) = w @ CHR '' '' # unwords ws"

lemma word_start_here: "p < length b \<Longrightarrow> b ! p \<noteq> CHR '' '' \<Longrightarrow> word_start b e p = Some (Some p)"
  by (subst word_start.simps) simp

lemma word_start_word: "is_word w \<Longrightarrow> word_start (pre @ w @ z) e (length pre) = Some (Some (length pre))"
  by (cases w) (auto simp: is_word_def intro!: word_start_here)

lemma word_end_space:
  "list_all (\<lambda>c. c \<noteq> CHR '' '' \<and> c \<noteq> NUL) w \<Longrightarrow> length pre + length w < e \<Longrightarrow>
   word_end (pre @ w @ CHR '' '' # z) e (length pre) = Some (length pre + length w, False)"
proof (induction w arbitrary: pre)
  case Nil
  then show ?case by (subst word_end.simps) simp
next
  case (Cons c w)
  show ?case using Cons.IH [of "pre @ [c]"] Cons.prems by (subst word_end.simps) (simp add: nth_append)
qed

lemma word_end_end:
  "list_all (\<lambda>c. c \<noteq> CHR '' '' \<and> c \<noteq> NUL) w \<Longrightarrow> w \<noteq> [] \<Longrightarrow> e = length pre + length w \<Longrightarrow>
   word_end (pre @ w @ z) e (length pre) = Some (e, True)"
proof (induction w arbitrary: pre)
  case (Cons c w)
  show ?case
  proof (cases "w = []")
    case True
    then show ?thesis using Cons.prems by (subst word_end.simps) (simp add: nth_append)
  next
    case False
    then show ?thesis using Cons.IH [of "pre @ [c]"] Cons.prems by (subst word_end.simps) (simp add: nth_append)
  qed
qed simp

lemma c_string_word: "list_all (\<lambda>c. c \<noteq> CHR '' '' \<and> c \<noteq> NUL) w \<Longrightarrow> c_string (pre @ w @ NUL # z) (length pre) = Some w"
  by (auto simp: c_string_def list_all_iff takeWhile_append)

lemma cut_word_space:
  assumes "is_word w" "length pre + length w < e"
  shows "cut_word (pre @ w @ CHR '' '' # z) e (length pre) = Some (length pre + length w, False, w, pre @ w @ NUL # z)"
  using assms word_end_space [of w pre e z] c_string_word [of w pre z] put_char_mid [of "pre @ w" _ "CHR '' ''" z NUL]
  by (simp add: cut_word_def is_word_def)

lemma cut_word_end:
  assumes "is_word w" "e = length pre + length w"
  shows "cut_word (pre @ w @ c # z) e (length pre) = Some (e, True, w, pre @ w @ NUL # z)"
  using assms word_end_end [of w e pre "c # z"] c_string_word [of w pre z] put_char_mid [of "pre @ w" _ c z NUL]
  by (simp add: cut_word_def is_word_def)

fun add_params :: "string list \<Rightarrow> meshx_cmd_parsed_data \<Rightarrow> meshx_cmd_parsed_data option" where
  "add_params [] d = Some d"
| "add_params (w # ws) d = do { d \<leftarrow> add_param w d; add_params ws d }"

lemma unwords_Cons: "ws \<noteq> [] \<Longrightarrow> unwords (w # ws) = w @ CHR '' '' # unwords ws"
  by (cases ws) auto

lemma parse_params_words:
  "ws \<noteq> [] \<Longrightarrow> list_all is_word ws \<Longrightarrow> e = length pre + length (unwords ws) \<Longrightarrow>
   map_option snd (parse_params (pre @ unwords ws @ c # z) e (length pre) d) = add_params ws d"
proof (induction ws arbitrary: pre d)
  case (Cons w ws)
  have w: "is_word w" using Cons.prems by simp
  show ?case
  proof (cases "ws = []")
    case True
    show ?thesis using word_start_word [OF w] cut_word_end [OF w, of e pre c z] Cons.prems True
      by (subst parse_params.simps) (simp split: option.split)
  next
    case False
    have u: "unwords (w # ws) = w @ CHR '' '' # unwords ws" using False by (rule unwords_Cons)
    have c: "cut_word (pre @ w @ CHR '' '' # unwords ws @ c # z) e (length pre) =
        Some (length pre + length w, False, w, pre @ w @ NUL # unwords ws @ c # z)"
      using cut_word_space [OF w] Cons.prems(3) u by simp
    have ih: "map_option snd (parse_params ((pre @ w @ [NUL]) @ unwords ws @ c # z) e (length (pre @ w @ [NUL])) d') = add_params ws d'" for d'
      using Cons.prems u False by (intro Cons.IH) auto
    show ?thesis
      using word_start_word [OF w, of pre "CHR '' '' # unwords ws @ c # z" e] ih
      by (subst parse_params.simps) (simp add: u c split: option.split)
  qed
qed simp

lemma parse_words:
  assumes "is_word w" "list_all is_word ws"
  shows "map_option (\<lambda>(ok, b, d). (ok, d)) (meshx_cmd_parse (unwords (w # ws) @ c # z) (length (unwords (w # ws)))) =
    map_option (\<lambda>d. (True, d)) (add_params ws (parsed_zero\<lparr>pd_cmd := Some w\<rparr>))"
proof (cases "ws = []")
  case True
  then show ?thesis using word_start_word [OF assms(1), of "[]" "c # z"] cut_word_end [OF assms(1), of "length w" "[]" c z]
    by (simp add: meshx_cmd_parse_def)
next
  case False
  have u: "unwords (w # ws) = w @ CHR '' '' # unwords ws" using False by (rule unwords_Cons)
  define e where "e = length (unwords (w # ws))"
  have c: "cut_word (w @ CHR '' '' # unwords ws @ c # z) e 0 = Some (length w, False, w, w @ NUL # unwords ws @ c # z)"
    using cut_word_space [OF assms(1), of "[]" e "unwords ws @ c # z"] by (simp add: e_def u)
  have p: "map_option snd (parse_params ((w @ [NUL]) @ unwords ws @ c # z) e (length (w @ [NUL])) d) = add_params ws d" for d
    using False assms(2) by (intro parse_params_words) (simp_all add: e_def u)
  show ?thesis using word_start_word [OF assms(1), of "[]" "CHR '' '' # unwords ws @ c # z" e] c
    unfolding e_def [symmetric] p [symmetric]
    by (cases "parse_params ((w @ [NUL]) @ unwords ws @ c # z) e (length (w @ [NUL])) (parsed_zero\<lparr>pd_cmd := Some w\<rparr>)")
       (auto simp: meshx_cmd_parse_def u Let_def)
qed

definition atoi_value :: "string \<Rightarrow> int" where
  "atoi_value w = fst (the (meshx_atoi w))"

definition params_wf :: "meshx_cmd_parsed_data \<Rightarrow> bool" where
  "params_wf d \<longleftrightarrow> length (param_ptr d) = MESHX_CMD_MAX_PARAMETERS \<and> length (param_val d) = MESHX_CMD_MAX_PARAMETERS \<and>
     param_cnt d \<le> MESHX_CMD_MAX_PARAMETERS"

lemma add_param_step:
  assumes "params_wf d" "add_param w d = Some d'"
  shows "params_wf d' \<and> param_cnt d' = Suc (param_cnt d) \<and> pd_cmd d' = pd_cmd d \<and>
    take (param_cnt d') (param_ptr d') = take (param_cnt d) (param_ptr d) @ [Some w] \<and>
    take (param_cnt d') (param_val d') = take (param_cnt d) (param_val d) @ [atoi_value w]"
  using assms by (auto simp: add_param_def params_wf_def atoi_value_def take_Suc_conv_app_nth split: if_splits Option.bind_splits)

lemma add_param_None:
  "params_wf d \<Longrightarrow> add_param w d = None \<longleftrightarrow> param_cnt d = MESHX_CMD_MAX_PARAMETERS \<or> meshx_atoi w = None"
  by (auto simp: add_param_def params_wf_def split: Option.bind_splits)

lemma add_params_None:
  "params_wf d \<Longrightarrow> add_params ws d = None \<longleftrightarrow>
    MESHX_CMD_MAX_PARAMETERS < param_cnt d + length ws \<or> \<not> list_all (\<lambda>w. meshx_atoi w \<noteq> None) ws"
proof (induction ws arbitrary: d)
  case Nil
  then show ?case by (simp add: params_wf_def)
next
  case (Cons w ws)
  show ?case
  proof (cases "add_param w d")
    case None
    then show ?thesis using add_param_None [OF Cons.prems, of w] by auto
  next
    case (Some d')
    then show ?thesis using Cons.IH [of d'] add_param_step [OF Cons.prems Some] add_param_None [OF Cons.prems, of w] by auto
  qed
qed

lemma add_params_Some:
  "params_wf d \<Longrightarrow> add_params ws d = Some d' \<Longrightarrow> pd_cmd d' = pd_cmd d \<and> param_cnt d' = param_cnt d + length ws \<and>
    take (param_cnt d') (param_ptr d') = take (param_cnt d) (param_ptr d) @ map Some ws \<and>
    take (param_cnt d') (param_val d') = take (param_cnt d) (param_val d) @ map atoi_value ws"
proof (induction ws arbitrary: d)
  case (Cons w ws)
  then obtain d1 where 1: "add_param w d = Some d1" "add_params ws d1 = Some d'" by (auto split: Option.bind_splits)
  show ?case using add_param_step [OF Cons.prems(1) 1(1)] Cons.IH [of d1] 1(2) by auto
qed simp

lemma parsed_zero_wf: "params_wf (parsed_zero\<lparr>pd_cmd := x\<rparr>)"
  by (simp add: params_wf_def parsed_zero_def)

text \<open>A line of words separated by single spaces is parsed into them: the first is the command, the
  others are the parameters, as text and as the number each begins with.\<close>

lemma parse_unwords:
  assumes "is_word w" "list_all is_word ws" "length ws \<le> MESHX_CMD_MAX_PARAMETERS" "list_all (\<lambda>w. meshx_atoi w \<noteq> None) ws"
  shows "\<exists>b d. meshx_cmd_parse (unwords (w # ws) @ c # z) (length (unwords (w # ws))) = Some (True, b, d) \<and>
    pd_cmd d = Some w \<and> param_cnt d = length ws \<and> take (length ws) (param_ptr d) = map Some ws \<and>
    take (length ws) (param_val d) = map atoi_value ws"
proof -
  define d0 where "d0 = parsed_zero\<lparr>pd_cmd := Some w\<rparr>"
  have z: "params_wf d0" "param_cnt d0 = 0" "pd_cmd d0 = Some w" using parsed_zero_wf by (simp_all add: d0_def parsed_zero_def)
  obtain d where d: "add_params ws d0 = Some d" using add_params_None [OF z(1), of ws] assms(3,4) z(2) by auto
  then obtain r where r: "meshx_cmd_parse (unwords (w # ws) @ c # z) (length (unwords (w # ws))) = Some r" "(\<lambda>(ok, b, d). (ok, d)) r = (True, d)"
    using parse_words [OF assms(1,2), of c z] by (auto simp: d0_def)
  show ?thesis using add_params_Some [OF z(1) d] z r by (cases r) auto
qed

text \<open>A line of words separated by single spaces is parsed without undefined behaviour exactly if it has no more than twenty
  parameters and none of them begins with a number beyond 32 bits: a longer line writes beyond the arrays of
  the parsed data, and a key given in hexadecimal overflows the conversion every parameter
  goes through.\<close>

lemma parse_undefined_iff:
  assumes "is_word w" "list_all is_word ws"
  shows "meshx_cmd_parse (unwords (w # ws) @ c # z) (length (unwords (w # ws))) = None \<longleftrightarrow>
    MESHX_CMD_MAX_PARAMETERS < length ws \<or> (\<exists>p. p \<in> set ws \<and> meshx_atoi p = None)"
proof -
  have "meshx_cmd_parse (unwords (w # ws) @ c # z) (length (unwords (w # ws))) = None \<longleftrightarrow>
      add_params ws (parsed_zero\<lparr>pd_cmd := Some w\<rparr>) = None"
    using parse_words [OF assms, of c z] by (metis map_option_is_None)
  moreover have "(\<exists>p. p \<in> set ws \<and> meshx_atoi p = None) \<longleftrightarrow> \<not> list_all (\<lambda>w. meshx_atoi w \<noteq> None) ws"
    by (auto simp: list_all_iff simp del: not_None_eq)
  moreover have "param_cnt (parsed_zero\<lparr>pd_cmd := Some w\<rparr>) = 0" by (simp add: parsed_zero_def)
  ultimately show ?thesis using add_params_None [OF parsed_zero_wf, of ws "Some w"] by simp
qed

section \<open>From the keyboard to the command\<close>

text \<open>A character that is taken into the line.\<close>

definition typed :: "char \<Rightarrow> bool" where
  "typed c \<longleftrightarrow> edit_key c \<and> c \<noteq> DEL \<and> c \<noteq> BS \<and> c \<noteq> CHR ''['' \<and> c \<noteq> CHR '']''"

lemma typing:
  "editing s l [] \<Longrightarrow> list_all typed cs \<Longrightarrow> length l + length cs \<le> MESHX_CMD_MAX_LEN \<Longrightarrow>
   \<exists>s' e'. meshx_cmd_collect run cs s e = Some (s', e') \<and> editing s' (l @ cs) [] \<and> app e' = app e \<and> puser_cmds e' = puser_cmds e \<and>
     tty e' = tty e @ cs \<and> cmd_prompt s' = cmd_prompt s \<and> cmd_crlf s' = cmd_crlf s"
proof (induction cs arbitrary: s e l)
  case (Cons c cs)
  have c: "edit_key c" "edit c (l, []) = (l @ [c], [])" using Cons.prems by (auto simp: typed_def)
  obtain s1 where 1: "collect_char run c s e = Some (s1, meshx_tty_send (echo c (l, [])) e)" "editing s1 (l @ [c]) []"
    using char_edit [OF Cons.prems(1) c(1), of run e] c(2) by auto
  have k: "cmd_prompt s1 = cmd_prompt s" "cmd_crlf s1 = cmd_crlf s" using char_prompt [OF 1(1) c(1)] by simp_all
  have "echo c (l, []) = [c]" using Cons.prems by (auto simp: echo_def typed_def editing_def)
  then obtain s' e' where "meshx_cmd_collect run cs s1 (meshx_tty_send (echo c (l, [])) e) = Some (s', e')" "editing s' ((l @ [c]) @ cs) []"
    "app e' = app e" "puser_cmds e' = puser_cmds e" "tty e' = tty e @ c # cs" "cmd_prompt s' = cmd_prompt s" "cmd_crlf s' = cmd_crlf s"
    using Cons.IH [OF 1(2), of "meshx_tty_send (echo c (l, [])) e"] Cons.prems k by (auto simp: meshx_tty_send_def)
  then show ?case using 1(1) by auto
qed (auto simp: editing_def)

definition words_typed :: "string list \<Rightarrow> bool" where
  "words_typed ws \<longleftrightarrow> list_all is_word ws \<and> list_all (list_all typed) ws \<and> length (unwords ws) \<le> MESHX_CMD_MAX_LEN"

lemma unwords_typed: "list_all (list_all typed) ws \<Longrightarrow> list_all typed (unwords ws)"
proof (induction ws rule: unwords.induct)
  case (3 w v ws)
  then show ?case by (simp add: typed_def edit_key_def control_chars)
qed simp_all

text \<open>What Enter prints about the result of a command.\<close>

definition report :: "meshx_user_cmd_info \<Rightarrow> string \<Rightarrow> errno \<Rightarrow> string" where
  "report s w ret = (if ret = MESHX_SUCCESS then [] else cmd_crlf s @ w @ '': '' @ the (meshx_errno_to_string (ret_code ret)))"

lemma typed_line:
  assumes "cmd_ok s" "cmd_len s = 0" "words_typed (w # ws)" "length ws \<le> MESHX_CMD_MAX_PARAMETERS"
    "list_all (\<lambda>p. meshx_atoi p \<noteq> None) ws" "meshx_cmd_find (puser_cmds e) w = Some c" "process c = Some f"
  shows "\<exists>d e1. param_cnt d = length ws \<and> take (length ws) (param_ptr d) = map Some ws \<and>
    take (length ws) (param_val d) = map atoi_value ws \<and> app e1 = app e \<and> tty e1 = tty e @ unwords (w # ws) \<and>
    (case run f d e1 of
       None \<Rightarrow> meshx_cmd_collect run (unwords (w # ws) @ [CR]) s e = None
     | Some (ret, e2) \<Rightarrow> \<exists>s' e'. meshx_cmd_collect run (unwords (w # ws) @ [CR]) s e = Some (s', e') \<and> app e' = app e2 \<and>
         tty e' = tty e2 @ report s w ret @ cmd_crlf s @ [cmd_prompt s] \<and> cmd_len s' = 0 \<and> cursor_pos s' = 0 \<and>
         at_rest s' \<and> recent s' 0 = unwords (w # ws))"
proof -
  define line where "line = unwords (w # ws)"
  have wt: "is_word w" "list_all is_word ws" "list_all typed line" "length line \<le> MESHX_CMD_MAX_LEN"
    using assms(3) unwords_typed [of "w # ws"] by (auto simp: words_typed_def line_def)
  have ed: "editing s [] []" using assms(1,2) by (auto simp: editing_def cmd_ok_def)
  obtain s1 e1 where 1: "meshx_cmd_collect run line s e = Some (s1, e1)" "editing s1 line []" "app e1 = app e" "puser_cmds e1 = puser_cmds e"
    "tty e1 = tty e @ line" "cmd_prompt s1 = cmd_prompt s" "cmd_crlf s1 = cmd_crlf s"
    using typing [OF ed wt(3), of run e] wt(4) by auto
  have ok1: "cmd_ok s1" using 1(2) by (rule editing_ok)
  have ne: "line \<noteq> []" using wt(1) by (cases ws) (auto simp: line_def is_word_def)
  have n1: "cmd_len s1 = length line" "line_text s1 = line" using 1(2) by (auto simp: editing_def line_text_def)
  obtain x y rest where b1: "cmd s1 = line @ x # y # rest" by (rule editing_room [OF 1(2)]) auto
  obtain h where sv: "history_save s1 = Some (s1\<lparr>history_save_index := next_slot s1,
      history_looped := (history_looped s1 \<or> history_save_index s1 + 1 = MESHX_CMD_MAX_HISTORY_SIZE),
      cmd_history := (cmd_history s1)[next_slot s1 := h],
      cmd_history_len := (cmd_history_len s1)[next_slot s1 := cmd_len s1], cmd := (cmd s1)[cmd_len s1 := NUL]\<rparr>)"
    using save_step [OF ok1] by blast
  define s2 where "s2 = the (history_save s1)"
  have s2: "history_save s1 = Some s2" "cmd s2 = line @ NUL # y # rest" "cmd_len s2 = length line"
    "cmd_prompt s2 = cmd_prompt s" "cmd_crlf s2 = cmd_crlf s"
    by (simp_all add: s2_def sv b1 n1 1(6,7) list_update_append)
  obtain b d where p: "meshx_cmd_parse (cmd s2) (cmd_len s2) = Some (True, b, d)" and d: "pd_cmd d = Some w" "param_cnt d = length ws"
    "take (length ws) (param_ptr d) = map Some ws" "take (length ws) (param_val d) = map atoi_value ws"
    using parse_unwords [OF wt(1,2) assms(4,5), of NUL "y # rest"] unfolding s2 line_def by blast
  have ex: "meshx_cmd_execute run d e1 = run f d e1" using assms(6,7) 1(4) d(1) by (simp add: meshx_cmd_execute_def)
  have all: "meshx_cmd_collect run (line @ [CR]) s e = collect_enter run s1 e1"
    unfolding collect_append by (simp add: 1(1) collect_char_def) (cases "collect_enter run s1 e1", auto)
  have "case run f d e1 of
       None \<Rightarrow> meshx_cmd_collect run (line @ [CR]) s e = None
     | Some (ret, e2) \<Rightarrow> \<exists>s' e'. meshx_cmd_collect run (line @ [CR]) s e = Some (s', e') \<and> app e' = app e2 \<and>
         tty e' = tty e2 @ report s w ret @ cmd_crlf s @ [cmd_prompt s] \<and> cmd_len s' = 0 \<and> cursor_pos s' = 0 \<and>
         at_rest s' \<and> recent s' 0 = line"
  proof (cases "run f d e1")
    case None
    have "run_line run s2 e1 = None" by (simp add: run_line_def p Let_def ex None)
    then have "collect_enter run s1 e1 = None" using ne n1(1) by (simp add: collect_enter_def s2(1))
    then show ?thesis using None all by simp
  next
    case (Some re)
    obtain ret e2 where re: "re = (ret, e2)" by (cases re)
    obtain t where t: "meshx_errno_to_string (ret_code ret) = Some t" using error_text by blast
    obtain s3 e3 where 3: "run_line run s2 e1 = Some (s3, e3)" "app e3 = app e2" "tty e3 = tty e2 @ report s w ret"
      "cmd_prompt s3 = cmd_prompt s" "cmd_crlf s3 = cmd_crlf s"
      by (cases "ret = MESHX_SUCCESS") (auto simp: run_line_def p Let_def ex Some re d(1) t meshx_tty_send_def report_def s2(4,5))
    then obtain s' e' where e: "collect_enter run s1 e1 = Some (s', e')" "app e' = app e2"
      "tty e' = tty e2 @ report s w ret @ cmd_crlf s @ [cmd_prompt s]" "cmd_len s' = 0" "cursor_pos s' = 0"
      using ne n1(1) by (auto simp: collect_enter_def s2(1) Let_def meshx_tty_send_def)
    have "0 < cmd_len s1" using ne n1 by simp
    then show ?thesis using Some re all e enter_remembers [OF ok1 _ e(1)] n1(2) by simp
  qed
  then show ?thesis using d(2-) 1(3,5) unfolding line_def by blast
qed

lemma find_first: "cs = pre @ c # post \<Longrightarrow> pcmd c = w \<Longrightarrow> \<forall>x \<in> set pre. pcmd x \<noteq> w \<Longrightarrow> meshx_cmd_find cs w = Some c"
  by (induction pre arbitrary: cs) auto

text \<open>C24: A typed command reaches its function: after a name from the table, at most twenty
  parameters with numbers in range, and Enter, on an empty line, the function of the first entry
  of that name is called with the parameters as typed, after the line was echoed.  The effect on
  the application is that of the function; on the terminal an error of the function is reported
  with the name of the command, and a line break and the prompt follow; the line is empty again
  and what was typed is the latest line of the history.  If the function has no result,
  neither has the key.\<close>

theorem typed_command_runs:
  assumes "cmd_ok s" "cmd_len s = 0" "words_typed (w # ws)" "length ws \<le> MESHX_CMD_MAX_PARAMETERS"
    "list_all (\<lambda>p. meshx_atoi p \<noteq> None) ws" "puser_cmds e = pre @ c # post" "pcmd c = w" "\<forall>x \<in> set pre. pcmd x \<noteq> w" "process c = Some f"
  shows "\<exists>d e1. param_cnt d = length ws \<and> take (length ws) (param_ptr d) = map Some ws \<and>
    take (length ws) (param_val d) = map atoi_value ws \<and> app e1 = app e \<and> tty e1 = tty e @ unwords (w # ws) \<and>
    (case run f d e1 of
       None \<Rightarrow> meshx_cmd_collect run (unwords (w # ws) @ [CR]) s e = None
     | Some (ret, e2) \<Rightarrow> \<exists>s' e'. meshx_cmd_collect run (unwords (w # ws) @ [CR]) s e = Some (s', e') \<and> app e' = app e2 \<and>
         tty e' = tty e2 @ report s w ret @ cmd_crlf s @ [cmd_prompt s] \<and> cmd_len s' = 0 \<and> cursor_pos s' = 0 \<and>
         at_rest s' \<and> recent s' 0 = unwords (w # ws))"
  using typed_line [OF assms(1-5) find_first [OF assms(6-8)] assms(9)] .

definition demo_table :: "unit meshx_cmd list" where
  "demo_table = [\<lparr>pcmd = ''go'', pusage = ''go <n>'', phelp = ''go'', process = Some ()\<rparr>]"

definition demo_entry :: "unit meshx_cmd" where
  "demo_entry = \<lparr>pcmd = ''go'', pusage = ''go <n>'', phelp = ''go'', process = Some ()\<rparr>"

theorem typed_command_runs_witness:
  "\<exists>s' e'. meshx_cmd_collect (\<lambda>_ d e. Some (MESHX_SUCCESS, e)) (''go 7'' @ [CR]) (fst (cmd_ready demo_table)) (snd (cmd_ready demo_table)) = Some (s', e') \<and>
    tty e' = tty (snd (cmd_ready demo_table)) @ ''go 7'' @ cmd_crlf (fst (cmd_ready demo_table)) @ [cmd_prompt (fst (cmd_ready demo_table))] \<and>
    cmd_len s' = 0 \<and> recent s' 0 = ''go 7''"
proof -
  have s: "cmd_ok (fst (cmd_ready demo_table))" "cmd_len (fst (cmd_ready demo_table)) = 0"
    using ready_session [of demo_table] by (auto simp: session_def editing_def)
  have w: "words_typed [''go'', ''7'']" by (simp add: words_typed_def is_word_def typed_def edit_key_def control_chars cmd_sizes)
  have a: "length [''7''] \<le> MESHX_CMD_MAX_PARAMETERS" "list_all (\<lambda>p. meshx_atoi p \<noteq> None) [''7'']"
    by (simp_all add: cmd_sizes meshx_atoi_def is_digit_def chk32_def del: not_None_eq)
  have f: "puser_cmds (snd (cmd_ready demo_table)) = [] @ demo_entry # []" "pcmd demo_entry = ''go''" "\<forall>x \<in> set []. pcmd x \<noteq> ''go''"
    "process demo_entry = Some ()"
    by (simp_all add: demo_table_def cmd_ready_def meshx_cmd_init_def meshx_tty_send_def Let_def demo_entry_def)
  have u: "unwords [''go'', ''7''] = ''go 7''" by simp
  show ?thesis using typed_command_runs [OF s w a f, of "\<lambda>_ d e. Some (MESHX_SUCCESS, e)"] unfolding u by (auto simp: report_def)
qed

end
