(* ===== verification/Mesh_Cmd_Prov.thy ===== *)
theory Mesh_Cmd_Prov
  imports Mesh_Cmd_Parse Mesh_Pb_Adv_Facts
begin

text \<open>
  The commands: those of \<^verbatim>\<open>cmd/meshx_cmd_base.h\<close> and \<^verbatim>\<open>cmd/meshx_cmd_common.h\<close>, and the
  provisioning commands of \<^verbatim>\<open>cmd/meshx_cmd_prov.c\<close>, which call the provisioning layer on a
  device of the list the application keeps.  A parameter that was not typed is the number 0 and
  the null pointer; following it is \<^verbatim>\<open>None\<close>.
\<close>

section \<open>The list of devices\<close>

record prov_cmds =
  cp_world :: prov_world
  meshx_show_beacon :: bool
  cmd_prov_dev :: "nat option"
  prov_dev_list :: "nat option list"

definition meshx_cmd_prov_add_device :: "nat option \<Rightarrow> prov_cmds \<Rightarrow> errno \<times> prov_cmds" where
  "meshx_cmd_prov_add_device prov_dev s =
    (case on_env meshx_malloc_ok (cp_world s) of
       (False, w) \<Rightarrow> (MESHX_ERR_MEM, s\<lparr>cp_world := w\<rparr>)
     | (True, w) \<Rightarrow> (MESHX_SUCCESS, s\<lparr>cp_world := w, prov_dev_list := prov_dev_list s @ [prov_dev]\<rparr>))"

text \<open>The entry is unlinked, its memory is not freed.\<close>

definition meshx_cmd_prov_remove_device :: "nat option \<Rightarrow> prov_cmds \<Rightarrow> prov_cmds" where
  "meshx_cmd_prov_remove_device prov_dev s = s\<lparr>prov_dev_list := remove1 prov_dev (prov_dev_list s)\<rparr>"

fun get_device_loop :: "nat option list \<Rightarrow> u32 \<Rightarrow> prov_world \<Rightarrow> nat option option" where
  "get_device_loop [] i w = Some None"
| "get_device_loop (p # ps) i w = do {
     d \<leftarrow> meshx_prov_get_device_id p w;
     if (ucast d :: u32) = i then Some p else get_device_loop ps i w
   }"

definition meshx_cmd_prov_get_device :: "u32 \<Rightarrow> prov_cmds \<Rightarrow> nat option option" where
  "meshx_cmd_prov_get_device i s = get_device_loop (prov_dev_list s) i (cp_world s)"

section \<open>Commands\<close>

type_synonym prov_cmd = "meshx_cmd_parsed_data \<Rightarrow> prov_cmds \<Rightarrow> (errno \<times> prov_cmds) option"

abbreviation val8 :: "meshx_cmd_parsed_data \<Rightarrow> nat \<Rightarrow> u8" where
  "val8 d i \<equiv> word_of_int (param_val d ! i)"

abbreviation val16 :: "meshx_cmd_parsed_data \<Rightarrow> nat \<Rightarrow> u16" where
  "val16 d i \<equiv> word_of_int (param_val d ! i)"

abbreviation val32 :: "meshx_cmd_parsed_data \<Rightarrow> nat \<Rightarrow> u32" where
  "val32 d i \<equiv> word_of_int (param_val d ! i)"

definition meshx_cmd_prov_scan :: prov_cmd where
  "meshx_cmd_prov_scan d s = Some (MESHX_SUCCESS, s\<lparr>meshx_show_beacon := (param_val d ! 0 \<noteq> 0)\<rparr>)"

text \<open>The UUID is a local array of 16 bytes the conversion clears first.  The results of the
  provisioning layer are not looked at.\<close>

definition meshx_cmd_prov_conn :: prov_cmd where
  "meshx_cmd_prov_conn d s = do {
     t \<leftarrow> param_ptr d ! 0;
     dev_uuid \<leftarrow> meshx_bin2hex t (zeros 16) (16 * 2);
     (p, w) \<leftarrow> meshx_prov_create_device (meshx_bearer_adv_get (pw_gap (cp_world s))) dev_uuid MESHX_ROLE_PROVISIONER (cp_world s);
     (_, w) \<leftarrow> meshx_prov_link_open p w;
     Some (MESHX_SUCCESS, s\<lparr>cp_world := w, cmd_prov_dev := p\<rparr>)
   }"

text \<open>The other commands name a device by its number.\<close>

definition with_device ::
  "(nat \<Rightarrow> meshx_cmd_parsed_data \<Rightarrow> prov_world \<Rightarrow> (errno \<times> prov_world) option) \<Rightarrow> prov_cmd" where
  "with_device f d s = do {
     p \<leftarrow> meshx_cmd_prov_get_device (val32 d 0) s;
     case p of
       None \<Rightarrow> Some (MESHX_ERR_NOT_FOUND, s)
     | Some p \<Rightarrow> do { (ret, w) \<leftarrow> f p d (cp_world s); Some (ret, s\<lparr>cp_world := w\<rparr>) }
   }"

definition meshx_cmd_prov_invite :: prov_cmd where
  "meshx_cmd_prov_invite = with_device (\<lambda>p d w. do {
     (_, w) \<leftarrow> meshx_prov_invite (Some p) (val8 d 1) w;
     Some (MESHX_SUCCESS, w)
   })"

definition meshx_cmd_prov_capabilites :: prov_cmd where
  "meshx_cmd_prov_capabilites = with_device (\<lambda>p d w. do {
     let cap = \<lparr>cap_element_nums = val8 d 1, cap_algorithms = 1, cap_public_key_type = val8 d 2, cap_static_oob_type = val8 d 3,
       cap_output_oob_size = val8 d 4, cap_output_oob_action = val16 d 5, cap_input_oob_size = val8 d 6, cap_input_oob_action = val16 d 7\<rparr>;
     (_, w) \<leftarrow> meshx_prov_capabilites (Some p) (Some cap) w;
     Some (MESHX_SUCCESS, w)
   })"

definition meshx_cmd_prov_start :: prov_cmd where
  "meshx_cmd_prov_start = with_device (\<lambda>p d w. do {
     let st = \<lparr>st_algorithm = 0, st_public_key = val8 d 1, st_auth_method = val8 d 2, st_auth_action = val8 d 3, st_auth_size = val8 d 4\<rparr>;
     (_, w) \<leftarrow> meshx_prov_start (Some p) (Some st) w;
     Some (MESHX_SUCCESS, w)
   })"

definition meshx_cmd_prov_set_public_key :: "prov_ext \<Rightarrow> prov_cmd" where
  "meshx_cmd_prov_set_public_key ext = with_device (\<lambda>p d w. do {
     t \<leftarrow> param_ptr d ! 1;
     pub_key \<leftarrow> meshx_bin2hex t (zeros 64) (64 * 2);
     meshx_prov_set_remote_public_key ext (Some p) (Some pub_key) w
   })"

definition meshx_cmd_prov_public_key :: prov_cmd where
  "meshx_cmd_prov_public_key = with_device (\<lambda>p d w. do {
     (_, pub_key) \<leftarrow> meshx_prov_get_local_public_key (Some p) (Some (zeros 64)) w;
     (_, w) \<leftarrow> meshx_prov_public_key (Some p) pub_key w;
     Some (MESHX_SUCCESS, w)
   })"

text \<open>The authentication value of \<^verbatim>\<open>prov_set_auth\<close>, \<^verbatim>\<open>Inl\<close> an error the command returns.  Hexadecimal digits go to
  a field of 16 bytes, letters to one of 8.\<close>

definition auth_zero :: prov_auth_value where
  "auth_zero = \<lparr>av_method = 0, av_static = zeros 16, av_action = 0, av_oob = OOB_NUMERIC 0\<rparr>"

definition set_auth_value :: "meshx_cmd_parsed_data \<Rightarrow> (errno + prov_auth_value) option" where
  "set_auth_value d =
    (if param_val d ! 1 = 0 then Some (Inr (auth_zero\<lparr>av_method := MESHX_PROV_AUTH_METHOD_NO_OOB\<rparr>))
     else if param_val d ! 1 = 1 then do {
       t \<leftarrow> param_ptr d ! 3;
       v \<leftarrow> meshx_bin2hex t (zeros 16) (word_of_nat (length t));
       Some (Inr (auth_zero\<lparr>av_method := MESHX_PROV_AUTH_METHOD_STATIC_OOB, av_static := v\<rparr>))
     }
     else if param_val d ! 1 = 2 then
       if param_val d ! 2 = 0
       then Some (Inr (auth_zero\<lparr>av_method := MESHX_PROV_AUTH_METHOD_OUTPUT_OOB, av_action := 3, av_oob := OOB_NUMERIC (val32 d 3)\<rparr>))
       else if param_val d ! 2 = 1 then do {
         t \<leftarrow> param_ptr d ! 3;
         let n = (word_of_nat (length t) :: u8);
         v \<leftarrow> mem_write (zeros 8) 0 (map char_u8 (take (unat n) t));
         Some (Inr (auth_zero\<lparr>av_method := MESHX_PROV_AUTH_METHOD_OUTPUT_OOB, av_action := 4, av_oob := OOB_ALPHA v n\<rparr>))
       }
       else Some (Inl MESHX_ERR_INVAL)
     else Some (Inl MESHX_ERR_INVAL))"

definition meshx_cmd_prov_set_auth :: "prov_ext \<Rightarrow> prov_cmd" where
  "meshx_cmd_prov_set_auth ext = with_device (\<lambda>p d w. do {
     v \<leftarrow> set_auth_value d;
     case v of
       Inl ret \<Rightarrow> Some (ret, w)
     | Inr v \<Rightarrow> do {
         (_, w) \<leftarrow> meshx_prov_set_auth_value (Some p) (Some v) w;
         (_, rnd) \<leftarrow> meshx_prov_get_random (Some p) (Some (zeros 16)) w;
         rnd \<leftarrow> rnd;
         (_, w) \<leftarrow> meshx_prov_generate_confirmation ext (Some p) rnd w;
         Some (MESHX_SUCCESS, w)
       }
   })"

definition meshx_cmd_prov_input_complete :: prov_cmd where
  "meshx_cmd_prov_input_complete = with_device (\<lambda>p d w. do {
     (_, w) \<leftarrow> meshx_prov_input_complete (Some p) w;
     Some (MESHX_SUCCESS, w)
   })"

definition meshx_cmd_prov_confirmation :: prov_cmd where
  "meshx_cmd_prov_confirmation = with_device (\<lambda>p d w. do {
     (_, cfm) \<leftarrow> meshx_prov_get_confirmation (Some p) (Some (zeros 16)) w;
     (_, w) \<leftarrow> meshx_prov_confirmation (Some p) cfm w;
     Some (MESHX_SUCCESS, w)
   })"

definition meshx_cmd_prov_random :: prov_cmd where
  "meshx_cmd_prov_random = with_device (\<lambda>p d w. do {
     (_, rnd) \<leftarrow> meshx_prov_get_random (Some p) (Some (zeros 16)) w;
     (_, w) \<leftarrow> meshx_prov_random (Some p) rnd w;
     Some (MESHX_SUCCESS, w)
   })"

definition meshx_cmd_list_node_info :: prov_cmd where
  "meshx_cmd_list_node_info d s = Some (MESHX_SUCCESS, s)"

definition meshx_cmd_node_reset :: prov_cmd where
  "meshx_cmd_node_reset d s = Some (MESHX_SUCCESS, s)"

text \<open>\<^verbatim>\<open>meshx_reboot\<close> does nothing on this platform; \<^verbatim>\<open>meshx_shutdown\<close> ends the process, so the
  command has no result.\<close>

definition meshx_cmd_reboot :: prov_cmd where
  "meshx_cmd_reboot d s = Some (MESHX_SUCCESS, s)"

definition meshx_cmd_shutdown :: prov_cmd where
  "meshx_cmd_shutdown d s = None"

section \<open>The table\<close>

datatype cmd_proc =
    PROC_help | PROC_reboot | PROC_shutdown | PROC_list_node_info | PROC_node_reset
  | PROC_prov_scan | PROC_prov_conn | PROC_prov_invite | PROC_prov_capabilites | PROC_prov_start
  | PROC_prov_set_public_key | PROC_prov_public_key | PROC_prov_set_auth | PROC_prov_input_complete
  | PROC_prov_confirmation | PROC_prov_random

definition MESHX_CMD_BASE :: "cmd_proc meshx_cmd list" where
  "MESHX_CMD_BASE = [
     \<lparr>pcmd = ''help'',
      pusage = ''help [cmd]'',
      phelp = ''list command usage and help, use command name as a parameter or '' @ [CHR 0x27] @ ''*'' @ [CHR 0x27] @ '' to list all commands'',
      process = Some PROC_help\<rparr>,
     \<lparr>pcmd = ''reboot'',
      pusage = ''reboot <reason>'',
      phelp = ''reboot system, use reason field indication reboot reason if supported'',
      process = Some PROC_reboot\<rparr>,
     \<lparr>pcmd = ''shutdown'',
      pusage = ''shutdown'',
      phelp = ''shutdown system'',
      process = Some PROC_shutdown\<rparr>]"

definition MESHX_CMD_COMMON :: "cmd_proc meshx_cmd list" where
  "MESHX_CMD_COMMON = [
     \<lparr>pcmd = ''ls'',
      pusage = ''ls'',
      phelp = ''list node information'',
      process = Some PROC_list_node_info\<rparr>,
     \<lparr>pcmd = ''nr'',
      pusage = ''nr'',
      phelp = ''node reset'',
      process = Some PROC_node_reset\<rparr>]"

definition MESHX_CMD_PROV :: "cmd_proc meshx_cmd list" where
  "MESHX_CMD_PROV = [
     \<lparr>pcmd = ''prov_scan'',
      pusage = ''prov_scan [state]'',
      phelp = ''scan unprovisioned beacon, state: 0-hide udb 1-show udb'',
      process = Some PROC_prov_scan\<rparr>,
     \<lparr>pcmd = ''prov_conn'',
      pusage = ''prov_conn [uuid]'',
      phelp = ''connect unprovisioned device use pb-adv, uuid is plaintext in hex format'',
      process = Some PROC_prov_conn\<rparr>,
     \<lparr>pcmd = ''prov_invite'',
      pusage = ''prov_invite [prov id] [attention duration]'',
      phelp = ''send provision invite pdu.'' @ [CR, LF] @ ''  attention duration: 0-255'',
      process = Some PROC_prov_invite\<rparr>,
     \<lparr>pcmd = ''prov_cap'',
      pusage = ''prov_cap [prov id] [element nums] [public key type] [static oob type] [output oob size] [output oob action] [input oob size] [input oob action]'',
      phelp = ''send provision capabilites pdu.'' @ [CR, LF] @ ''  element nums: 1-255'' @ [CR, LF] @ ''  public key type: 0(oob no available) 1(oob available)'' @ [CR, LF] @ ''  static oob type: 0(not available) 1(available)'' @ [CR, LF] @ ''  output oob size: 0(not support) 1-8(maximum oob size)'' @ [CR, LF] @ ''  output oob action: bit0(blink) bit1(beep) bit2(vibrate) bit3(output numeric) bit4(output alpha)'' @ [CR, LF] @ ''  input oob size: 0(not support) 1-8(maximum oob size)'' @ [CR, LF] @ ''  input oob action: bit0(push) bit1(twist) bit2(input numeric) bit3(input alpha)'',
      process = Some PROC_prov_capabilites\<rparr>,
     \<lparr>pcmd = ''prov_start'',
      pusage = ''prov_start [prov_id] [public key] [auth method] [auth action] [auth size]'',
      phelp = ''send provision start pdu.'' @ [CR, LF] @ ''  public key: 0(no oob) 1(oob)'' @ [CR, LF] @ ''  auth method: 0(no oob auth) 1(static oob auth) 2(output oob auth) 3(input oob auth)'' @ [CR, LF] @ ''  auth action: 0(blink-push) 1(beep-twist) 2(vibrate-input numeric) 3(output numeric-input alpha) 4(output alpha)'' @ [CR, LF] @ ''  auth size: 1-8'',
      process = Some PROC_prov_start\<rparr>,
     \<lparr>pcmd = ''prov_set_pub_key'',
      pusage = ''prov_set_pub_key [prov_id] [public key]'',
      phelp = ''set remote public key, public key is plaintext in hex format'',
      process = Some PROC_prov_set_public_key\<rparr>,
     \<lparr>pcmd = ''prov_pub_key'',
      pusage = ''prov_pub_key [prov_id]'',
      phelp = ''send provision public key pdu.'',
      process = Some PROC_prov_public_key\<rparr>,
     \<lparr>pcmd = ''prov_set_auth'',
      pusage = ''prov_set_auth [prov_id] [mode] [auth action] [auth value]'',
      phelp = ''set provision auth value.'' @ [CR, LF] @ ''  mode: 0(no oob) 1(static oob) 2(input/output oob)'' @ [CR, LF] @ ''  action: 0(blink/beep/vibrate/numeric) 1(alpha), ignore this field if mode is 0 or 1'' @ [CR, LF] @ ''  auth value: numeric(mode is 2 and action is 0) hex bin(mode is 1) alpha string(mode is 2 and action is 1)'',
      process = Some PROC_prov_set_auth\<rparr>,
     \<lparr>pcmd = ''prov_icomplete'',
      pusage = ''prov_icomplete [prov_id]'',
      phelp = ''send provision input complete pdu.'',
      process = Some PROC_prov_input_complete\<rparr>,
     \<lparr>pcmd = ''prov_cfm'',
      pusage = ''prov_cfm [prov_id]'',
      phelp = ''send provision confirmation pdu.'',
      process = Some PROC_prov_confirmation\<rparr>,
     \<lparr>pcmd = ''prov_random'',
      pusage = ''prov_random [prov_id]'',
      phelp = ''send provision random pdu.'',
      process = Some PROC_prov_random\<rparr>]"

text \<open>The functions the table points to.\<close>

definition on_app :: "prov_cmd \<Rightarrow> meshx_cmd_parsed_data \<Rightarrow> (cmd_proc, prov_cmds) cmd_env \<Rightarrow> (errno \<times> (cmd_proc, prov_cmds) cmd_env) option" where
  "on_app f d e = do { (ret, s) \<leftarrow> f d (app e); Some (ret, e\<lparr>app := s\<rparr>) }"

fun cmd_run :: "prov_ext \<Rightarrow> (cmd_proc, prov_cmds) cmd_run" where
  "cmd_run ext PROC_help = meshx_cmd_help [CR, LF]"
| "cmd_run ext PROC_reboot = on_app meshx_cmd_reboot"
| "cmd_run ext PROC_shutdown = on_app meshx_cmd_shutdown"
| "cmd_run ext PROC_list_node_info = on_app meshx_cmd_list_node_info"
| "cmd_run ext PROC_node_reset = on_app meshx_cmd_node_reset"
| "cmd_run ext PROC_prov_scan = on_app meshx_cmd_prov_scan"
| "cmd_run ext PROC_prov_conn = on_app meshx_cmd_prov_conn"
| "cmd_run ext PROC_prov_invite = on_app meshx_cmd_prov_invite"
| "cmd_run ext PROC_prov_capabilites = on_app meshx_cmd_prov_capabilites"
| "cmd_run ext PROC_prov_start = on_app meshx_cmd_prov_start"
| "cmd_run ext PROC_prov_set_public_key = on_app (meshx_cmd_prov_set_public_key ext)"
| "cmd_run ext PROC_prov_public_key = on_app meshx_cmd_prov_public_key"
| "cmd_run ext PROC_prov_set_auth = on_app (meshx_cmd_prov_set_auth ext)"
| "cmd_run ext PROC_prov_input_complete = on_app meshx_cmd_prov_input_complete"
| "cmd_run ext PROC_prov_confirmation = on_app meshx_cmd_prov_confirmation"
| "cmd_run ext PROC_prov_random = on_app meshx_cmd_prov_random"

section \<open>Properties\<close>

definition cmd_table :: "cmd_proc meshx_cmd list" where
  "cmd_table = MESHX_CMD_BASE @ MESHX_CMD_COMMON @ MESHX_CMD_PROV"

text \<open>Every entry is found under its name.\<close>

lemma table_find:
  "map (\<lambda>c. map_option process (meshx_cmd_find cmd_table (pcmd c))) cmd_table = map (\<lambda>c. Some (process c)) cmd_table"
  by (simp add: cmd_table_def MESHX_CMD_BASE_def MESHX_CMD_COMMON_def MESHX_CMD_PROV_def)

lemma hex_loop_None:
  "i + n \<le> length t \<Longrightarrow> list_all (\<lambda>c. hex_digit c \<noteq> None) t \<Longrightarrow> i \<le> 2 * length b \<Longrightarrow>
   bin2hex_loop t i n b = None \<longleftrightarrow> 2 * length b < i + n"
proof (induction n arbitrary: i b)
  case (Suc n)
  have "hex_digit (t ! i) \<noteq> None" using Suc.prems(1,2) by (simp add: list_all_length del: not_None_eq)
  then obtain d where d: "hex_digit (t ! i) = Some d" by blast
  show ?case
  proof (cases "i div 2 < length b")
    case True
    then show ?thesis using Suc.IH [of "Suc i"] Suc.prems d by (simp add: bin2hex_step_def Let_def del: not_None_eq)
  next
    case False
    then show ?thesis using Suc.prems d by (simp add: bin2hex_step_def del: not_None_eq)
  qed
qed simp

lemma bin2hex_None:
  assumes "list_all (\<lambda>c. hex_digit c \<noteq> None) t" "length t \<le> 255"
  shows "meshx_bin2hex t (zeros k) (word_of_nat (length t)) = None \<longleftrightarrow> 2 * k < length t"
proof -
  have n: "unat (word_of_nat (length t) :: u8) = length t" using assms(2) by (simp add: unsigned_of_nat take_bit_nat_eq_self)
  have "bin2hex_loop t 0 (length t) (zeros (length t div 2) @ zeros (k - length t div 2)) = None \<longleftrightarrow> 2 * k < length t"
    if "length t div 2 \<le> k"
    using hex_loop_None [of 0 "length t" t "zeros (length t div 2) @ zeros (k - length t div 2)"] assms that by (simp del: not_None_eq)
  then show ?thesis unfolding meshx_bin2hex_def n by (auto simp: mem_write_def)
qed

text \<open>The parameters of \<^verbatim>\<open>prov_set_auth\<close> that overrun the authentication value: more than 32
  hexadecimal digits, more than 8 letters, or none where there has to be one.\<close>

lemma set_auth_overrun:
  assumes "param_ptr d ! 3 = Some t" "length t \<le> MESHX_CMD_MAX_LEN"
  shows "param_val d ! 1 = 1 \<Longrightarrow> list_all (\<lambda>c. hex_digit c \<noteq> None) t \<Longrightarrow> set_auth_value d = None \<longleftrightarrow> 32 < length t"
    and "param_val d ! 1 = 2 \<Longrightarrow> param_val d ! 2 = 1 \<Longrightarrow> set_auth_value d = None \<longleftrightarrow> 8 < length t"
proof -
  have n: "unat (word_of_nat (length t) :: u8) = length t" using assms(2) by (simp add: unsigned_of_nat take_bit_nat_eq_self cmd_sizes)
  show "param_val d ! 1 = 1 \<Longrightarrow> list_all (\<lambda>c. hex_digit c \<noteq> None) t \<Longrightarrow> set_auth_value d = None \<longleftrightarrow> 32 < length t"
    using bin2hex_None [of t 16] assms by (auto simp: set_auth_value_def cmd_sizes simp del: not_None_eq split: Option.bind_splits)
  show "param_val d ! 1 = 2 \<Longrightarrow> param_val d ! 2 = 1 \<Longrightarrow> set_auth_value d = None \<longleftrightarrow> 8 < length t"
    using assms(1) by (simp add: set_auth_value_def Let_def n mem_write_def)
qed

text \<open>What a user types can overrun a buffer: \<^verbatim>\<open>prov_set_auth\<close> on an existing device with an authentication
  text of more than eight letters writes beyond the field of letters, whatever else the
  session and the device hold.\<close>

lemma typed_letters_overrun:
  assumes "cmd_ok s" "cmd_len s = 0" "puser_cmds e = cmd_table" "words_typed [''prov_set_auth'', i, m, a, t]"
    "list_all (\<lambda>p. meshx_atoi p \<noteq> None) [i, m, a, t]" "atoi_value m = 2" "atoi_value a = 1" "8 < length t"
    "meshx_cmd_prov_get_device (word_of_int (atoi_value i)) (app e) = Some (Some p)"
  shows "meshx_cmd_collect (cmd_run ext) (unwords [''prov_set_auth'', i, m, a, t] @ [CR]) s e = None"
proof -
  define c where "c = (the (meshx_cmd_find cmd_table ''prov_set_auth''))"
  have f: "meshx_cmd_find (puser_cmds e) ''prov_set_auth'' = Some c" "process c = Some PROC_prov_set_auth"
    by (simp_all add: assms(3) c_def cmd_table_def MESHX_CMD_BASE_def MESHX_CMD_COMMON_def MESHX_CMD_PROV_def)
  have n: "length [i, m, a, t] \<le> MESHX_CMD_MAX_PARAMETERS" by (simp add: cmd_sizes)
  define line where "line = unwords [''prov_set_auth'', i, m, a, t]"
  have n4: "length [i, m, a, t] = 4" by simp
  obtain d e1 where d: "take 4 (param_ptr d) = map Some [i, m, a, t]" "take 4 (param_val d) = map atoi_value [i, m, a, t]" "app e1 = app e"
    and c: "case cmd_run ext PROC_prov_set_auth d e1 of
       None \<Rightarrow> meshx_cmd_collect (cmd_run ext) (line @ [CR]) s e = None
     | Some (ret, e2) \<Rightarrow> \<exists>s' e'. meshx_cmd_collect (cmd_run ext) (line @ [CR]) s e = Some (s', e') \<and> app e' = app e2 \<and>
         tty e' = tty e2 @ report s ''prov_set_auth'' ret @ cmd_crlf s @ [cmd_prompt s] \<and> cmd_len s' = 0 \<and> cursor_pos s' = 0 \<and>
         at_rest s' \<and> recent s' 0 = line"
    using typed_line [OF assms(1,2,4) n assms(5) f, of "cmd_run ext"] unfolding line_def [symmetric] n4 by blast
  have r: "meshx_cmd_collect (cmd_run ext) (line @ [CR]) s e = None" if "cmd_run ext PROC_prov_set_auth d e1 = None"
    using c that by simp
  have v: "param_ptr d ! 3 = Some t" "param_val d ! 0 = atoi_value i" "param_val d ! 1 = 2" "param_val d ! 2 = 1"
    using arg_cong [OF d(1), of "\<lambda>xs. xs ! 3"] arg_cong [OF d(2), of "\<lambda>xs. xs ! 0"] arg_cong [OF d(2), of "\<lambda>xs. xs ! 1"]
      arg_cong [OF d(2), of "\<lambda>xs. xs ! 2"] assms(6,7) by simp_all
  have "length t \<le> MESHX_CMD_MAX_LEN" using assms(4) by (simp add: words_typed_def)
  then have "set_auth_value d = None" using set_auth_overrun(2) [OF v(1) _ v(3,4)] assms(8) by simp
  then show ?thesis unfolding line_def [symmetric] using assms(9) d(3) v(2) by (intro r) (simp add: on_app_def meshx_cmd_prov_set_auth_def with_device_def)
qed

end
