(* ===== verification/Mesh_Io.thy ===== *)
theory Mesh_Io
  imports Mesh_Cmd
begin

text \<open>
  Formatted output: \<^verbatim>\<open>common/meshx_io.c\<close>, the trace of \<^verbatim>\<open>common/meshx_trace.c\<close> and the terminal
  of \<^verbatim>\<open>platform/linux/meshx_tty.c\<close>.  A writer takes a text to the state of an output and answers
  a count, as the function pointer of the code does; arguments are a list of values, of which
  one is taken at each conversion.  \<^verbatim>\<open>None\<close> is undefined behaviour: a missing argument or one
  of another type, a read beyond the format, a signed overflow.
\<close>

type_synonym 'o io_write = "string \<Rightarrow> 'o \<Rightarrow> int \<times> 'o"

datatype va_arg = VA_STR string | VA_INT int

definition CHAR_MAX_LEN :: nat where "CHAR_MAX_LEN = 3"
definition HEX_MAX_LEN :: nat where "HEX_MAX_LEN = 8"
definition DEC_MAX_LEN :: nat where "DEC_MAX_LEN = 10"

text \<open>A count that is not positive is not added.\<close>

definition write_step :: "'o io_write \<Rightarrow> string \<Rightarrow> int \<times> 'o \<Rightarrow> int \<times> 'o" where
  "write_step pwrite s co =
    (case co of (count, out) \<Rightarrow> case pwrite s out of (step, out) \<Rightarrow> (if step > 0 then count + step else count, out))"

section \<open>Numbers\<close>

text \<open>The digits come least significant first, the buffer beyond them is zero.  The loop writes
  from position \<^verbatim>\<open>i\<close> down; a zero is a place to pad.\<close>

fun number_loop :: "'o io_write \<Rightarrow> nat \<Rightarrow> bool \<Rightarrow> bool \<Rightarrow> string \<Rightarrow> int \<times> 'o \<Rightarrow> (int \<times> 'o) option" where
  "number_loop pwrite 0 zeropad spacepad data co = Some co"
| "number_loop pwrite (Suc i) zeropad spacepad data co =
    (if length data \<le> i then None
     else number_loop pwrite i zeropad spacepad data
       (if data ! i = NUL
        then if zeropad then write_step pwrite ''0'' co
             else if spacepad then write_step pwrite '' '' co
             else co
        else write_step pwrite [data ! i] co))"

definition number_len :: "nat \<Rightarrow> u8 \<Rightarrow> nat \<Rightarrow> nat" where
  "number_len n width max_len =
    (if width \<noteq> 0
     then if n > unat width then unat width
          else if unat width > max_len then max_len else unat width
     else n)"

definition output_numner ::
  "'o io_write \<Rightarrow> nat \<Rightarrow> u8 \<Rightarrow> nat \<Rightarrow> bool \<Rightarrow> bool \<Rightarrow> string \<Rightarrow> 'o \<Rightarrow> (int \<times> 'o) option" where
  "output_numner pwrite n width max_len zeropad spacepad data out =
    number_loop pwrite (number_len n width max_len) zeropad spacepad data (0, out)"

text \<open>The digits of a number in the local buffer, and how many there are.\<close>

definition hex_chars :: string where "hex_chars = ''0123456789ABCDEF''"

definition char_or :: "char \<Rightarrow> u8 \<Rightarrow> char" where
  "char_or c b = char_of (unat (char_u8 c OR b))"

function hex_digits :: "u8 \<Rightarrow> u32 \<Rightarrow> string" where
  "hex_digits lower_case num =
    (if num = 0 then [] else char_or (hex_chars ! unat (num AND 0x0f)) lower_case # hex_digits lower_case (drop_bit 4 num))"
  by auto
termination
proof (relation "measure (\<lambda>(l, n). unat n)")
  fix l :: u8 and n :: u32 assume "n \<noteq> 0"
  then have "0 < unat n" by (simp add: unat_gt_0)
  then show "((l, drop_bit 4 n), l, n) \<in> measure (\<lambda>(l, n). unat n)"
    by (simp add: drop_bit_eq_div unat_div_distrib)
qed simp

declare hex_digits.simps [simp del]

definition num_buffer :: "nat \<Rightarrow> string \<Rightarrow> string option" where
  "num_buffer n ds = (if length ds \<le> n then Some (ds @ replicate (n - length ds) NUL) else None)"

definition output_hex :: "'o io_write \<Rightarrow> u8 \<Rightarrow> u8 \<Rightarrow> bool \<Rightarrow> bool \<Rightarrow> u32 \<Rightarrow> 'o \<Rightarrow> (int \<times> 'o) option" where
  "output_hex pwrite lower_case width zeropad spacepad num out = do {
     let ds = (if num = 0 then ''0'' else hex_digits lower_case num);
     hex \<leftarrow> num_buffer HEX_MAX_LEN ds;
     output_numner pwrite (length ds) width HEX_MAX_LEN zeropad spacepad hex out
   }"

text \<open>A decimal: the sign is written first.  \<^verbatim>\<open>~num + 1\<close> overflows for the least number.\<close>

definition output_dec :: "'o io_write \<Rightarrow> u8 \<Rightarrow> bool \<Rightarrow> bool \<Rightarrow> int \<Rightarrow> int \<times> 'o \<Rightarrow> (int \<times> 'o) option" where
  "output_dec pwrite width zeropad spacepad num co = do {
     let co = (if num < 0 then write_step pwrite ''-'' co else co);
     num \<leftarrow> (if num < 0 then chk32 (NOT num + 1) else Some num);
     let ds = itoa_digits num;
     dec \<leftarrow> num_buffer DEC_MAX_LEN ds;
     (step, out) \<leftarrow> output_numner pwrite (length ds) width DEC_MAX_LEN zeropad spacepad dec (snd co);
     Some (if step > 0 then fst co + step else fst co, out)
   }"

section \<open>The format\<close>

text \<open>The width after the percent sign.\<close>

fun get_width :: "string \<Rightarrow> int \<Rightarrow> (int \<times> string) option" where
  "get_width [] width = Some (width, [])"
| "get_width (c # fmt) width =
    (if is_digit c then do {
       m \<leftarrow> chk32 (width * 10);
       a \<leftarrow> chk32 (m + of_char c);
       get_width fmt (a - 48)
     } else Some (width, c # fmt))"

lemma get_width_shorter: "get_width fmt n = Some (v, fmt') \<Longrightarrow> length fmt' \<le> length fmt"
  by (induction fmt n arbitrary: v fmt' rule: get_width.induct) (fastforce split: if_splits Option.bind_splits)+

definition out_str :: "'o io_write \<Rightarrow> int \<Rightarrow> string \<Rightarrow> int \<times> 'o \<Rightarrow> int \<times> 'o" where
  "out_str pwrite width s co =
    (let s = (if s = [] then ''<NULL>'' else s);
         t = (if width > 0 then take (nat width) s else s)
     in write_step pwrite t co)"

definition out_char :: "'o io_write \<Rightarrow> int \<Rightarrow> int \<Rightarrow> int \<times> 'o \<Rightarrow> int \<times> 'o" where
  "out_char pwrite width num co =
    write_step pwrite [char_of (num mod 256)] (fold (\<lambda>_. write_step pwrite '' '') (replicate (nat (width - 1)) ()) co)"

definition add_count :: "int \<Rightarrow> (int \<times> 'o) option \<Rightarrow> (int \<times> 'o) option" where
  "add_count count r = map_option (\<lambda>(step, out). (if step > 0 then count + step else count, out)) r"

text \<open>One conversion: its letter, which is the terminator at the end of the format, the width and
  the paddings; the arguments that are left.\<close>

definition put_arg ::
  "'o io_write \<Rightarrow> char \<Rightarrow> int \<Rightarrow> bool \<Rightarrow> bool \<Rightarrow> va_arg list \<Rightarrow> int \<times> 'o \<Rightarrow> ((int \<times> 'o) \<times> va_arg list) option" where
  "put_arg pwrite c width zeropad spacepad args co =
    (if c = CHR ''s'' then
       (case args of VA_STR s # args \<Rightarrow> Some (out_str pwrite width s co, args) | _ \<Rightarrow> None)
     else if c = CHR ''x'' \<or> c = CHR ''X'' then
       (case args of
          VA_INT num # args \<Rightarrow> do {
            co \<leftarrow> add_count (fst co) (output_hex pwrite (char_u8 c AND 0x20) (word_of_int width) zeropad spacepad (word_of_int num) (snd co));
            Some (co, args)
          }
        | _ \<Rightarrow> None)
     else if c = CHR ''c'' then
       (case args of VA_INT num # args \<Rightarrow> Some (out_char pwrite width num co, args) | _ \<Rightarrow> None)
     else if c = CHR ''d'' then
       (case args of
          VA_INT num # args \<Rightarrow> do { co \<leftarrow> output_dec pwrite (word_of_int width) zeropad spacepad num co; Some (co, args) }
        | _ \<Rightarrow> None)
     else Some (write_step pwrite [c] co, args))"

text \<open>After a conversion the pointer moves on; at the terminator that is beyond the format.\<close>

function format_loop :: "'o io_write \<Rightarrow> string \<Rightarrow> va_arg list \<Rightarrow> int \<times> 'o \<Rightarrow> (int \<times> 'o) option" where
  "format_loop pwrite [] args co = Some co"
| "format_loop pwrite (c # fmt) args co =
    (if c \<noteq> CHR ''%'' then format_loop pwrite fmt args (write_step pwrite [c] co)
     else
       let zeropad = (fmt \<noteq> [] \<and> hd fmt = CHR ''0'') in
       case get_width fmt 0 of
         None \<Rightarrow> None
       | Some (width, fmt) \<Rightarrow>
           let spacepad = (width \<noteq> 0 \<and> \<not> zeropad) in
           (case fmt of
              [] \<Rightarrow> None
            | k # fmt \<Rightarrow>
                (case put_arg pwrite k width zeropad spacepad args co of
                   None \<Rightarrow> None
                 | Some (co, args) \<Rightarrow> format_loop pwrite fmt args co)))"
  by pat_completeness auto
termination
  by (relation "measure (\<lambda>(p, fmt, a, c). length fmt)") (auto dest!: get_width_shorter)

text \<open>A null writer is \<^verbatim>\<open>None\<close> and gives -1.\<close>

definition meshx_vsprintf :: "'o io_write option \<Rightarrow> string \<Rightarrow> va_arg list \<Rightarrow> 'o \<Rightarrow> (int \<times> 'o) option" where
  "meshx_vsprintf pwrite fmt args out =
    (case pwrite of None \<Rightarrow> Some (-1, out) | Some pwrite \<Rightarrow> format_loop pwrite fmt args (0, out))"

definition meshx_printf :: "'o io_write option \<Rightarrow> string \<Rightarrow> va_arg list \<Rightarrow> 'o \<Rightarrow> (int \<times> 'o) option" where
  "meshx_printf pwrite fmt args out = do {
     (count, out) \<leftarrow> meshx_vsprintf pwrite fmt args out;
     Some (count, out)
   }"

section \<open>The terminal\<close>

text \<open>\<^verbatim>\<open>len\<close> is counted down to its end, so the answer is -1 for every text.\<close>

definition tty_write :: "('p, 'w) cmd_env io_write" where
  "tty_write s e = (-1, meshx_tty_send s e)"

definition meshx_tty_printf :: "string \<Rightarrow> va_arg list \<Rightarrow> ('p, 'w) cmd_env \<Rightarrow> (int \<times> ('p, 'w) cmd_env) option" where
  "meshx_tty_printf fmt args e = do {
     (ret, e) \<leftarrow> meshx_vsprintf (Some tty_write) fmt args e;
     Some (ret, e)
   }"

text \<open>A byte as two hexadecimal digits.\<close>

definition dump_byte :: "u8 \<Rightarrow> string" where
  "dump_byte b = [hex_chars ! unat (drop_bit 4 b), hex_chars ! unat (b AND 0x0f)]"

definition meshx_tty_dump :: "bytes \<Rightarrow> ('p, 'w) cmd_env \<Rightarrow> int \<times> ('p, 'w) cmd_env" where
  "meshx_tty_dump pdata e = (0, fold (\<lambda>b e. meshx_tty_send [dump_byte b ! 1] (meshx_tty_send [dump_byte b ! 0] e)) pdata e)"

section \<open>The trace\<close>

definition MESHX_TRACE_LEVEL_DEBUG :: u16 where "MESHX_TRACE_LEVEL_DEBUG = 0x0100"
definition MESHX_TRACE_LEVEL_INFO :: u16 where "MESHX_TRACE_LEVEL_INFO = 0x0201"
definition MESHX_TRACE_LEVEL_WARN :: u16 where "MESHX_TRACE_LEVEL_WARN = 0x0402"
definition MESHX_TRACE_LEVEL_ERROR :: u16 where "MESHX_TRACE_LEVEL_ERROR = 0x0803"
definition MESHX_TRACE_LEVEL_FATAL :: u16 where "MESHX_TRACE_LEVEL_FATAL = 0x1004"

definition MESHX_TRACE_LEVEL_ALL :: u16 where
  "MESHX_TRACE_LEVEL_ALL = MESHX_TRACE_LEVEL_DEBUG OR MESHX_TRACE_LEVEL_INFO OR MESHX_TRACE_LEVEL_WARN OR
     MESHX_TRACE_LEVEL_ERROR OR MESHX_TRACE_LEVEL_FATAL"

lemmas trace_levels = MESHX_TRACE_LEVEL_DEBUG_def MESHX_TRACE_LEVEL_INFO_def MESHX_TRACE_LEVEL_WARN_def
  MESHX_TRACE_LEVEL_ERROR_def MESHX_TRACE_LEVEL_FATAL_def MESHX_TRACE_LEVEL_ALL_def

definition trace_level_names :: "string list" where
  "trace_level_names = [''DEBUG'', ''INFO '', ''WARN '', ''ERROR'', ''FATAL'']"

definition meshx_trace_level_enable :: "u16 \<Rightarrow> u8 \<Rightarrow> u8" where
  "meshx_trace_level_enable levels active = active OR ucast (drop_bit 8 levels)"

text \<open>The complement is one of an int.\<close>

definition meshx_trace_level_disable :: "u16 \<Rightarrow> u8 \<Rightarrow> u8" where
  "meshx_trace_level_disable levels active = active AND NOT (ucast (drop_bit 8 levels))"

text \<open>The clock of the environment: the formatted date and the microseconds of the second.\<close>

record clock =
  cl_date :: string
  cl_usec :: nat

definition usec_digits :: "nat \<Rightarrow> string" where
  "usec_digits n = map (\<lambda>d. char_of (n div d mod 10 + 48)) [100000, 10000, 1000, 100, 10, 1]"

definition trace_active :: "u8 \<Rightarrow> u16 \<Rightarrow> bool" where
  "trace_active active level \<longleftrightarrow> (ucast active AND drop_bit 8 level) \<noteq> (0 :: u16)"

text \<open>What precedes the message: time, level, module and function.  A level names one of the
  five names by its low four bits.\<close>

definition trace_head :: "clock \<Rightarrow> string \<Rightarrow> u16 \<Rightarrow> string \<Rightarrow> string list option" where
  "trace_head cl module_name level func = do {
     let n = unat (level AND 0x0f);
     name \<leftarrow> (if n < length trace_level_names then Some (trace_level_names ! n) else None);
     Some [cl_date cl, ''.'', usec_digits (cl_usec cl), '' '', name, '' ['', module_name, '' '', func, ''] '']
   }"

definition send_all :: "'o io_write \<Rightarrow> string list \<Rightarrow> 'o \<Rightarrow> 'o" where
  "send_all send ts out = fold (\<lambda>t out. snd (send t out)) ts out"

definition meshx_trace ::
  "'o io_write \<Rightarrow> u8 \<Rightarrow> clock \<Rightarrow> string \<Rightarrow> u16 \<Rightarrow> string \<Rightarrow> string \<Rightarrow> va_arg list \<Rightarrow> 'o \<Rightarrow> 'o option" where
  "meshx_trace send active cl module_name level func fmt args out =
    (if trace_active active level then do {
       h \<leftarrow> trace_head cl module_name level func;
       let out = send_all send h out;
       (_, out) \<leftarrow> meshx_vsprintf (Some send) fmt args out;
       Some (snd (send [CR, LF] out))
     } else Some out)"

definition meshx_trace_dump ::
  "'o io_write \<Rightarrow> u8 \<Rightarrow> clock \<Rightarrow> string \<Rightarrow> u16 \<Rightarrow> string \<Rightarrow> bytes \<Rightarrow> 'o \<Rightarrow> 'o option" where
  "meshx_trace_dump send active cl module_name level func pdata out =
    (if trace_active active level then do {
       h \<leftarrow> trace_head cl module_name level func;
       let out = send_all send h out;
       let out = fold (\<lambda>b. send_all send [[dump_byte b ! 0], [dump_byte b ! 1], '' '']) pdata out;
       Some (snd (send [CR, LF] out))
     } else Some out)"

end
