(* ===== verification/Mesh_Io_Facts.thy ===== *)
theory Mesh_Io_Facts
  imports Mesh_Io
begin

text \<open>
  What formatted output prints, for any output a text is appended to: a decimal is read back by
  \<^verbatim>\<open>meshx_atoi\<close>, a hexadecimal of a given width has that many digits and denotes the number modulo
  that many digits.
\<close>

section \<open>Outputs\<close>

text \<open>A writer appends; what it answers is open.\<close>

definition signed_decimal :: "int \<Rightarrow> string" where
  "signed_decimal n = (if n < 0 then CHR ''-'' # decimal (- n) else decimal n)"

locale appending =
  fixes pwrite :: "'o io_write" and content :: "'o \<Rightarrow> string"
  assumes append: "content (snd (pwrite s out)) = content out @ s"
begin

lemma write_step_content [simp]: "content (snd (write_step pwrite s co)) = content (snd co) @ s"
  by (cases co) (simp add: write_step_def append [symmetric] split: prod.splits)

text \<open>The loop over the digits, padding with zeros.\<close>

lemma number_loop_zero:
  "n \<le> length data \<Longrightarrow> \<exists>co'. number_loop pwrite n True sp data co = Some co' \<and>
    content (snd co') = content (snd co) @ rev (map (\<lambda>c. if c = NUL then CHR ''0'' else c) (take n data))"
proof (induction n arbitrary: co)
  case (Suc n)
  then show ?case using Suc.IH [of "write_step pwrite ''0'' co"] Suc.IH [of "write_step pwrite [data ! n] co"]
    by (auto simp: take_Suc_conv_app_nth)
qed simp

text \<open>And without a width, where every digit is there.\<close>

lemma number_loop_digits:
  "n \<le> length data \<Longrightarrow> NUL \<notin> set (take n data) \<Longrightarrow> \<exists>co'. number_loop pwrite n zp sp data co = Some co' \<and>
    content (snd co') = content (snd co) @ rev (take n data)"
proof (induction n arbitrary: co)
  case (Suc n)
  then show ?case using Suc.IH [of "write_step pwrite [data ! n] co"] by (auto simp: take_Suc_conv_app_nth)
qed simp

lemma add_count_content: "add_count n r = Some co \<Longrightarrow> \<exists>co'. r = Some co' \<and> snd co = snd co'"
  by (auto simp: add_count_def)

lemma output_dec_content:
  assumes "- (2 ^ 31) < n" "n < 2 ^ 31"
  shows "\<exists>co'. output_dec pwrite 0 zp sp n co = Some co' \<and> content (snd co') = content (snd co) @ signed_decimal n"
proof -
  define m where "m = (if n < 0 then - n else n)"
  define ds where "ds = itoa_digits m"
  define co0 where "co0 = (if n < 0 then write_step pwrite ''-'' co else co)"
  have m: "0 \<le> m" "m < 10 ^ 10" using assms by (auto simp: m_def)
  have len: "length ds \<le> DEC_MAX_LEN" using length_itoa_digits [of m 9] m by (simp add: ds_def DEC_MAX_LEN_def)
  have nz: "NUL \<notin> set ds" using itoa_digits_all [of m] by (auto simp: ds_def list_all_iff is_digit_def NUL_def)
  obtain co1 where c: "number_loop pwrite (length ds) zp sp (ds @ replicate (DEC_MAX_LEN - length ds) NUL) (0, snd co0) = Some co1"
    "content (snd co1) = content (snd co0) @ rev ds"
    using number_loop_digits [of "length ds" "ds @ replicate (DEC_MAX_LEN - length ds) NUL" zp sp "(0, snd co0)"] nz by auto
  have v: "(if n < 0 then chk32 (NOT n + 1) else Some n) = Some m" using assms by (auto simp: m_def chk32_def not_int_def)
  have d: "signed_decimal n = (if n < 0 then ''-'' else []) @ rev ds" by (simp add: signed_decimal_def decimal_def ds_def m_def)
  have "output_dec pwrite 0 zp sp n co = Some (if fst co1 > 0 then fst co0 + fst co1 else fst co0, snd co1)"
    unfolding output_dec_def co0_def [symmetric] v bind.bind_lunit ds_def [symmetric] Let_def
    by (cases co1) (simp add: num_buffer_def len output_numner_def number_len_def c)
  then show ?thesis using c(2) by (simp add: co0_def d)
qed

lemma print_dec:
  assumes "- (2 ^ 31) < n" "n < 2 ^ 31"
  shows "\<exists>co. meshx_vsprintf (Some pwrite) ''%d'' [VA_INT n] out = Some co \<and> content (snd co) = content out @ signed_decimal n"
  using output_dec_content [OF assms, of False False "(0, out)"]
  by (auto simp: meshx_vsprintf_def put_arg_def is_digit_def)

end

section \<open>Hexadecimal\<close>

text \<open>The number a list of hexadecimal digits denotes, least significant first.\<close>

fun hex_value :: "string \<Rightarrow> nat" where
  "hex_value [] = 0"
| "hex_value (c # cs) = (case hex_digit c of None \<Rightarrow> 0 | Some d \<Rightarrow> unat d) + 16 * hex_value cs"

definition pad_zero :: "char \<Rightarrow> char" where
  "pad_zero c = (if c = NUL then CHR ''0'' else c)"

lemma hex_digit_NUL [simp]: "hex_digit NUL = None" "NUL \<noteq> CHR ''0''"
  by (simp_all add: hex_digit_def char_u8_def NUL_def)

lemma nibble_table:
  "list_all (\<lambda>k. hex_digit (char_or (hex_chars ! k) 0) = Some (word_of_nat k)) [0..<16]"
  "list_all (\<lambda>k. hex_digit (char_or (hex_chars ! k) 0x20) = Some (word_of_nat k)) [0..<16]"
  by (simp_all add: upt_rec hex_chars_def char_or_def hex_digit_def char_u8_def)

lemma nibble_char:
  assumes "l = 0 \<or> l = 0x20" "k < 16"
  shows "hex_digit (char_or (hex_chars ! k) l) = Some (word_of_nat k)" and "char_or (hex_chars ! k) l \<noteq> NUL"
proof -
  have "k \<in> set [0..<16]" using assms(2) by simp
  then show h: "hex_digit (char_or (hex_chars ! k) l) = Some (word_of_nat k)"
    using nibble_table assms(1) unfolding list_all_iff by blast
  show "char_or (hex_chars ! k) l \<noteq> NUL" using h by force
qed

lemma low_nibble: "unat ((n :: u32) AND 0x0f) = unat n mod 16" "unat (drop_bit 4 (n :: u32)) = unat n div 16"
proof -
  have "n AND 0x0f = take_bit 4 n" using take_bit_eq_mask [of 4 n] by (simp add: mask_eq_exp_minus_1)
  then have "unat (n AND 0x0f) = take_bit 4 (unat n)" by (simp only: unsigned_take_bit_eq)
  then show "unat (n AND 0x0f) = unat n mod 16" by (simp add: take_bit_eq_mod)
  show "unat (drop_bit 4 n) = unat n div 16" by (simp add: drop_bit_eq_div unat_div_distrib)
qed

lemma hex_digits_shape:
  assumes "l = 0 \<or> l = 0x20"
  shows "unat n < 16 ^ k \<Longrightarrow> length (hex_digits l n) \<le> k \<and> NUL \<notin> set (hex_digits l n)"
proof (induction k arbitrary: n)
  case 0
  then show ?case by (subst (1 2) hex_digits.simps) (simp add: unat_eq_0)
next
  case (Suc k)
  have "unat (drop_bit 4 n) < 16 ^ k" using Suc.prems by (simp add: low_nibble div_less_iff_less_mult mult.commute)
  then show ?case using Suc.IH [of "drop_bit 4 n"] nibble_char(2) [OF assms, of "unat (n AND 0x0f)"]
    by (subst (1 2) hex_digits.simps) (auto simp: low_nibble)
qed

lemma pad_zero_char: "c \<noteq> NUL \<Longrightarrow> pad_zero c = c"
  by (simp add: pad_zero_def)

lemma hex_zero: "hex_value (map pad_zero (replicate m NUL)) = 0"
  by (induction m) (simp_all add: pad_zero_def hex_digit_def char_u8_def)

lemma hex_digits_value:
  assumes "l = 0 \<or> l = 0x20"
  shows "w \<le> length (hex_digits l n) + m \<Longrightarrow> hex_value (map pad_zero (take w (hex_digits l n @ replicate m NUL))) = unat n mod 16 ^ w"
proof (induction w arbitrary: n)
  case (Suc w)
  show ?case
  proof (cases "n = 0")
    case True
    have "hex_digits l n = []" by (subst hex_digits.simps) (simp add: True)
    then show ?thesis using True hex_zero by (simp add: take_replicate del: hex_value.simps)
  next
    case False
    define c where "c = char_or (hex_chars ! unat (n AND 0x0f)) l"
    have h: "hex_digits l n = c # hex_digits l (drop_bit 4 n)" by (subst hex_digits.simps) (simp add: False c_def)
    have c: "hex_digit c = Some (word_of_nat (unat n mod 16))" "c \<noteq> NUL"
      using nibble_char [OF assms, of "unat (n AND 0x0f)"] by (simp_all add: low_nibble c_def)
    have "unat (word_of_nat (unat n mod 16) :: u8) = unat n mod 16"
      by (subst unsigned_of_nat) (simp add: take_bit_nat_eq_self)
    then have "hex_value (map pad_zero (take (Suc w) (hex_digits l n @ replicate m NUL))) =
        unat n mod 16 + 16 * ((unat n div 16) mod 16 ^ w)"
      using Suc.IH [of "drop_bit 4 n"] Suc.prems c pad_zero_char [OF c(2)] by (simp add: h low_nibble)
    then show ?thesis by (simp add: mod_mult2_eq)
  qed
qed simp

context appending
begin

lemma print_hex:
  assumes "1 \<le> w" "w \<le> HEX_MAX_LEN" "l = 0 \<or> l = 0x20"
  shows "\<exists>co s. output_hex pwrite l (word_of_nat w) True sp num out = Some co \<and> content (snd co) = content out @ s \<and>
    length s = w \<and> hex_value (rev s) = unat num mod 16 ^ w"
proof -
  define ds where "ds = (if num = 0 then ''0'' else hex_digits l num)"
  have "unat num < 16 ^ 8" using unsigned_less [of num] by simp
  then have n: "length ds \<le> 8" "NUL \<notin> set ds" using hex_digits_shape [OF assms(3), of num 8] by (auto simp: ds_def)
  define data where "data = ds @ replicate (8 - length ds) NUL"
  have w8: "unat (word_of_nat w :: u8) = w" using assms(2) by (subst unsigned_of_nat) (simp add: take_bit_nat_eq_self HEX_MAX_LEN_def)
  then have "(word_of_nat w :: u8) \<noteq> 0" using assms(1) by auto
  then have len: "number_len (length ds) (word_of_nat w) 8 = w" using w8 assms(2) by (auto simp: number_len_def HEX_MAX_LEN_def)
  have d: "length data = 8" using n by (simp add: data_def)
  have v: "hex_value (map pad_zero (take w data)) = unat num mod 16 ^ w"
  proof (cases "num = 0")
    case True
    have "map pad_zero data = map pad_zero (replicate 8 NUL)" using True by (simp add: data_def ds_def pad_zero_def numeral_eq_Suc)
    then have "map pad_zero (take w data) = map pad_zero (replicate (min w 8) NUL)" by (metis take_map take_replicate)
    then show ?thesis using True hex_zero by (metis mod_0 unsigned_0)
  next
    case False
    then show ?thesis using hex_digits_value [OF assms(3), of w num "8 - length ds"] n assms(2) by (simp add: data_def ds_def HEX_MAX_LEN_def)
  qed
  obtain co where "number_loop pwrite w True sp data (0, out) = Some co"
    "content (snd co) = content out @ rev (map pad_zero (take w data))"
    using number_loop_zero [of w data sp "(0, out)"] assms(2) d unfolding pad_zero_def [abs_def] by (auto simp: HEX_MAX_LEN_def)
  moreover have "output_hex pwrite l (word_of_nat w) True sp num out = number_loop pwrite w True sp data (0, out)"
    using n by (simp add: output_hex_def ds_def [symmetric] Let_def num_buffer_def HEX_MAX_LEN_def data_def [symmetric] output_numner_def len)
  ultimately show ?thesis using v d assms(2) by (intro exI [of _ co] exI [of _ "rev (map pad_zero (take w data))"]) (simp add: HEX_MAX_LEN_def)
qed

end

text \<open>The terminal appends, and answers -1.\<close>

interpretation tty_out: appending tty_write tty
  by unfold_locales (simp add: tty_write_def meshx_tty_send_def)

text \<open>What is printed with the decimal conversion is read back by \<^verbatim>\<open>meshx_atoi\<close>: for every value of
  32 bits but those within 48 of the ends of the range, where reading overflows.  The least
  number has no defined output.\<close>

lemma print_read_decimal:
  assumes "- (2 ^ 31) + 49 \<le> n" "n \<le> 2 ^ 31 - 49"
  shows "\<exists>ret e' s. meshx_tty_printf ''%d'' [VA_INT n] e = Some (ret, e') \<and> tty e' = tty e @ s \<and> meshx_atoi s = Some (n, True)"
proof -
  obtain co where co: "meshx_vsprintf (Some tty_write) ''%d'' [VA_INT n] e = Some co" "tty (snd co) = tty e @ signed_decimal n"
    using tty_out.print_dec [of n e] assms by auto
  have "meshx_atoi (signed_decimal n) = Some (n, True)"
    using atoi_decimal [of "if n < 0 then - n else n" 0 "n < 0"] assms by (auto simp: signed_decimal_def)
  then show ?thesis using co by (cases co) (auto simp: meshx_tty_printf_def)
qed

text \<open>The digit of a width, and the conversion of a width padded with zeros.\<close>

definition zero_format :: "nat \<Rightarrow> char \<Rightarrow> string" where
  "zero_format w c = [CHR ''%'', CHR ''0'', ''012345678'' ! w, c]"

lemma digit_width:
  assumes "1 \<le> w" "w \<le> 8" "\<not> is_digit k"
  shows "get_width [CHR ''0'', ''012345678'' ! w, k] 0 = Some (int w, [k])"
proof -
  have "w \<in> set [1..<9]" using assms by auto
  then have "is_digit (''012345678'' ! w) \<and> (of_char (''012345678'' ! w) :: int) = 48 + int w"
    by (auto simp: upt_rec is_digit_def)
  then show ?thesis using assms by (simp add: is_digit_def [of "CHR ''0''"] chk32_def)
qed

text \<open>A hexadecimal of a given width is printed with exactly that many digits, padded with zeros, and they
  denote the number modulo that many digits: the high digits of a number that does not fit
  are lost.\<close>

lemma print_hex_width:
  assumes "1 \<le> w" "w \<le> HEX_MAX_LEN" "c = CHR ''x'' \<or> c = CHR ''X''"
  shows "\<exists>ret e' s. meshx_tty_printf (zero_format w c) [VA_INT n] e = Some (ret, e') \<and> tty e' = tty e @ s \<and> length s = w \<and>
    hex_value (rev s) = unat (word_of_int n :: u32) mod 16 ^ w"
proof -
  define l where "l = (char_u8 c AND 0x20)"
  have l: "l = 0 \<or> l = 0x20" using assms(3) by (auto simp: l_def char_u8_def)
  obtain co s where h: "output_hex tty_write l (word_of_nat w) True False (word_of_int n) e = Some co"
    "tty (snd co) = tty e @ s" "length s = w" "hex_value (rev s) = unat (word_of_int n :: u32) mod 16 ^ w"
    using tty_out.print_hex [OF assms(1,2) l, of False "word_of_int n" e] by blast
  have k: "\<not> is_digit c" "c \<noteq> CHR ''s''" using assms(3) by (auto simp: is_digit_def)
  have w: "get_width [CHR ''0'', ''012345678'' ! w, c] 0 = Some (int w, [c])"
    using digit_width [OF _ _ k(1), of w] assms by (simp add: HEX_MAX_LEN_def)
  have wi: "(word_of_int (int w) :: u8) = word_of_nat w" by simp
  have p: "put_arg tty_write c (int w) True False [VA_INT n] (0, e) = Some ((if fst co > 0 then fst co else 0, snd co), [])"
    unfolding put_arg_def l_def [symmetric] wi using k assms(3) by (cases co) (simp add: h add_count_def)
  have "meshx_vsprintf (Some tty_write) (zero_format w c) [VA_INT n] e = Some (if fst co > 0 then fst co else 0, snd co)"
    unfolding meshx_vsprintf_def zero_format_def by (simp add: w p del: get_width.simps)
  then show ?thesis using h by (auto simp: meshx_tty_printf_def)
qed

end
