(* ===== verification/Mesh_Init.thy ===== *)
theory Mesh_Init
  imports Mesh_Stack_Facts Mesh_Prov_Link
begin

text \<open>
  Starting a node, \<^verbatim>\<open>meshx.c\<close>: the initialisers of all components in the order the program
  calls them, and the start of scanning and of the node's beacon.  The provisioning layer's
  world has its own copies of the states it shares with the mesh stack (scheduler, platform,
  parameters); they are made equal where control passes to it.  The two arguments of
  initialisation are what the memory of the two interfaces holds when it is allocated.  The
  result \<^verbatim>\<open>None\<close> is a write through a null pointer.
\<close>

record node_world =
  nw_mesh :: mesh_world
  nw_prov :: prov_world

section \<open>Operations\<close>

definition share :: "mesh_world \<Rightarrow> prov_world \<Rightarrow> prov_world" where
  "share w p = p\<lparr>pw_gap := mw_gap w, pw_env := mw_env w, pw_node := mw_node w\<rparr>"

definition init_seq :: "mesh_world \<Rightarrow> mesh_world" where
  "init_seq w =
    (case meshx_seq_init 1 (seqs (mw_iv w), mw_env w) of
       (_, s, e) \<Rightarrow> w\<lparr>mw_iv := (mw_iv w)\<lparr>seqs := s\<rparr>, mw_env := e\<rparr>)"

definition init_rpl :: "mesh_world \<Rightarrow> mesh_world option" where
  "init_rpl w = do {
    (_, s, e) \<leftarrow> meshx_rpl_init (rpl_cfg_size (config (mw_node w))) (rpls (mw_iv w), mw_env w);
    Some (w\<lparr>mw_iv := (mw_iv w)\<lparr>rpls := s\<rparr>, mw_env := e\<rparr>)
  }"

definition init_nmc :: "mesh_world \<Rightarrow> mesh_world option" where
  "init_nmc w = do {
    (_, s, e) \<leftarrow> meshx_nmc_init (nmc_cfg_size (config (mw_node w))) (mw_nmc w, mw_env w);
    Some (w\<lparr>mw_nmc := s, mw_env := e\<rparr>)
  }"

definition MESHX_IV_OPERATE_48W :: u32 where "MESHX_IV_OPERATE_48W = 42 * (2 * (96 * 3600))"

definition init_iv :: "mesh_world \<Rightarrow> mesh_world" where
  "init_iv w =
    (case meshx_iv_index_init (iv (mw_iv w), mw_env w) of
       (_, s, e) \<Rightarrow>
         w\<lparr>mw_iv := (mw_iv w)\<lparr>iv := meshx_iv_update_operate_time_set MESHX_IV_OPERATE_48W s\<rparr>, mw_env := e\<rparr>)"

definition init_keys :: "mesh_world \<Rightarrow> mesh_world" where
  "init_keys w =
    w\<lparr>mw_keys := snd (meshx_dev_key_init (snd (meshx_net_key_init (snd (meshx_app_key_init (mw_keys w))))))\<rparr>"

definition init_gap :: "mesh_world \<Rightarrow> mesh_world" where
  "init_gap w =
    (if adv_bearer_enable (config (mw_node w))
     then (case meshx_gap_init (config (mw_node w)) (mw_gap w, mw_env w) of
             (_, s, e) \<Rightarrow> w\<lparr>mw_gap := s, mw_env := e\<rparr>)
     else w)"

text \<open>The advertising bearer gets an interface; no result is tested.\<close>

definition init_adv :: "net_iface \<Rightarrow> mesh_world \<Rightarrow> mesh_world option" where
  "init_adv left w =
    (if adv_bearer_enable (config (mw_node w))
     then
       let (adv_bearer, g) = meshx_bearer_adv_create (mw_gap w);
           (adv_net_iface, w) = meshx_net_iface_create left (w\<lparr>mw_gap := g\<rparr>)
       in do {
         (_, w) \<leftarrow> meshx_net_iface_connect adv_net_iface adv_bearer None None w;
         Some w
       }
     else Some w)"

definition meshx_access_init :: errno where
  "meshx_access_init = MESHX_SUCCESS"

definition init_layers :: "net_iface \<Rightarrow> mesh_world \<Rightarrow> mesh_world" where
  "init_layers left w = snd (meshx_lower_trans_init (snd (meshx_net_init left w)))"

definition meshx_init :: "net_iface \<Rightarrow> net_iface \<Rightarrow> node_world \<Rightarrow> (errno \<times> node_world) option" where
  "meshx_init left0 left1 n = do {
    w \<leftarrow> init_rpl (init_seq (nw_mesh n));
    w \<leftarrow> init_nmc w;
    let w = init_layers left0 (init_gap (snd (meshx_bearer_init (init_keys (init_iv w)))));
        p = snd (meshx_prov_init (nw_prov n)) in do {
    w \<leftarrow> init_adv left1 w;
    Some (MESHX_SUCCESS, \<lparr>nw_mesh = w, nw_prov = share w p\<rparr>) }
  }"

definition MESHX_BEACON_INTERVAL_UNIT :: u32 where "MESHX_BEACON_INTERVAL_UNIT = 100"

definition meshx_run :: "node_world \<Rightarrow> errno \<times> node_world" where
  "meshx_run n =
    (let w = nw_mesh n; np = mw_node w;
         w = (if adv_bearer_enable (config np) then w\<lparr>mw_gap := snd (meshx_gap_start (mw_gap w))\<rparr> else w);
         p = share w (nw_prov n);
         (w, p) =
           (if role (config np) = MESHX_ROLE_DEVICE \<or> role (config np) = MESHX_ROLE_ALL
            then
              let (_, s, e) =
                (if MESHX_ADDRESS_UNASSIGNED = node_addr (param np)
                 then meshx_beacon_start np (mw_gap w) (meshx_bearer_adv_get (mw_gap w)) MESHX_BEACON_TYPE_UDB
                        (udb_interval (param np) * MESHX_BEACON_INTERVAL_UNIT) (pw_beacon p, mw_env w)
                 else meshx_beacon_start np (mw_gap w) (meshx_bearer_adv_get (mw_gap w)) MESHX_BEACON_TYPE_SNB
                        (snb_interval (param np) * MESHX_BEACON_INTERVAL_UNIT) (pw_beacon p, mw_env w))
              in (w\<lparr>mw_env := e\<rparr>, p\<lparr>pw_beacon := s, pw_env := e\<rparr>)
            else (w, p))
     in (MESHX_SUCCESS, \<lparr>nw_mesh = w, nw_prov = p\<rparr>))"

section \<open>Facts\<close>

text \<open>A process that has just started: its static variables are zero.\<close>

definition node_fresh :: "node_world \<Rightarrow> bool" where
  "node_fresh n \<longleftrightarrow>
    (let w = nw_mesh n in
     mw_iv w = \<lparr>iv = iv_reset, seqs = seq_reset, rpls = rpl_reset\<rparr> \<and> mw_nmc w = nmc_reset \<and>
     adv_bearer_type (mw_gap w) = MESHX_BEARER_TYPE_INVALID \<and> beacon_timer (pw_beacon (nw_prov n)) = None)"

text \<open>The platform gives all that is asked for.\<close>

definition env_ok :: "sys_env \<Rightarrow> bool" where
  "env_ok e \<longleftrightarrow> (\<forall>i. mem_src e i) \<and> (\<forall>i. tmr_src e i)"

lemma env_ok_alloc:
  "env_ok e \<Longrightarrow> \<exists>e'. meshx_malloc_ok e = (True, e') \<and> env_ok e'"
  "env_ok e \<Longrightarrow> \<exists>e'. timer_create_ok e = (True, e') \<and> env_ok e'"
  by (simp_all add: env_ok_def meshx_malloc_ok_def timer_create_ok_def)

lemma env_ok_timer:
  "env_ok e \<Longrightarrow> \<exists>tm e'. meshx_timer_create t m e = (MESHX_SUCCESS, Some tm, e') \<and> env_ok e' \<and> tm_mode tm = m"
  by (simp add: meshx_timer_create_def env_ok_def meshx_malloc_ok_def timer_create_ok_def)

lemma env_ok_after:
  "meshx_malloc_ok e = (b, e') \<Longrightarrow> env_ok e \<Longrightarrow> b \<and> env_ok e'"
  by (auto simp: env_ok_def meshx_malloc_ok_def)

text \<open>What each of the first initialisers leaves.\<close>

lemma init_seq_done:
  assumes "env_ok (mw_env w)" "seqs (mw_iv w) = seq_reset"
  shows "\<exists>e. init_seq w = w\<lparr>mw_iv := (mw_iv w)\<lparr>seqs := \<lparr>seq_array = Some [0], meshx_element_num = 1\<rparr>\<rparr>, mw_env := e\<rparr> \<and> env_ok e"
  using env_ok_alloc(1) [OF assms(1)] assms(2)
  by (auto simp: init_seq_def meshx_seq_init_def seq_reset_def)

lemma init_rpl_done:
  assumes "env_ok (mw_env w)" "rpls (mw_iv w) = rpl_reset" "n = rpl_cfg_size (config (mw_node w))"
  shows "\<exists>e. init_rpl w =
    Some (w\<lparr>mw_iv := (mw_iv w)\<lparr>rpls := \<lparr>rpl_array = Some (replicate (unat n) rpl_zero), rpl_index = 0, rpl_size = ucast n\<rparr>\<rparr>,
      mw_env := e\<rparr>) \<and> env_ok e"
  using env_ok_alloc(1) [OF assms(1)] assms(2,3)
  by (auto simp: init_rpl_def meshx_rpl_init_def rpl_reset_def)

lemma init_nmc_done:
  assumes "env_ok (mw_env w)" "mw_nmc w = nmc_reset" "n = nmc_cfg_size (config (mw_node w))"
  shows "\<exists>e. init_nmc w =
    Some (w\<lparr>mw_nmc := \<lparr>nmc_array = Some (replicate (unat n) nmc_zero), nmc_index = 0, nmc_circle = False, nmc_size = ucast n\<rparr>,
      mw_env := e\<rparr>) \<and> env_ok e"
  using env_ok_alloc(1) [OF assms(1)] assms(2,3)
  by (auto simp: init_nmc_def meshx_nmc_init_def nmc_reset_def)

lemma init_iv_done:
  assumes "env_ok (mw_env w)" "iv (mw_iv w) = iv_reset"
  shows "\<exists>tm e. init_iv w =
    w\<lparr>mw_iv := (mw_iv w)\<lparr>iv := iv_reset\<lparr>meshx_iv_operate_tick_timer := Some tm, meshx_iv_operate_tick_time := MESHX_IV_OPERATE_TICK_48W\<rparr>\<rparr>,
      mw_env := e\<rparr> \<and> env_ok e \<and> tm_is_active tm"
proof -
  obtain tm e where t: "meshx_timer_create None MESHX_TIMER_MODE_REPEATED (mw_env w) = (MESHX_SUCCESS, Some tm, e)" "env_ok e"
    using env_ok_timer [OF assms(1)] by blast
  have n: "meshx_iv_operate_tick_timer iv_reset = None" by (simp add: iv_reset_def)
  let ?tm = "the (snd (meshx_timer_start (Some tm) (MESHX_IV_OPERATE_TICK_PERIOD * 1000)))"
  show ?thesis
    using t by (intro exI [of _ ?tm] exI [of _ e]) (simp add: init_iv_def meshx_iv_index_init_def assms(2) n MESHX_IV_OPERATE_48W_def
        MESHX_IV_OPERATE_TICK_48W_def MESHX_IV_OPERATE_TICK_96H_def meshx_iv_update_operate_time_set_def
        meshx_timer_start_def MESHX_IV_OPERATE_TICK_PERIOD_def)
qed

lemma init_gap_done:
  assumes "env_ok (mw_env w)"
  shows "\<exists>g e. init_gap w = w\<lparr>mw_gap := g, mw_env := e\<rparr> \<and> env_ok e \<and>
    adv_bearer_type g = adv_bearer_type (mw_gap w) \<and>
    (adv_bearer_enable (config (mw_node w)) \<longrightarrow>
      meshx_gap_init (config (mw_node w)) (mw_gap w, mw_env w) = (MESHX_SUCCESS, g, e))"
proof (cases "adv_bearer_enable (config (mw_node w))")
  case True
  then show ?thesis using env_ok_alloc(1) [OF assms(1)] by (auto simp: init_gap_def meshx_gap_init_def)
next
  case False
  then show ?thesis using assms
    by (intro exI [of _ "mw_gap w"] exI [of _ "mw_env w"]) (simp add: init_gap_def)
qed

lemma init_layers_done:
  assumes "env_ok (mw_env w)"
  shows "\<exists>e. init_layers left w =
      snd (meshx_lower_trans_init (w\<lparr>mw_env := e, mw_next := Suc (mw_next w),
        mw_iface_mem := (mw_iface_mem w)(mw_next w := Some \<lparr>ni_type = MESHX_NET_IFACE_TYPE_LOOPBACK, ni_bearer = None,
          ni_ifilter = Some meshx_net_default_ifilter, ni_ofilter = Some meshx_net_default_ofilter, ni_info = iface_info_zero\<rparr>),
        mw_ifaces := [mw_next w]\<rparr>)) \<and>
    env_ok e"
proof -
  obtain e where "meshx_malloc_ok (mw_env w) = (True, e)" "env_ok e" using env_ok_alloc(1) [OF assms(1)] by blast
  then show ?thesis
    by (intro exI [of _ e]) (simp add: init_layers_def meshx_net_init_def meshx_net_iface_init_def
        meshx_net_iface_create_loopback_def meshx_request_net_iface_def on_menv_def MESHX_NET_IFACE_MAX_NUM_def iface_upd_def)
qed

lemma lower_trans_init_done:
  assumes "env_ok (mw_env w)"
  shows "\<exists>w'. meshx_lower_trans_init w = (MESHX_SUCCESS, w') \<and> env_ok (mw_env w') \<and>
    mw_iv w' = mw_iv w \<and> mw_keys w' = mw_keys w \<and> mw_nmc w' = mw_nmc w \<and> mw_gap w' = mw_gap w \<and> mw_node w' = mw_node w \<and>
    mw_ifaces w' = mw_ifaces w \<and> mw_next w' = mw_next w \<and> mw_iface_mem w' = mw_iface_mem w \<and> mw_gatt w' = mw_gatt w"
  using env_ok_alloc(1) [OF assms(1)] env_ok_after
  by (fastforce simp: meshx_lower_trans_init_def on_menv_def split: prod.splits bool.splits)

text \<open>The interface of the advertising bearer: the new interface is connected when its memory
  happens to hold a null bearer.\<close>

lemma init_adv_done:
  assumes "env_ok (mw_env w)" "adv_bearer_type (mw_gap w) = MESHX_BEARER_TYPE_INVALID" "length (mw_ifaces w) = 1"
  shows "\<exists>w'. init_adv left w = Some w' \<and> mw_iv w' = mw_iv w \<and> mw_keys w' = mw_keys w \<and> mw_nmc w' = mw_nmc w \<and>
    mw_node w' = mw_node w \<and> same_pools w w' \<and>
    gap_idle (mw_gap w') = gap_idle (mw_gap w) \<and> gap_active (mw_gap w') = gap_active (mw_gap w) \<and>
    gap_enabled (mw_gap w') = gap_enabled (mw_gap w) \<and> hci_log (mw_gap w') = hci_log (mw_gap w) \<and> env_ok (mw_env w') \<and>
    (adv_bearer_enable (config (mw_node w)) \<longrightarrow>
      adv_bearer_type (mw_gap w') = MESHX_BEARER_TYPE_ADV \<and> mw_ifaces w' = mw_ifaces w @ [mw_next w] \<and>
      adv_bearer_iface (mw_gap w') = (if ni_bearer left = None then Some (mw_next w) else None) \<and>
      (\<exists>x. mw_iface_mem w' (mw_next w) = Some x \<and>
        ni_bearer x = (if ni_bearer left = None then Some BEARER_ADV else ni_bearer left)))"
proof (cases "adv_bearer_enable (config (mw_node w))")
  case True
  obtain e where "meshx_malloc_ok (mw_env w) = (True, e)" "env_ok e" using env_ok_alloc(1) [OF assms(1)] by blast
  then show ?thesis using assms True
    by (simp add: init_adv_def meshx_bearer_adv_create_def MESHX_BEARER_TYPE_INVALID_def MESHX_BEARER_TYPE_ADV_def
        meshx_net_iface_create_def meshx_request_net_iface_def MESHX_NET_IFACE_MAX_NUM_def on_menv_def iface_upd_def
        meshx_net_iface_connect_def bearer_iface_def set_bearer_iface_def bearer_type_def same_pools_def tx_view_def rx_view_def fun_eq_iff)
next
  case False
  then show ?thesis using assms(1) by (simp add: init_adv_def same_pools_def)
qed

lemma init_keys_sel [simp]:
  "mw_iv (init_keys w) = mw_iv w" "mw_env (init_keys w) = mw_env w" "mw_nmc (init_keys w) = mw_nmc w"
  "mw_gap (init_keys w) = mw_gap w" "mw_node (init_keys w) = mw_node w" "key_inv cfg (mw_keys (init_keys w))"
  by (simp_all add: init_keys_def meshx_net_key_init_def meshx_app_key_init_def meshx_dev_key_init_def key_inv_def)

lemma bearer_init_sel [simp]:
  "mw_iv (snd (meshx_bearer_init w)) = mw_iv w" "mw_env (snd (meshx_bearer_init w)) = mw_env w"
  "mw_nmc (snd (meshx_bearer_init w)) = mw_nmc w" "mw_gap (snd (meshx_bearer_init w)) = mw_gap w"
  "mw_node (snd (meshx_bearer_init w)) = mw_node w" "mw_keys (snd (meshx_bearer_init w)) = mw_keys w"
  by (simp_all add: meshx_bearer_init_def meshx_bearer_gatt_init_def)

text \<open>What initialisation leaves: the invariants of all components.\<close>

definition node_ready :: "net_iface \<Rightarrow> node_world \<Rightarrow> bool" where
  "node_ready left n \<longleftrightarrow>
    (let w = nw_mesh n; cfg = config (mw_node w) in
     seqs (mw_iv w) = \<lparr>seq_array = Some [0], meshx_element_num = 1\<rparr> \<and> seq_inv (seqs (mw_iv w)) \<and>
     rpl_inv (rpls (mw_iv w)) \<and> rpl_entries (rpls (mw_iv w)) = [] \<and> nmc_holds [] (mw_nmc w) \<and>
     iv_ok (iv (mw_iv w)) \<and> meshx_iv_operate_tick_time (iv (mw_iv w)) = MESHX_IV_OPERATE_TICK_48W \<and>
     meshx_timer_is_active (meshx_iv_operate_tick_timer (iv (mw_iv w))) \<and>
     key_inv cfg (mw_keys w) \<and>
     pools {..<unat (trans_tx_task_num cfg)} {..<unat (trans_rx_task_num cfg)} w \<and>
     pb_adv_devs (nw_prov n) = [] \<and> pw_gap (nw_prov n) = mw_gap w \<and> pw_node (nw_prov n) = mw_node w \<and>
     env_ok (mw_env w) \<and> beacon_timer (pw_beacon (nw_prov n)) = None \<and>
     (adv_bearer_enable cfg \<longrightarrow>
       \<not> gap_enabled (mw_gap w) \<and> gap_idle (mw_gap w) = [0..<unat (gap_task_num cfg)] \<and> gap_active (mw_gap w) = [] \<and>
       adv_bearer_type (mw_gap w) = MESHX_BEARER_TYPE_ADV \<and> length (mw_ifaces w) = 2 \<and>
       adv_bearer_iface (mw_gap w) = (if ni_bearer left = None then Some (last (mw_ifaces w)) else None)))"

lemma init_front:
  assumes "mw_iv w = \<lparr>iv = iv_reset, seqs = seq_reset, rpls = rpl_reset\<rparr>" "mw_nmc w = nmc_reset" "env_ok (mw_env w)"
    "rpl_cfg_size (config (mw_node w)) \<le> 255" "nmc_cfg_size (config (mw_node w)) \<noteq> 0"
  shows "\<exists>w1 w2 tm. init_rpl (init_seq w) = Some w1 \<and> init_nmc w1 = Some w2 \<and> env_ok (mw_env (init_iv w2)) \<and>
    nmc_holds [] (mw_nmc (init_iv w2)) \<and> rpl_inv (rpls (mw_iv (init_iv w2))) \<and> rpl_entries (rpls (mw_iv (init_iv w2))) = [] \<and>
    seqs (mw_iv (init_iv w2)) = \<lparr>seq_array = Some [0], meshx_element_num = 1\<rparr> \<and>
    iv (mw_iv (init_iv w2)) = iv_reset\<lparr>meshx_iv_operate_tick_timer := Some tm, meshx_iv_operate_tick_time := MESHX_IV_OPERATE_TICK_48W\<rparr> \<and>
    tm_is_active tm \<and> mw_gap (init_iv w2) = mw_gap w \<and> mw_node (init_iv w2) = mw_node w"
proof -
  have n: "rpls (mw_iv w) = rpl_reset" "seqs (mw_iv w) = seq_reset" "iv (mw_iv w) = iv_reset" by (simp_all add: assms(1))
  obtain e0 where s: "init_seq w = w\<lparr>mw_iv := (mw_iv w)\<lparr>seqs := \<lparr>seq_array = Some [0], meshx_element_num = 1\<rparr>\<rparr>, mw_env := e0\<rparr>"
    "env_ok e0" using init_seq_done [OF assms(3) n(2)] by blast
  let ?w0 = "w\<lparr>mw_iv := (mw_iv w)\<lparr>seqs := \<lparr>seq_array = Some [0], meshx_element_num = 1\<rparr>\<rparr>, mw_env := e0\<rparr>"
  obtain e1 w1 where r: "init_rpl ?w0 = Some w1" "env_ok e1"
    "w1 = ?w0\<lparr>mw_iv := (mw_iv ?w0)\<lparr>rpls := \<lparr>rpl_array = Some (replicate (unat (rpl_cfg_size (config (mw_node w)))) rpl_zero),
      rpl_index = 0, rpl_size = ucast (rpl_cfg_size (config (mw_node w)))\<rparr>\<rparr>, mw_env := e1\<rparr>"
    using init_rpl_done [of ?w0] s(2) n(1) by auto
  have ri: "rpl_inv (rpls (mw_iv w1)) \<and> rpl_entries (rpls (mw_iv w1)) = []"
    using rpl_init_inv [of "rpl_cfg_size (config (mw_node w))" "ok_env" "rpls (mw_iv w1)"] assms(4)
    by (simp add: r(3) meshx_rpl_init_def rpl_reset_def ok_env_def meshx_malloc_ok_def)
  obtain e2 w2 where m: "init_nmc w1 = Some w2" "env_ok e2"
    "w2 = w1\<lparr>mw_nmc := \<lparr>nmc_array = Some (replicate (unat (nmc_cfg_size (config (mw_node w)))) nmc_zero),
      nmc_index = 0, nmc_circle = False, nmc_size = ucast (nmc_cfg_size (config (mw_node w)))\<rparr>, mw_env := e2\<rparr>"
    using init_nmc_done [of w1] r(2,3) assms(2) by auto
  have mi: "nmc_holds [] (mw_nmc w2)"
    using nmc_init_holds [of "nmc_cfg_size (config (mw_node w))" "ok_env" "mw_nmc w2"] assms(5)
    by (simp add: m(3) meshx_nmc_init_def nmc_reset_def ok_env_def meshx_malloc_ok_def)
  have e: "env_ok (mw_env w2)" "iv (mw_iv w2) = iv_reset" by (simp_all add: m r(3) n)
  show ?thesis using init_iv_done [OF e] r m ri mi s by auto
qed

lemma init_layers_pools:
  assumes "env_ok (mw_env w)"
  shows "let w' = init_layers left w in env_ok (mw_env w') \<and> length (mw_ifaces w') = 1 \<and>
    mw_iv w' = mw_iv w \<and> mw_keys w' = mw_keys w \<and> mw_nmc w' = mw_nmc w \<and> mw_gap w' = mw_gap w \<and> mw_node w' = mw_node w \<and>
    pools {..<unat (trans_tx_task_num (config (mw_node w)))} {..<unat (trans_rx_task_num (config (mw_node w)))} w'"
proof -
  obtain e x where e: "init_layers left w = snd (meshx_lower_trans_init x)" "env_ok e" "mw_env x = e" "length (mw_ifaces x) = 1"
    "mw_iv x = mw_iv w" "mw_keys x = mw_keys w" "mw_nmc x = mw_nmc w" "mw_gap x = mw_gap w" "mw_node x = mw_node w"
    using init_layers_done [OF assms, of left] by fastforce
  obtain w' where w': "meshx_lower_trans_init x = (MESHX_SUCCESS, w')" "env_ok (mw_env w')"
    "mw_iv w' = mw_iv x \<and> mw_keys w' = mw_keys x \<and> mw_nmc w' = mw_nmc x \<and> mw_gap w' = mw_gap x \<and> mw_node w' = mw_node x \<and>
      mw_ifaces w' = mw_ifaces x"
    using lower_trans_init_done [of x] e(2,3) by auto
  from init_pools [OF w'(1)] show ?thesis by (simp add: Let_def e w')
qed

lemma init_pools_all:
  assumes "env_ok (mw_env w)" "adv_bearer_type (mw_gap w) = MESHX_BEARER_TYPE_INVALID" "key_inv (config (mw_node w)) (mw_keys w)"
  shows "\<exists>w'. init_adv left1 (init_layers left0 (init_gap w)) = Some w' \<and> mw_iv w' = mw_iv w \<and> mw_keys w' = mw_keys w \<and>
    mw_nmc w' = mw_nmc w \<and> mw_node w' = mw_node w \<and> env_ok (mw_env w') \<and>
    pools {..<unat (trans_tx_task_num (config (mw_node w)))} {..<unat (trans_rx_task_num (config (mw_node w)))} w' \<and>
    (adv_bearer_enable (config (mw_node w)) \<longrightarrow>
       \<not> gap_enabled (mw_gap w') \<and> gap_idle (mw_gap w') = [0..<unat (gap_task_num (config (mw_node w)))] \<and>
       gap_active (mw_gap w') = [] \<and>
       adv_bearer_type (mw_gap w') = MESHX_BEARER_TYPE_ADV \<and> length (mw_ifaces w') = 2 \<and>
       adv_bearer_iface (mw_gap w') = (if ni_bearer left1 = None then Some (last (mw_ifaces w')) else None))"
proof -
  obtain g e where g: "init_gap w = w\<lparr>mw_gap := g, mw_env := e\<rparr>" "env_ok e" "adv_bearer_type g = MESHX_BEARER_TYPE_INVALID"
    "adv_bearer_enable (config (mw_node w)) \<longrightarrow> meshx_gap_init (config (mw_node w)) (mw_gap w, mw_env w) = (MESHX_SUCCESS, g, e)"
    using init_gap_done [OF assms(1)] assms(2) by auto
  have gi: "adv_bearer_enable (config (mw_node w)) \<longrightarrow>
      \<not> gap_enabled g \<and> gap_idle g = [0..<unat (gap_task_num (config (mw_node w)))] \<and> gap_active g = []"
    using g(4) by (auto simp: meshx_gap_init_def fill_idle_upt Let_def split: prod.splits bool.splits)
  let ?l = "init_layers left0 (init_gap w)"
  have l: "env_ok (mw_env ?l)" "length (mw_ifaces ?l) = 1" "mw_iv ?l = mw_iv w" "mw_keys ?l = mw_keys w" "mw_nmc ?l = mw_nmc w"
    "mw_gap ?l = g" "mw_node ?l = mw_node w"
    "pools {..<unat (trans_tx_task_num (config (mw_node w)))} {..<unat (trans_rx_task_num (config (mw_node w)))} ?l"
    using init_layers_pools [of "init_gap w" left0] g(1,2) by (auto simp: Let_def)
  have t: "adv_bearer_type (mw_gap ?l) = MESHX_BEARER_TYPE_INVALID" by (simp add: l g(3))
  from init_adv_done [OF l(1) t l(2), of left1] obtain w' where w': "init_adv left1 ?l = Some w'"
    "same_pools ?l w'" "mw_iv w' = mw_iv ?l" "mw_keys w' = mw_keys ?l" "mw_nmc w' = mw_nmc ?l" "mw_node w' = mw_node ?l" "env_ok (mw_env w')"
    "gap_idle (mw_gap w') = gap_idle (mw_gap ?l)" "gap_active (mw_gap w') = gap_active (mw_gap ?l)"
    "gap_enabled (mw_gap w') = gap_enabled (mw_gap ?l)"
    "adv_bearer_enable (config (mw_node ?l)) \<longrightarrow> adv_bearer_type (mw_gap w') = MESHX_BEARER_TYPE_ADV \<and>
       mw_ifaces w' = mw_ifaces ?l @ [mw_next ?l] \<and>
       adv_bearer_iface (mw_gap w') = (if ni_bearer left1 = None then Some (mw_next ?l) else None)"
    by (elim exE conjE) simp
  from same_pools_inv(3) [OF w'(2)] show ?thesis
    using w' l gi by (intro exI [of _ w']) simp
qed

lemma init_full:
  assumes "node_fresh n" "env_ok (mw_env (nw_mesh n))" "nmc_cfg_size (config (mw_node (nw_mesh n))) \<noteq> 0"
    "rpl_cfg_size (config (mw_node (nw_mesh n))) \<le> 255"
  shows "\<exists>n'. meshx_init left0 left1 n = Some (MESHX_SUCCESS, n') \<and> node_ready left1 n' \<and> mw_node (nw_mesh n') = mw_node (nw_mesh n)"
proof -
  have f: "mw_iv (nw_mesh n) = \<lparr>iv = iv_reset, seqs = seq_reset, rpls = rpl_reset\<rparr>" "mw_nmc (nw_mesh n) = nmc_reset"
    "adv_bearer_type (mw_gap (nw_mesh n)) = MESHX_BEARER_TYPE_INVALID" "beacon_timer (pw_beacon (nw_prov n)) = None"
    using assms(1) by (simp_all add: node_fresh_def Let_def)
  obtain w1 w2 tm where w: "init_rpl (init_seq (nw_mesh n)) = Some w1" "init_nmc w1 = Some w2" "env_ok (mw_env (init_iv w2))"
    "nmc_holds [] (mw_nmc (init_iv w2))" "rpl_inv (rpls (mw_iv (init_iv w2)))" "rpl_entries (rpls (mw_iv (init_iv w2))) = []"
    "seqs (mw_iv (init_iv w2)) = \<lparr>seq_array = Some [0], meshx_element_num = 1\<rparr>"
    "iv (mw_iv (init_iv w2)) = iv_reset\<lparr>meshx_iv_operate_tick_timer := Some tm, meshx_iv_operate_tick_time := MESHX_IV_OPERATE_TICK_48W\<rparr>"
    "tm_is_active tm" "mw_gap (init_iv w2) = mw_gap (nw_mesh n)" "mw_node (init_iv w2) = mw_node (nw_mesh n)"
    using init_front [OF f(1,2) assms(2,4,3)] by blast
  let ?b = "snd (meshx_bearer_init (init_keys (init_iv w2)))"
  obtain w' where w': "init_adv left1 (init_layers left0 (init_gap ?b)) = Some w'" "mw_iv w' = mw_iv ?b" "mw_keys w' = mw_keys ?b"
    "mw_nmc w' = mw_nmc ?b" "mw_node w' = mw_node ?b" "env_ok (mw_env w')"
    "pools {..<unat (trans_tx_task_num (config (mw_node ?b)))} {..<unat (trans_rx_task_num (config (mw_node ?b)))} w'"
    "adv_bearer_enable (config (mw_node ?b)) \<longrightarrow>
       \<not> gap_enabled (mw_gap w') \<and> gap_idle (mw_gap w') = [0..<unat (gap_task_num (config (mw_node ?b)))] \<and>
       gap_active (mw_gap w') = [] \<and>
       adv_bearer_type (mw_gap w') = MESHX_BEARER_TYPE_ADV \<and> length (mw_ifaces w') = 2 \<and>
       adv_bearer_iface (mw_gap w') = (if ni_bearer left1 = None then Some (last (mw_ifaces w')) else None)"
    using init_pools_all [of ?b left1 left0] w f(3) by auto
  have "meshx_init left0 left1 n = Some (MESHX_SUCCESS, \<lparr>nw_mesh = w', nw_prov = share w' (snd (meshx_prov_init (nw_prov n)))\<rparr>)"
    by (simp add: meshx_init_def w(1,2) w'(1) Let_def)
  moreover have "node_ready left1 \<lparr>nw_mesh = w', nw_prov = share w' (snd (meshx_prov_init (nw_prov n)))\<rparr>"
    using w w' f(4) by (simp add: node_ready_def Let_def share_def meshx_prov_init_def meshx_pb_adv_init_def seq_inv_def
        MESHX_SEQ_MAX_def iv_ok_def iv_reset_def meshx_timer_is_active_def)
  moreover have "mw_node w' = mw_node (nw_mesh n)" using w' w by simp
  ultimately show ?thesis by auto
qed

section \<open>Properties\<close>

text \<open>C37: Starting a node whose platform gives all that is asked for, with a message cache of at
  least one entry and a replay list of at most 255, succeeds, and leaves every component in the
  state its own properties start from: the invariants of the sequence
  numbers, the replay list, the message cache, the keys, the IV index, the transport pools and
  the scheduler hold together.  The advertising bearer has an interface only when the memory
  of that interface happened to hold a null bearer: clearing it by the size of a pointer is
  not enough, and the failed connection is reported as success.\<close>

theorem init_establishes:
  assumes "node_fresh n" "env_ok (mw_env (nw_mesh n))" "nmc_cfg_size (config (mw_node (nw_mesh n))) \<noteq> 0"
    "rpl_cfg_size (config (mw_node (nw_mesh n))) \<le> 255"
  shows "\<exists>n'. meshx_init left0 left1 n = Some (MESHX_SUCCESS, n') \<and> node_ready left1 n' \<and> mw_node (nw_mesh n') = mw_node (nw_mesh n)"
  using assms by (rule init_full)

text \<open>The witnesses' node: the defaults, and interface memory that is clean or not.\<close>

definition demo_node :: node_world where
  "demo_node =
    \<lparr>nw_mesh = demo_mesh\<lparr>mw_gap := demo_gap\<lparr>adv_bearer_type := 0\<rparr>, mw_nmc := nmc_reset,
       mw_node := \<lparr>config = node_default_config, param = node_default_param\<lparr>udb_interval := 1000\<rparr>\<rparr>,
       mw_iv := \<lparr>iv = iv_reset, seqs = seq_reset, rpls = rpl_reset\<rparr>\<rparr>,
     nw_prov = demo_prov_world demo_dev\<rparr>"

lemma demo_node_facts:
  "node_fresh demo_node" "env_ok (mw_env (nw_mesh demo_node))" "nmc_cfg_size (config (mw_node (nw_mesh demo_node))) \<noteq> 0"
  "rpl_cfg_size (config (mw_node (nw_mesh demo_node))) \<le> 255" "adv_bearer_enable (config (mw_node (nw_mesh demo_node)))"
  "ni_bearer demo_iface = Some BEARER_ADV"
  by (simp_all add: demo_node_def node_fresh_def Let_def demo_mesh_def env_ok_def ok_env_def node_default_config_def
      demo_prov_world_def MESHX_BEARER_TYPE_INVALID_def demo_iface_def)

theorem init_establishes_witness:
  "\<exists>n. meshx_init demo_iface demo_iface demo_node = Some (MESHX_SUCCESS, n) \<and> node_ready demo_iface n \<and>
    mw_node (nw_mesh n) = mw_node (nw_mesh demo_node)"
  by (rule init_establishes [OF demo_node_facts(1-4)])

lemma beacon_start_fresh:
  assumes "beacon_timer s = None" "adv_bearer_type g = MESHX_BEARER_TYPE_ADV" "node_addr (param np) = MESHX_ADDRESS_UNASSIGNED"
    "meshx_timer_create None MESHX_TIMER_MODE_REPEATED e = (MESHX_SUCCESS, Some tm, e')"
  shows "meshx_beacon_start np g (meshx_bearer_adv_get g) MESHX_BEACON_TYPE_UDB k (s, e) =
    (MESHX_SUCCESS, s\<lparr>beacon_timer := snd (meshx_timer_start (Some tm) k), beacon_timer_arg := Some BEARER_ADV\<rparr>, e')"
  using assms by (simp add: meshx_beacon_start_def meshx_bearer_adv_get_def bearer_type_def MESHX_BEARER_TYPE_ADV_def
      MESHX_BEARER_TYPE_INVALID_def)

lemma beacon_timeout_udb:
  assumes "adv_bearer_type g = MESHX_BEARER_TYPE_ADV" "node_addr (param np) = MESHX_ADDRESS_UNASSIGNED"
    "length (dev_uuid (config np)) = 16"
  shows "meshx_beacon_async_handle_timeout aes np ivs ks s (Some BEARER_ADV) g =
    Some (snd (meshx_gap_add_action (ACTION_ADV MESHX_GAP_ADV_TYPE_NONCONN_IND
      (word_of_nat (length (udb_bytes (dev_uuid (config np)) s) + 1) # MESHX_GAP_ADTYPE_MESH_BEACON # udb_bytes (dev_uuid (config np)) s)) g))"
proof -
  have "length (udb_bytes (dev_uuid (config np)) s) \<le> 29" using assms(3) by (simp add: udb_bytes_def mem16_def mem32_def)
  then show ?thesis using assms
    by (simp add: meshx_beacon_async_handle_timeout_def meshx_beacon_send_udb_def meshx_bearer_adv_send_def
        MESHX_IS_BEARER_ADV_PKT_TYPE_VALID_def MESHX_GAP_ADV_DATA_MAX_LEN_def bearer_type_def Let_def split: prod.splits)
qed

text \<open>C38: A device that has been initialised and not provisioned scans and announces itself: its
  timer repeats, and each expiry submits its UUID for advertising.  The interval is a hundred
  times the one asked for: the setter has already converted the unit of 100 ms to milliseconds
  when the start-up code converts it again.\<close>

theorem run_announces:
  assumes "node_ready left n"
    "meshx_node_param_set MESHX_NODE_PARAM_TYPE_UDB_INTERVAL (mem32 x) np = Some (r0, mw_node (nw_mesh n))"
    "node_addr (param np) = MESHX_ADDRESS_UNASSIGNED" "adv_bearer_enable (config np)" "role (config np) \<noteq> MESHX_ROLE_PROVISIONER"
    "length (dev_uuid (config np)) = 16"
  shows "\<exists>n' tm. meshx_run n = (MESHX_SUCCESS, n') \<and> gap_enabled (mw_gap (nw_mesh n')) \<and>
    last (hci_log (mw_gap (nw_mesh n'))) = GAP_SCAN_START \<and>
    beacon_timer (pw_beacon (nw_prov n')) = Some tm \<and> tm_mode tm = MESHX_TIMER_MODE_REPEATED \<and>
    tm_it_interval tm = x * 100 * MESHX_BEACON_INTERVAL_UNIT \<and>
    meshx_beacon_async_handle_timeout aes (mw_node (nw_mesh n')) (iv (mw_iv (nw_mesh n'))) (mw_keys (nw_mesh n'))
      (pw_beacon (nw_prov n')) (beacon_timer_arg (pw_beacon (nw_prov n'))) (mw_gap (nw_mesh n')) =
    Some (snd (meshx_gap_add_action
      (ACTION_ADV MESHX_GAP_ADV_TYPE_NONCONN_IND
        (word_of_nat (length (udb_bytes (dev_uuid (config np)) (pw_beacon (nw_prov n))) + 1) # MESHX_GAP_ADTYPE_MESH_BEACON #
          udb_bytes (dev_uuid (config np)) (pw_beacon (nw_prov n))))
      (mw_gap (nw_mesh n'))))"
proof -
  let ?w = "nw_mesh n"
  have eb: "env_ok (mw_env ?w)" "beacon_timer (pw_beacon (nw_prov n)) = None"
    using assms(1) by (simp_all add: node_ready_def Let_def)
  have np: "mw_node ?w = np\<lparr>param := (param np)\<lparr>udb_interval := x * 100\<rparr>\<rparr>"
  proof -
    have "mem_read (mem32 x) 0 4 = Some (mem32 x)" by (simp add: mem_read_def mem32_def)
    then show ?thesis using assms(2) by (auto simp: meshx_node_param_set_def)
  qed
  have g: "\<not> gap_enabled (mw_gap ?w)" "adv_bearer_type (mw_gap ?w) = MESHX_BEARER_TYPE_ADV"
    using assms(1,4) np by (simp_all add: node_ready_def Let_def)
  obtain tm e where t: "meshx_timer_create None MESHX_TIMER_MODE_REPEATED (mw_env ?w) = (MESHX_SUCCESS, Some tm, e)"
    "tm_mode tm = MESHX_TIMER_MODE_REPEATED" using env_ok_timer [OF eb(1)] by blast
  let ?g = "snd (meshx_gap_start (mw_gap ?w))"
  have ro: "role (config np) = MESHX_ROLE_DEVICE \<or> role (config np) = MESHX_ROLE_ALL"
    using assms(5) by (cases "role (config np)") auto
  have gs: "adv_bearer_type ?g = MESHX_BEARER_TYPE_ADV" "gap_enabled ?g" "last (hci_log ?g) = GAP_SCAN_START"
    using g by (simp_all add: meshx_gap_start_def)
  let ?s = "(pw_beacon (nw_prov n))\<lparr>beacon_timer := snd (meshx_timer_start (Some tm) (x * 100 * MESHX_BEACON_INTERVAL_UNIT)),
    beacon_timer_arg := Some BEARER_ADV\<rparr>"
  have r: "meshx_run n = (MESHX_SUCCESS, \<lparr>nw_mesh = ?w\<lparr>mw_gap := ?g, mw_env := e\<rparr>,
      nw_prov = (share (?w\<lparr>mw_gap := ?g\<rparr>) (nw_prov n))\<lparr>pw_beacon := ?s, pw_env := e\<rparr>\<rparr>)"
    using ro gs(1) t(1) eb(2) assms(3,4) beacon_start_fresh [of "pw_beacon (nw_prov n)"]
    by (simp add: meshx_run_def Let_def np share_def)
  have u: "udb_bytes u (b\<lparr>beacon_timer := t, beacon_timer_arg := a\<rparr>) = udb_bytes u b" for u b t a by (simp add: udb_bytes_def)
  show ?thesis
    unfolding r using t(2) gs assms(3) beacon_timeout_udb [OF gs(1), where s = ?s and np = "np\<lparr>param := (param np)\<lparr>udb_interval := x * 100\<rparr>\<rparr>"] assms(6)
    by (simp add: np meshx_timer_start_def u)
qed

text \<open>The witness initialises the node and then asks for one beacon each second: it gets one in
  a hundred seconds.\<close>

theorem run_announces_witness:
  "\<exists>n n' tm. node_ready demo_iface n \<and> meshx_run n = (MESHX_SUCCESS, n') \<and>
    beacon_timer (pw_beacon (nw_prov n')) = Some tm \<and> tm_it_interval tm = 100000"
proof -
  let ?np = "\<lparr>config = node_default_config, param = node_default_param\<rparr>"
  obtain n where n: "node_ready demo_iface n" "mw_node (nw_mesh n) = mw_node (nw_mesh demo_node)"
    using init_full [OF demo_node_facts(1-4)] by blast
  have "meshx_node_param_set MESHX_NODE_PARAM_TYPE_UDB_INTERVAL (mem32 10) ?np = Some (MESHX_SUCCESS, mw_node (nw_mesh n))"
    by (simp add: n(2) demo_node_def meshx_node_param_set_def mem_read_def mem32_def of_mem32_def)
  from run_announces [OF n(1) this, of undefined] n(1) show ?thesis
    by (auto simp: node_default_param_def node_default_config_def MESHX_BEACON_INTERVAL_UNIT_def)
qed

end
