(* ===== verification/Mesh_Main.thy ===== *)
theory Mesh_Main
  imports Mesh_Init Mesh_Async Mesh_Tx_Facts
begin

text \<open>
  The running node: what the main loop of a program (\<^verbatim>\<open>tests/meshx_device.c\<close>,
  \<^verbatim>\<open>tests/meshx_provisioner.c\<close>) does with an advertising report and with the message a
  timer queued, with the handlers of all components in their places.  The number is the depth
  to which layers of the mesh stack may call each other.  A message of the beacon's timer
  names the one advertising bearer, that of the IV index nothing.
\<close>

section \<open>Dispatch\<close>

text \<open>Control passes to the provisioning layer and back.\<close>

definition take_back :: "prov_world \<Rightarrow> node_world \<Rightarrow> node_world" where
  "take_back p n = \<lparr>nw_mesh = (nw_mesh n)\<lparr>mw_gap := pw_gap p, mw_env := pw_env p, mw_node := pw_node p\<rparr>, nw_prov = p\<rparr>"

definition in_mesh :: "(mesh_world \<Rightarrow> mesh_world option) \<Rightarrow> node_world \<Rightarrow> node_world option" where
  "in_mesh f n = do { w \<leftarrow> f (nw_mesh n); Some (n\<lparr>nw_mesh := w\<rparr>) }"

definition node_beacon_timeout :: "aes128 \<Rightarrow> node_world \<Rightarrow> node_world option" where
  "node_beacon_timeout aes n =
    (let w = nw_mesh n; s = pw_beacon (nw_prov n) in do {
      g \<leftarrow> meshx_beacon_async_handle_timeout aes (mw_node w) (iv (mw_iv w)) (mw_keys w) s (beacon_timer_arg s) (mw_gap w);
      Some (n\<lparr>nw_mesh := w\<lparr>mw_gap := g\<rparr>\<rparr>)
    })"

definition node_handlers :: "nat \<Rightarrow> aes128 \<Rightarrow> prov_ext \<Rightarrow> node_world async_handlers" where
  "node_handlers d aes ext =
    \<lparr>on_pb_adv = (\<lambda>m n. do {
       p \<leftarrow> meshx_pb_adv_async_handle_timeout ext (am_data m) (share (nw_mesh n) (nw_prov n));
       Some (take_back p n) }),
     on_beacon = (\<lambda>m. node_beacon_timeout aes),
     on_lower_tx = (\<lambda>m. in_mesh (meshx_lower_trans_async_handle_tx_timeout (net_send_at d aes) (am_data m))),
     on_lower_rx_ack = (\<lambda>m. in_mesh (meshx_lower_trans_async_handle_rx_ack_timeout (net_send_at d aes) (am_data m))),
     on_lower_rx_incomplete = (\<lambda>m. in_mesh (meshx_lower_trans_async_handle_rx_incomplete_timeout (am_data m))),
     on_iv_index = (\<lambda>m. in_mesh (\<lambda>w. do {
       v \<leftarrow> meshx_iv_index_async_handle_timeout (meshx_is_lower_trans_busy w) (mw_iv w);
       Some (w\<lparr>mw_iv := v\<rparr>) })),
     on_proxy_sar = (\<lambda>m. in_mesh (meshx_proxy_async_handle_sar_timeout (am_data m)))\<rparr>"

text \<open>The layers above the advertising bearer.\<close>

definition node_net_receive :: "nat \<Rightarrow> aes128 \<Rightarrow> nat option \<Rightarrow> bytes \<Rightarrow> node_world \<Rightarrow> (errno \<times> node_world) option" where
  "node_net_receive d aes i pdata n = do {
    (r, w) \<leftarrow> net_receive_at d aes i pdata (nw_mesh n);
    Some (r, n\<lparr>nw_mesh := w\<rparr>)
  }"

definition node_prov_receive :: "prov_ext \<Rightarrow> meshx_bearer_t \<Rightarrow> bytes \<Rightarrow> node_world \<Rightarrow> (errno \<times> node_world) option" where
  "node_prov_receive ext b pdata n = do {
    (r, p) \<leftarrow> meshx_prov_receive ext b pdata (share (nw_mesh n) (nw_prov n));
    Some (r, take_back p n)
  }"

definition node_beacon_receive :: "aes128 \<Rightarrow> meshx_bearer_t \<Rightarrow> bytes \<Rightarrow> node_world \<Rightarrow> (errno \<times> node_world) option" where
  "node_beacon_receive aes b pdata n =
    (let w = nw_mesh n in do {
      (r, _, keys, v) \<leftarrow> meshx_beacon_receive aes (meshx_is_lower_trans_busy w) pdata (mw_keys w, mw_iv w);
      Some (r, n\<lparr>nw_mesh := w\<lparr>mw_keys := keys, mw_iv := v\<rparr>\<rparr>)
    })"

definition node_receive :: "nat \<Rightarrow> aes128 \<Rightarrow> prov_ext \<Rightarrow> bytes \<Rightarrow> node_world \<Rightarrow> (errno \<times> node_world) option option" where
  "node_receive d aes ext report n =
    meshx_gap_handle_adv_report
      (\<lambda>t pdata n. meshx_bearer_adv_receive (node_net_receive d aes) (node_prov_receive ext) (node_beacon_receive aes)
        (\<lambda>n r. Some (r, n)) (mw_gap (nw_mesh n)) (meshx_bearer_adv_get (mw_gap (nw_mesh n))) t pdata n)
      (\<lambda>n r. Some (r, n)) report n"

text \<open>A write to a characteristic of a GATT connection.\<close>

definition node_gatt_event ::
  "nat \<Rightarrow> aes128 \<Rightarrow> meshx_gatts_evt \<Rightarrow> u16 \<Rightarrow> u16 \<Rightarrow> bytes option \<Rightarrow> node_world \<Rightarrow> node_world option" where
  "node_gatt_event d aes evt conn_handle char_value_handle pdata =
    in_mesh (meshx_gatts_event_process aes (\<lambda>i. net_receive_at d aes (Some i)) evt conn_handle char_value_handle pdata)"

section \<open>The node as a whole\<close>

text \<open>What happens to a running node, in any order: a report arrives, a characteristic is
  written, a timer expires and queues its message, the main loop takes a message, the
  application sends, or it uses the provisioning layer.\<close>

inductive node_step ::
  "aes128 \<Rightarrow> prov_ext \<Rightarrow> node_world async_world \<Rightarrow> node_world async_world \<Rightarrow> bool" for aes ext where
  report: "node_receive d aes ext rep (async_state a) = Some (Some (r, n)) \<Longrightarrow> node_step aes ext a (a\<lparr>async_state := n\<rparr>)"
| gatt: "node_gatt_event d aes evt h v pdata (async_state a) = Some n \<Longrightarrow> node_step aes ext a (a\<lparr>async_state := n\<rparr>)"
| expire: "timer_message t (node_handlers d aes ext) q a = Some a' \<Longrightarrow> node_step aes ext a a'"
| process: "meshx_async_msg_process (node_handlers d aes ext) a = Some a' \<Longrightarrow> node_step aes ext a a'"
| send: "access_send_at d aes pdata c (nw_mesh (async_state a)) = Some (r, c', w) \<Longrightarrow>
    node_step aes ext a (a\<lparr>async_state := (async_state a)\<lparr>nw_mesh := w\<rparr>\<rparr>)"
| provision: "node_step aes ext a (a\<lparr>async_state := take_back p (async_state a)\<rparr>)"
| run: "node_step aes ext a (a\<lparr>async_state := snd (meshx_run (async_state a))\<rparr>)"

text \<open>The message nodes: each is on exactly one of the two lists.\<close>

definition msg_pool :: "nat set \<Rightarrow> 'w async_world \<Rightarrow> bool" where
  "msg_pool Q a \<longleftrightarrow> distinct (async_idle a @ map fst (async_active a)) \<and>
    set (async_idle a) \<union> fst ` set (async_active a) = Q"

lemma process_msg_pool:
  assumes "msg_pool Q a" "meshx_async_msg_process h a = Some a'"
  shows "msg_pool Q a'"
  using assms by (auto simp: meshx_async_msg_process_def meshx_async_msg_release_def msg_pool_def
      split: list.splits prod.splits Option.bind_splits; force)

lemma timer_msg_pool:
  assumes "msg_pool Q a" "timer_message t h q a = Some a'"
  shows "msg_pool Q a'"
proof (cases "async_idle a")
  case Nil
  then show ?thesis using assms
    by (simp add: timer_message_def meshx_async_msg_send_def meshx_async_msg_request_def)
next
  case (Cons x xs)
  let ?m = "\<lparr>am_type = t, am_data = q, am_data_len = 0\<rparr>"
  let ?b = "a\<lparr>async_idle := xs, async_active := async_active a @ [(x, ?m)]\<rparr>"
  have b: "msg_pool Q ?b" using assms(1) Cons by (auto simp: msg_pool_def)
  have "a' = ?b \<or> meshx_async_msg_process h ?b = Some a'"
    using assms(2) Cons
    by (auto simp: timer_message_def meshx_async_msg_send_def meshx_async_msg_request_def meshx_default_msg_notify_def Let_def
        split: if_splits Option.bind_splits)
  then show ?thesis using b process_msg_pool by blast
qed

text \<open>The task pools.\<close>

lemma pools_take_back: "pools S R (nw_mesh (take_back p n)) = pools S R (nw_mesh n)"
  by (rule same_pools_inv(3)) (simp add: take_back_def same_pools_def tx_view_def rx_view_def fun_eq_iff)

lemma same_pools_more [simp]:
  "same_pools w (w\<lparr>mw_keys := ks, mw_iv := v\<rparr>)" "same_pools w (w\<lparr>mw_proxy := x\<rparr>)"
  "same_pools w (w\<lparr>mw_env := e, mw_proxy := x\<rparr>)" "same_pools w (w\<lparr>mw_env := e, mw_next := k, mw_proxy := x\<rparr>)"
  "same_pools w (w\<lparr>mw_gap := g, mw_env := e\<rparr>)"
  by (simp_all add: same_pools_def tx_view_def rx_view_def fun_eq_iff)

lemma net_step_pools: "net_receive_at d aes i pdata w = Some (r, w') \<Longrightarrow> pools S R w \<Longrightarrow> pools S R w'"
  by (rule net_receive_at_pools)

lemma node_dispatch_pools:
  assumes "async_dispatch (node_handlers d aes ext) m n = Some n'" "pools S R (nw_mesh n)"
  shows "pools S R (nw_mesh n')"
  using assms
  by (auto simp: async_dispatch_def node_handlers_def in_mesh_def node_beacon_timeout_def pools_take_back Let_def
      meshx_proxy_async_handle_sar_timeout_def meshx_proxy_rx_ctx_release_def same_pools_inv(3) [OF same_pools_more(2)]
      same_pools_inv(3) [OF same_pools_fields(1)] same_pools_inv(3) [OF same_pools_fields(5)]
      split: if_splits Option.bind_splits
      intro: stack_step_pools [OF stack_step.tx_timer] stack_step_pools [OF stack_step.ack_timer]
        stack_step_pools [OF stack_step.incomplete_timer])

lemma node_receive_pools:
  assumes "node_receive d aes ext rep n = Some (Some (r, n'))" "pools S R (nw_mesh n)"
  shows "pools S R (nw_mesh n')"
  using assms
  by (auto simp: node_receive_def meshx_gap_handle_adv_report_def meshx_bearer_adv_receive_def node_net_receive_def
      node_prov_receive_def node_beacon_receive_def pools_take_back same_pools_inv(3) [OF same_pools_more(1)] Let_def
      split: if_splits Option.bind_splits option.splits intro: net_step_pools)

lemma proxy_request_pools:
  assumes "meshx_proxy_rx_ctx_request len w = (x, w')"
  shows "same_pools w w'"
  using assms by (auto simp: meshx_proxy_rx_ctx_request_def on_menv_def same_pools_def tx_view_def rx_view_def fun_eq_iff Let_def
      split: prod.splits bool.splits if_splits)

lemma proxy_upd_pools [simp]: "same_pools w (proxy_upd p f w)"
  by (simp add: proxy_upd_def)

lemma proxy_expand_pools:
  assumes "meshx_proxy_rx_ctx_expand p x len w = Some (r, x', w')"
  shows "same_pools w w'"
  using assms by (auto simp: meshx_proxy_rx_ctx_expand_def on_menv_def proxy_upd_def same_pools_def tx_view_def rx_view_def
      fun_eq_iff Let_def split: prod.splits bool.splits Option.bind_splits)

lemma proxy_release_pools: "meshx_proxy_rx_ctx_release p w = Some w' \<Longrightarrow> same_pools w w'"
  by (auto simp: meshx_proxy_rx_ctx_release_def split: if_splits)

lemma proxy_dispatch_pools:
  assumes "meshx_proxy_dispatch aes (\<lambda>i. net_receive_at d aes (Some i)) b t data w = Some (r, w')" "pools S R w"
  shows "pools S R w'"
  using assms
  by (auto simp: meshx_proxy_dispatch_def Let_def same_pools_inv(3) [OF same_pools_more(1)]
      split: if_splits Option.bind_splits option.splits intro: net_step_pools)

lemma proxy_first_pools:
  assumes "proxy_receive_first b sar t data len w = Some (r, w')" "pools S R w"
  shows "pools S R w'"
proof -
  obtain x v where v: "meshx_proxy_rx_ctx_request len w = (x, v)" by fastforce
  have "pools S R v" using assms(2) same_pools_inv(3) [OF proxy_request_pools [OF v]] by simp
  then show ?thesis using assms v same_pools_inv(3) [OF proxy_upd_pools]
    by (auto simp: proxy_receive_first_def split: if_splits Option.bind_splits option.splits)
qed

lemma proxy_next_pools:
  assumes "proxy_receive_next aes (\<lambda>i. net_receive_at d aes (Some i)) b p x sar t data w = Some (r, w')" "pools S R w"
  shows "pools S R w'"
proof -
  have drop: "pools S R v'" if "meshx_proxy_rx_ctx_release p v = Some v'" "pools S R v" for v v'
    using same_pools_inv(3) [OF proxy_release_pools [OF that(1)]] that(2) by simp
  have grow: "pools S R v'" if "meshx_proxy_rx_ctx_expand p y len v = Some (q, y', v')" "pools S R v" for y len v q y' v'
    using same_pools_inv(3) [OF proxy_expand_pools [OF that(1)]] that(2) by simp
  have upd: "pools S R (proxy_upd p f v) = pools S R v" for f v by (rule same_pools_inv(3)) simp
  have fin: "pools S R w2"
    if "meshx_proxy_dispatch aes (\<lambda>i. net_receive_at d aes (Some i)) b q body (proxy_upd p f v) = Some (k, v1)"
      "meshx_proxy_rx_ctx_release p v1 = Some w2" "pools S R v" for q body f v k v1 w2
    using drop [OF that(2)] proxy_dispatch_pools [OF that(1)] that(3) by (simp add: upd)
  show ?thesis using assms
    by (auto simp: proxy_receive_next_def Let_def upd split: if_splits Option.bind_splits intro: fin drop)
      (use fin drop grow in blast)+
qed

lemma proxy_receive_pools:
  assumes "meshx_proxy_receive aes (\<lambda>i. net_receive_at d aes (Some i)) b pdata w = Some (r, w')" "pools S R w"
  shows "pools S R w'"
  using assms proxy_first_pools proxy_next_pools
  by (cases pdata) (auto simp: meshx_proxy_receive_def Let_def split: if_splits option.splits)

lemma node_gatt_pools:
  assumes "node_gatt_event d aes evt h v pdata n = Some n'" "pools S R (nw_mesh n)"
  shows "pools S R (nw_mesh n')"
  using assms
  by (auto simp: node_gatt_event_def in_mesh_def meshx_gatts_event_process_def meshx_bearer_gatt_receive_def
      meshx_proxy_server_receive_def meshx_prov_server_receive_def
      split: meshx_gatts_evt.splits if_splits option.splits Option.bind_splits intro: proxy_receive_pools)

lemma node_run_pools: "pools S R (nw_mesh (snd (meshx_run n))) = pools S R (nw_mesh n)"
  by (rule same_pools_inv(3)) (simp add: meshx_run_def Let_def same_pools_def tx_view_def rx_view_def fun_eq_iff split: prod.splits)

lemma process_pools:
  assumes "meshx_async_msg_process (node_handlers d aes ext) a = Some a'" "pools S R (nw_mesh (async_state a))"
  shows "pools S R (nw_mesh (async_state a'))"
  using assms by (auto simp: meshx_async_msg_process_def meshx_async_msg_release_def
      split: list.splits prod.splits Option.bind_splits intro: node_dispatch_pools)

lemma expire_pools:
  assumes "timer_message t (node_handlers d aes ext) q a = Some a'" "pools S R (nw_mesh (async_state a))"
  shows "pools S R (nw_mesh (async_state a'))"
  using assms by (auto simp: timer_message_def meshx_async_msg_send_def meshx_async_msg_request_def meshx_default_msg_notify_def
      Let_def split: list.splits if_splits Option.bind_splits intro: process_pools)

lemma node_step_keeps:
  assumes "node_step aes ext a a'" "pools S R (nw_mesh (async_state a))" "msg_pool Q a"
  shows "pools S R (nw_mesh (async_state a')) \<and> msg_pool Q a'"
  using assms
proof (induction rule: node_step.induct)
  case (report d rep a r n)
  then show ?case using node_receive_pools by (auto simp: msg_pool_def)
next
  case (gatt d evt h v pdata a n)
  then show ?case using node_gatt_pools by (auto simp: msg_pool_def)
next
  case (expire t d q a a')
  then show ?case using expire_pools timer_msg_pool by blast
next
  case (process d a a')
  then show ?case using process_pools process_msg_pool by blast
next
  case (send d pdata c a r c' w)
  then show ?case using stack_step_pools [OF stack_step.message] by (auto simp: msg_pool_def)
qed (simp_all add: msg_pool_def pools_take_back node_run_pools)

text \<open>A fully acknowledged task goes back to the idle list without its memory.\<close>

lemma ack_completes:
  assumes "tx_active w = [p]" "tx_pending w = []"
    "MESHX_LOWER_TRANS_SEQ_ZERO (mc_seq_auth (tt_ctx (mw_tx w p))) = drop_bit 2 (ucast (of_be16 (take 2 ack))) AND 0x1fff"
    "of_be32 (take 4 (drop 2 ack)) = tt_seg_bits (mw_tx w p)"
  shows "\<exists>i w1. meshx_lower_trans_recv_block_ack ns ack w = Some w1 \<and>
    w1 = (tx_upd p (\<lambda>t. t\<lparr>tt_timer := None, tt_pdu := None\<rparr>) w)
      \<lparr>tx_idle := i, tx_active := [], tx_pending := [], mw_iv := mw_iv w1\<rparr> \<and>
    seqs (mw_iv w1) = seqs (mw_iv w)"
proof -
  let ?w = "(tx_upd p (\<lambda>t. t\<lparr>tt_timer := None, tt_pdu := None\<rparr>) w)
    \<lparr>tx_idle := remove1 p (tx_idle w) @ [p], tx_active := [], tx_pending := []\<rparr>"
  let ?v = "if meshx_is_iv_update_state_transit_pending (iv (mw_iv ?w))
    then ?w\<lparr>mw_iv := (mw_iv ?w)\<lparr>iv := meshx_iv_update_state_set MESHX_IV_UPDATE_STATE_NORMAL (iv (mw_iv ?w))\<rparr>\<rparr> else ?w"
  have "meshx_lower_trans_tx_task_release p w = Some ?w"
    using assms(1,2) by (simp add: meshx_lower_trans_tx_task_release_def Let_def tx_upd_def)
  moreover have "pending_ready ?v = None" by (simp add: pending_ready_def)
  ultimately have "meshx_lower_trans_tx_task_finish ns (tx_turns w) p w = Some ?v"
    using assms(2) by (simp add: tx_turns_def numeral_2_eq_2 Let_def del: if_split)
  then have "meshx_lower_trans_recv_block_ack ns ack w = Some ?v"
    using assms by (simp add: meshx_lower_trans_recv_block_ack_def Let_def)
  then show ?thesis by (intro exI [of _ "remove1 p (tx_idle w) @ [p]"] exI [of _ ?v]) (simp add: tx_upd_def)
qed

text \<open>A retransmission of a task without memory reads through a null pointer.\<close>

lemma resend_without_memory:
  assumes "tt_pdu (mw_tx w p) = None" "\<not> bit (tt_block_ack (mw_tx w p)) 0"
    "seg_num_of (tt_pdu_len (mw_tx w p)) (seg_size (mc_ctl (tt_ctx (mw_tx w p)))) \<noteq> 0"
    "\<forall>s v. element_seq_use (mc_src (tt_ctx (mw_tx w p))) w = Some (s, v) \<longrightarrow>
      MESHX_LOWER_TRANS_IS_SEQ_AUTH_VALID (low24 s) (mc_seq_auth (tt_ctx (mw_tx w p)))"
  shows "meshx_lower_trans_send_seg_msg ns p (tt_block_ack (mw_tx w p)) w = None"
proof -
  have "0 < unat (seg_num_of (tt_pdu_len (mw_tx w p)) (seg_size (mc_ctl (tt_ctx (mw_tx w p)))))"
    using assms(3) by (simp add: unat_gt_0)
  then obtain n where n: "unat (seg_num_of (tt_pdu_len (mw_tx w p)) (seg_size (mc_ctl (tt_ctx (mw_tx w p))))) = Suc n"
    by (auto simp: gr0_conv_Suc)
  show ?thesis
  proof (cases "element_seq_use (mc_src (tt_ctx (mw_tx w p))) w")
    case (Some y)
    obtain s v where y: "y = (s, v)" by fastforce
    have v: "mw_tx v = mw_tx w" using Some y by (auto simp: element_seq_use_def split: Option.bind_splits)
    show ?thesis using Some y assms v n
      by (simp add: meshx_lower_trans_send_seg_msg_def Let_def upt_conv_Cons tx_upd_def del: upt_Suc)
  qed (use assms n in \<open>simp add: meshx_lower_trans_send_seg_msg_def Let_def upt_conv_Cons del: upt_Suc\<close>)
qed

section \<open>Properties\<close>

text \<open>C17: From the start of the node on, in whatever order reports arrive, characteristics are
  written, timers expire, messages are taken and sent and devices are provisioned, the tasks of
  the transport layer and the nodes of the message queue are neither lost nor shared: each is in
  exactly one of its lists, a task holds memory exactly when it is not idle, no two tasks send
  to one destination, and no two receive from one source.\<close>

theorem node_invariant:
  assumes "node_fresh n0" "env_ok (mw_env (nw_mesh n0))" "nmc_cfg_size (config (mw_node (nw_mesh n0))) \<noteq> 0"
    "rpl_cfg_size (config (mw_node (nw_mesh n0))) \<le> 255" "meshx_init left0 left1 n0 = Some (r, n)"
    "meshx_async_msg_init k u True (a0\<lparr>async_state := n\<rparr>) = (MESHX_SUCCESS, a)" "(node_step aes ext)\<^sup>*\<^sup>* a a'"
  shows "pools {..<unat (trans_tx_task_num (config (mw_node (nw_mesh n0))))}
      {..<unat (trans_rx_task_num (config (mw_node (nw_mesh n0))))} (nw_mesh (async_state a')) \<and>
    msg_pool {..<k} a'"
proof -
  have "pools {..<unat (trans_tx_task_num (config (mw_node (nw_mesh n0))))}
      {..<unat (trans_rx_task_num (config (mw_node (nw_mesh n0))))} (nw_mesh n)"
    using init_full [OF assms(1-4), of left0 left1] assms(5) by (auto simp: node_ready_def Let_def)
  moreover have "async_state a = n \<and> msg_pool {..<k} a"
    using assms(6) by (auto simp: meshx_async_msg_init_def Let_def msg_pool_def lessThan_atLeast0)
  ultimately show ?thesis using assms(7)
    by (induction rule: rtranclp_induct [consumes 1, OF assms(7)]) (auto dest: node_step_keeps)
qed

text \<open>C32: A timeout may be handled too late.  The timer of a task expires and queues its message;
  before the main loop takes it, the acknowledgement of the last segment arrives and the task
  goes back to the idle list.  The message is then handled on the idle task: it sends a segment
  again and reads the memory the task no longer has.  Nothing looks whether the task is still
  active.\<close>

theorem late_timeout_faults:
  assumes "tx_active w = [p]" "tx_pending w = []" "nw_mesh (async_state a) = w"
    and "MESHX_LOWER_TRANS_SEQ_ZERO (mc_seq_auth (tt_ctx (mw_tx w p))) = drop_bit 2 (ucast (of_be16 (take 2 ack))) AND 0x1fff"
    and "of_be32 (take 4 (drop 2 ack)) = tt_seg_bits (mw_tx w p)"
    and "async_user_notify a" "async_idle a \<noteq> []" "async_active a = []"
    and "tt_retry (mw_tx w p) + 1 \<le> trans_tx_retry_times (config (mw_node w))" "\<not> bit (tt_block_ack (mw_tx w p)) 0"
      "seg_num_of (tt_pdu_len (mw_tx w p)) (seg_size (mc_ctl (tt_ctx (mw_tx w p)))) \<noteq> 0"
    and "\<forall>s v. element_seq_use (mc_src (tt_ctx (mw_tx w p))) w = Some (s, v) \<longrightarrow>
      MESHX_LOWER_TRANS_IS_SEQ_AUTH_VALID (low24 s) (mc_seq_auth (tt_ctx (mw_tx w p)))"
  shows "\<exists>a1 w1. meshx_lower_trans_tx_timeout_handler (node_handlers d aes ext) p a = Some a1 \<and>
    meshx_lower_trans_recv_block_ack (net_send_at d aes) ack (nw_mesh (async_state a1)) = Some w1 \<and> tx_active w1 = [] \<and>
    meshx_async_msg_process (node_handlers d aes ext) (a1\<lparr>async_state := (async_state a1)\<lparr>nw_mesh := w1\<rparr>\<rparr>) = None"
proof -
  obtain x xs where x: "async_idle a = x # xs" using assms(7) by (cases "async_idle a") auto
  let ?m = "\<lparr>am_type = MESHX_ASYNC_MSG_TYPE_TIMEOUT_LOWER_TRANS_TX, am_data = p, am_data_len = 0\<rparr>"
  let ?a1 = "a\<lparr>async_idle := xs, async_active := [(x, ?m)]\<rparr>"
  have a1: "meshx_lower_trans_tx_timeout_handler (node_handlers d aes ext) p a = Some ?a1"
    using x assms(6,8) by (simp add: timer_handlers timer_message_def meshx_async_msg_send_def meshx_async_msg_request_def)
  obtain i w1 where w1: "meshx_lower_trans_recv_block_ack (net_send_at d aes) ack w = Some w1"
    "w1 = (tx_upd p (\<lambda>t. t\<lparr>tt_timer := None, tt_pdu := None\<rparr>) w)
      \<lparr>tx_idle := i, tx_active := [], tx_pending := [], mw_iv := mw_iv w1\<rparr>" "seqs (mw_iv w1) = seqs (mw_iv w)"
    using ack_completes [OF assms(1,2,4,5)] by blast
  let ?v = "tx_upd p (\<lambda>t. t\<lparr>tt_retry := tt_retry t + 1\<rparr>) w1"
  have f: "mw_tx ?v p = (mw_tx w p)\<lparr>tt_timer := None, tt_pdu := None, tt_retry := tt_retry (mw_tx w p) + 1\<rparr>"
    "mw_node ?v = mw_node w" "seqs (mw_iv ?v) = seqs (mw_iv w)" "tx_active w1 = []"
    by (subst w1(2), simp add: tx_upd_def w1(3))+
  have "meshx_lower_trans_send_seg_msg (net_send_at d aes) p (tt_block_ack (mw_tx ?v p)) ?v = None"
    by (rule resend_without_memory) (use assms(10-12) f in \<open>auto simp: element_seq_use_def split: Option.bind_splits\<close>)
  moreover have "\<not> trans_tx_retry_times (config (mw_node w)) < tt_retry (mw_tx w p) + 1"
    using assms(9) by (simp only: not_less)
  ultimately have "meshx_lower_trans_handle_tx_timeout (net_send_at d aes) p w1 = None"
    using f by (simp add: meshx_lower_trans_handle_tx_timeout_def Let_def)
  then have "meshx_async_msg_process (node_handlers d aes ext) (?a1\<lparr>async_state := (async_state a)\<lparr>nw_mesh := w1\<rparr>\<rparr>) = None"
    by (simp add: meshx_async_msg_process_def async_dispatch_def async_types node_handlers_def in_mesh_def
        meshx_lower_trans_async_handle_tx_timeout_def)
  then show ?thesis using a1 w1(1) f(4) assms(3) by (intro exI [of _ ?a1] exI [of _ w1]) simp
qed

text \<open>The witness sends one segment of a message of twelve bytes.\<close>

definition late_mesh :: mesh_world where
  "late_mesh = demo_mesh\<lparr>tx_idle := [1, 2], tx_active := [0],
    mw_tx := (\<lambda>_. tx_task_zero\<lparr>tt_ctx := mc_zero\<lparr>mc_src := 2, mc_dst := 5\<rparr>, tt_pdu := Some (zeros 12), tt_pdu_len := 12,
      tt_seg_bits := 1\<rparr>)\<rparr>"

definition late_node :: "node_world async_world" where
  "late_node = \<lparr>async_active = [], async_idle = [0], async_user_notify = True,
    async_state = \<lparr>nw_mesh = late_mesh, nw_prov = nw_prov demo_node\<rparr>\<rparr>"

lemma late_ack: "of_be16 [0, 0] = 0" "of_be32 [0, 0, 0, 1] = 1"
  by code_simp+

lemma late_facts:
  "tx_active late_mesh = [0]" "tx_pending late_mesh = []" "nw_mesh (async_state late_node) = late_mesh"
  "MESHX_LOWER_TRANS_SEQ_ZERO (mc_seq_auth (tt_ctx (mw_tx late_mesh 0))) =
    drop_bit 2 (ucast (of_be16 (take 2 [0, 0, 0, 0, 0, 1]))) AND 0x1fff"
  "of_be32 (take 4 (drop 2 [0, 0, 0, 0, 0, 1])) = tt_seg_bits (mw_tx late_mesh 0)"
  "async_user_notify late_node" "async_idle late_node \<noteq> []" "async_active late_node = []"
  "tt_retry (mw_tx late_mesh 0) + 1 \<le> trans_tx_retry_times (config (mw_node late_mesh))"
  "\<not> bit (tt_block_ack (mw_tx late_mesh 0)) 0"
  by (simp_all add: late_mesh_def late_node_def demo_mesh_def tx_task_zero_def mc_zero_def MESHX_LOWER_TRANS_SEQ_ZERO_def
      late_ack node_default_config_def)

lemma late_send:
  "seg_num_of (tt_pdu_len (mw_tx late_mesh 0)) (seg_size (mc_ctl (tt_ctx (mw_tx late_mesh 0)))) \<noteq> 0"
  "\<forall>s v. element_seq_use (mc_src (tt_ctx (mw_tx late_mesh 0))) late_mesh = Some (s, v) \<longrightarrow>
    MESHX_LOWER_TRANS_IS_SEQ_AUTH_VALID (low24 s) (mc_seq_auth (tt_ctx (mw_tx late_mesh 0)))"
  by (simp_all add: late_mesh_def demo_mesh_def tx_task_zero_def mc_zero_def seg_num_of_def seg_size_def lower_sizes
      element_seq_use_def meshx_seq_use_def node_default_param_def MESHX_LOWER_TRANS_IS_SEQ_AUTH_VALID_def low24_def MESHX_SEQ_MAX_def)

theorem late_timeout_faults_witness:
  "\<exists>a1 w1. meshx_lower_trans_tx_timeout_handler (node_handlers 1 demo_aes demo_ext) 0 late_node = Some a1 \<and>
    meshx_lower_trans_recv_block_ack (net_send_at 1 demo_aes) [0, 0, 0, 0, 0, 1] (nw_mesh (async_state a1)) = Some w1 \<and>
    meshx_async_msg_process (node_handlers 1 demo_aes demo_ext) (a1\<lparr>async_state := (async_state a1)\<lparr>nw_mesh := w1\<rparr>\<rparr>) = None"
  using late_timeout_faults [OF late_facts late_send, of 1 demo_aes demo_ext] by blast

text \<open>For the invariant: a node is started, its IV index timer expires and the message is taken.\<close>

theorem node_invariant_witness:
  "\<exists>a' :: node_world async_world. async_active a' = [(0, \<lparr>am_type = MESHX_ASYNC_MSG_TYPE_TIMEOUT_IV_INDEX, am_data = 0, am_data_len = 0\<rparr>)] \<and>
    pools {..<3} {..<3} (nw_mesh (async_state a')) \<and> msg_pool {..<2} a'"
proof -
  obtain n where n: "meshx_init demo_iface demo_iface demo_node = Some (MESHX_SUCCESS, n)"
    using init_full [OF demo_node_facts(1-4)] by blast
  let ?a = "late_node\<lparr>async_state := n, async_user_notify := True, async_active := [], async_idle := [0, 1]\<rparr>"
  let ?m = "\<lparr>am_type = MESHX_ASYNC_MSG_TYPE_TIMEOUT_IV_INDEX, am_data = 0, am_data_len = 0\<rparr>"
  let ?b = "?a\<lparr>async_idle := [1], async_active := [(0, ?m)]\<rparr>"
  have i: "meshx_async_msg_init 2 True True (late_node\<lparr>async_state := n\<rparr>) = (MESHX_SUCCESS, ?a)"
    by (simp add: meshx_async_msg_init_def upt_rec)
  have "timer_message MESHX_ASYNC_MSG_TYPE_TIMEOUT_IV_INDEX (node_handlers 1 demo_aes demo_ext) 0 ?a = Some ?b"
    by (simp add: timer_message_def meshx_async_msg_send_def meshx_async_msg_request_def)
  then have "node_step demo_aes demo_ext ?a ?b" by (rule node_step.expire)
  then have s: "(node_step demo_aes demo_ext)\<^sup>*\<^sup>* ?a ?b" by (rule r_into_rtranclp [of "node_step demo_aes demo_ext"])
  have c: "trans_tx_task_num (config (mw_node (nw_mesh demo_node))) = 3" "trans_rx_task_num (config (mw_node (nw_mesh demo_node))) = 3"
    by (simp_all add: demo_node_def node_default_config_def)
  from node_invariant [OF demo_node_facts(1-4) n i s] show ?thesis by (intro exI [of _ ?b]) (simp add: c)
qed

end
