(* ===== verification/Mesh_Platform.thy ===== *)
theory Mesh_Platform
  imports Mesh_Main
begin

text \<open>
  The Linux platform under a running node: the message queue on a pipe
  (\<^verbatim>\<open>platform/linux/msg_queue.c\<close>), the radio that writes what is advertised to a named pipe
  (\<^verbatim>\<open>platform/linux/meshx_gap_wrapper_dev.c\<close>, the provisioner's differs in address and pipe
  only), the GATT services (\<^verbatim>\<open>mesh/proxy/meshx_proxy_server.c\<close>, \<^verbatim>\<open>meshx_prov_server.c\<close>), and
  the threads of a program that feed its main loop (\<^verbatim>\<open>tests/meshx_device.c\<close>).  A pipe is the
  list of its bytes and never full; the result \<^verbatim>\<open>None\<close> of a read is also that it waits.
\<close>

section \<open>Message queue\<close>

record msg_queue =
  mq_open :: bool
  mq_pipe :: bytes
  mq_num :: u32
  mq_size :: u32

definition msg_queue_create ::
  "bool \<Rightarrow> u32 \<Rightarrow> u32 \<Rightarrow> msg_queue option \<Rightarrow> sys_env \<Rightarrow> errno \<times> msg_queue option \<times> sys_env" where
  "msg_queue_create pipe_ok msg_num msg_size pmsg_queue e =
    (case meshx_malloc_ok e of
       (False, e) \<Rightarrow> (MESHX_ERR_MEM, pmsg_queue, e)
     | (True, e) \<Rightarrow>
         if \<not> pipe_ok then (MESHX_ERR_RESOURCE, pmsg_queue, e)
         else (MESHX_SUCCESS, Some \<lparr>mq_open = True, mq_pipe = [], mq_num = msg_num, mq_size = msg_size\<rparr>, e))"

text \<open>The two ends are closed; the memory is not freed.\<close>

definition msg_queue_delete :: "msg_queue \<Rightarrow> msg_queue" where
  "msg_queue_delete q = q\<lparr>mq_open := False\<rparr>"

definition msg_queue_send :: "bytes \<Rightarrow> msg_queue \<Rightarrow> (errno \<times> msg_queue) option" where
  "msg_queue_send pmsg q =
    (if \<not> mq_open q then Some (MESHX_SUCCESS, q)
     else do {
       d \<leftarrow> mem_read pmsg 0 (unat (mq_size q));
       Some (MESHX_SUCCESS, q\<lparr>mq_pipe := mq_pipe q @ d\<rparr>)
     })"

definition msg_queue_receive :: "bytes \<Rightarrow> msg_queue \<Rightarrow> (errno \<times> bytes \<times> msg_queue) option" where
  "msg_queue_receive pmsg q =
    (if \<not> mq_open q then Some (MESHX_SUCCESS, pmsg, q)
     else if mq_pipe q = [] \<and> mq_size q \<noteq> 0 then None
     else do {
       pmsg \<leftarrow> mem_write pmsg 0 (take (unat (mq_size q)) (mq_pipe q));
       Some (MESHX_SUCCESS, pmsg, q\<lparr>mq_pipe := drop (unat (mq_size q)) (mq_pipe q)\<rparr>)
     })"

section \<open>Radio\<close>

text \<open>The advertising data of the wrapper and the pipe to the other node.\<close>

record radio =
  ra_data :: bytes
  ra_len :: u8
  ra_air :: bytes

definition meshx_gap_get_mac_addr :: "bytes" where
  "meshx_gap_get_mac_addr = [0x11, 0x22, 0x33, 0x44, 0x55, 0x66]"

definition meshx_gap_adv_set_data :: "bytes \<Rightarrow> radio \<Rightarrow> (errno \<times> radio) option" where
  "meshx_gap_adv_set_data pdata r = do {
    d \<leftarrow> mem_write (ra_data r) 0 pdata;
    Some (MESHX_SUCCESS, r\<lparr>ra_data := d, ra_len := word_of_nat (length pdata)\<rparr>)
  }"

definition meshx_gap_adv_start :: "radio \<Rightarrow> (errno \<times> radio) option" where
  "meshx_gap_adv_start r = do {
    d \<leftarrow> mem_read (ra_data r) 0 (unat (ra_len r));
    Some (MESHX_SUCCESS, r\<lparr>ra_air := ra_air r @ d\<rparr>)
  }"

text \<open>What the radio does with a command of the scheduler.\<close>

definition radio_call :: "hci_call \<Rightarrow> radio \<Rightarrow> (errno \<times> radio) option" where
  "radio_call c r =
    (case c of
       GAP_ADV_SET_DATA pdata \<Rightarrow> meshx_gap_adv_set_data pdata r
     | GAP_ADV_START \<Rightarrow> meshx_gap_adv_start r
     | _ \<Rightarrow> Some (MESHX_SUCCESS, r))"

fun radio_calls :: "hci_call list \<Rightarrow> radio \<Rightarrow> radio option" where
  "radio_calls [] r = Some r"
| "radio_calls (c # cs) r = do { (_, r) \<leftarrow> radio_call c r; radio_calls cs r }"

section \<open>GATT services\<close>

record gatts_char =
  char_uuid :: u16
  char_property :: u8
  char_value_handle :: u16

record gatts_srv =
  srv_uuid :: u16
  pchar_db :: "gatts_char list"
  srv_handle :: u16

definition MESHX_CHAR_PROPERTY_WRITE_WITHOUT_RESP :: u8 where "MESHX_CHAR_PROPERTY_WRITE_WITHOUT_RESP = 3"
definition MESHX_CHAR_PROPERTY_NOTIFY :: u8 where "MESHX_CHAR_PROPERTY_NOTIFY = 5"
definition MESHX_GATT_HANDLE_INVALID :: u16 where "MESHX_GATT_HANDLE_INVALID = 0xFFFF"

definition proxy_service :: gatts_srv where
  "proxy_service =
    \<lparr>srv_uuid = 0x1828,
     pchar_db =
       [\<lparr>char_uuid = 0x2ADD, char_property = MESHX_CHAR_PROPERTY_WRITE_WITHOUT_RESP, char_value_handle = MESHX_GATT_HANDLE_INVALID\<rparr>,
        \<lparr>char_uuid = 0x2ADE, char_property = MESHX_CHAR_PROPERTY_NOTIFY, char_value_handle = MESHX_GATT_HANDLE_INVALID\<rparr>],
     srv_handle = MESHX_GATT_HANDLE_INVALID\<rparr>"

definition prov_service :: gatts_srv where
  "prov_service =
    \<lparr>srv_uuid = 0x1827,
     pchar_db =
       [\<lparr>char_uuid = 0x2ADB, char_property = MESHX_CHAR_PROPERTY_WRITE_WITHOUT_RESP, char_value_handle = MESHX_GATT_HANDLE_INVALID\<rparr>,
        \<lparr>char_uuid = 0x2ADC, char_property = MESHX_CHAR_PROPERTY_NOTIFY, char_value_handle = MESHX_GATT_HANDLE_INVALID\<rparr>],
     srv_handle = MESHX_GATT_HANDLE_INVALID\<rparr>"

text \<open>This platform assigns no handles.\<close>

definition meshx_gatts_service_init :: "gatts_srv \<Rightarrow> errno \<times> gatts_srv" where
  "meshx_gatts_service_init srv = (MESHX_SUCCESS, srv)"

definition meshx_proxy_server_init :: "mesh_world \<Rightarrow> errno \<times> mesh_world" where
  "meshx_proxy_server_init w =
    (case meshx_gatts_service_init proxy_service of
       (r, srv) \<Rightarrow> (r, w\<lparr>mw_proxy_in := char_value_handle (pchar_db srv ! 0), mw_proxy_out := char_value_handle (pchar_db srv ! 1)\<rparr>))"

definition meshx_prov_server_init :: "mesh_world \<Rightarrow> errno \<times> mesh_world" where
  "meshx_prov_server_init w =
    (case meshx_gatts_service_init prov_service of
       (r, srv) \<Rightarrow> (r, w\<lparr>mw_prov_in := char_value_handle (pchar_db srv ! 0), mw_prov_out := char_value_handle (pchar_db srv ! 1)\<rparr>))"

section \<open>Threads and main loop\<close>

definition ASYNC_DATA_TYPE_ADV_DATA :: u8 where "ASYNC_DATA_TYPE_ADV_DATA = 0"
definition ASYNC_DATA_TYPE_MESH_DATA :: u8 where "ASYNC_DATA_TYPE_MESH_DATA = 1"
definition ASYNC_DATA_TYPE_TTY :: u8 where "ASYNC_DATA_TYPE_TTY = 2"

record async_data =
  ad_type :: u8
  ad_data :: bytes
  ad_len :: u8

definition async_bytes :: "async_data \<Rightarrow> bytes" where
  "async_bytes d = ad_type d # ad_data d @ [ad_len d]"

definition async_of :: "bytes \<Rightarrow> async_data" where
  "async_of b = \<lparr>ad_type = b ! 0, ad_data = take 32 (drop 1 b), ad_len = b ! 33\<rparr>"

text \<open>One turn of the thread that listens to the radio: at most 31 bytes are read.  The first
  argument is what the local variable holds.\<close>

definition meshx_receive_thread :: "async_data \<Rightarrow> bytes \<Rightarrow> msg_queue \<Rightarrow> (bytes \<times> msg_queue) option" where
  "meshx_receive_thread left air q =
    (if air = [] then None
     else let d = take 31 air in do {
       data \<leftarrow> mem_write (ad_data left) 0 d;
       (_, q) \<leftarrow> msg_queue_send (async_bytes \<lparr>ad_type = ASYNC_DATA_TYPE_ADV_DATA, ad_data = data, ad_len = word_of_nat (length d)\<rparr>) q;
       Some (drop 31 air, q)
     })"

definition console_receive_thread :: "async_data \<Rightarrow> u8 \<Rightarrow> msg_queue \<Rightarrow> msg_queue option" where
  "console_receive_thread left c q = do {
    (_, q) \<leftarrow> msg_queue_send (async_bytes \<lparr>ad_type = ASYNC_DATA_TYPE_TTY, ad_data = (ad_data left)[0 := c], ad_len = 1\<rparr>) q;
    Some q
  }"

definition meshx_async_msg_notify_handler :: "async_data \<Rightarrow> msg_queue \<Rightarrow> (errno \<times> msg_queue) option" where
  "meshx_async_msg_notify_handler left q = do {
    (_, q) \<leftarrow> msg_queue_send (async_bytes (left\<lparr>ad_type := ASYNC_DATA_TYPE_MESH_DATA\<rparr>)) q;
    Some (MESHX_SUCCESS, q)
  }"

text \<open>One turn of the main loop; what it does with the three kinds of messages are the fields
  of a record, since the command line is not part of the node.\<close>

record 's main_handlers =
  on_adv :: "bytes \<Rightarrow> 's \<Rightarrow> 's option"
  on_mesh :: "'s \<Rightarrow> 's option"
  on_tty :: "u8 \<Rightarrow> 's \<Rightarrow> 's option"

definition meshx_thread :: "'s main_handlers \<Rightarrow> bytes \<Rightarrow> msg_queue \<Rightarrow> 's \<Rightarrow> (msg_queue \<times> 's) option" where
  "meshx_thread h left q s = do {
    (r, b, q) \<leftarrow> msg_queue_receive left q;
    if r \<noteq> MESHX_SUCCESS then Some (q, s)
    else
      let d = async_of b in do {
        s \<leftarrow> (if ad_type d = ASYNC_DATA_TYPE_ADV_DATA
              then do { rep \<leftarrow> mem_read (ad_data d) 0 (unat (ad_len d)); on_adv h rep s }
              else if ad_type d = ASYNC_DATA_TYPE_MESH_DATA then on_mesh h s
              else if ad_type d = ASYNC_DATA_TYPE_TTY then on_tty h (ad_data d ! 0) s
              else Some s);
        Some (q, s)
      }
  }"

text \<open>The handlers of the node.\<close>

definition node_main ::
  "nat \<Rightarrow> aes128 \<Rightarrow> prov_ext \<Rightarrow> (u8 \<Rightarrow> node_world async_world \<Rightarrow> node_world async_world option) \<Rightarrow>
   node_world async_world main_handlers" where
  "node_main d aes ext tty =
    \<lparr>on_adv = (\<lambda>rep a. do {
       x \<leftarrow> node_receive d aes ext rep (async_state a);
       (_, n) \<leftarrow> x;
       Some (a\<lparr>async_state := n\<rparr>) }),
     on_mesh = meshx_async_msg_process (node_handlers d aes ext),
     on_tty = tty\<rparr>"

section \<open>A channel of messages\<close>

text \<open>What the threads of a program rely on: messages of the right size come out whole and in
  order, however sending and receiving alternate.\<close>

locale message_channel =
  fixes holds :: "'q \<Rightarrow> bytes list \<Rightarrow> bool"
    and fits :: "'q \<Rightarrow> bytes \<Rightarrow> bool"
    and put :: "bytes \<Rightarrow> 'q \<Rightarrow> 'q option"
    and take_one :: "'q \<Rightarrow> (bytes \<times> 'q) option"
  assumes put_holds: "holds q ms \<Longrightarrow> fits q m \<Longrightarrow> \<exists>q'. put m q = Some q' \<and> holds q' (ms @ [m]) \<and> fits q' = fits q"
    and take_holds: "holds q (m # ms) \<Longrightarrow> \<exists>q'. take_one q = Some (m, q') \<and> holds q' ms \<and> fits q' = fits q"
    and take_waits: "holds q [] \<Longrightarrow> take_one q = None"
begin

text \<open>A run is a list of sends (a message) and receives; the result lists what was received.\<close>

fun run :: "bytes option list \<Rightarrow> 'q \<Rightarrow> (bytes list \<times> 'q) option" where
  "run [] q = Some ([], q)"
| "run (Some m # es) q = do { q \<leftarrow> put m q; run es q }"
| "run (None # es) q = do { (m, q) \<leftarrow> take_one q; (out, q) \<leftarrow> run es q; Some (m # out, q) }"

definition sent :: "bytes option list \<Rightarrow> bytes list" where
  "sent es = map the (filter (\<lambda>e. e \<noteq> None) es)"

lemma sent_simps [simp]: "sent [] = []" "sent (Some m # es) = m # sent es" "sent (None # es) = sent es"
  by (simp_all add: sent_def)

lemma run_in_order:
  "holds q ms \<Longrightarrow> \<forall>m \<in> set (sent es). fits q m \<Longrightarrow> run es q = Some (out, q') \<Longrightarrow>
    \<exists>rest. ms @ sent es = out @ rest \<and> holds q' rest"
proof (induction es arbitrary: q ms out)
  case (Cons e es)
  show ?case
  proof (cases e)
    case (Some m)
    then have "fits q m" using Cons.prems(2) by simp
    then obtain q1 where q1: "put m q = Some q1" "holds q1 (ms @ [m])" "fits q1 = fits q"
      using put_holds [OF Cons.prems(1)] by blast
    have "\<forall>m \<in> set (sent es). fits q1 m" "run es q1 = Some (out, q')" using Cons.prems(2,3) Some q1(1,3) by simp_all
    from Cons.IH [OF q1(2) this] show ?thesis using Some by simp
  next
    case None
    then obtain m q1 out1 where t: "take_one q = Some (m, q1)" "run es q1 = Some (out1, q')" "out = m # out1"
      using Cons.prems(3) by (auto split: Option.bind_splits)
    then obtain k ms1 where ms: "ms = k # ms1" using take_waits [of q] Cons.prems(1) by (cases ms) auto
    with take_holds [of q k ms1] t(1) Cons.prems(1) have "k = m" "holds q1 ms1" "fits q1 = fits q" by auto
    moreover have "\<forall>m \<in> set (sent es). fits q1 m" using Cons.prems(2) None calculation(3) by simp
    ultimately show ?thesis using Cons.IH [of q1 ms1 out1] t(2,3) ms None by auto
  qed
qed simp

end

text \<open>The message queue of the program: the messages are of its size.\<close>

definition queue_holds :: "msg_queue \<Rightarrow> bytes list \<Rightarrow> bool" where
  "queue_holds q ms \<longleftrightarrow> mq_open q \<and> mq_size q \<noteq> 0 \<and> mq_pipe q = concat ms \<and> (\<forall>m \<in> set ms. length m = unat (mq_size q))"

definition queue_fits :: "msg_queue \<Rightarrow> bytes \<Rightarrow> bool" where
  "queue_fits q m \<longleftrightarrow> length m = unat (mq_size q)"

definition queue_put :: "bytes \<Rightarrow> msg_queue \<Rightarrow> msg_queue option" where
  "queue_put m q = map_option snd (msg_queue_send m q)"

definition queue_take :: "msg_queue \<Rightarrow> (bytes \<times> msg_queue) option" where
  "queue_take q = map_option snd (msg_queue_receive (zeros (unat (mq_size q))) q)"

interpretation mq: message_channel queue_holds queue_fits queue_put queue_take
proof (unfold_locales, goal_cases)
  case (1 q ms m)
  then show ?case
    by (simp add: queue_holds_def queue_fits_def queue_put_def msg_queue_send_def mem_read_def fun_eq_iff)
next
  case (2 q m ms)
  then show ?case
    by (auto simp: queue_holds_def queue_fits_def queue_take_def msg_queue_receive_def mem_write_def fun_eq_iff unat_eq_zero)
next
  case (3 q)
  then show ?case by (simp add: queue_holds_def queue_take_def msg_queue_receive_def)
qed

section \<open>From one node's bearer to the other's\<close>

definition adv_packet :: "u8 \<Rightarrow> bytes \<Rightarrow> bytes" where
  "adv_packet t pdata = word_of_nat (length pdata + 1) # t # pdata"

lemma adv_packet_length [simp]: "length (adv_packet t pdata) = length pdata + 2"
  by (simp add: adv_packet_def)

lemma adv_packet_count: "length pdata \<le> 29 \<Longrightarrow> unat (adv_packet t pdata ! 0) = length pdata + 1"
  by (simp add: adv_packet_def unat_of_nat del: of_nat_Suc of_nat_add)

lemma adv_send_runs:
  assumes "adv_bearer_type g = MESHX_BEARER_TYPE_ADV" "MESHX_IS_BEARER_ADV_PKT_TYPE_VALID t" "length pdata \<le> 29"
    "gap_enabled g" "gap_active g = []" "gap_idle g = k # ks" "gap_adv_state g = MESHX_GAP_ADV_STATE_IDLE"
  shows "\<exists>g'. meshx_bearer_adv_send (Some BEARER_ADV) t pdata g = Some (MESHX_SUCCESS, g') \<and>
    hci_log g' = hci_log g @ [GAP_ADV_SET_PARAM (gap_adv_param\<lparr>adv_type := MESHX_GAP_ADV_TYPE_NONCONN_IND\<rparr>),
      GAP_ADV_SET_DATA (adv_packet t pdata), GAP_ADV_START] \<and>
    gap_enabled g' \<and> gap_active g' = [] \<and> gap_idle g' = ks @ [k] \<and> gap_adv_state g' = MESHX_GAP_ADV_STATE_IDLE \<and>
    adv_bearer_type g' = MESHX_BEARER_TYPE_ADV"
  using assms
  by (simp add: meshx_bearer_adv_send_def bearer_type_def MESHX_GAP_ADV_DATA_MAX_LEN_def adv_packet_def Let_def
      meshx_gap_add_action_def meshx_sort_insert_action_def sort_insert_def meshx_run_actions_def)

lemma radio_sends:
  assumes "length (ra_data r) = 64" "length b \<le> 31"
  shows "\<exists>r'. radio_calls [GAP_ADV_SET_PARAM p, GAP_ADV_SET_DATA b, GAP_ADV_START] r = Some r' \<and>
    ra_air r' = ra_air r @ b \<and> length (ra_data r') = 64"
proof -
  have "unat (word_of_nat (length b) :: u8) = length b" using assms(2) by (simp add: unat_of_nat)
  then show ?thesis using assms
    by (simp add: radio_call_def meshx_gap_adv_set_data_def meshx_gap_adv_start_def mem_write_def mem_read_def)
qed

lemma async_of_bytes [simp]: "length (ad_data d) = 32 \<Longrightarrow> async_of (async_bytes d) = d"
  by (cases d) (simp add: async_of_def async_bytes_def nth_append)

lemma packet_reported:
  assumes "length pdata \<le> 29" "pdata \<noteq> []"
  shows "meshx_gap_handle_adv_report receive fail (adv_packet t pdata) s = Some (receive t pdata s)"
proof -
  have u: "unat (adv_packet t pdata ! 0) = length pdata + 1" using adv_packet_count assms(1) by blast
  have "adv_packet t pdata ! 0 - 1 = word_of_nat (length pdata)" by (simp add: adv_packet_def)
  then have u1: "unat (adv_packet t pdata ! 0 - 1) = length pdata" using assms(1) by (simp only:) (simp add: unat_of_nat)
  have m: "mem_read (adv_packet t pdata) 2 (length pdata) = Some pdata" "adv_packet t pdata ! 1 = t"
    by (simp_all add: adv_packet_def mem_read_def)
  show ?thesis using assms u u1 m
    by (simp add: meshx_gap_handle_adv_report_def MESHX_GAP_ADV_DATA_MAX_LEN_def Let_def)
qed

text \<open>What the main loop hands to the report handler is what the thread read.\<close>

lemma thread_reports:
  assumes "air \<noteq> []" "mq_open q" "mq_pipe q = []" "mq_size q = 34" "length (ad_data left) = 32" "length dest = 34"
  shows "\<exists>q1. meshx_receive_thread left air q = Some (drop 31 air, q1) \<and>
    meshx_thread h dest q1 s = do { s \<leftarrow> on_adv h (take 31 air) s; Some (q, s) }"
proof -
  define d where "d = take 31 air"
  define m where "m = \<lparr>ad_type = ASYNC_DATA_TYPE_ADV_DATA, ad_data = d @ drop (length d) (ad_data left), ad_len = word_of_nat (length d)\<rparr>"
  have l: "length d \<le> 31" by (simp add: d_def)
  have am: "length (ad_data m) = 32" "length (async_bytes m) = 34"
    using assms(5) l by (simp_all add: async_bytes_def m_def)
  have u: "unat (ad_len m) = length d" using l by (simp add: m_def unat_of_nat)
  have "meshx_receive_thread left air q = Some (drop 31 air, q\<lparr>mq_pipe := async_bytes m\<rparr>)"
    using assms(1-5) l am(2)
    by (simp add: meshx_receive_thread_def Let_def msg_queue_send_def mem_read_def mem_write_def m_def flip: d_def)
  moreover have "msg_queue_receive dest (q\<lparr>mq_pipe := async_bytes m\<rparr>) = Some (MESHX_SUCCESS, async_bytes m, q)"
    using assms(2-4,6) am(2) by (auto simp: msg_queue_receive_def mem_write_def)
  moreover have "mem_read (ad_data m) 0 (length d) = Some d" by (simp add: m_def mem_read_def)
  moreover have "ad_type m = ASYNC_DATA_TYPE_ADV_DATA" by (simp add: m_def)
  ultimately show ?thesis using u am(1)
    by (intro exI [of _ "q\<lparr>mq_pipe := async_bytes m\<rparr>"]) (simp add: meshx_thread_def Let_def flip: d_def)
qed

section \<open>Properties\<close>

text \<open>What the main loop makes of the result of a handler.\<close>

definition main_result :: "msg_queue \<Rightarrow> node_world async_world \<Rightarrow> (errno \<times> node_world) option option \<Rightarrow>
  (msg_queue \<times> node_world async_world) option" where
  "main_result q a x = do { y \<leftarrow> x; (_, n) \<leftarrow> y; Some (q, a\<lparr>async_state := n\<rparr>) }"

lemma node_dispatch:
  assumes "MESHX_IS_BEARER_ADV_PKT_TYPE_VALID t" "length pdata \<le> 29" "pdata \<noteq> []"
    and "adv_bearer_type (mw_gap (nw_mesh n)) = MESHX_BEARER_TYPE_ADV" "adv_bearer_iface (mw_gap (nw_mesh n)) = Some i"
  shows "node_receive d aes ext (adv_packet t pdata) n = Some (
    if t = MESHX_GAP_ADTYPE_MESH_MSG then node_net_receive d aes (Some i) pdata n
    else if t = MESHX_GAP_ADTYPE_PB_ADV then node_prov_receive ext (Some BEARER_ADV) pdata n
    else node_beacon_receive aes (Some BEARER_ADV) pdata n)"
proof -
  have g: "meshx_bearer_adv_get (mw_gap (nw_mesh n)) = Some BEARER_ADV"
    using assms(4) by (simp add: meshx_bearer_adv_get_def MESHX_BEARER_TYPE_ADV_def MESHX_BEARER_TYPE_INVALID_def)
  show ?thesis
    unfolding node_receive_def packet_reported [OF assms(2,3)] g meshx_bearer_adv_receive_def option.case assms(5)
    using assms(1) [unfolded MESHX_IS_BEARER_ADV_PKT_TYPE_VALID_def] by (elim disjE) simp_all
qed

text \<open>C18: What one node's bearer sends, the other node passes to the layer of its type: through
  scheduler, radio, pipe, receiving thread, message queue and main loop, a packet of one to 29
  bytes reaches the network layer when it is a message, on the interface of the advertising
  bearer, the provisioning layer when it is of PB-ADV, and the beacon layer when it is a beacon.
  The sender's scheduler is enabled, idle and has a free action, the pipes are empty, and the
  pipe is read before the next packet is written; the receiver has its advertising bearer.\<close>

theorem radio_carries:
  assumes "adv_bearer_type g = MESHX_BEARER_TYPE_ADV" "MESHX_IS_BEARER_ADV_PKT_TYPE_VALID t" "length pdata \<le> 29" "pdata \<noteq> []"
    and "gap_enabled g" "gap_active g = []" "gap_idle g \<noteq> []" "gap_adv_state g = MESHX_GAP_ADV_STATE_IDLE"
    and "length (ra_data r) = 64" "ra_air r = []"
    and "mq_open q" "mq_pipe q = []" "mq_size q = 34" "length (ad_data left) = 32" "length dest = 34"
    and "adv_bearer_type (mw_gap (nw_mesh (async_state a))) = MESHX_BEARER_TYPE_ADV"
      "adv_bearer_iface (mw_gap (nw_mesh (async_state a))) = Some i"
  shows "\<exists>g' calls r' q'. meshx_bearer_adv_send (Some BEARER_ADV) t pdata g = Some (MESHX_SUCCESS, g') \<and>
    hci_log g' = hci_log g @ calls \<and> radio_calls calls r = Some r' \<and>
    meshx_receive_thread left (ra_air r') q = Some ([], q') \<and>
    meshx_thread (node_main d aes ext tty) dest q' a = main_result q a (Some (
      if t = MESHX_GAP_ADTYPE_MESH_MSG then node_net_receive d aes (Some i) pdata (async_state a)
      else if t = MESHX_GAP_ADTYPE_PB_ADV then node_prov_receive ext (Some BEARER_ADV) pdata (async_state a)
      else node_beacon_receive aes (Some BEARER_ADV) pdata (async_state a)))"
proof -
  obtain k ks where k: "gap_idle g = k # ks" using assms(7) by (cases "gap_idle g") auto
  let ?b = "adv_packet t pdata"
  obtain g' where g': "meshx_bearer_adv_send (Some BEARER_ADV) t pdata g = Some (MESHX_SUCCESS, g')"
    "hci_log g' = hci_log g @ [GAP_ADV_SET_PARAM (gap_adv_param\<lparr>adv_type := MESHX_GAP_ADV_TYPE_NONCONN_IND\<rparr>),
      GAP_ADV_SET_DATA ?b, GAP_ADV_START]"
    using adv_send_runs [OF assms(1-3,5,6) k assms(8)] by blast
  obtain r' where r': "radio_calls [GAP_ADV_SET_PARAM (gap_adv_param\<lparr>adv_type := MESHX_GAP_ADV_TYPE_NONCONN_IND\<rparr>),
      GAP_ADV_SET_DATA ?b, GAP_ADV_START] r = Some r'" "ra_air r' = ?b"
    using radio_sends [OF assms(9), of ?b] assms(3,10) by auto
  have b: "take 31 ?b = ?b" "drop 31 ?b = []" "?b \<noteq> []" using assms(3) by (simp_all add: adv_packet_def)
  obtain q1 where q1: "meshx_receive_thread left ?b q = Some ([], q1)"
    "meshx_thread (node_main d aes ext tty) dest q1 a = do { s \<leftarrow> on_adv (node_main d aes ext tty) ?b a; Some (q, s) }"
    using thread_reports [OF b(3) assms(11-15), of "node_main d aes ext tty" a] unfolding b(1,2) by blast
  note disp = node_dispatch [OF assms(2-4,16,17), of d aes ext]
  have t: "meshx_thread (node_main d aes ext tty) dest q1 a = main_result q a (node_receive d aes ext ?b (async_state a))"
    unfolding q1(2) by (auto simp: node_main_def main_result_def split: Option.bind_splits)
  show ?thesis
    using g' r'(1) q1(1) [folded r'(2)] t [unfolded disp]
    by (rule_tac exI, rule_tac exI, rule_tac exI, rule_tac exI, intro conjI)
qed

text \<open>A pipe keeps no boundaries.  Two packets that are written before the other node reads
  arrive in one report, whose length does not match, and both are lost.\<close>

lemma adjacent_packets_lost:
  assumes "length pdata1 + length pdata2 \<le> 27" "length (ra_data r) = 64" "ra_air r = []"
    and "mq_open q" "mq_pipe q = []" "mq_size q = 34" "length (ad_data left) = 32" "length dest = 34"
    and "on_adv h = (\<lambda>rep s. do { x \<leftarrow> meshx_gap_handle_adv_report receive fail rep s; x })"
  shows "\<exists>r' q'. radio_calls ([GAP_ADV_SET_PARAM p, GAP_ADV_SET_DATA (adv_packet t1 pdata1), GAP_ADV_START] @
      [GAP_ADV_SET_PARAM p, GAP_ADV_SET_DATA (adv_packet t2 pdata2), GAP_ADV_START]) r = Some r' \<and>
    meshx_receive_thread left (ra_air r') q = Some ([], q') \<and>
    meshx_thread h dest q' s = do { s \<leftarrow> fail s MESHX_ERR_LENGTH; Some (q, s) }"
proof -
  let ?b = "adv_packet t1 pdata1 @ adv_packet t2 pdata2"
  have app: "radio_calls (xs @ ys) v = do { v \<leftarrow> radio_calls xs v; radio_calls ys v }" for xs ys v
    by (induction xs arbitrary: v) (auto split: Option.bind_splits)
  obtain r1 where r1: "radio_calls [GAP_ADV_SET_PARAM p, GAP_ADV_SET_DATA (adv_packet t1 pdata1), GAP_ADV_START] r = Some r1"
    "ra_air r1 = adv_packet t1 pdata1" "length (ra_data r1) = 64"
    using radio_sends [OF assms(2), of "adv_packet t1 pdata1" p] assms(1,3) by auto
  obtain r2 where r2: "radio_calls [GAP_ADV_SET_PARAM p, GAP_ADV_SET_DATA (adv_packet t2 pdata2), GAP_ADV_START] r1 = Some r2"
    "ra_air r2 = ?b"
    using radio_sends [OF r1(3), of "adv_packet t2 pdata2" p] assms(1) r1(2) by auto
  have b: "take 31 ?b = ?b" "drop 31 ?b = []" "?b \<noteq> []" using assms(1) by (auto simp: adv_packet_def)
  obtain q1 where q1: "meshx_receive_thread left ?b q = Some ([], q1)"
    "meshx_thread h dest q1 s = do { s \<leftarrow> on_adv h ?b s; Some (q, s) }"
    using thread_reports [OF b(3) assms(4-8), of h s] b(1,2) by auto
  have "unat (?b ! 0) = length pdata1 + 1"
    using adv_packet_count [of pdata1 t1] assms(1) by (simp add: nth_append)
  then have "meshx_gap_handle_adv_report receive fail ?b s = Some (fail s MESHX_ERR_LENGTH)"
    using assms(1) by (simp add: meshx_gap_handle_adv_report_def MESHX_GAP_ADV_DATA_MAX_LEN_def Let_def)
  then show ?thesis using r1(1) r2 q1 assms(9) by (intro exI [of _ r2] exI [of _ q1]) (simp only: app, simp)
qed

definition demo_radio :: radio where
  "demo_radio = \<lparr>ra_data = zeros 64, ra_len = 0, ra_air = []\<rparr>"

definition demo_queue :: msg_queue where
  "demo_queue = \<lparr>mq_open = True, mq_pipe = [], mq_num = 10, mq_size = 34\<rparr>"

definition demo_left :: async_data where
  "demo_left = \<lparr>ad_type = 9, ad_data = zeros 32, ad_len = 9\<rparr>"

lemma demo_link:
  "adv_bearer_type (demo_gap\<lparr>gap_enabled := True, gap_idle := [0]\<rparr>) = MESHX_BEARER_TYPE_ADV"
  "MESHX_IS_BEARER_ADV_PKT_TYPE_VALID 0x2A" "gap_enabled (demo_gap\<lparr>gap_enabled := True, gap_idle := [0]\<rparr>)"
  "gap_active (demo_gap\<lparr>gap_enabled := True, gap_idle := [0]\<rparr>) = []"
  "gap_idle (demo_gap\<lparr>gap_enabled := True, gap_idle := [0]\<rparr>) \<noteq> []"
  "gap_adv_state (demo_gap\<lparr>gap_enabled := True, gap_idle := [0]\<rparr>) = MESHX_GAP_ADV_STATE_IDLE"
  "length (ra_data demo_radio) = 64" "ra_air demo_radio = []" "mq_open demo_queue" "mq_pipe demo_queue = []"
  "mq_size demo_queue = 34" "length (ad_data demo_left) = 32" "length (zeros 34) = 34"
  "adv_bearer_type (mw_gap (nw_mesh (async_state late_node))) = MESHX_BEARER_TYPE_ADV"
  "adv_bearer_iface (mw_gap (nw_mesh (async_state late_node))) = Some 0"
  by (simp_all add: demo_gap_def demo_radio_def demo_queue_def demo_left_def late_node_def late_mesh_def demo_mesh_def MESHX_BEARER_TYPE_ADV_def
      MESHX_IS_BEARER_ADV_PKT_TYPE_VALID_def MESHX_GAP_ADTYPE_MESH_MSG_def MESHX_GAP_ADV_STATE_IDLE_def)

theorem radio_carries_witness:
  "\<exists>g' (r' :: radio) q'. meshx_bearer_adv_send (Some BEARER_ADV) 0x2A [7, 8] (demo_gap\<lparr>gap_enabled := True, gap_idle := [0]\<rparr>) =
      Some (MESHX_SUCCESS, g') \<and>
    meshx_receive_thread demo_left (ra_air r') demo_queue = Some ([], q') \<and>
    meshx_thread (node_main 1 demo_aes demo_ext (\<lambda>c s. Some s)) (zeros 34) q' late_node =
      main_result demo_queue late_node (Some (node_net_receive 1 demo_aes (Some 0) [7, 8] (async_state late_node)))"
proof -
  have "length [7, 8 :: u8] \<le> 29" "[7, 8 :: u8] \<noteq> []" "MESHX_GAP_ADTYPE_MESH_MSG = 0x2A" by (simp_all add: MESHX_GAP_ADTYPE_MESH_MSG_def)
  from radio_carries [OF demo_link(1,2) this(1,2) demo_link(3-15), of 1 demo_aes demo_ext "\<lambda>c s. Some s"] this(3)
  obtain g' and r' :: radio and q' where "meshx_bearer_adv_send (Some BEARER_ADV) 0x2A [7, 8] (demo_gap\<lparr>gap_enabled := True, gap_idle := [0]\<rparr>) =
      Some (MESHX_SUCCESS, g')" "meshx_receive_thread demo_left (ra_air r') demo_queue = Some ([], q')"
    "meshx_thread (node_main 1 demo_aes demo_ext (\<lambda>c s. Some s)) (zeros 34) q' late_node =
      main_result demo_queue late_node (Some (node_net_receive 1 demo_aes (Some 0) [7, 8] (async_state late_node)))"
    by (elim exE conjE) (rule that, assumption, assumption, simp)
  then show ?thesis by blast
qed

end
