(* ===== verification/Mesh_Proxy_Facts.thy ===== *)
theory Mesh_Proxy_Facts
  imports Mesh_Proxy Mesh_Init
begin

text \<open>
  What the proxy protocol promises and what it does not: the segments of a peer are put together
  and handed on whole; what this code sends over GATT is lost without notice, since no bearer
  can be created, and would not be complete for a peer that runs the same code if there were one.
\<close>

unbundle bit_operations_syntax

section \<open>The header\<close>

lemma proxy_header:
  assumes "sar \<in> {MESHX_PROXY_SAR_COMPLETE_MSG, MESHX_PROXY_SAR_FIRST_SEG, MESHX_PROXY_SAR_CONTINUE_SEG, MESHX_PROXY_SAR_LAST_SEG}"
  shows "drop_bit 6 ((t AND 0x3F) OR push_bit 6 sar :: u8) = sar"
    "((t AND 0x3F) OR push_bit 6 sar :: u8) AND 0x3F = t AND 0x3F"
proof -
  have s: "sar \<in> {0, 1, 2, 3}" using assms by (auto simp: proxy_codes)
  have d: "drop_bit 6 (t AND 0x3F :: u8) = 0"
    by (rule bit_word_eqI) (simp add: bit_simps mask_eq_exp_minus_1 bit_numeral_rec numeral_eq_Suc)
  have "drop_bit 6 (push_bit 6 sar :: u8) = sar" "push_bit 6 sar AND 0x3F = (0 :: u8)" using s by auto
  then show "drop_bit 6 ((t AND 0x3F) OR push_bit 6 sar :: u8) = sar"
    "((t AND 0x3F) OR push_bit 6 sar :: u8) AND 0x3F = t AND 0x3F"
    using d by (simp_all add: bit.conj_disj_distrib2 drop_bit_or and.assoc)
qed

section \<open>Reassembly\<close>

text \<open>A message in segments as a peer sends it, and the reception of several pdus.\<close>

fun later_segments :: "u8 \<Rightarrow> bytes list \<Rightarrow> bytes list" where
  "later_segments t [] = []"
| "later_segments t [c] = [proxy_pdu MESHX_PROXY_SAR_LAST_SEG t c]"
| "later_segments t (c # cs) = proxy_pdu MESHX_PROXY_SAR_CONTINUE_SEG t c # later_segments t cs"

fun proxy_segments :: "u8 \<Rightarrow> bytes list \<Rightarrow> bytes list" where
  "proxy_segments t [] = []"
| "proxy_segments t (c # cs) = proxy_pdu MESHX_PROXY_SAR_FIRST_SEG t c # later_segments t cs"

fun proxy_receive_all ::
  "aes128 \<Rightarrow> (nat \<Rightarrow> bytes \<Rightarrow> mesh_world \<Rightarrow> (errno \<times> mesh_world) option) \<Rightarrow> meshx_bearer_t \<Rightarrow> bytes list \<Rightarrow>
   mesh_world \<Rightarrow> mesh_world option" where
  "proxy_receive_all aes nr b [] w = Some w"
| "proxy_receive_all aes nr b (p # ps) w = do {
    (_, w) \<leftarrow> meshx_proxy_receive aes nr b p w;
    proxy_receive_all aes nr b ps w
  }"

text \<open>The last context of the list is that of the bearer and holds these data.\<close>

definition proxy_holds :: "meshx_bearer_t \<Rightarrow> u8 \<Rightarrow> bytes \<Rightarrow> nat \<Rightarrow> mesh_world \<Rightarrow> bool" where
  "proxy_holds b t data p w \<longleftrightarrow>
    (\<exists>ps x. mw_proxy w = ps @ [(p, x)] \<and> (\<forall>y \<in> set ps. fst y \<noteq> p \<and> px_bearer (snd y) \<noteq> b) \<and>
      px_bearer x = b \<and> px_msg_type x = t \<and> length (px_data x) = 80 \<and> px_max_len x = 80 \<and>
      unat (px_data_len x) = length data \<and> take (length data) (px_data x) = data)"

definition proxy_fresh :: "meshx_bearer_t \<Rightarrow> mesh_world \<Rightarrow> bool" where
  "proxy_fresh b w \<longleftrightarrow> env_ok (mw_env w) \<and> (\<forall>y \<in> set (mw_proxy w). fst y < mw_next w \<and> px_bearer (snd y) \<noteq> b)"

lemma find_ctx_none: "\<forall>y \<in> set ps. px_bearer (snd y) \<noteq> b \<Longrightarrow> find_rx_ctx_loop b ps = None"
  by (induction ps) auto

lemma find_ctx_last:
  "\<forall>y \<in> set ps. px_bearer (snd y) \<noteq> b \<Longrightarrow> px_bearer x = b \<Longrightarrow> find_rx_ctx_loop b (ps @ [(p, x)]) = Some (p, x)"
  by (induction ps) auto

lemma upd_last:
  "mw_proxy w = ps @ [(p, x)] \<Longrightarrow> \<forall>y \<in> set ps. fst y \<noteq> p \<Longrightarrow>
    proxy_upd p f w = w\<lparr>mw_proxy := ps @ [(p, f x)]\<rparr>"
  by (simp add: proxy_upd_def) (simp add: map_idI)

lemma receive_first:
  assumes "proxy_fresh b w" "c \<noteq> []" "length c < 80"
  shows "\<exists>e ps. meshx_proxy_receive aes nr b (proxy_pdu MESHX_PROXY_SAR_FIRST_SEG t c) w =
      Some (MESHX_SUCCESS, w\<lparr>mw_env := e, mw_next := Suc (mw_next w), mw_proxy := ps\<rparr>) \<and>
    proxy_holds b (t AND 0x3F) c (mw_next w) (w\<lparr>mw_env := e, mw_next := Suc (mw_next w), mw_proxy := ps\<rparr>)"
proof -
  have e: "env_ok (mw_env w)" "\<forall>y \<in> set (mw_proxy w). fst y < mw_next w \<and> px_bearer (snd y) \<noteq> b"
    using assms(1) by (simp_all add: proxy_fresh_def)
  obtain e1 where e1: "meshx_malloc_ok (mw_env w) = (True, e1)" "env_ok e1" using env_ok_alloc(1) [OF e(1)] by blast
  obtain e2 where e2: "meshx_malloc_ok e1 = (True, e2)" "env_ok e2" using env_ok_alloc(1) [OF e1(2)] by blast
  obtain tm e3 where e3: "meshx_timer_create None MESHX_TIMER_MODE_SINGLE_SHOT e2 = (MESHX_SUCCESS, Some tm, e3)"
    using env_ok_timer [OF e2(2)] by blast
  have f: "meshx_proxy_find_rx_ctx b w = None" using find_ctx_none e(2) by (simp add: meshx_proxy_find_rx_ctx_def)
  have u: "unat (word_of_nat (length c + 1) :: u16) = length c + 1" "unat (word_of_nat (length c) :: u16) = length c"
    using assms(3) by (simp_all add: unat_of_nat del: of_nat_Suc of_nat_add)
  let ?x = "\<lparr>px_bearer = None, px_msg_type = 0, px_data = junk w 80, px_data_len = 0, px_max_len = 80, px_timer = Some tm\<rparr>"
  have j: "junk (w\<lparr>mw_env := e'\<rparr>) n = junk w n" for e' n by (simp add: junk_def)
  have q: "meshx_proxy_rx_ctx_request (word_of_nat (length c + 1)) w =
      (Some (mw_next w, ?x), w\<lparr>mw_env := e3, mw_proxy := mw_proxy w @ [(mw_next w, ?x)], mw_next := Suc (mw_next w)\<rparr>)"
    using assms(3) u(1) e1 e2 e3
    by (simp add: meshx_proxy_rx_ctx_request_def on_menv_def MESHX_PROXY_INIT_PDU_LEN_def Let_def j del: of_nat_Suc of_nat_add)
  let ?y = "?x\<lparr>px_bearer := b, px_msg_type := t AND 0x3F, px_data := c @ drop (length c) (junk w 80),
    px_data_len := word_of_nat (length c), px_timer := snd (meshx_timer_start (Some tm) MESHX_PROXY_SAR_TRANSFER_TIME)\<rparr>"
  have n: "\<forall>y \<in> set (mw_proxy w). fst y \<noteq> mw_next w" using e(2) by auto
  have r: "meshx_proxy_receive aes nr b (proxy_pdu MESHX_PROXY_SAR_FIRST_SEG t c) w =
      Some (MESHX_SUCCESS, w\<lparr>mw_env := e3, mw_next := Suc (mw_next w), mw_proxy := mw_proxy w @ [(mw_next w, ?y)]\<rparr>)"
    using assms(2,3) f q proxy_header [of MESHX_PROXY_SAR_FIRST_SEG t] n
    by (simp add: meshx_proxy_receive_def proxy_pdu_def proxy_receive_first_def Let_def mem_write_def
        upd_last [of _ "mw_proxy w"])
  show ?thesis
    by (intro exI conjI, rule r) (use e(2) u(2) assms(3) in \<open>auto simp: proxy_holds_def\<close>)
qed

lemma receive_next:
  assumes "proxy_holds b (t AND 0x3F) data p w" "c \<noteq> []" "length data + length c \<le> 80"
    "sar = MESHX_PROXY_SAR_CONTINUE_SEG \<or> sar = MESHX_PROXY_SAR_LAST_SEG"
  shows "\<exists>ps. proxy_holds b (t AND 0x3F) (data @ c) p (w\<lparr>mw_proxy := ps\<rparr>) \<and>
    meshx_proxy_receive aes nr b (proxy_pdu sar t c) w =
      (if sar = MESHX_PROXY_SAR_CONTINUE_SEG then Some (MESHX_SUCCESS, w\<lparr>mw_proxy := ps\<rparr>)
       else do {
         (_, v) \<leftarrow> meshx_proxy_dispatch aes nr b (t AND 0x3F) (data @ c) (w\<lparr>mw_proxy := ps\<rparr>);
         v \<leftarrow> meshx_proxy_rx_ctx_release p v;
         Some (MESHX_SUCCESS, v) })"
proof -
  obtain ps x where x: "mw_proxy w = ps @ [(p, x)]" "\<forall>y \<in> set ps. fst y \<noteq> p" "\<forall>y \<in> set ps. px_bearer (snd y) \<noteq> b"
    "px_bearer x = b" "px_msg_type x = t AND 0x3F" "length (px_data x) = 80" "px_max_len x = 80"
    "unat (px_data_len x) = length data" "take (length data) (px_data x) = data"
    using assms(1) by (auto simp: proxy_holds_def)
  define y where "y = x\<lparr>px_data := take (length data) (px_data x) @ c @ drop (length data + length c) (px_data x),
    px_data_len := px_data_len x + word_of_nat (length c)\<rparr>"
  have u: "unat (px_data_len x + word_of_nat (length c)) = length data + length c"
    using assms(3) x(8) by (simp add: unat_word_ariths(1) unat_of_nat)
  have yd: "px_data y = data @ c @ drop (length data + length c) (px_data x)" "length (px_data y) = 80"
    using x(6,9) assms(3) by (auto simp: y_def)
  have h: "proxy_holds b (t AND 0x3F) (data @ c) p (w\<lparr>mw_proxy := ps @ [(p, y)]\<rparr>)"
    using x(2-5,7) u yd by (auto simp: proxy_holds_def y_def)
  have f: "meshx_proxy_find_rx_ctx b w = Some (p, x)"
    using find_ctx_last [OF x(3,4)] by (simp add: meshx_proxy_find_rx_ctx_def x(1))
  have m: "mem_write (px_data x) (unat (px_data_len x)) c = Some (px_data y)"
    using x(6,8) assms(3) by (simp add: mem_write_def y_def)
  have up: "proxy_upd p (\<lambda>_. y) w = w\<lparr>mw_proxy := ps @ [(p, y)]\<rparr>" by (rule upd_last [OF x(1,2)])
  have ye: "x\<lparr>px_data := px_data y, px_data_len := px_data_len x + word_of_nat (length c)\<rparr> = y" by (simp add: y_def)
  have tk: "take (unat (px_data_len y)) (px_data y) = data @ c" "px_msg_type y = t AND 0x3F"
    using u yd(1) x(5) by (simp_all add: y_def)
  have sar: "drop_bit 6 ((t AND 0x3F) OR push_bit 6 sar :: u8) = sar" "((t AND 0x3F) OR push_bit 6 sar :: u8) AND 0x3F = t AND 0x3F"
    using proxy_header [of sar t] assms(4) by auto
  have ne: "\<not> (sar = MESHX_PROXY_SAR_COMPLETE_MSG \<or> sar = MESHX_PROXY_SAR_FIRST_SEG)"
    using assms(4) by (auto simp: proxy_codes)
  have "meshx_proxy_receive aes nr b (proxy_pdu sar t c) w = proxy_receive_next aes nr b p x sar (t AND 0x3F) c w"
    using assms(2) f sar by (simp add: meshx_proxy_receive_def proxy_pdu_def Let_def)
  also have "\<dots> = (if sar = MESHX_PROXY_SAR_CONTINUE_SEG then Some (MESHX_SUCCESS, w\<lparr>mw_proxy := ps @ [(p, y)]\<rparr>)
       else do {
         (_, v) \<leftarrow> meshx_proxy_dispatch aes nr b (t AND 0x3F) (data @ c) (w\<lparr>mw_proxy := ps @ [(p, y)]\<rparr>);
         v \<leftarrow> meshx_proxy_rx_ctx_release p v;
         Some (MESHX_SUCCESS, v) })"
    using ne x(5,7,8) assms(3,4) m up
    by (auto simp: proxy_receive_next_def Let_def ye tk proxy_codes)
  finally show ?thesis using h by (intro exI [of _ "ps @ [(p, y)]"] conjI)
qed

lemma receive_later:
  assumes "proxy_holds b (t AND 0x3F) data p w" "\<forall>c \<in> set cs. c \<noteq> []" "cs \<noteq> []" "length data + length (concat cs) \<le> 80"
  shows "\<exists>ps. proxy_holds b (t AND 0x3F) (data @ concat cs) p (w\<lparr>mw_proxy := ps\<rparr>) \<and>
    proxy_receive_all aes nr b (later_segments t cs) w = do {
      (_, v) \<leftarrow> meshx_proxy_dispatch aes nr b (t AND 0x3F) (data @ concat cs) (w\<lparr>mw_proxy := ps\<rparr>);
      meshx_proxy_rx_ctx_release p v }"
  using assms
proof (induction cs arbitrary: data w rule: later_segments.induct [of _ t, case_names nil one more])
  case (one t c)
  have ne: "MESHX_PROXY_SAR_LAST_SEG \<noteq> MESHX_PROXY_SAR_CONTINUE_SEG" by (simp add: proxy_codes)
  from receive_next [OF one(1), of c MESHX_PROXY_SAR_LAST_SEG aes nr] one(2,4) obtain ps where ps:
    "proxy_holds b (t AND 0x3F) (data @ c) p (w\<lparr>mw_proxy := ps\<rparr>)"
    "meshx_proxy_receive aes nr b (proxy_pdu MESHX_PROXY_SAR_LAST_SEG t c) w = do {
         (_, v) \<leftarrow> meshx_proxy_dispatch aes nr b (t AND 0x3F) (data @ c) (w\<lparr>mw_proxy := ps\<rparr>);
         v \<leftarrow> meshx_proxy_rx_ctx_release p v;
         Some (MESHX_SUCCESS, v) }" using ne by auto
  show ?case
    by (intro exI [of _ ps]) (use ps in \<open>auto split: Option.bind_splits\<close>)
next
  case (more t c c' cs)
  from receive_next [OF more(2), of c MESHX_PROXY_SAR_CONTINUE_SEG aes nr] more(3,5) obtain ps where ps:
    "proxy_holds b (t AND 0x3F) (data @ c) p (w\<lparr>mw_proxy := ps\<rparr>)"
    "meshx_proxy_receive aes nr b (proxy_pdu MESHX_PROXY_SAR_CONTINUE_SEG t c) w = Some (MESHX_SUCCESS, w\<lparr>mw_proxy := ps\<rparr>)"
    by auto
  from more(1) [OF ps(1)] more(3,5) show ?case by (simp add: ps(2))
qed simp

section \<open>What is sent\<close>

text \<open>With the MTU of one byte this bearer has, the pdus of a message: its bytes one by one, and
  an empty last segment.\<close>

definition proxy_sent :: "u8 \<Rightarrow> bytes \<Rightarrow> bytes list" where
  "proxy_sent t pdata =
    map (\<lambda>i. proxy_pdu (if i = 0 then MESHX_PROXY_SAR_FIRST_SEG else MESHX_PROXY_SAR_CONTINUE_SEG) t [pdata ! i]) [0..<length pdata] @
    [proxy_pdu MESHX_PROXY_SAR_LAST_SEG t []]"

lemma out_handle_upd [simp]:
  "proxy_out_handle t (w\<lparr>mw_gatt_out := g\<rparr>) = proxy_out_handle t w" "proxy_out_handle t (w\<lparr>mw_env := e\<rparr>) = proxy_out_handle t w"
  by (simp_all add: proxy_out_handle_def meshx_prov_char_data_out_handle_def meshx_proxy_char_data_out_handle_def)

lemma send_one:
  assumes "meshx_bearer_gatt_exists (BEARER_GATT h) w"
  shows "snd (meshx_bearer_gatt_send (Some (BEARER_GATT h)) k d w) = w\<lparr>mw_gatt_out := mw_gatt_out w @ [(h, k, d)]\<rparr>"
  using assms by (simp add: meshx_bearer_gatt_send_def meshx_gatts_notify_def)

lemma send_loop:
  assumes "length pdata = n" "1 \<le> n" "n \<le> 80" "k \<le> n" "meshx_bearer_gatt_exists (BEARER_GATT h) w"
  shows "proxy_send_loop (map word_of_nat [k..<Suc n]) (Some (BEARER_GATT h)) t pdata 1 (word_of_nat n + 1) (word_of_nat k) w =
    Some (w\<lparr>mw_gatt_out := mw_gatt_out w @
      map (\<lambda>d. (h, proxy_out_handle t w, d)) (drop k (proxy_sent t pdata))\<rparr>)"
  using assms(4,5)
proof (induction "n - k" arbitrary: k w)
  case 0
  then have k: "k = n" by simp
  have last: "proxy_sar (word_of_nat n) (word_of_nat n + 1) = MESHX_PROXY_SAR_LAST_SEG"
    using assms(2,3) by (auto simp: proxy_sar_def word_of_nat_eq_0_iff dest: dvd_imp_le)
  have d: "drop n (proxy_sent t pdata) = [proxy_pdu MESHX_PROXY_SAR_LAST_SEG t []]"
    using assms(1) by (simp add: proxy_sent_def)
  show ?case unfolding k using assms(1,3) 0(3)
    by (simp add: mem_read_def unat_of_nat last d send_one del: upt_Suc) (simp add: upt_conv_Cons last send_one mem_read_def unat_of_nat)
next
  case (Suc m)
  then have k: "k < n" by simp
  have u: "unat (word_of_nat k :: u16) = k" using k assms(3) by (simp add: unat_of_nat)
  have ne: "(word_of_nat k :: u16) \<noteq> word_of_nat n"
  proof
    assume "(word_of_nat k :: u16) = word_of_nat n"
    then have "unat (word_of_nat k :: u16) = unat (word_of_nat n :: u16)" by simp
    then show False using u k assms(3) by (simp add: unat_of_nat)
  qed
  have sar: "proxy_sar (word_of_nat k) (word_of_nat n + 1) =
      (if k = 0 then MESHX_PROXY_SAR_FIRST_SEG else MESHX_PROXY_SAR_CONTINUE_SEG)"
    using ne k assms(3) by (auto simp: proxy_sar_def word_of_nat_eq_0_iff dest: dvd_imp_le)
  let ?v = "w\<lparr>mw_gatt_out := mw_gatt_out w @ [(h, proxy_out_handle t w, proxy_sent t pdata ! k)]\<rparr>"
  have v: "meshx_bearer_gatt_exists (BEARER_GATT h) ?v" "proxy_out_handle t ?v = proxy_out_handle t w"
    using Suc(4) by (simp_all add: meshx_bearer_gatt_exists_def proxy_out_handle_def meshx_prov_char_data_out_handle_def
        meshx_proxy_char_data_out_handle_def)
  have nth: "proxy_sent t pdata ! k = proxy_pdu (proxy_sar (word_of_nat k) (word_of_nat n + 1)) t [pdata ! k]"
    using k assms(1) by (simp add: proxy_sent_def nth_append sar)
  have r: "mem_read pdata (unat (word_of_nat k :: u16)) 1 = Some [pdata ! k]"
    using k assms(1) u by (simp add: mem_read_def take_Suc_conv_app_nth Cons_nth_drop_Suc [symmetric] del: drop_Suc_Cons)
  have dr: "drop k (proxy_sent t pdata) = proxy_sent t pdata ! k # drop (Suc k) (proxy_sent t pdata)"
    by (rule Cons_nth_drop_Suc [symmetric]) (use k assms(1) in \<open>simp add: proxy_sent_def\<close>)
  have ih: "proxy_send_loop (map word_of_nat [Suc k..<Suc n]) (Some (BEARER_GATT h)) t pdata 1 (word_of_nat n + 1) (word_of_nat (Suc k)) ?v =
    Some (?v\<lparr>mw_gatt_out := mw_gatt_out ?v @ map (\<lambda>d. (h, proxy_out_handle t ?v, d)) (drop (Suc k) (proxy_sent t pdata))\<rparr>)"
    by (rule Suc(1)) (use Suc(2) k v(1) in auto)
  have up: "[k..<Suc n] = k # [Suc k..<Suc n]" using k by (simp add: upt_conv_Cons)
  have su: "word_of_nat k + 1 = (word_of_nat (Suc k) :: u16)" by simp
  show ?case
    unfolding up using ih ne r su
    by (simp add: send_one [OF Suc(4)] nth dr v(2) add.commute del: upt_Suc of_nat_Suc)
qed

lemma proxy_send_pdus:
  assumes "1 \<le> length pdata" "length pdata \<le> 80" "meshx_bearer_gatt_exists (BEARER_GATT h) w" "env_ok (mw_env w)"
  shows "\<exists>e. meshx_proxy_send (Some (BEARER_GATT h)) t pdata w =
    Some (MESHX_SUCCESS, w\<lparr>mw_env := e, mw_gatt_out := mw_gatt_out w @ map (\<lambda>d. (h, proxy_out_handle t w, d)) (proxy_sent t pdata)\<rparr>)"
proof -
  obtain e where e: "meshx_malloc_ok (mw_env w) = (True, e)" using env_ok_alloc(1) [OF assms(4)] by blast
  let ?n = "length pdata" and ?w = "w\<lparr>mw_env := e\<rparr>"
  have u: "unat (word_of_nat ?n + 1 :: u16) = Suc ?n"
    using assms(2) by (simp add: unat_word_ariths(1) unat_of_nat)
  have m: "(word_of_nat ?n :: u16) \<noteq> 0"
    using assms(1,2) by (auto simp: word_of_nat_eq_0_iff dest: dvd_imp_le)
  have dv: "(k :: u16) div 1 = k" for k by (simp add: word_unat_eq_iff unat_div_distrib)
  have x: "meshx_bearer_gatt_exists (BEARER_GATT h) ?w" "proxy_out_handle t ?w = proxy_out_handle t w"
    using assms(3) by (simp_all add: meshx_bearer_gatt_exists_def proxy_out_handle_def meshx_prov_char_data_out_handle_def
        meshx_proxy_char_data_out_handle_def)
  have l: "proxy_send_loop (map word_of_nat [0..<Suc ?n]) (Some (BEARER_GATT h)) t pdata 1 (word_of_nat ?n + 1) 0 ?w =
    Some (?w\<lparr>mw_gatt_out := mw_gatt_out ?w @ map (\<lambda>d. (h, proxy_out_handle t ?w, d)) (proxy_sent t pdata)\<rparr>)"
    using send_loop [OF refl assms(1,2) _ x(1), of 0 t] by (simp del: upt_Suc)
  show ?thesis
    by (intro exI [of _ e]) (use l in \<open>simp add: meshx_proxy_send_def meshx_bearer_gatt_mtu_get_def Let_def on_menv_def e m dv u
        del: upt_Suc\<close>)
qed

lemma proxy_sent_Cons:
  "proxy_sent t (x # xs) = proxy_pdu MESHX_PROXY_SAR_FIRST_SEG t [x] #
    map (\<lambda>y. proxy_pdu MESHX_PROXY_SAR_CONTINUE_SEG t [y]) xs @ [proxy_pdu MESHX_PROXY_SAR_LAST_SEG t []]"
proof -
  have "[0..<length (x # xs)] = 0 # map Suc [0..<length xs]" by (simp add: map_Suc_upt upt_conv_Cons del: upt_Suc)
  moreover have "map (\<lambda>i. f (xs ! i)) [0..<length xs] = map f xs" for f :: "u8 \<Rightarrow> bytes"
    by (rule nth_equalityI) simp_all
  ultimately show ?thesis unfolding proxy_sent_def by (simp add: comp_def del: upt_Suc)
qed

lemma receive_bytes:
  assumes "proxy_holds b (t AND 0x3F) data p w" "length data + length xs \<le> 80"
  shows "\<exists>ps. proxy_holds b (t AND 0x3F) (data @ xs) p (w\<lparr>mw_proxy := ps\<rparr>) \<and>
    proxy_receive_all aes nr b (map (\<lambda>y. proxy_pdu MESHX_PROXY_SAR_CONTINUE_SEG t [y]) xs @
      [proxy_pdu MESHX_PROXY_SAR_LAST_SEG t []]) w = Some (w\<lparr>mw_proxy := ps\<rparr>)"
  using assms
proof (induction xs arbitrary: data w)
  case Nil
  then show ?case
    by (intro exI [of _ "mw_proxy w"]) (simp add: meshx_proxy_receive_def proxy_pdu_def)
next
  case (Cons x xs)
  from receive_next [OF Cons.prems(1), of "[x]" MESHX_PROXY_SAR_CONTINUE_SEG aes nr] Cons.prems(2) obtain ps where ps:
    "proxy_holds b (t AND 0x3F) (data @ [x]) p (w\<lparr>mw_proxy := ps\<rparr>)"
    "meshx_proxy_receive aes nr b (proxy_pdu MESHX_PROXY_SAR_CONTINUE_SEG t [x]) w = Some (MESHX_SUCCESS, w\<lparr>mw_proxy := ps\<rparr>)"
    by auto
  from Cons.IH [OF ps(1)] Cons.prems(2) show ?case by (simp add: ps(2))
qed

lemma receive_sent:
  assumes "proxy_fresh b w" "1 \<le> length pdata" "length pdata \<le> 80"
  shows "\<exists>e ps. proxy_receive_all aes nr b (proxy_sent t pdata) w =
      Some (w\<lparr>mw_env := e, mw_next := Suc (mw_next w), mw_proxy := ps\<rparr>) \<and>
    proxy_holds b (t AND 0x3F) pdata (mw_next w) (w\<lparr>mw_env := e, mw_next := Suc (mw_next w), mw_proxy := ps\<rparr>)"
proof -
  obtain x xs where p: "pdata = x # xs" using assms(2) by (cases pdata) auto
  from receive_first [OF assms(1), of "[x]" aes nr t] obtain e ps where f:
    "meshx_proxy_receive aes nr b (proxy_pdu MESHX_PROXY_SAR_FIRST_SEG t [x]) w =
      Some (MESHX_SUCCESS, w\<lparr>mw_env := e, mw_next := Suc (mw_next w), mw_proxy := ps\<rparr>)"
    "proxy_holds b (t AND 0x3F) [x] (mw_next w) (w\<lparr>mw_env := e, mw_next := Suc (mw_next w), mw_proxy := ps\<rparr>)" by auto
  from receive_bytes [OF f(2), of xs aes nr] assms(3) p obtain qs where q:
    "proxy_holds b (t AND 0x3F) (x # xs) (mw_next w) (w\<lparr>mw_env := e, mw_next := Suc (mw_next w), mw_proxy := qs\<rparr>)"
    "proxy_receive_all aes nr b (map (\<lambda>y. proxy_pdu MESHX_PROXY_SAR_CONTINUE_SEG t [y]) xs @
      [proxy_pdu MESHX_PROXY_SAR_LAST_SEG t []]) (w\<lparr>mw_env := e, mw_next := Suc (mw_next w), mw_proxy := ps\<rparr>) =
      Some (w\<lparr>mw_env := e, mw_next := Suc (mw_next w), mw_proxy := qs\<rparr>)" by auto
  show ?thesis unfolding p proxy_sent_Cons
    by (intro exI [of _ e] exI [of _ qs]) (use f(1) q in simp)
qed

section \<open>Properties\<close>

text \<open>C16: A message of the network in segments is put together and handed to the network layer
  whole: for every way a peer cuts it into two or more pieces that are not empty, of eighty bytes
  at most together, the network layer receives the bytes of all pieces in their order.\<close>

theorem proxy_reassembles:
  assumes "proxy_fresh b w" "\<forall>c \<in> set cs. c \<noteq> []" "2 \<le> length cs" "length (concat cs) \<le> 80"
    and "meshx_net_iface_get b w = Some (Some a)"
  shows "\<exists>w1. mw_delivered w1 = mw_delivered w \<and> proxy_holds b MESHX_PROXY_MSG_TYPE_NET (concat cs) (mw_next w) w1 \<and>
    proxy_receive_all aes nr b (proxy_segments MESHX_PROXY_MSG_TYPE_NET cs) w = do {
      (_, w2) \<leftarrow> nr a (concat cs) w1;
      meshx_proxy_rx_ctx_release (mw_next w) w2 }"
proof -
  obtain c c' ds where cs: "cs = c # c' # ds" using assms(3) by (cases cs; cases "tl cs") auto
  have "0 < length c'" using assms(2) cs by auto
  then have l: "length c < 80" "length c + length (concat (c' # ds)) \<le> 80" using assms(4) cs by (simp_all del: length_greater_0_conv)
  from receive_first [OF assms(1) _ l(1), of aes nr MESHX_PROXY_MSG_TYPE_NET] assms(2) cs obtain e ps where f:
    "meshx_proxy_receive aes nr b (proxy_pdu MESHX_PROXY_SAR_FIRST_SEG MESHX_PROXY_MSG_TYPE_NET c) w =
      Some (MESHX_SUCCESS, w\<lparr>mw_env := e, mw_next := Suc (mw_next w), mw_proxy := ps\<rparr>)"
    "proxy_holds b (MESHX_PROXY_MSG_TYPE_NET AND 0x3F) c (mw_next w) (w\<lparr>mw_env := e, mw_next := Suc (mw_next w), mw_proxy := ps\<rparr>)"
    by auto
  from receive_later [OF f(2) _ _ l(2), of aes nr] assms(2) cs obtain qs where q:
    "proxy_holds b (MESHX_PROXY_MSG_TYPE_NET AND 0x3F) (concat cs) (mw_next w)
      (w\<lparr>mw_env := e, mw_next := Suc (mw_next w), mw_proxy := qs\<rparr>)"
    "proxy_receive_all aes nr b (later_segments MESHX_PROXY_MSG_TYPE_NET (c' # ds))
      (w\<lparr>mw_env := e, mw_next := Suc (mw_next w), mw_proxy := ps\<rparr>) = do {
      (_, v) \<leftarrow> meshx_proxy_dispatch aes nr b (MESHX_PROXY_MSG_TYPE_NET AND 0x3F) (concat cs)
        (w\<lparr>mw_env := e, mw_next := Suc (mw_next w), mw_proxy := qs\<rparr>);
      meshx_proxy_rx_ctx_release (mw_next w) v }" by auto
  let ?w = "w\<lparr>mw_env := e, mw_next := Suc (mw_next w), mw_proxy := qs\<rparr>"
  have g: "meshx_net_iface_get b ?w = Some (Some a)"
    using assms(5) by (simp add: meshx_net_iface_get_def bearer_iface_def split: option.splits bearer.splits)
  have "unat (word_of_nat (length (concat cs)) :: u8) = length (concat cs)" using assms(4) by (simp add: unat_of_nat)
  then have d: "meshx_proxy_dispatch aes nr b MESHX_PROXY_MSG_TYPE_NET (concat cs) ?w = nr a (concat cs) ?w"
    by (simp add: meshx_proxy_dispatch_def g)
  have t: "MESHX_PROXY_MSG_TYPE_NET AND 0x3F = MESHX_PROXY_MSG_TYPE_NET" by (simp add: proxy_codes)
  show ?thesis using q f(1) d by (intro exI [of _ ?w]) (simp add: cs t)
qed

text \<open>Were there a GATT bearer, a peer that runs the same code would still not get the message to
  its network layer.  The bearer reports an MTU of one byte, so a message of n bytes is sent as
  n segments of one byte and an empty last one; the peer collects the bytes, refuses the last
  segment as too short, and is left with a context that holds the whole message.\<close>

lemma proxy_never_delivers:
  assumes "1 \<le> length pdata" "length pdata \<le> 80" "meshx_bearer_gatt_exists (BEARER_GATT h) v" "env_ok (mw_env v)" "proxy_fresh b w"
  shows "\<exists>v'. meshx_proxy_send (Some (BEARER_GATT h)) t pdata v = Some (MESHX_SUCCESS, v') \<and>
    mw_gatt_out v' = mw_gatt_out v @ map (\<lambda>d. (h, proxy_out_handle t v, d)) (proxy_sent t pdata) \<and>
    (\<forall>nr. \<exists>e ps. proxy_receive_all aes nr b (proxy_sent t pdata) w = Some (w\<lparr>mw_env := e, mw_next := Suc (mw_next w), mw_proxy := ps\<rparr>) \<and>
      proxy_holds b (t AND 0x3F) pdata (mw_next w) (w\<lparr>mw_env := e, mw_next := Suc (mw_next w), mw_proxy := ps\<rparr>))"
  using proxy_send_pdus [OF assms(1-4), of t] receive_sent [OF assms(5,1,2)] by fastforce

text \<open>Without a bearer, every segment is refused, and the loop does not notice.\<close>

lemma lost_loop:
  assumes "mw_gatt w = []" "n = length pdata" "n < 65535"
  shows "m = Suc n - i \<Longrightarrow> i \<le> Suc n \<Longrightarrow> (i \<le> n \<Longrightarrow> off = word_of_nat i) \<Longrightarrow>
    proxy_send_loop (map word_of_nat [i..<Suc n]) b t pdata 1 (word_of_nat n + 1) off w = Some w"
proof (induction m arbitrary: i off)
  case (Suc m)
  have i: "i \<le> n" and js: "[i..<Suc n] = i # [Suc i..<Suc n]" using Suc.prems(1) by (simp_all add: upt_conv_Cons del: upt_Suc)
  have off: "off = word_of_nat i" using Suc.prems(3) i by blast
  have s: "snd (meshx_bearer_gatt_send b x d w) = w" for x d
    using assms(1) by (simp add: meshx_bearer_gatt_send_def meshx_bearer_gatt_exists_def split: option.splits bearer.splits)
  have u: "unat (word_of_nat k :: u16) = k" if "k \<le> n" for k
    using that assms(3) by (simp add: unsigned_of_nat take_bit_nat_eq_self)
  define sl :: u16 where "sl = (if word_of_nat i = (word_of_nat n + 1 - 1 :: u16) then word_of_nat (length pdata) - off else 1)"
  have ne: "(word_of_nat i :: u16) \<noteq> word_of_nat n" if "Suc i \<le> n" using u [of i] u [of n] that by (auto simp: word_unat_eq_iff)
  have sl: "sl = (if i = n then 0 else 1)" using ne i assms(2) by (auto simp: sl_def off)
  obtain d where d: "mem_read pdata (unat off) (unat sl) = Some d" using u [of i] i assms(2) that by (cases "i = n") (simp_all add: mem_read_def off sl)
  have "Suc i \<le> n \<Longrightarrow> off + sl = word_of_nat (Suc i)" using sl by (simp add: off)
  then have IH: "proxy_send_loop (map word_of_nat [Suc i..<Suc n]) b t pdata 1 (word_of_nat n + 1) (off + sl) w = Some w"
    using Suc.IH [of "Suc i" "off + sl"] Suc.prems(1) i by simp
  show ?case unfolding js list.map proxy_send_loop.simps sl_def [symmetric] Let_def s d Option.bind.bind_lunit by (rule IH)
qed simp

text \<open>C31: No GATT bearer can be created, and the proxy protocol does not notice: the routine that
  should create one gives no bearer and leaves the node as it is, and while the list of bearers
  is empty, as its initialisation leaves it, sending a message of up to 65534 bytes, in one pdu or in
  segments, reports success although every pdu of it is refused: nothing but the count of
  allocations changes.\<close>

theorem gatt_send_lost:
  assumes "meshx_bearer_gatt_init v = (r, w)" "env_ok (mw_env w)" "length pdata < 65535"
  shows "meshx_bearer_gatt_create h w = (None, w) \<and> (\<forall>x d. meshx_bearer_gatt_send b x d w = (MESHX_ERR_INVAL, w)) \<and>
    (\<exists>e. meshx_proxy_send b t pdata w = Some (MESHX_SUCCESS, w\<lparr>mw_env := e\<rparr>))"
proof -
  have g: "mw_gatt w = []" using assms(1) by (auto simp: meshx_bearer_gatt_init_def)
  have n: "meshx_bearer_gatt_send b x d u = (MESHX_ERR_INVAL, u)" if "mw_gatt u = []" for x d u
    using that by (simp add: meshx_bearer_gatt_send_def meshx_bearer_gatt_exists_def split: option.splits bearer.splits)
  obtain e where e: "meshx_malloc_ok (mw_env w) = (True, e)" using env_ok_alloc(1) [OF assms(2)] by blast
  let ?n = "length pdata" and ?w = "w\<lparr>mw_env := e\<rparr>"
  have u: "unat (word_of_nat ?n + 1 :: u16) = Suc ?n"
    using assms(3) by (simp add: unat_word_ariths(1) unat_of_nat)
  have dv: "(k :: u16) div 1 = k" for k by (simp add: word_unat_eq_iff unat_div_distrib)
  have "proxy_send_loop (map word_of_nat [0..<Suc ?n]) b t pdata 1 (word_of_nat ?n + 1) 0 ?w = Some ?w"
    using lost_loop [of ?w ?n pdata "Suc ?n" 0 0 b t] g assms(3) by (simp del: upt_Suc)
  then have "meshx_proxy_send b t pdata w = Some (MESHX_SUCCESS, ?w)"
    using n [of ?w] g by (simp add: meshx_proxy_send_def meshx_bearer_gatt_mtu_get_def Let_def on_menv_def e dv u del: upt_Suc)
  then show ?thesis using n [OF g] by (auto simp: meshx_bearer_gatt_create_def)
qed

definition proxy_demo :: mesh_world where
  "proxy_demo = demo_mesh\<lparr>mw_gatt := [(1, Some 0)]\<rparr>"

definition proxy_log :: "nat \<Rightarrow> bytes \<Rightarrow> mesh_world \<Rightarrow> (errno \<times> mesh_world) option" where
  "proxy_log a d w = Some (MESHX_SUCCESS, w\<lparr>mw_delivered := mw_delivered w @ [(d, demo_ctx)]\<rparr>)"

lemma proxy_demo_facts:
  "proxy_fresh (Some (BEARER_GATT 1)) proxy_demo" "meshx_bearer_gatt_exists (BEARER_GATT 1) proxy_demo" "env_ok (mw_env proxy_demo)"
  "meshx_net_iface_get (Some (BEARER_GATT 1)) proxy_demo = Some (Some 0)" "mw_delivered proxy_demo = []"
  by (simp_all add: proxy_demo_def proxy_fresh_def demo_mesh_def env_ok_def ok_env_def meshx_bearer_gatt_exists_def
      meshx_net_iface_get_def bearer_iface_def)

theorem proxy_reassembles_witness:
  "\<exists>w. proxy_receive_all demo_aes proxy_log (Some (BEARER_GATT 1)) (proxy_segments MESHX_PROXY_MSG_TYPE_NET [[1], [2, 3]]) proxy_demo = Some w \<and>
    mw_delivered w = [([1, 2, 3], demo_ctx)]"
proof -
  have c: "\<forall>c \<in> set [[1], [2, 3 :: u8]]. c \<noteq> []" "2 \<le> length [[1], [2, 3 :: u8]]" "length (concat [[1], [2, 3 :: u8]]) \<le> 80"
    by simp_all
  from proxy_reassembles [OF proxy_demo_facts(1) c proxy_demo_facts(4), of demo_aes proxy_log] obtain w1 where w1:
    "mw_delivered w1 = []" "proxy_holds (Some (BEARER_GATT 1)) MESHX_PROXY_MSG_TYPE_NET [1, 2, 3] (mw_next proxy_demo) w1"
    "proxy_receive_all demo_aes proxy_log (Some (BEARER_GATT 1)) (proxy_segments MESHX_PROXY_MSG_TYPE_NET [[1], [2, 3]]) proxy_demo = do {
      (_, w2) \<leftarrow> proxy_log 0 [1, 2, 3] w1;
      meshx_proxy_rx_ctx_release (mw_next proxy_demo) w2 }"
    unfolding proxy_demo_facts(5) by auto
  then show ?thesis by (auto simp: proxy_log_def meshx_proxy_rx_ctx_release_def proxy_holds_def)
qed

theorem gatt_send_lost_witness:
  "meshx_bearer_gatt_create 1 demo_mesh = (None, demo_mesh) \<and>
    (\<exists>e. meshx_proxy_send (Some (BEARER_GATT 1)) MESHX_PROXY_MSG_TYPE_NET [7, 8] demo_mesh = Some (MESHX_SUCCESS, demo_mesh\<lparr>mw_env := e\<rparr>))"
proof -
  have "meshx_bearer_gatt_init demo_mesh = (MESHX_SUCCESS, demo_mesh)" "env_ok (mw_env demo_mesh)" "length [7, 8 :: u8] < 65535"
    by (simp_all add: meshx_bearer_gatt_init_def demo_mesh_def env_ok_def ok_env_def)
  from gatt_send_lost [OF this] show ?thesis by blast
qed

end
