(* ===== verification/Mesh_App.thy ===== *)
theory Mesh_App
  imports Mesh_Cmd_Prov Mesh_Io_Facts Mesh_Prov_Link
begin

text \<open>
  The applications of \<^verbatim>\<open>tests/meshx_provisioner.c\<close> and \<^verbatim>\<open>tests/meshx_device.c\<close>: what they
  print and do when the stack notifies them, in the variants that are compiled.  The environment of a callback is the terminal and, as its application
  state, the provisioning layer's world; \<^verbatim>\<open>None\<close> is an invalid access.
\<close>

section \<open>Printing and acting\<close>

type_synonym app_env = "(cmd_proc, prov_world) cmd_env"

abbreviation newline :: string where "newline \<equiv> [CR, LF]"

definition say :: "string \<Rightarrow> va_arg list \<Rightarrow> app_env \<Rightarrow> app_env option" where
  "say fmt args e = do { (_, e) \<leftarrow> meshx_tty_printf fmt args e; Some e }"

definition dump_line :: "string \<Rightarrow> bytes \<Rightarrow> app_env \<Rightarrow> app_env option" where
  "dump_line title b e = do { e \<leftarrow> say title [] e; say newline [] (snd (meshx_tty_dump b e)) }"

text \<open>An operation of the provisioning layer whose result is not looked at, and a reader of a
  device that fills a local buffer.\<close>

definition act :: "(prov_world \<Rightarrow> (errno \<times> prov_world) option) \<Rightarrow> app_env \<Rightarrow> app_env option" where
  "act f e = do { (_, w) \<leftarrow> f (app e); Some (e\<lparr>app := w\<rparr>) }"

definition fetch :: "(bytes option \<Rightarrow> prov_world \<Rightarrow> (errno \<times> bytes option) option) \<Rightarrow> nat \<Rightarrow> app_env \<Rightarrow> bytes option" where
  "fetch get n e = do { (_, b) \<leftarrow> get (Some (zeros n)) (app e); b }"

fun note_num :: "prov_note \<Rightarrow> int" where
  "note_num (PROV_NOTIFY_LINK_OPEN r) = 0"
| "note_num (PROV_NOTIFY_LINK_CLOSE r) = 1"
| "note_num (PROV_NOTIFY_TRANS_ACK s) = 2"
| "note_num (PROV_NOTIFY_INVITE i) = 3"
| "note_num (PROV_NOTIFY_CAPABILITES c) = 4"
| "note_num (PROV_NOTIFY_START s) = 5"
| "note_num (PROV_NOTIFY_PUBLIC_KEY k) = 6"
| "note_num PROV_NOTIFY_INPUT_COMPLETE = 7"
| "note_num (PROV_NOTIFY_CONFIRMATION c) = 8"
| "note_num (PROV_NOTIFY_RANDOM r) = 9"
| "note_num (PROV_NOTIFY_DATA d) = 10"
| "note_num PROV_NOTIFY_COMPLETE = 11"
| "note_num (PROV_NOTIFY_FAILED c) = 12"

definition link_result_num :: "meshx_prov_link_open_result \<Rightarrow> int" where
  "link_result_num r = (case r of MESHX_PROV_LINK_OPEN_SUCCESS \<Rightarrow> 0 | MESHX_PROV_LINK_OPEN_TIMEOUT \<Rightarrow> 1)"

abbreviation VA_U8 :: "u8 \<Rightarrow> va_arg" where "VA_U8 b \<equiv> VA_INT (uint b)"

text \<open>The start parameters and the authentication value both applications use; only the method of
  the latter is set, and read.\<close>

definition start_p256 :: prov_start where
  "start_p256 = \<lparr>st_algorithm = 0, st_public_key = 0, st_auth_method = MESHX_PROV_AUTH_METHOD_NO_OOB, st_auth_action = 0, st_auth_size = 0\<rparr>"

definition auth_no_oob :: prov_auth_value where
  "auth_no_oob = auth_zero\<lparr>av_method := MESHX_PROV_AUTH_METHOD_NO_OOB\<rparr>"

text \<open>Setting the authentication value and computing the confirmation from the device's own
  random number, in both applications.\<close>

definition prepare_confirmation :: "prov_ext \<Rightarrow> nat \<Rightarrow> app_env \<Rightarrow> app_env option" where
  "prepare_confirmation ext p e = do {
    e \<leftarrow> act (meshx_prov_set_auth_value (Some p) (Some auth_no_oob)) e;
    rnd \<leftarrow> fetch (meshx_prov_get_random (Some p)) 16 e;
    act (meshx_prov_generate_confirmation ext (Some p) rnd) e
  }"

definition send_public_key :: "nat \<Rightarrow> app_env \<Rightarrow> app_env option" where
  "send_public_key p e = do {
    e \<leftarrow> say (''send public key'' @ newline) [] e;
    key \<leftarrow> fetch (meshx_prov_get_local_public_key (Some p)) 64 e;
    act (meshx_prov_public_key (Some p) (Some key)) e
  }"

section \<open>The provisioner\<close>

record timeval =
  tv_sec :: int
  tv_usec :: int

text \<open>Milliseconds between the opening of the link and the completion, modulo the width of the
  variable.\<close>

definition prov_time :: "timeval \<Rightarrow> timeval \<Rightarrow> u32" where
  "prov_time from_tv to_tv =
    (let time = word_of_int ((tv_sec to_tv - tv_sec from_tv) * 1000)
     in if tv_usec to_tv < tv_usec from_tv
        then time - word_of_int ((tv_usec from_tv - tv_usec to_tv) div 1000)
        else time + word_of_int ((tv_usec to_tv - tv_usec from_tv) div 1000))"

text \<open>\<^verbatim>\<open>now\<close> is what \<^verbatim>\<open>gettimeofday\<close> answers, \<^verbatim>\<open>began\<close> the static variable it is kept in.\<close>

definition prov_notify_cb :: "prov_ext \<Rightarrow> timeval \<Rightarrow> timeval \<Rightarrow> nat \<Rightarrow> prov_note \<Rightarrow> app_env \<Rightarrow> (timeval \<times> app_env) option" where
  "prov_notify_cb ext now began p note e =
    (case note of
       PROV_NOTIFY_LINK_OPEN r \<Rightarrow> do {
         e \<leftarrow> say (''link opened, result: %d'' @ newline) [VA_INT (link_result_num r)] e;
         e \<leftarrow> (if r = MESHX_PROV_LINK_OPEN_SUCCESS then act (meshx_prov_invite (Some p) 0) e else Some e);
         Some (now, e) }
     | PROV_NOTIFY_LINK_CLOSE reason \<Rightarrow> do {
         e \<leftarrow> say (''link closed, reason: %d'' @ newline) [VA_U8 reason] e; Some (began, e) }
     | PROV_NOTIFY_CAPABILITES cap \<Rightarrow> do {
         e \<leftarrow> dump_line ''capabilites:'' (cap_bytes cap) e;
         e \<leftarrow> act (meshx_prov_start (Some p) (Some start_p256)) e;
         Some (began, e) }
     | PROV_NOTIFY_PUBLIC_KEY key \<Rightarrow> do {
         e \<leftarrow> dump_line ''public key:'' key e;
         e \<leftarrow> prepare_confirmation ext p e;
         cfm \<leftarrow> fetch (meshx_prov_get_confirmation (Some p)) 16 e;
         e \<leftarrow> act (meshx_prov_confirmation (Some p) (Some cfm)) e;
         Some (began, e) }
     | PROV_NOTIFY_CONFIRMATION cfm \<Rightarrow> do { e \<leftarrow> dump_line ''confirmation:'' cfm e; Some (began, e) }
     | PROV_NOTIFY_RANDOM rnd \<Rightarrow> do {
         e \<leftarrow> dump_line ''random:'' rnd e;
         e \<leftarrow> act (meshx_prov_data ext (Some p) (Some data_zero)) e;
         Some (began, e) }
     | PROV_NOTIFY_TRANS_ACK st \<Rightarrow> do {
         e \<leftarrow> say (''ack: %d'' @ newline) [VA_INT (int (prov_state_num st))] e;
         e \<leftarrow> (if st = MESHX_PROV_STATE_START then send_public_key p e else Some e);
         Some (began, e) }
     | PROV_NOTIFY_FAILED code \<Rightarrow> do {
         e \<leftarrow> say (''provision failed: %d'' @ newline) [VA_U8 code] e; Some (began, e) }
     | PROV_NOTIFY_COMPLETE \<Rightarrow> do {
         e \<leftarrow> say (''provision complete'' @ newline) [] e;
         e \<leftarrow> say (''prov time: %dms'' @ newline) [VA_INT (sint (prov_time began now))] e;
         Some (began, e) }
     | _ \<Rightarrow> do {
         e \<leftarrow> say (''unknown provision type: %d'' @ newline) [VA_INT (note_num note)] e; Some (began, e) })"

text \<open>A device beacon on the terminal.\<close>

definition prov_notify_udb_cb :: "bytes \<Rightarrow> udb_note \<Rightarrow> app_env \<Rightarrow> app_env option" where
  "prov_notify_udb_cb peer_addr note e =
    (case note of NOTIFY_UDB uuid oob uri \<Rightarrow> do {
       e \<leftarrow> say ''bt addr: '' [] e;
       let e = meshx_tty_send ''  '' (snd (meshx_tty_dump peer_addr e));
       e \<leftarrow> say ''udb: '' [] e;
       let e = meshx_tty_send ''  '' (snd (meshx_tty_dump uuid e));
       e \<leftarrow> say ''oob: %d'' [VA_INT (uint oob)] e;
       e \<leftarrow> (case uri of
              None \<Rightarrow> Some e
            | Some h \<Rightarrow> say ''uri: 0x%08x'' [VA_INT (uint h)] (meshx_tty_send ''  '' e));
       Some (meshx_tty_send newline e) })"

datatype app_note = NOTE_PROV nat prov_note | NOTE_UDB bytes udb_note | NOTE_OTHER u8

definition provisioner_notify_cb ::
  "prov_ext \<Rightarrow> bool \<Rightarrow> timeval \<Rightarrow> timeval \<Rightarrow> app_note \<Rightarrow> app_env \<Rightarrow> (errno \<times> timeval \<times> app_env) option" where
  "provisioner_notify_cb ext show_beacon now began note e =
    (case note of
       NOTE_PROV p n \<Rightarrow> do { (began, e) \<leftarrow> prov_notify_cb ext now began p n e; Some (MESHX_SUCCESS, began, e) }
     | NOTE_UDB addr n \<Rightarrow>
         if show_beacon then do { e \<leftarrow> prov_notify_udb_cb addr n e; Some (MESHX_SUCCESS, began, e) }
         else Some (MESHX_SUCCESS, began, e)
     | NOTE_OTHER t \<Rightarrow> Some (MESHX_SUCCESS, began, e))"

section \<open>The device\<close>

definition cap_p256 :: prov_capabilites where
  "cap_p256 = cap_zero\<lparr>cap_algorithms := 1, cap_element_nums := 1\<rparr>"

definition dev_notify_cb :: "prov_ext \<Rightarrow> nat \<Rightarrow> prov_note \<Rightarrow> app_env \<Rightarrow> app_env option" where
  "dev_notify_cb ext p note e =
    (case note of
       PROV_NOTIFY_LINK_OPEN r \<Rightarrow> say (''link opened, result: %d'' @ newline) [VA_INT (link_result_num r)] e
     | PROV_NOTIFY_LINK_CLOSE reason \<Rightarrow> say (''link closed, reason: %d'' @ newline) [VA_U8 reason] e
     | PROV_NOTIFY_INVITE invite \<Rightarrow> do {
         e \<leftarrow> say (''invite: %d'' @ newline) [VA_U8 invite] e;
         act (meshx_prov_capabilites (Some p) (Some cap_p256)) e }
     | PROV_NOTIFY_START st \<Rightarrow> dump_line ''start:'' (start_bytes st) e
     | PROV_NOTIFY_PUBLIC_KEY key \<Rightarrow> do {
         e \<leftarrow> dump_line ''public key:'' key e;
         e \<leftarrow> send_public_key p e;
         prepare_confirmation ext p e }
     | PROV_NOTIFY_CONFIRMATION cfm \<Rightarrow> dump_line ''confirmation:'' cfm e
     | PROV_NOTIFY_RANDOM rnd \<Rightarrow> dump_line ''random:'' rnd e
     | PROV_NOTIFY_DATA data \<Rightarrow> dump_line ''data:'' (data_bytes data @ pd_mic data) e
     | PROV_NOTIFY_TRANS_ACK st \<Rightarrow> say (''ack: %d'' @ newline) [VA_INT (int (prov_state_num st))] e
     | PROV_NOTIFY_FAILED code \<Rightarrow> say (''provision failed: %d'' @ newline) [VA_U8 code] e
     | _ \<Rightarrow> say (''unknown provision type: %d'' @ newline) [VA_INT (note_num note)] e)"

definition device_notify_cb :: "prov_ext \<Rightarrow> app_note \<Rightarrow> app_env \<Rightarrow> (errno \<times> app_env) option" where
  "device_notify_cb ext note e =
    (case note of
       NOTE_PROV p n \<Rightarrow> do { e \<leftarrow> dev_notify_cb ext p n e; Some (MESHX_SUCCESS, e) }
     | NOTE_UDB addr n \<Rightarrow> Some (MESHX_SUCCESS, e)
     | NOTE_OTHER t \<Rightarrow> Some (MESHX_SUCCESS, e))"

section \<open>Registering the callbacks\<close>

text \<open>The stack calls what was registered.  What is printed and the time are not part of the
  stack's world; they are left out of it.  The stack's callback is total: where an application's has
  no result (its device is gone, or the time is the one number the formatter cannot negate), the
  world stays as it was.  \<^verbatim>\<open>Mesh_App_Facts\<close> shows that in a session every callback that acts has
  one.\<close>

definition on_world :: "prov_world \<Rightarrow> app_env" where
  "on_world w = \<lparr>puser_cmds = [], tty = [], app = w\<rparr>"

definition world_after :: "prov_world \<Rightarrow> app_env option \<Rightarrow> errno \<times> prov_world" where
  "world_after w r = (MESHX_SUCCESS, case r of None \<Rightarrow> w | Some e \<Rightarrow> app e)"

definition provisioner_ext :: "timeval \<Rightarrow> timeval \<Rightarrow> prov_ext \<Rightarrow> prov_ext" where
  "provisioner_ext now began ext =
    snd (meshx_notify_init (Some (\<lambda>b p n w. world_after w (map_option snd (prov_notify_cb ext now began p n (on_world w))))) ext)"

definition device_ext :: "prov_ext \<Rightarrow> prov_ext" where
  "device_ext ext = snd (meshx_notify_init (Some (\<lambda>b p n w. world_after w (dev_notify_cb ext p n (on_world w)))) ext)"

end
