(* ===== verification/Mesh_App_Facts.thy ===== *)
theory Mesh_App_Facts
  imports Mesh_App
begin

text \<open>
  The two applications together with the stack: what their callbacks do to the devices, and the
  whole course of a provisioning session between them.
\<close>

section \<open>Printing leaves the world alone\<close>

lemma tty_app [simp]: "app (meshx_tty_send s e) = app e"
  by (simp add: meshx_tty_send_def)

lemma write_step_app [simp]: "app (snd (write_step tty_write s co)) = app (snd co)"
  by (cases co) (simp add: write_step_def tty_write_def)

lemma number_loop_app: "number_loop tty_write n zp sp data co = Some co' \<Longrightarrow> app (snd co') = app (snd co)"
proof (induction n arbitrary: co)
  case (Suc n)
  define c where "c = (if data ! n = NUL then if zp then write_step tty_write ''0'' co else if sp then write_step tty_write '' '' co else co
    else write_step tty_write [data ! n] co)"
  have "number_loop tty_write n zp sp data c = Some co'" 
    using Suc.prems unfolding number_loop.simps(2) c_def [symmetric] by (simp split: if_split_asm)
  moreover have "app (snd c) = app (snd co)" by (simp add: c_def)
  ultimately show ?case using Suc.IH by simp
qed simp

lemma dump_app [simp]: "app (snd (meshx_tty_dump b e)) = app e"
proof -
  have "app (fold (\<lambda>b e. meshx_tty_send [dump_byte b ! 1] (meshx_tty_send [dump_byte b ! 0] e)) b e) = app e"
    by (induction b arbitrary: e) simp_all
  then show ?thesis by (simp add: meshx_tty_dump_def)
qed

lemma format_plain:
  "CHR ''%'' \<notin> set pre \<Longrightarrow> \<exists>co'. (\<forall>fmt args. format_loop tty_write (pre @ fmt) args co = format_loop tty_write fmt args co') \<and>
    app (snd co') = app (snd co)"
proof (induction pre arbitrary: co)
  case (Cons c pre)
  then obtain co' where "\<forall>fmt args. format_loop tty_write (pre @ fmt) args (write_step tty_write [c] co) = format_loop tty_write fmt args co'"
    "app (snd co') = app (snd (write_step tty_write [c] co))" by fastforce
  then show ?case using Cons.prems by (intro exI [of _ co']) auto
qed (metis append_Nil)

lemma output_dec_app: "output_dec tty_write width zp sp n co = Some co' \<Longrightarrow> app (snd co') = app (snd co)"
  by (auto simp: output_dec_def Let_def output_numner_def split: Option.bind_splits prod.splits if_splits dest!: number_loop_app)

lemma output_hex_app: "output_hex tty_write cs width zp sp num out = Some (n, out') \<Longrightarrow> app out' = app out"
  by (auto simp: output_hex_def Let_def output_numner_def split: Option.bind_splits dest!: number_loop_app)

lemma spaces_app: "app (snd ((write_step tty_write s ^^ n) co)) = app (snd co)"
  by (induction n) simp_all

lemma put_arg_app: "put_arg tty_write c width zp sp args co = Some (co', args') \<Longrightarrow> app (snd co') = app (snd co)"
  by (cases co) (auto simp: put_arg_def out_str_def out_char_def add_count_def Let_def spaces_app
      split: if_split_asm list.split_asm va_arg.split_asm Option.bind_splits dest: output_hex_app dest!: output_dec_app)

lemma format_app: "format_loop tty_write fmt args co = Some co' \<Longrightarrow> app (snd co') = app (snd co)"
proof (induction fmt arbitrary: args co rule: measure_induct_rule [of length])
  case (less fmt)
  show ?case
  proof (cases fmt)
    case Nil
    then show ?thesis using less.prems by simp
  next
    case (Cons c fmt')
    show ?thesis
    proof (cases "c = CHR ''%''")
      case True
      obtain width k rest c1 args1 where r: "get_width fmt' 0 = Some (width, k # rest)"
        "put_arg tty_write k width (fmt' \<noteq> [] \<and> hd fmt' = CHR ''0'') (width \<noteq> 0 \<and> \<not> (fmt' \<noteq> [] \<and> hd fmt' = CHR ''0'')) args co =
          Some (c1, args1)" "format_loop tty_write rest args1 c1 = Some co'"
        using less.prems Cons True by (auto simp: Let_def split: option.split_asm list.split_asm prod.split_asm)
      have "length rest < length fmt" using get_width_shorter [OF r(1)] Cons by simp
      then show ?thesis using less.IH [OF _ r(3)] put_arg_app [OF r(2)] by simp
    next
      case False
      then show ?thesis using less.IH [of fmt'] less.prems Cons by fastforce
    qed
  qed
qed

text \<open>A text without a conversion, and one with a decimal in the middle.\<close>

definition says :: "string \<Rightarrow> va_arg list \<Rightarrow> bool" where
  "says fmt args \<longleftrightarrow> (\<forall>e. \<exists>e'. say fmt args e = Some e' \<and> app e' = app e)"

lemma say_format: "say fmt args e = map_option snd (format_loop tty_write fmt args (0, e))"
  by (cases "format_loop tty_write fmt args (0, e)") (auto simp: say_def meshx_tty_printf_def meshx_vsprintf_def)

lemma says_plain:
  assumes "CHR ''%'' \<notin> set fmt"
  shows "says fmt []"
proof -
  have "\<exists>e'. say fmt [] e = Some e' \<and> app e' = app e" for e
    using format_plain [OF assms, of "(0, e)"] by (auto simp: say_format dest: spec [of _ "[]"])
  then show ?thesis by (simp add: says_def)
qed

lemma says_decimal:
  assumes "CHR ''%'' \<notin> set pre" "CHR ''%'' \<notin> set post" "- (2 ^ 31) < n" "n < 2 ^ 31"
  shows "says (pre @ ''%d'' @ post) [VA_INT n]"
proof -
  have "\<exists>e'. say (pre @ ''%d'' @ post) [VA_INT n] e = Some e' \<and> app e' = app e" for e
  proof -
    obtain c1 where c1: "\<And>fmt args. format_loop tty_write (pre @ fmt) args (0, e) = format_loop tty_write fmt args c1" "app (snd c1) = app e"
      using format_plain [OF assms(1), of "(0, e)"] by auto
    obtain c2 where c2: "output_dec tty_write 0 False False n c1 = Some c2"
      using tty_out.output_dec_content [OF assms(3,4)] by blast
    obtain c3 where c3: "\<And>fmt args. format_loop tty_write (post @ fmt) args c2 = format_loop tty_write fmt args c3" "app (snd c3) = app (snd c2)"
      using format_plain [OF assms(2), of c2] by auto
    have "format_loop tty_write (pre @ ''%d'' @ post) [VA_INT n] (0, e) = format_loop tty_write post [] c2"
      by (simp add: c1 put_arg_def c2 is_digit_def)
    also have "\<dots> = Some c3" using c3(1) [of "[]" "[]"] by simp
    finally show ?thesis using c1(2) c3(2) output_dec_app [OF c2] by (simp add: say_format)
  qed
  then show ?thesis by (simp add: says_def)
qed

lemma saysE:
  assumes "says fmt args"
  obtains e' where "say fmt args e = Some e'" "app e' = app e"
  using assms by (auto simp: says_def)

lemma dump_line_app:
  assumes "CHR ''%'' \<notin> set title"
  obtains e' where "dump_line title b e = Some e'" "app e' = app e"
proof -
  obtain e1 where e1: "say title [] e = Some e1" "app e1 = app e" using saysE [OF says_plain [OF assms]] .
  have "says newline []" by (rule says_plain) (simp add: control_chars)
  then obtain e2 where e2: "say newline [] (snd (meshx_tty_dump b e1)) = Some e2" "app e2 = app (snd (meshx_tty_dump b e1))"
    by (rule saysE)
  show ?thesis using that [of e2] e1 e2 by (simp add: dump_line_def)
qed

section \<open>Devices up to their bearer part\<close>

text \<open>Sending changes only the bearer's part of a device.  A world holds a device when the two
  agree in the protocol's part.\<close>

definition same :: "pb_adv_dev \<Rightarrow> pb_adv_dev \<Rightarrow> bool" where
  "same d e \<longleftrightarrow> prov_dev.truncate d = prov_dev.truncate e"

lemma same_refl [simp]: "same d d"
  by (simp add: same_def)

lemma same_trans: "same a b \<Longrightarrow> same b c \<Longrightarrow> same a c"
  by (simp add: same_def)

lemma same_iff:
  "same d e \<longleftrightarrow> dv_id d = dv_id e \<and> dv_role d = dv_role e \<and> dv_uuid d = dv_uuid e \<and> dv_bearer d = dv_bearer e \<and>
    dv_state d = dv_state e \<and> dv_public_key d = dv_public_key e \<and> dv_private_key d = dv_private_key e \<and>
    dv_share_secret d = dv_share_secret e \<and> dv_public_key_remote d = dv_public_key_remote e \<and>
    dv_confirmation_salt d = dv_confirmation_salt e \<and> dv_session_key d = dv_session_key e \<and>
    dv_session_nonce d = dv_session_nonce e \<and> dv_device_key d = dv_device_key e \<and> dv_invite d = dv_invite e \<and>
    dv_capabilites d = dv_capabilites e \<and> dv_start d = dv_start e \<and> dv_auth_value d = dv_auth_value e \<and>
    dv_confirmation_remote d = dv_confirmation_remote e \<and> dv_confirmation d = dv_confirmation e \<and>
    dv_random d = dv_random e \<and> dv_random_remote d = dv_random_remote e \<and> dv_data d = dv_data e \<and> dv_err_code d = dv_err_code e"
  by (simp add: same_def prov_dev.truncate_def)

definition keeps :: "(pb_adv_dev \<Rightarrow> pb_adv_dev) \<Rightarrow> bool" where
  "keeps f \<longleftrightarrow> (\<forall>d e. same d e \<longrightarrow> same (f d) (f e)) \<and> (\<forall>d. dv_bearer (f d) = dv_bearer d)"

definition holds :: "nat \<Rightarrow> prov_world \<Rightarrow> pb_adv_dev \<Rightarrow> bool" where
  "holds p w D \<longleftrightarrow> (\<exists>d. pw_mem w p = Some d \<and> same d D) \<and>
    bearer_kind w (dv_bearer D) = Some MESHX_BEARER_TYPE_ADV \<and> (\<forall>n. mem_src (pw_env w) n)"

lemma holdsE:
  assumes "holds p w D"
  obtains d where "pw_mem w p = Some d" "same d D"
  using assms by (auto simp: holds_def)

lemma holds_notes [simp]: "holds p (w\<lparr>pw_notes := n\<rparr>) D = holds p w D"
  by (simp add: holds_def bearer_kind_def)

lemma holds_upd:
  assumes "holds p w D" "keeps f"
  shows "holds p (dev_upd p f w) (f D)"
proof -
  obtain d where d: "pw_mem w p = Some d" "same d D" using holdsE [OF assms(1)] .
  have "same (f d) (f D)" "dv_bearer (f D) = dv_bearer D" using assms(2) d(2) by (simp_all add: keeps_def)
  then show ?thesis using assms(1) d by (simp add: holds_def bearer_kind_def dev_upd_def)
qed

lemma holds_arm:
  assumes "holds p w D"
  shows "holds p (arm_delay p t w) D"
proof -
  define w1 where "w1 = dev_upd p (\<lambda>d. d\<lparr>pa_timer_state := PB_ADV_TIMER_STATE_DELAY, pa_delay_type := t\<rparr>) w"
  obtain v w2 where w2: "on_env meshx_pb_adv_rand w1 = (v, w2)" by fastforce
  have e: "pw_mem w2 = pw_mem w1" "pw_gap w2 = pw_gap w1" "mem_src (pw_env w2) = mem_src (pw_env w1)"
    using w2 by (auto simp: on_env_def meshx_pb_adv_rand_def MESHX_ABS_rand_def meshx_rand_def Let_def split: prod.splits)
  obtain d where d: "pw_mem w p = Some d" "same d D" using holdsE [OF assms] .
  have "pw_mem (arm_delay p t w) p = Some (d\<lparr>pa_timer_state := PB_ADV_TIMER_STATE_DELAY, pa_delay_type := t,
      pa_timer := snd (meshx_timer_start (pa_timer d) (ucast v))\<rparr>)"
    using w2 e(1) d(1) by (simp add: arm_delay_def Let_def w1_def [symmetric] dev_timer_start_def dev_upd_def)
      (simp add: w1_def dev_upd_def)
  moreover have "pw_gap (arm_delay p t w) = pw_gap w" "mem_src (pw_env (arm_delay p t w)) = mem_src (pw_env w)"
    using w2 e(2,3) by (simp_all add: arm_delay_def Let_def w1_def [symmetric] dev_timer_start_def dev_upd_def)
      (simp_all add: w1_def dev_upd_def)
  ultimately show ?thesis using assms d(2) by (simp add: holds_def bearer_kind_def same_iff)
qed

lemma op_holds:
  assumes "holds p w D" "keeps f" "send = request_pdu req" "\<And>d. same (req d) d"
  shows "\<exists>w'. by_bearer p send (dev_upd p f w) = Some (MESHX_SUCCESS, w') \<and> holds p w' (f D)"
proof -
  have h: "holds p (dev_upd p f w) (f D)" using holds_upd [OF assms(1,2)] .
  obtain d where d: "pw_mem (dev_upd p f w) p = Some d" "same d (f D)" using holdsE [OF h] .
  have b: "by_bearer p send (dev_upd p f w) = send p (dev_upd p f w)"
    using by_bearer_adv [OF d(1)] h d(2) by (simp add: holds_def same_iff)
  have "keeps req" using assms(4) by (auto simp: keeps_def same_iff)
  then have "holds p (dev_upd p req (dev_upd p f w)) (req (f D))" using holds_upd [OF h] by simp
  then have "holds p (dev_upd p req (dev_upd p f w)) (f D)"
    using assms(4) [of "f D"] by (auto simp: holds_def same_iff)
  then have "holds p (arm_delay p PB_ADV_TIMER_DELAY_TYPE_PROV_PDU (dev_upd p req (dev_upd p f w))) (f D)" by (rule holds_arm)
  moreover have "send p (dev_upd p f w) =
    Some (MESHX_SUCCESS, arm_delay p PB_ADV_TIMER_DELAY_TYPE_PROV_PDU (dev_upd p req (dev_upd p f w)))"
    unfolding assms(3) request_pdu_def d(1) by simp
  ultimately show ?thesis using b by simp
qed

lemma same_require [simp]:
  "same (meshx_prov_require_trans_num d) d" "same (meshx_dev_require_trans_num d) d" "same (require_by_role d) d"
  by (simp_all add: same_iff require_by_role_def meshx_dev_require_trans_num_def meshx_prov_require_trans_num_def Let_def)

section \<open>Operations on what a world holds\<close>

text \<open>In every world that holds the device D, an operation succeeds and leaves one that holds D'.\<close>

definition does :: "(prov_world \<Rightarrow> (errno \<times> prov_world) option) \<Rightarrow> nat \<Rightarrow> pb_adv_dev \<Rightarrow> pb_adv_dev \<Rightarrow> bool" where
  "does f p D D' \<longleftrightarrow> (\<forall>w. holds p w D \<longrightarrow> (\<exists>w'. f w = Some (MESHX_SUCCESS, w') \<and> holds p w' D'))"

lemma doesD: "does f p D D' \<Longrightarrow> holds p w D \<Longrightarrow> \<exists>w'. f w = Some (MESHX_SUCCESS, w') \<and> holds p w' D'"
  by (simp add: does_def)

lemma doesI: "(\<And>w d. holds p w D \<Longrightarrow> pw_mem w p = Some d \<Longrightarrow> same d D \<Longrightarrow>
    \<exists>w'. f w = Some (MESHX_SUCCESS, w') \<and> holds p w' D') \<Longrightarrow> does f p D D'"
  unfolding does_def by (metis holdsE)

lemma same_state: "same d D \<Longrightarrow> dv_state d = dv_state D"
  by (simp add: same_iff)

lemma does_op:
  assumes "send = request_pdu req" "\<And>d. same (req d) d" "keeps f"
    "\<And>w d. pw_mem w p = Some d \<Longrightarrow> dv_state d = dv_state D \<Longrightarrow> op w = by_bearer p send (dev_upd p f w)"
  shows "does op p D (f D)"
proof (rule doesI)
  fix w d assume "holds p w D" "pw_mem w p = Some d" "same d D"
  then show "\<exists>w'. op w = Some (MESHX_SUCCESS, w') \<and> holds p w' (f D)"
    using op_holds [OF _ assms(3,1,2)] assms(4) same_state by metis
qed

lemma does_invite:
  "dv_state D = MESHX_PROV_STATE_LINK_OPENED \<Longrightarrow>
   does (meshx_prov_invite (Some p) i) p D (D\<lparr>dv_state := MESHX_PROV_STATE_INVITE, dv_invite := i\<rparr>)"
  by (rule does_op [OF meshx_pb_adv_invite_def, where f = "\<lambda>d. d\<lparr>dv_state := MESHX_PROV_STATE_INVITE, dv_invite := i\<rparr>"], rule same_require,
      simp add: keeps_def same_iff, auto simp: meshx_prov_invite_def prov_order)

lemma does_capabilites:
  "dv_state D = MESHX_PROV_STATE_INVITE \<Longrightarrow>
   does (meshx_prov_capabilites (Some p) (Some c)) p D
     (D\<lparr>dv_state := MESHX_PROV_STATE_CAPABILITES, dv_capabilites := cap_to_be sample_prov_capabilites\<rparr>)"
  by (rule does_op [OF meshx_pb_adv_capabilites_def, where f = "\<lambda>d. d\<lparr>dv_state := MESHX_PROV_STATE_CAPABILITES, dv_capabilites := cap_to_be sample_prov_capabilites\<rparr>"], rule same_require,
      simp add: keeps_def same_iff, auto simp: meshx_prov_capabilites_def prov_order)

lemma does_start:
  "dv_state D = MESHX_PROV_STATE_CAPABILITES \<Longrightarrow>
   does (meshx_prov_start (Some p) (Some st)) p D (D\<lparr>dv_state := MESHX_PROV_STATE_START, dv_start := sample_prov_start\<rparr>)"
  by (rule does_op [OF meshx_pb_adv_start_def, where f = "\<lambda>d. d\<lparr>dv_state := MESHX_PROV_STATE_START, dv_start := sample_prov_start\<rparr>"], rule same_require,
      simp add: keeps_def same_iff, auto simp: meshx_prov_start_def prov_order)

lemma does_public_key:
  "dv_state D \<in> {MESHX_PROV_STATE_START, MESHX_PROV_STATE_PUBLIC_KEY} \<Longrightarrow>
   does (meshx_prov_public_key (Some p) (Some k)) p D (D\<lparr>dv_state := MESHX_PROV_STATE_PUBLIC_KEY, dv_public_key := k\<rparr>)"
  by (rule does_op [OF meshx_pb_adv_public_key_def, where f = "\<lambda>d. d\<lparr>dv_state := MESHX_PROV_STATE_PUBLIC_KEY, dv_public_key := k\<rparr>"], rule same_require,
      simp add: keeps_def same_iff, auto simp: meshx_prov_public_key_def prov_order)

lemma does_confirmation:
  "dv_state D \<in> {MESHX_PROV_STATE_PUBLIC_KEY, MESHX_PROV_STATE_CONFIRMATION} \<Longrightarrow>
   does (meshx_prov_confirmation (Some p) (Some c)) p D (D\<lparr>dv_state := MESHX_PROV_STATE_CONFIRMATION, dv_confirmation := c\<rparr>)"
  by (rule does_op [OF meshx_pb_adv_confirmation_def, where f = "\<lambda>d. d\<lparr>dv_state := MESHX_PROV_STATE_CONFIRMATION, dv_confirmation := c\<rparr>"], rule same_require,
      simp add: keeps_def same_iff, auto simp: meshx_prov_confirmation_def prov_order)

lemma does_random:
  "dv_state D \<in> {MESHX_PROV_STATE_CONFIRMATION, MESHX_PROV_STATE_RANDOM} \<Longrightarrow>
   does (meshx_prov_random (Some p) (Some r)) p D (D\<lparr>dv_state := MESHX_PROV_STATE_RANDOM, dv_random := r\<rparr>)"
  by (rule does_op [OF meshx_pb_adv_random_def, where f = "\<lambda>d. d\<lparr>dv_state := MESHX_PROV_STATE_RANDOM, dv_random := r\<rparr>"], rule same_require,
      simp add: keeps_def same_iff, auto simp: meshx_prov_random_def prov_order)

definition sealed :: "aes128 \<Rightarrow> pb_adv_dev \<Rightarrow> prov_data" where
  "sealed aes d = data_encrypt aes (dv_session_key d) (dv_session_nonce d) (data_to_be sample_prov_data)"

lemma does_data:
  "dv_state D = MESHX_PROV_STATE_RANDOM \<Longrightarrow>
   does (meshx_prov_data ext (Some p) (Some x)) p D (D\<lparr>dv_state := MESHX_PROV_STATE_DATA, dv_data := sealed (ext_aes ext) D\<rparr>)"
  by (rule does_op [OF meshx_pb_adv_data_def, where f = "\<lambda>d. d\<lparr>dv_state := MESHX_PROV_STATE_DATA, dv_data := sealed (ext_aes ext) d\<rparr>"], rule same_require,
      simp add: keeps_def same_iff sealed_def, auto simp: meshx_prov_data_def prov_order sealed_def)

lemma does_complete:
  "dv_state D = MESHX_PROV_STATE_DATA \<Longrightarrow> does (meshx_prov_complete (Some p)) p D (D\<lparr>dv_state := MESHX_PROV_STATE_COMPLETE\<rparr>)"
  by (rule does_op [OF meshx_pb_adv_complete_def, where f = "\<lambda>d. d\<lparr>dv_state := MESHX_PROV_STATE_COMPLETE\<rparr>"], rule same_require,
      simp add: keeps_def same_iff, auto simp: meshx_prov_complete_def prov_order)

lemma does_set_auth: "does (meshx_prov_set_auth_value (Some p) (Some auth_no_oob)) p D (D\<lparr>dv_auth_value := zeros 16\<rparr>)"
proof (rule doesI)
  fix w d assume h: "holds p w D" "pw_mem w p = Some d"
  have "keeps (\<lambda>d. d\<lparr>dv_auth_value := zeros 16\<rparr>)" by (simp add: keeps_def same_iff)
  from holds_upd [OF h(1) this] h(2) show "\<exists>w'. meshx_prov_set_auth_value (Some p) (Some auth_no_oob) w = Some (MESHX_SUCCESS, w') \<and>
    holds p w' (D\<lparr>dv_auth_value := zeros 16\<rparr>)"
    by (simp add: meshx_prov_set_auth_value_def auth_value_of_def auth_no_oob_def)
qed

lemma keeps_confirm: "keeps (confirm aes r)"
  by (simp add: keeps_def same_iff confirm_def Let_def confirmation_inputs_def)

lemma keeps_session_keys: "keeps (session_keys aes)"
  by (simp add: keeps_def same_iff session_keys_def Let_def)

lemma does_generate: "does (meshx_prov_generate_confirmation ext (Some p) r) p D (confirm (ext_aes ext) r D)"
proof (rule doesI)
  fix w d assume h: "holds p w D" "pw_mem w p = Some d"
  obtain e where e: "meshx_malloc_ok (pw_env w) = (True, e)" "mem_src e = mem_src (pw_env w)"
    using h(1) by (simp add: meshx_malloc_ok_def holds_def)
  have "holds p (w\<lparr>pw_env := e\<rparr>) D" using h(1) e(2) by (simp add: holds_def bearer_kind_def)
  from holds_upd [OF this keeps_confirm] show
    "\<exists>w'. meshx_prov_generate_confirmation ext (Some p) r w = Some (MESHX_SUCCESS, w') \<and> holds p w' (confirm (ext_aes ext) r D)"
    using h(2) e(1) by (simp add: meshx_prov_generate_confirmation_def on_env_def)
qed

lemma does_session: "does (meshx_prov_calculate_session_device_key ext p) p D (session_keys (ext_aes ext) D)"
  by (rule doesI, frule holds_upd [OF _ keeps_session_keys]) (simp add: meshx_prov_calculate_session_device_key_def)

section \<open>What the callbacks do\<close>

definition acts :: "(app_env \<Rightarrow> app_env option) \<Rightarrow> nat \<Rightarrow> pb_adv_dev \<Rightarrow> pb_adv_dev \<Rightarrow> bool" where
  "acts f p D D' \<longleftrightarrow> (\<forall>e. holds p (app e) D \<longrightarrow> (\<exists>e'. f e = Some e' \<and> holds p (app e') D'))"

lemma acts_say: "says fmt args \<Longrightarrow> acts (say fmt args) p D D"
  unfolding acts_def says_def by metis

lemma acts_dump: "CHR ''%'' \<notin> set title \<Longrightarrow> acts (dump_line title b) p D D"
  unfolding acts_def by (metis dump_line_app)

lemma acts_bind: "acts f p D D1 \<Longrightarrow> acts g p D1 D' \<Longrightarrow> acts (\<lambda>e. Option.bind (f e) g) p D D'"
  unfolding acts_def by fastforce

lemma acts_act: "does f p D D' \<Longrightarrow> acts (act f) p D D'"
  unfolding acts_def does_def act_def by fastforce

lemma acts_fetch:
  assumes "\<And>w d b. pw_mem w p = Some d \<Longrightarrow> same d D \<Longrightarrow> get (Some b) w = Some (MESHX_SUCCESS, Some v)" "acts (f v) p D D'"
  shows "acts (\<lambda>e. Option.bind (fetch get n e) (\<lambda>b. f b e)) p D D'"
  unfolding acts_def
proof (intro allI impI)
  fix e :: app_env assume h: "holds p (app e) D"
  obtain d where "pw_mem (app e) p = Some d" "same d D" using holdsE [OF h] .
  then have "fetch get n e = Some v" using assms(1) by (simp add: fetch_def)
  then show "\<exists>e'. Option.bind (fetch get n e) (\<lambda>b. f b e) = Some e' \<and> holds p (app e') D'"
    using assms(2) h by (simp add: acts_def)
qed

lemma get_fields:
  assumes "pw_mem w p = Some d" "same d D"
  shows "meshx_prov_get_random (Some p) (Some b) w = Some (MESHX_SUCCESS, Some (dv_random D))"
    "meshx_prov_get_confirmation (Some p) (Some b) w = Some (MESHX_SUCCESS, Some (dv_confirmation D))"
    "meshx_prov_get_local_public_key (Some p) (Some b) w = Some (MESHX_SUCCESS, Some (dv_public_key D))"
  using assms by (simp_all add: meshx_prov_get_random_def meshx_prov_get_confirmation_def meshx_prov_get_local_public_key_def
      prov_get_def same_iff)

definition prepared :: "aes128 \<Rightarrow> pb_adv_dev \<Rightarrow> pb_adv_dev" where
  "prepared aes d = confirm aes (dv_random d) (d\<lparr>dv_auth_value := zeros 16\<rparr>)"

lemma acts_prepare: "acts (prepare_confirmation ext p) p D (prepared (ext_aes ext) D)"
  unfolding prepare_confirmation_def prepared_def
  by (rule acts_bind, rule acts_act, rule does_set_auth, rule acts_fetch, erule (1) get_fields(1), rule acts_act,
      simp add: does_generate)

lemma acts_public_key:
  assumes "dv_state D \<in> {MESHX_PROV_STATE_START, MESHX_PROV_STATE_PUBLIC_KEY}"
  shows "acts (send_public_key p) p D (D\<lparr>dv_state := MESHX_PROV_STATE_PUBLIC_KEY\<rparr>)"
proof -
  have "acts (\<lambda>e. Option.bind (say (''send public key'' @ newline) [] e)
      (\<lambda>e. Option.bind (fetch (meshx_prov_get_local_public_key (Some p)) 64 e)
        (\<lambda>k. act (meshx_prov_public_key (Some p) (Some k)) e))) p D
      (D\<lparr>dv_state := MESHX_PROV_STATE_PUBLIC_KEY, dv_public_key := dv_public_key D\<rparr>)"
    by (rule acts_bind, rule acts_say, rule says_plain, simp add: control_chars, rule acts_fetch, erule (1) get_fields(3),
        rule acts_act, rule does_public_key, rule assms)
  then show ?thesis unfolding send_public_key_def [abs_def] by simp
qed

text \<open>A notification, by what the world holds before and after.\<close>

definition told :: "prov_ext \<Rightarrow> nat \<Rightarrow> prov_note \<Rightarrow> pb_adv_dev \<Rightarrow> pb_adv_dev \<Rightarrow> bool" where
  "told ext p n D D' \<longleftrightarrow> (\<forall>b w. holds p w D \<longrightarrow> holds p (snd (meshx_notify ext b p n w)) D')"

lemma told_device:
  assumes "acts (dev_notify_cb ext p n) p D D'"
  shows "told (device_ext ext) p n D D'"
  unfolding told_def
proof (intro allI impI)
  fix b w assume "holds p w D"
  then have "holds p (app (on_world (w\<lparr>pw_notes := pw_notes w @ [(p, n)]\<rparr>))) D" by (simp add: on_world_def)
  then obtain e where "dev_notify_cb ext p n (on_world (w\<lparr>pw_notes := pw_notes w @ [(p, n)]\<rparr>)) = Some e" "holds p (app e) D'"
    using assms by (auto simp: acts_def)
  then show "holds p (snd (meshx_notify (device_ext ext) b p n w)) D'"
    by (simp add: meshx_notify_def device_ext_def meshx_notify_init_def world_after_def)
qed

lemma told_provisioner:
  assumes "acts (\<lambda>e. map_option snd (prov_notify_cb ext now began p n e)) p D D'"
  shows "told (provisioner_ext now began ext) p n D D'"
  unfolding told_def
proof (intro allI impI)
  fix b w assume "holds p w D"
  then have "holds p (app (on_world (w\<lparr>pw_notes := pw_notes w @ [(p, n)]\<rparr>))) D" by (simp add: on_world_def)
  then obtain t e where "prov_notify_cb ext now began p n (on_world (w\<lparr>pw_notes := pw_notes w @ [(p, n)]\<rparr>)) = Some (t, e)"
    "holds p (app e) D'"
    using assms by (auto simp: acts_def)
  then show "holds p (snd (meshx_notify (provisioner_ext now began ext) b p n w)) D'"
    by (simp add: meshx_notify_def provisioner_ext_def meshx_notify_init_def world_after_def)
qed

lemma ext_fields [simp]:
  "ext_aes (device_ext ext) = ext_aes ext" "ext_ecc_valid (device_ext ext) = ext_ecc_valid ext"
  "ext_ecc_shared (device_ext ext) = ext_ecc_shared ext"
  "ext_aes (provisioner_ext now began ext) = ext_aes ext" "ext_ecc_valid (provisioner_ext now began ext) = ext_ecc_valid ext"
  "ext_ecc_shared (provisioner_ext now began ext) = ext_ecc_shared ext"
  by (simp_all add: device_ext_def provisioner_ext_def meshx_notify_init_def)

section \<open>Each notification\<close>

lemma acts_dec:
  assumes "CHR ''%'' \<notin> set pre" "- (2 ^ 31) < n" "n < 2 ^ 31"
  shows "acts (say (pre @ ''%d'' @ newline) [VA_INT n]) p D D"
  by (rule acts_say, rule says_decimal) (use assms in \<open>simp_all add: control_chars\<close>)

lemma u8_range: "- (2 ^ 31) < uint (b :: u8)" "uint (b :: u8) < 2 ^ 31"
  using uint_lt2p [of b] by (simp_all add: less_le_trans [OF _ uint_ge_0])

lemma device_told:
  "dv_state D = MESHX_PROV_STATE_INVITE \<Longrightarrow> told (device_ext ext) p (PROV_NOTIFY_INVITE i) D
     (D\<lparr>dv_state := MESHX_PROV_STATE_CAPABILITES, dv_capabilites := cap_to_be sample_prov_capabilites\<rparr>)"
  "told (device_ext ext) p (PROV_NOTIFY_START st) D D"
  "dv_state D = MESHX_PROV_STATE_PUBLIC_KEY \<Longrightarrow> told (device_ext ext) p (PROV_NOTIFY_PUBLIC_KEY k) D (prepared (ext_aes ext) D)"
  "told (device_ext ext) p (PROV_NOTIFY_CONFIRMATION c) D D"
  "told (device_ext ext) p (PROV_NOTIFY_RANDOM r) D D"
  "told (device_ext ext) p (PROV_NOTIFY_DATA x) D D"
proof -
  assume "dv_state D = MESHX_PROV_STATE_INVITE"
  then show "told (device_ext ext) p (PROV_NOTIFY_INVITE i) D
     (D\<lparr>dv_state := MESHX_PROV_STATE_CAPABILITES, dv_capabilites := cap_to_be sample_prov_capabilites\<rparr>)"
    using acts_bind [OF acts_dec [of "''invite: ''", OF _ u8_range] acts_act [OF does_capabilites]]
    by (intro told_device) (simp add: dev_notify_cb_def [abs_def])
next
  assume st: "dv_state D = MESHX_PROV_STATE_PUBLIC_KEY"
  then have eq: "D\<lparr>dv_state := MESHX_PROV_STATE_PUBLIC_KEY\<rparr> = D" by simp
  show "told (device_ext ext) p (PROV_NOTIFY_PUBLIC_KEY k) D (prepared (ext_aes ext) D)"
    using acts_bind [OF acts_dump [of "''public key:''" k] acts_bind [OF acts_public_key acts_prepare], of D p ext] st
    by (intro told_device) (simp add: dev_notify_cb_def [abs_def] eq)
qed (rule told_device, simp add: dev_notify_cb_def [abs_def] acts_dump)+

lemma bind_assoc_began:
  "map_option snd (Option.bind f (\<lambda>e. Option.bind (g e) (\<lambda>e. Some (b, e)))) = Option.bind f g"
  "map_option snd (Option.bind f (\<lambda>e. Option.bind (g e) (\<lambda>e. Option.bind (h e) (\<lambda>e. Some (b, e))))) = Option.bind f (\<lambda>e. Option.bind (g e) h)"
  "map_option snd (Option.bind f (\<lambda>e. Option.bind (g e) (\<lambda>e. Option.bind (k e) (\<lambda>c. Option.bind (i c e) (\<lambda>e. Some (b, e)))))) =
     Option.bind f (\<lambda>e. Option.bind (g e) (\<lambda>e. Option.bind (k e) (\<lambda>c. i c e)))"
  by (auto split: Option.bind_splits)

lemma with_began: "map_option snd (Option.bind f (\<lambda>e. Some (b, e))) = f"
  by (cases f) simp_all

lemma provisioner_told:
  "dv_state D = MESHX_PROV_STATE_LINK_OPENED \<Longrightarrow>
   told (provisioner_ext now began ext) p (PROV_NOTIFY_LINK_OPEN MESHX_PROV_LINK_OPEN_SUCCESS) D
     (D\<lparr>dv_state := MESHX_PROV_STATE_INVITE, dv_invite := 0\<rparr>)"
  "dv_state D = MESHX_PROV_STATE_CAPABILITES \<Longrightarrow> told (provisioner_ext now began ext) p (PROV_NOTIFY_CAPABILITES c) D
     (D\<lparr>dv_state := MESHX_PROV_STATE_START, dv_start := sample_prov_start\<rparr>)"
  "dv_state D = MESHX_PROV_STATE_START \<Longrightarrow> told (provisioner_ext now began ext) p (PROV_NOTIFY_TRANS_ACK MESHX_PROV_STATE_START) D
     (D\<lparr>dv_state := MESHX_PROV_STATE_PUBLIC_KEY\<rparr>)"
  "dv_state D = MESHX_PROV_STATE_PUBLIC_KEY \<Longrightarrow> told (provisioner_ext now began ext) p (PROV_NOTIFY_PUBLIC_KEY k) D
     ((prepared (ext_aes ext) D)\<lparr>dv_state := MESHX_PROV_STATE_CONFIRMATION\<rparr>)"
  "told (provisioner_ext now began ext) p (PROV_NOTIFY_CONFIRMATION f) D D"
  "dv_state D = MESHX_PROV_STATE_RANDOM \<Longrightarrow> told (provisioner_ext now began ext) p (PROV_NOTIFY_RANDOM r) D
     (D\<lparr>dv_state := MESHX_PROV_STATE_DATA, dv_data := sealed (ext_aes ext) D\<rparr>)"
proof -
  assume "dv_state D = MESHX_PROV_STATE_LINK_OPENED"
  then show "told (provisioner_ext now began ext) p (PROV_NOTIFY_LINK_OPEN MESHX_PROV_LINK_OPEN_SUCCESS) D
     (D\<lparr>dv_state := MESHX_PROV_STATE_INVITE, dv_invite := 0\<rparr>)"
    using acts_bind [OF acts_dec [of "''link opened, result: ''" 0] acts_act [OF does_invite]]
    by (intro told_provisioner) (simp add: prov_notify_cb_def [abs_def] link_result_num_def bind_assoc_began with_began)
next
  assume "dv_state D = MESHX_PROV_STATE_CAPABILITES"
  then show "told (provisioner_ext now began ext) p (PROV_NOTIFY_CAPABILITES c) D
     (D\<lparr>dv_state := MESHX_PROV_STATE_START, dv_start := sample_prov_start\<rparr>)"
    using acts_bind [OF acts_dump [of "''capabilites:''"] acts_act [OF does_start]]
    by (intro told_provisioner) (simp add: prov_notify_cb_def [abs_def] bind_assoc_began with_began)
next
  assume "dv_state D = MESHX_PROV_STATE_START"
  then show "told (provisioner_ext now began ext) p (PROV_NOTIFY_TRANS_ACK MESHX_PROV_STATE_START) D
     (D\<lparr>dv_state := MESHX_PROV_STATE_PUBLIC_KEY\<rparr>)"
    using acts_bind [OF acts_dec [of "''ack: ''" "int (prov_state_num MESHX_PROV_STATE_START)"] acts_public_key]
    by (intro told_provisioner) (simp add: prov_notify_cb_def [abs_def] bind_assoc_began with_began)
next
  assume st: "dv_state D = MESHX_PROV_STATE_PUBLIC_KEY"
  let ?D = "prepared (ext_aes ext) D"
  have "acts (\<lambda>e. Option.bind (fetch (meshx_prov_get_confirmation (Some p)) 16 e)
      (\<lambda>c. act (meshx_prov_confirmation (Some p) (Some c)) e)) p ?D
      (?D\<lparr>dv_state := MESHX_PROV_STATE_CONFIRMATION, dv_confirmation := dv_confirmation ?D\<rparr>)"
    by (rule acts_fetch, erule (1) get_fields(2), rule acts_act, rule does_confirmation) (simp add: st prepared_def)
  from acts_bind [OF acts_dump [of "''public key:''" k] acts_bind [OF acts_prepare this]]
  show "told (provisioner_ext now began ext) p (PROV_NOTIFY_PUBLIC_KEY k) D (?D\<lparr>dv_state := MESHX_PROV_STATE_CONFIRMATION\<rparr>)"
    by (intro told_provisioner) (simp add: prov_notify_cb_def [abs_def] bind_assoc_began with_began)
next
  show "told (provisioner_ext now began ext) p (PROV_NOTIFY_CONFIRMATION f) D D"
    by (rule told_provisioner) (simp add: prov_notify_cb_def [abs_def] with_began acts_dump)
next
  assume "dv_state D = MESHX_PROV_STATE_RANDOM"
  then show "told (provisioner_ext now began ext) p (PROV_NOTIFY_RANDOM r) D
     (D\<lparr>dv_state := MESHX_PROV_STATE_DATA, dv_data := sealed (ext_aes ext) D\<rparr>)"
    using acts_bind [OF acts_dump [of "''random:''"] acts_act [OF does_data]]
    by (intro told_provisioner) (simp add: prov_notify_cb_def [abs_def] bind_assoc_began with_began)
qed

text \<open>The completion is printed with the time; whether or not that can be printed, the device stays.\<close>

lemma say_app: "say fmt args e = Some e' \<Longrightarrow> app e' = app e"
  by (auto simp: say_format dest: format_app)

lemma provisioner_told_complete: "told (provisioner_ext now began ext) p PROV_NOTIFY_COMPLETE D D"
  by (auto simp: told_def meshx_notify_def provisioner_ext_def meshx_notify_init_def world_after_def prov_notify_cb_def on_world_def
      split: option.split Option.bind_splits dest!: say_app)

section \<open>Each unit\<close>

lemma does_tell: "told ext p n D D' \<Longrightarrow> does (tell ext p n) p D D'"
  by (rule doesI) (simp add: tell_def told_def)

text \<open>A step that first writes to the device.\<close>

lemma does_upd:
  assumes "keeps f" "does g p (f D) D'" "\<And>w d. pw_mem w p = Some d \<Longrightarrow> same d D \<Longrightarrow> op w = g (dev_upd p f w)"
  shows "does op p D D'"
proof (rule doesI)
  fix w d assume h: "holds p w D" "pw_mem w p = Some d" "same d D"
  show "\<exists>w'. op w = Some (MESHX_SUCCESS, w') \<and> holds p w' D'"
    using doesD [OF assms(2) holds_upd [OF h(1) assms(1)]] assms(3) [OF h(2,3)] by simp
qed

lemma does_bind:
  assumes "does f p D D1" "does g p D1 D'"
  shows "does (\<lambda>w. Option.bind (f w) (\<lambda>(_, w). g w)) p D D'"
  using assms unfolding does_def by fastforce

lemma keeps_updates [simp]:
  "keeps (\<lambda>d. d\<lparr>dv_state := s\<rparr>)" "keeps (\<lambda>d. d\<lparr>dv_state := s, dv_invite := i\<rparr>)"
  "keeps (\<lambda>d. d\<lparr>dv_state := s, dv_capabilites := c\<rparr>)" "keeps (\<lambda>d. d\<lparr>dv_state := s, dv_start := st\<rparr>)"
  "keeps (\<lambda>d. d\<lparr>dv_share_secret := g (dv_private_key d), dv_state := s, dv_public_key_remote := k\<rparr>)"
  "keeps (\<lambda>d. d\<lparr>dv_state := s, dv_confirmation_remote := cf\<rparr>)" "keeps (\<lambda>d. d\<lparr>dv_random_remote := r\<rparr>)"
  "keeps (\<lambda>d. d\<lparr>dv_data := data_of_bytes out (pd_mic (dv_data d))\<rparr>)"
  by (simp_all add: keeps_def same_iff)

lemma receives_invite:
  assumes "dv_state D \<le> MESHX_PROV_STATE_INVITE" "told ext p (PROV_NOTIFY_INVITE i) (D\<lparr>dv_state := MESHX_PROV_STATE_INVITE, dv_invite := i\<rparr>) D'"
  shows "does (meshx_prov_pdu_process ext p [MESHX_PROV_TYPE_INVITE, i] 2) p D D'"
  by (rule does_upd [OF keeps_updates(2) does_tell [OF assms(2)]], frule same_state)
    (use assms(1) in \<open>simp add: meshx_prov_pdu_process_def process_invite_def mem_read_def prov_types not_less [symmetric]\<close>)

lemma sample_cap_bytes: "cap_of_bytes (cap_bytes (cap_to_be sample_prov_capabilites)) = cap_to_be sample_prov_capabilites"
  by code_simp

lemma receives_capabilites:
  assumes "dv_state D \<le> MESHX_PROV_STATE_CAPABILITES"
    "told ext p (PROV_NOTIFY_CAPABILITES (cap_to_host (cap_to_be sample_prov_capabilites)))
       (D\<lparr>dv_state := MESHX_PROV_STATE_CAPABILITES, dv_capabilites := cap_to_be sample_prov_capabilites\<rparr>) D'"
  shows "does (meshx_prov_pdu_process ext p (MESHX_PROV_TYPE_CAPABILITES # cap_bytes (cap_to_be sample_prov_capabilites)) 12) p D D'"
proof -
  have l: "length (cap_bytes (cap_to_be sample_prov_capabilites)) = 11" by (simp add: cap_bytes_def)
  have v: "meshx_prov_validate_capabilites (cap_to_be sample_prov_capabilites)"
    by (simp add: meshx_prov_validate_capabilites_def cap_to_be_def sample_prov_capabilites_def)
  show ?thesis
    by (rule does_upd [OF keeps_updates(3) does_tell [OF assms(2)]], frule same_state)
      (use assms(1) l v in \<open>simp add: meshx_prov_pdu_process_def process_capabilites_def mem_read_def prov_types not_less [symmetric]
        sample_cap_bytes Let_def\<close>)
qed

lemma receives_start:
  assumes "dv_state D \<le> MESHX_PROV_STATE_START" "dv_capabilites D = cap_to_be sample_prov_capabilites"
    "told ext p (PROV_NOTIFY_START sample_prov_start) (D\<lparr>dv_state := MESHX_PROV_STATE_START, dv_start := sample_prov_start\<rparr>) D'"
  shows "does (meshx_prov_pdu_process ext p (MESHX_PROV_TYPE_START # start_bytes sample_prov_start) 6) p D D'"
proof -
  have b: "start_of_bytes (start_bytes sample_prov_start) = sample_prov_start" "length (start_bytes sample_prov_start) = 5"
    by (simp_all add: start_of_bytes_def start_bytes_def)
  have v: "meshx_prov_validate_start sample_prov_start"
    by (simp add: meshx_prov_validate_start_def sample_prov_start_def auth_methods)
  have c: "meshx_prov_is_start_supported (cap_to_be sample_prov_capabilites) sample_prov_start"
    by (simp add: meshx_prov_is_start_supported_def sample_prov_start_def cap_to_be_def sample_prov_capabilites_def auth_methods)
  show ?thesis
    by (rule does_upd [OF keeps_updates(4) does_tell [OF assms(3)]], frule same_state)
      (use assms(1,2) b v c in \<open>simp add: meshx_prov_pdu_process_def process_start_def mem_read_def prov_types not_less [symmetric]
        Let_def same_iff\<close>)
qed

lemma receives_public_key:
  assumes "dv_state D \<le> MESHX_PROV_STATE_PUBLIC_KEY" "length k = 64" "ext_ecc_valid ext k"
    "told ext p (PROV_NOTIFY_PUBLIC_KEY k) (D\<lparr>dv_share_secret := ext_ecc_shared ext k (dv_private_key D),
       dv_state := MESHX_PROV_STATE_PUBLIC_KEY, dv_public_key_remote := k\<rparr>) D'"
  shows "does (meshx_prov_pdu_process ext p (MESHX_PROV_TYPE_PUBLIC_KEY # k) 65) p D D'"
  by (rule does_upd [OF keeps_updates(5) [where g = "ext_ecc_shared ext k"] does_tell [OF assms(4)]], frule same_state)
    (use assms(1,2,3) in \<open>simp add: meshx_prov_pdu_process_def process_public_key_def mem_read_def prov_types not_less [symmetric]
      meshx_prov_validate_public_key_def\<close>)

lemma same_device:
  "(D :: pb_adv_dev)\<lparr>dv_confirmation_remote := cf, dv_state := s\<rparr> = D\<lparr>dv_state := s, dv_confirmation_remote := cf\<rparr>"
  by (rule pb_adv_dev.equality) simp_all

lemma receives_confirmation:
  assumes "dv_state D \<le> MESHX_PROV_STATE_CONFIRMATION" "length cf = 16"
  shows "dv_role D = MESHX_ROLE_DEVICE \<Longrightarrow>
      told ext p (PROV_NOTIFY_CONFIRMATION cf) (D\<lparr>dv_state := MESHX_PROV_STATE_CONFIRMATION, dv_confirmation_remote := cf\<rparr>) D' \<Longrightarrow>
      does (meshx_prov_pdu_process ext p (MESHX_PROV_TYPE_CONFIRMATION # cf) 17) p D D'"
    "dv_role D = MESHX_ROLE_PROVISIONER \<Longrightarrow>
      told ext p (PROV_NOTIFY_CONFIRMATION cf) (D\<lparr>dv_state := MESHX_PROV_STATE_RANDOM, dv_confirmation_remote := cf\<rparr>) D' \<Longrightarrow>
      does (meshx_prov_pdu_process ext p (MESHX_PROV_TYPE_CONFIRMATION # cf) 17) p D D'"
proof -
  let ?D = "D\<lparr>dv_state := MESHX_PROV_STATE_CONFIRMATION, dv_confirmation_remote := cf\<rparr>"
  let ?f = "\<lambda>w. dev_upd p (\<lambda>d. d\<lparr>dv_state := MESHX_PROV_STATE_CONFIRMATION, dv_confirmation_remote := cf\<rparr>) w"
  {
    assume r: "dv_role D = MESHX_ROLE_DEVICE" and t: "told ext p (PROV_NOTIFY_CONFIRMATION cf) ?D D'"
    have h: "does (meshx_prov_confirmation (Some p) (Some (dv_confirmation D))) p ?D ?D"
      using does_confirmation [of ?D p "dv_confirmation D"] by (simp add: same_device)
    show "does (meshx_prov_pdu_process ext p (MESHX_PROV_TYPE_CONFIRMATION # cf) 17) p D D'"
      by (rule does_upd [OF keeps_updates(6) does_bind [OF h does_tell [OF t]]], frule same_state)
        (use assms r in \<open>simp add: meshx_prov_pdu_process_def process_confirmation_def mem_read_def prov_types not_less [symmetric] same_iff\<close>)
  next
    assume r: "dv_role D = MESHX_ROLE_PROVISIONER"
      and t: "told ext p (PROV_NOTIFY_CONFIRMATION cf) (D\<lparr>dv_state := MESHX_PROV_STATE_RANDOM, dv_confirmation_remote := cf\<rparr>) D'"
    have h: "does (meshx_prov_random (Some p) (Some (dv_random D))) p ?D (D\<lparr>dv_state := MESHX_PROV_STATE_RANDOM, dv_confirmation_remote := cf\<rparr>)"
      using does_random [of ?D p "dv_random D"] by (simp add: same_device)
    show "does (meshx_prov_pdu_process ext p (MESHX_PROV_TYPE_CONFIRMATION # cf) 17) p D D'"
      by (rule does_upd [OF keeps_updates(6) does_bind [OF h does_tell [OF t]]], frule same_state)
        (use assms r in \<open>simp add: meshx_prov_pdu_process_def process_confirmation_def mem_read_def prov_types not_less [symmetric] same_iff\<close>)
  }
qed

lemma receives_complete:
  assumes "dv_state D \<le> MESHX_PROV_STATE_COMPLETE" "told ext p PROV_NOTIFY_COMPLETE (D\<lparr>dv_state := MESHX_PROV_STATE_COMPLETE\<rparr>) D'"
  shows "does (meshx_prov_pdu_process ext p [MESHX_PROV_TYPE_COMPLETE] 1) p D D'"
  by (rule does_upd [OF keeps_updates(1) does_tell [OF assms(2)]], frule same_state)
    (use assms(1) in \<open>simp add: meshx_prov_pdu_process_def process_complete_def mem_read_def prov_types not_less [symmetric]\<close>)

lemma verify_holds:
  assumes "holds p w D"
  shows "\<exists>w'. meshx_prov_verify_confirmation ext p w =
      Some (dv_confirmation (confirm (ext_aes ext) (dv_random_remote D) D) = dv_confirmation_remote D, w') \<and>
    holds p w' (confirm (ext_aes ext) (dv_random_remote D) D)"
proof -
  obtain d where d: "pw_mem w p = Some d" "same d D" using holdsE [OF assms] .
  obtain w' where w': "meshx_prov_generate_confirmation ext (Some p) (dv_random_remote D) w = Some (MESHX_SUCCESS, w')"
    "holds p w' (confirm (ext_aes ext) (dv_random_remote D) D)"
    using doesD [OF does_generate assms] by blast
  obtain d' where "pw_mem w' p = Some d'" "same d' (confirm (ext_aes ext) (dv_random_remote D) D)" using holdsE [OF w'(2)] .
  then show ?thesis using d w' by (simp add: meshx_prov_verify_confirmation_def same_iff)
qed

text \<open>The device after the peer's random number was accepted.\<close>

definition opened :: "aes128 \<Rightarrow> bytes \<Rightarrow> pb_adv_dev \<Rightarrow> pb_adv_dev" where
  "opened aes rnd d = session_keys aes ((confirm aes rnd (d\<lparr>dv_random_remote := rnd\<rparr>))\<lparr>dv_state := MESHX_PROV_STATE_RANDOM\<rparr>)"

lemma receives_random:
  assumes "dv_state D \<le> MESHX_PROV_STATE_RANDOM" "length rnd = 16" "dv_role D \<in> {MESHX_ROLE_DEVICE, MESHX_ROLE_PROVISIONER}"
    "dv_confirmation (confirm (ext_aes ext) rnd (D\<lparr>dv_random_remote := rnd\<rparr>)) = dv_confirmation_remote D"
    "told ext p (PROV_NOTIFY_RANDOM rnd) (opened (ext_aes ext) rnd D) D'"
  shows "does (meshx_prov_pdu_process ext p (MESHX_PROV_TYPE_RANDOM # rnd) 17) p D D'"
proof (rule doesI)
  let ?D2 = "confirm (ext_aes ext) rnd (D\<lparr>dv_random_remote := rnd\<rparr>)"
  let ?D3 = "?D2\<lparr>dv_state := MESHX_PROV_STATE_RANDOM\<rparr>"
  fix w d assume h: "holds p w D" "pw_mem w p = Some d" "same d D"
  obtain w2 where w2: "meshx_prov_verify_confirmation ext p (dev_upd p (\<lambda>d. d\<lparr>dv_random_remote := rnd\<rparr>) w) = Some (True, w2)"
    "holds p w2 ?D2"
    using verify_holds [OF holds_upd [OF h(1) keeps_updates(7)], of ext rnd] assms(4) by auto
  have h3: "holds p (dev_upd p (\<lambda>d. d\<lparr>dv_state := MESHX_PROV_STATE_RANDOM\<rparr>) w2) ?D3"
    by (rule holds_upd [OF w2(2) keeps_updates(1)])
  have eq: "?D3\<lparr>dv_state := MESHX_PROV_STATE_RANDOM, dv_random := dv_random D\<rparr> = ?D3"
    by (rule pb_adv_dev.equality) simp_all
  have "does (meshx_prov_random (Some p) (Some (dv_random D))) p ?D3 (?D3\<lparr>dv_state := MESHX_PROV_STATE_RANDOM, dv_random := dv_random D\<rparr>)"
    by (rule does_random) simp
  then have "does (meshx_prov_random (Some p) (Some (dv_random D))) p ?D3 ?D3" unfolding eq .
  from doesD [OF does_bind [OF this does_bind [OF does_session does_tell]] h3] doesD [OF does_bind [OF does_session does_tell] h3] assms(5)
  have "\<exists>w'. Option.bind (if dv_role D = MESHX_ROLE_DEVICE
          then meshx_prov_random (Some p) (Some (dv_random D)) (dev_upd p (\<lambda>d. d\<lparr>dv_state := MESHX_PROV_STATE_RANDOM\<rparr>) w2)
          else Some (MESHX_SUCCESS, dev_upd p (\<lambda>d. d\<lparr>dv_state := MESHX_PROV_STATE_RANDOM\<rparr>) w2))
        (\<lambda>(_, w). Option.bind (meshx_prov_calculate_session_device_key ext p w) (\<lambda>(_, w). tell ext p (PROV_NOTIFY_RANDOM rnd) w)) =
      Some (MESHX_SUCCESS, w') \<and> holds p w' D'"
    by (auto simp: opened_def)
  then show "\<exists>w'. meshx_prov_pdu_process ext p (MESHX_PROV_TYPE_RANDOM # rnd) 17 w = Some (MESHX_SUCCESS, w') \<and> holds p w' D'"
    using h(2,3) assms(1,2) w2(1) by (cases "dv_role D = MESHX_ROLE_DEVICE")
      (simp_all add: meshx_prov_pdu_process_def process_random_def mem_read_def prov_types not_less [symmetric] same_iff Let_def)
qed

lemma receives_data:
  fixes D :: pb_adv_dev
  assumes "dv_state D \<le> MESHX_PROV_STATE_DATA" "aes_block (ext_aes ext)" "length (dv_session_nonce D) = 16" "length (pd_net_key x) = 16"
    "told ext p (PROV_NOTIFY_DATA (data_to_host (x\<lparr>pd_mic := pd_mic (dv_data D)\<rparr>)))
       (D\<lparr>dv_data := x\<lparr>pd_mic := pd_mic (dv_data D)\<rparr>, dv_state := MESHX_PROV_STATE_COMPLETE\<rparr>) D'"
  defines "enc \<equiv> data_encrypt (ext_aes ext) (dv_session_key D) (dv_session_nonce D) x"
  shows "does (meshx_prov_pdu_process ext p (MESHX_PROV_TYPE_DATA # data_bytes enc @ pd_mic enc) 34) p D D'"
proof (rule doesI)
  let ?P = "MESHX_PROV_TYPE_DATA # data_bytes enc @ pd_mic enc"
  fix w d assume h: "holds p w D" "pw_mem w p = Some d" "same d D"
  obtain cipher mic where c: "length cipher = 25" "length mic = 8" "enc = data_of_bytes cipher mic"
    "meshx_aes_ccm_decrypt (ext_aes ext) (dv_session_key D) (take 13 (drop 3 (dv_session_nonce D))) [] cipher mic
      (data_bytes (dv_data D)) = (MESHX_SUCCESS, data_bytes x)"
    using data_encrypt_decrypt [OF assms(2,3,4), of "dv_session_key D" "data_bytes (dv_data D)"] by (auto simp: enc_def)
  have "data_bytes enc = cipher" "pd_mic enc = mic"
    using data_bytes_of_bytes [OF c(1)] by (simp_all add: c(3)) (simp add: data_of_bytes_def)
  then have rd: "mem_read ?P (Suc 0) 25 = Some cipher" "mem_read ?P 26 8 = Some mic" using c(1,2) by (simp_all add: mem_read_def)
  define w2 where "w2 = dev_upd p (\<lambda>d. d\<lparr>dv_state := MESHX_PROV_STATE_DATA\<rparr>)
    (dev_upd p (\<lambda>d. d\<lparr>dv_data := data_of_bytes (data_bytes x) (pd_mic (dv_data d))\<rparr>) w)"
  let ?D2 = "D\<lparr>dv_data := x\<lparr>pd_mic := pd_mic (dv_data D)\<rparr>, dv_state := MESHX_PROV_STATE_DATA\<rparr>"
  have h2: "holds p w2 ?D2"
    using holds_upd [OF holds_upd [OF h(1) keeps_updates(8) [where out = "data_bytes x"]] keeps_updates(1) [where s = MESHX_PROV_STATE_DATA]]
    by (simp add: w2_def data_of_data_bytes [OF assms(4)])
  obtain w3 where w3: "meshx_prov_complete (Some p) w2 = Some (MESHX_SUCCESS, w3)"
    "holds p w3 (D\<lparr>dv_data := x\<lparr>pd_mic := pd_mic (dv_data D)\<rparr>, dv_state := MESHX_PROV_STATE_COMPLETE\<rparr>)"
    using doesD [OF does_complete h2] by auto
  obtain d3 where d3: "pw_mem w3 p = Some d3" "dv_data d3 = x\<lparr>pd_mic := pd_mic (dv_data D)\<rparr>"
    using holdsE [OF w3(2)] by (auto simp: same_iff)
  have "meshx_prov_pdu_process ext p ?P 34 w = process_data ext p ?P 34 w"
    by (simp add: meshx_prov_pdu_process_def mem_read_def prov_types)
  also have "\<dots> = tell ext p (PROV_NOTIFY_DATA (data_to_host (x\<lparr>pd_mic := pd_mic (dv_data D)\<rparr>))) w3"
    using h(2,3) assms(1) rd c(4) w3(1) d3
    by (simp add: process_data_def Let_def w2_def [symmetric] same_iff not_less [symmetric] cong: if_cong)
  finally show "\<exists>w'. meshx_prov_pdu_process ext p ?P 34 w = Some (MESHX_SUCCESS, w') \<and> holds p w' D'"
    using doesD [OF does_tell [OF assms(5)] w3(2)] by simp
qed

section \<open>A session\<close>

text \<open>Two worlds, the provisioner's with its device p and the other with q.  A unit is what the
  sender's bearer makes of the sender's state (lemma \<^verbatim>\<open>send_state_unit\<close>); a turn delivers it, or tells the
  provisioner that its link is open or that its unit was acknowledged.\<close>

datatype turn = LINK_OPENS | ACKNOWLEDGED | TO_DEVICE | TO_PROVISIONER

fun take_turn :: "prov_ext \<Rightarrow> prov_ext \<Rightarrow> nat \<Rightarrow> nat \<Rightarrow> turn \<Rightarrow> prov_world \<times> prov_world \<Rightarrow> (prov_world \<times> prov_world) option" where
  "take_turn eA eB p q LINK_OPENS (w, v) = do {
     d \<leftarrow> pw_mem w p;
     (_, w) \<leftarrow> meshx_prov_handle_notify eA (dv_bearer d) p (PROV_NOTIFY_LINK_OPEN MESHX_PROV_LINK_OPEN_SUCCESS) w;
     Some (w, v) }"
| "take_turn eA eB p q ACKNOWLEDGED (w, v) = do {
     d \<leftarrow> pw_mem w p;
     (_, w) \<leftarrow> meshx_prov_handle_notify eA (dv_bearer d) p (PROV_NOTIFY_TRANS_ACK (dv_state d)) w;
     Some (w, v) }"
| "take_turn eA eB p q TO_DEVICE (w, v) = do {
     d \<leftarrow> pw_mem w p;
     (_, v) \<leftarrow> meshx_prov_pdu_process eB q (state_unit d) (word_of_nat (length (state_unit d))) v;
     Some (w, v) }"
| "take_turn eA eB p q TO_PROVISIONER (w, v) = do {
     d \<leftarrow> pw_mem v q;
     (_, w) \<leftarrow> meshx_prov_pdu_process eA p (state_unit d) (word_of_nat (length (state_unit d))) w;
     Some (w, v) }"

fun session_run :: "prov_ext \<Rightarrow> prov_ext \<Rightarrow> nat \<Rightarrow> nat \<Rightarrow> turn list \<Rightarrow> prov_world \<times> prov_world \<Rightarrow> (prov_world \<times> prov_world) option" where
  "session_run eA eB p q [] s = Some s"
| "session_run eA eB p q (t # ts) s = do { s \<leftarrow> take_turn eA eB p q t s; session_run eA eB p q ts s }"

text \<open>From any two worlds that hold E and D, the turns lead to worlds that hold E' and D'.\<close>

definition reaches :: "prov_ext \<Rightarrow> prov_ext \<Rightarrow> nat \<Rightarrow> nat \<Rightarrow> turn list \<Rightarrow> pb_adv_dev \<Rightarrow> pb_adv_dev \<Rightarrow> pb_adv_dev \<Rightarrow> pb_adv_dev \<Rightarrow> bool" where
  "reaches eA eB p q ts E D E' D' \<longleftrightarrow> (\<forall>w v. holds p w E \<longrightarrow> holds q v D \<longrightarrow>
     (\<exists>w' v'. session_run eA eB p q ts (w, v) = Some (w', v') \<and> holds p w' E' \<and> holds q v' D'))"

lemma reaches_nil: "reaches eA eB p q [] E D E D"
  by (simp add: reaches_def)

lemma same_unit: "same d D \<Longrightarrow> state_unit d = state_unit D"
  by (cases "dv_state D") (simp_all add: state_unit_def same_iff)

lemma reaches_device:
  assumes "does (meshx_prov_pdu_process eB q (state_unit E) (word_of_nat (length (state_unit E)))) q D D1"
    "reaches eA eB p q ts E D1 E' D'"
  shows "reaches eA eB p q (TO_DEVICE # ts) E D E' D'"
  unfolding reaches_def
proof (intro allI impI)
  fix w v assume h: "holds p w E" "holds q v D"
  obtain d where d: "pw_mem w p = Some d" "same d E" using holdsE [OF h(1)] .
  obtain v1 where "meshx_prov_pdu_process eB q (state_unit E) (word_of_nat (length (state_unit E))) v = Some (MESHX_SUCCESS, v1)"
    "holds q v1 D1" using doesD [OF assms(1) h(2)] by blast
  then show "\<exists>w' v'. session_run eA eB p q (TO_DEVICE # ts) (w, v) = Some (w', v') \<and> holds p w' E' \<and> holds q v' D'"
    using assms(2) h(1) d same_unit [OF d(2)] by (simp add: reaches_def)
qed

lemma reaches_provisioner:
  assumes "does (meshx_prov_pdu_process eA p (state_unit D) (word_of_nat (length (state_unit D)))) p E E1"
    "reaches eA eB p q ts E1 D E' D'"
  shows "reaches eA eB p q (TO_PROVISIONER # ts) E D E' D'"
  unfolding reaches_def
proof (intro allI impI)
  fix w v assume h: "holds p w E" "holds q v D"
  obtain d where d: "pw_mem v q = Some d" "same d D" using holdsE [OF h(2)] .
  obtain w1 where "meshx_prov_pdu_process eA p (state_unit D) (word_of_nat (length (state_unit D))) w = Some (MESHX_SUCCESS, w1)"
    "holds p w1 E1" using doesD [OF assms(1) h(1)] by blast
  then show "\<exists>w' v'. session_run eA eB p q (TO_PROVISIONER # ts) (w, v) = Some (w', v') \<and> holds p w' E' \<and> holds q v' D'"
    using assms(2) h(2) d same_unit [OF d(2)] by (simp add: reaches_def)
qed

lemma holds_beacon [simp]: "holds p (w\<lparr>pw_beacon := b\<rparr>) D = holds p w D"
  by (simp add: holds_def bearer_kind_def)

lemma reaches_opens:
  assumes "told eA p (PROV_NOTIFY_LINK_OPEN MESHX_PROV_LINK_OPEN_SUCCESS) E E1" "reaches eA eB p q ts E1 D E' D'"
  shows "reaches eA eB p q (LINK_OPENS # ts) E D E' D'"
  unfolding reaches_def
proof (intro allI impI)
  fix w v assume h: "holds p w E" "holds q v D"
  obtain d where d: "pw_mem w p = Some d" "same d E" using holdsE [OF h(1)] .
  let ?w = "w\<lparr>pw_beacon := meshx_beacon_stop MESHX_BEACON_TYPE_UDB (pw_beacon w)\<rparr>"
  let ?n = "meshx_notify eA (dv_bearer d) p (PROV_NOTIFY_LINK_OPEN MESHX_PROV_LINK_OPEN_SUCCESS) ?w"
  have "holds p (snd ?n) E1" using assms(1) h(1) by (simp add: told_def)
  moreover have "take_turn eA eB p q LINK_OPENS (w, v) = Some (snd ?n, v)"
    using d(1) by (cases ?n) (simp add: meshx_prov_handle_notify_def)
  ultimately show "\<exists>w' v'. session_run eA eB p q (LINK_OPENS # ts) (w, v) = Some (w', v') \<and> holds p w' E' \<and> holds q v' D'"
    using assms(2) h(2) by (simp add: reaches_def)
qed

lemma reaches_acknowledged:
  assumes "told eA p (PROV_NOTIFY_TRANS_ACK (dv_state E)) E E1" "dv_state E < MESHX_PROV_STATE_COMPLETE" "reaches eA eB p q ts E1 D E' D'"
  shows "reaches eA eB p q (ACKNOWLEDGED # ts) E D E' D'"
  unfolding reaches_def
proof (intro allI impI)
  fix w v assume h: "holds p w E" "holds q v D"
  obtain d where d: "pw_mem w p = Some d" "same d E" using holdsE [OF h(1)] .
  let ?n = "meshx_notify eA (dv_bearer d) p (PROV_NOTIFY_TRANS_ACK (dv_state E)) w"
  have "holds p (snd ?n) E1" using assms(1) h(1) by (simp add: told_def)
  moreover have "take_turn eA eB p q ACKNOWLEDGED (w, v) = Some (snd ?n, v)"
    using d(1) same_state [OF d(2)] assms(2) by (cases ?n) (auto simp: meshx_prov_handle_notify_def prov_order)
  ultimately show "\<exists>w' v'. session_run eA eB p q (ACKNOWLEDGED # ts) (w, v) = Some (w', v') \<and> holds p w' E' \<and> holds q v' D'"
    using assms(3) h(2) by (simp add: reaches_def)
qed

lemma confirm_more [simp]:
  "dv_public_key (confirm aes r d) = dv_public_key d" "dv_public_key_remote (confirm aes r d) = dv_public_key_remote d"
  "dv_invite (confirm aes r d) = dv_invite d" "dv_capabilites (confirm aes r d) = dv_capabilites d"
  "dv_start (confirm aes r d) = dv_start d" "dv_auth_value (confirm aes r d) = dv_auth_value d" "dv_data (confirm aes r d) = dv_data d"
  by (simp_all add: confirm_def Let_def)

lemma session_keys_more [simp]: "dv_random (session_keys aes d) = dv_random d" "dv_data (session_keys aes d) = dv_data d"
  by (simp_all add: session_keys_def Let_def)

lemma confirmation_length: "aes_block aes \<Longrightarrow> length (dv_confirmation (confirm aes r d)) = 16"
  by (simp add: confirm_def Let_def)

lemma nonce_length: "aes_block aes \<Longrightarrow> length (dv_session_nonce (session_keys aes d)) = 16"
  by (simp add: session_keys_def Let_def meshx_k1_def)

definition turns_of_session :: "turn list" where
  "turns_of_session = [LINK_OPENS, TO_DEVICE, TO_PROVISIONER, TO_DEVICE, ACKNOWLEDGED, TO_DEVICE, TO_PROVISIONER,
     TO_DEVICE, TO_PROVISIONER, TO_DEVICE, TO_PROVISIONER, TO_DEVICE, TO_PROVISIONER]"

text \<open>What the two devices bring along.\<close>

definition session_ready :: "prov_ext \<Rightarrow> pb_adv_dev \<Rightarrow> pb_adv_dev \<Rightarrow> bool" where
  "session_ready ext e d \<longleftrightarrow> aes_block (ext_aes ext) \<and>
    dv_role e = MESHX_ROLE_PROVISIONER \<and> dv_role d = MESHX_ROLE_DEVICE \<and>
    dv_state e = MESHX_PROV_STATE_LINK_OPENED \<and> dv_state d = MESHX_PROV_STATE_LINK_OPENED \<and>
    length (dv_public_key e) = 64 \<and> length (dv_public_key d) = 64 \<and> length (dv_random e) = 16 \<and> length (dv_random d) = 16 \<and>
    ext_ecc_valid ext (dv_public_key e) \<and> ext_ecc_valid ext (dv_public_key d) \<and>
    ext_ecc_shared ext (dv_public_key d) (dv_private_key e) = ext_ecc_shared ext (dv_public_key e) (dv_private_key d)"

text \<open>Both ends when the public keys have crossed: each knows the other's key, and has the same
  inputs to the confirmation.\<close>

definition agreed :: "prov_ext \<Rightarrow> pb_adv_dev \<Rightarrow> pb_adv_dev \<Rightarrow> pb_adv_dev" where
  "agreed ext e d = d\<lparr>dv_invite := 0, dv_capabilites := cap_to_be sample_prov_capabilites, dv_start := sample_prov_start,
     dv_share_secret := ext_ecc_shared ext (dv_public_key e) (dv_private_key d), dv_state := MESHX_PROV_STATE_PUBLIC_KEY,
     dv_public_key_remote := dv_public_key e\<rparr>"

lemma exchange_keys:
  assumes "session_ready ext e d"
    "reaches (provisioner_ext now began ext) (device_ext ext) p q ts
       ((prepared (ext_aes ext) (agreed ext d e))\<lparr>dv_state := MESHX_PROV_STATE_CONFIRMATION\<rparr>) (prepared (ext_aes ext) (agreed ext e d)) E' D'"
  shows "reaches (provisioner_ext now began ext) (device_ext ext) p q
     (LINK_OPENS # TO_DEVICE # TO_PROVISIONER # TO_DEVICE # ACKNOWLEDGED # TO_DEVICE # TO_PROVISIONER # ts) e d E' D'"
proof -
  let ?A = "provisioner_ext now began ext" and ?B = "device_ext ext"
  let ?C = "cap_to_be sample_prov_capabilites"
  note r = assms(1) [unfolded session_ready_def]
  define e1 where "e1 = e\<lparr>dv_state := MESHX_PROV_STATE_INVITE, dv_invite := 0\<rparr>"
  define d1 where "d1 = (d\<lparr>dv_state := MESHX_PROV_STATE_INVITE, dv_invite := 0\<rparr>)
    \<lparr>dv_state := MESHX_PROV_STATE_CAPABILITES, dv_capabilites := ?C\<rparr>"
  define e2 where "e2 = (e1\<lparr>dv_state := MESHX_PROV_STATE_CAPABILITES, dv_capabilites := ?C\<rparr>)
    \<lparr>dv_state := MESHX_PROV_STATE_START, dv_start := sample_prov_start\<rparr>"
  define d2 where "d2 = d1\<lparr>dv_state := MESHX_PROV_STATE_START, dv_start := sample_prov_start\<rparr>"
  define e3 where "e3 = e2\<lparr>dv_state := MESHX_PROV_STATE_PUBLIC_KEY\<rparr>"
  note states = e1_def d1_def e2_def d2_def e3_def
  have units: "state_unit e1 = [MESHX_PROV_TYPE_INVITE, 0]" "state_unit d1 = MESHX_PROV_TYPE_CAPABILITES # cap_bytes ?C"
    "state_unit e2 = MESHX_PROV_TYPE_START # start_bytes sample_prov_start" "state_unit e3 = MESHX_PROV_TYPE_PUBLIC_KEY # dv_public_key e"
    by (simp_all add: state_unit_def states)
  have lens: "length (cap_bytes ?C) = 11" "length (start_bytes sample_prov_start) = 5" by (simp_all add: cap_bytes_def start_bytes_def)
  have s1: "told ?A p (PROV_NOTIFY_LINK_OPEN MESHX_PROV_LINK_OPEN_SUCCESS) e e1"
    unfolding e1_def by (rule provisioner_told(1)) (use r in simp)
  have s2: "does (meshx_prov_pdu_process ?B q (state_unit e1) (word_of_nat (length (state_unit e1)))) q d d1"
    using receives_invite [OF _ device_told(1), of d 0 ext q] r by (simp add: units d1_def prov_order)
  have s3: "does (meshx_prov_pdu_process ?A p (state_unit d1) (word_of_nat (length (state_unit d1)))) p e1 e2"
    using receives_capabilites [OF _ provisioner_told(2), of e1 now began ext p] by (simp add: units lens e2_def) (simp add: e1_def prov_order)
  have s4: "does (meshx_prov_pdu_process ?B q (state_unit e2) (word_of_nat (length (state_unit e2)))) q d1 d2"
    using receives_start [OF _ _ device_told(2), of d1 ext q] by (simp add: units lens d2_def) (simp add: d1_def prov_order)
  have s5: "told ?A p (PROV_NOTIFY_TRANS_ACK (dv_state e2)) e2 e3" "dv_state e2 < MESHX_PROV_STATE_COMPLETE"
    using provisioner_told(3) [of e2 now began ext p] by (simp_all add: e3_def) (simp_all add: e2_def prov_order)
  have d3: "d2\<lparr>dv_share_secret := ext_ecc_shared ext (dv_public_key e) (dv_private_key d2), dv_state := MESHX_PROV_STATE_PUBLIC_KEY,
      dv_public_key_remote := dv_public_key e\<rparr> = agreed ext e d"
    by (rule pb_adv_dev.equality) (simp_all add: agreed_def states)
  have e4: "e3\<lparr>dv_share_secret := ext_ecc_shared ext (dv_public_key d) (dv_private_key e3), dv_state := MESHX_PROV_STATE_PUBLIC_KEY,
      dv_public_key_remote := dv_public_key d\<rparr> = agreed ext d e"
    by (rule pb_adv_dev.equality) (simp_all add: agreed_def states)
  have s6: "does (meshx_prov_pdu_process ?B q (state_unit e3) (word_of_nat (length (state_unit e3)))) q d2 (prepared (ext_aes ext) (agreed ext e d))"
    using receives_public_key [of d2 "dv_public_key e" ?B q, simplified, unfolded d3, OF _ _ _ device_told(3)] r
    by (simp add: units) (simp add: d2_def agreed_def prov_order)
  have u: "state_unit (prepared (ext_aes ext) (agreed ext e d)) = MESHX_PROV_TYPE_PUBLIC_KEY # dv_public_key d"
    by (simp add: state_unit_def prepared_def agreed_def)
  have s7: "does (meshx_prov_pdu_process ?A p (state_unit (prepared (ext_aes ext) (agreed ext e d)))
      (word_of_nat (length (state_unit (prepared (ext_aes ext) (agreed ext e d)))))) p e3
      ((prepared (ext_aes ext) (agreed ext d e))\<lparr>dv_state := MESHX_PROV_STATE_CONFIRMATION\<rparr>)"
    using receives_public_key [of e3 "dv_public_key d" ?A p, simplified, unfolded e4, OF _ _ _ provisioner_told(4)] r
    by (simp add: u) (simp add: e3_def agreed_def prov_order)
  show ?thesis
    by (rule reaches_opens [OF s1 reaches_device [OF s2 reaches_provisioner [OF s3 reaches_device [OF s4
          reaches_acknowledged [OF s5 reaches_device [OF s6 reaches_provisioner [OF s7 assms(2)]]]]]]])
qed

lemma opened_fields [simp]:
  "dv_state (opened aes r d) = MESHX_PROV_STATE_RANDOM" "dv_random (opened aes r d) = dv_random d" "dv_data (opened aes r d) = dv_data d"
  by (simp_all add: opened_def)

lemma mirrored_keys:
  assumes "mirrored e d"
  shows "dv_session_key (opened aes (dv_random d) e) = dv_session_key (opened aes (dv_random e) d)"
    "dv_session_nonce (opened aes (dv_random d) e) = dv_session_nonce (opened aes (dv_random e) d)"
    "dv_device_key (opened aes (dv_random d) e) = dv_device_key (opened aes (dv_random e) d)"
proof -
  let ?e = "e\<lparr>dv_random_remote := dv_random d\<rparr>" and ?d = "d\<lparr>dv_random_remote := dv_random e\<rparr>"
  have "mirrored ?e ?d" using assms by (simp add: mirrored_def)
  from mirrored_confirm(2) [OF this, of aes "dv_random d" "dv_random e"] assms
  show "dv_session_key (opened aes (dv_random d) e) = dv_session_key (opened aes (dv_random e) d)"
    "dv_session_nonce (opened aes (dv_random d) e) = dv_session_nonce (opened aes (dv_random e) d)"
    "dv_device_key (opened aes (dv_random d) e) = dv_device_key (opened aes (dv_random e) d)"
    unfolding opened_def by (intro session_keys_cong; simp add: mirrored_def)+
qed

lemma exchange_secrets:
  assumes "session_ready ext e0 d0"
  defines "e \<equiv> (prepared (ext_aes ext) (agreed ext d0 e0))\<lparr>dv_state := MESHX_PROV_STATE_CONFIRMATION\<rparr>"
    and "d \<equiv> prepared (ext_aes ext) (agreed ext e0 d0)"
  shows "\<exists>e' d'. reaches (provisioner_ext now began ext) (device_ext ext) p q
     [TO_DEVICE, TO_PROVISIONER, TO_DEVICE, TO_PROVISIONER, TO_DEVICE, TO_PROVISIONER] e d e' d' \<and>
     dv_state e' = MESHX_PROV_STATE_COMPLETE \<and> dv_state d' = MESHX_PROV_STATE_COMPLETE \<and>
     dv_session_key e' = dv_session_key d' \<and> dv_device_key e' = dv_device_key d' \<and>
     dv_data d' = (data_to_be sample_prov_data)\<lparr>pd_mic := pd_mic (dv_data d0)\<rparr>"
proof -
  let ?A = "provisioner_ext now began ext" and ?B = "device_ext ext" and ?aes = "ext_aes ext"
  note r = assms(1) [unfolded session_ready_def]
  define ce where "ce = dv_confirmation e"
  define cd where "cd = dv_confirmation d"
  define d1 where "d1 = d\<lparr>dv_state := MESHX_PROV_STATE_CONFIRMATION, dv_confirmation_remote := ce\<rparr>"
  define e1 where "e1 = e\<lparr>dv_state := MESHX_PROV_STATE_RANDOM, dv_confirmation_remote := cd\<rparr>"
  define d2 where "d2 = opened ?aes (dv_random e0) d1"
  define e2 where "e2 = opened ?aes (dv_random d0) e1"
  define e3 where "e3 = e2\<lparr>dv_state := MESHX_PROV_STATE_DATA, dv_data := sealed ?aes e2\<rparr>"
  let ?x = "data_to_be sample_prov_data"
  define d3 where "d3 = d2\<lparr>dv_data := ?x\<lparr>pd_mic := pd_mic (dv_data d2)\<rparr>, dv_state := MESHX_PROV_STATE_COMPLETE\<rparr>"
  have rnd: "dv_random e1 = dv_random e0" "dv_random d1 = dv_random d0"
    by (simp_all add: e1_def e_def d1_def d_def prepared_def agreed_def)
  have lens: "length ce = 16" "length cd = 16"
    using r by (simp_all add: ce_def cd_def e_def d_def prepared_def confirmation_length)
  have units: "state_unit e = MESHX_PROV_TYPE_CONFIRMATION # ce" "state_unit d1 = MESHX_PROV_TYPE_CONFIRMATION # cd"
    "state_unit e1 = MESHX_PROV_TYPE_RANDOM # dv_random e0" "state_unit d2 = MESHX_PROV_TYPE_RANDOM # dv_random d0"
    "state_unit e3 = MESHX_PROV_TYPE_DATA # data_bytes (sealed ?aes e2) @ pd_mic (sealed ?aes e2)"
    "state_unit d3 = [MESHX_PROV_TYPE_COMPLETE]"
    using rnd by (simp_all add: state_unit_def d1_def e1_def d2_def e3_def d3_def ce_def cd_def) (simp_all add: e_def)
  have mir: "mirrored ((agreed ext d0 e0)\<lparr>dv_auth_value := zeros 16\<rparr>) ((agreed ext e0 d0)\<lparr>dv_auth_value := zeros 16\<rparr>)" using r by (simp add: mirrored_def agreed_def)
  have mir1: "mirrored e1 d1" using mir by (simp add: e1_def d1_def e_def d_def prepared_def mirrored_def)
  have ok_d: "dv_confirmation (confirm ?aes (dv_random e0) (d1\<lparr>dv_random_remote := dv_random e0\<rparr>)) = dv_confirmation_remote d1"
  proof -
    have "mirrored ((agreed ext d0 e0)\<lparr>dv_auth_value := zeros 16\<rparr>) (d1\<lparr>dv_random_remote := dv_random e0\<rparr>)"
      using mir by (simp add: d1_def d_def prepared_def mirrored_def)
    from mirrored_confirm(1) [OF this, of ?aes "dv_random e0"] show ?thesis
      by (simp add: d1_def ce_def e_def prepared_def) (simp add: agreed_def)
  qed
  have ok_e: "dv_confirmation (confirm ?aes (dv_random d0) (e1\<lparr>dv_random_remote := dv_random d0\<rparr>)) = dv_confirmation_remote e1"
  proof -
    have "mirrored (e1\<lparr>dv_random_remote := dv_random d0\<rparr>) ((agreed ext e0 d0)\<lparr>dv_auth_value := zeros 16\<rparr>)"
      using mir by (simp add: e1_def e_def prepared_def mirrored_def)
    from mirrored_confirm(1) [OF this, of ?aes "dv_random d0"] show ?thesis
      by (simp add: e1_def cd_def d_def prepared_def) (simp add: agreed_def)
  qed
  have keys: "dv_session_key e2 = dv_session_key d2" "dv_session_nonce e2 = dv_session_nonce d2" "dv_device_key e2 = dv_device_key d2"
    using mirrored_keys [OF mir1, of ?aes] rnd by (simp_all add: e2_def d2_def)
  have s1: "does (meshx_prov_pdu_process ?B q (state_unit e) (word_of_nat (length (state_unit e)))) q d d1"
    using receives_confirmation(1) [OF _ lens(1) _ device_told(4), of d ext q] r
    by (simp add: units lens d1_def) (simp add: d_def prepared_def agreed_def prov_order)
  have s2: "does (meshx_prov_pdu_process ?A p (state_unit d1) (word_of_nat (length (state_unit d1)))) p e e1"
    using receives_confirmation(2) [OF _ lens(2) _ provisioner_told(5), of e now began ext p] r
    by (simp add: units lens e1_def) (simp add: e_def prepared_def agreed_def prov_order)
  have s3: "does (meshx_prov_pdu_process ?B q (state_unit e1) (word_of_nat (length (state_unit e1)))) q d1 d2"
    using receives_random [of d1 "dv_random e0" ?B q, OF _ _ _ _ device_told(5)] r ok_d
    by (simp add: units d2_def) (simp add: d1_def d_def prepared_def agreed_def prov_order)
  have s4: "does (meshx_prov_pdu_process ?A p (state_unit d2) (word_of_nat (length (state_unit d2)))) p e1 e3"
    using receives_random [of e1 "dv_random d0" ?A p, OF _ _ _ _ provisioner_told(6)] r ok_e
    by (simp add: units e3_def e2_def) (simp add: e1_def e_def prepared_def agreed_def prov_order)
  have n: "length (dv_session_nonce d2) = 16" "length (pd_net_key ?x) = 16" "length (dv_session_nonce e2) = 16"
    using r by (simp_all add: d2_def e2_def opened_def nonce_length data_to_be_def sample_prov_data_def sample_net_key1_def)
  obtain cipher mic where c: "length cipher = 25" "length mic = 8" "sealed ?aes e2 = data_of_bytes cipher mic"
    using data_encrypt_decrypt [OF _ n(3,2), of ?aes "dv_session_key e2" "[]"] r unfolding sealed_def by blast
  have l: "length (data_bytes (sealed ?aes e2) @ pd_mic (sealed ?aes e2)) = 33"
    using data_bytes_of_bytes [OF c(1), of mic] c by simp (simp add: data_of_bytes_def)
  have s5: "does (meshx_prov_pdu_process ?B q (state_unit e3) (word_of_nat (length (state_unit e3)))) q d2 d3"
    using receives_data [of d2 ?B ?x q, OF _ _ n(1,2) device_told(6)] r l
    by (simp add: units keys sealed_def d3_def) (simp add: d2_def prov_order)
  have s6: "does (meshx_prov_pdu_process ?A p (state_unit d3) (word_of_nat (length (state_unit d3)))) p e3
      (e3\<lparr>dv_state := MESHX_PROV_STATE_COMPLETE\<rparr>)"
    using receives_complete [OF _ provisioner_told_complete, of e3 now began ext p] by (simp add: units) (simp add: e3_def prov_order)
  have "reaches ?A ?B p q [TO_DEVICE, TO_PROVISIONER, TO_DEVICE, TO_PROVISIONER, TO_DEVICE, TO_PROVISIONER] e d
      (e3\<lparr>dv_state := MESHX_PROV_STATE_COMPLETE\<rparr>) d3"
    by (rule reaches_device [OF s1 reaches_provisioner [OF s2 reaches_device [OF s3 reaches_provisioner [OF s4
          reaches_device [OF s5 reaches_provisioner [OF s6 reaches_nil]]]]]])
  moreover have "pd_mic (dv_data d2) = pd_mic (dv_data d0)"
    by (simp add: d2_def d1_def d_def prepared_def agreed_def)
  ultimately show ?thesis using keys
    by (intro exI [of _ "e3\<lparr>dv_state := MESHX_PROV_STATE_COMPLETE\<rparr>"] exI [of _ d3]) (simp add: e3_def d3_def)
qed

section \<open>The printed time\<close>

text \<open>It is off by less than a millisecond: rounded down, or up when the second has changed.\<close>

lemma prov_time_close:
  assumes "0 \<le> tv_usec a" "tv_usec a < 1000000" "0 \<le> tv_usec b" "tv_usec b < 1000000"
    and "t = (tv_sec b - tv_sec a) * 1000000 + (tv_usec b - tv_usec a)" "0 \<le> t" "t < 4294967 * 1000000"
  shows "\<bar>1000 * uint (prov_time a b) - t\<bar> < 1000"
proof -
  define ms where "ms = (tv_sec b - tv_sec a) * 1000 +
    (if tv_usec b < tv_usec a then - ((tv_usec a - tv_usec b) div 1000) else (tv_usec b - tv_usec a) div 1000)"
  have "prov_time a b = word_of_int ms" by (simp add: prov_time_def ms_def Let_def)
  moreover have b: "\<bar>1000 * ms - t\<bar> < 1000" unfolding ms_def assms(5) by auto
  moreover have "0 \<le> ms" "ms < 2 ^ 32" using b assms(1-6) assms(7) unfolding ms_def by (auto split: if_splits)
  ultimately show ?thesis by (simp add: uint_word_of_int)
qed

section \<open>Properties\<close>

text \<open>C10: The two sample applications complete a session.  A provisioner and a device whose link is
  open, whose public keys are valid and whose key agreement is symmetric, run the notification
  callbacks of \<^verbatim>\<open>meshx_provisioner.c\<close> and \<^verbatim>\<open>meshx_device.c\<close> on the units their bearers send: from
  the notification of the open link on, every unit is accepted, both ends reach COMPLETE, they
  hold the same session and device key, and the device has the provisioning data, which are the
  sample data whatever the application passed.\<close>

theorem applications_provision:
  assumes "holds p w e" "holds q v d" "session_ready ext e d"
  shows "\<exists>w' v' e' d'. session_run (provisioner_ext now began ext) (device_ext ext) p q turns_of_session (w, v) = Some (w', v') \<and>
    pw_mem w' p = Some e' \<and> pw_mem v' q = Some d' \<and>
    dv_state e' = MESHX_PROV_STATE_COMPLETE \<and> dv_state d' = MESHX_PROV_STATE_COMPLETE \<and>
    dv_session_key e' = dv_session_key d' \<and> dv_device_key e' = dv_device_key d' \<and>
    data_to_host (dv_data d') = sample_prov_data\<lparr>pd_mic := pd_mic (dv_data d)\<rparr>"
proof -
  obtain e1 d1 where s: "reaches (provisioner_ext now began ext) (device_ext ext) p q turns_of_session e d e1 d1"
    "dv_state e1 = MESHX_PROV_STATE_COMPLETE" "dv_state d1 = MESHX_PROV_STATE_COMPLETE"
    "dv_session_key e1 = dv_session_key d1" "dv_device_key e1 = dv_device_key d1"
    "dv_data d1 = (data_to_be sample_prov_data)\<lparr>pd_mic := pd_mic (dv_data d)\<rparr>"
    using exchange_secrets [OF assms(3), of now began p q] exchange_keys [OF assms(3)] unfolding turns_of_session_def by metis
  obtain w' v' where r: "session_run (provisioner_ext now began ext) (device_ext ext) p q turns_of_session (w, v) = Some (w', v')"
    "holds p w' e1" "holds q v' d1" using s(1) assms(1,2) unfolding reaches_def by blast
  obtain e' where e': "pw_mem w' p = Some e'" "same e' e1" using holdsE [OF r(2)] .
  obtain d' where d': "pw_mem v' q = Some d'" "same d' d1" using holdsE [OF r(3)] .
  show ?thesis using r(1) e' d' s by (intro exI [of _ w'] exI [of _ v'] exI [of _ e'] exI [of _ d']) (simp add: same_iff)
qed

definition demo_provisioner :: pb_adv_dev where
  "demo_provisioner = demo_dev\<lparr>dv_role := MESHX_ROLE_PROVISIONER\<rparr>"

lemma demo_holds: "dv_bearer d = Some BEARER_ADV \<Longrightarrow> holds 0 (demo_prov_world d) d"
  by (simp add: holds_def demo_world_facts)

lemma demo_session: "session_ready demo_ext demo_provisioner demo_dev"
  using demo_world_facts(5) by (simp add: session_ready_def demo_provisioner_def demo_dev_def dev_zero_def demo_ext_def)

theorem applications_provision_witness:
  "\<exists>w' v' e' d'. session_run (provisioner_ext \<lparr>tv_sec = 7, tv_usec = 0\<rparr> \<lparr>tv_sec = 5, tv_usec = 0\<rparr> demo_ext) (device_ext demo_ext) 0 0
      turns_of_session (demo_prov_world demo_provisioner, demo_prov_world demo_dev) = Some (w', v') \<and>
    pw_mem w' 0 = Some e' \<and> pw_mem v' 0 = Some d' \<and>
    dv_state e' = MESHX_PROV_STATE_COMPLETE \<and> dv_state d' = MESHX_PROV_STATE_COMPLETE \<and>
    dv_session_key e' = dv_session_key d' \<and> dv_device_key e' = dv_device_key d' \<and>
    data_to_host (dv_data d') = sample_prov_data\<lparr>pd_mic := pd_mic (dv_data demo_dev)\<rparr>"
  by (rule applications_provision [OF demo_holds demo_holds demo_session]) (simp_all add: demo_provisioner_def)

end
