(* ===== verification/Mesh_App_Start.thy ===== *)
theory Mesh_App_Start
  imports Mesh_App Mesh_Main
begin

text \<open>
  How the programs of \<^verbatim>\<open>tests/meshx_device.c\<close> and \<^verbatim>\<open>tests/meshx_provisioner.c\<close> start: they
  configure the node, initialise the stack, add the sample keys and run it; the provisioner then
  sends a message.  The main loop that follows is \<^verbatim>\<open>meshx_thread\<close> of \<^verbatim>\<open>Mesh_Platform\<close>.
\<close>

section \<open>Set-up of the nodes\<close>

definition sample_net_key :: bytes where
  "sample_net_key = [0x7d, 0xd7, 0x36, 0x4c, 0xd8, 0x42, 0xad, 0x18, 0xc1, 0x7c, 0x2b, 0x82, 0x0c, 0x84, 0xc3, 0xd6]"

definition sample_app_key :: bytes where
  "sample_app_key = [0x63, 0x96, 0x47, 0x71, 0x73, 0x4f, 0xbd, 0x76, 0xe3, 0xb4, 0x05, 0x19, 0xd1, 0xd9, 0x4a, 0x48]"

definition sample_dev_key :: bytes where
  "sample_dev_key = [0x9d, 0x6d, 0xd0, 0xe9, 0x6e, 0xb2, 0x5d, 0xc1, 0x9a, 0x40, 0xed, 0x99, 0x14, 0xf8, 0xf0, 0x3f]"

text \<open>The local structures are filled by their initialisers, whatever they held.\<close>

definition app_params :: "u16 \<Rightarrow> meshx_node_params \<Rightarrow> meshx_node_params" where
  "app_params addr s =
    (case meshx_node_params_init (Some node_default_param) of
       (_, None) \<Rightarrow> s
     | (_, Some par) \<Rightarrow> snd (meshx_node_params_set (Some (par\<lparr>node_addr := addr\<rparr>)) s))"

definition meshx_prov_cfg :: "bytes \<Rightarrow> meshx_node_params \<times> iv_state \<Rightarrow> meshx_node_params \<times> iv_state" where
  "meshx_prov_cfg mac = (\<lambda>(s, v).
    let s = (case meshx_node_config_init mac (Some node_default_config) of
               (_, None) \<Rightarrow> s
             | (_, Some c) \<Rightarrow> snd (meshx_node_config_set (Some (c\<lparr>role := MESHX_ROLE_PROVISIONER\<rparr>)) s))
    in (app_params 0x03 s, meshx_iv_index_set 0x12345678 v))"

definition meshx_dev_cfg :: "bytes \<Rightarrow> meshx_node_params \<times> iv_state \<Rightarrow> meshx_node_params \<times> iv_state" where
  "meshx_dev_cfg mac = (\<lambda>(s, v).
    let s = (case meshx_node_config_init mac (Some node_default_config) of
               (_, None) \<Rightarrow> s
             | (_, Some c) \<Rightarrow> snd (meshx_node_config_set (Some c) s))
    in (app_params 0x1201 s, meshx_iv_index_set 0x12345678 v))"

text \<open>Both programs add the same keys after initialisation; \<^verbatim>\<open>junk\<close> is what the allocated key
  values held.\<close>

definition app_add_keys ::
  "aes128 \<Rightarrow> meshx_node_config \<Rightarrow> net_key_value \<Rightarrow> app_key_value \<Rightarrow> key_store \<times> sys_env \<Rightarrow> key_store \<times> sys_env" where
  "app_add_keys aes cfg junk_net junk_app s =
    (let s = snd (meshx_net_key_add aes cfg junk_net 0 sample_net_key s);
         s = snd (meshx_app_key_add aes cfg junk_app 0 0 sample_app_key s)
     in snd (meshx_dev_key_add cfg 0x1201 1 sample_dev_key s))"

definition meshx_provisioner_init ::
  "aes128 \<Rightarrow> meshx_node_config \<Rightarrow> net_key_value \<Rightarrow> app_key_value \<Rightarrow> key_store \<times> sys_env \<Rightarrow> key_store \<times> sys_env" where
  "meshx_provisioner_init = app_add_keys"

definition meshx_dev_init ::
  "aes128 \<Rightarrow> meshx_node_config \<Rightarrow> net_key_value \<Rightarrow> app_key_value \<Rightarrow> key_store \<times> sys_env \<Rightarrow> key_store \<times> sys_env" where
  "meshx_dev_init = app_add_keys"

section \<open>Starting\<close>

text \<open>The configuration is written before the stack is initialised, the keys are added after.\<close>

definition app_configure ::
  "(meshx_node_params \<times> iv_state \<Rightarrow> meshx_node_params \<times> iv_state) \<Rightarrow> node_world \<Rightarrow> node_world" where
  "app_configure cfg n =
    (let w = nw_mesh n in case cfg (mw_node w, iv (mw_iv w)) of
       (np, v) \<Rightarrow> n\<lparr>nw_mesh := w\<lparr>mw_node := np, mw_iv := (mw_iv w)\<lparr>iv := v\<rparr>\<rparr>\<rparr>)"

definition app_install_keys ::
  "(meshx_node_config \<Rightarrow> key_store \<times> sys_env \<Rightarrow> key_store \<times> sys_env) \<Rightarrow> node_world \<Rightarrow> node_world" where
  "app_install_keys add n =
    (let w = nw_mesh n in case add (config (mw_node w)) (mw_keys w, mw_env w) of
       (k, e) \<Rightarrow> n\<lparr>nw_mesh := w\<lparr>mw_keys := k, mw_env := e\<rparr>\<rparr>)"

definition device_start ::
  "aes128 \<Rightarrow> bytes \<Rightarrow> net_iface \<Rightarrow> net_iface \<Rightarrow> net_key_value \<Rightarrow> app_key_value \<Rightarrow> node_world \<Rightarrow> node_world option" where
  "device_start aes mac left0 left1 junk_net junk_app n = do {
    (_, n) \<leftarrow> meshx_init left0 left1 (app_configure (meshx_dev_cfg mac) n);
    Some (snd (meshx_run (app_install_keys (\<lambda>c. meshx_dev_init aes c junk_net junk_app) n)))
  }"

definition provisioner_start ::
  "aes128 \<Rightarrow> bytes \<Rightarrow> net_iface \<Rightarrow> net_iface \<Rightarrow> net_key_value \<Rightarrow> app_key_value \<Rightarrow> node_world \<Rightarrow> node_world option" where
  "provisioner_start aes mac left0 left1 junk_net junk_app n = do {
    (_, n) \<leftarrow> meshx_init left0 left1 (app_configure (meshx_prov_cfg mac) n);
    Some (snd (meshx_run (app_install_keys (\<lambda>c. meshx_provisioner_init aes c junk_net junk_app) n)))
  }"

text \<open>The sample message: 20 bytes to 0x1201 under its device key.  The keys are looked up and
  dereferenced.\<close>

definition sample_access_pdu :: bytes where
  "sample_access_pdu = [0x00, 0x56, 0x34, 0x12, 0x63, 0x96, 0x47, 0x71, 0x73, 0x4f, 0xbd, 0x76, 0xe3, 0xb4, 0x05, 0x19, 0xd1, 0xd9, 0x4a, 0x48]"

definition sample_ctx :: "mesh_world \<Rightarrow> msg_ctx option" where
  "sample_ctx w = do {
    k \<leftarrow> meshx_net_key_get 0 (mw_keys w);
    dk \<leftarrow> meshx_dev_key_get 0x1201 (mw_keys w);
    Some (mc_zero\<lparr>mc_src := node_addr (meshx_node_params_get (mw_node w)), mc_dst := 0x1201, mc_ttl := 4,
      mc_iv_index := meshx_iv_index_get (iv (mw_iv w)), mc_net_key := Some (nk_addr k, 0), mc_key := Some (dev_key dk)\<rparr>)
  }"

definition provisioner_sample_send :: "nat \<Rightarrow> aes128 \<Rightarrow> mesh_world \<Rightarrow> mesh_world option" where
  "provisioner_sample_send d aes w = do {
    (_, s) \<leftarrow> meshx_seq_set 0 0x3129ab (seqs (mw_iv w));
    let w = w\<lparr>mw_iv := (mw_iv w)\<lparr>seqs := s\<rparr>\<rparr>;
    c \<leftarrow> sample_ctx w;
    (_, _, w) \<leftarrow> meshx_upper_trans_send aes (net_send_at d aes) sample_access_pdu c w;
    Some w
  }"

section \<open>Facts\<close>

lemma derive_key:
  assumes "env_ok e"
  shows "\<exists>v' e'. meshx_net_key_derive aes v e = (v', e') \<and> net_key v' = net_key v \<and> env_ok e'"
  using env_ok_alloc(1) [OF assms] by (auto simp: meshx_net_key_derive_def Let_def meshx_k2_def)

text \<open>The sample keys are installed under index 0 and address 0x1201, in a key store with room.\<close>

lemma sample_keys_installed:
  assumes "env_ok e" "meshx_net_keys s = []" "meshx_app_keys s = []" "meshx_dev_keys s = []"
    "net_key_num cfg \<noteq> 0" "app_key_num cfg \<noteq> 0" "dev_key_num cfg \<noteq> 0"
  shows "\<exists>k a s' e'. app_add_keys aes cfg jn ja (s, e) = (s', e') \<and>
    meshx_net_key_get 0 s' = Some k \<and> net_key (nk_value0 k) = sample_net_key \<and> nk_state k = MESHX_KEY_STATE_NORMAL \<and>
    meshx_app_key_get 0 s' = Some a \<and> app_key (ak_value0 a) = sample_app_key \<and> bound_net_key a s' = Some k \<and>
    map_option dev_key (meshx_dev_key_get 0x1201 s') = Some sample_dev_key"
proof -
  obtain e1 where e1: "meshx_malloc_ok e = (True, e1)" "env_ok e1" using env_ok_alloc(1) [OF assms(1)] by blast
  obtain v e2 where v: "meshx_net_key_derive aes (jn\<lparr>net_key := sample_net_key\<rparr>) e1 = (v, e2)" "net_key v = sample_net_key" "env_ok e2"
    using derive_key [OF e1(2), of aes "jn\<lparr>net_key := sample_net_key\<rparr>"] by auto
  obtain e3 where e3: "meshx_malloc_ok e2 = (True, e3)" "env_ok e3" using env_ok_alloc(1) [OF v(3)] by blast
  obtain e4 where e4: "meshx_malloc_ok e3 = (True, e4)" using env_ok_alloc(1) [OF e3(2)] by blast
  let ?k = "\<lparr>nk_addr = key_next_addr s, nk_state = MESHX_KEY_STATE_NORMAL, nk_index = 0, nk_value0 = v, nk_value1 = jn\<rparr>"
  let ?s1 = "s\<lparr>meshx_net_keys := [?k], key_next_addr := Suc (key_next_addr s)\<rparr>"
  have n: "meshx_net_key_add aes cfg jn 0 sample_net_key (s, e) = (MESHX_SUCCESS, ?s1, e2)"
    using assms(2,5) by (simp add: meshx_net_key_add_def e1(1) v(1) unat_eq_0)
  let ?a = "\<lparr>ak_addr = Suc (key_next_addr s), ak_state = MESHX_KEY_STATE_NORMAL, ak_index = 0,
    ak_value0 = meshx_app_key_derive aes (ja\<lparr>app_key := sample_app_key\<rparr>), ak_value1 = ja, ak_bind = key_next_addr s\<rparr>"
  let ?s2 = "?s1\<lparr>meshx_app_keys := [?a], key_next_addr := Suc (Suc (key_next_addr s))\<rparr>"
  have a: "meshx_app_key_add aes cfg ja 0 0 sample_app_key (?s1, e2) = (MESHX_SUCCESS, ?s2, e3)"
    using assms(3,6) by (simp add: meshx_app_key_add_def meshx_find_net_key_def e3(1) unat_eq_0)
  let ?s3 = "?s2\<lparr>meshx_dev_keys := [\<lparr>primary_addr = 0x1201, element_num = 1, dev_key = sample_dev_key\<rparr>]\<rparr>"
  have d: "meshx_dev_key_add cfg 0x1201 1 sample_dev_key (?s2, e3) = (MESHX_SUCCESS, ?s3, e4)"
    using assms(4,7) by (simp add: meshx_dev_key_add_def e4 unat_eq_0 MESHX_ADDRESS_UNASSIGNED_def)
  have "app_add_keys aes cfg jn ja (s, e) = (?s3, e4)"
    unfolding app_add_keys_def Let_def n snd_conv a d ..
  moreover have "meshx_net_key_get 0 ?s3 = Some ?k" "meshx_app_key_get 0 ?s3 = Some ?a" "bound_net_key ?a ?s3 = Some ?k"
    "map_option dev_key (meshx_dev_key_get 0x1201 ?s3) = Some sample_dev_key"
    by (simp_all add: meshx_net_key_get_def meshx_app_key_get_def bound_net_key_def meshx_dev_key_get_def dev_key_range_end_def)
  ultimately show ?thesis using v(2)
    by (intro exI [of _ ?k] exI [of _ ?a] exI [of _ ?s3] exI [of _ e4]) (simp add: meshx_app_key_derive_def)
qed

text \<open>The device gives itself an address before it has been provisioned: the stack then takes it for a
  provisioned one, and its device beacon is refused.\<close>

lemma sample_device_addressed:
  "node_addr (param (fst (meshx_dev_cfg mac (np, v)))) = 0x1201"
  "role (config (fst (meshx_dev_cfg mac (np, v)))) = MESHX_ROLE_DEVICE"
  "node_addr (param (fst (meshx_prov_cfg mac (np, v)))) = 0x03"
  "role (config (fst (meshx_prov_cfg mac (np, v)))) = MESHX_ROLE_PROVISIONER"
  by (simp_all add: meshx_dev_cfg_def meshx_prov_cfg_def app_params_def meshx_node_config_init_def meshx_node_config_set_def
      meshx_node_params_init_def meshx_node_params_set_def node_default_config_def)

lemma sample_device_beacon_refused:
  "fst (meshx_beacon_start (fst (meshx_dev_cfg mac (np, v))) g b MESHX_BEACON_TYPE_UDB i se) \<noteq> MESHX_SUCCESS"
  by (cases se) (simp add: meshx_beacon_start_def sample_device_addressed MESHX_ADDRESS_UNASSIGNED_def Let_def)

end
