(* ===== verification/Spec2Isabelle.thy ===== *)
theory Spec2Isabelle
  imports
    Mesh_Prelude Mesh_Lib Mesh_List Mesh_Timer Mesh_Gap Mesh_Security Mesh_Seq Mesh_Rpl
    Mesh_Nmc Mesh_Iv_Index Mesh_Node Mesh_Key Mesh_Beacon Mesh_Prov_Types Mesh_Pb_Adv_Tx
    Mesh_Prov Mesh_Pb_Adv Mesh_Pb_Adv_Facts Mesh_Pb_Adv_Trans Mesh_Prov_Facts Mesh_Prov_Link
    Mesh_World Mesh_Net_Iface Mesh_Proxy Mesh_Net Mesh_Net_Facts Mesh_Lower_Trans Mesh_Access
    Mesh_Upper_Trans Mesh_Stack Mesh_Async Mesh_Lower_Facts Mesh_Stack_Facts
    Mesh_Seg_Facts Mesh_Tx_Facts Mesh_Upper_Facts
    Mesh_Cmd Mesh_Cmd_Facts Mesh_Cmd_Parse Mesh_Cmd_Prov
    Mesh_Io Mesh_Io_Facts Mesh_Init Mesh_Main Mesh_Platform
    Mesh_Proxy_Facts Mesh_App Mesh_App_Facts Mesh_App_Start
begin

text \<open>
  A verification development for meshx, a Bluetooth Mesh stack in C.

  The program.  A node receives advertising reports through its GAP scheduler
  (\<^verbatim>\<open>mesh/gap\<close>), which hands them to the advertising bearer (\<^verbatim>\<open>mesh/bearer\<close>).  The type of
  the report selects the layer above: beacons (\<^verbatim>\<open>mesh/beacon\<close>), provisioning
  (\<^verbatim>\<open>mesh/provision\<close>) or the network layer.  What a layer sends goes down the same way and
  becomes an action of the scheduler, which issues one radio command at a time.  The keys of a
  node, its sequence numbers, its IV index and the two caches against replayed and relayed
  messages live in \<^verbatim>\<open>mesh/node\<close> and \<^verbatim>\<open>mesh/network\<close>; the security toolbox
  (\<^verbatim>\<open>mesh/security\<close>) derives keys and protects messages; lists, queues, conversions and the
  checksum of provisioning come from \<^verbatim>\<open>common\<close>, timers from \<^verbatim>\<open>platform/linux\<close>.

  Conventions.  Machine integers are words of their width.  A C error is a value of
  \<^verbatim>\<open>errno\<close>, the success code being one of them.  A global becomes a field of a state record
  that every operation takes and returns.  The result \<^verbatim>\<open>None\<close> of an operation is undefined
  behaviour of the C code: a read or write outside an object, a null pointer followed, or a
  failed assertion.  The environment (\<^verbatim>\<open>sys_env\<close>) is a stream of answers of malloc,
  timer creation and rand.  The AES block cipher (\<^verbatim>\<open>tiny-AES-c\<close>), the elliptic curve
  (\<^verbatim>\<open>micro-ecc\<close>) and the application callback are parameters, since their code is not
  part of the tree; computing a shared secret is taken to succeed, as the code does not look
  whether it did.

  The theories.
  \<^item> \<^verbatim>\<open>Mesh_Prelude\<close>: types, error codes (\<^verbatim>\<open>common/meshx_errno\<close>), byte order, address
    classes, memory reads and writes with bounds, the environment; generic lemmas.
  \<^item> \<^verbatim>\<open>Mesh_Lib\<close>: \<^verbatim>\<open>common/meshx_lib.c\<close>, the bit fields and the 3GPP checksum, with its
    bitwise reference; conversions and their inverses.
  \<^item> \<^verbatim>\<open>Mesh_List\<close>: the circular doubly linked list and the queue as a heap of links; the
    operations refine those of HOL lists (locales of a deque and a queue, both interpreted).
  \<^item> \<^verbatim>\<open>Mesh_Timer\<close>: the software timer around the POSIX timer.
  \<^item> \<^verbatim>\<open>Mesh_Gap\<close>: the task pool of the scheduler, its priority queue, the radio commands and
    the advertising bearer.  Its step relation is the interface of every sender.
  \<^item> \<^verbatim>\<open>Mesh_Security\<close>: AES-CMAC, AES-CCM, the derivation functions.
  \<^item> \<^verbatim>\<open>Mesh_Seq\<close>, \<^verbatim>\<open>Mesh_Rpl\<close>, \<^verbatim>\<open>Mesh_Nmc\<close>, \<^verbatim>\<open>Mesh_Iv_Index\<close>, \<^verbatim>\<open>Mesh_Node\<close>, \<^verbatim>\<open>Mesh_Key\<close>: the
    stores of a node, each with its invariant; the IV index owns the sequence numbers and the
    replay list it clears.
  \<^item> \<^verbatim>\<open>Mesh_Beacon\<close>: the unprovisioned and the secure network beacon; reception updates keys
    and the IV index.  The invariant of the key store is here, under every operation on keys
    and the beacons that are received.
  \<^item> \<^verbatim>\<open>Mesh_Prov_Types\<close>, \<^verbatim>\<open>Mesh_Pb_Adv_Tx\<close>, \<^verbatim>\<open>Mesh_Prov\<close>, \<^verbatim>\<open>Mesh_Pb_Adv\<close>: provisioning.  The
    state of both C files is one record, since a device of \<^verbatim>\<open>meshx_prov.c\<close> is the first
    member of a device of \<^verbatim>\<open>meshx_pb_adv.c\<close> and both update it; the theories follow the call
    order: sending, protocol, reception and timers.
  \<^item> \<^verbatim>\<open>Mesh_Pb_Adv_Facts\<close>, \<^verbatim>\<open>Mesh_Pb_Adv_Trans\<close>, \<^verbatim>\<open>Mesh_Prov_Facts\<close>, \<^verbatim>\<open>Mesh_Prov_Link\<close>: what
    provisioning promises.  A unit sent by one side arrives at the other, whatever its length;
    the reassembly stays in its buffer; the exchange of random numbers authenticates and both
    sides derive the same keys; the provisioning data arrive; a device only moves forward; a
    silent peer is given up after a bounded number of timeouts.  Also what it does not: the
    packets that overrun the buffer, reach the wrong link, or provision without authentication.
  \<^item> \<^verbatim>\<open>Mesh_World\<close>: the state the upper layers share and the context of a message.
  \<^item> \<^verbatim>\<open>Mesh_Net_Iface\<close>, \<^verbatim>\<open>Mesh_Proxy\<close>, \<^verbatim>\<open>Mesh_Net\<close>: the interfaces and the GATT bearers, the
    proxy protocol, the network layer.  A layer takes the reception above it as an argument.
  \<^item> \<^verbatim>\<open>Mesh_Net_Facts\<close>: a packet sent under a key arrives with its context; what is delivered
    was sent under a key of the node; a failed attempt spoils the packet for the next key;
    short packets overrun.
  \<^item> \<^verbatim>\<open>Mesh_Lower_Trans\<close>, \<^verbatim>\<open>Mesh_Upper_Trans\<close>, \<^verbatim>\<open>Mesh_Access\<close>: the transport and access layers.
  \<^item> \<^verbatim>\<open>Mesh_Stack\<close>: the layers on each other, with a bound on the depth of their calls.
  \<^item> \<^verbatim>\<open>Mesh_Lower_Facts\<close>, \<^verbatim>\<open>Mesh_Stack_Facts\<close>: the task pools of the transport layer, an
    invariant of everything the stack can do (a locale of the contract between the layers,
    interpreted on the stack).
  \<^item> \<^verbatim>\<open>Mesh_Seg_Facts\<close>: segments arrive, in any order, as the message they were cut from; and
    what the length left by an earlier message does to the next one.
  \<^item> \<^verbatim>\<open>Mesh_Tx_Facts\<close>: a finishing task comes to an end within the turns granted to it; a
    transmission nobody answers is given up when its timer has expired once more than the
    configured retries.  Both are proved once for a network layer that sends (a locale), which
    that of the stack is towards other nodes.
  \<^item> \<^verbatim>\<open>Mesh_Upper_Facts\<close>: access messages open under the key they were sealed with, a short
    message travels from the access layer of one node to that of another; long ones are partly
    in clear.
  \<^item> \<^verbatim>\<open>Mesh_Cmd\<close>, \<^verbatim>\<open>Mesh_Cmd_Prov\<close>: the command line (\<^verbatim>\<open>common/meshx_cmd.c\<close>, \<^verbatim>\<open>cmd\<close>): the line
    editor, its history, the parser, and the commands that drive provisioning.
  \<^item> \<^verbatim>\<open>Mesh_Cmd_Facts\<close>, \<^verbatim>\<open>Mesh_Cmd_Parse\<close>: the editor is a zipper the terminal shows; the history
    gives back what was typed; a typed command reaches its function with its parameters; the
    lines that overrun a buffer.
  \<^item> \<^verbatim>\<open>Mesh_Io\<close>, \<^verbatim>\<open>Mesh_Io_Facts\<close>: formatted output (\<^verbatim>\<open>common/meshx_io.c\<close>), the trace and the
    terminal; what is printed is read back, for any output that appends (a locale, interpreted
    on the terminal).
  \<^item> \<^verbatim>\<open>Mesh_Proxy_Facts\<close>: the segments of a peer are put together and dispatched whole; what this
    code sends over GATT itself is lost, since no bearer can be created, and would not be
    complete for a peer if there were one.
  \<^item> \<^verbatim>\<open>Mesh_Init\<close>: \<^verbatim>\<open>meshx.c\<close>, the start of a node.  The initialisers establish the
    invariants of all components together; a device that is not provisioned announces itself.
  \<^item> \<^verbatim>\<open>Mesh_Main\<close>: the running node, with the handlers of all components in the places of the
    dispatchers; the pools of tasks and messages are conserved by every order of events, and a
    timeout that is handled after its task has ended is undefined behaviour.
  \<^item> \<^verbatim>\<open>Mesh_Platform\<close>: message queue, radio and receiving threads of the Linux platform, the main
    loop of a program, the GATT services.  A packet goes from the bearer of one node to the
    layer of its type at the other; packets that are read together are lost.  The queue is an
    instance of a locale of message channels.
  \<^item> \<^verbatim>\<open>Mesh_App\<close>, \<^verbatim>\<open>Mesh_App_Facts\<close>, \<^verbatim>\<open>Mesh_App_Start\<close>: the programs of \<^verbatim>\<open>tests\<close>.  Their notification
    callbacks, what they print and do; how they configure and start a node.  Run against each
    other, unit by unit, the two callbacks take both devices to the end of provisioning with the
    same keys.
  \<^item> \<^verbatim>\<open>Mesh_Async\<close>: the queue of asynchronous messages; they are handled once and in order.

  Bounds.  Every loop of the modelled code is structural on a list or a counter, except the
  search and length loops of a linked list, which follow pointers and are partial functions
  proved to return on well-formed lists.  Two definitions take a bound: a task of the lower
  transport layer that finishes runs a pending one, so the turns are bounded by twice the
  pending tasks; and \<^verbatim>\<open>Mesh_Stack\<close> bounds the depth of the calls through the loopback
  interface, where \<^verbatim>\<open>None\<close> is a deeper call.

  Not modelled: the settings of the terminal, the creation of pipes, threads and the log file,
  the reading of the clock, and the end of the process, which are system calls; storage and
  serialization, whose functions are empty; assertions, which are \<^verbatim>\<open>None\<close> where the code
  asserts; the block cipher and the elliptic curve, which are submodules; the variants of the
  callbacks that are compiled out.
\<close>

end
